(* ===== verification/Prelude.thy ===== *)
theory Prelude
  imports Main "HOL-Library.AList" "HOL-Library.Multiset" "HOL-Library.Word"
    "HOL-Library.Sublist" "HOL-Library.Char_ord" "HOL-Library.List_Lexorder"
begin

text \<open>
  What every component shares: the collections of facts the proofs are driven by, the
  types that stand for Go's maps and integers, and generic lemmas on lists,
  association lists and words.

  A Go map is an association list with distinct keys (\<open>gomap\<close>): \<open>map_of m k\<close> is
  \<open>v, ok := m[k]\<close>, \<open>AList.update k v m\<close> is \<open>m[k] = v\<close>, \<open>AList.delete k m\<close> is
  \<open>delete(m, k)\<close>. The order of the list carries no meaning: loops over a map visit it in an
  order the model leaves open (\<open>GoIO\<close>). A Go \<open>int64\<close> is a \<open>64 word\<close>.
\<close>

type_synonym 'v gomap = "(string \<times> 'v) list"
type_synonym int64 = "64 word"
type_synonym int32 = "32 word"

named_theorems go_simps \<comment> \<open>unfolding of the sequencing operators on a concrete state\<close>
named_theorems emits_intros \<comment> \<open>which requests a program can send\<close>
named_theorems wp_intros \<comment> \<open>post-conditions of successful runs\<close>

text \<open>Reading a key of a Go map of strings that may be absent gives the zero value.\<close>

definition get_str :: "string gomap \<Rightarrow> string \<Rightarrow> string" where
  "get_str m k = (case map_of m k of None \<Rightarrow> '''' | Some v \<Rightarrow> v)"

definition get_list :: "'a list gomap \<Rightarrow> string \<Rightarrow> 'a list" where
  "get_list m k = (case map_of m k of None \<Rightarrow> [] | Some v \<Rightarrow> v)"

text \<open>The value of a pointer, or the zero value a variable keeps when the pointer is nil.\<close>

definition the_default :: "'a \<Rightarrow> 'a option \<Rightarrow> 'a" where
  "the_default d x = (case x of None \<Rightarrow> d | Some a \<Rightarrow> a)"

lemma the_default_simps [simp]: "the_default d None = d" "the_default d (Some a) = a"
  by (simp_all add: the_default_def)

text \<open>The map a loop \<open>for _, x := range xs { m[key(x)] = val(x) }\<close> builds.\<close>

definition build_map :: "('x \<Rightarrow> string option) \<Rightarrow> ('x \<Rightarrow> 'v) \<Rightarrow> 'x list \<Rightarrow> 'v gomap" where
  "build_map key val xs =
     fold (\<lambda>x m. case key x of None \<Rightarrow> m | Some k \<Rightarrow> AList.update k (val x) m) xs []"

lemma fold_update_dom:
  "fst ` set (fold (\<lambda>x m. case key x of None \<Rightarrow> m | Some k \<Rightarrow> AList.update k (val x) m) xs m0) =
     fst ` set m0 \<union> {k. \<exists>x \<in> set xs. key x = Some k}"
proof (induction xs arbitrary: m0)
  case Nil
  then show ?case by simp
next
  case (Cons x xs)
  show ?case
    by (cases "key x") (auto simp: Cons.IH dom_update)
qed

lemma keys_build_map: "fst ` set (build_map key val xs) = {k. \<exists>x \<in> set xs. key x = Some k}"
  by (simp add: build_map_def fold_update_dom)

lemma distinct_fold_update:
  "distinct (map fst m0) \<Longrightarrow>
   distinct (map fst (fold (\<lambda>x m. case key x of None \<Rightarrow> m | Some k \<Rightarrow> AList.update k (val x) m) xs m0))"
  by (induction xs arbitrary: m0) (auto simp: distinct_update split: option.split)

lemma distinct_build_map [simp]: "distinct (map fst (build_map key val xs))"
  by (simp add: build_map_def distinct_fold_update)

lemma fold_update_vals:
  "(k, v) \<in> set (fold (\<lambda>x m. case key x of None \<Rightarrow> m | Some k \<Rightarrow> AList.update k (val x) m) xs m0) \<Longrightarrow>
   (k, v) \<in> set m0 \<or> (\<exists>x \<in> set xs. key x = Some k \<and> val x = v)"
proof (induction xs arbitrary: m0)
  case Nil
  then show ?case by simp
next
  case (Cons x xs)
  have upd: "(k, v) \<in> set (AList.update k' v' m0) \<Longrightarrow> (k, v) \<in> set m0 \<or> (k = k' \<and> v = v')" for k' v'
    by (induction m0) (auto split: if_splits)
  show ?case
  proof (cases "key x")
    case None
    with Cons show ?thesis by auto
  next
    case (Some k')
    with Cons.prems have
      "(k, v) \<in> set (fold (\<lambda>x m. case key x of None \<Rightarrow> m | Some k \<Rightarrow> AList.update k (val x) m) xs
         (AList.update k' (val x) m0))" by simp
    from Cons.IH [OF this] upd Some show ?thesis by auto
  qed
qed

lemma build_map_val: "(k, v) \<in> set (build_map key val xs) \<Longrightarrow> \<exists>x \<in> set xs. key x = Some k \<and> val x = v"
  unfolding build_map_def by (drule fold_update_vals) simp

lemma map_of_build_map_None:
  "map_of (build_map key val xs) k = None \<longleftrightarrow> (\<forall>x \<in> set xs. key x \<noteq> Some k)"
  using keys_build_map [of key val xs] by (auto simp: map_of_eq_None_iff)

lemma map_of_build_map_Some:
  "map_of (build_map key val xs) k = Some v \<Longrightarrow> \<exists>x \<in> set xs. key x = Some k \<and> val x = v"
  by (drule map_of_SomeD) (rule build_map_val)

text \<open>Keeping the first occurrence of every element.\<close>

fun nub :: "'a list \<Rightarrow> 'a list" where
  "nub [] = []"
| "nub (x # xs) = x # filter (\<lambda>y. y \<noteq> x) (nub xs)"

lemma set_nub [simp]: "set (nub xs) = set xs"
  by (induction xs) auto

lemma distinct_nub [simp]: "distinct (nub xs)"
  by (induction xs) auto

lemma nub_distinct: "distinct xs \<Longrightarrow> nub xs = xs"
  by (induction xs) (auto simp: filter_id_conv)

lemma subseq_nub: "subseq (nub xs) xs"
proof (induction xs)
  case (Cons x xs)
  have "subseq (filter (\<lambda>y. y \<noteq> x) (nub xs)) (nub xs)" by simp
  with Cons.IH have "subseq (filter (\<lambda>y. y \<noteq> x) (nub xs)) xs"
    using subseq_order.trans by blast
  then show ?case by simp
qed simp

lemma set_sort_key_pairs [simp]: "set (sort_key f xs) = set xs"
  by simp

text \<open>Merging one map into another, and restricting a map to some keys.\<close>

lemma map_of_fold_update:
  "distinct (map fst xs) \<Longrightarrow>
   map_of (fold (\<lambda>(k, v) m. AList.update k v m) xs m0) k =
     (case map_of xs k of None \<Rightarrow> map_of m0 k | Some v \<Rightarrow> Some v)"
proof (induction xs arbitrary: m0)
  case (Cons x xs)
  obtain k' v' where x: "x = (k', v')" by (cases x)
  with Cons.prems have "k = k' \<Longrightarrow> map_of xs k = None"
    by (auto simp: map_of_eq_None_iff)
  with Cons x show ?case by (auto simp: update_conv' split: option.split)
qed simp

lemma map_of_filter_keys:
  "map_of (filter (\<lambda>(k, v). D k) m) k = (if D k then map_of m k else None)"
  by (induction m) auto

end
