(* ===== verification/GoErrors.thy ===== *)
theory GoErrors
  imports Prelude
begin

text \<open>
  Go's strings and errors, as far as the operator uses them.

  A Go string is a list of bytes (Isabelle's \<open>char\<close>). \<open>strings_Contains\<close>, \<open>strings_HasPrefix\<close>,
  \<open>strings_ToLower\<close> and \<open>go_quote\<close> (the verb \<open>%q\<close>) are the functions of the standard library
  for ASCII text.

  An \<open>error\<close> value is the datatype \<open>go_error\<close>: an opaque error with its text
  (\<open>errors.New\<close>, \<open>fmt.Errorf\<close> without \<open>%w\<close>, any error of an external package), one of the
  package-level error variables of the program, an error of one of the types the program asks
  for with \<open>errors.As\<close>, or \<open>fmt.Errorf("...%w", ..., err)\<close>, which puts a text in front of an
  error it wraps. In the whole code \<open>%w\<close> is the last verb of its format, so a prefix is all a
  wrapper adds.
\<close>

section \<open>Strings\<close>

abbreviation strings_HasPrefix :: "string \<Rightarrow> string \<Rightarrow> bool" where
  "strings_HasPrefix s pre \<equiv> prefix pre s"

fun strings_Contains :: "string \<Rightarrow> string \<Rightarrow> bool" where
  "strings_Contains [] sub = (sub = [])"
| "strings_Contains (c # s) sub = (prefix sub (c # s) \<or> strings_Contains s sub)"

lemma strings_Contains_sublist: "strings_Contains s sub \<longleftrightarrow> sublist sub s"
  by (induction s) (auto simp: sublist_Cons_right)

lemma strings_Contains_append:
  "strings_Contains s sub \<Longrightarrow> strings_Contains (t @ s) sub"
  by (auto simp: strings_Contains_sublist sublist_def) (metis append.assoc)

definition lower_char :: "char \<Rightarrow> char" where
  "lower_char c = (let n = (of_char c :: nat) in if 65 \<le> n \<and> n \<le> 90 then char_of (n + 32) else c)"

definition strings_ToLower :: "string \<Rightarrow> string" where
  "strings_ToLower s = map lower_char s"

lemma strings_ToLower_append [simp]:
  "strings_ToLower (s @ t) = strings_ToLower s @ strings_ToLower t"
  by (simp add: strings_ToLower_def)

text \<open>Sequences of \<open>strings.Split(s, sep)\<close> for a separator of one byte: never empty.\<close>

fun strings_Split :: "char \<Rightarrow> string \<Rightarrow> string list" where
  "strings_Split sep [] = [[]]"
| "strings_Split sep (c # s) =
     (if c = sep then [] # strings_Split sep s
      else (case strings_Split sep s of [] \<Rightarrow> [[c]] | p # ps \<Rightarrow> (c # p) # ps))"

definition strings_TrimRight :: "string \<Rightarrow> char \<Rightarrow> string" where
  "strings_TrimRight s c = rev (dropWhile (\<lambda>x. x = c) (rev s))"

text \<open>\<open>strconv.Quote\<close> on ASCII text.\<close>

definition hex_digit :: "nat \<Rightarrow> char" where
  "hex_digit n = (if n < 10 then char_of (48 + n) else char_of (87 + n))"

definition quote_char :: "char \<Rightarrow> string" where
  "quote_char c = (let n = (of_char c :: nat) in
     if n = 34 then [CHR 0x5C, CHR 0x22]
     else if n = 92 then [CHR 0x5C, CHR 0x5C]
     else if n = 7 then [CHR 0x5C, CHR ''a'']
     else if n = 8 then [CHR 0x5C, CHR ''b'']
     else if n = 12 then [CHR 0x5C, CHR ''f'']
     else if n = 10 then [CHR 0x5C, CHR ''n'']
     else if n = 13 then [CHR 0x5C, CHR ''r'']
     else if n = 9 then [CHR 0x5C, CHR ''t'']
     else if n = 11 then [CHR 0x5C, CHR ''v'']
     else if n < 32 \<or> n = 127
       then [CHR 0x5C, CHR ''x'', hex_digit (n div 16), hex_digit (n mod 16)]
     else [c])"

definition go_quote :: "string \<Rightarrow> string" where
  "go_quote s = [CHR 0x22] @ concat (map quote_char s) @ [CHR 0x22]"

text \<open>A number in decimal.\<close>

fun nat_digits :: "nat \<Rightarrow> string" where
  "nat_digits n = (if n < 10 then [hex_digit n] else nat_digits (n div 10) @ [hex_digit (n mod 10)])"

declare nat_digits.simps [simp del]

section \<open>Errors\<close>

datatype sentinel =
    ErrNilResponse
  | ErrNotFound
  | ErrKeycloakIsNotAvailable
  | ErrKeycloakRealmNotFound
  | errSecretKeyNotFound

datatype go_error =
    NewError string
  | Sentinel sentinel
  | Wrapped string go_error
  | ApiError int string
  | GocloakAPIError bool int string \<comment> \<open>pointer or value, \<open>Code\<close>, \<open>Message\<close>\<close>
  | StatusError string int string \<comment> \<open>\<open>Reason\<close>, \<open>Code\<close>, \<open>Message\<close> of a Kubernetes API status\<close>
  | NotFoundErr string
  | TokenExpiredErr string

fun sentinel_text :: "sentinel \<Rightarrow> string" where
  "sentinel_text ErrNilResponse = ''nil response from Keycloak''"
| "sentinel_text ErrNotFound = ''not found''"
| "sentinel_text ErrKeycloakIsNotAvailable = ''keycloak is not available''"
| "sentinel_text ErrKeycloakRealmNotFound = ''keycloak realm is not available''"
| "sentinel_text errSecretKeyNotFound = ''secret key not found''"

text \<open>\<open>err.Error()\<close>.\<close>

primrec Error :: "go_error \<Rightarrow> string" where
  "Error (NewError s) = s"
| "Error (Sentinel x) = sentinel_text x"
| "Error (Wrapped pre e) = pre @ Error e"
| "Error (ApiError code msg) = msg"
| "Error (GocloakAPIError p code msg) = msg"
| "Error (StatusError r code msg) = msg"
| "Error (NotFoundErr s) = s"
| "Error (TokenExpiredErr s) = s"

text \<open>The chain \<open>err\<close>, \<open>errors.Unwrap(err)\<close>, ... and the two searches along it.\<close>

primrec unwrap_chain :: "go_error \<Rightarrow> go_error list" where
  "unwrap_chain (NewError s) = [NewError s]"
| "unwrap_chain (Sentinel x) = [Sentinel x]"
| "unwrap_chain (Wrapped pre e) = Wrapped pre e # unwrap_chain e"
| "unwrap_chain (ApiError code msg) = [ApiError code msg]"
| "unwrap_chain (GocloakAPIError p code msg) = [GocloakAPIError p code msg]"
| "unwrap_chain (StatusError r code msg) = [StatusError r code msg]"
| "unwrap_chain (NotFoundErr s) = [NotFoundErr s]"
| "unwrap_chain (TokenExpiredErr s) = [TokenExpiredErr s]"

definition errors_Is :: "go_error \<Rightarrow> sentinel \<Rightarrow> bool" where
  "errors_Is e x \<longleftrightarrow> Sentinel x \<in> set (unwrap_chain e)"

definition errors_As :: "(go_error \<Rightarrow> 'a option) \<Rightarrow> go_error \<Rightarrow> 'a option" where
  "errors_As pick e = (case filter (\<lambda>x. pick x \<noteq> None) (unwrap_chain e) of
     [] \<Rightarrow> None | x # _ \<Rightarrow> pick x)"

lemma errors_Is_Wrapped [simp]: "errors_Is (Wrapped pre e) x = errors_Is e x"
  by (simp add: errors_Is_def)

lemma errors_Is_simps [simp]:
  "errors_Is (NewError s) x = False"
  "errors_Is (Sentinel y) x = (y = x)"
  "errors_Is (ApiError c m) x = False"
  "errors_Is (GocloakAPIError p c m) x = False"
  "errors_Is (StatusError r c m) x = False"
  by (auto simp: errors_Is_def)

lemma errors_As_Wrapped: "pick (Wrapped pre e) = None \<Longrightarrow> errors_As pick (Wrapped pre e) = errors_As pick e"
  by (simp add: errors_As_def)

text \<open>The error types the program asks for.\<close>

fun as_ApiError :: "go_error \<Rightarrow> (int \<times> string) option" where
  "as_ApiError (ApiError c m) = Some (c, m)"
| "as_ApiError _ = None"

fun as_GocloakAPIError :: "bool \<Rightarrow> go_error \<Rightarrow> (int \<times> string) option" where
  "as_GocloakAPIError p (GocloakAPIError q c m) = (if p = q then Some (c, m) else None)"
| "as_GocloakAPIError p _ = None"

fun as_StatusError :: "go_error \<Rightarrow> (string \<times> int) option" where
  "as_StatusError (StatusError r c m) = Some (r, c)"
| "as_StatusError _ = None"

fun as_NotFoundErr :: "go_error \<Rightarrow> string option" where
  "as_NotFoundErr (NotFoundErr s) = Some s"
| "as_NotFoundErr _ = None"

fun as_TokenExpiredErr :: "go_error \<Rightarrow> string option" where
  "as_TokenExpiredErr (TokenExpiredErr s) = Some s"
| "as_TokenExpiredErr _ = None"

end
