(* ===== verification/GoIO.thy ===== *)
theory GoIO
  imports GoErrors
begin

text \<open>
  The operator's code as state-passing functions.

  A run works on an \<open>io_state\<close>: the outside world (Keycloak and the Kubernetes API, of which
  nothing is assumed here), the trace of the requests sent so far, and the memory the code
  mutates through pointers (the custom resource, the contexts handlers share, the API client a
  handler holds). The trace is a ghost: no program reads it except to seed the order of map
  iterations. A run ends with a value, with an error, or in a panic (a nil dereference). The
  world, the trace and the memory survive an error, as they do in Go.

  Two logics are set up for programs of this kind: \<open>wp\<close>, the weakest precondition for given
  post-conditions of the normal and the error exit, with an equation per construct; and
  \<open>emits\<close>, a bound on the requests a program can send whatever the world answers.
\<close>

section \<open>Outcomes and programs\<close>

datatype 'a outcome = Ok 'a | Err go_error | Panic

record ('w, 'e, 'm) io_state =
  world :: 'w
  trace :: "'e list"
  mem :: 'm

type_synonym ('w, 'e, 'm, 'a) io =
  "('w, 'e, 'm) io_state \<Rightarrow> 'a outcome \<times> ('w, 'e, 'm) io_state"

definition ret :: "'a \<Rightarrow> ('w, 'e, 'm, 'a) io" where
  "ret a = (\<lambda>s. (Ok a, s))"

definition fail :: "go_error \<Rightarrow> ('w, 'e, 'm, 'a) io" where
  "fail e = (\<lambda>s. (Err e, s))"

definition panic :: "('w, 'e, 'm, 'a) io" where
  "panic = (\<lambda>s. (Panic, s))"

definition bindIO ::
  "('w, 'e, 'm, 'a) io \<Rightarrow> ('a \<Rightarrow> ('w, 'e, 'm, 'b) io) \<Rightarrow> ('w, 'e, 'm, 'b) io" where
  "bindIO m f = (\<lambda>s. case m s of
     (Ok a, s') \<Rightarrow> f a s' | (Err e, s') \<Rightarrow> (Err e, s') | (Panic, s') \<Rightarrow> (Panic, s'))"

text \<open>\<open>v, err := m\<close> with the error kept as a value, and \<open>fmt.Errorf(pre + "%w", err)\<close>.\<close>

definition tryIO :: "('w, 'e, 'm, 'a) io \<Rightarrow> ('w, 'e, 'm, go_error + 'a) io" where
  "tryIO m = (\<lambda>s. case m s of
     (Ok a, s') \<Rightarrow> (Ok (Inr a), s') | (Err e, s') \<Rightarrow> (Ok (Inl e), s') | (Panic, s') \<Rightarrow> (Panic, s'))"

definition wrapErr :: "string \<Rightarrow> ('w, 'e, 'm, 'a) io \<Rightarrow> ('w, 'e, 'm, 'a) io" where
  "wrapErr pre m = (\<lambda>s. case m s of
     (Ok a, s') \<Rightarrow> (Ok a, s') | (Err e, s') \<Rightarrow> (Err (Wrapped pre e), s') | (Panic, s') \<Rightarrow> (Panic, s'))"

text \<open>\<open>*p\<close>, \<open>if cond { ... }\<close>, and reading and writing the memory.\<close>

definition derefIO :: "'a option \<Rightarrow> ('w, 'e, 'm, 'a) io" where
  "derefIO p = (case p of None \<Rightarrow> panic | Some a \<Rightarrow> ret a)"

definition whenIO :: "bool \<Rightarrow> ('w, 'e, 'm, unit) io \<Rightarrow> ('w, 'e, 'm, unit) io" where
  "whenIO b m = (if b then m else ret ())"

definition getMem :: "('m \<Rightarrow> 'a) \<Rightarrow> ('w, 'e, 'm, 'a) io" where
  "getMem f = (\<lambda>s. (Ok (f (mem s)), s))"

definition modMem :: "('m \<Rightarrow> 'm) \<Rightarrow> ('w, 'e, 'm, unit) io" where
  "modMem f = (\<lambda>s. (Ok (), s\<lparr>mem := f (mem s)\<rparr>))"

text \<open>\<open>_, err := m\<close>: the value is dropped.\<close>

definition voidIO :: "('w, 'e, 'm, 'a) io \<Rightarrow> ('w, 'e, 'm, unit) io" where
  "voidIO m = bindIO m (\<lambda>_. ret ())"

text \<open>A request to the outside: it is logged, and the world answers it.\<close>

definition callIO :: "'e \<Rightarrow> ('w \<Rightarrow> (go_error + 'a) \<times> 'w) \<Rightarrow> ('w, 'e, 'm, 'a) io" where
  "callIO e g = (\<lambda>s. case g (world s) of
     (Inl err, w) \<Rightarrow> (Err err, s\<lparr>world := w, trace := trace s @ [e]\<rparr>)
   | (Inr a, w) \<Rightarrow> (Ok a, s\<lparr>world := w, trace := trace s @ [e]\<rparr>))"

text \<open>
  \<open>for _, x := range xs\<close>, leaving with the first error; the variant that also carries the
  local variables the body updates; and \<open>for k, v := range m\<close> over a map, whose order Go leaves
  open: it is any order, given here by a ranking of the keys that changes from loop to loop.
\<close>

primrec forIO :: "('a \<Rightarrow> ('w, 'e, 'm, unit) io) \<Rightarrow> 'a list \<Rightarrow> ('w, 'e, 'm, unit) io" where
  "forIO f [] = ret ()"
| "forIO f (x # xs) = bindIO (f x) (\<lambda>_. forIO f xs)"

primrec foldIO ::
  "('a \<Rightarrow> 'b \<Rightarrow> ('w, 'e, 'm, 'b) io) \<Rightarrow> 'a list \<Rightarrow> 'b \<Rightarrow> ('w, 'e, 'm, 'b) io" where
  "foldIO f [] acc = ret acc"
| "foldIO f (x # xs) acc = bindIO (f x acc) (foldIO f xs)"

definition range_order :: "(nat \<Rightarrow> string \<Rightarrow> nat) \<Rightarrow> 'v gomap \<Rightarrow> ('w, 'e, 'm, 'v gomap) io" where
  "range_order rank m = (\<lambda>s. (Ok (sort_key (\<lambda>(k, v). rank (length (trace s)) k) m), s))"

lemmas go_defs [go_simps] = ret_def fail_def panic_def bindIO_def tryIO_def wrapErr_def
  derefIO_def whenIO_def getMem_def modMem_def callIO_def range_order_def voidIO_def

section \<open>Weakest preconditions\<close>

text \<open>
  \<open>wp b m Q E s\<close>: from \<open>s\<close>, a normal exit of \<open>m\<close> satisfies \<open>Q\<close>, an error exit \<open>E\<close>, and a panic
  is only allowed if \<open>b\<close> holds.
\<close>

definition wp ::
  "bool \<Rightarrow> ('w, 'e, 'm, 'a) io \<Rightarrow> ('a \<Rightarrow> ('w, 'e, 'm) io_state \<Rightarrow> bool) \<Rightarrow>
   (go_error \<Rightarrow> ('w, 'e, 'm) io_state \<Rightarrow> bool) \<Rightarrow> ('w, 'e, 'm) io_state \<Rightarrow> bool" where
  "wp b m Q E s = (case m s of (Ok a, s') \<Rightarrow> Q a s' | (Err e, s') \<Rightarrow> E e s' | (Panic, s') \<Rightarrow> b)"

lemma wp_ret [simp]: "wp b (ret a) Q E = Q a"
  by (rule ext) (simp add: wp_def ret_def)

lemma wp_fail [simp]: "wp b (fail e) Q E = E e"
  by (rule ext) (simp add: wp_def fail_def)

lemma wp_panic [simp]: "wp b panic Q E = (\<lambda>s. b)"
  by (rule ext) (simp add: wp_def panic_def)

lemma wp_bindIO [simp]: "wp b (bindIO m f) Q E = wp b m (\<lambda>a. wp b (f a) Q E) E"
  by (rule ext) (auto simp: wp_def bindIO_def split: prod.split outcome.split)

lemma wp_tryIO [simp]: "wp b (tryIO m) Q E = wp b m (\<lambda>a. Q (Inr a)) (\<lambda>e. Q (Inl e))"
  by (rule ext) (auto simp: wp_def tryIO_def split: prod.split outcome.split)

lemma wp_wrapErr [simp]: "wp b (wrapErr pre m) Q E = wp b m Q (\<lambda>e. E (Wrapped pre e))"
  by (rule ext) (auto simp: wp_def wrapErr_def split: prod.split outcome.split)

lemma wp_derefIO [simp]: "wp b (derefIO p) Q E = (case p of None \<Rightarrow> (\<lambda>s. b) | Some a \<Rightarrow> Q a)"
  by (simp add: derefIO_def split: option.split)

lemma wp_whenIO [simp]: "wp b (whenIO c m) Q E = (if c then wp b m Q E else Q ())"
  by (simp add: whenIO_def)

lemma wp_getMem [simp]: "wp b (getMem f) Q E = (\<lambda>s. Q (f (mem s)) s)"
  by (rule ext) (simp add: wp_def getMem_def)

lemma wp_modMem [simp]: "wp b (modMem f) Q E = (\<lambda>s. Q () (s\<lparr>mem := f (mem s)\<rparr>))"
  by (rule ext) (simp add: wp_def modMem_def)

lemma wp_voidIO [simp]: "wp b (voidIO m) Q E = wp b m (\<lambda>_. Q ()) E"
  by (simp add: voidIO_def)

lemma wp_callIO:
  "wp b (callIO e g) Q E s =
     (case g (world s) of
        (Inl err, w) \<Rightarrow> E err (s\<lparr>world := w, trace := trace s @ [e]\<rparr>)
      | (Inr a, w) \<Rightarrow> Q a (s\<lparr>world := w, trace := trace s @ [e]\<rparr>))"
  by (auto simp: wp_def callIO_def split: prod.split sum.split)

lemma wp_range_order:
  "(\<And>ys. mset ys = mset m \<Longrightarrow> Q ys s) \<Longrightarrow> wp b (range_order rank m) Q E s"
  by (simp add: wp_def range_order_def)

lemma wp_mono:
  "wp b m Q E s \<Longrightarrow> (\<And>a s'. Q a s' \<Longrightarrow> Q' a s') \<Longrightarrow> (\<And>e s'. E e s' \<Longrightarrow> E' e s') \<Longrightarrow> wp b m Q' E' s"
  by (auto simp: wp_def split: prod.splits outcome.splits)

lemma wp_conj:
  "wp b m Q E s \<Longrightarrow> wp b m Q' E' s \<Longrightarrow> wp b m (\<lambda>a s. Q a s \<and> Q' a s) (\<lambda>e s. E e s \<and> E' e s) s"
  by (auto simp: wp_def split: prod.splits outcome.splits)

lemma wp_panic_ok: "wp False m Q E s \<Longrightarrow> wp b m Q E s"
  by (auto simp: wp_def split: prod.splits outcome.splits)

lemma wp_OkD: "wp b m Q E s \<Longrightarrow> m s = (Ok a, s') \<Longrightarrow> Q a s'"
  by (simp add: wp_def)

lemma wp_ErrD: "wp b m Q E s \<Longrightarrow> m s = (Err e, s') \<Longrightarrow> E e s'"
  by (simp add: wp_def)

lemma wp_no_panic: "wp False m Q E s \<Longrightarrow> fst (m s) \<noteq> Panic"
  by (auto simp: wp_def split: prod.splits)

lemma wp_total: "wp False m Q (\<lambda>_ _. False) s \<Longrightarrow> \<exists>a s'. m s = (Ok a, s') \<and> Q a s'"
  by (auto simp: wp_def split: prod.splits outcome.splits)

text \<open>Loops: an invariant indexed by the elements already visited.\<close>

lemma wp_foldIO:
  assumes "I [] acc s"
    and "\<And>vis x rest acc s. xs = vis @ x # rest \<Longrightarrow> I vis acc s \<Longrightarrow>
           wp b (f x acc) (\<lambda>acc' s'. I (vis @ [x]) acc' s') E s"
    and "\<And>acc s. I xs acc s \<Longrightarrow> Q acc s"
  shows "wp b (foldIO f xs acc) Q E s"
proof -
  have "xs = vis @ rest \<Longrightarrow> I vis acc s \<Longrightarrow> wp b (foldIO f rest acc) Q E s" for vis rest acc s
  proof (induction rest arbitrary: vis acc s)
    case Nil
    with assms(3) show ?case by simp
  next
    case (Cons x rest)
    have "wp b (f x acc) (\<lambda>acc' s'. I (vis @ [x]) acc' s') E s"
      using Cons.prems assms(2) by blast
    then show ?case
      using Cons.IH [of "vis @ [x]"] Cons.prems(1) by (auto elim!: wp_mono)
  qed
  from this [of "[]" xs] assms(1) show ?thesis by simp
qed

lemma forIO_foldIO: "forIO f xs = foldIO (\<lambda>x _. f x) xs ()"
  by (induction xs) (simp_all add: bindIO_def)

lemma wp_forIO:
  assumes "I [] s"
    and "\<And>vis x rest s. xs = vis @ x # rest \<Longrightarrow> I vis s \<Longrightarrow>
           wp b (f x) (\<lambda>_ s'. I (vis @ [x]) s') E s"
    and "\<And>s. I xs s \<Longrightarrow> Q () s"
  shows "wp b (forIO f xs) Q E s"
  unfolding forIO_foldIO by (rule wp_foldIO [where I = "\<lambda>vis _. I vis"]) (use assms in auto)

section \<open>Which requests a program can send\<close>

text \<open>
  \<open>emits_under P S m\<close>: started with a memory that satisfies \<open>P\<close>, the program leaves one that
  does, and sends requests of \<open>S\<close> only, whatever the world answers and however it ends.
\<close>

definition emits_under :: "('m \<Rightarrow> bool) \<Rightarrow> 'e set \<Rightarrow> ('w, 'e, 'm, 'a) io \<Rightarrow> bool" where
  "emits_under P S m \<longleftrightarrow> (\<forall>s. P (mem s) \<longrightarrow>
     P (mem (snd (m s))) \<and> (\<exists>es. trace (snd (m s)) = trace s @ es \<and> set es \<subseteq> S))"

abbreviation emits :: "'e set \<Rightarrow> ('w, 'e, 'm, 'a) io \<Rightarrow> bool" where
  "emits \<equiv> emits_under (\<lambda>_. True)"

lemma emits_underI:
  "(\<And>s. P (mem s) \<Longrightarrow> P (mem (snd (m s)))) \<Longrightarrow>
   (\<And>s. P (mem s) \<Longrightarrow> \<exists>es. trace (snd (m s)) = trace s @ es \<and> set es \<subseteq> S) \<Longrightarrow> emits_under P S m"
  by (simp add: emits_under_def)

lemma emits_silent:
  "(\<And>s. P (mem s) \<Longrightarrow> P (mem (snd (m s)))) \<Longrightarrow> (\<And>s. trace (snd (m s)) = trace s) \<Longrightarrow> emits_under P S m"
  by (simp add: emits_under_def)

lemma emits_mono: "emits_under P S m \<Longrightarrow> S \<subseteq> T \<Longrightarrow> emits_under P T m"
  unfolding emits_under_def by (meson order_trans)

lemma emits_ret [emits_intros]: "emits_under P S (ret a)"
  by (rule emits_silent) (simp_all add: ret_def)

lemma emits_fail [emits_intros]: "emits_under P S (fail e)"
  by (rule emits_silent) (simp_all add: fail_def)

lemma emits_panic [emits_intros]: "emits_under P S panic"
  by (rule emits_silent) (simp_all add: panic_def)

lemma emits_getMem [emits_intros]: "emits_under P S (getMem f)"
  by (rule emits_silent) (simp_all add: getMem_def)

lemma emits_modMem [emits_intros]: "(\<And>m. P m \<Longrightarrow> P (f m)) \<Longrightarrow> emits_under P S (modMem f)"
  by (rule emits_silent) (simp_all add: modMem_def)

lemma emits_range_order [emits_intros]: "emits_under P S (range_order rank m)"
  by (rule emits_silent) (simp_all add: range_order_def)

lemma emits_derefIO [emits_intros]: "emits_under P S (derefIO p)"
  by (cases p) (simp_all add: derefIO_def emits_ret emits_panic)

lemma emits_callIO [emits_intros]: "e \<in> S \<Longrightarrow> emits_under P S (callIO e g)"
  by (rule emits_underI) (auto simp: callIO_def split: prod.split sum.split)

text \<open>The continuation may use how its argument came about.\<close>

lemma emits_bindIO [emits_intros]:
  assumes "emits_under P S m" and "\<And>s a s'. P (mem s) \<Longrightarrow> m s = (Ok a, s') \<Longrightarrow> emits_under P S (f a)"
  shows "emits_under P S (bindIO m f)"
  unfolding emits_under_def
proof (intro allI impI)
  fix s :: "('c, 'b, 'a) io_state"
  assume p: "P (mem s)"
  with assms(1) obtain es where es: "P (mem (snd (m s)))" "trace (snd (m s)) = trace s @ es" "set es \<subseteq> S"
    unfolding emits_under_def by blast
  obtain r s' where ms: "m s = (r, s')" by (cases "m s")
  show "P (mem (snd (bindIO m f s))) \<and> (\<exists>es. trace (snd (bindIO m f s)) = trace s @ es \<and> set es \<subseteq> S)"
  proof (cases r)
    case (Ok a)
    with assms(2) [OF p] ms have "emits_under P S (f a)" by blast
    with es(1) ms obtain fs where "P (mem (snd (f a s')))" "trace (snd (f a s')) = trace s' @ fs" "set fs \<subseteq> S"
      unfolding emits_under_def by fastforce
    with es ms Ok have "P (mem (snd (bindIO m f s))) \<and>
      trace (snd (bindIO m f s)) = trace s @ (es @ fs) \<and> set (es @ fs) \<subseteq> S"
      by (simp add: bindIO_def)
    then show ?thesis by blast
  qed (use es ms in \<open>auto simp: bindIO_def\<close>)
qed

lemma emits_tryIO [emits_intros]: "emits_under P S m \<Longrightarrow> emits_under P S (tryIO m)"
  unfolding emits_under_def tryIO_def by (auto split: prod.split outcome.split)

lemma emits_wrapErr [emits_intros]: "emits_under P S m \<Longrightarrow> emits_under P S (wrapErr pre m)"
  unfolding emits_under_def wrapErr_def by (auto split: prod.split outcome.split)

lemma emits_voidIO [emits_intros]: "emits_under P S m \<Longrightarrow> emits_under P S (voidIO m)"
  unfolding voidIO_def by (intro emits_bindIO emits_ret)

lemma emits_whenIO [emits_intros]: "(b \<Longrightarrow> emits_under P S m) \<Longrightarrow> emits_under P S (whenIO b m)"
  by (simp add: whenIO_def emits_ret)

lemma emits_if [emits_intros]:
  "(b \<Longrightarrow> emits_under P S m) \<Longrightarrow> (\<not> b \<Longrightarrow> emits_under P S n) \<Longrightarrow> emits_under P S (if b then m else n)"
  by simp

lemma emits_case_option [emits_intros]:
  "(x = None \<Longrightarrow> emits_under P S m) \<Longrightarrow> (\<And>a. x = Some a \<Longrightarrow> emits_under P S (f a)) \<Longrightarrow>
   emits_under P S (case x of None \<Rightarrow> m | Some a \<Rightarrow> f a)"
  by (simp split: option.split)

lemma emits_case_sum [emits_intros]:
  "(\<And>a. x = Inl a \<Longrightarrow> emits_under P S (f a)) \<Longrightarrow> (\<And>b. x = Inr b \<Longrightarrow> emits_under P S (g b)) \<Longrightarrow>
   emits_under P S (case x of Inl a \<Rightarrow> f a | Inr b \<Rightarrow> g b)"
  by (simp split: sum.split)

lemma emits_case_prod [emits_intros]:
  "(\<And>a b. x = (a, b) \<Longrightarrow> emits_under P S (f a b)) \<Longrightarrow> emits_under P S (case x of (a, b) \<Rightarrow> f a b)"
  by (simp split: prod.split)

lemma emits_case_list [emits_intros]:
  "emits_under P S m \<Longrightarrow> (\<And>a b. emits_under P S (f a b)) \<Longrightarrow>
   emits_under P S (case x of [] \<Rightarrow> m | a # b \<Rightarrow> f a b)"
  by (simp split: list.split)

lemma emits_let [emits_intros]: "(\<And>x. x = t \<Longrightarrow> emits_under P S (f x)) \<Longrightarrow> emits_under P S (Let t f)"
  by simp

lemma emits_foldIO [emits_intros]:
  "(\<And>x acc. x \<in> set xs \<Longrightarrow> emits_under P S (f x acc)) \<Longrightarrow> emits_under P S (foldIO f xs acc)"
  by (induction xs arbitrary: acc) (auto intro!: emits_ret emits_bindIO)

lemma emits_forIO [emits_intros]:
  "(\<And>x. x \<in> set xs \<Longrightarrow> emits_under P S (f x)) \<Longrightarrow> emits_under P S (forIO f xs)"
  unfolding forIO_foldIO by (rule emits_foldIO) simp

lemma emits_underD:
  "emits_under P S m \<Longrightarrow> P (mem s) \<Longrightarrow> m s = (r, s') \<Longrightarrow>
   P (mem s') \<and> (\<exists>es. trace s' = trace s @ es \<and> set es \<subseteq> S)"
  unfolding emits_under_def by (metis snd_conv)

lemma emits_empty: "emits_under P {} m \<Longrightarrow> P (mem s) \<Longrightarrow> trace (snd (m s)) = trace s"
  unfolding emits_under_def by auto

end
