(* ===== verification/ApiTypes.thy ===== *)
theory ApiTypes
  imports GoIO
begin

text \<open>
  The custom resources of \<open>api/common\<close> and \<open>api/v1alpha1\<close> that the modelled controllers work on,
  one record per Go struct, and their methods.

  A pointer field is an \<open>option\<close>, a map a \<open>gomap\<close>, a slice a list (an \<open>option\<close> of a list where the
  code tells a nil slice from an empty one), Go's \<open>int\<close> and \<open>int64\<close> a \<open>64 word\<close>. Of the
  Kubernetes object metadata the fields the operator reads or writes are kept.
\<close>

section \<open>References and metadata\<close>

record ConfigRef =
  cr_Url :: string
  cr_Secret :: string

record RealmRef =
  rr_Kind :: string
  rr_Name :: string

record GroupRef =
  gr_Name :: string

record ConfigMapKeySelector =
  cm_Name :: string
  cm_Key :: string

record SecretKeySelector =
  sk_Name :: string
  sk_Key :: string

record SourceRef =
  src_ConfigMapKeyRef :: "ConfigMapKeySelector option"
  src_SecretKeyRef :: "SecretKeySelector option"

record SourceRefOrVal =
  srv_SourceRef :: "SourceRef option"
  srv_Value :: string

record OwnerReference =
  or_APIVersion :: string
  or_Kind :: string
  or_Name :: string
  or_UID :: string
  or_BlockOwnerDeletion :: "bool option"
  or_Controller :: "bool option"

record ObjectMeta =
  om_Name :: string
  om_Namespace :: string
  om_Generation :: int64
  om_ResourceVersion :: string
  om_DeletionTimestamp :: "nat option"
  om_Finalizers :: "string list"
  om_Annotations :: "string gomap"
  om_Labels :: "string gomap"
  om_OwnerReferences :: "OwnerReference list"
  om_UID :: string

record Condition =
  cond_Type :: string
  cond_Status :: string
  cond_Reason :: string
  cond_Message :: string
  cond_ObservedGeneration :: int64

definition PhaseCompleted :: string where "PhaseCompleted = ''Completed''"
definition PhaseFailed :: string where "PhaseFailed = ''Failed''"
definition ReconciliationStrategyFull :: string where "ReconciliationStrategyFull = ''full''"
definition ReconciliationStrategyAddOnly :: string where "ReconciliationStrategyAddOnly = ''addOnly''"
definition KeycloakRealmKind :: string where "KeycloakRealmKind = ''KeycloakRealm''"

text \<open>\<open>objectmeta.PreserveResourcesOnDeletion\<close>.\<close>

definition PreserveResourcesOnDeletion :: "ObjectMeta \<Rightarrow> bool" where
  "PreserveResourcesOnDeletion m \<longleftrightarrow>
     get_str (om_Annotations m) ''idp.edenlab.io/preserve-resources-on-deletion'' = ''true'' \<or>
     get_str (om_Annotations m) ''idp.edenlab.io/preserve-resources-no-delete'' = ''true''"

section \<open>KeycloakUser\<close>

record UserClientRole =
  ucr_ClientID :: string
  ucr_Roles :: "string list"

record PasswordSecret =
  ps_Name :: string
  ps_Key :: string
  ps_Temporary :: bool

record KeycloakUserSpec =
  us_RealmRef :: RealmRef
  us_ConfigRef :: ConfigRef
  us_Username :: string
  us_Email :: string
  us_FirstName :: string
  us_LastName :: string
  us_Enabled :: bool
  us_TOTP :: bool
  us_EmailVerified :: bool
  us_RequiredUserActions :: "string list"
  us_Roles :: "string list"
  us_ClientRoles :: "UserClientRole list"
  us_Groups :: "string list"
  us_Attributes :: "string gomap"
  us_AttributesV2 :: "string list gomap"
  us_ReconciliationStrategy :: string
  us_Password :: string
  us_KeepResource :: bool
  us_PasswordSecret :: "PasswordSecret option"
  us_IdentityProviders :: "string list option"

record KeycloakUserStatus =
  ust_FailureCount :: int64
  ust_Conditions :: "Condition list"
  ust_LastSyncedPasswordSecretVersion :: string
  ust_Error :: string
  ust_Phase :: string

record KeycloakUser =
  ku_Meta :: ObjectMeta
  ku_Spec :: KeycloakUserSpec
  ku_Status :: KeycloakUserStatus

definition GetReconciliationStrategy :: "KeycloakUser \<Rightarrow> string" where
  "GetReconciliationStrategy u =
     (if us_ReconciliationStrategy (ku_Spec u) = '''' then ReconciliationStrategyFull
      else us_ReconciliationStrategy (ku_Spec u))"

definition IsReconciliationStrategyAddOnly :: "KeycloakUser \<Rightarrow> bool" where
  "IsReconciliationStrategyAddOnly u \<longleftrightarrow> GetReconciliationStrategy u = ReconciliationStrategyAddOnly"

definition user_GetFailureCount :: "KeycloakUser \<Rightarrow> int64" where
  "user_GetFailureCount u = ust_FailureCount (ku_Status u)"

definition user_SetFailureCount :: "int64 \<Rightarrow> KeycloakUser \<Rightarrow> KeycloakUser" where
  "user_SetFailureCount n u = u\<lparr>ku_Status := (ku_Status u)\<lparr>ust_FailureCount := n\<rparr>\<rparr>"

definition user_GetPhase :: "KeycloakUser \<Rightarrow> string" where
  "user_GetPhase u = ust_Phase (ku_Status u)"

definition user_SetPhase :: "string \<Rightarrow> KeycloakUser \<Rightarrow> KeycloakUser" where
  "user_SetPhase p u = u\<lparr>ku_Status := (ku_Status u)\<lparr>ust_Phase := p\<rparr>\<rparr>"

definition user_GetError :: "KeycloakUser \<Rightarrow> string" where
  "user_GetError u = ust_Error (ku_Status u)"

text \<open>The assignment in the branch is followed by the unconditional one, as in the source.\<close>

definition user_SetError :: "go_error option \<Rightarrow> KeycloakUser \<Rightarrow> KeycloakUser" where
  "user_SetError err u = (
     let u1 = (case err of None \<Rightarrow> u
               | Some e \<Rightarrow> u\<lparr>ku_Status := (ku_Status u)\<lparr>ust_Error := Error e\<rparr>\<rparr>)
     in u1\<lparr>ku_Status := (ku_Status u1)\<lparr>ust_Error := ''''\<rparr>\<rparr>)"

section \<open>KeycloakRealm\<close>

subsection \<open>Settings\<close>

record PasswordPolicy =
  pp_Type :: string
  pp_Value :: string

record TokenSettings =
  ts_DefaultSignatureAlgorithm :: string
  ts_RevokeRefreshToken :: bool
  ts_RefreshTokenMaxReuse :: int64
  ts_AccessTokenLifespan :: int64
  ts_AccessTokenLifespanForImplicitFlow :: int64
  ts_AccessCodeLifespan :: int64
  ts_ActionTokenGeneratedByUserLifespan :: int64
  ts_ActionTokenGeneratedByAdminLifespan :: int64

record UserProfileAttributeValidation =
  upv_StringVal :: string
  upv_MapVal :: "string gomap option"
  upv_IntVal :: int64
  upv_SliceVal :: "string list option"

record UserProfileAttributePermissions =
  upp_Edit :: "string list"
  upp_View :: "string list"

record UserProfileAttributeRequired =
  upr_Roles :: "string list"
  upr_Scopes :: "string list"

record UserProfileAttributeSelector =
  ups_Scopes :: "string list"

record UserProfileAttribute =
  upa_Name :: string
  upa_DisplayName :: string
  upa_Group :: string
  upa_Multivalued :: bool
  upa_Permissions :: "UserProfileAttributePermissions option"
  upa_Required :: "UserProfileAttributeRequired option"
  upa_Selector :: "UserProfileAttributeSelector option"
  upa_Annotations :: "string gomap"
  upa_Validations :: "UserProfileAttributeValidation gomap gomap"

record UserProfileGroup =
  upg_Name :: string
  upg_Annotations :: "string gomap"
  upg_DisplayDescription :: string
  upg_DisplayHeader :: string

record UserProfileConfig =
  upc_UnmanagedAttributePolicy :: string
  upc_Attributes :: "UserProfileAttribute list option"
  upc_Groups :: "UserProfileGroup list option"

record EmailTemplate =
  et_From :: string
  et_FromDisplayName :: string
  et_ReplyTo :: string
  et_ReplyToDisplayName :: string
  et_EnvelopeFrom :: string

record EmailAuthentication =
  ea_Username :: SourceRefOrVal
  ea_Password :: SourceRef

record EmailConnection =
  ec_Host :: string
  ec_Port :: int64
  ec_EnableSSL :: bool
  ec_EnableStartTLS :: bool
  ec_Authentication :: "EmailAuthentication option"

record SMTP =
  smtp_Template :: EmailTemplate
  smtp_Connection :: EmailConnection

record RealmSSOSessionSettings =
  sso_IdleTimeout :: int64
  sso_MaxLifespan :: int64
  sso_IdleTimeoutRememberMe :: int64
  sso_MaxLifespanRememberMe :: int64

record RealmSSOOfflineSessionSettings =
  off_IdleTimeout :: int64
  off_MaxLifespanEnabled :: bool
  off_MaxLifespan :: int64

record RealmSSOLoginSettings =
  lgs_AccessCodeLifespanLogin :: int64
  lgs_AccessCodeLifespanUserAction :: int64

record RealmSessions =
  ses_SSOSessionSettings :: "RealmSSOSessionSettings option"
  ses_SSOOfflineSessionSettings :: "RealmSSOOfflineSessionSettings option"
  ses_SSOLoginSettings :: "RealmSSOLoginSettings option"

record RealmEventConfig =
  evc_AdminEventsDetailsEnabled :: bool
  evc_AdminEventsEnabled :: bool
  evc_AdminEventsExpiration :: int64
  evc_EnabledEventTypes :: "string list option"
  evc_EventsEnabled :: bool
  evc_EventsExpiration :: int64
  evc_EventsListeners :: "string list option"

record WebAuthnPolicySettings =
  wa_RpEntityName :: string
  wa_SignatureAlgorithms :: "string list"
  wa_RpID :: string
  wa_AttestationConveyancePreference :: string
  wa_AuthenticatorAttachment :: string
  wa_RequireResidentKey :: string
  wa_UserVerificationRequirement :: string
  wa_CreateTimeout :: int64
  wa_AvoidSameAuthenticatorRegister :: bool
  wa_AcceptableAaguids :: "string list"
  wa_PasswordlessRpEntityName :: string
  wa_PasswordlessSignatureAlgorithms :: "string list"
  wa_PasswordlessRpID :: string
  wa_PasswordlessAttestationConveyancePreference :: string
  wa_PasswordlessAuthenticatorAttachment :: string
  wa_PasswordlessRequireResidentKey :: string
  wa_PasswordlessUserVerificationRequirement :: string
  wa_PasswordlessCreateTimeout :: int64
  wa_PasswordlessAvoidSameAuthenticatorRegister :: bool
  wa_PasswordlessAcceptableAaguids :: "string list"
  wa_ExtraOrigins :: "string list"
  wa_PasswordlessExtraOrigins :: "string list"

record Oauth2DeviceSettings =
  od_CodeLifespan :: int64
  od_PollingInterval :: int64

record OTPPolicySettings =
  otp_Algorithm :: string
  otp_CodeReusable :: bool
  otp_Digits :: int64
  otp_InitialCounter :: int64
  otp_LookAheadWindow :: int64
  otp_Period :: int64
  otp_Type :: string
  otp_SupportedApplications :: "string list"

record ClientSessionSettings =
  css_IdleTimeout :: int64
  css_MaxLifespan :: int64
  css_OfflineIdleTimeout :: int64
  css_OfflineMaxLifespan :: int64

record SpecComposites =
  cps_Application :: "string list gomap option"
  cps_Client :: "string list gomap option"
  cps_Realm :: "string list"

record RealmRoleRepresentation =
  drr_Attributes :: "string list gomap option"
  drr_ClientRole :: bool
  drr_Composite :: bool
  drr_Composites :: "SpecComposites option"
  drr_ContainerId :: string
  drr_Description :: string
  drr_Id :: string
  drr_Name :: string
  drr_ScopeParamRequired :: bool

subsection \<open>Entities of a realm\<close>

record RealmUser =
  ru_Username :: string
  ru_RealmRoles :: "string list"

record RealmThemes =
  th_LoginTheme :: "string option"
  th_AccountTheme :: "string option"
  th_AdminConsoleTheme :: "string option"
  th_EmailTheme :: "string option"
  th_InternationalizationEnabled :: "bool option"

record RealmLocalization =
  loc_InternationalizationEnabled :: "bool option"
  loc_SupportedLocales :: "string list"
  loc_DefaultLocale :: "string option"
  loc_LocalizationTexts :: "string gomap gomap"

record RealmLogin =
  rl_UserRegistration :: bool
  rl_ForgotPassword :: bool
  rl_RememberMe :: bool
  rl_EmailAsUsername :: bool
  rl_LoginWithEmail :: bool
  rl_DuplicateEmails :: bool
  rl_VerifyEmail :: bool
  rl_EditUsername :: bool

record Composite =
  cmp_Name :: string

record Role =
  rol_Name :: string
  rol_Description :: string
  rol_Attributes :: "string list gomap"
  rol_Composite :: bool
  rol_Composites :: "Composite list"
  rol_CompositesClientRoles :: "Composite list gomap"
  rol_IsDefault :: bool

record Group =
  grp_Name :: string
  grp_Description :: string
  grp_Path :: string
  grp_Attributes :: "string list gomap"
  grp_Access :: "bool gomap"
  grp_RealmRoles :: "string list"
  grp_SubGroups :: "string list"
  grp_ParentGroup :: "GroupRef option"
  grp_ClientRoles :: "UserClientRole list"

record IdentityProviderMapper =
  ipm_IdentityProviderAlias :: string
  ipm_IdentityProviderMapper :: string
  ipm_Name :: string
  ipm_Config :: "string gomap"

record ScopePermissions =
  sp_Name :: string
  sp_Policies :: "string list"

record AdminFineGrainedPermission =
  afg_ScopePermissions :: "ScopePermissions list"

record IdentityProvider =
  ip_ProviderID :: string
  ip_Alias :: string
  ip_Config :: "string gomap"
  ip_Enabled :: bool
  ip_AddReadTokenRoleOnCreate :: bool
  ip_AuthenticateByDefault :: bool
  ip_DisplayName :: string
  ip_FirstBrokerLoginFlowAlias :: string
  ip_PostBrokerLoginFlowAlias :: string
  ip_LinkOnly :: bool
  ip_StoreToken :: bool
  ip_TrustEmail :: bool
  ip_Mappers :: "IdentityProviderMapper list"
  ip_AdminFineGrainedPermissionsEnabled :: bool
  ip_Permission :: "AdminFineGrainedPermission option"

subsection \<open>The resource\<close>

record KeycloakRealmSpec =
  rs_RealmName :: string
  rs_ReconciliationStrategy :: string
  rs_ConfigRef :: ConfigRef
  rs_Users :: "RealmUser list"
  rs_BrowserFlow :: "string option"
  rs_Themes :: "RealmThemes option"
  rs_Localization :: "RealmLocalization option"
  rs_BrowserSecurityHeaders :: "string gomap option"
  rs_ID :: "string option"
  rs_RealmEventConfig :: "RealmEventConfig option"
  rs_PasswordPolicies :: "PasswordPolicy list"
  rs_DisplayHTMLName :: string
  rs_FrontendURL :: string
  rs_TokenSettings :: "TokenSettings option"
  rs_DisplayName :: string
  rs_SSLRequired :: string
  rs_BruteForceProtected :: bool
  rs_PermanentLockout :: bool
  rs_MaxFailureWaitSeconds :: int64
  rs_MinimumQuickLoginWaitSeconds :: int64
  rs_WaitIncrementSeconds :: int64
  rs_QuickLoginCheckMilliSeconds :: int64
  rs_MaxDeltaTimeSeconds :: int64
  rs_FailureFactor :: int64
  rs_SupportedLocales :: "string list"
  rs_RegistrationFlow :: string
  rs_DirectGrantFlow :: string
  rs_ResetCredentialsFlow :: string
  rs_ClientAuthenticationFlow :: string
  rs_DockerAuthenticationFlow :: string
  rs_UserManagedAccessAllowed :: bool
  rs_Attributes :: "string gomap option"
  rs_UseOrganizations :: bool
  rs_OrganizationsEnabled :: bool
  rs_UserProfileConfig :: "UserProfileConfig option"
  rs_Smtp :: "SMTP option"
  rs_Login :: "RealmLogin option"
  rs_Sessions :: "RealmSessions option"
  rs_RequiredCredentials :: "string list"
  rs_WebAuthnPolicySettings :: "WebAuthnPolicySettings option"
  rs_Oauth2DeviceSettings :: "Oauth2DeviceSettings option"
  rs_OTPPolicySettings :: "OTPPolicySettings option"
  rs_ClientSessionSettings :: "ClientSessionSettings option"
  rs_DefaultRole :: "RealmRoleRepresentation option"
  rs_Roles :: "Role list"
  rs_Groups :: "Group list"
  rs_IdentityProviders :: "IdentityProvider list"

record KeycloakRealmStatus =
  rst_Available :: bool
  rst_FailureCount :: int64
  rst_Error :: string
  rst_Phase :: string
  rst_RoleIDs :: "string gomap"
  rst_GroupIDs :: "string list"
  rst_AliasIDPs :: "string list"

record KeycloakRealm =
  kr_Meta :: ObjectMeta
  kr_Spec :: KeycloakRealmSpec
  kr_Status :: KeycloakRealmStatus

definition realm_GetFailureCount :: "KeycloakRealm \<Rightarrow> int64" where
  "realm_GetFailureCount r = rst_FailureCount (kr_Status r)"

definition realm_SetFailureCount :: "int64 \<Rightarrow> KeycloakRealm \<Rightarrow> KeycloakRealm" where
  "realm_SetFailureCount n r = r\<lparr>kr_Status := (kr_Status r)\<lparr>rst_FailureCount := n\<rparr>\<rparr>"

section \<open>keycloakauthflow_types.go\<close>

record AuthenticatorConfig =
  ac_Alias :: string
  ac_Config :: "string gomap"

record AuthenticationExecution =
  ae_Authenticator :: string
  ae_AuthenticatorConfig :: "AuthenticatorConfig option"
  ae_AuthenticatorFlow :: bool
  ae_Priority :: int64
  ae_Requirement :: string
  ae_Alias :: string
  ae_FlowV1 :: bool

record KeycloakAuthFlowSpec =
  afs_RealmRef :: RealmRef
  afs_ConfigRef :: ConfigRef
  afs_Alias :: string
  afs_Description :: string
  afs_ProviderID :: string
  afs_TopLevel :: bool
  afs_BuiltIn :: bool
  afs_AuthenticationExecutions :: "AuthenticationExecution list"
  afs_ParentName :: string
  afs_ChildType :: string
  afs_ChildRequirement :: string
  afs_ReconciliationStrategy :: string

record KeycloakAuthFlowStatus =
  aft_Error :: string
  aft_Phase :: string
  aft_FailureCount :: int64
  aft_ID :: string

record KeycloakAuthFlow =
  af_Meta :: ObjectMeta
  af_Spec :: KeycloakAuthFlowSpec
  af_Status :: KeycloakAuthFlowStatus

definition authflow_GetFailureCount :: "KeycloakAuthFlow \<Rightarrow> int64" where
  "authflow_GetFailureCount f = aft_FailureCount (af_Status f)"

definition authflow_SetFailureCount :: "int64 \<Rightarrow> KeycloakAuthFlow \<Rightarrow> KeycloakAuthFlow" where
  "authflow_SetFailureCount n f = f\<lparr>af_Status := (af_Status f)\<lparr>aft_FailureCount := n\<rparr>\<rparr>"

definition authflow_GetPhase :: "KeycloakAuthFlow \<Rightarrow> string" where
  "authflow_GetPhase f = aft_Phase (af_Status f)"

definition authflow_SetPhase :: "string \<Rightarrow> KeycloakAuthFlow \<Rightarrow> KeycloakAuthFlow" where
  "authflow_SetPhase v f = f\<lparr>af_Status := (af_Status f)\<lparr>aft_Phase := v\<rparr>\<rparr>"

definition authflow_GetError :: "KeycloakAuthFlow \<Rightarrow> string" where
  "authflow_GetError f = aft_Error (af_Status f)"

definition authflow_SetError :: "go_error option \<Rightarrow> KeycloakAuthFlow \<Rightarrow> KeycloakAuthFlow" where
  "authflow_SetError err f =
     (let f1 = (case err of None \<Rightarrow> f | Some e \<Rightarrow> f\<lparr>af_Status := (af_Status f)\<lparr>aft_Error := Error e\<rparr>\<rparr>)
      in f1\<lparr>af_Status := (af_Status f1)\<lparr>aft_Error := ''''\<rparr>\<rparr>)"

section \<open>keycloakcomponent_types.go\<close>

record ParentComponent =
  pc_Kind :: string
  pc_Name :: string

record KeycloakComponentSpec =
  cs_Name :: string
  cs_RealmRef :: RealmRef
  cs_ConfigRef :: ConfigRef
  cs_ProviderID :: string
  cs_ProviderType :: string
  cs_SubType :: string
  cs_ParentRef :: "ParentComponent option"
  cs_Config :: "string list gomap"
  cs_ReconciliationStrategy :: string

record KeycloakComponentStatus =
  cst_Error :: string
  cst_Phase :: string
  cst_FailureCount :: int64

record KeycloakComponent =
  kc_Meta :: ObjectMeta
  kc_Spec :: KeycloakComponentSpec
  kc_Status :: KeycloakComponentStatus

definition component_GetFailureCount :: "KeycloakComponent \<Rightarrow> int64" where
  "component_GetFailureCount k = cst_FailureCount (kc_Status k)"

definition component_SetFailureCount :: "int64 \<Rightarrow> KeycloakComponent \<Rightarrow> KeycloakComponent" where
  "component_SetFailureCount n k = k\<lparr>kc_Status := (kc_Status k)\<lparr>cst_FailureCount := n\<rparr>\<rparr>"

definition component_GetPhase :: "KeycloakComponent \<Rightarrow> string" where
  "component_GetPhase k = cst_Phase (kc_Status k)"

definition component_SetPhase :: "string \<Rightarrow> KeycloakComponent \<Rightarrow> KeycloakComponent" where
  "component_SetPhase v k = k\<lparr>kc_Status := (kc_Status k)\<lparr>cst_Phase := v\<rparr>\<rparr>"

definition component_GetError :: "KeycloakComponent \<Rightarrow> string" where
  "component_GetError k = cst_Error (kc_Status k)"

definition component_SetError :: "go_error option \<Rightarrow> KeycloakComponent \<Rightarrow> KeycloakComponent" where
  "component_SetError err k =
     (let k1 = (case err of None \<Rightarrow> k | Some e \<Rightarrow> k\<lparr>kc_Status := (kc_Status k)\<lparr>cst_Error := Error e\<rparr>\<rparr>)
      in k1\<lparr>kc_Status := (kc_Status k1)\<lparr>cst_Error := ''''\<rparr>\<rparr>)"

text \<open>The other objects of the cluster the operator reads: secrets and config maps.\<close>

record Secret =
  sec_Name :: string
  sec_Namespace :: string
  sec_ResourceVersion :: string
  sec_OwnerReferences :: "OwnerReference list"
  sec_Data :: "string gomap"

record ConfigMap =
  cfm_Name :: string
  cfm_Namespace :: string
  cfm_Data :: "string gomap"

end
