(* ===== verification/ClientTypes.thy ===== *)
theory ClientTypes
  imports ApiTypes
begin

text \<open>
  \<open>keycloakclient_types.go\<close>, \<open>client_authorization.go\<close> and \<open>keycloakscopemapping_types.go\<close> of \<open>api/v1alpha1\<close>:
  the resources for clients and for scope mappings. A field is an option where the code
  distinguishes nil from empty.
\<close>

section \<open>client_authorization.go\<close>

record RoleDefinition =
  rdf_Name :: string
  rdf_Required :: bool

record GroupDefinition =
  gdf_Name :: string
  gdf_ExtendChildren :: bool

record GroupPolicyData =
  gpd_Groups :: "GroupDefinition list"
  gpd_GroupsClaim :: string

record TimePolicyData =
  tpd_NotBefore :: string
  tpd_NotOnOrAfter :: string
  tpd_DayMonth :: string
  tpd_DayMonthEnd :: string
  tpd_Month :: string
  tpd_MonthEnd :: string
  tpd_Hour :: string
  tpd_HourEnd :: string
  tpd_Minute :: string
  tpd_MinuteEnd :: string

text \<open>The data of an aggregated, client, role or user policy is one list.\<close>

record Policy =
  plc_Type :: string
  plc_Name :: string
  plc_Description :: string
  plc_DecisionStrategy :: string
  plc_Logic :: string
  plc_AggregatedPolicy :: "string list option"
  plc_ClientPolicy :: "string list option"
  plc_GroupPolicy :: "GroupPolicyData option"
  plc_RolePolicy :: "RoleDefinition list option"
  plc_TimePolicy :: "TimePolicyData option"
  plc_UserPolicy :: "string list option"

record Permission =
  prm_Name :: string
  prm_Type :: string
  prm_DecisionStrategy :: string
  prm_Description :: string
  prm_Logic :: string
  prm_Policies :: "string list"
  prm_Resources :: "string list"
  prm_Scopes :: "string list"

record Resource =
  rsc_Name :: string
  rsc_DisplayName :: string
  rsc_Type :: string
  rsc_IconURI :: string
  rsc_OwnerManagedAccess :: bool
  rsc_URIs :: "string list"
  rsc_Attributes :: "string list gomap"
  rsc_Scopes :: "string list"

section \<open>keycloakclient_types.go\<close>

record Authorization =
  azn_Scopes :: "string list"
  azn_Policies :: "Policy list"
  azn_Permissions :: "Permission list"
  azn_Resources :: "Resource list"

record AuthenticationFlowBindingOverrides =
  fbo_Browser :: string
  fbo_DirectGrant :: string

record ProtocolMapper =
  apm_Name :: string
  apm_Protocol :: string
  apm_ProtocolMapper :: string
  apm_Config :: "string gomap"

record RealmRole =
  arr_Name :: string
  arr_Composite :: string

record ClientRole =
  clr_Name :: string
  clr_Description :: string
  clr_AssociatedClientRoles :: "string list"

record ServiceAccount =
  sac_Enabled :: bool
  sac_RealmRoles :: "string list"
  sac_ClientRoles :: "UserClientRole list"
  sac_Attributes :: "string gomap"
  sac_AttributesV2 :: "string list gomap option"
  sac_Groups :: "string list option"

record Client =
  acl_ClientId :: string
  acl_Secret :: string
  acl_RealmRoles :: "RealmRole list option"
  acl_Public :: bool
  acl_WebUrl :: string
  acl_AdminUrl :: string
  acl_HomeUrl :: string
  acl_Protocol :: "string option"
  acl_Attributes :: "string gomap option"
  acl_DirectAccess :: bool
  acl_AdvancedProtocolMappers :: bool
  acl_ClientRoles :: "string list"
  acl_ClientRolesV2 :: "ClientRole list"
  acl_ProtocolMappers :: "ProtocolMapper list option"
  acl_ServiceAccount :: "ServiceAccount option"
  acl_FrontChannelLogout :: bool
  acl_ReconciliationStrategy :: string
  acl_DefaultClientScopes :: "string list"
  acl_OptionalClientScopes :: "string list"
  acl_RedirectUris :: "string list option"
  acl_WebOrigins :: "string list option"
  acl_ImplicitFlowEnabled :: bool
  acl_AuthorizationServicesEnabled :: bool
  acl_AdminFineGrainedPermissionsEnabled :: bool
  acl_BearerOnly :: bool
  acl_ClientAuthenticatorType :: string
  acl_ConsentRequired :: bool
  acl_Description :: string
  acl_Enabled :: bool
  acl_FullScopeAllowed :: bool
  acl_Name :: string
  acl_StandardFlowEnabled :: bool
  acl_SurrogateAuthRequired :: bool
  acl_Authorization :: "Authorization option"
  acl_Permission :: "AdminFineGrainedPermission option"
  acl_AuthenticationFlowBindingOverrides :: "AuthenticationFlowBindingOverrides option"

record ClientScope =
  acs_Name :: string
  acs_Protocol :: string
  acs_Description :: string
  acs_Attributes :: "string gomap"
  acs_Default :: bool
  acs_Type :: string
  acs_ProtocolMappers :: "ProtocolMapper list"
  acs_ReconciliationStrategy :: string

record ClientAllowedPolicy =
  cap_Name :: string
  cap_ProviderID :: string
  cap_SubType :: string
  cap_Config :: "string list gomap"

record KeycloakClientSpec =
  kcs_RealmRef :: RealmRef
  kcs_ConfigRef :: ConfigRef
  kcs_Client :: "Client list"
  kcs_ClientScope :: "ClientScope list option"
  kcs_ClientRegistrationPolicy :: "ClientAllowedPolicy list option"

record KeycloakClientStatus =
  kct_Error :: string
  kct_Phase :: string
  kct_ClientIDs :: "string gomap"
  kct_ClientScopeIDs :: "string gomap"
  kct_FailureCount :: int64
  kct_Conditions :: "Condition list"

record KeycloakClient =
  kcl_Meta :: ObjectMeta
  kcl_Spec :: KeycloakClientSpec
  kcl_Status :: KeycloakClientStatus

section \<open>keycloakscopemapping_types.go\<close>

text \<open>\<open>RoleMapper\<close> has one field, the name of a role.\<close>

record KeycloakScopeMappingSpec =
  sms_RealmRef :: RealmRef
  sms_ConfigRef :: ConfigRef
  sms_ClientScope :: string
  sms_Client :: string
  sms_FromClient :: string
  sms_Description :: string
  sms_Roles :: "string list"
  sms_ReconciliationStrategy :: string

record KeycloakScopeMappingStatus =
  smt_ID :: string
  smt_FailureCount :: int64
  smt_Error :: string
  smt_Phase :: string

record KeycloakScopeMapping =
  sm_Meta :: ObjectMeta
  sm_Spec :: KeycloakScopeMappingSpec
  sm_Status :: KeycloakScopeMappingStatus

end
