(* ===== verification/KcTypes.thy ===== *)
theory KcTypes
  imports ClientTypes
begin

text \<open>
  The wire types of the Keycloak admin REST API as the typed client of
  \<open>pkg/client/keycloakv2\<close> has them, the requests the operator can send, and the environment the
  code runs in.

  The generated client (\<open>pkg/client/keycloakv2/generated\<close>), the network and Keycloak are one
  parameter, \<open>kc_http\<close>: the answer to a request. So are the Kubernetes API (\<open>k8s\<close>), logging in
  (\<open>kc_new\<close>), the resty and gocloak libraries under the legacy adapter (\<open>resty\<close>, \<open>gocloak\<close>), the
  JSON coding of tokens, the clock, which of two goroutines of an \<open>errgroup\<close> comes first (\<open>errgroup_first\<close>), whether
  \<open>SetStatusCondition\<close> reports a change (\<open>ConditionChanged\<close>), the order in which \<open>sort.Slice\<close> leaves executions (\<open>sort_Slice\<close>), the bytes of \<open>crypto/rand\<close> (\<open>rand_Read\<close>), the text \<open>%v\<close> makes of a realm, a secret, roles or a pointer
  (\<open>fmt_realm\<close>, \<open>fmt_secret\<close>, \<open>fmt_roles\<close>, \<open>fmt_pointer\<close>; some show addresses, so nothing is assumed of them) and the functions of
  \<open>controller-runtime\<close> and \<open>apimachinery\<close> the operator calls. What the code relies on of the
  latter is stated as named predicates, \<open>finalizers_ok\<close> and \<open>conditions_ok\<close>.
\<close>

section \<open>Representations\<close>

datatype json = JNull | JBool bool | JNum string | JStr string | JArr "json list"
  | JObj "(string \<times> json) list"

record RoleRepresentation =
  role_Attributes :: "string list gomap option"
  role_ClientRole :: "bool option"
  role_Composite :: "bool option"
  role_Composites :: "json option"
  role_ContainerId :: "string option"
  role_Description :: "string option"
  role_Id :: "string option"
  role_Name :: "string option"
  role_ScopeParamRequired :: "bool option"

definition zero_role :: RoleRepresentation where
  "zero_role = \<lparr>role_Attributes = None, role_ClientRole = None, role_Composite = None,
     role_Composites = None, role_ContainerId = None, role_Description = None, role_Id = None,
     role_Name = None, role_ScopeParamRequired = None\<rparr>"

record FederatedIdentityRepresentation =
  fed_IdentityProvider :: "string option"
  fed_UserId :: "string option"
  fed_UserName :: "string option"

text \<open>Of a credential, the three fields the operator sets (the others stay nil).\<close>

record CredentialRepresentation =
  cred_Type :: "string option"
  cred_Value :: "string option"
  cred_Temporary :: "bool option"

text \<open>The fields of a user the operator sets, and every other one as \<open>ur_rest\<close>.\<close>

record UserRepresentation =
  ur_Id :: "string option"
  ur_Username :: "string option"
  ur_Email :: "string option"
  ur_EmailVerified :: "bool option"
  ur_Enabled :: "bool option"
  ur_FirstName :: "string option"
  ur_LastName :: "string option"
  ur_RequiredActions :: "string list option"
  ur_Attributes :: "string list gomap option"
  ur_rest :: "json gomap"

definition zero_user :: UserRepresentation where
  "zero_user = \<lparr>ur_Id = None, ur_Username = None, ur_Email = None, ur_EmailVerified = None,
     ur_Enabled = None, ur_FirstName = None, ur_LastName = None, ur_RequiredActions = None,
     ur_Attributes = None, ur_rest = []\<rparr>"

record GroupRepresentation =
  gp_Id :: "string option"
  gp_Name :: "string option"
  gp_Description :: "string option"
  gp_Path :: "string option"
  gp_Attributes :: "string list gomap option"
  gp_rest :: "json gomap"

definition zero_group :: GroupRepresentation where
  "zero_group = \<lparr>gp_Id = None, gp_Name = None, gp_Description = None, gp_Path = None,
     gp_Attributes = None, gp_rest = []\<rparr>"

record ClientMappingsRepresentation =
  cmr_Client :: "string option"
  cmr_Id :: "string option"
  cmr_Mappings :: "RoleRepresentation list option"

record MappingsRepresentation =
  mr_ClientMappings :: "ClientMappingsRepresentation gomap option"
  mr_RealmMappings :: "RoleRepresentation list option"

record ClientRepresentation =
  cl_Id :: "string option"
  cl_ClientId :: "string option"
  cl_rest :: "json gomap"

record IdentityProviderRepresentation =
  idp_Alias :: "string option"
  idp_rest :: "json gomap"

record UPAttributePermissions =
  uap_Edit :: "string list option"
  uap_View :: "string list option"

record UPAttributeRequired =
  uar_Roles :: "string list option"
  uar_Scopes :: "string list option"

record UPAttributeSelector =
  uas_Scopes :: "string list option"

text \<open>The dynamic values of an annotation or a validation of the user profile (\<open>any\<close>).\<close>

datatype up_any = AnyStr string | AnyMap "string gomap" | AnyInt int64 | AnyStrs "string list"
  | AnyJson json

record UPAttribute =
  ua_Annotations :: "up_any gomap option"
  ua_DefaultValue :: "string option"
  ua_DisplayName :: "string option"
  ua_Group :: "string option"
  ua_Multivalued :: "bool option"
  ua_Name :: "string option"
  ua_Permissions :: "UPAttributePermissions option"
  ua_Required :: "UPAttributeRequired option"
  ua_Selector :: "UPAttributeSelector option"
  ua_Validations :: "up_any gomap gomap option"

record UPGroup =
  ug_Annotations :: "up_any gomap option"
  ug_DisplayDescription :: "string option"
  ug_DisplayHeader :: "string option"
  ug_Name :: "string option"

record UPConfig =
  uc_Attributes :: "UPAttribute list option"
  uc_Groups :: "UPGroup list option"
  uc_UnmanagedAttributePolicy :: "string option"

record RealmEventsConfigRepresentation =
  rec_AdminEventsDetailsEnabled :: "bool option"
  rec_AdminEventsEnabled :: "bool option"
  rec_EnabledEventTypes :: "string list option"
  rec_EventsEnabled :: "bool option"
  rec_EventsExpiration :: "int64 option"
  rec_EventsListeners :: "string list option"

text \<open>
  A realm has some 170 fields, all pointers. Its representation is the association list of the
  fields that are not nil, by the name of the Go field.
\<close>

datatype rval = RStr string | RBool bool | RInt32 int32 | RInt64 int64 | RStrs "string list"
  | RMap "string gomap" | RRole RoleRepresentation | RJson json

type_synonym RealmRepresentation = "rval gomap"

section \<open>Types of the legacy adapter\<close>

text \<open>The structs of \<open>pkg/client/keycloak/adapter\<close> and \<open>dto\<close> that travel over its resty client.\<close>

record adapter_IdentityProvider =
  aip_InternalID :: string
  aip_ProviderID :: string
  aip_Config :: "string gomap"
  aip_AddReadTokenRoleOnCreate :: bool
  aip_Alias :: string
  aip_AuthenticateByDefault :: bool
  aip_DisplayName :: string
  aip_Enabled :: bool
  aip_FirstBrokerLoginFlowAlias :: string
  aip_PostBrokerLoginFlowAlias :: string
  aip_LinkOnly :: bool
  aip_StoreToken :: bool
  aip_TrustEmail :: bool

definition zero_adapter_IdentityProvider :: adapter_IdentityProvider where
  "zero_adapter_IdentityProvider = \<lparr>aip_InternalID = '''', aip_ProviderID = '''', aip_Config = [],
     aip_AddReadTokenRoleOnCreate = False, aip_Alias = '''', aip_AuthenticateByDefault = False,
     aip_DisplayName = '''', aip_Enabled = False, aip_FirstBrokerLoginFlowAlias = '''',
     aip_PostBrokerLoginFlowAlias = '''', aip_LinkOnly = False, aip_StoreToken = False, aip_TrustEmail = False\<rparr>"

record adapter_IdentityProviderMapper =
  aim_ID :: string
  aim_IdentityProviderAlias :: string
  aim_IdentityProviderMapper :: string
  aim_Name :: string
  aim_Config :: "string gomap"

record ManagementPermissionRepresentation =
  mpr_Enabled :: "bool option"
  mpr_Resource :: "string option"
  mpr_ScopePermissions :: "string gomap option"

record ServerFeature =
  sf_Name :: string
  sf_Enabled :: bool

record ServerInfo =
  si_Version :: string
  si_Features :: "ServerFeature list"

record Component =
  cp_Name :: string
  cp_ParentID :: string
  cp_ProviderID :: string
  cp_ProviderType :: string
  cp_SubType :: string
  cp_Config :: "string list gomap"
  cp_ID :: string

text \<open>Authentication flows; of the execution types the fields the operator reads or sets.\<close>

record AuthFlowRepresentation =
  afr_Alias :: "string option"
  afr_AuthenticationExecutions :: "json option"
  afr_BuiltIn :: "bool option"
  afr_Description :: "string option"
  afr_Id :: "string option"
  afr_ProviderId :: "string option"
  afr_TopLevel :: "bool option"

record AuthenticationExecutionInfoRepresentation =
  aei_AuthenticationFlow :: "bool option"
  aei_DisplayName :: "string option"
  aei_FlowId :: "string option"
  aei_Id :: "string option"
  aei_Level :: "32 word option"
  aei_Priority :: "32 word option"
  aei_Requirement :: "string option"
  aei_rest :: "json gomap"

record AuthenticationExecutionRepresentation =
  aer_Authenticator :: "string option"
  aer_ParentFlow :: "string option"
  aer_Requirement :: "string option"
  aer_rest :: "json gomap"

record AuthenticatorConfigRepresentation =
  acr_Alias :: "string option"
  acr_Config :: "string gomap option"
  acr_Id :: "string option"

text \<open>Of gocloak's types, the fields the operator reads or sets, and the others as they came.\<close>

record gocloak_ProtocolMapper =
  gpr_ID :: "string option"
  gpr_Name :: "string option"
  gpr_Protocol :: "string option"
  gpr_ProtocolMapper :: "string option"
  gpr_Config :: "string gomap option"
  gpr_rest :: "json gomap"

text \<open>The fields of a client that are pointers to a map or a slice which may be nil have two options.\<close>

record gocloak_Client =
  gcl_ID :: "string option"
  gcl_ClientID :: "string option"
  gcl_Attributes :: "string gomap option option"
  gcl_AuthorizationServicesEnabled :: "bool option"
  gcl_BearerOnly :: "bool option"
  gcl_ClientAuthenticatorType :: "string option"
  gcl_ConsentRequired :: "bool option"
  gcl_Description :: "string option"
  gcl_DirectAccessGrantsEnabled :: "bool option"
  gcl_Enabled :: "bool option"
  gcl_FrontChannelLogout :: "bool option"
  gcl_FullScopeAllowed :: "bool option"
  gcl_ImplicitFlowEnabled :: "bool option"
  gcl_Name :: "string option"
  gcl_Origin :: "string option"
  gcl_Protocol :: "string option"
  gcl_ProtocolMappers :: "gocloak_ProtocolMapper list option option"
  gcl_PublicClient :: "bool option"
  gcl_RedirectURIs :: "string list option"
  gcl_RegistrationAccessToken :: "string option"
  gcl_RootURL :: "string option"
  gcl_AdminURL :: "string option"
  gcl_BaseURL :: "string option"
  gcl_Secret :: "string option"
  gcl_ServiceAccountsEnabled :: "bool option"
  gcl_StandardFlowEnabled :: "bool option"
  gcl_SurrogateAuthRequired :: "bool option"
  gcl_WebOrigins :: "string list option option"
  gcl_AuthenticationFlowBindingOverrides :: "string gomap option option"
  gcl_rest :: "json gomap"

definition zero_gocloak_Client :: gocloak_Client where
  "zero_gocloak_Client = \<lparr>gcl_ID = None, gcl_ClientID = None, gcl_Attributes = None, gcl_AuthorizationServicesEnabled = None,
     gcl_BearerOnly = None, gcl_ClientAuthenticatorType = None, gcl_ConsentRequired = None, gcl_Description = None,
     gcl_DirectAccessGrantsEnabled = None, gcl_Enabled = None, gcl_FrontChannelLogout = None, gcl_FullScopeAllowed = None,
     gcl_ImplicitFlowEnabled = None, gcl_Name = None, gcl_Origin = None, gcl_Protocol = None, gcl_ProtocolMappers = None,
     gcl_PublicClient = None, gcl_RedirectURIs = None, gcl_RegistrationAccessToken = None, gcl_RootURL = None,
     gcl_AdminURL = None, gcl_BaseURL = None, gcl_Secret = None, gcl_ServiceAccountsEnabled = None,
     gcl_StandardFlowEnabled = None, gcl_SurrogateAuthRequired = None, gcl_WebOrigins = None,
     gcl_AuthenticationFlowBindingOverrides = None, gcl_rest = []\<rparr>"

record gocloak_Role =
  gro_ID :: "string option"
  gro_Name :: "string option"
  gro_Description :: "string option"
  gro_ClientRole :: "bool option"
  gro_rest :: "json gomap"

definition zero_gocloak_Role :: gocloak_Role where
  "zero_gocloak_Role = \<lparr>gro_ID = None, gro_Name = None, gro_Description = None, gro_ClientRole = None, gro_rest = []\<rparr>"

record gocloak_ClientMappings =
  gmp_ID :: "string option"
  gmp_Mappings :: "gocloak_Role list option"
  gmp_rest :: "json gomap"

text \<open>A value of the map of client mappings is a pointer.\<close>

record gocloak_Mappings =
  gms_RealmMappings :: "gocloak_Role list option"
  gms_ClientMappings :: "gocloak_ClientMappings option gomap"

record gocloak_User =
  gus_ID :: "string option"
  gus_Username :: "string option"
  gus_Attributes :: "string list gomap option"
  gus_rest :: "json gomap"

datatype gocloak_Group = gocloak_Group (ggr_ID: "string option") (ggr_Name: "string option")
  (ggr_SubGroups: "gocloak_Group list option") (ggr_rest: "json gomap")

record gocloak_ClientScope =
  gcs_ID :: "string option"
  gcs_ProtocolMappers :: "gocloak_ProtocolMapper list option"
  gcs_rest :: "json gomap"

record gocloak_Scope =
  gsc_ID :: "string option"
  gsc_Name :: "string option"
  gsc_rest :: "json gomap"

record gocloak_Resource =
  grs_ID :: "string option"
  grs_Name :: "string option"
  grs_DisplayName :: "string option"
  grs_Type :: "string option"
  grs_IconURI :: "string option"
  grs_OwnerManagedAccess :: "bool option"
  grs_URIs :: "string list option"
  grs_Attributes :: "string list gomap option"
  grs_Scopes :: "gocloak_Scope list option"
  grs_rest :: "json gomap"

record gocloak_GroupDefinition =
  ggd_ID :: "string option"
  ggd_ExtendChildren :: "bool option"

record gocloak_RoleDefinition =
  grd_ID :: "string option"
  grd_Required :: "bool option"

record gocloak_TimePolicy =
  gtp_NotBefore :: "string option"
  gtp_NotOnOrAfter :: "string option"
  gtp_DayMonth :: "string option"
  gtp_DayMonthEnd :: "string option"
  gtp_Month :: "string option"
  gtp_MonthEnd :: "string option"
  gtp_Hour :: "string option"
  gtp_HourEnd :: "string option"
  gtp_Minute :: "string option"
  gtp_MinuteEnd :: "string option"

definition zero_TimePolicy :: gocloak_TimePolicy where
  "zero_TimePolicy = \<lparr>gtp_NotBefore = None, gtp_NotOnOrAfter = None, gtp_DayMonth = None, gtp_DayMonthEnd = None,
     gtp_Month = None, gtp_MonthEnd = None, gtp_Hour = None, gtp_HourEnd = None, gtp_Minute = None, gtp_MinuteEnd = None\<rparr>"

text \<open>
  A policy embeds a struct per type of policy; \<open>gpo_AggregatedPolicies\<close> is the field of the one for
  aggregated policies, and the struct for time policies is one field here.
\<close>

record gocloak_Policy =
  gpo_ID :: "string option"
  gpo_Name :: "string option"
  gpo_Type :: "string option"
  gpo_Description :: "string option"
  gpo_DecisionStrategy :: "string option"
  gpo_Logic :: "string option"
  gpo_AggregatedPolicies :: "string list option"
  gpo_Clients :: "string list option"
  gpo_Groups :: "gocloak_GroupDefinition list option"
  gpo_GroupsClaim :: "string option"
  gpo_Roles :: "gocloak_RoleDefinition list option"
  gpo_Time :: gocloak_TimePolicy
  gpo_Users :: "string list option"
  gpo_rest :: "json gomap"

record gocloak_Permission =
  gpm_ID :: "string option"
  gpm_Name :: "string option"
  gpm_Type :: "string option"
  gpm_Description :: "string option"
  gpm_DecisionStrategy :: "string option"
  gpm_Logic :: "string option"
  gpm_Resources :: "string list option"
  gpm_Policies :: "string list option"
  gpm_Scopes :: "string list option"
  gpm_rest :: "json gomap"

text \<open>
  The gocloak library: a client made by \<open>gocloak.NewClient\<close> for a URL, with or without the path
  prefix of WildFly distributions, and the TLS settings of its resty client; a token pair.
\<close>

record gocloak_JWT =
  jwt_AccessToken :: string
  jwt_rest :: "json gomap"

record GoCloak =
  gk_Url :: string
  gk_Legacy :: bool
  gk_InsecureSkipVerify :: bool
  gk_RootCertificate :: string

record gocloak_Realm =
  grl_ID :: "string option"
  grl_Realm :: "string option"
  grl_rest :: "json gomap"

section \<open>Requests and answers\<close>

datatype http_method = GET | POST | PUT | DELETE

datatype payload =
    NoBody
  | UserB UserRepresentation
  | UsersB "UserRepresentation list"
  | RoleB RoleRepresentation
  | RolesB "RoleRepresentation list"
  | GroupB GroupRepresentation
  | GroupsB "GroupRepresentation list"
  | MappingsB MappingsRepresentation
  | ClientB ClientRepresentation
  | ClientsB "ClientRepresentation list"
  | RealmB RealmRepresentation
  | EventsB RealmEventsConfigRepresentation
  | TextsB "string gomap"
  | FedB FederatedIdentityRepresentation
  | FedsB "FederatedIdentityRepresentation list"
  | CredB CredentialRepresentation
  | ProfileB UPConfig
  | IdpB IdentityProviderRepresentation
  | IdpsB "IdentityProviderRepresentation list"
  | FlowB AuthFlowRepresentation
  | FlowsB "AuthFlowRepresentation list"
  | ExecInfoB AuthenticationExecutionInfoRepresentation
  | ExecInfosB "AuthenticationExecutionInfoRepresentation list"
  | ExecB AuthenticationExecutionRepresentation
  | AuthConfigB AuthenticatorConfigRepresentation
  | JsonB json
  | JsonsB "json list"

record http_request =
  rq_method :: http_method
  rq_path :: "string list"
  rq_query :: "(string \<times> string) list"
  rq_body :: payload

record http_body =
  body_text :: string
  body_json :: "json option" \<comment> \<open>the text parsed as JSON, if it is\<close>

record http_response =
  rsp_StatusCode :: int
  rsp_Location :: string

record http_result =
  hr_HTTPResponse :: "http_response option"
  hr_Body :: http_body
  hr_JSON200 :: "payload option"

type_synonym kc_client = nat

record new_client_params =
  nc_Url :: string
  nc_ClientID :: string
  nc_Username :: string
  nc_Password :: string
  nc_CACert :: "string option"
  nc_InsecureSkipVerify :: bool

datatype k8s_kind = KindUser | KindRealm | KindSecret | KindConfigMap | KindAuthFlow | KindComponent
  | KindScopeMapping | KindClient

datatype k8s_object = UserObj KeycloakUser | RealmObj KeycloakRealm | SecretObj Secret
  | ConfigMapObj ConfigMap | AuthFlowObj KeycloakAuthFlow | ComponentObj KeycloakComponent
  | AuthFlowListObj "KeycloakAuthFlow list" | RealmListObj "KeycloakRealm list"
  | ScopeMappingObj KeycloakScopeMapping | ClientObj KeycloakClient

datatype k8s_request = KGet k8s_kind string string | KList k8s_kind | KUpdate k8s_object
  | KStatusUpdate k8s_object | KDelete k8s_object | KCreate k8s_object

text \<open>The adapter's own client scope and protocol mapper.\<close>

record adapter_ProtocolMapper =
  dpm_Name :: string
  dpm_Protocol :: string
  dpm_ProtocolMapper :: string
  dpm_Config :: "string gomap"

record adapter_ClientScope =
  dcs_ID :: string
  dcs_Name :: string
  dcs_Description :: string
  dcs_Attributes :: "string gomap"
  dcs_Protocol :: string
  dcs_ProtocolMappers :: "adapter_ProtocolMapper list"
  dcs_Type :: string

text \<open>Of the adapter's flow the fields the operator reads; a group a user is in.\<close>

record adapter_AuthFlow =
  daf_ID :: string
  daf_Alias :: string
  daf_rest :: "json gomap"

record UserGroupMapping =
  ugm_ID :: string
  ugm_Name :: string

text \<open>
  A request of the adapter's resty client: the URL is a template, filled with path parameters, and
  may have query parameters.
  resty gives an error, a response or both; the result is what \<open>SetResult\<close> decoded of the body.
\<close>

datatype rest_body =
    NoRest
  | RestIdp adapter_IdentityProvider
  | RestMapper adapter_IdentityProviderMapper
  | RestMappers "adapter_IdentityProviderMapper list"
  | RestPermission ManagementPermissionRepresentation
  | RestServerInfo ServerInfo
  | RestComponent Component
  | RestComponents "Component list"
  | RestClientScope adapter_ClientScope
  | RestClientScopes "adapter_ClientScope list"
  | RestProtocolMapper adapter_ProtocolMapper
  | RestProtocolMappers "adapter_ProtocolMapper list"
  | RestGocloakMappers "gocloak_ProtocolMapper list"
  | RestAuthFlows "adapter_AuthFlow list"
  | RestGroupMappings "UserGroupMapping list"
  | RestParams "string gomap"

record rest_request =
  rsq_AuthToken :: string
  rsq_method :: http_method
  rsq_url :: string
  rsq_params :: "string gomap"
  rsq_query :: "string gomap"
  rsq_body :: rest_body

record rest_response =
  rsr_StatusCode :: int
  rsr_Status :: string
  rsr_String :: string
  rsr_Location :: string
  rsr_Result :: rest_body

type_synonym rest_answer = "go_error option \<times> rest_response option"

text \<open>The methods of gocloak's own client that the modelled adapter methods call, with the access
  token where they take one.\<close>

datatype gocloak_client_op =
    DeleteClientOp
  | GetClientRoleOp string
  | CreateClientRoleOp gocloak_Role
  | UpdateRoleOp gocloak_Role
  | DeleteClientRoleOp string
  | GetClientsDefaultScopesOp
  | GetClientsOptionalScopesOp
  | AddDefaultScopeToClientOp string
  | AddOptionalScopeToClientOp string
  | CreateClientProtocolMapperOp gocloak_ProtocolMapper
  | UpdateClientProtocolMapperOp string gocloak_ProtocolMapper
  | DeleteClientProtocolMapperOp string
  | GetClientServiceAccountOp
  | AddClientRoleToUserOp string "gocloak_Role list"
  | DeleteClientRoleFromUserOp string "gocloak_Role list"

text \<open>Authorization settings of a client; listings have a maximum of entries.\<close>

datatype gocloak_authz_op =
    GetScopesOp int
  | CreateScopeOp gocloak_Scope
  | DeleteScopeOp string
  | GetResourcesOp int
  | CreateResourceOp gocloak_Resource
  | UpdateResourceOp gocloak_Resource
  | DeleteResourceOp string
  | GetPoliciesOp int
  | CreatePolicyOp gocloak_Policy
  | UpdatePolicyOp gocloak_Policy
  | DeletePolicyOp string
  | CreatePermissionOp gocloak_Permission
  | DeletePermissionOp string

datatype gocloak_realm_op =
    ListClientsOp int
  | CreateClientOp gocloak_Client
  | UpdateClientOp gocloak_Client
  | GetRealmRoleOp string
  | CreateRealmRoleOp gocloak_Role
  | AddRealmRoleCompositeOp string "gocloak_Role list"
  | GetCompositeRolesByRoleIDOp string
  | AddClientRoleCompositeOp string "gocloak_Role list"
  | DeleteClientRoleCompositeOp string "gocloak_Role list"
  | GetUsersOp string \<comment> \<open>user name\<close>
  | GetGroupsOp "string option" \<comment> \<open>what to search for\<close>
  | GetRoleMappingByUserIDOp string
  | AddRealmRoleToUserOp string "gocloak_Role list"
  | DeleteRealmRoleFromUserOp string "gocloak_Role list"
  | UpdateUserOp gocloak_User

text \<open>
  The requests above are about a client (\<open>GocloakClientOp\<close>, \<open>GocloakAuthzOp\<close>: token, realm, id of the
  client) or a realm (\<open>GocloakRealmOp\<close>: token, realm).
\<close>

datatype gocloak_request =
    GocloakLoginAdmin string string string \<comment> \<open>user, password, realm\<close>
  | GocloakLoginClient string string string \<comment> \<open>client id, secret, realm\<close>
  | GocloakGetRealms string
  | GocloakGetRealm string string
  | GocloakGetClients string string "string option" \<comment> \<open>token, realm, client id\<close>
  | GocloakGetPermissions string string string int \<comment> \<open>token, realm, client, maximum\<close>
  | GocloakUpdatePermission string string string gocloak_Permission
  | GocloakClientOp string string string gocloak_client_op
  | GocloakAuthzOp string string string gocloak_authz_op
  | GocloakRealmOp string string gocloak_realm_op
  | GocloakGetClientScope string string string \<comment> \<open>token, realm, scope\<close>
  | GocloakDeleteClientScope string string string
  | GocloakGetRealmRoles string string int \<comment> \<open>token, realm, maximum\<close>
  | GocloakGetClientRoles string string string int \<comment> \<open>token, realm, client, maximum\<close>
  | GocloakGetClientScopesScopeMappingsRealmRoles string string string \<comment> \<open>token, realm, scope\<close>
  | GocloakCreateClientScopesScopeMappingsRealmRoles string string string "gocloak_Role list"
  | GocloakDeleteClientScopesScopeMappingsRealmRoles string string string "gocloak_Role list"
  | GocloakGetClientScopeMappingsClientRoles string string string string \<comment> \<open>token, realm, client, client whose roles they are\<close>
  | GocloakCreateClientScopeMappingsClientRoles string string string string "gocloak_Role list"
  | GocloakDeleteClientScopeMappingsClientRoles string string string string "gocloak_Role list"

datatype gocloak_result =
    NoGocloak
  | GocloakToken gocloak_JWT
  | GocloakRealm gocloak_Realm
  | GocloakClients "gocloak_Client list"
  | GocloakPermissions "gocloak_Permission option list"
  | GocloakRoles "gocloak_Role option list"
  | GocloakClientScope gocloak_ClientScope
  | GocloakClientScopes "gocloak_ClientScope option list"
  | GocloakRole gocloak_Role
  | GocloakUser gocloak_User
  | GocloakUsers "gocloak_User list"
  | GocloakGroups "gocloak_Group option list"
  | GocloakMappings gocloak_Mappings
  | GocloakScopes "gocloak_Scope option list"
  | GocloakResources "gocloak_Resource option list"
  | GocloakPolicies "gocloak_Policy list"

datatype event = Http kc_client http_request | NewClient new_client_params
  | Kube k8s_request | Rest GoCloak rest_request | Gocloak GoCloak gocloak_request

section \<open>The environment\<close>

record 'w env =
  kc_http :: "kc_client \<Rightarrow> http_request \<Rightarrow> 'w \<Rightarrow> (go_error + http_result option) \<times> 'w"
  kc_new :: "new_client_params \<Rightarrow> 'w \<Rightarrow> (go_error + kc_client) \<times> 'w"
  resty :: "GoCloak \<Rightarrow> rest_request \<Rightarrow> 'w \<Rightarrow> rest_answer \<times> 'w"
  gocloak :: "GoCloak \<Rightarrow> gocloak_request \<Rightarrow> 'w \<Rightarrow> (go_error + gocloak_result) \<times> 'w"
  json_Unmarshal_JWT :: "string \<Rightarrow> go_error + gocloak_JWT"
  json_Marshal_JWT :: "gocloak_JWT option \<Rightarrow> go_error + string"
  json_Unmarshal_Exp :: "string \<Rightarrow> go_error + int64"
  time_Now :: "'w \<Rightarrow> int64"
  k8s :: "k8s_request \<Rightarrow> 'w \<Rightarrow> (go_error + k8s_object) \<times> 'w"
  fmt_realm :: "KeycloakRealm \<Rightarrow> string"
  url_valid_authority :: "string \<Rightarrow> bool"
  map_rank :: "nat \<Rightarrow> string \<Rightarrow> nat"
  AddFinalizer :: "string list \<Rightarrow> string \<Rightarrow> string list \<times> bool"
  RemoveFinalizer :: "string list \<Rightarrow> string \<Rightarrow> string list \<times> bool"
  ContainsFinalizer :: "string list \<Rightarrow> string \<Rightarrow> bool"
  SetStatusCondition :: "Condition list \<Rightarrow> Condition \<Rightarrow> Condition list"
  IsStatusConditionTrue :: "Condition list \<Rightarrow> string \<Rightarrow> bool"
  ConditionChanged :: "Condition list \<Rightarrow> Condition \<Rightarrow> bool"
  errgroup_first :: "nat \<Rightarrow> bool"
  sort_Slice :: "AuthenticationExecution list \<Rightarrow> AuthenticationExecution list"
  DeepEqual_AuthFlowStatus :: "KeycloakAuthFlowStatus \<Rightarrow> KeycloakAuthFlowStatus \<Rightarrow> bool"
  GVKForComponent :: "go_error + (string \<times> string)"
  DeepEqual_UserStatus :: "KeycloakUserStatus \<Rightarrow> KeycloakUserStatus \<Rightarrow> bool"
  GetControllerOf :: "ObjectMeta \<Rightarrow> bool"
  SetControllerReference :: "KeycloakRealm \<Rightarrow> ObjectMeta \<Rightarrow> go_error + ObjectMeta"
  SetControllerReference_Secret :: "KeycloakClient \<Rightarrow> Secret \<Rightarrow> go_error + Secret"
  rand_Read :: "nat \<Rightarrow> 'w \<Rightarrow> (go_error + string) \<times> 'w"
  fmt_secret :: "Secret \<Rightarrow> string"
  fmt_roles :: "gocloak_Role list \<Rightarrow> string"
  fmt_pointer :: "string option \<Rightarrow> string"

type_synonym ('w, 'm, 'a) prog = "('w, event, 'm, 'a) io"

text \<open>
  Documented behaviour of \<open>controllerutil\<close>: \<open>AddFinalizer\<close> adds the finalizer if it is not there
  and reports whether it did, \<open>RemoveFinalizer\<close> removes it and reports whether it was there,
  \<open>ContainsFinalizer\<close> looks for it.
\<close>

definition finalizers_ok :: "'w env \<Rightarrow> bool" where
  "finalizers_ok env \<longleftrightarrow>
     (\<forall>fs f. AddFinalizer env fs f = (if f \<in> set fs then (fs, False) else (fs @ [f], True))) \<and>
     (\<forall>fs f. RemoveFinalizer env fs f = (filter (\<lambda>x. x \<noteq> f) fs, f \<in> set fs)) \<and>
     (\<forall>fs f. ContainsFinalizer env fs f = (f \<in> set fs))"

text \<open>
  Documented behaviour of \<open>apimachinery/pkg/api/meta\<close>: \<open>SetStatusCondition\<close> replaces or adds the
  condition of the type it is given and leaves those of other types alone,
  \<open>IsStatusConditionTrue\<close> is true when the condition of that type has status \<open>True\<close>.
\<close>

definition find_condition :: "Condition list \<Rightarrow> string \<Rightarrow> Condition option" where
  "find_condition cs t = find (\<lambda>c. cond_Type c = t) cs"

definition conditions_ok :: "'w env \<Rightarrow> bool" where
  "conditions_ok env \<longleftrightarrow>
     (\<forall>cs c t. find_condition (SetStatusCondition env cs c) t =
                 (if t = cond_Type c then Some c else find_condition cs t)) \<and>
     (\<forall>cs t. IsStatusConditionTrue env cs t \<longleftrightarrow>
               (\<exists>c. find_condition cs t = Some c \<and> cond_Status c = ''True''))"

section \<open>Zero values\<close>

text \<open>The zero values of the larger structs, and an environment in which every request fails.\<close>

definition zero_ObjectMeta :: ObjectMeta where
  "zero_ObjectMeta = \<lparr>om_Name = '''', om_Namespace = '''', om_Generation = 0, om_ResourceVersion = '''',
     om_DeletionTimestamp = None, om_Finalizers = [], om_Annotations = [], om_Labels = [],
     om_OwnerReferences = [], om_UID = []\<rparr>"

definition zero_UserSpec :: KeycloakUserSpec where
  "zero_UserSpec = \<lparr>us_RealmRef = \<lparr>rr_Kind = '''', rr_Name = ''''\<rparr>,
     us_ConfigRef = \<lparr>cr_Url = '''', cr_Secret = ''''\<rparr>, us_Username = '''', us_Email = '''',
     us_FirstName = '''', us_LastName = '''', us_Enabled = False, us_TOTP = False,
     us_EmailVerified = False, us_RequiredUserActions = [], us_Roles = [], us_ClientRoles = [],
     us_Groups = [], us_Attributes = [], us_AttributesV2 = [], us_ReconciliationStrategy = '''',
     us_Password = '''', us_KeepResource = False, us_PasswordSecret = None,
     us_IdentityProviders = None\<rparr>"

definition zero_UserStatus :: KeycloakUserStatus where
  "zero_UserStatus = \<lparr>ust_FailureCount = 0, ust_Conditions = [],
     ust_LastSyncedPasswordSecretVersion = '''', ust_Error = '''', ust_Phase = ''''\<rparr>"

definition zero_RealmSpec :: KeycloakRealmSpec where
  "zero_RealmSpec = \<lparr>rs_RealmName = '''', rs_ReconciliationStrategy = '''',
     rs_ConfigRef = \<lparr>cr_Url = '''', cr_Secret = ''''\<rparr>, rs_Users = [],
     rs_BrowserFlow = None, rs_Themes = None, rs_Localization = None,
     rs_BrowserSecurityHeaders = None, rs_ID = None, rs_RealmEventConfig = None,
     rs_PasswordPolicies = [], rs_DisplayHTMLName = '''', rs_FrontendURL = '''',
     rs_TokenSettings = None, rs_DisplayName = '''', rs_SSLRequired = '''',
     rs_BruteForceProtected = False, rs_PermanentLockout = False,
     rs_MaxFailureWaitSeconds = 0, rs_MinimumQuickLoginWaitSeconds = 0,
     rs_WaitIncrementSeconds = 0, rs_QuickLoginCheckMilliSeconds = 0,
     rs_MaxDeltaTimeSeconds = 0, rs_FailureFactor = 0, rs_SupportedLocales = [],
     rs_RegistrationFlow = '''', rs_DirectGrantFlow = '''', rs_ResetCredentialsFlow = '''',
     rs_ClientAuthenticationFlow = '''', rs_DockerAuthenticationFlow = '''',
     rs_UserManagedAccessAllowed = False, rs_Attributes = None, rs_UseOrganizations = False,
     rs_OrganizationsEnabled = False, rs_UserProfileConfig = None, rs_Smtp = None,
     rs_Login = None, rs_Sessions = None, rs_RequiredCredentials = [],
     rs_WebAuthnPolicySettings = None, rs_Oauth2DeviceSettings = None,
     rs_OTPPolicySettings = None, rs_ClientSessionSettings = None, rs_DefaultRole = None,
     rs_Roles = [], rs_Groups = [], rs_IdentityProviders = []\<rparr>"

definition zero_RealmStatus :: KeycloakRealmStatus where
  "zero_RealmStatus = \<lparr>rst_Available = False, rst_FailureCount = 0, rst_Error = '''', rst_Phase = '''',
     rst_RoleIDs = [], rst_GroupIDs = [], rst_AliasIDPs = []\<rparr>"

definition idle_env :: "'w env" where
  "idle_env = \<lparr>kc_http = (\<lambda>c r w. (Inl (NewError ''connection refused''), w)),
     kc_new = (\<lambda>p w. (Inl (NewError ''connection refused''), w)),
     resty = (\<lambda>c r w. ((Some (NewError ''connection refused''), None), w)),
     gocloak = (\<lambda>c r w. (Inl (NewError ''connection refused''), w)),
     json_Unmarshal_JWT = (\<lambda>b. Inl (NewError ''unexpected end of JSON input'')),
     json_Marshal_JWT = (\<lambda>t. Inr ''null''),
     json_Unmarshal_Exp = (\<lambda>b. Inl (NewError ''unexpected end of JSON input'')),
     time_Now = (\<lambda>w. 0),
     k8s = (\<lambda>r w. (Inl (NewError ''connection refused''), w)),
     fmt_realm = (\<lambda>r. ''''),
     url_valid_authority = (\<lambda>a. True),
     map_rank = (\<lambda>n k. 0),
     AddFinalizer = (\<lambda>fs f. if f \<in> set fs then (fs, False) else (fs @ [f], True)),
     RemoveFinalizer = (\<lambda>fs f. (filter (\<lambda>x. x \<noteq> f) fs, f \<in> set fs)),
     ContainsFinalizer = (\<lambda>fs f. f \<in> set fs),
     SetStatusCondition = (\<lambda>cs c. c # filter (\<lambda>d. cond_Type d \<noteq> cond_Type c) cs),
     IsStatusConditionTrue = (\<lambda>cs t. case find_condition cs t of None \<Rightarrow> False | Some c \<Rightarrow> cond_Status c = ''True''),
     ConditionChanged = (\<lambda>cs c. find_condition cs (cond_Type c) \<noteq> Some c),
     errgroup_first = (\<lambda>n. True),
     sort_Slice = sort_key (\<lambda>e. sint (ae_Priority e)),
     DeepEqual_AuthFlowStatus = (=),
     GVKForComponent = Inr (''config.idp.edenlab.io/v1alpha1'', ''KeycloakComponent''),
     DeepEqual_UserStatus = (=),
     GetControllerOf = (\<lambda>m. om_OwnerReferences m \<noteq> []),
     SetControllerReference = (\<lambda>r m. Inr (m\<lparr>om_OwnerReferences :=
       [\<lparr>or_APIVersion = ''config.idp.edenlab.io/v1alpha1'', or_Kind = ''KeycloakRealm'', or_Name = om_Name (kr_Meta r),
         or_UID = om_UID (kr_Meta r), or_BlockOwnerDeletion = Some True, or_Controller = Some True\<rparr>]\<rparr>)),
     SetControllerReference_Secret = (\<lambda>k x. Inr (x\<lparr>sec_OwnerReferences :=
       [\<lparr>or_APIVersion = ''config.idp.edenlab.io/v1alpha1'', or_Kind = ''KeycloakClient'', or_Name = om_Name (kcl_Meta k),
         or_UID = om_UID (kcl_Meta k), or_BlockOwnerDeletion = Some True, or_Controller = Some True\<rparr>]\<rparr>)),
     rand_Read = (\<lambda>n w. (Inr (replicate n (CHR 0x00)), w)),
     fmt_secret = (\<lambda>x. ''''), fmt_roles = (\<lambda>x. ''''), fmt_pointer = (\<lambda>x. '''')\<rparr>"

lemma idle_env_finalizers [simp]: "finalizers_ok idle_env"
  by (simp add: finalizers_ok_def idle_env_def)

lemma find_condition_filter:
  "t \<noteq> u \<Longrightarrow> find_condition (filter (\<lambda>d. cond_Type d \<noteq> u) cs) t = find_condition cs t"
  by (induction cs) (auto simp: find_condition_def)

lemma idle_env_conditions [simp]: "conditions_ok idle_env"
  unfolding conditions_ok_def
proof (intro conjI allI)
  fix cs c t
  show "find_condition (SetStatusCondition idle_env cs c) t =
      (if t = cond_Type c then Some c else find_condition cs t)"
    using find_condition_filter [of t "cond_Type c" cs] by (auto simp: idle_env_def find_condition_def)
next
  fix cs t
  show "IsStatusConditionTrue idle_env cs t \<longleftrightarrow>
      (\<exists>c. find_condition cs t = Some c \<and> cond_Status c = ''True'')"
    by (simp add: idle_env_def split: option.split)
qed

end
