(* ===== verification/GoUrl.thy ===== *)
theory GoUrl
  imports GoErrors
begin

text \<open>
  The part of \<open>net/url\<close> that reading a \<open>Location\<close> header needs: \<open>Parse\<close> followed by
  \<open>EscapedPath\<close>, and \<open>PathUnescape\<close>. Whether an authority (\<open>user@host:port\<close>) is well formed is
  left to a parameter, since its rules have changed between releases of Go.
\<close>

definition is_hex :: "char \<Rightarrow> bool" where
  "is_hex c = (let n = (of_char c :: nat) in
     (48 \<le> n \<and> n \<le> 57) \<or> (97 \<le> n \<and> n \<le> 102) \<or> (65 \<le> n \<and> n \<le> 70))"

definition unhex :: "char \<Rightarrow> nat" where
  "unhex c = (let n = (of_char c :: nat) in
     if n \<le> 57 then n - 48 else if n \<le> 70 then n - 55 else n - 87)"

fun unescape :: "string \<Rightarrow> string option" where
  "unescape [] = Some []"
| "unescape (c # s) =
     (if c = CHR ''%'' then
        (case s of
           a # b # t \<Rightarrow> if is_hex a \<and> is_hex b
             then map_option (\<lambda>r. char_of (16 * unhex a + unhex b) # r) (unescape t) else None
         | _ \<Rightarrow> None)
      else map_option (\<lambda>r. c # r) (unescape s))"

definition upper_hex :: "nat \<Rightarrow> char" where
  "upper_hex n = (if n < 10 then char_of (48 + n) else char_of (55 + n))"

definition is_alnum :: "char \<Rightarrow> bool" where
  "is_alnum c = (let n = (of_char c :: nat) in
     (97 \<le> n \<and> n \<le> 122) \<or> (65 \<le> n \<and> n \<le> 90) \<or> (48 \<le> n \<and> n \<le> 57))"

text \<open>\<open>shouldEscape\<close> in the modes \<open>encodePath\<close> and \<open>encodePathSegment\<close>.\<close>

definition keeps_path :: "char \<Rightarrow> bool" where
  "keeps_path c \<longleftrightarrow> is_alnum c \<or> c \<in> set ''-_.~$&+,/:;=@''"

definition keeps_segment :: "char \<Rightarrow> bool" where
  "keeps_segment c \<longleftrightarrow> is_alnum c \<or> c \<in> set ''-_.~$&+:=@''"

definition escape_char :: "(char \<Rightarrow> bool) \<Rightarrow> char \<Rightarrow> string" where
  "escape_char keeps c = (if keeps c then [c]
     else [CHR ''%'', upper_hex (of_char c div 16), upper_hex (of_char c mod 16)])"

definition escape_path :: "string \<Rightarrow> string" where
  "escape_path s = concat (map (escape_char keeps_path) s)"

definition PathEscape :: "string \<Rightarrow> string" where
  "PathEscape s = concat (map (escape_char keeps_segment) s)"

definition validEncoded_char :: "char \<Rightarrow> bool" where
  "validEncoded_char c \<longleftrightarrow> c = CHR 0x27 \<or> c \<in> set ''!()*[]%'' \<or> keeps_path c"

text \<open>\<open>u.setPath(p)\<close> followed by \<open>u.EscapedPath()\<close>.\<close>

definition EscapedPath :: "string \<Rightarrow> string option" where
  "EscapedPath p = (case unescape p of
     None \<Rightarrow> None
   | Some path \<Rightarrow> Some (if p \<noteq> escape_path path \<and> list_all validEncoded_char p then p
                        else if path = ''*'' then ''*'' else escape_path path))"

definition strings_Cut :: "char \<Rightarrow> string \<Rightarrow> string \<times> string" where
  "strings_Cut c s = (takeWhile (\<lambda>x. x \<noteq> c) s, drop 1 (dropWhile (\<lambda>x. x \<noteq> c) s))"

definition has_ctl :: "string \<Rightarrow> bool" where
  "has_ctl s \<longleftrightarrow> (\<exists>c \<in> set s. (of_char c :: nat) < 32 \<or> (of_char c :: nat) = 127)"

text \<open>\<open>getScheme\<close>: the characters read so far, then the rest.\<close>

fun getScheme_loop :: "string \<Rightarrow> string \<Rightarrow> (string \<times> string) option" where
  "getScheme_loop seen [] = Some ('''', seen)"
| "getScheme_loop seen (c # s) = (let n = (of_char c :: nat) in
     if (97 \<le> n \<and> n \<le> 122) \<or> (65 \<le> n \<and> n \<le> 90) then getScheme_loop (seen @ [c]) s
     else if (48 \<le> n \<and> n \<le> 57) \<or> c \<in> set ''+-.'' then
       (if seen = [] then Some ('''', seen @ c # s) else getScheme_loop (seen @ [c]) s)
     else if c = CHR '':'' then (if seen = [] then None else Some (seen, s))
     else Some ('''', seen @ c # s))"

definition strip_query :: "string \<Rightarrow> string" where
  "strip_query rest = fst (strings_Cut (CHR ''?'') rest)"

definition url_path :: "(string \<Rightarrow> bool) \<Rightarrow> string \<Rightarrow> string \<Rightarrow> string option" where
  "url_path valid_authority scheme rest =
     (if \<not> prefix ''/'' rest \<and> scheme \<noteq> '''' then Some ''''
      else if \<not> prefix ''/'' rest \<and> strings_Contains (fst (strings_Cut (CHR ''/'') rest)) '':'' then None
      else if (scheme \<noteq> '''' \<or> \<not> prefix ''///'' rest) \<and> prefix ''//'' rest then
        (let auth = takeWhile (\<lambda>x. x \<noteq> CHR ''/'') (drop 2 rest);
             path = dropWhile (\<lambda>x. x \<noteq> CHR ''/'') (drop 2 rest)
         in if valid_authority auth then EscapedPath path else None)
      else EscapedPath rest)"

text \<open>\<open>u, err := url.Parse(location)\<close> and \<open>u.EscapedPath()\<close>; \<open>None\<close> is an error.\<close>

definition parse_EscapedPath :: "(string \<Rightarrow> bool) \<Rightarrow> string \<Rightarrow> string option" where
  "parse_EscapedPath valid_authority rawURL = (case strings_Cut (CHR ''#'') rawURL of (u, frag) \<Rightarrow>
     if has_ctl u \<or> unescape frag = None then None
     else if u = ''*'' then Some ''*''
     else (case getScheme_loop [] u of
        None \<Rightarrow> None
      | Some (scheme, rest) \<Rightarrow> url_path valid_authority scheme (strip_query rest)))"

section \<open>Unescaping undoes escaping\<close>

lemma upper_hex_ok: "n < 16 \<Longrightarrow> is_hex (upper_hex n) \<and> unhex (upper_hex n) = n"
  by (auto simp: is_hex_def unhex_def upper_hex_def Let_def of_char_of take_bit_nat_def)

lemma char_nibbles: "(of_char c :: nat) div 16 < 16" "(of_char c :: nat) mod 16 < 16"
  using nat_of_char_less_256 [of c] by (simp_all add: less_mult_imp_div_less)

lemma unescape_escape_char:
  assumes "\<not> keeps (CHR ''%'')"
  shows "unescape (escape_char keeps c @ s) = map_option (\<lambda>r. c # r) (unescape s)"
proof (cases "keeps c")
  case True
  with assms have "c \<noteq> CHR ''%''" by auto
  with True show ?thesis by (simp add: escape_char_def)
next
  case False
  note h = char_nibbles [of c, THEN upper_hex_ok]
  have "16 * (of_char c div 16) + of_char c mod 16 = (of_char c :: nat)" by simp
  with False h show ?thesis by (simp add: escape_char_def)
qed

lemma unescape_escape:
  "\<not> keeps (CHR ''%'') \<Longrightarrow> unescape (concat (map (escape_char keeps) s)) = Some s"
  by (induction s) (simp_all add: unescape_escape_char)

lemma unescape_PathEscape: "unescape (PathEscape s) = Some s"
  unfolding PathEscape_def by (rule unescape_escape) (simp add: keeps_segment_def is_alnum_def)

lemma unescape_append:
  "unescape p = Some a \<Longrightarrow> unescape (p @ q) = map_option (\<lambda>r. a @ r) (unescape q)"
proof (induction p arbitrary: a rule: unescape.induct)
  case 1
  then show ?case by (simp add: option.map_id0 id_def [symmetric])
next
  case (2 c s)
  show ?case
  proof (cases "c = CHR ''%''")
    case True
    with 2(3) obtain x y t where s: "s = x # y # t" "is_hex x" "is_hex y"
      by (auto split: list.splits if_splits)
    with 2(3) True obtain r where r: "unescape t = Some r" "a = char_of (16 * unhex x + unhex y) # r"
      by auto
    from 2(1) [OF True s(1) refl _ r(1)] s r True show ?thesis
      by (cases "unescape q") auto
  next
    case False
    with 2(3) obtain r where r: "unescape s = Some r" "a = c # r" by auto
    from 2(2) [OF False r(1)] r False show ?thesis
      by (cases "unescape q") auto
  qed
qed

section \<open>The path of a well-formed location\<close>

lemma upper_hex_alnum: "n < 16 \<Longrightarrow> is_alnum (upper_hex n)"
  by (auto simp: is_alnum_def upper_hex_def Let_def of_char_of)

lemma PathEscape_chars: "c \<in> set (PathEscape s) \<Longrightarrow> c = CHR ''%'' \<or> keeps_segment c"
proof -
  assume "c \<in> set (PathEscape s)"
  then obtain d where d: "c \<in> set (escape_char keeps_segment d)"
    by (auto simp: PathEscape_def)
  with char_nibbles [of d] show ?thesis
    by (auto simp: escape_char_def keeps_segment_def upper_hex_alnum split: if_splits)
qed

lemma PathEscape_no_slash: "CHR ''/'' \<notin> set (PathEscape s)"
  using PathEscape_chars by (force simp: keeps_segment_def is_alnum_def)

lemma PathEscape_Nil [simp]: "PathEscape s = [] \<longleftrightarrow> s = []"
  by (cases s) (simp_all add: PathEscape_def escape_char_def)

lemma PathEscape_valid: "list_all validEncoded_char (PathEscape s)"
  using PathEscape_chars
  by (force simp: list_all_iff validEncoded_char_def keeps_path_def keeps_segment_def)

lemma EscapedPath_valid:
  "list_all validEncoded_char p \<Longrightarrow> unescape p = Some path \<Longrightarrow> path \<noteq> ''*'' \<Longrightarrow> EscapedPath p = Some p"
  by (auto simp: EscapedPath_def)

lemma validEncoded_plain:
  "validEncoded_char c \<Longrightarrow>
     c \<noteq> CHR ''?'' \<and> c \<noteq> CHR ''#'' \<and> \<not> (of_char c :: nat) < 32 \<and> (of_char c :: nat) \<noteq> 127"
  by (auto simp: validEncoded_char_def keeps_path_def is_alnum_def Let_def)

text \<open>What a location is made of: a scheme, an authority and a base path.\<close>

definition plain_scheme :: "string \<Rightarrow> bool" where
  "plain_scheme s \<longleftrightarrow> s \<noteq> [] \<and> (\<forall>c \<in> set s. 97 \<le> (of_char c :: nat) \<and> (of_char c :: nat) \<le> 122)"

definition plain_authority :: "string \<Rightarrow> bool" where
  "plain_authority a \<longleftrightarrow> (\<forall>c \<in> set a. c \<notin> set ''/?#'' \<and> 32 \<le> (of_char c :: nat) \<and> (of_char c :: nat) \<noteq> 127)"

definition plain_base :: "string \<Rightarrow> bool" where
  "plain_base b \<longleftrightarrow> (b = [] \<or> hd b = CHR ''/'') \<and> list_all validEncoded_char b \<and> unescape b \<noteq> None"

lemma getScheme_plain_loop:
  assumes "\<forall>c \<in> set s. 97 \<le> (of_char c :: nat) \<and> (of_char c :: nat) \<le> 122" and "seen @ s \<noteq> []"
  shows "getScheme_loop seen (s @ CHR '':'' # rest) = Some (seen @ s, rest)"
  using assms by (induction s arbitrary: seen) (simp_all add: Let_def)

lemma strings_Cut_absent: "c \<notin> set s \<Longrightarrow> strings_Cut c s = (s, [])"
  by (induction s) (auto simp: strings_Cut_def)

lemma parse_EscapedPath_plain:
  assumes sch: "plain_scheme sch" and auth: "plain_authority auth" "valid_authority auth"
    and p: "p = CHR ''/'' # p'" "list_all validEncoded_char p" "unescape p = Some path" "path \<noteq> ''*''"
  shows "parse_EscapedPath valid_authority (sch @ ''://'' @ auth @ p) = Some p"
proof -
  let ?u = "sch @ ''://'' @ auth @ p"
  have pc: "c \<in> set p \<Longrightarrow> c \<noteq> CHR ''?'' \<and> c \<noteq> CHR ''#'' \<and> 32 \<le> (of_char c :: nat) \<and> (of_char c :: nat) \<noteq> 127" for c
    using p(2) validEncoded_plain [of c] by (auto simp: list_all_iff)
  have sc: "c \<in> set sch \<Longrightarrow> c \<noteq> CHR ''#'' \<and> 32 \<le> (of_char c :: nat) \<and> (of_char c :: nat) \<noteq> 127" for c
    using sch by (auto simp: plain_scheme_def)
  have noh: "CHR ''#'' \<notin> set ?u"
    using sc pc auth(1) by (auto simp: plain_authority_def)
  have ctl: "\<not> has_ctl ?u"
    using sc pc auth(1) by (fastforce simp: has_ctl_def plain_authority_def)
  have star: "?u \<noteq> ''*''" using sch by (cases sch) (auto simp: plain_scheme_def)
  have scheme: "getScheme_loop [] ?u = Some (sch, ''//'' @ auth @ p)"
    using getScheme_plain_loop [of sch "[]" "''//'' @ auth @ p"] sch by (simp add: plain_scheme_def)
  have q: "CHR ''?'' \<notin> set (''//'' @ auth @ p)"
    using pc auth(1) by (auto simp: plain_authority_def)
  have nos: "\<forall>c \<in> set auth. c \<noteq> CHR ''/''" using auth(1) by (auto simp: plain_authority_def)
  then have tw: "takeWhile (\<lambda>x. x \<noteq> CHR ''/'') (auth @ p) = auth"
    "dropWhile (\<lambda>x. x \<noteq> CHR ''/'') (auth @ p) = p"
    by (simp_all add: p(1) takeWhile_append2 dropWhile_append2)
  have "url_path valid_authority sch (''//'' @ auth @ p) = EscapedPath p"
    using sch tw auth(2) by (simp add: url_path_def plain_scheme_def)
  with EscapedPath_valid [OF p(2-4)] show ?thesis
    using noh ctl star scheme q
    by (simp add: parse_EscapedPath_def strings_Cut_absent strip_query_def)
qed

end
