(* ===== verification/KcHttp.thy ===== *)
theory KcHttp
  imports KcTypes GoUrl
begin

text \<open>
  \<open>pkg/client/keycloakv2/error.go\<close> and \<open>http.go\<close>: the errors the client makes of HTTP answers,
  the predicates callers ask of them, and reading the id of a created resource from the
  \<open>Location\<close> header. Of the standard library: \<open>http.StatusText\<close>, decoding a JSON value into the
  two error structs, and \<open>net/url\<close>'s \<open>Parse\<close>, \<open>EscapedPath\<close> and \<open>PathUnescape\<close>.
\<close>

section \<open>Errors of the client\<close>

definition StatusTexts :: "(int \<times> string) list" where
  "StatusTexts =
    [(100, ''Continue''), (101, ''Switching Protocols''), (102, ''Processing''), (103, ''Early Hints''),
     (200, ''OK''), (201, ''Created''), (202, ''Accepted''), (203, ''Non-Authoritative Information''),
     (204, ''No Content''), (205, ''Reset Content''), (206, ''Partial Content''), (207, ''Multi-Status''),
     (208, ''Already Reported''), (226, ''IM Used''), (300, ''Multiple Choices''),
     (301, ''Moved Permanently''), (302, ''Found''), (303, ''See Other''), (304, ''Not Modified''),
     (305, ''Use Proxy''), (307, ''Temporary Redirect''), (308, ''Permanent Redirect''),
     (400, ''Bad Request''), (401, ''Unauthorized''), (402, ''Payment Required''), (403, ''Forbidden''),
     (404, ''Not Found''), (405, ''Method Not Allowed''), (406, ''Not Acceptable''),
     (407, ''Proxy Authentication Required''), (408, ''Request Timeout''), (409, ''Conflict''),
     (410, ''Gone''), (411, ''Length Required''), (412, ''Precondition Failed''),
     (413, ''Request Entity Too Large''), (414, ''Request URI Too Long''),
     (415, ''Unsupported Media Type''), (416, ''Requested Range Not Satisfiable''),
     (417, ''Expectation Failed''), (418, ''I'' @ [CHR 0x27] @ ''m a teapot''),
     (421, ''Misdirected Request''), (422, ''Unprocessable Entity''), (423, ''Locked''),
     (424, ''Failed Dependency''), (425, ''Too Early''), (426, ''Upgrade Required''),
     (428, ''Precondition Required''), (429, ''Too Many Requests''),
     (431, ''Request Header Fields Too Large''), (451, ''Unavailable For Legal Reasons''),
     (500, ''Internal Server Error''), (501, ''Not Implemented''), (502, ''Bad Gateway''),
     (503, ''Service Unavailable''), (504, ''Gateway Timeout''), (505, ''HTTP Version Not Supported''),
     (506, ''Variant Also Negotiates''), (507, ''Insufficient Storage''), (508, ''Loop Detected''),
     (510, ''Not Extended''), (511, ''Network Authentication Required'')]"

definition StatusText :: "int \<Rightarrow> string" where
  "StatusText code = (case map_of StatusTexts code of None \<Rightarrow> '''' | Some t \<Rightarrow> t)"

text \<open>
  Decoding a JSON value into a struct: a key matches a field whatever its case, the last match
  wins, \<open>null\<close> leaves the field as it was, a value of another type makes \<open>json.Unmarshal\<close> fail.
\<close>

definition json_keys :: "string \<Rightarrow> (string \<times> json) list \<Rightarrow> json list" where
  "json_keys name kvs = map snd (filter (\<lambda>(k, v). strings_ToLower k = strings_ToLower name) kvs)"

fun json_is_str :: "json \<Rightarrow> bool" where
  "json_is_str (JStr s) = True"
| "json_is_str JNull = True"
| "json_is_str _ = False"

fun json_last_str :: "json list \<Rightarrow> string option" where
  "json_last_str [] = None"
| "json_last_str (v # vs) = (case json_last_str vs of Some s \<Rightarrow> Some s
     | None \<Rightarrow> (case v of JStr s \<Rightarrow> Some s | _ \<Rightarrow> None))"

text \<open>The struct \<open>ErrorRepresentation\<close>: two strings, an array of anything, an array of itself.\<close>

fun json_is_params :: "json \<Rightarrow> bool" where
  "json_is_params (JArr vs) = True"
| "json_is_params JNull = True"
| "json_is_params _ = False"

function (sequential) decodes_ErrorRepresentation :: "json \<Rightarrow> bool" where
  "decodes_ErrorRepresentation (JObj kvs) = (
     list_all json_is_str (json_keys ''errorMessage'' kvs) \<and>
     list_all json_is_str (json_keys ''field'' kvs) \<and>
     list_all json_is_params (json_keys ''params'' kvs) \<and>
     (\<forall>v \<in> set (json_keys ''errors'' kvs).
        (case v of JArr vs \<Rightarrow> (\<forall>x \<in> set vs. decodes_ErrorRepresentation x) | JNull \<Rightarrow> True | _ \<Rightarrow> False)))"
| "decodes_ErrorRepresentation JNull = True"
| "decodes_ErrorRepresentation _ = False"
  by pat_completeness auto
termination
proof (relation "measure size", goal_cases)
  case 1
  show ?case by simp
next
  case (2 kvs v vs x)
  from 2(1) obtain k where "(k, JArr vs) \<in> set kvs"
    by (auto simp: json_keys_def 2(2))
  then have "size (JArr vs) < size (JObj kvs)"
    by (induction kvs) auto
  moreover from 2(3) have "size x < size (JArr vs)"
    by (induction vs) auto
  ultimately show ?case by simp
qed

definition ErrorRepresentation_ErrorMessage :: "json \<Rightarrow> string option" where
  "ErrorRepresentation_ErrorMessage v = (case v of
     JObj kvs \<Rightarrow> if decodes_ErrorRepresentation v then json_last_str (json_keys ''errorMessage'' kvs) else None
   | _ \<Rightarrow> None)"

definition simpleErr_Error :: "json \<Rightarrow> string option" where
  "simpleErr_Error v = (case v of
     JObj kvs \<Rightarrow> if list_all json_is_str (json_keys ''error'' kvs) then json_last_str (json_keys ''error'' kvs) else None
   | _ \<Rightarrow> None)"

definition parseKeycloakError :: "int \<Rightarrow> http_body \<Rightarrow> int \<times> string" where
  "parseKeycloakError statusCode body =
     (case Option.bind (body_json body) ErrorRepresentation_ErrorMessage of
        Some m \<Rightarrow> (statusCode, m)
      | None \<Rightarrow>
        (case Option.bind (body_json body) simpleErr_Error of
           Some m \<Rightarrow> if m \<noteq> '''' then (statusCode, m)
                     else (statusCode, StatusText statusCode @
                       (if body_text body \<noteq> '''' \<and> length (body_text body) < 1024
                        then '': '' @ body_text body else ''''))
         | None \<Rightarrow> (statusCode, StatusText statusCode @
                       (if body_text body \<noteq> '''' \<and> length (body_text body) < 1024
                        then '': '' @ body_text body else ''''))))"

definition checkResponseError :: "http_response option \<Rightarrow> http_body \<Rightarrow> go_error option" where
  "checkResponseError httpResp body = (case httpResp of
     None \<Rightarrow> None
   | Some r \<Rightarrow> if rsp_StatusCode r \<ge> 200 \<and> rsp_StatusCode r < 300 then None
       else (case parseKeycloakError (rsp_StatusCode r) body of (code, msg) \<Rightarrow> Some (ApiError code msg)))"

lemma checkResponseError_None:
  "checkResponseError (Some r) body = None \<longleftrightarrow> 200 \<le> rsp_StatusCode r \<and> rsp_StatusCode r < 300"
  by (auto simp: checkResponseError_def split: prod.splits)

lemma parseKeycloakError_code: "fst (parseKeycloakError code body) = code"
  by (simp add: parseKeycloakError_def split: option.split)

lemma checkResponseError_Some:
  "checkResponseError (Some r) body = Some e \<Longrightarrow> \<exists>msg. e = ApiError (rsp_StatusCode r) msg"
  using parseKeycloakError_code [of "rsp_StatusCode r" body]
  by (auto simp: checkResponseError_def split: prod.splits if_splits)

definition IsNotFound :: "go_error \<Rightarrow> bool" where
  "IsNotFound err = (if errors_Is err ErrNotFound then True
     else case errors_As as_ApiError err of Some (code, msg) \<Rightarrow> code = 404 | None \<Rightarrow> False)"

definition IsConflict :: "go_error \<Rightarrow> bool" where
  "IsConflict err = (case errors_As as_ApiError err of Some (code, msg) \<Rightarrow> code = 409 | None \<Rightarrow> False)"

definition IsClientError :: "go_error \<Rightarrow> bool" where
  "IsClientError err = (case errors_As as_ApiError err of
     Some (code, msg) \<Rightarrow> code \<ge> 400 \<and> code < 500 | None \<Rightarrow> False)"

definition IsServerError :: "go_error \<Rightarrow> bool" where
  "IsServerError err = (case errors_As as_ApiError err of
     Some (code, msg) \<Rightarrow> code \<ge> 500 | None \<Rightarrow> False)"

lemma errors_As_ApiError [simp]:
  "errors_As as_ApiError (Wrapped pre e) = errors_As as_ApiError e"
  "errors_As as_ApiError (ApiError c m) = Some (c, m)"
  "errors_As as_ApiError (NewError t) = None"
  "errors_As as_ApiError (Sentinel x) = None"
  "errors_As as_ApiError (StatusError r c m) = None"
  by (simp_all add: errors_As_def)

lemma IsNotFound_simps [simp]:
  "IsNotFound (Wrapped pre e) = IsNotFound e"
  "IsNotFound (ApiError c m) = (c = 404)"
  "IsNotFound (NewError t) = False"
  "IsNotFound (Sentinel x) = (x = ErrNotFound)"
  "IsNotFound (StatusError r c m) = False"
  by (auto simp: IsNotFound_def)

section \<open>The id of a created resource\<close>

record Response =
  rp_Body :: http_body
  rp_HTTPResponse :: "http_response option"

definition GetResourceIDFromResponse :: "'w env \<Rightarrow> Response option \<Rightarrow> string" where
  "GetResourceIDFromResponse env resp = (case resp of
     None \<Rightarrow> ''''
   | Some rs \<Rightarrow> (case rp_HTTPResponse rs of
       None \<Rightarrow> ''''
     | Some h \<Rightarrow>
        if rsp_Location h = '''' then ''''
        else (case parse_EscapedPath (url_valid_authority env) (rsp_Location h) of
           None \<Rightarrow> ''''
         | Some ep \<Rightarrow>
            (let lastSegment = last (strings_Split (CHR ''/'') (strings_TrimRight ep (CHR ''/'')))
             in if lastSegment = '''' then ''''
                else (case unescape lastSegment of None \<Rightarrow> lastSegment | Some decoded \<Rightarrow> decoded)))))"

lemma strings_Split_no_sep: "sep \<notin> set s \<Longrightarrow> strings_Split sep s = [s]"
  by (induction s) auto

lemma strings_Split_not_Nil [simp]: "strings_Split sep s \<noteq> []"
  by (induction s) (auto split: list.splits)

lemma strings_Split_append: "strings_Split sep (s @ sep # t) = strings_Split sep s @ strings_Split sep t"
  by (induction s) (auto split: list.splits)

lemma last_strings_Split: "sep \<notin> set t \<Longrightarrow> last (strings_Split sep (s @ sep # t)) = t"
  by (simp add: strings_Split_append strings_Split_no_sep)

lemma strings_TrimRight_id: "s \<noteq> [] \<Longrightarrow> last s \<noteq> c \<Longrightarrow> strings_TrimRight s c = s"
proof (induction s rule: rev_induct)
  case (snoc x s)
  then show ?case by (simp add: strings_TrimRight_def)
qed simp

text \<open>
  C40. The id of a created resource is read back exactly: for every location made of a scheme,
  an authority \<open>net/url\<close> accepts, a well-formed base path and the percent-escaped id as the last
  segment, \<open>GetResourceIDFromResponse\<close> returns the id, whatever bytes it consists of.
\<close>

theorem GetResourceID_roundtrip:
  assumes "plain_scheme sch" and "plain_authority auth" and "url_valid_authority env auth"
    and "plain_base base" and "ident \<noteq> ''''"
  shows "GetResourceIDFromResponse env (Some \<lparr>rp_Body = b, rp_HTTPResponse = Some
           \<lparr>rsp_StatusCode = code,
            rsp_Location = sch @ ''://'' @ auth @ base @ ''/'' @ PathEscape ident\<rparr>\<rparr>) = ident"
proof -
  let ?p = "base @ CHR ''/'' # PathEscape ident"
  from assms(4) obtain b0 where b0: "unescape base = Some b0" by (auto simp: plain_base_def)
  have unesc: "unescape ?p = Some (b0 @ CHR ''/'' # ident)"
    using unescape_append [OF b0, of "CHR ''/'' # PathEscape ident"]
    by (simp add: unescape_PathEscape)
  have valid: "list_all validEncoded_char ?p"
    using assms(4) PathEscape_valid [of ident]
    by (simp add: plain_base_def validEncoded_char_def keeps_path_def)
  obtain p' where p': "?p = CHR ''/'' # p'"
    using assms(4) by (cases base) (auto simp: plain_base_def)
  have star: "b0 @ CHR ''/'' # ident \<noteq> ''*''"
    using assms(5) by (cases b0) auto
  have parsed: "parse_EscapedPath (url_valid_authority env) (sch @ ''://'' @ auth @ ?p) = Some ?p"
    using parse_EscapedPath_plain [where valid_authority = "url_valid_authority env",
        OF assms(1-3) p' valid unesc star] .
  have nonempty: "PathEscape ident \<noteq> []" using assms(5) by simp
  have "last (PathEscape ident) \<noteq> CHR ''/''"
    using nonempty PathEscape_no_slash [of ident] last_in_set by metis
  with nonempty have "strings_TrimRight ?p (CHR ''/'') = ?p"
    by (intro strings_TrimRight_id) auto
  then have "last (strings_Split (CHR ''/'') (strings_TrimRight ?p (CHR ''/''))) = PathEscape ident"
    using last_strings_Split [OF PathEscape_no_slash] by simp
  with parsed nonempty show ?thesis
    by (simp add: GetResourceIDFromResponse_def unescape_PathEscape Let_def)
qed

theorem GetResourceID_roundtrip_witness:
  "GetResourceIDFromResponse (idle_env :: unit env) (Some \<lparr>rp_Body = \<lparr>body_text = '''', body_json = None\<rparr>,
     rp_HTTPResponse = Some \<lparr>rsp_StatusCode = 201,
       rsp_Location = ''http'' @ ''://'' @ ''localhost:8086'' @ ''/admin/realms/test/groups'' @ ''/'' @ PathEscape ''a/b c''\<rparr>\<rparr>)
   = ''a/b c''"
  by (rule GetResourceID_roundtrip)
    (simp_all add: plain_scheme_def plain_authority_def plain_base_def idle_env_def
      validEncoded_char_def keeps_path_def is_alnum_def)

end
