(* ===== verification/KcClients.thy ===== *)
theory KcClients
  imports KcHttp
begin

text \<open>
  The typed methods of \<open>pkg/client/keycloakv2\<close> (\<open>users.go\<close>, \<open>groups.go\<close>, \<open>roles.go\<close>,
  \<open>clients.go\<close>, \<open>realm.go\<close>, \<open>identity_providers.go\<close>).

  Every method sends one request through the generated client and treats the answer the same
  way (\<open>sendRequest\<close>): a transport error is returned, a nil answer is \<open>ErrNilResponse\<close>, a status
  outside 2xx is the \<open>ApiError\<close> of \<open>checkResponseError\<close>. It then returns the raw response, the
  decoded body (nil gives an empty list) or a pointer to it. The \<open>Response\<close> that accompanies an
  error is left out: no caller reads it. Names of methods that clash with names of the
  controllers carry the prefix \<open>client_\<close>.
\<close>

section \<open>The common part\<close>

definition mk_request :: "http_method \<Rightarrow> string list \<Rightarrow> (string \<times> string) list \<Rightarrow> payload \<Rightarrow> http_request" where
  "mk_request m path query body = \<lparr>rq_method = m, rq_path = path, rq_query = query, rq_body = body\<rparr>"

lemma mk_request_simps [simp]:
  "rq_method (mk_request m p q b) = m"
  "rq_path (mk_request m p q b) = p"
  "rq_query (mk_request m p q b) = q"
  "rq_body (mk_request m p q b) = b"
  by (simp_all add: mk_request_def)

definition realm_path :: "string \<Rightarrow> string list \<Rightarrow> string list" where
  "realm_path realm rest = ''admin'' # ''realms'' # realm # rest"

definition sendRequest :: "'w env \<Rightarrow> kc_client \<Rightarrow> http_request \<Rightarrow> ('w, 'm, http_result) prog" where
  "sendRequest env c req =
     bindIO (callIO (Http c req) (kc_http env c req)) (\<lambda>res. case res of
        None \<Rightarrow> fail (Sentinel ErrNilResponse)
      | Some r \<Rightarrow> (case checkResponseError (hr_HTTPResponse r) (hr_Body r) of
          Some e \<Rightarrow> fail e
        | None \<Rightarrow> ret r))"

definition response_of :: "http_result \<Rightarrow> Response" where
  "response_of r = \<lparr>rp_Body = hr_Body r, rp_HTTPResponse = hr_HTTPResponse r\<rparr>"

text \<open>\<open>res.JSON200\<close> at the type the generated method declares.\<close>

definition json_users :: "http_result \<Rightarrow> (UserRepresentation list) option" where
  "json_users r = (case hr_JSON200 r of Some (UsersB x) \<Rightarrow> Some x | _ \<Rightarrow> None)"

definition json_roles :: "http_result \<Rightarrow> (RoleRepresentation list) option" where
  "json_roles r = (case hr_JSON200 r of Some (RolesB x) \<Rightarrow> Some x | _ \<Rightarrow> None)"

definition json_role :: "http_result \<Rightarrow> RoleRepresentation option" where
  "json_role r = (case hr_JSON200 r of Some (RoleB x) \<Rightarrow> Some x | _ \<Rightarrow> None)"

definition json_groups :: "http_result \<Rightarrow> (GroupRepresentation list) option" where
  "json_groups r = (case hr_JSON200 r of Some (GroupsB x) \<Rightarrow> Some x | _ \<Rightarrow> None)"

definition json_group :: "http_result \<Rightarrow> GroupRepresentation option" where
  "json_group r = (case hr_JSON200 r of Some (GroupB x) \<Rightarrow> Some x | _ \<Rightarrow> None)"

definition json_mappings :: "http_result \<Rightarrow> MappingsRepresentation option" where
  "json_mappings r = (case hr_JSON200 r of Some (MappingsB x) \<Rightarrow> Some x | _ \<Rightarrow> None)"

definition json_clients :: "http_result \<Rightarrow> (ClientRepresentation list) option" where
  "json_clients r = (case hr_JSON200 r of Some (ClientsB x) \<Rightarrow> Some x | _ \<Rightarrow> None)"

definition json_client :: "http_result \<Rightarrow> ClientRepresentation option" where
  "json_client r = (case hr_JSON200 r of Some (ClientB x) \<Rightarrow> Some x | _ \<Rightarrow> None)"

definition json_realm :: "http_result \<Rightarrow> RealmRepresentation option" where
  "json_realm r = (case hr_JSON200 r of Some (RealmB x) \<Rightarrow> Some x | _ \<Rightarrow> None)"

definition json_texts :: "http_result \<Rightarrow> (string gomap) option" where
  "json_texts r = (case hr_JSON200 r of Some (TextsB x) \<Rightarrow> Some x | _ \<Rightarrow> None)"

definition json_feds :: "http_result \<Rightarrow> (FederatedIdentityRepresentation list) option" where
  "json_feds r = (case hr_JSON200 r of Some (FedsB x) \<Rightarrow> Some x | _ \<Rightarrow> None)"

definition json_profile :: "http_result \<Rightarrow> UPConfig option" where
  "json_profile r = (case hr_JSON200 r of Some (ProfileB x) \<Rightarrow> Some x | _ \<Rightarrow> None)"

definition json_idp :: "http_result \<Rightarrow> IdentityProviderRepresentation option" where
  "json_idp r = (case hr_JSON200 r of Some (IdpB x) \<Rightarrow> Some x | _ \<Rightarrow> None)"

definition json_idps :: "http_result \<Rightarrow> (IdentityProviderRepresentation list) option" where
  "json_idps r = (case hr_JSON200 r of Some (IdpsB x) \<Rightarrow> Some x | _ \<Rightarrow> None)"

section \<open>\<open>users.go\<close>\<close>

definition GetUsersProfile :: "'w env \<Rightarrow> kc_client \<Rightarrow> string \<Rightarrow> ('w, 'm, UPConfig option) prog" where
  "GetUsersProfile env c realm =
     bindIO (sendRequest env c (mk_request GET (realm_path realm [''users'', ''profile'']) [] NoBody)) (\<lambda>r. ret (json_profile r))"

definition UpdateUsersProfile :: "'w env \<Rightarrow> kc_client \<Rightarrow> string \<Rightarrow> UPConfig \<Rightarrow> ('w, 'm, UPConfig option) prog" where
  "UpdateUsersProfile env c realm userProfile =
     bindIO (sendRequest env c (mk_request PUT (realm_path realm [''users'', ''profile'']) [] (ProfileB userProfile))) (\<lambda>r. ret (json_profile r))"

definition FindUserByUsername :: "'w env \<Rightarrow> kc_client \<Rightarrow> string \<Rightarrow> string \<Rightarrow> ('w, 'm, UserRepresentation) prog" where
  "FindUserByUsername env c realm username =
     bindIO (sendRequest env c (mk_request GET (realm_path realm [''users''])
               [(''username'', username), (''exact'', ''true'')] NoBody))
       (\<lambda>r. case json_users r of
          None \<Rightarrow> fail (Sentinel ErrNotFound)
        | Some us \<Rightarrow> (case us of [] \<Rightarrow> fail (Sentinel ErrNotFound) | u # _ \<Rightarrow> ret u))"

definition CreateUser :: "'w env \<Rightarrow> kc_client \<Rightarrow> string \<Rightarrow> UserRepresentation \<Rightarrow> ('w, 'm, Response) prog" where
  "CreateUser env c realm user =
     bindIO (sendRequest env c (mk_request POST (realm_path realm [''users'']) [] (UserB user))) (\<lambda>r. ret (response_of r))"

definition GetUserRealmRoleMappings :: "'w env \<Rightarrow> kc_client \<Rightarrow> string \<Rightarrow> string \<Rightarrow> ('w, 'm, RoleRepresentation list) prog" where
  "GetUserRealmRoleMappings env c realm userID =
     bindIO (sendRequest env c (mk_request GET (realm_path realm [''users'', userID, ''role-mappings'', ''realm'']) [] NoBody))
       (\<lambda>r. ret (case json_roles r of None \<Rightarrow> [] | Some xs \<Rightarrow> xs))"

definition AddUserRealmRoles :: "'w env \<Rightarrow> kc_client \<Rightarrow> string \<Rightarrow> string \<Rightarrow> RoleRepresentation list \<Rightarrow> ('w, 'm, Response) prog" where
  "AddUserRealmRoles env c realm userID roles =
     bindIO (sendRequest env c (mk_request POST (realm_path realm [''users'', userID, ''role-mappings'', ''realm'']) [] (RolesB roles))) (\<lambda>r. ret (response_of r))"

definition GetUserGroups :: "'w env \<Rightarrow> kc_client \<Rightarrow> string \<Rightarrow> string \<Rightarrow> ('w, 'm, GroupRepresentation list) prog" where
  "GetUserGroups env c realm userID =
     bindIO (sendRequest env c (mk_request GET (realm_path realm [''users'', userID, ''groups'']) [] NoBody))
       (\<lambda>r. ret (case json_groups r of None \<Rightarrow> [] | Some xs \<Rightarrow> xs))"

definition AddUserToGroup :: "'w env \<Rightarrow> kc_client \<Rightarrow> string \<Rightarrow> string \<Rightarrow> string \<Rightarrow> ('w, 'm, Response) prog" where
  "AddUserToGroup env c realm userID groupID =
     bindIO (sendRequest env c (mk_request PUT (realm_path realm [''users'', userID, ''groups'', groupID]) [] NoBody)) (\<lambda>r. ret (response_of r))"

definition RemoveUserFromGroup :: "'w env \<Rightarrow> kc_client \<Rightarrow> string \<Rightarrow> string \<Rightarrow> string \<Rightarrow> ('w, 'm, Response) prog" where
  "RemoveUserFromGroup env c realm userID groupID =
     bindIO (sendRequest env c (mk_request DELETE (realm_path realm [''users'', userID, ''groups'', groupID]) [] NoBody)) (\<lambda>r. ret (response_of r))"

definition UpdateUser :: "'w env \<Rightarrow> kc_client \<Rightarrow> string \<Rightarrow> string \<Rightarrow> UserRepresentation \<Rightarrow> ('w, 'm, Response) prog" where
  "UpdateUser env c realm userID user =
     bindIO (sendRequest env c (mk_request PUT (realm_path realm [''users'', userID]) [] (UserB user))) (\<lambda>r. ret (response_of r))"

definition DeleteUser :: "'w env \<Rightarrow> kc_client \<Rightarrow> string \<Rightarrow> string \<Rightarrow> ('w, 'm, Response) prog" where
  "DeleteUser env c realm userID =
     bindIO (sendRequest env c (mk_request DELETE (realm_path realm [''users'', userID]) [] NoBody)) (\<lambda>r. ret (response_of r))"

definition client_SetUserPassword :: "'w env \<Rightarrow> kc_client \<Rightarrow> string \<Rightarrow> string \<Rightarrow> CredentialRepresentation \<Rightarrow> ('w, 'm, Response) prog" where
  "client_SetUserPassword env c realm userID cred =
     bindIO (sendRequest env c (mk_request PUT (realm_path realm [''users'', userID, ''reset-password'']) [] (CredB cred))) (\<lambda>r. ret (response_of r))"

definition DeleteUserRealmRoles :: "'w env \<Rightarrow> kc_client \<Rightarrow> string \<Rightarrow> string \<Rightarrow> RoleRepresentation list \<Rightarrow> ('w, 'm, Response) prog" where
  "DeleteUserRealmRoles env c realm userID roles =
     bindIO (sendRequest env c (mk_request DELETE (realm_path realm [''users'', userID, ''role-mappings'', ''realm'']) [] (RolesB roles))) (\<lambda>r. ret (response_of r))"

definition GetUserClientRoleMappings :: "'w env \<Rightarrow> kc_client \<Rightarrow> string \<Rightarrow> string \<Rightarrow> string \<Rightarrow> ('w, 'm, RoleRepresentation list) prog" where
  "GetUserClientRoleMappings env c realm userID clientID =
     bindIO (sendRequest env c (mk_request GET (realm_path realm [''users'', userID, ''role-mappings'', ''clients'', clientID]) [] NoBody))
       (\<lambda>r. ret (case json_roles r of None \<Rightarrow> [] | Some xs \<Rightarrow> xs))"

definition AddUserClientRoles :: "'w env \<Rightarrow> kc_client \<Rightarrow> string \<Rightarrow> string \<Rightarrow> string \<Rightarrow> RoleRepresentation list \<Rightarrow> ('w, 'm, Response) prog" where
  "AddUserClientRoles env c realm userID clientID roles =
     bindIO (sendRequest env c (mk_request POST (realm_path realm [''users'', userID, ''role-mappings'', ''clients'', clientID]) [] (RolesB roles))) (\<lambda>r. ret (response_of r))"

definition DeleteUserClientRoles :: "'w env \<Rightarrow> kc_client \<Rightarrow> string \<Rightarrow> string \<Rightarrow> string \<Rightarrow> RoleRepresentation list \<Rightarrow> ('w, 'm, Response) prog" where
  "DeleteUserClientRoles env c realm userID clientID roles =
     bindIO (sendRequest env c (mk_request DELETE (realm_path realm [''users'', userID, ''role-mappings'', ''clients'', clientID]) [] (RolesB roles))) (\<lambda>r. ret (response_of r))"

definition GetUserFederatedIdentities :: "'w env \<Rightarrow> kc_client \<Rightarrow> string \<Rightarrow> string \<Rightarrow> ('w, 'm, FederatedIdentityRepresentation list) prog" where
  "GetUserFederatedIdentities env c realm userID =
     bindIO (sendRequest env c (mk_request GET (realm_path realm [''users'', userID, ''federated-identity'']) [] NoBody))
       (\<lambda>r. ret (case json_feds r of None \<Rightarrow> [] | Some xs \<Rightarrow> xs))"

definition CreateUserFederatedIdentity :: "'w env \<Rightarrow> kc_client \<Rightarrow> string \<Rightarrow> string \<Rightarrow> string \<Rightarrow> FederatedIdentityRepresentation \<Rightarrow> ('w, 'm, Response) prog" where
  "CreateUserFederatedIdentity env c realm userID provider identity =
     bindIO (sendRequest env c (mk_request POST (realm_path realm [''users'', userID, ''federated-identity'', provider]) [] (FedB identity))) (\<lambda>r. ret (response_of r))"

definition DeleteUserFederatedIdentity :: "'w env \<Rightarrow> kc_client \<Rightarrow> string \<Rightarrow> string \<Rightarrow> string \<Rightarrow> ('w, 'm, Response) prog" where
  "DeleteUserFederatedIdentity env c realm userID provider =
     bindIO (sendRequest env c (mk_request DELETE (realm_path realm [''users'', userID, ''federated-identity'', provider]) [] NoBody)) (\<lambda>r. ret (response_of r))"

section \<open>\<open>groups.go\<close>\<close>

definition GetGroups :: "'w env \<Rightarrow> kc_client \<Rightarrow> string \<Rightarrow> (string \<times> string) list \<Rightarrow> ('w, 'm, GroupRepresentation list) prog" where
  "GetGroups env c realm params =
     bindIO (sendRequest env c (mk_request GET (realm_path realm [''groups'']) params NoBody))
       (\<lambda>r. ret (case json_groups r of None \<Rightarrow> [] | Some xs \<Rightarrow> xs))"

definition GetGroup :: "'w env \<Rightarrow> kc_client \<Rightarrow> string \<Rightarrow> string \<Rightarrow> ('w, 'm, GroupRepresentation option) prog" where
  "GetGroup env c realm groupID =
     bindIO (sendRequest env c (mk_request GET (realm_path realm [''groups'', groupID]) [] NoBody)) (\<lambda>r. ret (json_group r))"

definition CreateGroup :: "'w env \<Rightarrow> kc_client \<Rightarrow> string \<Rightarrow> GroupRepresentation \<Rightarrow> ('w, 'm, Response) prog" where
  "CreateGroup env c realm grp =
     bindIO (sendRequest env c (mk_request POST (realm_path realm [''groups'']) [] (GroupB grp))) (\<lambda>r. ret (response_of r))"

definition UpdateGroup :: "'w env \<Rightarrow> kc_client \<Rightarrow> string \<Rightarrow> string \<Rightarrow> GroupRepresentation \<Rightarrow> ('w, 'm, Response) prog" where
  "UpdateGroup env c realm groupID grp =
     bindIO (sendRequest env c (mk_request PUT (realm_path realm [''groups'', groupID]) [] (GroupB grp))) (\<lambda>r. ret (response_of r))"

definition client_DeleteGroup :: "'w env \<Rightarrow> kc_client \<Rightarrow> string \<Rightarrow> string \<Rightarrow> ('w, 'm, Response) prog" where
  "client_DeleteGroup env c realm groupID =
     bindIO (sendRequest env c (mk_request DELETE (realm_path realm [''groups'', groupID]) [] NoBody)) (\<lambda>r. ret (response_of r))"

definition GetChildGroups :: "'w env \<Rightarrow> kc_client \<Rightarrow> string \<Rightarrow> string \<Rightarrow> (string \<times> string) list \<Rightarrow> ('w, 'm, GroupRepresentation list) prog" where
  "GetChildGroups env c realm groupID params =
     bindIO (sendRequest env c (mk_request GET (realm_path realm [''groups'', groupID, ''children'']) params NoBody))
       (\<lambda>r. ret (case json_groups r of None \<Rightarrow> [] | Some xs \<Rightarrow> xs))"

definition CreateChildGroup :: "'w env \<Rightarrow> kc_client \<Rightarrow> string \<Rightarrow> string \<Rightarrow> GroupRepresentation \<Rightarrow> ('w, 'm, Response) prog" where
  "CreateChildGroup env c realm parentGroupID grp =
     bindIO (sendRequest env c (mk_request POST (realm_path realm [''groups'', parentGroupID, ''children'']) [] (GroupB grp))) (\<lambda>r. ret (response_of r))"

fun findGroupInList :: "GroupRepresentation list \<Rightarrow> string \<Rightarrow> GroupRepresentation option" where
  "findGroupInList [] name = None"
| "findGroupInList (g # gs) name = (if gp_Name g = Some name then Some g else findGroupInList gs name)"

definition FindGroupByName :: "'w env \<Rightarrow> kc_client \<Rightarrow> string \<Rightarrow> string \<Rightarrow> ('w, 'm, GroupRepresentation) prog" where
  "FindGroupByName env c realm groupName =
     bindIO (sendRequest env c (mk_request GET (realm_path realm [''groups''])
               [(''search'', groupName), (''exact'', ''true'')] NoBody))
       (\<lambda>r. case json_groups r of
          None \<Rightarrow> fail (Sentinel ErrNotFound)
        | Some gs \<Rightarrow> (case findGroupInList gs groupName of
            None \<Rightarrow> fail (Sentinel ErrNotFound) | Some g \<Rightarrow> ret g))"

definition FindChildGroupByName :: "'w env \<Rightarrow> kc_client \<Rightarrow> string \<Rightarrow> string \<Rightarrow> string \<Rightarrow> ('w, 'm, GroupRepresentation) prog" where
  "FindChildGroupByName env c realm parentGroupID groupName =
     bindIO (sendRequest env c (mk_request GET (realm_path realm [''groups'', parentGroupID, ''children''])
               [(''search'', groupName), (''exact'', ''true'')] NoBody))
       (\<lambda>r. case json_groups r of
          None \<Rightarrow> fail (Sentinel ErrNotFound)
        | Some gs \<Rightarrow> (case findGroupInList gs groupName of
            None \<Rightarrow> fail (Sentinel ErrNotFound) | Some g \<Rightarrow> ret g))"

definition GetRoleMappings :: "'w env \<Rightarrow> kc_client \<Rightarrow> string \<Rightarrow> string \<Rightarrow> ('w, 'm, MappingsRepresentation option) prog" where
  "GetRoleMappings env c realm groupID =
     bindIO (sendRequest env c (mk_request GET (realm_path realm [''groups'', groupID, ''role-mappings'']) [] NoBody)) (\<lambda>r. ret (json_mappings r))"

definition GetRealmRoleMappings :: "'w env \<Rightarrow> kc_client \<Rightarrow> string \<Rightarrow> string \<Rightarrow> ('w, 'm, RoleRepresentation list) prog" where
  "GetRealmRoleMappings env c realm groupID =
     bindIO (sendRequest env c (mk_request GET (realm_path realm [''groups'', groupID, ''role-mappings'', ''realm'']) [] NoBody))
       (\<lambda>r. ret (case json_roles r of None \<Rightarrow> [] | Some xs \<Rightarrow> xs))"

definition AddRealmRoleMappings :: "'w env \<Rightarrow> kc_client \<Rightarrow> string \<Rightarrow> string \<Rightarrow> RoleRepresentation list \<Rightarrow> ('w, 'm, Response) prog" where
  "AddRealmRoleMappings env c realm groupID roles =
     bindIO (sendRequest env c (mk_request POST (realm_path realm [''groups'', groupID, ''role-mappings'', ''realm'']) [] (RolesB roles))) (\<lambda>r. ret (response_of r))"

definition DeleteRealmRoleMappings :: "'w env \<Rightarrow> kc_client \<Rightarrow> string \<Rightarrow> string \<Rightarrow> RoleRepresentation list \<Rightarrow> ('w, 'm, Response) prog" where
  "DeleteRealmRoleMappings env c realm groupID roles =
     bindIO (sendRequest env c (mk_request DELETE (realm_path realm [''groups'', groupID, ''role-mappings'', ''realm'']) [] (RolesB roles))) (\<lambda>r. ret (response_of r))"

definition GetClientRoleMappings :: "'w env \<Rightarrow> kc_client \<Rightarrow> string \<Rightarrow> string \<Rightarrow> string \<Rightarrow> ('w, 'm, RoleRepresentation list) prog" where
  "GetClientRoleMappings env c realm groupID clientID =
     bindIO (sendRequest env c (mk_request GET (realm_path realm [''groups'', groupID, ''role-mappings'', ''clients'', clientID]) [] NoBody))
       (\<lambda>r. ret (case json_roles r of None \<Rightarrow> [] | Some xs \<Rightarrow> xs))"

definition AddClientRoleMappings :: "'w env \<Rightarrow> kc_client \<Rightarrow> string \<Rightarrow> string \<Rightarrow> string \<Rightarrow> RoleRepresentation list \<Rightarrow> ('w, 'm, Response) prog" where
  "AddClientRoleMappings env c realm groupID clientID roles =
     bindIO (sendRequest env c (mk_request POST (realm_path realm [''groups'', groupID, ''role-mappings'', ''clients'', clientID]) [] (RolesB roles))) (\<lambda>r. ret (response_of r))"

definition DeleteClientRoleMappings :: "'w env \<Rightarrow> kc_client \<Rightarrow> string \<Rightarrow> string \<Rightarrow> string \<Rightarrow> RoleRepresentation list \<Rightarrow> ('w, 'm, Response) prog" where
  "DeleteClientRoleMappings env c realm groupID clientID roles =
     bindIO (sendRequest env c (mk_request DELETE (realm_path realm [''groups'', groupID, ''role-mappings'', ''clients'', clientID]) [] (RolesB roles))) (\<lambda>r. ret (response_of r))"

definition GetGroupByPath :: "'w env \<Rightarrow> kc_client \<Rightarrow> string \<Rightarrow> string \<Rightarrow> ('w, 'm, GroupRepresentation option) prog" where
  "GetGroupByPath env c realm path =
     bindIO (sendRequest env c (mk_request GET (realm_path realm [''group-by-path'', path]) [] NoBody)) (\<lambda>r. ret (json_group r))"

section \<open>\<open>roles.go\<close>\<close>

definition GetRealmRoles :: "'w env \<Rightarrow> kc_client \<Rightarrow> string \<Rightarrow> (string \<times> string) list \<Rightarrow> ('w, 'm, RoleRepresentation list) prog" where
  "GetRealmRoles env c realm params =
     bindIO (sendRequest env c (mk_request GET (realm_path realm [''roles'']) params NoBody))
       (\<lambda>r. ret (case json_roles r of None \<Rightarrow> [] | Some xs \<Rightarrow> xs))"

definition GetRealmRole :: "'w env \<Rightarrow> kc_client \<Rightarrow> string \<Rightarrow> string \<Rightarrow> ('w, 'm, RoleRepresentation option) prog" where
  "GetRealmRole env c realm roleName =
     bindIO (sendRequest env c (mk_request GET (realm_path realm [''roles'', roleName]) [] NoBody)) (\<lambda>r. ret (json_role r))"

definition CreateRealmRole :: "'w env \<Rightarrow> kc_client \<Rightarrow> string \<Rightarrow> RoleRepresentation \<Rightarrow> ('w, 'm, Response) prog" where
  "CreateRealmRole env c realm role =
     bindIO (sendRequest env c (mk_request POST (realm_path realm [''roles'']) [] (RoleB role))) (\<lambda>r. ret (response_of r))"

definition DeleteRealmRole :: "'w env \<Rightarrow> kc_client \<Rightarrow> string \<Rightarrow> string \<Rightarrow> ('w, 'm, Response) prog" where
  "DeleteRealmRole env c realm roleName =
     bindIO (sendRequest env c (mk_request DELETE (realm_path realm [''roles'', roleName]) [] NoBody)) (\<lambda>r. ret (response_of r))"

definition UpdateRealmRole :: "'w env \<Rightarrow> kc_client \<Rightarrow> string \<Rightarrow> string \<Rightarrow> RoleRepresentation \<Rightarrow> ('w, 'm, Response) prog" where
  "UpdateRealmRole env c realm roleName role =
     bindIO (sendRequest env c (mk_request PUT (realm_path realm [''roles'', roleName]) [] (RoleB role))) (\<lambda>r. ret (response_of r))"

definition GetRealmRoleComposites :: "'w env \<Rightarrow> kc_client \<Rightarrow> string \<Rightarrow> string \<Rightarrow> ('w, 'm, RoleRepresentation list) prog" where
  "GetRealmRoleComposites env c realm roleName =
     bindIO (sendRequest env c (mk_request GET (realm_path realm [''roles'', roleName, ''composites'']) [] NoBody))
       (\<lambda>r. ret (case json_roles r of None \<Rightarrow> [] | Some xs \<Rightarrow> xs))"

definition AddRealmRoleComposites :: "'w env \<Rightarrow> kc_client \<Rightarrow> string \<Rightarrow> string \<Rightarrow> RoleRepresentation list \<Rightarrow> ('w, 'm, Response) prog" where
  "AddRealmRoleComposites env c realm roleName roles =
     bindIO (sendRequest env c (mk_request POST (realm_path realm [''roles'', roleName, ''composites'']) [] (RolesB roles))) (\<lambda>r. ret (response_of r))"

definition DeleteRealmRoleComposites :: "'w env \<Rightarrow> kc_client \<Rightarrow> string \<Rightarrow> string \<Rightarrow> RoleRepresentation list \<Rightarrow> ('w, 'm, Response) prog" where
  "DeleteRealmRoleComposites env c realm roleName roles =
     bindIO (sendRequest env c (mk_request DELETE (realm_path realm [''roles'', roleName, ''composites'']) [] (RolesB roles))) (\<lambda>r. ret (response_of r))"

section \<open>\<open>clients.go\<close>\<close>

definition GetClients :: "'w env \<Rightarrow> kc_client \<Rightarrow> string \<Rightarrow> (string \<times> string) list \<Rightarrow> ('w, 'm, ClientRepresentation list) prog" where
  "GetClients env c realm params =
     bindIO (sendRequest env c (mk_request GET (realm_path realm [''clients'']) params NoBody))
       (\<lambda>r. ret (case json_clients r of None \<Rightarrow> [] | Some xs \<Rightarrow> xs))"

definition GetClient :: "'w env \<Rightarrow> kc_client \<Rightarrow> string \<Rightarrow> string \<Rightarrow> ('w, 'm, ClientRepresentation option) prog" where
  "GetClient env c realm clientID =
     bindIO (sendRequest env c (mk_request GET (realm_path realm [''clients'', clientID]) [] NoBody)) (\<lambda>r. ret (json_client r))"

definition CreateClient :: "'w env \<Rightarrow> kc_client \<Rightarrow> string \<Rightarrow> ClientRepresentation \<Rightarrow> ('w, 'm, Response) prog" where
  "CreateClient env c realm client =
     bindIO (sendRequest env c (mk_request POST (realm_path realm [''clients'']) [] (ClientB client))) (\<lambda>r. ret (response_of r))"

definition DeleteClient :: "'w env \<Rightarrow> kc_client \<Rightarrow> string \<Rightarrow> string \<Rightarrow> ('w, 'm, Response) prog" where
  "DeleteClient env c realm clientID =
     bindIO (sendRequest env c (mk_request DELETE (realm_path realm [''clients'', clientID]) [] NoBody)) (\<lambda>r. ret (response_of r))"

definition GetClientRoles :: "'w env \<Rightarrow> kc_client \<Rightarrow> string \<Rightarrow> string \<Rightarrow> (string \<times> string) list \<Rightarrow> ('w, 'm, RoleRepresentation list) prog" where
  "GetClientRoles env c realm clientID params =
     bindIO (sendRequest env c (mk_request GET (realm_path realm [''clients'', clientID, ''roles'']) params NoBody))
       (\<lambda>r. ret (case json_roles r of None \<Rightarrow> [] | Some xs \<Rightarrow> xs))"

definition GetClientRole :: "'w env \<Rightarrow> kc_client \<Rightarrow> string \<Rightarrow> string \<Rightarrow> string \<Rightarrow> ('w, 'm, RoleRepresentation option) prog" where
  "GetClientRole env c realm clientID roleName =
     bindIO (sendRequest env c (mk_request GET (realm_path realm [''clients'', clientID, ''roles'', roleName]) [] NoBody)) (\<lambda>r. ret (json_role r))"

definition CreateClientRole :: "'w env \<Rightarrow> kc_client \<Rightarrow> string \<Rightarrow> string \<Rightarrow> RoleRepresentation \<Rightarrow> ('w, 'm, Response) prog" where
  "CreateClientRole env c realm clientID role =
     bindIO (sendRequest env c (mk_request POST (realm_path realm [''clients'', clientID, ''roles'']) [] (RoleB role))) (\<lambda>r. ret (response_of r))"

definition DeleteClientRole :: "'w env \<Rightarrow> kc_client \<Rightarrow> string \<Rightarrow> string \<Rightarrow> string \<Rightarrow> ('w, 'm, Response) prog" where
  "DeleteClientRole env c realm clientID roleName =
     bindIO (sendRequest env c (mk_request DELETE (realm_path realm [''clients'', clientID, ''roles'', roleName]) [] NoBody)) (\<lambda>r. ret (response_of r))"

section \<open>\<open>realm.go\<close>\<close>

definition GetRealm :: "'w env \<Rightarrow> kc_client \<Rightarrow> string \<Rightarrow> ('w, 'm, RealmRepresentation option) prog" where
  "GetRealm env c realm =
     bindIO (sendRequest env c (mk_request GET (realm_path realm []) [] NoBody)) (\<lambda>r. ret (json_realm r))"

definition CreateRealm :: "'w env \<Rightarrow> kc_client \<Rightarrow> RealmRepresentation \<Rightarrow> ('w, 'm, Response) prog" where
  "CreateRealm env c realmRep =
     bindIO (sendRequest env c (mk_request POST [''admin'', ''realms''] [] (RealmB realmRep))) (\<lambda>r. ret (response_of r))"

definition UpdateRealm :: "'w env \<Rightarrow> kc_client \<Rightarrow> string \<Rightarrow> RealmRepresentation \<Rightarrow> ('w, 'm, Response) prog" where
  "UpdateRealm env c realm realmRep =
     bindIO (sendRequest env c (mk_request PUT (realm_path realm []) [] (RealmB realmRep))) (\<lambda>r. ret (response_of r))"

definition DeleteRealm :: "'w env \<Rightarrow> kc_client \<Rightarrow> string \<Rightarrow> ('w, 'm, Response) prog" where
  "DeleteRealm env c realm =
     bindIO (sendRequest env c (mk_request DELETE (realm_path realm []) [] NoBody)) (\<lambda>r. ret (response_of r))"

text \<open>The realm \<open>GetRealm\<close> returned is dereferenced without a check: a nil pointer panics.\<close>

definition SetRealmBrowserFlow :: "'w env \<Rightarrow> kc_client \<Rightarrow> string \<Rightarrow> string \<Rightarrow> ('w, 'm, Response) prog" where
  "SetRealmBrowserFlow env c realm flowAlias =
     bindIO (wrapErr ''unable to get realm: '' (GetRealm env c realm)) (\<lambda>current.
     bindIO (derefIO current) (\<lambda>rep.
     UpdateRealm env c realm (AList.update ''BrowserFlow'' (RStr flowAlias) rep)))"

definition SetRealmEventConfig :: "'w env \<Rightarrow> kc_client \<Rightarrow> string \<Rightarrow> RealmEventsConfigRepresentation \<Rightarrow> ('w, 'm, Response) prog" where
  "SetRealmEventConfig env c realm cfg =
     bindIO (sendRequest env c (mk_request PUT (realm_path realm [''events'', ''config'']) [] (EventsB cfg))) (\<lambda>r. ret (response_of r))"

definition GetRealmLocalization :: "'w env \<Rightarrow> kc_client \<Rightarrow> string \<Rightarrow> string \<Rightarrow> ('w, 'm, string gomap) prog" where
  "GetRealmLocalization env c realm locale =
     bindIO (sendRequest env c (mk_request GET (realm_path realm [''localization'', locale]) [] NoBody))
       (\<lambda>r. ret (case json_texts r of None \<Rightarrow> [] | Some m \<Rightarrow> m))"

definition PostRealmLocalization :: "'w env \<Rightarrow> kc_client \<Rightarrow> string \<Rightarrow> string \<Rightarrow> string gomap \<Rightarrow> ('w, 'm, Response) prog" where
  "PostRealmLocalization env c realm locale texts =
     bindIO (sendRequest env c (mk_request POST (realm_path realm [''localization'', locale]) [] (TextsB texts))) (\<lambda>r. ret (response_of r))"

section \<open>\<open>identity_providers.go\<close>\<close>

definition GetIdentityProvider :: "'w env \<Rightarrow> kc_client \<Rightarrow> string \<Rightarrow> string \<Rightarrow> ('w, 'm, IdentityProviderRepresentation option) prog" where
  "GetIdentityProvider env c realm alias =
     bindIO (sendRequest env c (mk_request GET (realm_path realm [''identity-provider'', ''instances'', alias]) [] NoBody)) (\<lambda>r. ret (json_idp r))"

definition CreateIdentityProvider :: "'w env \<Rightarrow> kc_client \<Rightarrow> string \<Rightarrow> IdentityProviderRepresentation \<Rightarrow> ('w, 'm, Response) prog" where
  "CreateIdentityProvider env c realm idp =
     bindIO (sendRequest env c (mk_request POST (realm_path realm [''identity-provider'', ''instances'']) [] (IdpB idp))) (\<lambda>r. ret (response_of r))"

definition client_DeleteIdentityProvider :: "'w env \<Rightarrow> kc_client \<Rightarrow> string \<Rightarrow> string \<Rightarrow> ('w, 'm, Response) prog" where
  "client_DeleteIdentityProvider env c realm alias =
     bindIO (sendRequest env c (mk_request DELETE (realm_path realm [''identity-provider'', ''instances'', alias]) [] NoBody)) (\<lambda>r. ret (response_of r))"

definition GetIdentityProviders :: "'w env \<Rightarrow> kc_client \<Rightarrow> string \<Rightarrow> (string \<times> string) list \<Rightarrow> ('w, 'm, IdentityProviderRepresentation list) prog" where
  "GetIdentityProviders env c realm params =
     bindIO (sendRequest env c (mk_request GET (realm_path realm [''identity-provider'', ''instances'']) params NoBody))
       (\<lambda>r. ret (case json_idps r of None \<Rightarrow> [] | Some xs \<Rightarrow> xs))"

section \<open>Bundles\<close>

lemmas client_defs =
  GetUsersProfile_def UpdateUsersProfile_def FindUserByUsername_def CreateUser_def GetUserRealmRoleMappings_def AddUserRealmRoles_def GetUserGroups_def AddUserToGroup_def RemoveUserFromGroup_def UpdateUser_def DeleteUser_def client_SetUserPassword_def DeleteUserRealmRoles_def GetUserClientRoleMappings_def AddUserClientRoles_def DeleteUserClientRoles_def GetUserFederatedIdentities_def CreateUserFederatedIdentity_def DeleteUserFederatedIdentity_def GetGroups_def GetGroup_def CreateGroup_def UpdateGroup_def client_DeleteGroup_def GetChildGroups_def CreateChildGroup_def FindGroupByName_def FindChildGroupByName_def GetRoleMappings_def GetRealmRoleMappings_def AddRealmRoleMappings_def DeleteRealmRoleMappings_def GetClientRoleMappings_def AddClientRoleMappings_def DeleteClientRoleMappings_def GetGroupByPath_def GetRealmRoles_def GetRealmRole_def CreateRealmRole_def DeleteRealmRole_def UpdateRealmRole_def GetRealmRoleComposites_def AddRealmRoleComposites_def DeleteRealmRoleComposites_def GetClients_def GetClient_def CreateClient_def DeleteClient_def GetClientRoles_def GetClientRole_def CreateClientRole_def DeleteClientRole_def GetRealm_def CreateRealm_def UpdateRealm_def DeleteRealm_def SetRealmBrowserFlow_def SetRealmEventConfig_def GetRealmLocalization_def PostRealmLocalization_def GetIdentityProvider_def CreateIdentityProvider_def client_DeleteIdentityProvider_def GetIdentityProviders_def

lemma emits_sendRequest [emits_intros]: "Http c req \<in> S \<Longrightarrow> emits_under P S (sendRequest env c req)"
  unfolding sendRequest_def by (intro emits_intros)

end
