(* ===== verification/HelperLib.thy ===== *)
theory HelperLib
  imports KcClients
begin

text \<open>
  The pure part of \<open>internal/controller/helper\<close>: the failure counter and the status interfaces
  (\<open>controller_helper_failure_counter.go\<close>), the orderings of realm groups, the slice helpers and
  the classification of errors (\<open>controller_helper.go\<close>), and the error predicates of
  \<open>adapter/errors.go\<close> and of the Kubernetes API package.
\<close>

section \<open>Failure counter and status interfaces\<close>

text \<open>The Go interfaces, as the laws their implementations are used under.\<close>

locale FailureCountable =
  fixes GetFailureCount :: "'o \<Rightarrow> int64"
    and SetFailureCount :: "int64 \<Rightarrow> 'o \<Rightarrow> 'o"
  assumes get_set_count: "GetFailureCount (SetFailureCount n x) = n"
    and set_set_count: "SetFailureCount n (SetFailureCount k x) = SetFailureCount n x"

locale StatusValue =
  fixes GetPhase :: "'o \<Rightarrow> string"
    and SetPhase :: "string \<Rightarrow> 'o \<Rightarrow> 'o"
    and GetError :: "'o \<Rightarrow> string"
    and SetError :: "go_error option \<Rightarrow> 'o \<Rightarrow> 'o"
  assumes get_set_phase: "GetPhase (SetPhase p x) = p"
    and phase_set_error: "GetPhase (SetError e x) = GetPhase x"
    and get_set_error_nil: "GetError (SetError None x) = ''''"

locale StatusValueFailureCountable =
  FailureCountable GetFailureCount SetFailureCount + StatusValue GetPhase SetPhase GetError SetError
  for GetFailureCount :: "'o \<Rightarrow> int64" and SetFailureCount :: "int64 \<Rightarrow> 'o \<Rightarrow> 'o"
    and GetPhase :: "'o \<Rightarrow> string" and SetPhase :: "string \<Rightarrow> 'o \<Rightarrow> 'o"
    and GetError :: "'o \<Rightarrow> string" and SetError :: "go_error option \<Rightarrow> 'o \<Rightarrow> 'o" +
  assumes phase_set_count: "GetPhase (SetFailureCount n x) = GetPhase x"
    and error_set_count: "GetError (SetFailureCount n x) = GetError x"

text \<open>\<open>time.Duration\<close> is an \<open>int64\<close> of nanoseconds; the arithmetic wraps.\<close>

definition getTimeout :: "int64 \<Rightarrow> int64 \<Rightarrow> int64" where
  "getTimeout factor baseDuration = baseDuration * (factor + 1)"

definition SetFailureCount_helper ::
  "('o \<Rightarrow> int64) \<Rightarrow> (int64 \<Rightarrow> 'o \<Rightarrow> 'o) \<Rightarrow> 'o \<Rightarrow> int64 \<times> 'o" where
  "SetFailureCount_helper get_count set_count fc = (
     let failures = get_count fc;
         timeout = getTimeout failures (10 * 1000000000)
     in (timeout, set_count (failures + 1) fc))"

definition IsFailuresUpdated :: "('o \<Rightarrow> int64) option \<Rightarrow> ('p \<Rightarrow> int64) option \<Rightarrow> 'o \<Rightarrow> 'p \<Rightarrow> bool" where
  "IsFailuresUpdated old_countable new_countable objectOld objectNew =
     (case old_countable of None \<Rightarrow> False
      | Some f \<Rightarrow> (case new_countable of None \<Rightarrow> False | Some g \<Rightarrow> f objectOld = g objectNew))"

definition SetSuccessStatus ::
  "(int64 \<Rightarrow> 'o \<Rightarrow> 'o) \<Rightarrow> (string \<Rightarrow> 'o \<Rightarrow> 'o) \<Rightarrow> (go_error option \<Rightarrow> 'o \<Rightarrow> 'o) \<Rightarrow> 'o \<Rightarrow> 'o" where
  "SetSuccessStatus set_count set_phase set_error el =
     set_count 0 (set_error None (set_phase PhaseCompleted el))"

context FailureCountable
begin

lemma failure_counted:
  "SetFailureCount_helper GetFailureCount SetFailureCount x = (t, y) \<Longrightarrow>
   GetFailureCount y = GetFailureCount x + 1 \<and> t = 10000000000 * (GetFailureCount x + 1)"
  by (auto simp: SetFailureCount_helper_def getTimeout_def get_set_count Let_def)

end

context StatusValueFailureCountable
begin

lemma success_status:
  "GetPhase (SetSuccessStatus SetFailureCount SetPhase SetError x) = PhaseCompleted"
  "GetError (SetSuccessStatus SetFailureCount SetPhase SetError x) = ''''"
  "GetFailureCount (SetSuccessStatus SetFailureCount SetPhase SetError x) = 0"
  by (simp_all add: SetSuccessStatus_def phase_set_count error_set_count get_set_count
      phase_set_error get_set_phase get_set_error_nil)

end

interpretation user_status: StatusValueFailureCountable user_GetFailureCount user_SetFailureCount
  user_GetPhase user_SetPhase user_GetError user_SetError
  by unfold_locales
    (simp_all add: user_GetFailureCount_def user_SetFailureCount_def user_GetPhase_def
      user_SetPhase_def user_GetError_def user_SetError_def Let_def split: option.split)

interpretation realm_count: FailureCountable realm_GetFailureCount realm_SetFailureCount
  by unfold_locales (simp_all add: realm_GetFailureCount_def realm_SetFailureCount_def)

section \<open>Ordering groups\<close>

text \<open>
  The maps \<open>byName\<close> (never read) and \<open>children\<close>. \<open>visit\<close> recurses along \<open>children\<close>; \<open>depth\<close> is the
  number of nested calls the goroutine's stack can hold, and \<open>None\<close> stands for exceeding it.
\<close>

definition add_child :: "Group \<Rightarrow> Group list gomap \<Rightarrow> Group list gomap" where
  "add_child item children = (case grp_ParentGroup item of
     None \<Rightarrow> children
   | Some p \<Rightarrow> AList.update (gr_Name p) (get_list children (gr_Name p) @ [item]) children)"

definition children_of :: "Group list \<Rightarrow> Group list gomap" where
  "children_of items = fold add_child items []"

fun concat_opt :: "'a list option list \<Rightarrow> 'a list option" where
  "concat_opt [] = Some []"
| "concat_opt (None # xs) = None"
| "concat_opt (Some ys # xs) = map_option (\<lambda>zs. ys @ zs) (concat_opt xs)"

fun visit :: "nat \<Rightarrow> Group list gomap \<Rightarrow> Group \<Rightarrow> Group list option" where
  "visit 0 children node = None"
| "visit (Suc depth) children node =
     map_option (\<lambda>rs. node # rs)
       (concat_opt (map (visit depth children) (get_list children (grp_Name node))))"

fun visit_FirstChild :: "nat \<Rightarrow> Group list gomap \<Rightarrow> Group \<Rightarrow> Group list option" where
  "visit_FirstChild 0 children node = None"
| "visit_FirstChild (Suc depth) children node =
     map_option (\<lambda>rs. rs @ [node])
       (concat_opt (map (visit_FirstChild depth children) (get_list children (grp_Name node))))"

definition SortRealmGroupByParent :: "nat \<Rightarrow> Group list \<Rightarrow> Group list option" where
  "SortRealmGroupByParent depth items =
     concat_opt (map (visit depth (children_of items))
       (filter (\<lambda>item. grp_ParentGroup item = None) items))"

definition SortRealmGroupByParentFirstChild :: "nat \<Rightarrow> Group list \<Rightarrow> Group list option" where
  "SortRealmGroupByParentFirstChild depth items =
     concat_opt (map (visit_FirstChild depth (children_of items))
       (filter (\<lambda>item. grp_ParentGroup item = None) items))"

section \<open>Slices\<close>

text \<open>\<open>RemoveDuplicates\<close> with the set of values seen so far.\<close>

fun RemoveDuplicates_loop :: "'a list \<Rightarrow> 'a list \<Rightarrow> 'a list \<Rightarrow> 'a list" where
  "RemoveDuplicates_loop seen result [] = result"
| "RemoveDuplicates_loop seen result (v # vs) =
     (if List.member seen v then RemoveDuplicates_loop seen result vs
      else RemoveDuplicates_loop (v # seen) (result @ [v]) vs)"

definition RemoveDuplicates :: "'a list \<Rightarrow> 'a list" where
  "RemoveDuplicates xs = RemoveDuplicates_loop [] [] xs"

text \<open>
  A slice that shares its backing array: the array, and the length the slice has of it.
  \<open>append(s[:i], s[i+1:]...)\<close> copies the tail down inside the array.
\<close>

definition RemoveSliceIndex :: "'a list \<times> nat \<Rightarrow> int \<Rightarrow> 'a list \<times> nat" where
  "RemoveSliceIndex s i = (case s of (arr, len) \<Rightarrow>
     if i < 0 \<or> i \<ge> int len then (arr, len)
     else (let k = nat i in
       (take k arr @ take (len - Suc k) (drop (Suc k) arr) @ drop (len - 1) arr, len - 1)))"

definition slice_of :: "'a list \<times> nat \<Rightarrow> 'a list" where
  "slice_of s = take (snd s) (fst s)"

lemma RemoveDuplicates_loop_nub:
  "RemoveDuplicates_loop seen result vs = result @ filter (\<lambda>x. x \<notin> set seen) (nub vs)"
proof (induction vs arbitrary: seen result)
  case (Cons v vs)
  show ?case
    by (simp add: Cons.IH conj_commute) (auto intro: filter_cong)
qed simp

text \<open>
  \<open>RemoveDuplicates\<close> keeps exactly the first occurrence of every value, in order: nothing is
  lost, nothing is added, nothing occurs twice.
\<close>

theorem RemoveDuplicates_correct:
  "RemoveDuplicates xs = nub xs \<and> distinct (RemoveDuplicates xs) \<and>
   set (RemoveDuplicates xs) = set xs \<and> subseq (RemoveDuplicates xs) xs"
  by (simp add: RemoveDuplicates_def RemoveDuplicates_loop_nub subseq_nub)

lemma RemoveSliceIndex_array_length [simp]:
  "len \<le> length arr \<Longrightarrow> length (fst (RemoveSliceIndex (arr, len) i)) = length arr"
  by (auto simp: RemoveSliceIndex_def Let_def)

lemma RemoveSliceIndex_slice:
  "len \<le> length arr \<Longrightarrow> k < len \<Longrightarrow>
     slice_of (RemoveSliceIndex (arr, len) (int k)) =
       take k (slice_of (arr, len)) @ drop (Suc k) (slice_of (arr, len))"
  by (cases "k = len - 1") (auto simp: RemoveSliceIndex_def slice_of_def drop_take min_def)

section \<open>The orderings are correct\<close>

definition parent_name :: "Group \<Rightarrow> string option" where
  "parent_name g = map_option gr_Name (grp_ParentGroup g)"

lemma parent_name_None: "parent_name g = None \<longleftrightarrow> grp_ParentGroup g = None"
  by (simp add: parent_name_def)

lemma get_list_update:
  "get_list (AList.update k v m) n = (if n = k then v else get_list m n)"
  by (simp add: get_list_def update_conv')

lemma get_list_add_child:
  "get_list (add_child g m) n = (if parent_name g = Some n then get_list m n @ [g] else get_list m n)"
  by (auto simp: add_child_def parent_name_def get_list_update split: option.split)

lemma get_list_fold_add_child:
  "get_list (fold add_child xs m) n = get_list m n @ filter (\<lambda>g. parent_name g = Some n) xs"
  by (induction xs arbitrary: m) (simp_all add: get_list_add_child)

lemma children_of_filter:
  "get_list (children_of items) n = filter (\<lambda>g. parent_name g = Some n) items"
  using get_list_fold_add_child [of items "[]" n] by (simp add: children_of_def get_list_def)

lemma concat_opt_Some:
  "concat_opt (map f xs) = Some rs \<longleftrightarrow> (\<forall>x \<in> set xs. f x \<noteq> None) \<and> rs = concat (map (\<lambda>x. the (f x)) xs)"
proof (induction xs arbitrary: rs)
  case (Cons x xs)
  show ?case
  proof (cases "f x")
    case (Some ys)
    then show ?thesis using Cons.IH by (cases "concat_opt (map f xs)") auto
  qed simp
qed auto

text \<open>
  The line of ancestors of a group, up to a group without a parent. A group that has one is
  \<^emph>\<open>rooted\<close>: its parent, its parent's parent, ... all exist and end in a top-level group.
\<close>

fun up_path :: "Group list \<Rightarrow> Group list \<Rightarrow> bool" where
  "up_path items [] = False"
| "up_path items [g] = (g \<in> set items \<and> parent_name g = None)"
| "up_path items (g # h # p) = (g \<in> set items \<and> parent_name g = Some (grp_Name h) \<and> up_path items (h # p))"

definition rooted :: "Group list \<Rightarrow> Group \<Rightarrow> bool" where
  "rooted items g \<longleftrightarrow> (\<exists>p. up_path items (g # p))"

lemma up_path_set: "up_path items p \<Longrightarrow> set p \<subseteq> set items"
  by (induction items p rule: up_path.induct) auto

lemma up_path_unique:
  assumes "distinct (map grp_Name items)"
  shows "up_path items (g # p) \<Longrightarrow> up_path items (g # q) \<Longrightarrow> p = q"
proof (induction p arbitrary: g q)
  case Nil
  then show ?case by (cases q) auto
next
  case (Cons h p)
  then obtain h' q' where q: "q = h' # q'" by (cases q) auto
  with Cons.prems have up: "up_path items (h # p)" "up_path items (h' # q')" and "grp_Name h = grp_Name h'"
    by auto
  moreover have "h \<in> set items" "h' \<in> set items"
    using up up_path_set by (metis list.set_intros(1) subsetD)+
  ultimately have "h = h'" using assms by (metis distinct_map inj_onD)
  with Cons.IH up q show ?case by blast
qed

lemma up_path_suffix: "up_path items (xs @ g # p) \<Longrightarrow> up_path items (g # p)"
proof (induction xs)
  case (Cons x xs)
  then show ?case by (cases xs) auto
qed simp

lemma up_path_distinct:
  assumes "distinct (map grp_Name items)"
  shows "up_path items p \<Longrightarrow> distinct p"
proof (induction p)
  case (Cons g p)
  have "g \<notin> set p"
  proof
    assume "g \<in> set p"
    then obtain xs ys where p: "p = xs @ g # ys" by (meson split_list)
    with Cons.prems have "up_path items (g # ys)" using up_path_suffix [of items "g # xs" g ys] by simp
    from up_path_unique [OF assms Cons.prems this] p show False by simp
  qed
  with Cons show ?case by (cases p) auto
qed simp

lemma up_path_length:
  assumes "distinct (map grp_Name items)" and "up_path items p"
  shows "length p \<le> length items"
proof -
  have "card (set p) \<le> card (set items)" by (rule card_mono) (simp_all add: up_path_set assms(2))
  also have "\<dots> \<le> length items" by (rule card_length)
  finally show ?thesis using distinct_card [OF up_path_distinct [OF assms]] by simp
qed

lemma up_path_child:
  "up_path items (g # p) \<Longrightarrow> c \<in> set (get_list (children_of items) (grp_Name g)) \<Longrightarrow> up_path items (c # g # p)"
  by (auto simp: children_of_filter)

text \<open>With distinct names the recursion is never deeper than the number of groups.\<close>

lemma visit_returns:
  assumes "distinct (map grp_Name items)"
  shows "up_path items (g # p) \<Longrightarrow> length items < depth + length (g # p) \<Longrightarrow>
    visit depth (children_of items) g \<noteq> None \<and> visit_FirstChild depth (children_of items) g \<noteq> None"
proof (induction depth arbitrary: g p)
  case 0
  then show ?case using up_path_length [OF assms 0(1)] by simp
next
  case (Suc depth)
  have "visit depth (children_of items) c \<noteq> None \<and> visit_FirstChild depth (children_of items) c \<noteq> None"
    if "c \<in> set (get_list (children_of items) (grp_Name g))" for c
    using Suc.IH [OF up_path_child [OF Suc.prems(1) that]] Suc.prems(2) by simp
  then show ?case by (auto simp: concat_opt_Some ex_in_conv)
qed

text \<open>The set of groups under a group, and that a visit lists each of them once.\<close>

lemma distinct_concat_map:
  "distinct xs \<Longrightarrow> (\<And>x. x \<in> set xs \<Longrightarrow> distinct (F x)) \<Longrightarrow>
   (\<And>x y. x \<in> set xs \<Longrightarrow> y \<in> set xs \<Longrightarrow> x \<noteq> y \<Longrightarrow> set (F x) \<inter> set (F y) = {}) \<Longrightarrow>
   distinct (concat (map F xs))"
  by (induction xs) (simp, fastforce)

definition below :: "Group list \<Rightarrow> Group list \<Rightarrow> Group set" where
  "below items p = {h. \<exists>q. up_path items (h # q) \<and> suffix p (h # q)}"

lemma below_step:
  assumes "up_path items (g # p)"
  shows "below items (g # p) =
    insert g (\<Union>c \<in> set (get_list (children_of items) (grp_Name g)). below items (c # g # p))"
    (is "_ = insert g ?U")
proof
  show "below items (g # p) \<subseteq> insert g ?U"
  proof
    fix h assume "h \<in> below items (g # p)"
    then obtain q xs where q: "up_path items (h # q)" "h # q = xs @ g # p"
      by (auto simp: below_def suffix_def)
    show "h \<in> insert g ?U"
    proof (cases xs rule: rev_cases)
      case Nil
      with q show ?thesis by simp
    next
      case (snoc ys c)
      with q have "up_path items (c # g # p)" using up_path_suffix [of items ys c "g # p"] by simp
      then have "c \<in> set (get_list (children_of items) (grp_Name g))" by (auto simp: children_of_filter)
      moreover have "h \<in> below items (c # g # p)"
        using q snoc unfolding below_def suffix_def mem_Collect_eq
        by (intro exI [of _ q] conjI exI [of _ ys]) simp_all
      ultimately show ?thesis by blast
    qed
  qed
  have "g \<in> below items (g # p)" using assms by (auto simp: below_def)
  moreover have "below items (c # g # p) \<subseteq> below items (g # p)" for c
    unfolding below_def using suffix_order.trans [of "g # p" "c # g # p"] by (auto simp: suffix_Cons)
  ultimately show "insert g ?U \<subseteq> below items (g # p)" by blast
qed

lemma below_disjoint:
  assumes "distinct (map grp_Name items)" and "c \<noteq> d"
  shows "below items (c # p) \<inter> below items (d # p) = {}"
proof (rule ccontr)
  assume "below items (c # p) \<inter> below items (d # p) \<noteq> {}"
  then obtain h q r where "up_path items (h # q)" "up_path items (h # r)"
    and s: "suffix (c # p) (h # q)" "suffix (d # p) (h # r)"
    by (auto simp: below_def)
  with up_path_unique [OF assms(1)] have "q = r" by blast
  with s have "suffix (c # p) (d # p)" by (auto intro: suffix_length_suffix)
  with assms(2) show False by (auto simp: suffix_def append_eq_Cons_conv Cons_eq_append_conv)
qed

lemma below_self:
  assumes "up_path items (g # p)" and "h \<in> below items (c # g # p)" and "distinct (map grp_Name items)"
  shows "h \<noteq> g"
proof
  assume "h = g"
  with assms(2) obtain q where q: "up_path items (g # q)" "suffix (c # g # p) (g # q)"
    by (auto simp: below_def)
  from up_path_unique [OF assms(3,1) q(1)] q(2) suffix_length_le show False by fastforce
qed

lemma visit_content:
  assumes "distinct (map grp_Name items)"
  shows "up_path items (g # p) \<Longrightarrow> visit depth (children_of items) g = Some gs \<Longrightarrow>
    distinct gs \<and> set gs = below items (g # p)"
proof (induction depth arbitrary: g p gs)
  case (Suc depth)
  let ?cs = "get_list (children_of items) (grp_Name g)"
  let ?F = "\<lambda>c. the (visit depth (children_of items) c)"
  from Suc.prems(2) have some: "\<forall>c \<in> set ?cs. visit depth (children_of items) c \<noteq> None"
    and gs: "gs = g # concat (map ?F ?cs)"
    by (auto simp: concat_opt_Some simp del: not_None_eq)
  have F: "distinct (?F c) \<and> set (?F c) = below items (c # g # p)" if "c \<in> set ?cs" for c
    using Suc.IH [OF up_path_child [OF Suc.prems(1) that]] some that by fastforce
  have "distinct ?cs" using assms by (simp add: children_of_filter distinct_map)
  then have "distinct (concat (map ?F ?cs))"
    by (rule distinct_concat_map) (use F below_disjoint [OF assms] in auto)
  moreover have "g \<notin> set (concat (map ?F ?cs))"
    using F below_self [OF Suc.prems(1) _ assms] by auto
  ultimately show ?case
    using F by (auto simp: gs below_step [OF Suc.prems(1)])
qed simp

text \<open>Every group comes after its parent.\<close>

fun parents_first :: "string set \<Rightarrow> Group list \<Rightarrow> bool" where
  "parents_first seen [] = True"
| "parents_first seen (g # gs) =
     ((case parent_name g of None \<Rightarrow> True | Some n \<Rightarrow> n \<in> seen) \<and>
      parents_first (insert (grp_Name g) seen) gs)"

lemma parents_first_mono:
  "parents_first seen gs \<Longrightarrow> seen \<subseteq> seen' \<Longrightarrow> parents_first seen' gs"
proof (induction gs arbitrary: seen seen')
  case (Cons g gs)
  from Cons.prems(2) have "insert (grp_Name g) seen \<subseteq> insert (grp_Name g) seen'" by blast
  with Cons show ?case by (auto split: option.splits)
qed simp

lemma parents_first_append:
  "parents_first seen (xs @ ys) \<longleftrightarrow>
     parents_first seen xs \<and> parents_first (seen \<union> grp_Name ` set xs) ys"
  by (induction xs arbitrary: seen) (simp_all add: insert_commute)

lemma parents_first_concat:
  "(\<And>x. x \<in> set xs \<Longrightarrow> parents_first seen (F x)) \<Longrightarrow> parents_first seen (concat (map F xs))"
proof (induction xs)
  case (Cons x xs)
  then have "parents_first seen (concat (map F xs))" by simp
  then have "parents_first (seen \<union> grp_Name ` set (F x)) (concat (map F xs))"
    by (rule parents_first_mono) simp
  with Cons.prems show ?case by (simp add: parents_first_append)
qed simp

lemma visit_parents_first:
  "visit depth (children_of items) g = Some gs \<Longrightarrow>
   (\<And>n. parent_name g = Some n \<Longrightarrow> n \<in> seen) \<Longrightarrow> parents_first seen gs"
proof (induction depth arbitrary: g gs seen)
  case (Suc depth)
  let ?cs = "get_list (children_of items) (grp_Name g)"
  let ?F = "\<lambda>c. the (visit depth (children_of items) c)"
  from Suc.prems(1) have some: "\<forall>c \<in> set ?cs. visit depth (children_of items) c \<noteq> None"
    and gs: "gs = g # concat (map ?F ?cs)"
    by (auto simp: concat_opt_Some simp del: not_None_eq)
  have "parents_first (insert (grp_Name g) seen) (?F c)" if "c \<in> set ?cs" for c
  proof (rule Suc.IH)
    show "visit depth (children_of items) c = Some (?F c)" using some that by auto
    show "n \<in> insert (grp_Name g) seen" if "parent_name c = Some n" for n
      using \<open>c \<in> set ?cs\<close> that by (simp add: children_of_filter)
  qed
  then have "parents_first (insert (grp_Name g) seen) (concat (map ?F ?cs))" by (rule parents_first_concat)
  with Suc.prems(2) show ?case by (simp add: gs split: option.split)
qed simp

text \<open>The second ordering lists the same groups, children before parents.\<close>

lemma concat_opt_mset:
  "(\<And>x. x \<in> set xs \<Longrightarrow> map_option mset (f x) = map_option mset (h x)) \<Longrightarrow>
   map_option mset (concat_opt (map f xs)) = map_option mset (concat_opt (map h xs))"
proof (induction xs)
  case (Cons x xs)
  have ih: "map_option mset (concat_opt (map f xs)) = map_option mset (concat_opt (map h xs))"
    using Cons by simp
  have x: "map_option mset (f x) = map_option mset (h x)" using Cons.prems by simp
  show ?case
    by (cases "f x"; cases "h x"; cases "concat_opt (map f xs)"; cases "concat_opt (map h xs)")
      (use ih x in auto)
qed simp

lemma visit_FirstChild_mset:
  "map_option mset (visit_FirstChild depth ch g) = map_option mset (visit depth ch g)"
proof (induction depth arbitrary: g)
  case (Suc depth)
  have "map_option mset (concat_opt (map (visit_FirstChild depth ch) cs)) =
        map_option mset (concat_opt (map (visit depth ch) cs))" for cs
    by (rule concat_opt_mset) (rule Suc.IH)
  from this [of "get_list ch (grp_Name g)"] show ?case
    by (cases "concat_opt (map (visit_FirstChild depth ch) (get_list ch (grp_Name g)))";
        cases "concat_opt (map (visit depth ch) (get_list ch (grp_Name g)))") auto
qed simp

lemma Sort_same_groups:
  "map_option mset (SortRealmGroupByParentFirstChild depth items) =
   map_option mset (SortRealmGroupByParent depth items)"
  unfolding SortRealmGroupByParentFirstChild_def SortRealmGroupByParent_def
  by (rule concat_opt_mset) (rule visit_FirstChild_mset)

lemma visit_FirstChild_parents_last:
  "visit_FirstChild depth (children_of items) g = Some gs \<Longrightarrow>
   (\<And>n. parent_name g = Some n \<Longrightarrow> n \<in> seen) \<Longrightarrow> parents_first seen (rev gs)"
proof (induction depth arbitrary: g gs seen)
  case (Suc depth)
  let ?cs = "get_list (children_of items) (grp_Name g)"
  let ?F = "\<lambda>c. the (visit_FirstChild depth (children_of items) c)"
  from Suc.prems(1) have some: "\<forall>c \<in> set ?cs. visit_FirstChild depth (children_of items) c \<noteq> None"
    and gs: "gs = concat (map ?F ?cs) @ [g]"
    by (auto simp: concat_opt_Some simp del: not_None_eq)
  have "parents_first (insert (grp_Name g) seen) (rev (?F c))" if "c \<in> set (rev ?cs)" for c
  proof (rule Suc.IH)
    show "visit_FirstChild depth (children_of items) c = Some (?F c)" using some that by auto
    show "n \<in> insert (grp_Name g) seen" if "parent_name c = Some n" for n
      using \<open>c \<in> set (rev ?cs)\<close> that by (simp add: children_of_filter)
  qed
  then have "parents_first (insert (grp_Name g) seen) (concat (map (\<lambda>c. rev (?F c)) (rev ?cs)))"
    by (rule parents_first_concat)
  with Suc.prems(2) show ?case by (simp add: gs rev_concat rev_map comp_def split: option.split)
qed simp

text \<open>The roots, and what both orderings list from them.\<close>

lemma Sort_returns:
  assumes "distinct (map grp_Name items)" and "length items \<le> depth"
  shows "SortRealmGroupByParent depth items \<noteq> None \<and> SortRealmGroupByParentFirstChild depth items \<noteq> None"
proof -
  have "visit depth (children_of items) g \<noteq> None \<and> visit_FirstChild depth (children_of items) g \<noteq> None"
    if "g \<in> set items" "grp_ParentGroup g = None" for g
    using visit_returns [OF assms(1), of g "[]"] that assms(2) by (simp add: parent_name_None)
  then show ?thesis
    by (auto simp: SortRealmGroupByParent_def SortRealmGroupByParentFirstChild_def concat_opt_Some ex_in_conv)
qed

lemma Sort_content:
  assumes dist: "distinct (map grp_Name items)" and some: "SortRealmGroupByParent depth items = Some gs"
  shows "distinct gs \<and> set gs = {g \<in> set items. rooted items g} \<and> parents_first {} gs"
proof -
  let ?roots = "filter (\<lambda>item. grp_ParentGroup item = None) items"
  let ?F = "\<lambda>g. the (visit depth (children_of items) g)"
  from some have ok: "\<forall>g \<in> set ?roots. visit depth (children_of items) g \<noteq> None"
    and gs: "gs = concat (map ?F ?roots)"
    unfolding SortRealmGroupByParent_def concat_opt_Some by blast+
  have up: "up_path items [g]" if "g \<in> set ?roots" for g
    using that by (simp add: parent_name_None)
  have F: "distinct (?F g) \<and> set (?F g) = below items [g]" if "g \<in> set ?roots" for g
    using visit_content [OF dist up [OF that]] ok that by fastforce
  have "distinct ?roots" using dist by (simp add: distinct_map)
  then have d: "distinct gs" unfolding gs
    by (rule distinct_concat_map) (use F below_disjoint [OF dist] in auto)
  have "parents_first {} gs" unfolding gs
  proof (rule parents_first_concat)
    fix g assume g: "g \<in> set ?roots"
    show "parents_first {} (?F g)"
    proof (rule visit_parents_first)
      show "visit depth (children_of items) g = Some (?F g)" using ok g by auto
      show "n \<in> {}" if "parent_name g = Some n" for n
        using g that parent_name_None [of g] by simp
    qed
  qed
  moreover have "set gs = {g \<in> set items. rooted items g}"
  proof
    show "set gs \<subseteq> {g \<in> set items. rooted items g}"
      using F up_path_set unfolding gs below_def rooted_def by fastforce
    show "{g \<in> set items. rooted items g} \<subseteq> set gs"
    proof
      fix g assume "g \<in> {g \<in> set items. rooted items g}"
      then obtain p where p: "up_path items (g # p)" by (auto simp: rooted_def)
      let ?r = "last (g # p)"
      have split: "g # p = butlast (g # p) @ [?r]" by simp
      with p have "up_path items [?r]" using up_path_suffix [of items "butlast (g # p)" ?r "[]"] by metis
      then have r: "?r \<in> set ?roots" by (simp add: parent_name_None)
      have "g \<in> below items [?r]" unfolding below_def suffix_def using p split by blast
      with F [OF r] r show "g \<in> set gs" unfolding gs by auto
    qed
  qed
  ultimately show ?thesis using d by blast
qed

text \<open>
  C37. Ordering realm groups before they are created. When names are unique, the recursion of
  \<open>SortRealmGroupByParent\<close> ends within as many nested calls as there are groups, and lists
  exactly the rooted groups, each once, every group after its parent. (Groups whose chain of
  parents is broken or cyclic are left out.)
\<close>

theorem SortRealmGroupByParent_correct:
  assumes "distinct (map grp_Name items)" and "length items \<le> depth"
  shows "\<exists>gs. SortRealmGroupByParent depth items = Some gs \<and> distinct gs \<and>
           set gs = {g \<in> set items. rooted items g} \<and> parents_first {} gs"
  using Sort_returns [OF assms] Sort_content [OF assms(1)] by blast

text \<open>
  Ordering realm groups before they are deleted: under the same conditions
  \<open>SortRealmGroupByParentFirstChild\<close> returns, lists the same groups, each once, and every group
  before its parent.
\<close>

theorem SortRealmGroupByParentFirstChild_correct:
  assumes "distinct (map grp_Name items)" and "length items \<le> depth"
  shows "\<exists>gs. SortRealmGroupByParentFirstChild depth items = Some gs \<and> distinct gs \<and>
           set gs = {g \<in> set items. rooted items g} \<and> parents_first {} (rev gs)"
proof -
  let ?roots = "filter (\<lambda>item. grp_ParentGroup item = None) items"
  let ?F = "\<lambda>g. the (visit_FirstChild depth (children_of items) g)"
  from Sort_returns [OF assms] obtain gs hs where
    gs: "SortRealmGroupByParentFirstChild depth items = Some gs" and
    hs: "SortRealmGroupByParent depth items = Some hs" by auto
  then have "mset gs = mset hs" using Sort_same_groups [of depth items] by simp
  then have "distinct gs = distinct hs" "set gs = set hs"
    by (metis mset_eq_imp_distinct_iff, metis mset_eq_setD)
  moreover from gs have ok: "\<forall>g \<in> set ?roots. visit_FirstChild depth (children_of items) g \<noteq> None"
    and eq: "gs = concat (map ?F ?roots)"
    unfolding SortRealmGroupByParentFirstChild_def concat_opt_Some by blast+
  have "parents_first {} (concat (map (\<lambda>g. rev (?F g)) (rev ?roots)))"
  proof (rule parents_first_concat)
    fix g assume g: "g \<in> set (rev ?roots)"
    show "parents_first {} (rev (?F g))"
    proof (rule visit_FirstChild_parents_last)
      show "visit_FirstChild depth (children_of items) g = Some (?F g)" using ok g by auto
      show "n \<in> {}" if "parent_name g = Some n" for n
        using g that parent_name_None [of g] by simp
    qed
  qed
  then have "parents_first {} (rev gs)" by (simp add: eq rev_concat rev_map comp_def)
  ultimately show ?thesis using gs Sort_content [OF assms(1) hs] by auto
qed

definition test_group :: "string \<Rightarrow> string option \<Rightarrow> Group" where
  "test_group n p = \<lparr>grp_Name = n, grp_Description = '''', grp_Path = '''', grp_Attributes = [],
     grp_Access = [], grp_RealmRoles = [], grp_SubGroups = [],
     grp_ParentGroup = map_option (\<lambda>x. \<lparr>gr_Name = x\<rparr>) p, grp_ClientRoles = []\<rparr>"

definition test_groups :: "Group list" where
  "test_groups = [test_group ''leaf'' (Some ''mid''), test_group ''mid'' (Some ''top''), test_group ''top'' None]"

theorem SortRealmGroupByParent_witness:
  "\<exists>gs. SortRealmGroupByParent 3 test_groups = Some gs \<and> distinct gs \<and>
     set gs = {g \<in> set test_groups. rooted test_groups g} \<and> parents_first {} gs"
  by (rule SortRealmGroupByParent_correct) (simp_all add: test_groups_def test_group_def)

theorem SortRealmGroupByParentFirstChild_witness:
  "\<exists>gs. SortRealmGroupByParentFirstChild 3 test_groups = Some gs \<and> distinct gs \<and>
     set gs = {g \<in> set test_groups. rooted test_groups g} \<and> parents_first {} (rev gs)"
  by (rule SortRealmGroupByParentFirstChild_correct) (simp_all add: test_groups_def test_group_def)

text \<open>
  Without unique names the orderings need not end: if a top-level group has a child of its
  own name, no stack is deep enough, for either of them.
\<close>

theorem Sort_same_name_child_diverges:
  assumes "r \<in> set items" and "grp_ParentGroup r = None"
    and "c \<in> set items" and "parent_name c = Some (grp_Name r)" and "grp_Name c = grp_Name r"
  shows "SortRealmGroupByParent depth items = None \<and> SortRealmGroupByParentFirstChild depth items = None"
proof -
  have "visit d (children_of items) g = None \<and> visit_FirstChild d (children_of items) g = None"
    if "grp_Name g = grp_Name r" for d g
    using that
  proof (induction d arbitrary: g)
    case (Suc d)
    have "c \<in> set (get_list (children_of items) (grp_Name g))"
      using assms(3,4) Suc.prems by (simp add: children_of_filter)
    moreover have "visit d (children_of items) c = None \<and> visit_FirstChild d (children_of items) c = None"
      using Suc.IH assms(5) by simp
    ultimately show ?case
      by (auto simp: concat_opt_Some map_option_case split: option.split)
  qed simp
  then have "\<not> (\<exists>gs. SortRealmGroupByParent depth items = Some gs)"
    "\<not> (\<exists>gs. SortRealmGroupByParentFirstChild depth items = Some gs)"
    using assms(1,2) by (auto simp: SortRealmGroupByParent_def SortRealmGroupByParentFirstChild_def concat_opt_Some)
  then show ?thesis by simp
qed

theorem Sort_same_name_child_witness:
  "SortRealmGroupByParent 1000 [test_group ''a'' None, test_group ''a'' (Some ''a'')] = None \<and>
   SortRealmGroupByParentFirstChild 1000 [test_group ''a'' None, test_group ''a'' (Some ''a'')] = None"
  by (rule Sort_same_name_child_diverges
      [where r = "test_group ''a'' None" and c = "test_group ''a'' (Some ''a'')"])
    (simp_all add: test_group_def parent_name_def)

section \<open>Classifying errors\<close>

text \<open>\<open>err\<close> may be nil (\<open>None\<close>).\<close>

definition IsUnauthorizedError :: "go_error option \<Rightarrow> bool" where
  "IsUnauthorizedError err = (case err of None \<Rightarrow> False | Some e \<Rightarrow>
     (case errors_As (as_GocloakAPIError True) e of Some (code, msg) \<Rightarrow> code = 401 | None \<Rightarrow> False) \<or>
     (let errStr = strings_ToLower (Error e) in
        strings_Contains errStr ''401'' \<or> strings_Contains errStr ''unauthorized'' \<or>
        strings_Contains errStr ''invalid_token'' \<or> strings_Contains errStr ''token expired''))"

definition IsNoMatchScopeMapping :: "go_error option \<Rightarrow> bool" where
  "IsNoMatchScopeMapping err = (case err of None \<Rightarrow> False | Some e \<Rightarrow>
     (let errStr = strings_ToLower (Error e) in
        strings_Contains errStr ''failed to find role with name'' \<or> strings_Contains errStr ''not found''))"

text \<open>\<open>adapter.IsErrNotFound\<close>, \<open>adapter.IsErrTokenExpired\<close>, \<open>adapter.SkipAlreadyExistsErr\<close>.\<close>

definition IsErrNotFound :: "go_error \<Rightarrow> bool" where
  "IsErrNotFound err = (case errors_As as_NotFoundErr err of
     Some _ \<Rightarrow> True
   | None \<Rightarrow> (case errors_As (as_GocloakAPIError False) err of
       Some (code, msg) \<Rightarrow> code = 404
     | None \<Rightarrow> (case errors_As (as_GocloakAPIError True) err of
         Some (code, msg) \<Rightarrow> code = 404
       | None \<Rightarrow> False)))"

definition IsErrTokenExpired :: "go_error \<Rightarrow> bool" where
  "IsErrTokenExpired err = (errors_As as_TokenExpiredErr err \<noteq> None)"

definition SkipAlreadyExistsErr :: "go_error option \<Rightarrow> go_error option" where
  "SkipAlreadyExistsErr err = (case err of None \<Rightarrow> None | Some e \<Rightarrow>
     if strings_Contains (Error e) ''409 Conflict'' then None else Some e)"

text \<open>
  \<open>k8sErrors.IsNotFound\<close> and \<open>client.IgnoreNotFound\<close>: a status error with reason \<open>NotFound\<close>, or
  with code 404 and a reason the package does not know.
\<close>

definition k8s_knownReasons :: "string list" where
  "k8s_knownReasons = [''Unauthorized'', ''Forbidden'', ''NotFound'', ''AlreadyExists'', ''Conflict'',
     ''Gone'', ''Invalid'', ''ServerTimeout'', ''StoreReadError'', ''Timeout'', ''TooManyRequests'',
     ''BadRequest'', ''MethodNotAllowed'', ''NotAcceptable'', ''RequestEntityTooLarge'',
     ''UnsupportedMediaType'', ''InternalError'', ''Expired'', ''ServiceUnavailable'']"

definition k8s_IsNotFound :: "go_error \<Rightarrow> bool" where
  "k8s_IsNotFound err = (case errors_As as_StatusError err of
     None \<Rightarrow> False
   | Some (reason, code) \<Rightarrow>
       reason = ''NotFound'' \<or> (reason \<notin> set k8s_knownReasons \<and> code = 404))"

definition strings_Trim :: "string \<Rightarrow> string \<Rightarrow> string" where
  "strings_Trim s cutset = rev (dropWhile (\<lambda>c. c \<in> set cutset) (rev (dropWhile (\<lambda>c. c \<in> set cutset) s)))"

definition RemoveSpecialChar :: "string \<Rightarrow> string" where
  "RemoveSpecialChar s =
     strings_ToLower (map (\<lambda>c. if c = CHR '' '' then CHR ''-'' else c)
       (map (\<lambda>c. if c = CHR ''_'' then CHR ''-'' else c) (strings_Trim s ''!@#{$}'')))"

lemma IsUnauthorizedError_None [simp]: "IsUnauthorizedError None = False"
  by (simp add: IsUnauthorizedError_def)

text \<open>
  Recognising a rejected token survives wrapping: an error that counts as unauthorized still
  does after any number of \<open>fmt.Errorf("...%w")\<close> layers, so a chain sees it through the messages
  its handlers put in front; and every 401 answer of Keycloak with an empty or unstructured
  short body counts as one.
\<close>

theorem IsUnauthorizedError_wrapped:
  "(IsUnauthorizedError (Some e) \<longrightarrow> IsUnauthorizedError (Some (Wrapped pre e))) \<and>
   (body_json b = None \<longrightarrow> checkResponseError (Some \<lparr>rsp_StatusCode = 401, rsp_Location = l\<rparr>) b = Some e' \<longrightarrow>
      IsUnauthorizedError (Some e'))"
proof (intro conjI impI)
  assume "IsUnauthorizedError (Some e)"
  then show "IsUnauthorizedError (Some (Wrapped pre e))"
    by (auto simp: IsUnauthorizedError_def Let_def errors_As_Wrapped strings_Contains_append)
next
  assume "body_json b = None" and e': "checkResponseError (Some \<lparr>rsp_StatusCode = 401, rsp_Location = l\<rparr>) b = Some e'"
  then obtain t where t: "e' = ApiError 401 (''Unauthorized'' @ t)"
    by (auto simp: checkResponseError_def parseKeycloakError_def StatusText_def StatusTexts_def)
  have "strings_ToLower ''Unauthorized'' = ''unauthorized''" by code_simp
  then have "strings_ToLower (Error e') = ''unauthorized'' @ strings_ToLower t"
    by (simp only: t Error.simps strings_ToLower_append)
  then have "strings_Contains (strings_ToLower (Error e')) ''unauthorized''" by simp
  then show "IsUnauthorizedError (Some e')"
    unfolding IsUnauthorizedError_def Let_def option.case by blast
qed

theorem IsUnauthorizedError_wrapped_witness:
  "IsUnauthorizedError (Some (Wrapped ''unable to update user: '' (ApiError 401 ''HTTP 401 Unauthorized''))) \<and>
   IsUnauthorizedError (Some (ApiError 401 ''Unauthorized''))"
  using IsUnauthorizedError_wrapped [of "ApiError 401 ''HTTP 401 Unauthorized''" "''unable to update user: ''"
      "\<lparr>body_text = '''', body_json = None\<rparr>" "''''" "ApiError 401 ''Unauthorized''"]
  by (simp add: IsUnauthorizedError_def strings_ToLower_def lower_char_def checkResponseError_def
      parseKeycloakError_def StatusText_def StatusTexts_def)

section \<open>Retry delays\<close>

lemma sint_of_int_small:
  "- 9223372036854775808 \<le> k \<Longrightarrow> k < 9223372036854775808 \<Longrightarrow> sint (word_of_int k :: int64) = k"
  by (simp add: sint_sbintrunc' signed_take_bit_int_eq_self)

lemma delay_arith:
  fixes k :: int
  assumes "0 \<le> k" and "k < 922337203"
  shows "- 9223372036854775808 \<le> 10000000000 * (k + 1) \<and> 10000000000 * (k + 1) < 9223372036854775808 \<and>
    - 9223372036854775808 \<le> k + 1 \<and> k + 1 < 9223372036854775808"
  using assms by auto

text \<open>
  C38. The delay before a failed realm is reconciled again is ten seconds per failure so far, and
  the count grows by one, as long as fewer than 922337203 failures are counted; at that count
  the multiplication of \<open>time.Duration\<close> leaves the range of \<open>int64\<close> and the delay is negative.
\<close>

theorem SetFailureCount_delay:
  "(\<forall>r t r'. 0 \<le> sint (realm_GetFailureCount r) \<longrightarrow> sint (realm_GetFailureCount r) < 922337203 \<longrightarrow>
      SetFailureCount_helper realm_GetFailureCount realm_SetFailureCount r = (t, r') \<longrightarrow>
      sint t = 10000000000 * (sint (realm_GetFailureCount r) + 1) \<and>
      sint (realm_GetFailureCount r') = sint (realm_GetFailureCount r) + 1) \<and>
   (\<forall>r. realm_GetFailureCount r = 922337203 \<longrightarrow>
      sint (fst (SetFailureCount_helper realm_GetFailureCount realm_SetFailureCount r)) < 0)"
proof (intro conjI allI impI)
  fix r t r'
  let ?n = "realm_GetFailureCount r"
  assume b: "0 \<le> sint ?n" "sint ?n < 922337203"
    and "SetFailureCount_helper realm_GetFailureCount realm_SetFailureCount r = (t, r')"
  then have r: "realm_GetFailureCount r' = ?n + 1" "t = 10000000000 * (?n + 1)"
    using realm_count.failure_counted by blast+
  have n: "?n = word_of_int (sint ?n)" by simp
  have "t = word_of_int (10000000000 * (sint ?n + 1))"
    unfolding r(2) by (subst n) (simp only: of_int_mult of_int_add of_int_numeral of_int_1)
  moreover have "sint (word_of_int (10000000000 * (sint ?n + 1)) :: int64) = 10000000000 * (sint ?n + 1)"
    using delay_arith [OF b] by (intro sint_of_int_small) blast+
  ultimately show "sint t = 10000000000 * (sint ?n + 1)" by (simp only:)
  have "realm_GetFailureCount r' = word_of_int (sint ?n + 1)"
    unfolding r(1) by (subst n) (simp only: of_int_add of_int_1)
  moreover have "sint (word_of_int (sint ?n + 1) :: int64) = sint ?n + 1"
    using delay_arith [OF b] by (intro sint_of_int_small) blast+
  ultimately show "sint (realm_GetFailureCount r') = sint ?n + 1" by (simp only:)
next
  fix r :: KeycloakRealm
  assume "realm_GetFailureCount r = 922337203"
  then show "sint (fst (SetFailureCount_helper realm_GetFailureCount realm_SetFailureCount r)) < 0"
    by (simp add: SetFailureCount_helper_def getTimeout_def Let_def)
qed

definition test_realm :: KeycloakRealm where
  "test_realm = \<lparr>kr_Meta = zero_ObjectMeta, kr_Spec = zero_RealmSpec, kr_Status = zero_RealmStatus\<rparr>"

theorem SetFailureCount_delay_witness:
  "sint (fst (SetFailureCount_helper realm_GetFailureCount realm_SetFailureCount
     (realm_SetFailureCount 2 test_realm))) = 30000000000"
proof -
  let ?r = "realm_SetFailureCount 2 test_realm"
  obtain t r' where h: "SetFailureCount_helper realm_GetFailureCount realm_SetFailureCount ?r = (t, r')"
    by (cases "SetFailureCount_helper realm_GetFailureCount realm_SetFailureCount ?r") blast
  have "realm_GetFailureCount ?r = 2" by (simp add: realm_GetFailureCount_def realm_SetFailureCount_def)
  with SetFailureCount_delay [THEN conjunct1, rule_format, OF _ _ h] h show ?thesis by simp
qed

end
