(* ===== verification/Adapter.thy ===== *)
theory Adapter
  imports HelperLib
begin

text \<open>
  The legacy adapter, \<open>pkg/client/keycloak/adapter\<close>, as far as the modelled controllers use it: its
  constructors (\<open>Make\<close>, \<open>MakeFromServiceAccount\<close>, \<open>MakeFromToken\<close>), the requests it builds for resty,
  and the methods for identity providers, components, the server info and permissions.

  An adapter is a gocloak client and a token. gocloak and resty are third-party libraries and
  stand behind the parameters \<open>gocloak\<close> and \<open>resty\<close> of the environment. A resty call returns an error,
  a response or both; the response may be nil, and asking a nil response for its status is a panic.
\<close>

section \<open>Base64\<close>

text \<open>
  \<open>base64.RawURLEncoding.DecodeString\<close>: line breaks are skipped, any other character outside the
  alphabet is an error at its offset, and so is a single left-over character.
\<close>

definition b64_value :: "char \<Rightarrow> nat option" where
  "b64_value c = (let n = (of_char c :: nat) in
     if 65 \<le> n \<and> n \<le> 90 then Some (n - 65)
     else if 97 \<le> n \<and> n \<le> 122 then Some (n - 71)
     else if 48 \<le> n \<and> n \<le> 57 then Some (n + 4)
     else if n = 45 then Some 62
     else if n = 95 then Some 63
     else None)"

fun b64_digits :: "nat \<Rightarrow> string \<Rightarrow> nat + nat list" where
  "b64_digits pos [] = Inr []"
| "b64_digits pos (c # cs) =
     (if c = CHR 0x0A \<or> c = CHR 0x0D then b64_digits (Suc pos) cs
      else case b64_value c of
        None \<Rightarrow> Inl pos
      | Some d \<Rightarrow> (case b64_digits (Suc pos) cs of Inl p \<Rightarrow> Inl p | Inr ds \<Rightarrow> Inr (d # ds)))"

fun b64_bytes :: "nat list \<Rightarrow> string" where
  "b64_bytes (a # b # c # d # ds) =
     char_of (a * 4 + b div 16) # char_of (b mod 16 * 16 + c div 4) # char_of (c mod 4 * 64 + d) # b64_bytes ds"
| "b64_bytes [a, b, c] = [char_of (a * 4 + b div 16), char_of (b mod 16 * 16 + c div 4)]"
| "b64_bytes [a, b] = [char_of (a * 4 + b div 16)]"
| "b64_bytes _ = []"

definition CorruptInputError :: "nat \<Rightarrow> go_error" where
  "CorruptInputError pos = NewError (''illegal base64 data at input byte '' @ nat_digits pos)"

definition RawURLEncoding_Decode :: "string \<Rightarrow> go_error + string" where
  "RawURLEncoding_Decode s = (case b64_digits 0 s of
     Inl pos \<Rightarrow> Inl (CorruptInputError pos)
   | Inr ds \<Rightarrow> if length ds mod 4 = 1 then Inl (CorruptInputError (length s - 1)) else Inr (b64_bytes ds))"

section \<open>Making an adapter\<close>

record GoCloakConfig =
  gc_Url :: string
  gc_User :: string
  gc_Password :: string
  gc_RootCertificate :: string
  gc_InsecureSkipVerify :: bool

record GoCloakAdapter =
  ga_client :: GoCloak
  ga_token :: "gocloak_JWT option"
  ga_basePath :: string
  ga_legacyMode :: bool

definition gocloak_NewClient :: "GoCloakConfig \<Rightarrow> bool \<Rightarrow> GoCloak" where
  "gocloak_NewClient conf legacy =
     \<lparr>gk_Url = gc_Url conf, gk_Legacy = legacy, gk_InsecureSkipVerify = gc_InsecureSkipVerify conf,
      gk_RootCertificate = gc_RootCertificate conf\<rparr>"

definition gocloakCall :: "'w env \<Rightarrow> GoCloak \<Rightarrow> gocloak_request \<Rightarrow> ('w, 'm, gocloak_result) prog" where
  "gocloakCall env cl rq = callIO (Gocloak cl rq) (gocloak env cl rq)"

definition gocloak_token :: "gocloak_result \<Rightarrow> gocloak_JWT option" where
  "gocloak_token r = (case r of GocloakToken t \<Rightarrow> Some t | _ \<Rightarrow> None)"

definition isNotLegacyResponseCode :: "go_error \<Rightarrow> bool" where
  "isNotLegacyResponseCode err = (case errors_As (as_GocloakAPIError True) err of
     None \<Rightarrow> True
   | Some (code, msg) \<Rightarrow> code \<noteq> 404 \<and> code \<noteq> 503)"

text \<open>
  All three constructors first try the path layout of current distributions and fall back to the
  one of WildFly when that answers with 404 or 503.
\<close>

definition modern_or_legacy ::
  "('w, 'm, 'a) prog \<Rightarrow> ('w, 'm, 'a) prog \<Rightarrow> string \<Rightarrow> (bool \<Rightarrow> 'a \<Rightarrow> 'b) \<Rightarrow> ('w, 'm, 'b) prog" where
  "modern_or_legacy modern legacy failed wrap =
     bindIO (tryIO modern) (\<lambda>res. case res of
       Inr x \<Rightarrow> ret (wrap False x)
     | Inl err \<Rightarrow>
         if isNotLegacyResponseCode err
         then fail (Wrapped ''unexpected error received while trying to get realms using the modern client: '' err)
         else bindIO (wrapErr failed legacy) (\<lambda>x. ret (wrap True x)))"

definition adapter_of :: "GoCloakConfig \<Rightarrow> bool \<Rightarrow> gocloak_JWT option \<Rightarrow> GoCloakAdapter" where
  "adapter_of conf legacy token =
     \<lparr>ga_client = gocloak_NewClient conf legacy, ga_token = token, ga_basePath = gc_Url conf, ga_legacyMode = legacy\<rparr>"

definition login_with :: "'w env \<Rightarrow> GoCloakConfig \<Rightarrow> gocloak_request \<Rightarrow> string \<Rightarrow> ('w, 'm, GoCloakAdapter) prog" where
  "login_with env conf rq failed =
     modern_or_legacy (gocloakCall env (gocloak_NewClient conf False) rq)
       (gocloakCall env (gocloak_NewClient conf True) rq) failed
       (\<lambda>legacy r. adapter_of conf legacy (gocloak_token r))"

definition Make :: "'w env \<Rightarrow> GoCloakConfig \<Rightarrow> ('w, 'm, GoCloakAdapter) prog" where
  "Make env conf =
     login_with env conf (GocloakLoginAdmin (gc_User conf) (gc_Password conf) ''master'')
       (''cannot login to keycloak server with user: '' @ gc_User conf @ '': '')"

definition MakeFromServiceAccount :: "'w env \<Rightarrow> GoCloakConfig \<Rightarrow> string \<Rightarrow> ('w, 'm, GoCloakAdapter) prog" where
  "MakeFromServiceAccount env conf realm =
     login_with env conf (GocloakLoginClient (gc_User conf) (gc_Password conf) realm)
       (''failed to login with client creds on both current and legacy clients - clientID: '' @ gc_User conf @
        '', realm: '' @ realm @ '': '')"

definition makeClientFromToken :: "'w env \<Rightarrow> GoCloakConfig \<Rightarrow> string \<Rightarrow> ('w, 'm, GoCloak \<times> bool) prog" where
  "makeClientFromToken env conf token =
     modern_or_legacy (gocloakCall env (gocloak_NewClient conf False) (GocloakGetRealms token))
       (gocloakCall env (gocloak_NewClient conf True) (GocloakGetRealms token))
       ''failed to create both current and legacy clients: ''
       (\<lambda>legacy _. (gocloak_NewClient conf legacy, legacy))"

definition liftIO :: "go_error + 'a \<Rightarrow> ('w, 'e, 'm, 'a) io" where
  "liftIO r = (case r of Inl e \<Rightarrow> fail e | Inr a \<Rightarrow> ret a)"

definition nowIO :: "'w env \<Rightarrow> ('w, 'm, int64) prog" where
  "nowIO env = (\<lambda>s. (Ok (time_Now env (world s)), s))"

definition MakeFromToken :: "'w env \<Rightarrow> GoCloakConfig \<Rightarrow> string \<Rightarrow> ('w, 'm, GoCloakAdapter) prog" where
  "MakeFromToken env conf tokenData =
     bindIO (wrapErr ''unable decode json data: '' (liftIO (json_Unmarshal_JWT env tokenData))) (\<lambda>token.
     case strings_Split (CHR ''.'') (jwt_AccessToken token) of
       _ # payload # _ # _ \<Rightarrow>
         bindIO (wrapErr ''wrong JWT token base64 encoding: '' (liftIO (RawURLEncoding_Decode payload))) (\<lambda>tokenPayload.
         bindIO (wrapErr ''unable to decode JWT payload json: '' (liftIO (json_Unmarshal_Exp env tokenPayload))) (\<lambda>exp.
         bindIO (nowIO env) (\<lambda>now.
         if sint exp < sint now then fail (TokenExpiredErr ''token is expired'')
         else
           bindIO (wrapErr ''failed to make new keycloak client: ''
             (makeClientFromToken env conf (jwt_AccessToken token))) (\<lambda>(kcCl, legacyMode).
           ret \<lparr>ga_client = kcCl, ga_token = Some token, ga_basePath = gc_Url conf, ga_legacyMode = legacyMode\<rparr>))))
     | _ \<Rightarrow> fail (NewError ''wrong JWT token structure''))"

definition ExportToken :: "'w env \<Rightarrow> GoCloakAdapter \<Rightarrow> ('w, 'm, string) prog" where
  "ExportToken env a =
     wrapErr ''unable to json encode token: '' (liftIO (json_Marshal_JWT env (ga_token a)))"

section \<open>Requests\<close>

definition buildPath :: "GoCloakAdapter \<Rightarrow> string \<Rightarrow> string" where
  "buildPath a endpoint = (if ga_legacyMode a then ga_basePath a @ ''/auth'' @ endpoint else ga_basePath a @ endpoint)"

definition checkError :: "rest_answer \<Rightarrow> go_error option" where
  "checkError ans = (case ans of
     (Some err, _) \<Rightarrow> Some (Wrapped ''response error: '' err)
   | (None, None) \<Rightarrow> Some (NewError ''empty response'')
   | (None, Some rsp) \<Rightarrow>
       if rsr_StatusCode rsp > 399 then
         let respErr = ''status: '' @ rsr_Status rsp @ '', body: '' @ rsr_String rsp
         in if rsr_StatusCode rsp = 404 then Some (NotFoundErr respErr) else Some (NewError respErr)
       else None)"

definition startRestyRequest ::
  "GoCloakAdapter \<Rightarrow> http_method \<Rightarrow> string \<Rightarrow> string gomap \<Rightarrow> rest_body \<Rightarrow> ('w, 'm, rest_request) prog" where
  "startRestyRequest a method endpoint params body =
     bindIO (derefIO (ga_token a)) (\<lambda>token.
     ret \<lparr>rsq_AuthToken = jwt_AccessToken token, rsq_method = method, rsq_url = buildPath a endpoint,
       rsq_params = params, rsq_query = [], rsq_body = body\<rparr>)"

definition restCall ::
  "'w env \<Rightarrow> GoCloakAdapter \<Rightarrow> http_method \<Rightarrow> string \<Rightarrow> string gomap \<Rightarrow> rest_body \<Rightarrow> ('w, 'm, rest_answer) prog" where
  "restCall env a method endpoint params body =
     bindIO (startRestyRequest a method endpoint params body) (\<lambda>rq.
     callIO (Rest (ga_client a) rq) (\<lambda>w. case resty env (ga_client a) rq w of (ans, w') \<Rightarrow> (Inr ans, w')))"

text \<open>With query parameters.\<close>

definition restQuery ::
  "'w env \<Rightarrow> GoCloakAdapter \<Rightarrow> http_method \<Rightarrow> string \<Rightarrow> string gomap \<Rightarrow> string gomap \<Rightarrow> rest_body \<Rightarrow> ('w, 'm, rest_answer) prog" where
  "restQuery env a method endpoint params query body =
     bindIO (startRestyRequest a method endpoint params body) (\<lambda>rq.
     callIO (Rest (ga_client a) (rq\<lparr>rsq_query := query\<rparr>))
       (\<lambda>w. case resty env (ga_client a) (rq\<lparr>rsq_query := query\<rparr>) w of (ans, w') \<Rightarrow> (Inr ans, w')))"

definition checked :: "rest_answer \<Rightarrow> ('w, 'e, 'm, rest_response) io" where
  "checked ans = (case checkError ans of Some e \<Rightarrow> fail e | None \<Rightarrow> derefIO (snd ans))"

definition getIDFromResponseLocation :: "rest_response \<Rightarrow> go_error + string" where
  "getIDFromResponseLocation rsp =
     (if rsr_Location rsp = '''' then Inl (NewError ''location header is not set or empty'')
      else let locationParts = strings_Split (CHR ''/'') (rsr_Location rsp)
      in if locationParts = [] then Inl (NewError ''location header does not have ID'')
         else Inr (last locationParts))"

end
