(* ===== verification/Helper.thy ===== *)
theory Helper
  imports Adapter
begin

text \<open>
  The effectful part of \<open>internal/controller/helper\<close>: owner references and finalizers of a custom
  resource (\<open>controller_helper.go\<close>), and building Keycloak clients from the credentials in a secret
  (\<open>controller_helper_auth.go\<close>).

  The resource a controller works on is mutated through a pointer that its handlers share. It
  lives in the memory of a run; \<open>client_Object\<close> is Go's interface of that name: how to read and
  write its metadata, how it looks on the wire, and how an answer of the API server is decoded
  into it. The mutex of the helper is not modelled: a run is sequential.
\<close>

section \<open>Objects of the cluster\<close>

record 'm client_Object =
  obj_meta :: "'m \<Rightarrow> ObjectMeta"
  obj_set_meta :: "ObjectMeta \<Rightarrow> 'm \<Rightarrow> 'm"
  obj_out :: "'m \<Rightarrow> k8s_object"
  obj_in :: "k8s_object \<Rightarrow> 'm \<Rightarrow> 'm"

definition k8s_Get :: "'w env \<Rightarrow> k8s_kind \<Rightarrow> string \<Rightarrow> string \<Rightarrow> ('w, 'm, k8s_object) prog" where
  "k8s_Get env kind ns name = callIO (Kube (KGet kind ns name)) (k8s env (KGet kind ns name))"

text \<open>An answer of another kind does not decode into the requested type.\<close>

definition decode_error :: go_error where
  "decode_error = NewError ''unable to decode an object of another kind''"

definition get_realm_cr :: "'w env \<Rightarrow> string \<Rightarrow> string \<Rightarrow> ('w, 'm, KeycloakRealm) prog" where
  "get_realm_cr env ns name =
     bindIO (k8s_Get env KindRealm ns name) (\<lambda>x. case x of RealmObj r \<Rightarrow> ret r | _ \<Rightarrow> fail decode_error)"

definition get_user_cr :: "'w env \<Rightarrow> string \<Rightarrow> string \<Rightarrow> ('w, 'm, KeycloakUser) prog" where
  "get_user_cr env ns name =
     bindIO (k8s_Get env KindUser ns name) (\<lambda>x. case x of UserObj u \<Rightarrow> ret u | _ \<Rightarrow> fail decode_error)"

definition get_secret :: "'w env \<Rightarrow> string \<Rightarrow> string \<Rightarrow> ('w, 'm, Secret) prog" where
  "get_secret env ns name =
     bindIO (k8s_Get env KindSecret ns name) (\<lambda>x. case x of SecretObj r \<Rightarrow> ret r | _ \<Rightarrow> fail decode_error)"

definition get_configmap :: "'w env \<Rightarrow> string \<Rightarrow> string \<Rightarrow> ('w, 'm, ConfigMap) prog" where
  "get_configmap env ns name =
     bindIO (k8s_Get env KindConfigMap ns name) (\<lambda>x. case x of ConfigMapObj r \<Rightarrow> ret r | _ \<Rightarrow> fail decode_error)"

text \<open>\<open>client.Update\<close>, \<open>client.Status().Update\<close> and \<open>client.Delete\<close> of the object of a pointer.\<close>

definition k8s_Update :: "'w env \<Rightarrow> 'm client_Object \<Rightarrow> ('w, 'm, unit) prog" where
  "k8s_Update env obj =
     bindIO (getMem (obj_out obj)) (\<lambda>x.
     bindIO (callIO (Kube (KUpdate x)) (k8s env (KUpdate x))) (\<lambda>y.
     modMem (obj_in obj y)))"

definition k8s_StatusUpdate :: "'w env \<Rightarrow> 'm client_Object \<Rightarrow> ('w, 'm, unit) prog" where
  "k8s_StatusUpdate env obj =
     bindIO (getMem (obj_out obj)) (\<lambda>x.
     bindIO (callIO (Kube (KStatusUpdate x)) (k8s env (KStatusUpdate x))) (\<lambda>y.
     modMem (obj_in obj y)))"

definition k8s_Delete :: "'w env \<Rightarrow> 'm client_Object \<Rightarrow> ('w, 'm, unit) prog" where
  "k8s_Delete env obj =
     bindIO (getMem (obj_out obj)) (\<lambda>x.
     bindIO (callIO (Kube (KDelete x)) (k8s env (KDelete x))) (\<lambda>y. ret ()))"

section \<open>Owner references and finalizers\<close>

record HelperConf =
  h_watchNamespace :: string
  h_enableOwnerRef :: bool

definition SetRealmOwnerRef ::
  "'w env \<Rightarrow> HelperConf \<Rightarrow> 'm client_Object \<Rightarrow> ('m \<Rightarrow> RealmRef) \<Rightarrow> ('w, 'm, unit) prog" where
  "SetRealmOwnerRef env h obj getRealmRef =
     (if \<not> h_enableOwnerRef h then ret ()
      else bindIO (getMem (obj_meta obj)) (\<lambda>meta.
        if GetControllerOf env meta then ret ()
        else bindIO (getMem getRealmRef) (\<lambda>ref.
          if rr_Kind ref = KeycloakRealmKind then
            bindIO (wrapErr ''failed to get KeycloakRealm: ''
                     (get_realm_cr env (om_Namespace meta) (rr_Name ref))) (\<lambda>realm.
            case SetControllerReference env realm meta of
              Inl e \<Rightarrow> fail (Wrapped (''failed to set controller reference for '' @ om_Name meta @ '': '') e)
            | Inr meta' \<Rightarrow>
                bindIO (modMem (obj_set_meta obj meta')) (\<lambda>_.
                wrapErr (''failed to update realm owner reference '' @ om_Name (kr_Meta realm) @ '': '')
                  (k8s_Update env obj)))
          else fail (NewError (''unknown realm kind: '' @ rr_Kind ref)))))"

text \<open>\<open>controllerutil.AddFinalizer\<close> and \<open>RemoveFinalizer\<close> on the object.\<close>

definition addFinalizer :: "'w env \<Rightarrow> 'm client_Object \<Rightarrow> string \<Rightarrow> ('w, 'm, bool) prog" where
  "addFinalizer env obj f =
     bindIO (getMem (obj_meta obj)) (\<lambda>meta.
     case AddFinalizer env (om_Finalizers meta) f of (fs, changed) \<Rightarrow>
       bindIO (modMem (obj_set_meta obj (meta\<lparr>om_Finalizers := fs\<rparr>))) (\<lambda>_. ret changed))"

definition removeFinalizer :: "'w env \<Rightarrow> 'm client_Object \<Rightarrow> string \<Rightarrow> ('w, 'm, bool) prog" where
  "removeFinalizer env obj f =
     bindIO (getMem (obj_meta obj)) (\<lambda>meta.
     case RemoveFinalizer env (om_Finalizers meta) f of (fs, changed) \<Rightarrow>
       bindIO (modMem (obj_set_meta obj (meta\<lparr>om_Finalizers := fs\<rparr>))) (\<lambda>_. ret changed))"

definition TryRemoveFinalizer :: "'w env \<Rightarrow> 'm client_Object \<Rightarrow> string \<Rightarrow> ('w, 'm, unit) prog" where
  "TryRemoveFinalizer env obj finalizer =
     bindIO (getMem (obj_meta obj)) (\<lambda>meta.
     whenIO (om_DeletionTimestamp meta \<noteq> None)
       (bindIO (removeFinalizer env obj finalizer) (\<lambda>changed.
        whenIO changed (wrapErr ''unable to update instance: '' (k8s_Update env obj)))))"

definition TryToDelete ::
  "'w env \<Rightarrow> 'm client_Object \<Rightarrow> ('w, 'm, unit) prog \<Rightarrow> string \<Rightarrow> ('w, 'm, bool) prog" where
  "TryToDelete env obj terminator finalizer =
     bindIO (getMem (obj_meta obj)) (\<lambda>meta.
     if om_DeletionTimestamp meta = None then
       bindIO (addFinalizer env obj finalizer) (\<lambda>changed.
       bindIO (whenIO changed (wrapErr ''unable to update deletable object: '' (k8s_Update env obj))) (\<lambda>_.
       ret False))
     else
       bindIO (wrapErr ''error during keycloak resource deletion: '' terminator) (\<lambda>_.
       bindIO (removeFinalizer env obj finalizer) (\<lambda>changed.
       bindIO (whenIO changed (wrapErr ''unable to update instance: '' (k8s_Update env obj))) (\<lambda>_.
       ret True))))"

definition RemoveFinalizersOnRealmNotFound ::
  "'w env \<Rightarrow> 'm client_Object \<Rightarrow> string list \<Rightarrow> ('w, 'm, bool) prog" where
  "RemoveFinalizersOnRealmNotFound env obj finalizers =
     bindIO (foldIO (\<lambda>f removed. bindIO (removeFinalizer env obj f) (\<lambda>c. ret (c \<or> removed))) finalizers False)
       (\<lambda>removed.
     bindIO (whenIO removed (wrapErr ''failed to remove finalizers: '' (k8s_Update env obj))) (\<lambda>_.
     ret True))"

definition GetRealmNameFromRef ::
  "'w env \<Rightarrow> HelperConf \<Rightarrow> 'm client_Object \<Rightarrow> ('m \<Rightarrow> RealmRef) \<Rightarrow> ('w, 'm, string) prog" where
  "GetRealmNameFromRef env h obj getRealmRef =
     bindIO (getMem getRealmRef) (\<lambda>ref.
     bindIO (getMem (obj_meta obj)) (\<lambda>meta.
     if \<not> h_enableOwnerRef h then ret (rr_Name ref)
     else if rr_Kind ref = KeycloakRealmKind then
       bindIO (wrapErr ''failed to get KeycloakRealm: ''
                (get_realm_cr env (om_Namespace meta) (rr_Name ref))) (\<lambda>realm.
       ret (rs_RealmName (kr_Spec realm)))
     else fail (NewError (''unknown realm kind: '' @ rr_Kind ref))))"

section \<open>Keycloak clients\<close>

record KeycloakAuthData =
  ad_Url :: string
  ad_SecretName :: string
  ad_SecretNamespace :: string
  ad_AdminType :: string
  ad_KeycloakCRName :: string
  ad_CACert :: string
  ad_InsecureSkipVerify :: bool

definition MakeKeycloakAuthDataFromKeycloakConfig :: "string \<Rightarrow> ConfigRef \<Rightarrow> KeycloakAuthData" where
  "MakeKeycloakAuthDataFromKeycloakConfig ns cfgRef =
     \<lparr>ad_Url = cr_Url cfgRef, ad_SecretName = cr_Secret cfgRef, ad_SecretNamespace = ns,
      ad_AdminType = '''', ad_KeycloakCRName = '''', ad_CACert = '''', ad_InsecureSkipVerify = False\<rparr>"

definition getKeycloakAuthDataFromConfigRef :: "HelperConf \<Rightarrow> ConfigRef \<Rightarrow> KeycloakAuthData" where
  "getKeycloakAuthDataFromConfigRef h ref = MakeKeycloakAuthDataFromKeycloakConfig (h_watchNamespace h) ref"

definition tokenSecretName :: "string \<Rightarrow> string" where
  "tokenSecretName keycloakName = ''kc-token-'' @ keycloakName"

definition getCredentialsFromSecret ::
  "'w env \<Rightarrow> string \<Rightarrow> string \<Rightarrow> ('w, 'm, string \<times> string) prog" where
  "getCredentialsFromSecret env secretName secretNamespace =
     bindIO (wrapErr ''secret not found: '' (get_secret env secretNamespace secretName)) (\<lambda>secret.
     ret (get_str (sec_Data secret) ''username'', get_str (sec_Data secret) ''password''))"

definition NewKeycloakClient :: "'w env \<Rightarrow> new_client_params \<Rightarrow> ('w, 'm, kc_client) prog" where
  "NewKeycloakClient env p = callIO (NewClient p) (kc_new env p)"

definition createKeycloakClientV2FromAuthData ::
  "'w env \<Rightarrow> KeycloakAuthData \<Rightarrow> ('w, 'm, kc_client) prog" where
  "createKeycloakClientV2FromAuthData env authData =
     bindIO (wrapErr ''unable to get credentials: ''
              (getCredentialsFromSecret env (ad_SecretName authData) (ad_SecretNamespace authData)))
       (\<lambda>(username, password).
     wrapErr ''unable to create keycloak v2 client: ''
       (NewKeycloakClient env
         \<lparr>nc_Url = ad_Url authData, nc_ClientID = ''admin-cli'', nc_Username = username,
          nc_Password = password,
          nc_CACert = (if ad_CACert authData \<noteq> '''' then Some (ad_CACert authData) else None),
          nc_InsecureSkipVerify = ad_InsecureSkipVerify authData\<rparr>))"

definition CreateKeycloakClientV2FromConfigRef ::
  "'w env \<Rightarrow> HelperConf \<Rightarrow> ConfigRef \<Rightarrow> ('w, 'm, kc_client) prog" where
  "CreateKeycloakClientV2FromConfigRef env h ref =
     createKeycloakClientV2FromAuthData env (getKeycloakAuthDataFromConfigRef h ref)"

text \<open>The legacy adapter: from a cached token, or by logging in and caching the token.\<close>

definition adapterBuilder :: "'w env \<Rightarrow> GoCloakConfig \<Rightarrow> string \<Rightarrow> ('w, 'm, GoCloakAdapter) prog" where
  "adapterBuilder env conf adminType =
     (if adminType = ''serviceAccount''
      then wrapErr ''failed to make go keycloak adapter from service account: '' (MakeFromServiceAccount env conf ''master'')
      else wrapErr ''failed to make go keycloak adapter: '' (Make env conf))"

definition CreateKeycloakClient ::
  "'w env \<Rightarrow> string \<Rightarrow> string \<Rightarrow> string \<Rightarrow> string \<Rightarrow> string \<Rightarrow> bool \<Rightarrow> ('w, 'm, GoCloakAdapter) prog" where
  "CreateKeycloakClient env url user password adminType caCert insecureSkipVerify =
     wrapErr ''unable to init kc client adapter: ''
       (adapterBuilder env \<lparr>gc_Url = url, gc_User = user, gc_Password = password, gc_RootCertificate = caCert,
          gc_InsecureSkipVerify = insecureSkipVerify\<rparr> adminType)"

definition put_secret :: "'w env \<Rightarrow> k8s_request \<Rightarrow> ('w, 'm, unit) prog" where
  "put_secret env req = bindIO (callIO (Kube req) (k8s env req)) (\<lambda>_. ret ())"

definition saveKeycloakClientTokenSecret ::
  "'w env \<Rightarrow> string \<Rightarrow> string \<Rightarrow> string \<Rightarrow> ('w, 'm, unit) prog" where
  "saveKeycloakClientTokenSecret env secretName secretNamespace token =
     bindIO (tryIO (get_secret env secretNamespace secretName)) (\<lambda>res. case res of
       Inr secret \<Rightarrow> wrapErr ''unable to update token secret: ''
         (put_secret env (KUpdate (SecretObj (secret\<lparr>sec_Data := [(''token'', token)]\<rparr>))))
     | Inl err \<Rightarrow>
         if k8s_IsNotFound err then wrapErr ''unable to create token secret: ''
           (put_secret env (KCreate (SecretObj \<lparr>sec_Name = secretName, sec_Namespace = secretNamespace,
              sec_ResourceVersion = '''', sec_OwnerReferences = [], sec_Data = [(''token'', token)]\<rparr>)))
         else fail (Wrapped ''error during token secret retrieval: '' err))"

definition createKeycloakClientFromLoginPassword ::
  "'w env \<Rightarrow> KeycloakAuthData \<Rightarrow> ('w, 'm, GoCloakAdapter) prog" where
  "createKeycloakClientFromLoginPassword env authData =
     bindIO (wrapErr ''unable to get credentials: ''
              (getCredentialsFromSecret env (ad_SecretName authData) (ad_SecretNamespace authData)))
       (\<lambda>(username, password).
     bindIO (wrapErr ''unable to init authData client adapter: ''
              (CreateKeycloakClient env (ad_Url authData) username password (ad_AdminType authData)
                (ad_CACert authData) (ad_InsecureSkipVerify authData))) (\<lambda>clientAdapter.
     bindIO (wrapErr ''unable to export authData client token: '' (ExportToken env clientAdapter)) (\<lambda>jwtToken.
     bindIO (wrapErr ''unable to save authData token to secret: ''
              (saveKeycloakClientTokenSecret env (tokenSecretName (ad_SecretName authData))
                (ad_SecretNamespace authData) jwtToken)) (\<lambda>_.
     ret clientAdapter))))"

definition createKeycloakClientFromTokenSecret ::
  "'w env \<Rightarrow> KeycloakAuthData \<Rightarrow> ('w, 'm, GoCloakAdapter) prog" where
  "createKeycloakClientFromTokenSecret env authData =
     bindIO (wrapErr ''unable to get token secret: ''
              (get_secret env (ad_SecretNamespace authData) (tokenSecretName (ad_KeycloakCRName authData))))
       (\<lambda>tokenSecret.
     wrapErr ''unable to make authData client from token: ''
       (MakeFromToken env \<lparr>gc_Url = ad_Url authData, gc_User = '''', gc_Password = '''',
          gc_RootCertificate = ad_CACert authData, gc_InsecureSkipVerify = ad_InsecureSkipVerify authData\<rparr>
          (get_str (sec_Data tokenSecret) ''token'')))"

definition CreateKeycloakClientFomAuthData :: "'w env \<Rightarrow> KeycloakAuthData \<Rightarrow> ('w, 'm, GoCloakAdapter) prog" where
  "CreateKeycloakClientFomAuthData env authData =
     bindIO (tryIO (createKeycloakClientFromTokenSecret env authData)) (\<lambda>res. case res of
       Inr clientAdapter \<Rightarrow> ret clientAdapter
     | Inl err \<Rightarrow>
         if \<not> k8s_IsNotFound err \<and> \<not> IsErrTokenExpired err
         then fail (Wrapped ''unable to create kc client from token secret: '' err)
         else wrapErr ''unable to create kc client from login password: ''
                (createKeycloakClientFromLoginPassword env authData))"

definition CreateKeycloakClientFromConfigRef ::
  "'w env \<Rightarrow> HelperConf \<Rightarrow> ConfigRef \<Rightarrow> ('w, 'm, GoCloakAdapter) prog" where
  "CreateKeycloakClientFromConfigRef env h ref =
     CreateKeycloakClientFomAuthData env (getKeycloakAuthDataFromConfigRef h ref)"

definition InvalidateKeycloakClientTokenSecret :: "'w env \<Rightarrow> string \<Rightarrow> string \<Rightarrow> ('w, 'm, unit) prog" where
  "InvalidateKeycloakClientTokenSecret env namespace rootKeycloakName =
     bindIO (wrapErr ''unable to get client token secret: ''
              (get_secret env namespace (tokenSecretName rootKeycloakName))) (\<lambda>secret.
     wrapErr ''unable to delete client token secret: '' (put_secret env (KDelete (SecretObj secret))))"

section \<open>Requests the helper sends\<close>

lemma emits_k8s_Get [emits_intros]: "Kube (KGet kind ns name) \<in> S \<Longrightarrow> emits_under P S (k8s_Get env kind ns name)"
  unfolding k8s_Get_def by (intro emits_intros)

lemma emits_get_cr [emits_intros]:
  "Kube (KGet KindRealm ns name) \<in> S \<Longrightarrow> emits_under P S (get_realm_cr env ns name)"
  "Kube (KGet KindUser ns name) \<in> S \<Longrightarrow> emits_under P S (get_user_cr env ns name)"
  "Kube (KGet KindSecret ns name) \<in> S \<Longrightarrow> emits_under P S (get_secret env ns name)"
  "Kube (KGet KindConfigMap ns name) \<in> S \<Longrightarrow> emits_under P S (get_configmap env ns name)"
  unfolding get_realm_cr_def get_user_cr_def get_secret_def get_configmap_def
  by (auto intro!: emits_intros split: k8s_object.split)

text \<open>Where the object is decoded into, the invariant has to allow for any answer.\<close>

definition obj_stable :: "('m \<Rightarrow> bool) \<Rightarrow> 'm client_Object \<Rightarrow> bool" where
  "obj_stable P obj \<longleftrightarrow> (\<forall>m x. P m \<longrightarrow> P (obj_in obj x m)) \<and> (\<forall>m x. P m \<longrightarrow> P (obj_set_meta obj x m))"

lemma obj_stable_True [simp]: "obj_stable (\<lambda>_. True) obj"
  by (simp add: obj_stable_def)

lemma emits_k8s_write [emits_intros]:
  "obj_stable P obj \<Longrightarrow> range (\<lambda>x. Kube (KUpdate x)) \<subseteq> S \<Longrightarrow> emits_under P S (k8s_Update env obj)"
  "obj_stable P obj \<Longrightarrow> range (\<lambda>x. Kube (KStatusUpdate x)) \<subseteq> S \<Longrightarrow> emits_under P S (k8s_StatusUpdate env obj)"
  "range (\<lambda>x. Kube (KDelete x)) \<subseteq> S \<Longrightarrow> emits_under P S (k8s_Delete env obj)"
  unfolding k8s_Update_def k8s_StatusUpdate_def k8s_Delete_def obj_stable_def by (auto intro!: emits_intros)

lemma emits_SetRealmOwnerRef [emits_intros]:
  "obj_stable P obj \<Longrightarrow> range Kube \<subseteq> S \<Longrightarrow> emits_under P S (SetRealmOwnerRef env h obj ref)"
  unfolding SetRealmOwnerRef_def by (intro emits_intros) (auto simp: obj_stable_def)

lemma emits_finalizer [emits_intros]:
  "obj_stable P obj \<Longrightarrow> emits_under P S (addFinalizer env obj f)"
  "obj_stable P obj \<Longrightarrow> emits_under P S (removeFinalizer env obj f)"
  unfolding addFinalizer_def removeFinalizer_def obj_stable_def by (auto intro!: emits_intros)

lemma emits_TryRemoveFinalizer [emits_intros]:
  "obj_stable P obj \<Longrightarrow> range Kube \<subseteq> S \<Longrightarrow> emits_under P S (TryRemoveFinalizer env obj f)"
  unfolding TryRemoveFinalizer_def by (intro emits_intros) auto

lemma emits_TryToDelete [emits_intros]:
  "obj_stable P obj \<Longrightarrow> range Kube \<subseteq> S \<Longrightarrow> emits_under P S t \<Longrightarrow> emits_under P S (TryToDelete env obj t f)"
  unfolding TryToDelete_def by (intro emits_intros) auto

lemma emits_GetRealmNameFromRef [emits_intros]:
  "range Kube \<subseteq> S \<Longrightarrow> emits_under P S (GetRealmNameFromRef env h obj ref)"
  unfolding GetRealmNameFromRef_def by (intro emits_intros) auto

lemma emits_getCredentialsFromSecret [emits_intros]:
  "range Kube \<subseteq> S \<Longrightarrow> emits_under P S (getCredentialsFromSecret env n ns)"
  unfolding getCredentialsFromSecret_def by (intro emits_intros) auto

lemma emits_CreateKeycloakClientV2 [emits_intros]:
  "range Kube \<subseteq> S \<Longrightarrow> range NewClient \<subseteq> S \<Longrightarrow>
   emits_under P S (CreateKeycloakClientV2FromConfigRef env h ref)"
  unfolding CreateKeycloakClientV2FromConfigRef_def createKeycloakClientV2FromAuthData_def NewKeycloakClient_def
  by (intro emits_intros) auto

section \<open>The contract of an object pointer\<close>

text \<open>Reading back what was written, and writing back what was read.\<close>

locale client_object =
  fixes obj :: "'m client_Object"
  assumes meta_set_meta: "obj_meta obj (obj_set_meta obj x m) = x"
    and set_meta_same: "obj_set_meta obj (obj_meta obj m) m = m"
    and set_meta_twice: "obj_set_meta obj y (obj_set_meta obj x m) = obj_set_meta obj y m"
begin

lemma removeFinalizer_run:
  assumes "finalizers_ok env"
  shows "removeFinalizer env obj f s =
    (Ok (f \<in> set (om_Finalizers (obj_meta obj (mem s)))),
     s\<lparr>mem := obj_set_meta obj ((obj_meta obj (mem s))\<lparr>om_Finalizers :=
        filter (\<lambda>x. x \<noteq> f) (om_Finalizers (obj_meta obj (mem s)))\<rparr>) (mem s)\<rparr>)"
  using assms by (simp add: removeFinalizer_def finalizers_ok_def go_simps)

lemma removeFinalizer_absent:
  assumes "finalizers_ok env" and "f \<notin> set (om_Finalizers (obj_meta obj (mem s)))"
  shows "removeFinalizer env obj f s = (Ok False, s)"
proof -
  have "filter (\<lambda>x. x \<noteq> f) (om_Finalizers (obj_meta obj (mem s))) = om_Finalizers (obj_meta obj (mem s))"
    using assms(2) by (auto simp: filter_id_conv)
  then show ?thesis using assms by (simp add: removeFinalizer_run set_meta_same)
qed

text \<open>
  An object that is being deleted: its finalizer is taken away only after the terminator has
  succeeded, and by exactly one update; when the terminator fails nothing else happens.
\<close>

lemma TryToDelete_terminator_fails:
  "om_DeletionTimestamp (obj_meta obj (mem s)) \<noteq> None \<Longrightarrow> terminator s = (Err e, s1) \<Longrightarrow>
   TryToDelete env obj terminator f s = (Err (Wrapped ''error during keycloak resource deletion: '' e), s1)"
  by (auto simp: TryToDelete_def go_simps)

lemma TryToDelete_terminator_done:
  assumes "finalizers_ok env" and "om_DeletionTimestamp (obj_meta obj (mem s)) \<noteq> None"
    and "terminator s = (Ok (), s1)"
  shows "f \<notin> set (om_Finalizers (obj_meta obj (mem s1))) \<Longrightarrow>
      TryToDelete env obj terminator f s = (Ok True, s1)"
    and "f \<in> set (om_Finalizers (obj_meta obj (mem s1))) \<Longrightarrow>
      \<exists>m. trace (snd (TryToDelete env obj terminator f s)) = trace s1 @ [Kube (KUpdate (obj_out obj m))] \<and>
          f \<notin> set (om_Finalizers (obj_meta obj m)) \<and>
          (fst (TryToDelete env obj terminator f s) = Ok True \<or>
           (\<exists>e. fst (TryToDelete env obj terminator f s) = Err (Wrapped ''unable to update instance: '' e)))"
proof -
  assume "f \<notin> set (om_Finalizers (obj_meta obj (mem s1)))"
  with assms show "TryToDelete env obj terminator f s = (Ok True, s1)"
    by (auto simp: TryToDelete_def removeFinalizer_absent go_simps)
next
  let ?m = "obj_set_meta obj ((obj_meta obj (mem s1))\<lparr>om_Finalizers :=
     filter (\<lambda>x. x \<noteq> f) (om_Finalizers (obj_meta obj (mem s1)))\<rparr>) (mem s1)"
  assume "f \<in> set (om_Finalizers (obj_meta obj (mem s1)))"
  with assms have
    "trace (snd (TryToDelete env obj terminator f s)) = trace s1 @ [Kube (KUpdate (obj_out obj ?m))] \<and>
     (fst (TryToDelete env obj terminator f s) = Ok True \<or>
      (\<exists>e. fst (TryToDelete env obj terminator f s) = Err (Wrapped ''unable to update instance: '' e)))"
    by (auto simp: TryToDelete_def removeFinalizer_run k8s_Update_def go_simps split: prod.split sum.split)
  moreover have "f \<notin> set (om_Finalizers (obj_meta obj ?m))" by (simp add: meta_set_meta)
  ultimately show "\<exists>m. trace (snd (TryToDelete env obj terminator f s)) = trace s1 @ [Kube (KUpdate (obj_out obj m))] \<and>
          f \<notin> set (om_Finalizers (obj_meta obj m)) \<and>
          (fst (TryToDelete env obj terminator f s) = Ok True \<or>
           (\<exists>e. fst (TryToDelete env obj terminator f s) = Err (Wrapped ''unable to update instance: '' e)))"
    by blast
qed

text \<open>An object that is not: the terminator is not run, and the finalizer is there afterwards.\<close>

lemma TryToDelete_live:
  assumes "finalizers_ok env" and "om_DeletionTimestamp (obj_meta obj (mem s)) = None"
  shows "f \<in> set (om_Finalizers (obj_meta obj (mem s))) \<Longrightarrow>
      TryToDelete env obj terminator f s = (Ok False, s)"
    and "f \<notin> set (om_Finalizers (obj_meta obj (mem s))) \<Longrightarrow>
      \<exists>m. trace (snd (TryToDelete env obj terminator f s)) = trace s @ [Kube (KUpdate (obj_out obj m))] \<and>
          f \<in> set (om_Finalizers (obj_meta obj m))"
proof -
  assume "f \<in> set (om_Finalizers (obj_meta obj (mem s)))"
  with assms show "TryToDelete env obj terminator f s = (Ok False, s)"
    by (simp add: TryToDelete_def addFinalizer_def finalizers_ok_def go_simps set_meta_same)
next
  let ?m = "obj_set_meta obj ((obj_meta obj (mem s))\<lparr>om_Finalizers :=
     om_Finalizers (obj_meta obj (mem s)) @ [f]\<rparr>) (mem s)"
  assume "f \<notin> set (om_Finalizers (obj_meta obj (mem s)))"
  with assms have
    "trace (snd (TryToDelete env obj terminator f s)) = trace s @ [Kube (KUpdate (obj_out obj ?m))]"
    by (auto simp: TryToDelete_def addFinalizer_def finalizers_ok_def k8s_Update_def go_simps
        split: prod.split sum.split)
  moreover have "f \<in> set (om_Finalizers (obj_meta obj ?m))" by (simp add: meta_set_meta)
  ultimately show "\<exists>m. trace (snd (TryToDelete env obj terminator f s)) = trace s @ [Kube (KUpdate (obj_out obj m))] \<and>
          f \<in> set (om_Finalizers (obj_meta obj m))"
    by blast
qed

end

end
