(* ===== verification/HandlerChain.thy ===== *)
theory HandlerChain
  imports Helper
begin

text \<open>
  The loop the chains share: serve a handler; when its error says the token was rejected, build
  a new client, hand it to the handler and serve once more; wrap any remaining error and stop.
  \<open>serveRetry\<close> is the body of that loop, written out in each \<open>chain.go\<close>; the locale
  \<open>handler_chain\<close> is what a chain's own loop promises, and is interpreted by each of them.
\<close>

definition serveRetry ::
  "('h \<Rightarrow> ('w, 'm, unit) prog) \<Rightarrow> ('w, 'm, 'c) prog \<Rightarrow> ('c \<Rightarrow> 'h \<Rightarrow> 'h) \<Rightarrow> 'h \<Rightarrow>
   ('w, 'm, 'h) prog" where
  "serveRetry serve refreshToken withClient h =
     bindIO (tryIO (serve h)) (\<lambda>res. case res of
       Inr _ \<Rightarrow> ret h
     | Inl err \<Rightarrow>
         if IsUnauthorizedError (Some err) then
           bindIO refreshToken (\<lambda>cl.
           bindIO (wrapErr ''failed to serve handler: '' (serve (withClient cl h))) (\<lambda>_.
           ret (withClient cl h)))
         else fail (Wrapped ''failed to serve handler: '' err))"

lemma emits_serveRetry [emits_intros]:
  "(\<And>h. emits_under P S (serve h)) \<Longrightarrow> emits_under P S refreshToken \<Longrightarrow> emits_under P S (serveRetry serve refreshToken withClient h)"
  unfolding serveRetry_def by (intro emits_intros)

lemma serveRetry_ok:
  "serve h s = (Ok (), s') \<Longrightarrow> serveRetry serve refreshToken withClient h s = (Ok h, s')"
  by (simp add: serveRetry_def go_simps)

lemma serveRetry_error:
  "serve h s = (Err e, s') \<Longrightarrow> \<not> IsUnauthorizedError (Some e) \<Longrightarrow>
   serveRetry serve refreshToken withClient h s = (Err (Wrapped ''failed to serve handler: '' e), s')"
  by (simp add: serveRetry_def go_simps)

lemma serveRetry_refreshed:
  assumes "serve h s = (Err e, s1)" and "IsUnauthorizedError (Some e)" and "refreshToken s1 = (Ok cl, s2)"
  shows "serveRetry serve refreshToken withClient h s =
    (case serve (withClient cl h) s2 of
       (Ok _, s3) \<Rightarrow> (Ok (withClient cl h), s3)
     | (Err e', s3) \<Rightarrow> (Err (Wrapped ''failed to serve handler: '' e'), s3)
     | (Panic, s3) \<Rightarrow> (Panic, s3))"
  using assms by (auto simp: serveRetry_def go_simps split: prod.split outcome.split)

lemma serveRetry_refresh_fails:
  assumes "serve h s = (Err e, s1)" and "IsUnauthorizedError (Some e)" and "refreshToken s1 = (Err e', s2)"
  shows "serveRetry serve refreshToken withClient h s = (Err e', s2)"
  using assms by (simp add: serveRetry_def go_simps)

text \<open>
  If serving establishes \<open>Q\<close> from \<open>P\<close> and serving with a new client does so from what a failed
  attempt leaves, then so does the retrying loop body.
\<close>

lemma wp_serveRetry:
  assumes "wp b (serve h) (\<lambda>_. Q) (\<lambda>e s'. if IsUnauthorizedError (Some e)
      then wp b refreshToken (\<lambda>cl. wp b (serve (withClient cl h)) (\<lambda>_. Q) (\<lambda>e. E (Wrapped ''failed to serve handler: '' e))) E s'
      else E (Wrapped ''failed to serve handler: '' e) s') s"
  shows "wp b (serveRetry serve refreshToken withClient h) (\<lambda>_. Q) E s"
  using assms unfolding serveRetry_def by (auto elim!: wp_mono split: if_splits)

locale handler_chain =
  fixes serve :: "'h \<Rightarrow> ('w, 'm, unit) prog"
    and refreshToken :: "('w, 'm, 'c) prog"
    and withClient :: "'c \<Rightarrow> 'h \<Rightarrow> 'h"
    and run :: "'h list \<Rightarrow> ('w, 'm, 'h list) prog"
  assumes run_Nil: "run [] = ret []"
    and run_Cons: "run (h # hs) =
      bindIO (serveRetry serve refreshToken withClient h) (\<lambda>h'.
      bindIO (run hs) (\<lambda>hs'. ret (h' # hs')))"
begin

lemma run_emits:
  "(\<And>h. emits_under P S (serve h)) \<Longrightarrow> emits_under P S refreshToken \<Longrightarrow> emits_under P S (run hs)"
  by (induction hs) (auto simp: run_Nil run_Cons intro!: emits_intros)

lemma run_append: "run (hs @ gs) = bindIO (run hs) (\<lambda>hs'. bindIO (run gs) (\<lambda>gs'. ret (hs' @ gs')))"
proof (induction hs)
  case (Cons h hs)
  show ?case
    by (rule ext) (auto simp: run_Cons Cons.IH bindIO_def ret_def split: prod.split outcome.split)
qed (auto simp: run_Nil bindIO_def ret_def split: prod.split outcome.split)

text \<open>A handler that fails for another reason than its token is the last one to be served.\<close>

lemma run_stops:
  assumes "run hs s = (Ok hs', s1)" and "serve h s1 = (Err e, s2)" and "\<not> IsUnauthorizedError (Some e)"
  shows "run (hs @ h # gs) s = (Err (Wrapped ''failed to serve handler: '' e), s2)"
proof -
  have "run (h # gs) s1 = (Err (Wrapped ''failed to serve handler: '' e), s2)"
    using serveRetry_error [where serve = serve and refreshToken = refreshToken and withClient = withClient, OF assms(2,3)] by (simp add: run_Cons bindIO_def)
  with assms(1) show ?thesis by (simp add: run_append bindIO_def)
qed

text \<open>A chain whose handlers all succeed runs them in order, once each.\<close>

lemma run_all:
  "(\<And>i. i < length hs \<Longrightarrow> serve (hs ! i) (ss ! i) = (Ok (), ss ! Suc i)) \<Longrightarrow>
   length ss = Suc (length hs) \<Longrightarrow> run hs (ss ! 0) = (Ok hs, ss ! length hs)"
proof (induction hs arbitrary: ss)
  case Nil
  then show ?case by (simp add: run_Nil ret_def)
next
  case (Cons h hs)
  from Cons.prems(2) obtain s0 ss' where ss: "ss = s0 # ss'" "length ss' = Suc (length hs)"
    by (cases ss) auto
  have first: "serve h s0 = (Ok (), ss' ! 0)" using Cons.prems(1) [of 0] ss by simp
  have "run hs (ss' ! 0) = (Ok hs, ss' ! length hs)"
    using Cons.IH [of ss'] Cons.prems(1) [of "Suc i" for i] ss by simp
  with serveRetry_ok [where serve = serve and refreshToken = refreshToken and withClient = withClient, OF first] show ?case by (simp add: run_Cons ss bindIO_def ret_def)
qed

end

end
