(* ===== verification/UserChain.thy ===== *)
theory UserChain
  imports HandlerChain
begin

text \<open>
  \<open>internal/controller/keycloakuser/chain\<close>: the handlers that bring one user of Keycloak in line
  with a \<open>KeycloakUser\<close> resource, and the chain that runs them.

  The memory of a run holds the resource the handlers share (\<open>um_user\<close>, whose status they write)
  and the \<open>UserContext\<close> (\<open>um_UserID\<close>). A handler value carries the API client it was made with.
\<close>

record user_mem =
  um_user :: KeycloakUser
  um_UserID :: string

type_synonym ('w, 'a) user_prog = "('w, user_mem, 'a) prog"

definition user_obj :: "user_mem client_Object" where
  "user_obj = \<lparr>obj_meta = (\<lambda>m. ku_Meta (um_user m)),
     obj_set_meta = (\<lambda>x m. m\<lparr>um_user := (um_user m)\<lparr>ku_Meta := x\<rparr>\<rparr>),
     obj_out = (\<lambda>m. UserObj (um_user m)),
     obj_in = (\<lambda>x m. case x of UserObj u \<Rightarrow> m\<lparr>um_user := u\<rparr> | _ \<Rightarrow> m)\<rparr>"

interpretation user_object: client_object user_obj
  by unfold_locales (simp_all add: user_obj_def)

section \<open>create_or_update_user.go\<close>

definition updatePasswordAction :: string where
  "updatePasswordAction = ''UPDATE_PASSWORD''"

definition add_missing :: "string list \<Rightarrow> string list \<Rightarrow> string list" where
  "add_missing v current = fold (\<lambda>newVal cur. if newVal \<in> set cur then cur else cur @ [newVal]) v current"

definition makeUserAttributes ::
  "string list gomap option \<Rightarrow> string list gomap \<Rightarrow> bool \<Rightarrow> string list gomap" where
  "makeUserAttributes existing desired addOnly = (
     let attrs0 = (case existing of None \<Rightarrow> [] | Some m \<Rightarrow> m);
         attrs1 = fold (\<lambda>(k, v) attrs.
            if addOnly then AList.update k (add_missing v (get_list attrs k)) attrs
            else AList.update k v attrs) desired attrs0
     in if addOnly then attrs1 else filter (\<lambda>(k, v). map_of desired k \<noteq> None) attrs1)"

definition preserveUpdatePasswordAction :: "string list option \<Rightarrow> string list \<Rightarrow> string list" where
  "preserveUpdatePasswordAction current desired =
     (case current of
        None \<Rightarrow> desired
      | Some cur \<Rightarrow> if updatePasswordAction \<in> set cur \<and> updatePasswordAction \<notin> set desired
                   then desired @ [updatePasswordAction] else desired)"

definition new_user_rep :: "KeycloakUserSpec \<Rightarrow> bool \<Rightarrow> UserRepresentation" where
  "new_user_rep spec addOnly =
     zero_user\<lparr>ur_Username := Some (us_Username spec), ur_Enabled := Some (us_Enabled spec),
       ur_EmailVerified := Some (us_EmailVerified spec), ur_FirstName := Some (us_FirstName spec),
       ur_LastName := Some (us_LastName spec),
       ur_RequiredActions := Some (us_RequiredUserActions spec), ur_Email := Some (us_Email spec),
       ur_Attributes := (if us_AttributesV2 spec \<noteq> []
         then Some (makeUserAttributes None (us_AttributesV2 spec) addOnly) else None)\<rparr>"

definition updated_user_rep :: "UserRepresentation \<Rightarrow> KeycloakUserSpec \<Rightarrow> bool \<Rightarrow> UserRepresentation" where
  "updated_user_rep existing spec addOnly =
     existing\<lparr>ur_Username := Some (us_Username spec), ur_Enabled := Some (us_Enabled spec),
       ur_EmailVerified := Some (us_EmailVerified spec), ur_FirstName := Some (us_FirstName spec),
       ur_LastName := Some (us_LastName spec),
       ur_RequiredActions :=
         Some (preserveUpdatePasswordAction (ur_RequiredActions existing) (us_RequiredUserActions spec)),
       ur_Email := Some (us_Email spec),
       ur_Attributes := (if us_AttributesV2 spec \<noteq> []
         then Some (makeUserAttributes (ur_Attributes existing) (us_AttributesV2 spec) addOnly)
         else ur_Attributes existing)\<rparr>"

definition CreateOrUpdateUser_Serve :: "'w env \<Rightarrow> kc_client \<Rightarrow> string \<Rightarrow> ('w, unit) user_prog" where
  "CreateOrUpdateUser_Serve env c realmName =
     bindIO (getMem um_user) (\<lambda>user.
     let userSpec = ku_Spec user; addOnly = IsReconciliationStrategyAddOnly user in
     bindIO (tryIO (FindUserByUsername env c realmName (us_Username userSpec))) (\<lambda>found. case found of
       Inl err \<Rightarrow>
         if \<not> IsNotFound err then fail (Wrapped ''unable to find user by username: '' err)
         else
           bindIO (wrapErr ''unable to create user: ''
                    (CreateUser env c realmName (new_user_rep userSpec addOnly))) (\<lambda>resp.
           let userID = GetResourceIDFromResponse env (Some resp) in
           if userID = '''' then fail (NewError ''unable to get user ID from response'')
           else modMem (\<lambda>m. m\<lparr>um_UserID := userID\<rparr>))
     | Inr existing \<Rightarrow>
         bindIO (derefIO (ur_Id existing)) (\<lambda>userID.
         bindIO (wrapErr ''unable to update user: ''
                  (UpdateUser env c realmName userID (updated_user_rep existing userSpec addOnly))) (\<lambda>_.
         modMem (\<lambda>m. m\<lparr>um_UserID := userID\<rparr>)))))"

section \<open>set_user_password.go\<close>

definition ConditionPasswordSynced :: string where "ConditionPasswordSynced = ''PasswordSynced''"
definition ReasonPasswordSetFromSecret :: string where "ReasonPasswordSetFromSecret = ''PasswordSetFromSecret''"
definition ReasonTemporaryPasswordSet :: string where "ReasonTemporaryPasswordSet = ''TemporaryPasswordSet''"
definition ReasonPasswordSetFromSpec :: string where "ReasonPasswordSetFromSpec = ''PasswordSetFromSpec''"
definition ReasonSecretNotFound :: string where "ReasonSecretNotFound = ''SecretNotFound''"
definition ReasonSecretKeyMissing :: string where "ReasonSecretKeyMissing = ''SecretKeyMissing''"
definition ReasonKeycloakAPIError :: string where "ReasonKeycloakAPIError = ''KeycloakAPIError''"

record passwordResult =
  pr_Value :: string
  pr_Temporary :: bool
  pr_SecretVersion :: string
  pr_FromSecret :: bool

definition getPassword :: "'w env \<Rightarrow> KeycloakUser \<Rightarrow> ('w, passwordResult) user_prog" where
  "getPassword env user =
     (let from_spec = ret \<lparr>pr_Value = us_Password (ku_Spec user), pr_Temporary = False,
                            pr_SecretVersion = '''', pr_FromSecret = False\<rparr> in
      case us_PasswordSecret (ku_Spec user) of
        None \<Rightarrow> from_spec
      | Some ps \<Rightarrow>
          if ps_Name ps \<noteq> '''' \<and> ps_Key ps \<noteq> '''' then
            bindIO (wrapErr (''failed to get secret '' @ ps_Name ps @ '' with user password: '')
                     (get_secret env (om_Namespace (ku_Meta user)) (ps_Name ps))) (\<lambda>secret.
            case map_of (sec_Data secret) (ps_Key ps) of
              None \<Rightarrow> fail (Wrapped (''key '' @ ps_Key ps @ '' not found in secret '' @ ps_Name ps @ '': '')
                       (Sentinel errSecretKeyNotFound))
            | Some password \<Rightarrow> ret \<lparr>pr_Value = password, pr_Temporary = ps_Temporary ps,
                pr_SecretVersion = sec_ResourceVersion secret, pr_FromSecret = True\<rparr>)
          else from_spec)"

definition classifyPasswordError :: "go_error \<Rightarrow> KeycloakUser \<Rightarrow> string \<times> string" where
  "classifyPasswordError err user =
     (let secretName = (case us_PasswordSecret (ku_Spec user) of None \<Rightarrow> '''' | Some ps \<Rightarrow> ps_Name ps);
          keyName = (case us_PasswordSecret (ku_Spec user) of None \<Rightarrow> '''' | Some ps \<Rightarrow> ps_Key ps)
      in if k8s_IsNotFound err then
           (ReasonSecretNotFound, ''Password secret '' @ go_quote secretName @ '' not found in namespace ''
              @ go_quote (om_Namespace (ku_Meta user)))
         else if errors_Is err errSecretKeyNotFound then
           (ReasonSecretKeyMissing, ''Key '' @ go_quote keyName @ '' not found in secret '' @ go_quote secretName)
         else (ReasonKeycloakAPIError, ''Failed to set password in Keycloak: '' @ Error err))"

definition getPasswordReason :: "passwordResult \<Rightarrow> string" where
  "getPasswordReason p =
     (if \<not> pr_FromSecret p then ReasonPasswordSetFromSpec
      else if pr_Temporary p then ReasonTemporaryPasswordSet else ReasonPasswordSetFromSecret)"

definition getPasswordMessage :: "passwordResult \<Rightarrow> PasswordSecret option \<Rightarrow> string" where
  "getPasswordMessage p passwordSecret =
     (if \<not> pr_FromSecret p then ''Password set from spec.password field (deprecated)''
      else let secretName = (case passwordSecret of None \<Rightarrow> '''' | Some ps \<Rightarrow> ps_Name ps) in
        if pr_Temporary p then ''Temporary password set from secret '' @ secretName @ '' (will not reset)''
        else ''Password synced from secret '' @ secretName)"

definition set_password_condition ::
  "'w env \<Rightarrow> string \<Rightarrow> string \<Rightarrow> string \<Rightarrow> KeycloakUser \<Rightarrow> KeycloakUser" where
  "set_password_condition env status reason message user =
     user\<lparr>ku_Status := (ku_Status user)\<lparr>ust_Conditions :=
       SetStatusCondition env (ust_Conditions (ku_Status user))
         \<lparr>cond_Type = ConditionPasswordSynced, cond_Status = status, cond_Reason = reason,
          cond_Message = message, cond_ObservedGeneration = om_Generation (ku_Meta user)\<rparr>\<rparr>\<rparr>"

definition setPasswordErrorCondition :: "'w env \<Rightarrow> go_error \<Rightarrow> KeycloakUser \<Rightarrow> KeycloakUser" where
  "setPasswordErrorCondition env err user = (case classifyPasswordError err user of (reason, message) \<Rightarrow>
     set_password_condition env ''False'' reason message user)"

definition updatePasswordCondition :: "'w env \<Rightarrow> passwordResult \<Rightarrow> KeycloakUser \<Rightarrow> KeycloakUser" where
  "updatePasswordCondition env p user =
     (let u1 = set_password_condition env ''True'' (getPasswordReason p)
                 (getPasswordMessage p (us_PasswordSecret (ku_Spec user))) user
      in u1\<lparr>ku_Status := (ku_Status u1)\<lparr>ust_LastSyncedPasswordSecretVersion :=
           (if pr_FromSecret p then pr_SecretVersion p else '''')\<rparr>\<rparr>)"

definition shouldSkipPasswordSync :: "'w env \<Rightarrow> KeycloakUser \<Rightarrow> passwordResult \<Rightarrow> bool" where
  "shouldSkipPasswordSync env user p =
     (if \<not> pr_FromSecret p then False
      else if pr_Temporary p then
        IsStatusConditionTrue env (ust_Conditions (ku_Status user)) ConditionPasswordSynced
      else ust_LastSyncedPasswordSecretVersion (ku_Status user) = pr_SecretVersion p)"

definition SetUserPassword_Serve :: "'w env \<Rightarrow> kc_client \<Rightarrow> string \<Rightarrow> ('w, unit) user_prog" where
  "SetUserPassword_Serve env c realmName =
     bindIO (getMem um_user) (\<lambda>user.
     if us_PasswordSecret (ku_Spec user) = None \<and> us_Password (ku_Spec user) = '''' then ret ()
     else bindIO (tryIO (getPassword env user)) (\<lambda>res. case res of
       Inl err \<Rightarrow>
         bindIO (modMem (\<lambda>m. m\<lparr>um_user := setPasswordErrorCondition env err (um_user m)\<rparr>)) (\<lambda>_. fail err)
     | Inr pwdResult \<Rightarrow>
         if shouldSkipPasswordSync env user pwdResult then ret ()
         else
           bindIO (getMem um_UserID) (\<lambda>userID.
           bindIO (tryIO (client_SetUserPassword env c realmName userID
             \<lparr>cred_Type = Some ''password'', cred_Value = Some (pr_Value pwdResult),
              cred_Temporary = Some (pr_Temporary pwdResult)\<rparr>)) (\<lambda>res2. case res2 of
             Inl err \<Rightarrow>
               let wrappedErr = Wrapped ''unable to set user password: '' err in
               bindIO (modMem (\<lambda>m. m\<lparr>um_user := setPasswordErrorCondition env wrappedErr (um_user m)\<rparr>))
                 (\<lambda>_. fail wrappedErr)
           | Inr _ \<Rightarrow> modMem (\<lambda>m. m\<lparr>um_user := updatePasswordCondition env pwdResult (um_user m)\<rparr>)))))"

section \<open>sync_user_roles.go\<close>

definition role_map :: "RoleRepresentation list \<Rightarrow> RoleRepresentation gomap" where
  "role_map roles = build_map role_Name id roles"

definition named_not_in :: "string list \<Rightarrow> RoleRepresentation \<Rightarrow> bool" where
  "named_not_in names r = (case role_Name r of None \<Rightarrow> False | Some n \<Rightarrow> n \<notin> set names)"

definition syncRealmRoles ::
  "'w env \<Rightarrow> kc_client \<Rightarrow> string \<Rightarrow> string \<Rightarrow> string list \<Rightarrow> bool \<Rightarrow> ('w, unit) user_prog" where
  "syncRealmRoles env c realmName userID desiredRoleNames addOnly =
     bindIO (wrapErr ''unable to get user realm role mappings: ''
              (GetUserRealmRoleMappings env c realmName userID)) (\<lambda>currentRoles.
     let currentByName = role_map currentRoles in
     bindIO (foldIO (\<lambda>roleName toAdd.
         if map_of currentByName roleName \<noteq> None then ret toAdd
         else bindIO (wrapErr (''unable to get realm role '' @ go_quote roleName @ '': '')
                       (GetRealmRole env c realmName roleName)) (\<lambda>role.
              bindIO (derefIO role) (\<lambda>r. ret (toAdd @ [r])))) desiredRoleNames []) (\<lambda>toAdd.
     bindIO (whenIO (toAdd \<noteq> []) (wrapErr ''unable to add realm roles to user: ''
              (voidIO (AddUserRealmRoles env c realmName userID toAdd)))) (\<lambda>_.
     if addOnly then ret ()
     else let toRemove = filter (named_not_in desiredRoleNames) currentRoles in
       whenIO (toRemove \<noteq> []) (wrapErr ''unable to delete realm roles from user: ''
         (voidIO (DeleteUserRealmRoles env c realmName userID toRemove))))))"

definition syncClientMapping ::
  "'w env \<Rightarrow> kc_client \<Rightarrow> string \<Rightarrow> string \<Rightarrow> bool \<Rightarrow> UserClientRole \<Rightarrow> string \<Rightarrow> ('w, unit) user_prog" where
  "syncClientMapping env c realmName userID addOnly cr clientUUID =
     bindIO (wrapErr (''unable to get client role mappings for client '' @ go_quote (ucr_ClientID cr) @ '': '')
              (GetUserClientRoleMappings env c realmName userID clientUUID)) (\<lambda>currentRoles.
     let currentByName = role_map currentRoles in
     bindIO (foldIO (\<lambda>roleName toAdd.
         if map_of currentByName roleName \<noteq> None then ret toAdd
         else bindIO (wrapErr (''unable to get client role '' @ go_quote roleName @ '' for client ''
                        @ go_quote (ucr_ClientID cr) @ '': '')
                       (GetClientRole env c realmName clientUUID roleName)) (\<lambda>role.
              bindIO (derefIO role) (\<lambda>r. ret (toAdd @ [r])))) (ucr_Roles cr) []) (\<lambda>toAdd.
     bindIO (whenIO (toAdd \<noteq> [])
              (wrapErr (''unable to add client roles to user for client '' @ go_quote (ucr_ClientID cr) @ '': '')
                (voidIO (AddUserClientRoles env c realmName userID clientUUID toAdd)))) (\<lambda>_.
     if addOnly then ret ()
     else let toRemove = filter (named_not_in (ucr_Roles cr)) currentRoles in
       whenIO (toRemove \<noteq> [])
         (wrapErr (''unable to delete client roles from user for client '' @ go_quote (ucr_ClientID cr) @ '': '')
           (voidIO (DeleteUserClientRoles env c realmName userID clientUUID toRemove))))))"

definition syncOneClient ::
  "'w env \<Rightarrow> kc_client \<Rightarrow> string \<Rightarrow> string \<Rightarrow> bool \<Rightarrow> UserClientRole \<Rightarrow> ('w, unit) user_prog" where
  "syncOneClient env c realmName userID addOnly cr =
     bindIO (wrapErr (''unable to get client '' @ go_quote (ucr_ClientID cr) @ '': '')
              (GetClients env c realmName [(''clientId'', ucr_ClientID cr)])) (\<lambda>clients.
     case clients of
       [] \<Rightarrow> fail (NewError (''client '' @ go_quote (ucr_ClientID cr) @ '' not found''))
     | cl # _ \<Rightarrow> (case cl_Id cl of
         None \<Rightarrow> fail (NewError (''client '' @ go_quote (ucr_ClientID cr) @ '' not found''))
       | Some clientUUID \<Rightarrow> syncClientMapping env c realmName userID addOnly cr clientUUID))"

definition syncClientRoles ::
  "'w env \<Rightarrow> kc_client \<Rightarrow> string \<Rightarrow> string \<Rightarrow> UserClientRole list \<Rightarrow> bool \<Rightarrow> ('w, unit) user_prog" where
  "syncClientRoles env c realmName userID clientRoles addOnly =
     forIO (syncOneClient env c realmName userID addOnly) clientRoles"

definition SyncUserRoles_Serve :: "'w env \<Rightarrow> kc_client \<Rightarrow> string \<Rightarrow> ('w, unit) user_prog" where
  "SyncUserRoles_Serve env c realmName =
     bindIO (getMem um_user) (\<lambda>user.
     bindIO (getMem um_UserID) (\<lambda>userID.
     let addOnly = IsReconciliationStrategyAddOnly user in
     bindIO (wrapErr ''unable to sync user realm roles: ''
              (syncRealmRoles env c realmName userID (us_Roles (ku_Spec user)) addOnly)) (\<lambda>_.
     wrapErr ''unable to sync user client roles: ''
       (syncClientRoles env c realmName userID (us_ClientRoles (ku_Spec user)) addOnly))))"

section \<open>sync_user_groups.go\<close>

record resolvedGroup =
  rg_id :: string
  rg_name :: string
  rg_path :: string

definition rg_label :: "resolvedGroup \<Rightarrow> string" where
  "rg_label g = (if rg_path g \<noteq> '''' then rg_path g else rg_name g)"

definition resolveGroup :: "'w env \<Rightarrow> kc_client \<Rightarrow> string \<Rightarrow> string \<Rightarrow> ('w, resolvedGroup) user_prog" where
  "resolveGroup env c realmName g =
     (if strings_HasPrefix g ''/'' then
        bindIO (wrapErr (''unable to get group by path '' @ go_quote g @ '': '')
                 (GetGroupByPath env c realmName g)) (\<lambda>grp.
        case Option.bind grp gp_Id of
          None \<Rightarrow> fail (NewError (''group not found by path '' @ go_quote g))
        | Some i \<Rightarrow> ret \<lparr>rg_id = i, rg_name = '''', rg_path = g\<rparr>)
      else
        bindIO (tryIO (FindGroupByName env c realmName g)) (\<lambda>res. case res of
          Inl err \<Rightarrow>
            if IsNotFound err then fail (NewError (''group not found by name '' @ go_quote g))
            else fail (Wrapped (''unable to find group by name '' @ go_quote g @ '': '') err)
        | Inr grp \<Rightarrow>
            bindIO (derefIO (gp_Id grp)) (\<lambda>i. ret \<lparr>rg_id = i, rg_name = g, rg_path = ''''\<rparr>)))"

definition joinGroups ::
  "'w env \<Rightarrow> kc_client \<Rightarrow> string \<Rightarrow> string \<Rightarrow> GroupRepresentation gomap \<Rightarrow> resolvedGroup list \<Rightarrow> ('w, unit) user_prog" where
  "joinGroups env c realmName userID currentByID desired =
     forIO (\<lambda>dg. whenIO (map_of currentByID (rg_id dg) = None)
       (wrapErr (''unable to add user to group '' @ go_quote (rg_label dg) @ '' (id '' @ rg_id dg @ ''): '')
         (voidIO (AddUserToGroup env c realmName userID (rg_id dg))))) desired"

definition leaveGroups ::
  "'w env \<Rightarrow> kc_client \<Rightarrow> string \<Rightarrow> string \<Rightarrow> GroupRepresentation gomap \<Rightarrow> resolvedGroup list \<Rightarrow> ('w, unit) user_prog" where
  "leaveGroups env c realmName userID currentByID desired =
     (let desiredIDs = set (map rg_id desired) in
      bindIO (range_order (map_rank env) currentByID) (
      forIO (\<lambda>(i, cg). whenIO (i \<notin> desiredIDs)
        (let groupLabel = (case gp_Name cg of None \<Rightarrow> i | Some n \<Rightarrow> n) in
         wrapErr (''unable to remove user from group '' @ go_quote groupLabel @ '' (id '' @ i @ ''): '')
           (voidIO (RemoveUserFromGroup env c realmName userID i))))))"

definition SyncUserGroups_Serve :: "'w env \<Rightarrow> kc_client \<Rightarrow> string \<Rightarrow> ('w, unit) user_prog" where
  "SyncUserGroups_Serve env c realmName =
     bindIO (getMem um_user) (\<lambda>user.
     bindIO (getMem um_UserID) (\<lambda>userID.
     if us_Groups (ku_Spec user) = [] \<and> IsReconciliationStrategyAddOnly user then ret ()
     else
       bindIO (wrapErr ''unable to get user groups: '' (GetUserGroups env c realmName userID)) (\<lambda>currentGroups.
       bindIO (foldIO (\<lambda>g desired. bindIO (resolveGroup env c realmName g) (\<lambda>r. ret (desired @ [r])))
                (us_Groups (ku_Spec user)) []) (\<lambda>desired.
       let currentByID = build_map gp_Id id currentGroups in
       bindIO (joinGroups env c realmName userID currentByID desired) (\<lambda>_.
       if IsReconciliationStrategyAddOnly user then ret ()
       else leaveGroups env c realmName userID currentByID desired)))))"

section \<open>sync_user_identity_providers.go\<close>

definition linkProvider ::
  "'w env \<Rightarrow> kc_client \<Rightarrow> string \<Rightarrow> string \<Rightarrow> string \<Rightarrow> string \<Rightarrow> ('w, unit) user_prog" where
  "linkProvider env c realmName userID username provider =
     bindIO (tryIO (GetIdentityProvider env c realmName provider)) (\<lambda>res. case res of
       Inl err \<Rightarrow>
         if IsNotFound err then fail (NewError (''identity provider '' @ go_quote provider @ '' does not exist''))
         else fail (Wrapped (''unable to check if identity provider '' @ go_quote provider @ '' exists: '') err)
     | Inr _ \<Rightarrow>
         wrapErr (''unable to add user to identity provider '' @ go_quote provider @ '': '')
           (voidIO (CreateUserFederatedIdentity env c realmName userID provider
             \<lparr>fed_IdentityProvider = Some provider, fed_UserId = Some userID, fed_UserName = Some username\<rparr>)))"

definition unlinkProviders ::
  "'w env \<Rightarrow> kc_client \<Rightarrow> string \<Rightarrow> string \<Rightarrow> unit gomap \<Rightarrow> string list \<Rightarrow> ('w, unit) user_prog" where
  "unlinkProviders env c realmName userID existingByAlias providers =
     bindIO (range_order (map_rank env) existingByAlias) (
     forIO (\<lambda>(alias, u). whenIO (alias \<notin> set providers)
       (wrapErr (''unable to remove user from identity provider '' @ go_quote alias @ '': '')
         (voidIO (DeleteUserFederatedIdentity env c realmName userID alias)))))"

definition SyncUserIdentityProviders_Serve :: "'w env \<Rightarrow> kc_client \<Rightarrow> string \<Rightarrow> ('w, unit) user_prog" where
  "SyncUserIdentityProviders_Serve env c realmName =
     bindIO (getMem um_user) (\<lambda>user.
     bindIO (getMem um_UserID) (\<lambda>userID.
     case us_IdentityProviders (ku_Spec user) of
       None \<Rightarrow> ret ()
     | Some providers \<Rightarrow>
         bindIO (wrapErr ''unable to get user federated identities: ''
                  (GetUserFederatedIdentities env c realmName userID)) (\<lambda>existing.
         let existingByAlias = build_map fed_IdentityProvider (\<lambda>_. ()) existing in
         bindIO (forIO (\<lambda>provider. whenIO (map_of existingByAlias provider = None)
                  (linkProvider env c realmName userID (us_Username (ku_Spec user)) provider)) providers) (\<lambda>_.
         unlinkProviders env c realmName userID existingByAlias providers))))"

section \<open>cleanup_resource.go and remove_user.go\<close>

definition CleanupResource_Serve :: "'w env \<Rightarrow> ('w, unit) user_prog" where
  "CleanupResource_Serve env =
     bindIO (getMem um_user) (\<lambda>user.
     if us_KeepResource (ku_Spec user) then ret ()
     else bindIO (tryIO (k8s_Delete env user_obj)) (\<lambda>res. case res of
       Inr _ \<Rightarrow> ret ()
     | Inl err \<Rightarrow> if k8s_IsNotFound err then ret ()
         else fail (Wrapped ''unable to delete instance of keycloak realm user: '' err)))"

definition RemoveUser_ServeRequest :: "'w env \<Rightarrow> kc_client \<Rightarrow> string \<Rightarrow> ('w, unit) user_prog" where
  "RemoveUser_ServeRequest env c realmName =
     bindIO (getMem um_user) (\<lambda>user.
     if PreserveResourcesOnDeletion (ku_Meta user) then ret ()
     else bindIO (tryIO (FindUserByUsername env c realmName (us_Username (ku_Spec user)))) (\<lambda>res. case res of
       Inl err \<Rightarrow>
         if IsNotFound err then ret ()
         else fail (Wrapped (''failed to find user '' @ us_Username (ku_Spec user) @ '': '') err)
     | Inr keycloakUser \<Rightarrow>
         bindIO (derefIO (ur_Id keycloakUser)) (\<lambda>i.
         bindIO (tryIO (DeleteUser env c realmName i)) (\<lambda>res2. case res2 of
           Inr _ \<Rightarrow> ret ()
         | Inl err \<Rightarrow>
             if IsNotFound err then ret ()
             else fail (Wrapped (''failed to delete user '' @ us_Username (ku_Spec user) @ '': '') err)))))"

section \<open>chain.go\<close>

datatype user_handler =
    CreateOrUpdateUser kc_client
  | SetUserPassword kc_client
  | SyncUserRoles kc_client
  | SyncUserGroups kc_client
  | SyncUserIdentityProviders kc_client
  | CleanupResource

fun user_handler_Serve :: "'w env \<Rightarrow> string \<Rightarrow> user_handler \<Rightarrow> ('w, unit) user_prog" where
  "user_handler_Serve env realmName (CreateOrUpdateUser c) = CreateOrUpdateUser_Serve env c realmName"
| "user_handler_Serve env realmName (SetUserPassword c) = SetUserPassword_Serve env c realmName"
| "user_handler_Serve env realmName (SyncUserRoles c) = SyncUserRoles_Serve env c realmName"
| "user_handler_Serve env realmName (SyncUserGroups c) = SyncUserGroups_Serve env c realmName"
| "user_handler_Serve env realmName (SyncUserIdentityProviders c) =
     SyncUserIdentityProviders_Serve env c realmName"
| "user_handler_Serve env realmName CleanupResource = CleanupResource_Serve env"

fun user_WithKeycloakApiClient :: "kc_client \<Rightarrow> user_handler \<Rightarrow> user_handler" where
  "user_WithKeycloakApiClient c (CreateOrUpdateUser _) = CreateOrUpdateUser c"
| "user_WithKeycloakApiClient c (SetUserPassword _) = SetUserPassword c"
| "user_WithKeycloakApiClient c (SyncUserRoles _) = SyncUserRoles c"
| "user_WithKeycloakApiClient c (SyncUserGroups _) = SyncUserGroups c"
| "user_WithKeycloakApiClient c (SyncUserIdentityProviders _) = SyncUserIdentityProviders c"
| "user_WithKeycloakApiClient c CleanupResource = CleanupResource"

definition user_refreshToken :: "'w env \<Rightarrow> HelperConf \<Rightarrow> ('w, kc_client) user_prog" where
  "user_refreshToken env h =
     bindIO (getMem (\<lambda>m. us_ConfigRef (ku_Spec (um_user m)))) (CreateKeycloakClientV2FromConfigRef env h)"

primrec user_chain_loop ::
  "'w env \<Rightarrow> HelperConf \<Rightarrow> string \<Rightarrow> user_handler list \<Rightarrow> ('w, user_handler list) user_prog" where
  "user_chain_loop env h realmName [] = ret []"
| "user_chain_loop env h realmName (x # xs) =
     bindIO (serveRetry (user_handler_Serve env realmName) (user_refreshToken env h)
               user_WithKeycloakApiClient x) (\<lambda>x'.
     bindIO (user_chain_loop env h realmName xs) (\<lambda>xs'. ret (x' # xs')))"

definition user_MakeChain :: "kc_client \<Rightarrow> user_handler list" where
  "user_MakeChain c = [CreateOrUpdateUser c, SetUserPassword c, SyncUserRoles c, SyncUserGroups c,
     SyncUserIdentityProviders c, CleanupResource]"

definition user_Chain_Serve ::
  "'w env \<Rightarrow> HelperConf \<Rightarrow> user_handler list \<Rightarrow> string \<Rightarrow> ('w, unit) user_prog" where
  "user_Chain_Serve env h handlers realmName =
     bindIO (modMem (\<lambda>m. m\<lparr>um_UserID := ''''\<rparr>)) (\<lambda>_.
     voidIO (user_chain_loop env h realmName handlers))"

interpretation user_chain: handler_chain "user_handler_Serve env realmName" "user_refreshToken env h"
  user_WithKeycloakApiClient "user_chain_loop env h realmName"
  for env h realmName
  by unfold_locales simp_all

end
