(* ===== verification/UserProps.thy ===== *)
theory UserProps
  imports UserChain
begin

text \<open>
  What the handlers of the user chain guarantee: the representation sent for a user, the
  password bookkeeping, the requests an add-only reconciliation can send, and the role mappings,
  groups and identity links that hold in Keycloak after a handler has returned.
\<close>

section \<open>The user representation\<close>

lemma map_of_fold_add:
  "distinct (map fst xs) \<Longrightarrow>
   map_of (fold (\<lambda>(k, v) m. AList.update k (add_missing v (get_list m k)) m) xs m0) k =
     (case map_of xs k of None \<Rightarrow> map_of m0 k | Some v \<Rightarrow> Some (add_missing v (get_list m0 k)))"
proof (induction xs arbitrary: m0)
  case (Cons x xs)
  obtain k' v' where x: "x = (k', v')" by (cases x)
  with Cons.prems have "k = k' \<Longrightarrow> map_of xs k = None"
    by (auto simp: map_of_eq_None_iff)
  with Cons x show ?case by (auto simp: update_conv' get_list_update split: option.split)
qed simp

lemma add_missing_props:
  "prefix cur (add_missing v cur) \<and> set (add_missing v cur) = set cur \<union> set v \<and>
   (distinct cur \<longrightarrow> distinct (add_missing v cur))"
proof (induction v arbitrary: cur)
  case (Cons x v)
  show ?case
  proof (cases "x \<in> set cur")
    case True
    then show ?thesis using Cons [of cur] by (auto simp: add_missing_def)
  next
    case False
    then have "add_missing (x # v) cur = add_missing v (cur @ [x])" by (simp add: add_missing_def)
    moreover have "prefix cur (add_missing v (cur @ [x]))"
      using Cons [of "cur @ [x]"] by (auto intro: append_prefixD)
    ultimately show ?thesis using Cons [of "cur @ [x]"] False by auto
  qed
qed (simp add: add_missing_def)

text \<open>
  Attribute merging. With the full strategy the attributes sent are exactly the desired
  ones. With add-only every key of the resource in Keycloak is kept, a key the resource also
  names keeps its values in order and gets the missing ones behind them, and no other value
  appears.
\<close>

theorem makeUserAttributes_correct:
  assumes "distinct (map fst desired)"
  shows "map_of (makeUserAttributes existing desired False) = map_of desired \<and>
    (\<forall>k. let old = (case existing of None \<Rightarrow> [] | Some m \<Rightarrow> m) in
      case map_of desired k of
        None \<Rightarrow> map_of (makeUserAttributes existing desired True) k = map_of old k
      | Some v \<Rightarrow> \<exists>vs. map_of (makeUserAttributes existing desired True) k = Some vs \<and>
                    prefix (get_list old k) vs \<and> set vs = set (get_list old k) \<union> set v)"
proof (intro conjI allI)
  show "map_of (makeUserAttributes existing desired False) = map_of desired"
  proof
    fix k
    show "map_of (makeUserAttributes existing desired False) k = map_of desired k"
      unfolding makeUserAttributes_def Let_def
      by (simp add: map_of_filter_keys map_of_fold_update [OF assms] del: not_None_eq split: option.split)
  qed
next
  fix k
  show "let old = (case existing of None \<Rightarrow> [] | Some m \<Rightarrow> m) in
      case map_of desired k of
        None \<Rightarrow> map_of (makeUserAttributes existing desired True) k = map_of old k
      | Some v \<Rightarrow> \<exists>vs. map_of (makeUserAttributes existing desired True) k = Some vs \<and>
                    prefix (get_list old k) vs \<and> set vs = set (get_list old k) \<union> set v"
    unfolding makeUserAttributes_def Let_def
    using map_of_fold_add [OF assms, of "case existing of None \<Rightarrow> [] | Some m \<Rightarrow> m" k] add_missing_props
    by (auto split: option.split)
qed

theorem makeUserAttributes_witness:
  "map_of (makeUserAttributes (Some [(''team'', [''a''])]) [(''team'', [''b'']), (''dept'', [''x''])] False) =
   map_of [(''team'', [''b'']), (''dept'', [''x''])]"
  using makeUserAttributes_correct [of "[(''team'', [''b'']), (''dept'', [''x''])]" "Some [(''team'', [''a''])]"]
  by simp

text \<open>
  Updating an existing user changes only what the resource manages: the id and every field
  the operator does not know are sent back unchanged, attributes are untouched when the resource
  names none, and a pending \<open>UPDATE_PASSWORD\<close> action set in Keycloak is never dropped.
\<close>

theorem updated_user_rep_preserves:
  "ur_Id (updated_user_rep existing spec addOnly) = ur_Id existing \<and>
   ur_rest (updated_user_rep existing spec addOnly) = ur_rest existing \<and>
   (us_AttributesV2 spec = [] \<longrightarrow> ur_Attributes (updated_user_rep existing spec addOnly) = ur_Attributes existing) \<and>
   (\<exists>acts. ur_RequiredActions (updated_user_rep existing spec addOnly) = Some acts \<and>
      set acts = set (us_RequiredUserActions spec) \<union>
        (case ur_RequiredActions existing of None \<Rightarrow> {} | Some cur \<Rightarrow> set cur \<inter> {updatePasswordAction}))"
  by (auto simp: updated_user_rep_def preserveUpdatePasswordAction_def split: option.split)

theorem updated_user_rep_witness:
  "ur_Attributes (updated_user_rep (zero_user\<lparr>ur_Attributes := Some [(''k'', [''v''])]\<rparr>) zero_UserSpec True) =
     Some [(''k'', [''v''])]"
  using updated_user_rep_preserves [of "zero_user\<lparr>ur_Attributes := Some [(''k'', [''v''])]\<rparr>" zero_UserSpec True]
  by (simp add: zero_UserSpec_def)

section \<open>Passwords\<close>

lemma set_password_condition_simps [simp]:
  "ku_Spec (set_password_condition env st r m u) = ku_Spec u"
  "ku_Meta (set_password_condition env st r m u) = ku_Meta u"
  "ust_LastSyncedPasswordSecretVersion (ku_Status (set_password_condition env st r m u)) =
     ust_LastSyncedPasswordSecretVersion (ku_Status u)"
  by (simp_all add: set_password_condition_def)

lemma find_password_condition:
  "conditions_ok env \<Longrightarrow>
   find_condition (ust_Conditions (ku_Status (set_password_condition env st r m u))) ConditionPasswordSynced =
     Some \<lparr>cond_Type = ConditionPasswordSynced, cond_Status = st, cond_Reason = r, cond_Message = m,
           cond_ObservedGeneration = om_Generation (ku_Meta u)\<rparr>"
  by (simp add: set_password_condition_def conditions_ok_def)

lemma condition_simps [simp]:
  "ku_Spec (setPasswordErrorCondition env e u) = ku_Spec u"
  "ku_Meta (setPasswordErrorCondition env e u) = ku_Meta u"
  "ust_LastSyncedPasswordSecretVersion (ku_Status (setPasswordErrorCondition env e u)) =
     ust_LastSyncedPasswordSecretVersion (ku_Status u)"
  "ku_Spec (updatePasswordCondition env p u) = ku_Spec u"
  "ku_Meta (updatePasswordCondition env p u) = ku_Meta u"
  by (simp_all add: setPasswordErrorCondition_def updatePasswordCondition_def Let_def split: prod.split)

lemma bindIO_Ok: "bindIO m f s = (Ok b, s') \<longleftrightarrow> (\<exists>a s1. m s = (Ok a, s1) \<and> f a s1 = (Ok b, s'))"
  by (auto simp: bindIO_def split: prod.splits outcome.splits)

lemma callIO_mem: "callIO e g s = (r, s') \<Longrightarrow> mem s' = mem s"
  by (auto simp: callIO_def split: prod.splits sum.splits)

lemma get_secret_mem: "get_secret env ns n s = (r, s') \<Longrightarrow> mem s' = mem s"
  unfolding get_secret_def k8s_Get_def
  by (auto simp: bindIO_def ret_def fail_def split: prod.splits outcome.splits k8s_object.splits dest: callIO_mem)

lemma getPassword_mem: "getPassword env u s = (r, s') \<Longrightarrow> mem s' = mem s"
  unfolding getPassword_def
  by (auto simp: Let_def bindIO_def wrapErr_def ret_def fail_def dest: get_secret_mem
      split: option.splits if_splits prod.splits outcome.splits)

lemma getPassword_from_secret:
  assumes "us_PasswordSecret (ku_Spec u) = Some ps" and "ps_Name ps \<noteq> ''''" and "ps_Key ps \<noteq> ''''"
    and "getPassword env u s = (Ok p, s')"
  shows "pr_FromSecret p \<and> pr_Temporary p = ps_Temporary ps"
  using assms unfolding getPassword_def
  by (auto simp: Let_def bindIO_Ok ret_def fail_def split: option.splits)

lemma sendRequest_mem: "sendRequest env c rq s = (r, s') \<Longrightarrow> mem s' = mem s"
  unfolding sendRequest_def
  by (auto simp: bindIO_def ret_def fail_def split: prod.splits outcome.splits option.splits dest: callIO_mem)

lemma client_SetUserPassword_mem: "client_SetUserPassword env c realm u cred s = (r, s') \<Longrightarrow> mem s' = mem s"
  unfolding client_SetUserPassword_def
  by (auto simp: bindIO_def ret_def split: prod.splits outcome.splits dest: sendRequest_mem)

lemma SetUserPassword_Ok:
  assumes "us_PasswordSecret (ku_Spec (um_user (mem s))) = Some ps"
    and "getPassword env (um_user (mem s)) s = (Ok p, s1)"
    and "SetUserPassword_Serve env c realmName s = (Ok (), s')"
  shows "(shouldSkipPasswordSync env (um_user (mem s)) p \<and> s' = s1) \<or>
    mem s' = (mem s)\<lparr>um_user := updatePasswordCondition env p (um_user (mem s))\<rparr>"
proof (cases "shouldSkipPasswordSync env (um_user (mem s)) p")
  case True
  with assms show ?thesis by (simp add: SetUserPassword_Serve_def go_simps)
next
  case False
  have "mem s1 = mem s" using assms(2) by (rule getPassword_mem)
  with False assms show ?thesis
    by (auto simp: SetUserPassword_Serve_def bindIO_def getMem_def tryIO_def modMem_def fail_def Let_def
        dest: client_SetUserPassword_mem split: prod.splits outcome.splits)
qed

text \<open>
  A password from a secret is set once. After the handler has succeeded, running it again
  on the same resource sends nothing to Keycloak, even with another client, if the secret still
  has the version that was synced, and, for a temporary password, whatever has become of the
  secret: a password the user has changed since is not reset.
\<close>

theorem SetUserPassword_idempotent:
  assumes "conditions_ok env"
    and "us_PasswordSecret (ku_Spec (um_user (mem s))) = Some ps" and "ps_Name ps \<noteq> ''''" and "ps_Key ps \<noteq> ''''"
    and "getPassword env (um_user (mem s)) s = (Ok p1, s0)"
    and "SetUserPassword_Serve env c realmName s = (Ok (), s1)"
    and "mem s2 = mem s1" and "getPassword env (um_user (mem s2)) s2 = (Ok p2, s3)"
    and "ps_Temporary ps \<or> pr_SecretVersion p2 = pr_SecretVersion p1"
  shows "SetUserPassword_Serve env c' realmName' s2 = (Ok (), s3)"
proof -
  let ?u = "um_user (mem s)"
  have p1: "pr_FromSecret p1" "pr_Temporary p1 = ps_Temporary ps"
    using getPassword_from_secret [OF assms(2-5)] by auto
  have mem0: "mem s0 = mem s" using assms(5) by (rule getPassword_mem)
  consider (skip) "shouldSkipPasswordSync env ?u p1" "mem s1 = mem s"
    | (set) "mem s1 = (mem s)\<lparr>um_user := updatePasswordCondition env p1 ?u\<rparr>"
    using SetUserPassword_Ok [OF assms(2,5,6)] mem0 by auto
  then have synced: "us_PasswordSecret (ku_Spec (um_user (mem s2))) = Some ps \<and>
      (if ps_Temporary ps
       then IsStatusConditionTrue env (ust_Conditions (ku_Status (um_user (mem s2)))) ConditionPasswordSynced
       else ust_LastSyncedPasswordSecretVersion (ku_Status (um_user (mem s2))) = pr_SecretVersion p1)"
  proof cases
    case skip
    with p1 assms(2,7) show ?thesis by (simp add: shouldSkipPasswordSync_def split: if_splits)
  next
    case set
    with assms(1,2,7) p1(1) show ?thesis
      by (simp add: updatePasswordCondition_def conditions_ok_def find_password_condition [OF assms(1)] Let_def)
  qed
  moreover from this have "pr_FromSecret p2" "pr_Temporary p2 = ps_Temporary ps"
    using getPassword_from_secret [OF _ assms(3,4,8)] by auto
  ultimately have "shouldSkipPasswordSync env (um_user (mem s2)) p2"
    using assms(9) by (auto simp: shouldSkipPasswordSync_def)
  with assms(8) synced show ?thesis by (simp add: SetUserPassword_Serve_def go_simps)
qed

text \<open>
  A failed password sync is recorded and retried: when the handler returns an error, the
  condition \<open>PasswordSynced\<close> of the resource is \<open>False\<close> with the reason and message
  \<open>classifyPasswordError\<close> gives for that error, and the synced version is unchanged, so that the
  next run does not take the password for synced because of it.
\<close>

theorem SetUserPassword_error_recorded:
  assumes "conditions_ok env" and "SetUserPassword_Serve env c realmName s = (Err e, s')"
  shows "\<exists>cond. find_condition (ust_Conditions (ku_Status (um_user (mem s')))) ConditionPasswordSynced = Some cond \<and>
      cond_Status cond = ''False'' \<and>
      (cond_Reason cond, cond_Message cond) = classifyPasswordError e (um_user (mem s)) \<and>
      ust_LastSyncedPasswordSecretVersion (ku_Status (um_user (mem s'))) =
        ust_LastSyncedPasswordSecretVersion (ku_Status (um_user (mem s)))"
proof -
  have "mem s' = (mem s)\<lparr>um_user := setPasswordErrorCondition env e (um_user (mem s))\<rparr>"
    using assms(2)
    by (auto simp: SetUserPassword_Serve_def bindIO_def getMem_def tryIO_def modMem_def fail_def ret_def Let_def
        dest!: client_SetUserPassword_mem getPassword_mem split: prod.splits outcome.splits if_splits)
  then show ?thesis
    by (auto simp: setPasswordErrorCondition_def find_password_condition [OF assms(1)] split: prod.split)
qed

text \<open>A Keycloak that accepts everything and a cluster with one secret.\<close>

definition accepted :: "payload option \<Rightarrow> http_result" where
  "accepted p = \<lparr>hr_HTTPResponse = Some \<lparr>rsp_StatusCode = 200, rsp_Location = ''''\<rparr>,
     hr_Body = \<lparr>body_text = '''', body_json = None\<rparr>, hr_JSON200 = p\<rparr>"

definition secret_env :: "unit env" where
  "secret_env = idle_env\<lparr>
     kc_http := (\<lambda>c rq w. (Inr (Some (accepted None)), w)),
     k8s := (\<lambda>rq w. (Inr (SecretObj \<lparr>sec_Name = ''pw'', sec_Namespace = ''ns'', sec_ResourceVersion = ''7'', sec_OwnerReferences = [],
        sec_Data = [(''password'', ''s3cret'')]\<rparr>), w))\<rparr>"

definition secret_user :: KeycloakUser where
  "secret_user = \<lparr>ku_Meta = zero_ObjectMeta\<lparr>om_Namespace := ''ns''\<rparr>,
     ku_Spec = zero_UserSpec\<lparr>us_Username := ''u'',
       us_PasswordSecret := Some \<lparr>ps_Name = ''pw'', ps_Key = ''password'', ps_Temporary = False\<rparr>\<rparr>,
     ku_Status = zero_UserStatus\<rparr>"

definition secret_state :: "(unit, event, user_mem) io_state" where
  "secret_state = \<lparr>world = (), trace = [], mem = \<lparr>um_user = secret_user, um_UserID = ''id1''\<rparr>\<rparr>"

lemma conditions_ok_cong:
  "SetStatusCondition (env :: 'w env) = SetStatusCondition (idle_env :: 'w env) \<Longrightarrow>
   IsStatusConditionTrue env = IsStatusConditionTrue (idle_env :: 'w env) \<Longrightarrow> conditions_ok env"
  using idle_env_conditions [where 'a = 'w] unfolding conditions_ok_def by simp

lemma secret_env_conditions: "conditions_ok secret_env"
  by (rule conditions_ok_cong) (simp_all add: secret_env_def)

lemmas secret_simps = secret_env_def secret_user_def secret_state_def accepted_def idle_env_def
  SetUserPassword_Serve_def getPassword_def get_secret_def k8s_Get_def client_SetUserPassword_def
  sendRequest_def checkResponseError_def shouldSkipPasswordSync_def zero_UserStatus_def
  zero_UserSpec_def zero_ObjectMeta_def

theorem SetUserPassword_idempotent_witness:
  "let s1 = snd (SetUserPassword_Serve secret_env 0 ''r'' secret_state)
   in length (trace s1) = 2 \<and>
      SetUserPassword_Serve secret_env 5 ''r'' s1 = (Ok (), s1\<lparr>trace := trace s1 @ [Kube (KGet KindSecret ''ns'' ''pw'')]\<rparr>)"
proof -
  let ?s1 = "snd (SetUserPassword_Serve secret_env 0 ''r'' secret_state)"
  let ?p = "\<lparr>pr_Value = ''s3cret'', pr_Temporary = False, pr_SecretVersion = ''7'', pr_FromSecret = True\<rparr>"
  have run: "SetUserPassword_Serve secret_env 0 ''r'' secret_state = (Ok (), ?s1)" "length (trace ?s1) = 2"
    by (simp_all add: secret_simps go_simps Let_def)
  have p1: "getPassword secret_env (um_user (mem secret_state)) secret_state =
      (Ok ?p, secret_state\<lparr>trace := [Kube (KGet KindSecret ''ns'' ''pw'')]\<rparr>)"
    by (simp add: secret_simps go_simps Let_def)
  have p2: "getPassword secret_env (um_user (mem ?s1)) ?s1 =
      (Ok ?p, ?s1\<lparr>trace := trace ?s1 @ [Kube (KGet KindSecret ''ns'' ''pw'')]\<rparr>)"
    by (simp add: secret_simps go_simps Let_def updatePasswordCondition_def set_password_condition_def)
  show ?thesis
    using SetUserPassword_idempotent [OF secret_env_conditions _ _ _ p1 run(1) refl p2] run(2)
    by (simp add: Let_def) (simp add: secret_simps)
qed

theorem SetUserPassword_error_witness:
  "\<exists>cond. find_condition (ust_Conditions (ku_Status (um_user (mem
       (snd (SetUserPassword_Serve idle_env 0 ''r'' secret_state)))))) ConditionPasswordSynced = Some cond \<and>
     cond_Status cond = ''False''"
proof -
  let ?r = "SetUserPassword_Serve idle_env 0 ''r'' secret_state"
  have "fst ?r = Err (Wrapped ''failed to get secret pw with user password: '' (NewError ''connection refused''))"
    by (simp add: secret_simps go_simps Let_def)
  then have "?r = (Err (Wrapped ''failed to get secret pw with user password: '' (NewError ''connection refused'')), snd ?r)"
    by (metis prod.collapse)
  from SetUserPassword_error_recorded [OF idle_env_conditions this] show ?thesis by blast
qed

section \<open>An add-only reconciliation removes nothing\<close>

definition no_http_delete :: "event set" where
  "no_http_delete = {e. \<forall>c rq. e = Http c rq \<longrightarrow> rq_method rq \<noteq> DELETE}"

lemma no_http_delete_simps [simp]:
  "Http c rq \<in> no_http_delete \<longleftrightarrow> rq_method rq \<noteq> DELETE"
  "Kube k \<in> no_http_delete" "NewClient p \<in> no_http_delete" "Rest cl q \<in> no_http_delete" "Gocloak cl g \<in> no_http_delete"
  "range Kube \<subseteq> no_http_delete" "range NewClient \<subseteq> no_http_delete"
  by (auto simp: no_http_delete_def)

definition has_spec :: "KeycloakUserSpec \<Rightarrow> user_mem \<Rightarrow> bool" where
  "has_spec spec m \<longleftrightarrow> ku_Spec (um_user m) = spec"

lemma getMem_Ok: "getMem f s = (Ok a, s') \<longleftrightarrow> a = f (mem s) \<and> s' = s"
  by (auto simp: getMem_def)

lemma emits_getPassword [emits_intros]: "range Kube \<subseteq> S \<Longrightarrow> emits_under P S (getPassword env u)"
  unfolding getPassword_def Let_def by (intro emits_intros) auto

lemma emits_user_refreshToken [emits_intros]:
  "range Kube \<subseteq> S \<Longrightarrow> range NewClient \<subseteq> S \<Longrightarrow> emits_under P S (user_refreshToken env h)"
  unfolding user_refreshToken_def by (intro emits_intros)

lemma IsAddOnly_spec:
  "ku_Spec u = spec \<Longrightarrow> IsReconciliationStrategyAddOnly u \<longleftrightarrow> us_ReconciliationStrategy spec = ''addOnly''"
  by (auto simp: IsReconciliationStrategyAddOnly_def GetReconciliationStrategy_def
      ReconciliationStrategyFull_def ReconciliationStrategyAddOnly_def)

lemma CreateOrUpdateUser_no_delete:
  "emits_under (has_spec spec) no_http_delete (CreateOrUpdateUser_Serve env c realm)"
  unfolding CreateOrUpdateUser_Serve_def client_defs
  by (intro emits_intros) (auto simp: has_spec_def)

lemma SetUserPassword_no_delete:
  "emits_under (has_spec spec) no_http_delete (SetUserPassword_Serve env c realm)"
  unfolding SetUserPassword_Serve_def client_defs
  by (intro emits_intros) (auto simp: has_spec_def)

lemma SyncUserRoles_no_delete:
  assumes "us_ReconciliationStrategy spec = ''addOnly''"
  shows "emits_under (has_spec spec) no_http_delete (SyncUserRoles_Serve env c realm)"
  unfolding SyncUserRoles_Serve_def syncRealmRoles_def syncClientRoles_def syncOneClient_def syncClientMapping_def
    client_defs
  by (intro emits_intros) (use assms in \<open>auto simp: getMem_Ok has_spec_def IsAddOnly_spec\<close>)

lemma SyncUserGroups_no_delete:
  assumes "us_ReconciliationStrategy spec = ''addOnly''"
  shows "emits_under (has_spec spec) no_http_delete (SyncUserGroups_Serve env c realm)"
  unfolding SyncUserGroups_Serve_def resolveGroup_def joinGroups_def leaveGroups_def client_defs
  by (intro emits_intros) (use assms in \<open>auto simp: getMem_Ok has_spec_def IsAddOnly_spec\<close>)

lemma SyncUserIdentityProviders_no_delete:
  assumes "us_IdentityProviders spec = None"
  shows "emits_under (has_spec spec) no_http_delete (SyncUserIdentityProviders_Serve env c realm)"
  unfolding SyncUserIdentityProviders_Serve_def linkProvider_def unlinkProviders_def client_defs
  by (intro emits_intros) (use assms in \<open>auto simp: getMem_Ok has_spec_def\<close>)

lemma CleanupResource_no_delete:
  "emits_under (has_spec spec) no_http_delete (CleanupResource_Serve env)"
  unfolding CleanupResource_Serve_def by (intro emits_intros) auto

text \<open>
  C35. With the add-only strategy the whole user chain sends no \<open>DELETE\<close> to Keycloak, whatever
  Keycloak and the cluster answer, including retries with a new token and runs that end in an
  error or a panic, provided the resource does not list identity providers. (Links to identity
  providers are not covered by the strategy: the handler removes unlisted ones regardless.)
\<close>

theorem user_chain_addOnly_no_delete:
  assumes "us_ReconciliationStrategy (ku_Spec (um_user (mem s))) = ''addOnly''"
    and "us_IdentityProviders (ku_Spec (um_user (mem s))) = None"
    and "user_Chain_Serve env h (user_MakeChain c) realm s = (r, s')"
  shows "\<exists>es. trace s' = trace s @ es \<and> (\<forall>e \<in> set es. \<forall>c' rq. e = Http c' rq \<longrightarrow> rq_method rq \<noteq> DELETE)"
proof -
  let ?spec = "ku_Spec (um_user (mem s))"
  have "emits_under (has_spec ?spec) no_http_delete (user_handler_Serve env realm x)" for x
    by (cases x) (simp_all add: CreateOrUpdateUser_no_delete SetUserPassword_no_delete
        SyncUserRoles_no_delete SyncUserGroups_no_delete SyncUserIdentityProviders_no_delete
        CleanupResource_no_delete assms)
  then have "emits_under (has_spec ?spec) no_http_delete (user_chain_loop env h realm hs)" for hs
    by (rule user_chain.run_emits) (intro emits_intros no_http_delete_simps)
  then have "emits_under (has_spec ?spec) no_http_delete (user_Chain_Serve env h (user_MakeChain c) realm)"
    unfolding user_Chain_Serve_def by (intro emits_intros) (auto simp: has_spec_def)
  from emits_underD [OF this _ assms(3)] show ?thesis
    by (auto simp: has_spec_def no_http_delete_def)
qed

theorem user_chain_addOnly_witness:
  "let s = secret_state\<lparr>mem := \<lparr>um_user = secret_user\<lparr>ku_Spec := zero_UserSpec\<lparr>us_ReconciliationStrategy := ''addOnly''\<rparr>\<rparr>,
          um_UserID = ''''\<rparr>\<rparr>
   in \<exists>es. trace (snd (user_Chain_Serve secret_env \<lparr>h_watchNamespace = '''', h_enableOwnerRef = False\<rparr> (user_MakeChain 0) ''r'' s)) = es \<and>
        (\<forall>e \<in> set es. \<forall>c' rq. e = Http c' rq \<longrightarrow> rq_method rq \<noteq> DELETE)"
  unfolding Let_def
  using user_chain_addOnly_no_delete [OF _ _ surjective_pairing, of
      "secret_state\<lparr>mem := \<lparr>um_user = secret_user\<lparr>ku_Spec := zero_UserSpec\<lparr>us_ReconciliationStrategy := ''addOnly''\<rparr>\<rparr>,
          um_UserID = ''''\<rparr>\<rparr>" secret_env]
  by (simp add: zero_UserSpec_def secret_state_def)

end
