(* ===== verification/MappingLaws.thy ===== *)
theory MappingLaws
  imports HandlerChain
begin

text \<open>
  What the synchronising handlers rely on of Keycloak, as predicates on the environment, and the
  behaviour of the client's methods under them.

  A role mapping is a sub-resource (of a user or a group, for realm roles or for the roles of one
  client) with a set of role names. Reading it returns these roles, posting roles adds them,
  deleting roles removes them, and looking up a role by its name returns the role of that name;
  looking things up changes nothing. Only answers with a 2xx status are constrained: a request
  may fail at any time, with any effect on the rest of the world.
\<close>

definition success :: "'w env \<Rightarrow> kc_client \<Rightarrow> http_request \<Rightarrow> 'w \<Rightarrow> http_result \<Rightarrow> 'w \<Rightarrow> bool" where
  "success env c rq w r w' \<longleftrightarrow>
     kc_http env c rq w = (Inr (Some r), w') \<and> checkResponseError (hr_HTTPResponse r) (hr_Body r) = None"

lemma wp_sendRequest:
  assumes "\<And>r w'. success env c rq (world s) r w' \<Longrightarrow>
      Q r (s\<lparr>world := w', trace := trace s @ [Http c rq]\<rparr>)"
  shows "wp True (sendRequest env c rq) Q (\<lambda>_ _. True) s"
  using assms unfolding sendRequest_def success_def
  by (auto simp: wp_callIO split: prod.split sum.split option.split)

lemma wp_weaken:
  "wp b m Q E s \<Longrightarrow> (\<And>a s'. Q a s' \<Longrightarrow> Q' a s') \<Longrightarrow> wp b m Q' (\<lambda>_ _. True) s"
  by (auto elim: wp_mono)

section \<open>Role mappings\<close>

definition names_of :: "RoleRepresentation list \<Rightarrow> string set" where
  "names_of rs = {n. \<exists>x \<in> set rs. role_Name x = Some n}"

lemma names_of_simps [simp]: "names_of [] = {}" "names_of (xs @ ys) = names_of xs \<union> names_of ys"
  by (auto simp: names_of_def)

lemma names_of_single: "role_Name x = Some n \<Longrightarrow> names_of [x] = {n}"
  by (auto simp: names_of_def)

definition role_mapping_server ::
  "'w env \<Rightarrow> string list \<Rightarrow> string list \<Rightarrow> ('w \<Rightarrow> string set) \<Rightarrow> bool" where
  "role_mapping_server env mapping_path roles_path names \<longleftrightarrow>
     (\<forall>c w r w'. success env c (mk_request GET mapping_path [] NoBody) w r w' \<longrightarrow>
        names w' = names w \<and>
        (\<exists>rs. json_roles r = Some rs \<and> names_of rs = names w)) \<and>
     (\<forall>c n w r w'. success env c (mk_request GET (roles_path @ [n]) [] NoBody) w r w' \<longrightarrow>
        names w' = names w \<and> (\<forall>x. json_role r = Some x \<longrightarrow> role_Name x = Some n)) \<and>
     (\<forall>c rs w r w'. success env c (mk_request POST mapping_path [] (RolesB rs)) w r w' \<longrightarrow>
        names w' = names w \<union> names_of rs) \<and>
     (\<forall>c rs w r w'. success env c (mk_request DELETE mapping_path [] (RolesB rs)) w r w' \<longrightarrow>
        names w' = names w - names_of rs)"

text \<open>Looking up the missing roles: the loop that collects what has to be added.\<close>

definition lookup_law ::
  "('w \<Rightarrow> string set) \<Rightarrow> string \<Rightarrow> ('w, 'm, RoleRepresentation option) prog \<Rightarrow> bool" where
  "lookup_law names n get \<longleftrightarrow> (\<forall>s. wp True get (\<lambda>role s'. names (world s') = names (world s) \<and>
      (\<forall>x. role = Some x \<longrightarrow> role_Name x = Some n)) (\<lambda>_ _. True) s)"

lemma wp_collect_roles_gen:
  assumes get: "\<And>n. lookup_law names n (get n)"
    and step: "\<And>n acc. f n acc = (if map_of cur n \<noteq> None then ret acc else bindIO (wrapErr (pre n) (get n)) (pick n acc))"
    and pick: "\<And>n acc role Q s. (\<And>r. role = Some r \<Longrightarrow> Q (acc @ [r]) s) \<Longrightarrow> wp True (pick n acc role) Q (\<lambda>_ _. True) s"
  shows "wp True (foldIO f desired []) (\<lambda>acc s'. names (world s') = names (world s) \<and>
     names_of acc = {n \<in> set desired. map_of cur n = None}) (\<lambda>_ _. True) s"
proof (rule wp_foldIO [where I = "\<lambda>vis acc s'. names (world s') = names (world s) \<and>
     names_of acc = {n \<in> set vis. map_of cur n = None}"])
  fix vis n rest acc and s' :: "('a, event, 'b) io_state"
  assume inv: "names (world s') = names (world s) \<and> names_of acc = {n \<in> set vis. map_of cur n = None}"
  show "wp True (f n acc) (\<lambda>acc' s''. names (world s'') = names (world s) \<and>
      names_of acc' = {x \<in> set (vis @ [n]). map_of cur x = None}) (\<lambda>_ _. True) s'"
  proof (cases "map_of cur n = None")
    case True
    from get have "wp True (get n) (\<lambda>role s''. names (world s'') = names (world s') \<and>
        (\<forall>x. role = Some x \<longrightarrow> role_Name x = Some n)) (\<lambda>_ _. True) s'"
      by (simp add: lookup_law_def)
    then have "wp True (get n) (\<lambda>role. wp True (pick n acc role) (\<lambda>acc' s''. names (world s'') = names (world s) \<and>
        names_of acc' = {x \<in> set (vis @ [n]). map_of cur x = None}) (\<lambda>_ _. True)) (\<lambda>_ _. True) s'"
      by (rule wp_weaken) (use inv True in \<open>auto simp: names_of_single intro!: pick\<close>)
    with True show ?thesis by (simp add: step)
  next
    case False
    with inv show ?thesis by (auto simp: step)
  qed
qed simp_all

lemma wp_collect_roles:
  assumes "\<And>n. lookup_law names n (get n)"
    and "\<And>n acc. f n acc = (if map_of cur n \<noteq> None then ret acc
       else bindIO (wrapErr (pre n) (get n)) (\<lambda>role. bindIO (derefIO role) (\<lambda>r. ret (acc @ [r]))))"
  shows "wp True (foldIO f desired []) (\<lambda>acc s'. names (world s') = names (world s) \<and>
     names_of acc = {n \<in> set desired. map_of cur n = None}) (\<lambda>_ _. True) s"
  by (rule wp_collect_roles_gen [OF assms]) (auto split: option.split)

end
