(* ===== verification/UserSync.thy ===== *)
theory UserSync
  imports UserProps MappingLaws
begin

text \<open>
  The state of Keycloak after the synchronising handlers of the user chain have returned: role
  mappings, group memberships and identity-provider links agree with the resource, under the
  laws of the server of \<open>MappingLaws\<close> and of this theory.
\<close>

section \<open>Role mappings of a user\<close>

definition user_realm_mapping :: "string \<Rightarrow> string \<Rightarrow> string list" where
  "user_realm_mapping realm userID = realm_path realm [''users'', userID, ''role-mappings'', ''realm'']"

definition user_client_mapping :: "string \<Rightarrow> string \<Rightarrow> string \<Rightarrow> string list" where
  "user_client_mapping realm userID clientUUID =
     realm_path realm [''users'', userID, ''role-mappings'', ''clients'', clientUUID]"

lemma realm_path_append: "realm_path realm xs @ ys = realm_path realm (xs @ ys)"
  by (simp add: realm_path_def)

lemma role_map_None: "map_of (role_map rs) n = None \<longleftrightarrow> n \<notin> names_of rs"
  by (auto simp: role_map_def map_of_build_map_None names_of_def)

lemma names_of_stale: "names_of (filter (named_not_in desired) rs) = names_of rs - set desired"
  by (auto simp: names_of_def named_not_in_def split: option.splits)

lemma filter_stale_Nil:
  "filter (named_not_in desired) rs = [] \<longleftrightarrow> names_of rs \<subseteq> set desired"
  by (auto simp: filter_empty_conv names_of_def named_not_in_def split: option.splits)

text \<open>The three requests on a mapping, as the client's methods.\<close>

lemma wp_GetMapping:
  assumes "role_mapping_server env mp rp names" and "m = bindIO (sendRequest env c (mk_request GET mp [] NoBody))
     (\<lambda>r. ret (case json_roles r of None \<Rightarrow> [] | Some xs \<Rightarrow> xs))"
  shows "wp True m (\<lambda>rs s'. names (world s') = names (world s) \<and> names_of rs = names (world s)) (\<lambda>_ _. True) s"
  using assms(1) unfolding assms(2) wp_bindIO
  by (intro wp_sendRequest) (fastforce simp: role_mapping_server_def)

lemma wp_PostMapping:
  assumes "role_mapping_server env mp rp names"
    and "m = bindIO (sendRequest env c (mk_request POST mp [] (RolesB rs))) (\<lambda>r. ret (response_of r))"
  shows "wp True m (\<lambda>_ s'. names (world s') = names (world s) \<union> names_of rs) (\<lambda>_ _. True) s"
  using assms(1) unfolding assms(2) wp_bindIO
  by (intro wp_sendRequest) (auto simp: role_mapping_server_def)

lemma wp_DeleteMapping:
  assumes "role_mapping_server env mp rp names"
    and "m = bindIO (sendRequest env c (mk_request DELETE mp [] (RolesB rs))) (\<lambda>r. ret (response_of r))"
  shows "wp True m (\<lambda>_ s'. names (world s') = names (world s) - names_of rs) (\<lambda>_ _. True) s"
  using assms(1) unfolding assms(2) wp_bindIO
  by (intro wp_sendRequest) (auto simp: role_mapping_server_def)

lemma lookup_law_sendRequest:
  assumes "role_mapping_server env mp rp names"
    and "m = bindIO (sendRequest env c (mk_request GET (rp @ [n]) [] NoBody)) (\<lambda>r. ret (json_role r))"
  shows "lookup_law names n m"
  unfolding lookup_law_def assms(2) wp_bindIO
  by (intro allI wp_sendRequest) (use assms(1) in \<open>auto simp: role_mapping_server_def\<close>)

text \<open>The common tail of the handlers: add what is missing, and remove what is left over.\<close>

lemma wp_apply_mapping:
  assumes "names (world s) = current" and "names_of toAdd = desired - current"
    and "names_of toRemove = current - desired" and "finite desired"
    and add: "\<And>s. wp True addm (\<lambda>_ s'. names (world s') = names (world s) \<union> names_of toAdd) (\<lambda>_ _. True) s"
    and rem: "\<And>s. wp True remm (\<lambda>_ s'. names (world s') = names (world s) - names_of toRemove) (\<lambda>_ _. True) s"
  shows "wp True (bindIO (whenIO (toAdd \<noteq> []) addm) (\<lambda>_. if addOnly then ret ()
       else whenIO (toRemove \<noteq> []) remm))
     (\<lambda>_ s'. names (world s') = (if addOnly then current \<union> desired else desired)) (\<lambda>_ _. True) s"
proof -
  have add': "wp True (whenIO (toAdd \<noteq> []) addm) (\<lambda>_ s'. names (world s') = current \<union> desired) (\<lambda>_ _. True) s"
  proof (cases "toAdd = []")
    case True
    with assms(1,2) show ?thesis by auto
  next
    case False
    then show ?thesis using wp_weaken [OF add [of s]] assms(1,2) by auto
  qed
  have rem': "wp True (whenIO (toRemove \<noteq> []) remm) (\<lambda>_ s'. names (world s') = desired) (\<lambda>_ _. True) s'"
    if "names (world s') = current \<union> desired" for s'
  proof (cases "toRemove = []")
    case True
    with assms(3) that show ?thesis by auto
  next
    case False
    have "current \<union> desired - (current - desired) = desired" by blast
    with False that show ?thesis using wp_weaken [OF rem [of s']] assms(3) by simp
  qed
  show ?thesis
    unfolding wp_bindIO by (rule wp_weaken [OF add']) (use rem' in auto)
qed

text \<open>
  The whole of a synchronisation: read the mapping, look up what is missing, add it, remove the
  rest. It is stated for any programs of that shape, and used for realm and for client roles.
\<close>

lemma wp_sync_mapping:
  assumes laws: "role_mapping_server env mp rp names"
    and getm: "getm = bindIO (sendRequest env c (mk_request GET mp [] NoBody))
       (\<lambda>r. ret (case json_roles r of None \<Rightarrow> [] | Some xs \<Rightarrow> xs))"
    and look: "\<And>n. look n = bindIO (sendRequest env c (mk_request GET (rp @ [n]) [] NoBody)) (\<lambda>r. ret (json_role r))"
    and addm: "\<And>rs. addm rs = bindIO (sendRequest env c (mk_request POST mp [] (RolesB rs))) (\<lambda>r. ret (response_of r))"
    and remm: "\<And>rs. remm rs = bindIO (sendRequest env c (mk_request DELETE mp [] (RolesB rs))) (\<lambda>r. ret (response_of r))"
  shows "wp True
     (bindIO (wrapErr e1 getm) (\<lambda>current.
      bindIO (foldIO (\<lambda>n toAdd. if map_of (role_map current) n \<noteq> None then ret toAdd
          else bindIO (wrapErr (pre n) (look n)) (\<lambda>role. bindIO (derefIO role) (\<lambda>r. ret (toAdd @ [r]))))
          desired []) (\<lambda>toAdd.
      bindIO (whenIO (toAdd \<noteq> []) (wrapErr e2 (voidIO (addm toAdd)))) (\<lambda>_.
      if addOnly then ret ()
      else whenIO (filter (named_not_in desired) current \<noteq> [])
        (wrapErr e3 (voidIO (remm (filter (named_not_in desired) current))))))))
     (\<lambda>_ s'. names (world s') = (if addOnly then names (world s) \<union> set desired else set desired)) (\<lambda>_ _. True) s"
    (is "wp True (bindIO ?get (\<lambda>current. bindIO (?fold current) (?rest current))) ?Q _ s")
proof -
  have add: "wp True (wrapErr e2 (voidIO (addm rs))) (\<lambda>_ s'. names (world s') = names (world s) \<union> names_of rs)
      (\<lambda>_ _. True) s" for rs s
    using wp_PostMapping [OF laws addm] by simp
  have rem: "wp True (wrapErr e3 (voidIO (remm rs))) (\<lambda>_ s'. names (world s') = names (world s) - names_of rs)
      (\<lambda>_ _. True) s" for rs s
    using wp_DeleteMapping [OF laws remm] by simp
  have tail: "wp True (?fold current) (\<lambda>toAdd. wp True (?rest current toAdd) ?Q (\<lambda>_ _. True)) (\<lambda>_ _. True) s1"
    if cur: "names (world s1) = names (world s)" "names_of current = names (world s)" for current s1
  proof (rule wp_weaken [OF wp_collect_roles])
    show "lookup_law names n (look n)" for n by (rule lookup_law_sendRequest [OF laws look])
  next
    fix toAdd and s2 :: "('a, event, 'b) io_state"
    assume "names (world s2) = names (world s1) \<and> names_of toAdd = {n \<in> set desired. map_of (role_map current) n = None}"
    with cur have s2: "names (world s2) = names (world s)" "names_of toAdd = set desired - names (world s)"
      by (auto simp: role_map_None)
    have stale: "names_of (filter (named_not_in desired) current) = names (world s) - set desired"
      using cur by (simp add: names_of_stale)
    show "wp True (?rest current toAdd) ?Q (\<lambda>_ _. True) s2"
      by (rule wp_apply_mapping [OF s2 stale finite_set add rem])
  qed simp
  show ?thesis
    unfolding wp_bindIO [of True ?get] wp_wrapErr
    by (rule wp_weaken [OF wp_GetMapping [OF laws getm, of s]]) (use tail in auto)
qed

text \<open>
  C2. Realm roles of a user: when \<open>syncRealmRoles\<close> returns without an error, the realm roles
  mapped to the user in Keycloak are exactly the desired ones, or, with add-only, the ones that
  were there together with the desired ones.
\<close>

theorem syncRealmRoles_correct:
  assumes "role_mapping_server env (user_realm_mapping realm userID) (realm_path realm [''roles'']) names"
    and "syncRealmRoles env c realm userID desired addOnly s = (Ok (), s')"
  shows "names (world s') = (if addOnly then names (world s) \<union> set desired else set desired)"
proof -
  have "wp True (syncRealmRoles env c realm userID desired addOnly)
     (\<lambda>_ s'. names (world s') = (if addOnly then names (world s) \<union> set desired else set desired)) (\<lambda>_ _. True) s"
    unfolding syncRealmRoles_def Let_def
    by (rule wp_sync_mapping [OF assms(1)])
      (simp_all add: client_defs user_realm_mapping_def realm_path_append)
  from wp_OkD [OF this assms(2)] show ?thesis .
qed

text \<open>
  Client roles of a user: when the entry of one client has been synchronised without an
  error, the roles of that client mapped to the user are the desired ones (with add-only: are
  joined by them). \<open>uuid\<close> is the internal id Keycloak gives for the client.
\<close>

theorem syncOneClient_correct:
  assumes "\<And>c w r w'. success env c (mk_request GET (realm_path realm [''clients''])
        [(''clientId'', ucr_ClientID cr)] NoBody) w r w' \<Longrightarrow>
      names w' = names w \<and> (\<forall>cl cls. json_clients r = Some (cl # cls) \<longrightarrow> cl_Id cl \<noteq> None \<longrightarrow> cl_Id cl = Some uuid)"
    and "role_mapping_server env (user_client_mapping realm userID uuid)
      (realm_path realm [''clients'', uuid, ''roles'']) names"
    and "syncOneClient env c realm userID addOnly cr s = (Ok (), s')"
  shows "names (world s') = (if addOnly then names (world s) \<union> set (ucr_Roles cr) else set (ucr_Roles cr))"
proof -
  let ?Q = "\<lambda>_ s'. names (world s') = (if addOnly then names (world s) \<union> set (ucr_Roles cr) else set (ucr_Roles cr))"
  have found: "wp True (GetClients env c realm [(''clientId'', ucr_ClientID cr)])
     (\<lambda>cls s'. names (world s') = names (world s) \<and>
        (\<forall>cl cls'. cls = cl # cls' \<longrightarrow> cl_Id cl \<noteq> None \<longrightarrow> cl_Id cl = Some uuid)) (\<lambda>_ _. True) s"
    unfolding GetClients_def wp_bindIO
    by (rule wp_sendRequest) (use assms(1) in \<open>fastforce split: option.split\<close>)
  have sync: "wp True (syncClientMapping env c realm userID addOnly cr uuid) ?Q (\<lambda>_ _. True) s1"
    if "names (world s1) = names (world s)" for s1
    unfolding syncClientMapping_def Let_def that [symmetric]
    by (rule wp_sync_mapping [OF assms(2)])
      (simp_all add: client_defs user_client_mapping_def realm_path_append)
  have "wp True (syncOneClient env c realm userID addOnly cr) ?Q (\<lambda>_ _. True) s"
    unfolding syncOneClient_def wp_bindIO wp_wrapErr
    by (rule wp_weaken [OF found]) (use sync in \<open>auto split: list.split option.split\<close>)
  from wp_OkD [OF this assms(3)] show ?thesis .
qed

section \<open>Groups of a user\<close>

definition ids_of :: "GroupRepresentation list \<Rightarrow> string set" where
  "ids_of gs = {i. \<exists>g \<in> set gs. gp_Id g = Some i}"

text \<open>The groups a user is in, by id, and the id a group name or path stands for.\<close>

definition membership_server ::
  "'w env \<Rightarrow> string \<Rightarrow> string \<Rightarrow> (string \<Rightarrow> string) \<Rightarrow> ('w \<Rightarrow> string set) \<Rightarrow> bool" where
  "membership_server env realm userID gid members \<longleftrightarrow>
     (\<forall>c w r w'. success env c (mk_request GET (realm_path realm [''users'', userID, ''groups'']) [] NoBody) w r w' \<longrightarrow>
        members w' = members w \<and> (\<exists>gs. json_groups r = Some gs \<and> ids_of gs = members w)) \<and>
     (\<forall>c g w r w'. success env c (mk_request GET (realm_path realm [''group-by-path'', g]) [] NoBody) w r w' \<longrightarrow>
        members w' = members w \<and> (\<forall>x i. json_group r = Some x \<longrightarrow> gp_Id x = Some i \<longrightarrow> i = gid g)) \<and>
     (\<forall>c g w r w'. success env c (mk_request GET (realm_path realm [''groups''])
          [(''search'', g), (''exact'', ''true'')] NoBody) w r w' \<longrightarrow>
        members w' = members w \<and>
        (\<forall>gs x i. json_groups r = Some gs \<longrightarrow> findGroupInList gs g = Some x \<longrightarrow> gp_Id x = Some i \<longrightarrow> i = gid g)) \<and>
     (\<forall>c i w r w'. success env c (mk_request PUT (realm_path realm [''users'', userID, ''groups'', i]) [] NoBody) w r w' \<longrightarrow>
        members w' = insert i (members w)) \<and>
     (\<forall>c i w r w'. success env c (mk_request DELETE (realm_path realm [''users'', userID, ''groups'', i]) [] NoBody) w r w' \<longrightarrow>
        members w' = members w - {i})"

lemma wp_resolveGroup:
  assumes "membership_server env realm userID gid members"
  shows "wp True (resolveGroup env c realm g)
     (\<lambda>rg s'. members (world s') = members (world s) \<and> rg_id rg = gid g) (\<lambda>_ _. True) s"
proof (cases "prefix ''/'' g")
  case True
  have "wp True (GetGroupByPath env c realm g) (\<lambda>x s'. members (world s') = members (world s) \<and>
      (\<forall>i. Option.bind x gp_Id = Some i \<longrightarrow> i = gid g)) (\<lambda>_ _. True) s"
    unfolding GetGroupByPath_def wp_bindIO
    by (rule wp_sendRequest) (use assms in \<open>auto simp: membership_server_def bind_eq_Some_conv\<close>)
  then show ?thesis using True
    by (auto simp: resolveGroup_def elim!: wp_weaken split: option.split)
next
  case False
  have "wp True (FindGroupByName env c realm g) (\<lambda>x s'. members (world s') = members (world s) \<and>
      (\<forall>i. gp_Id x = Some i \<longrightarrow> i = gid g)) (\<lambda>_ _. True) s"
    unfolding FindGroupByName_def wp_bindIO
    by (rule wp_sendRequest) (use assms in \<open>auto simp: membership_server_def split: option.split\<close>)
  then show ?thesis using False
    by (auto simp: resolveGroup_def elim!: wp_mono split: option.split)
qed

lemma wp_resolve_all:
  assumes "membership_server env realm userID gid members"
  shows "wp True (foldIO (\<lambda>g desired. bindIO (resolveGroup env c realm g) (\<lambda>r. ret (desired @ [r]))) gs [])
     (\<lambda>rs s'. members (world s') = members (world s) \<and> map rg_id rs = map gid gs) (\<lambda>_ _. True) s"
  by (rule wp_foldIO [where I = "\<lambda>vis rs s'. members (world s') = members (world s) \<and> map rg_id rs = map gid vis"])
    (auto elim!: wp_weaken [OF wp_resolveGroup [OF assms]] intro!: wp_weaken [OF wp_resolveGroup [OF assms]])

text \<open>Two loops: join what is missing, leave what is not wanted.\<close>

lemma wp_add_loop:
  fixes s :: "('w, 'e, 'm) io_state"
  assumes law: "\<And>x s. x \<in> set xs \<Longrightarrow>
      wp True (addm x) (\<lambda>_ s'. members (world s') = insert (key x) (members (world s))) (\<lambda>_ _. True) s"
    and present: "\<And>x. x \<in> set xs \<Longrightarrow> \<not> missing x \<Longrightarrow> key x \<in> members (world s)"
  shows "wp True (forIO (\<lambda>x. whenIO (missing x) (addm x)) xs)
     (\<lambda>_ s'. members (world s') = members (world s) \<union> key ` set xs) (\<lambda>_ _. True) s"
proof (rule wp_forIO [where I = "\<lambda>vis s'. members (world s') = members (world s) \<union> key ` set vis"])
  fix vis x rest and s' :: "('w, 'e, 'm) io_state"
  assume xs: "xs = vis @ x # rest" and inv: "members (world s') = members (world s) \<union> key ` set vis"
  show "wp True (whenIO (missing x) (addm x))
     (\<lambda>_ s''. members (world s'') = members (world s) \<union> key ` set (vis @ [x])) (\<lambda>_ _. True) s'"
  proof (cases "missing x")
    case True
    then show ?thesis using wp_weaken [OF law [of x s']] xs inv by simp
  next
    case False
    with present [of x] xs inv show ?thesis by auto
  qed
qed auto

lemma wp_remove_loop:
  fixes s :: "('w, 'e, 'm) io_state"
  assumes law: "\<And>i v s. (i, v) \<in> set xs \<Longrightarrow>
      wp True (remm i v) (\<lambda>_ s'. members (world s') = members (world s) - {i}) (\<lambda>_ _. True) s"
  shows "wp True (forIO (\<lambda>(i, v). whenIO (i \<notin> keep) (remm i v)) xs)
     (\<lambda>_ s'. members (world s') = members (world s) - (fst ` set xs - keep)) (\<lambda>_ _. True) s"
proof (rule wp_forIO [where I = "\<lambda>vis s'. members (world s') = members (world s) - (fst ` set vis - keep)"])
  fix vis x rest and s' :: "('w, 'e, 'm) io_state"
  assume xs: "xs = vis @ x # rest" and inv: "members (world s') = members (world s) - (fst ` set vis - keep)"
  obtain i v where x: "x = (i, v)" by (cases x)
  show "wp True (case x of (i, v) \<Rightarrow> whenIO (i \<notin> keep) (remm i v))
     (\<lambda>_ s''. members (world s'') = members (world s) - (fst ` set (vis @ [x]) - keep)) (\<lambda>_ _. True) s'"
  proof (cases "i \<in> keep")
    case False
    have "members (world s) - (fst ` set vis - keep) - {i} = members (world s) - (fst ` set (vis @ [x]) - keep)"
      using False x by auto
    with False show ?thesis using wp_weaken [OF law [of i v s']] xs x inv by simp
  next
    case True
    then show ?thesis using inv x by auto
  qed
qed auto

lemma keys_of_permutation:
  "mset ys = mset (build_map key val xs) \<Longrightarrow> fst ` set ys = {k. \<exists>x \<in> set xs. key x = Some k}"
  using keys_build_map [of key val xs] by (metis set_mset_mset)

lemma wp_joinGroups:
  assumes "membership_server env realm userID gid members"
    and "\<And>i. map_of cur i = None \<longleftrightarrow> i \<notin> members (world s)"
  shows "wp True (joinGroups env c realm userID cur desired)
     (\<lambda>_ s'. members (world s') = members (world s) \<union> rg_id ` set desired) (\<lambda>_ _. True) s"
  unfolding joinGroups_def
  by (rule wp_add_loop)
    (use assms in \<open>auto simp: AddUserToGroup_def membership_server_def intro!: wp_sendRequest\<close>)

lemma wp_leaveGroups:
  assumes "membership_server env realm userID gid members"
  shows "wp True (leaveGroups env c realm userID (build_map gp_Id id cur) desired)
     (\<lambda>_ s'. members (world s') = members (world s) - (ids_of cur - rg_id ` set desired)) (\<lambda>_ _. True) s"
  unfolding leaveGroups_def Let_def wp_bindIO
proof (rule wp_range_order)
  fix ys
  assume "mset ys = mset (build_map gp_Id id cur)"
  then have keys: "fst ` set ys = ids_of cur" by (simp add: keys_of_permutation ids_of_def)
  show "wp True (forIO (\<lambda>(i, cg). whenIO (i \<notin> set (map rg_id desired))
      (wrapErr (''unable to remove user from group '' @ go_quote (case gp_Name cg of None \<Rightarrow> i | Some n \<Rightarrow> n) @
         '' (id '' @ i @ ''): '') (voidIO (RemoveUserFromGroup env c realm userID i)))) ys)
     (\<lambda>_ s'. members (world s') = members (world s) - (ids_of cur - rg_id ` set desired)) (\<lambda>_ _. True) s"
    by (rule wp_weaken [OF wp_remove_loop])
      (use assms keys in \<open>auto simp: RemoveUserFromGroup_def membership_server_def intro!: wp_sendRequest\<close>)
qed

text \<open>
  C1. Groups of a user: when \<open>SyncUserGroups\<close> returns without an error, the user is in exactly
  the groups the resource lists, by name or by path; with add-only, in those and in the ones
  before. The order in which Go iterates over the current groups does not matter.
\<close>

theorem SyncUserGroups_correct:
  assumes laws: "membership_server env realm (um_UserID (mem s)) gid members"
    and "SyncUserGroups_Serve env c realm s = (Ok (), s')"
  shows "members (world s') =
    (if IsReconciliationStrategyAddOnly (um_user (mem s))
     then members (world s) \<union> gid ` set (us_Groups (ku_Spec (um_user (mem s))))
     else gid ` set (us_Groups (ku_Spec (um_user (mem s)))))"
proof -
  let ?u = "um_UserID (mem s)" and ?gs = "us_Groups (ku_Spec (um_user (mem s)))"
  let ?ao = "IsReconciliationStrategyAddOnly (um_user (mem s))"
  let ?Q = "\<lambda>_ s'. members (world s') = (if ?ao then members (world s) \<union> gid ` set ?gs else gid ` set ?gs)"
  have current: "wp True (GetUserGroups env c realm ?u) (\<lambda>gs s'. members (world s') = members (world s) \<and>
      ids_of gs = members (world s)) (\<lambda>_ _. True) s"
    unfolding GetUserGroups_def wp_bindIO
    by (rule wp_sendRequest) (use laws in \<open>fastforce simp: membership_server_def\<close>)
  have change: "wp True (joinGroups env c realm ?u (build_map gp_Id id cur) desired)
      (\<lambda>_. wp True (if ?ao then ret () else leaveGroups env c realm ?u (build_map gp_Id id cur) desired)
        ?Q (\<lambda>_ _. True)) (\<lambda>_ _. True) s2"
    if "members (world s2) = members (world s)" "ids_of cur = members (world s)" "map rg_id desired = map gid ?gs"
    for cur desired and s2 :: "('a, event, user_mem) io_state"
  proof (rule wp_weaken [OF wp_joinGroups [OF laws]])
    show "map_of (build_map gp_Id id cur) i = None \<longleftrightarrow> i \<notin> members (world s2)" for i
      using that by (auto simp: map_of_build_map_None ids_of_def)
    have ids: "rg_id ` set desired = gid ` set ?gs" using that(3) by (metis list.set_map)
    fix s3 :: "('a, event, user_mem) io_state"
    assume s3: "members (world s3) = members (world s2) \<union> rg_id ` set desired"
    show "wp True (if ?ao then ret () else leaveGroups env c realm ?u (build_map gp_Id id cur) desired)
        ?Q (\<lambda>_ _. True) s3"
    proof (cases ?ao)
      case True
      with s3 ids that show ?thesis by simp
    next
      case False
      have "members (world s) \<union> gid ` set ?gs - (members (world s) - gid ` set ?gs) = gid ` set ?gs" by blast
      with False show ?thesis
        using wp_weaken [OF wp_leaveGroups [OF laws, of c cur desired s3]] s3 ids that by simp
    qed
  qed
  have "wp True (SyncUserGroups_Serve env c realm) ?Q (\<lambda>_ _. True) s"
  proof (cases "?gs = [] \<and> ?ao")
    case True
    then show ?thesis by (simp add: SyncUserGroups_Serve_def)
  next
    case False
    show ?thesis
      unfolding SyncUserGroups_Serve_def Let_def wp_bindIO wp_getMem wp_wrapErr if_not_P [OF False]
      by (rule wp_weaken [OF current], elim conjE, rule wp_weaken [OF wp_resolve_all [OF laws]], elim conjE)
        (rule change, auto)
  qed
  from wp_OkD [OF this assms(2)] show ?thesis .
qed

section \<open>Identity providers of a user\<close>

definition links_of :: "FederatedIdentityRepresentation list \<Rightarrow> string set" where
  "links_of fs = {a. \<exists>f \<in> set fs. fed_IdentityProvider f = Some a}"

text \<open>The aliases of the providers a user is linked to.\<close>

definition federation_server :: "'w env \<Rightarrow> string \<Rightarrow> string \<Rightarrow> ('w \<Rightarrow> string set) \<Rightarrow> bool" where
  "federation_server env realm userID links \<longleftrightarrow>
     (\<forall>c w r w'. success env c (mk_request GET (realm_path realm [''users'', userID, ''federated-identity'']) [] NoBody) w r w' \<longrightarrow>
        links w' = links w \<and> (\<exists>fs. json_feds r = Some fs \<and> links_of fs = links w)) \<and>
     (\<forall>c a w r w'. success env c (mk_request GET (realm_path realm [''identity-provider'', ''instances'', a]) [] NoBody) w r w' \<longrightarrow>
        links w' = links w) \<and>
     (\<forall>c a f w r w'. success env c (mk_request POST (realm_path realm [''users'', userID, ''federated-identity'', a]) [] (FedB f)) w r w' \<longrightarrow>
        links w' = insert a (links w)) \<and>
     (\<forall>c a w r w'. success env c (mk_request DELETE (realm_path realm [''users'', userID, ''federated-identity'', a]) [] NoBody) w r w' \<longrightarrow>
        links w' = links w - {a})"

lemma wp_linkProvider:
  assumes "federation_server env realm userID links"
  shows "wp True (linkProvider env c realm userID username a)
     (\<lambda>_ s'. links (world s') = insert a (links (world s))) (\<lambda>_ _. True) s"
proof -
  have get: "wp True (GetIdentityProvider env c realm a) (\<lambda>_ s'. links (world s') = links (world s)) (\<lambda>_ _. True) s"
    unfolding GetIdentityProvider_def wp_bindIO
    by (rule wp_sendRequest) (use assms in \<open>auto simp: federation_server_def success_def\<close>)
  have post: "wp True (CreateUserFederatedIdentity env c realm userID a f)
      (\<lambda>_ s'. links (world s') = insert a (links (world s1))) (\<lambda>_ _. True) s1" for f s1
    unfolding CreateUserFederatedIdentity_def wp_bindIO
    by (rule wp_sendRequest) (use assms in \<open>auto simp: federation_server_def\<close>)
  show ?thesis
    unfolding linkProvider_def wp_bindIO wp_tryIO
    by (rule wp_mono [OF get]) (auto intro!: wp_weaken [OF post])
qed

lemma wp_unlinkProviders:
  assumes "federation_server env realm userID links"
  shows "wp True (unlinkProviders env c realm userID (build_map fed_IdentityProvider (\<lambda>_. ()) cur) providers)
     (\<lambda>_ s'. links (world s') = links (world s) - (links_of cur - set providers)) (\<lambda>_ _. True) s"
  unfolding unlinkProviders_def wp_bindIO
proof (rule wp_range_order)
  fix ys
  assume "mset ys = mset (build_map fed_IdentityProvider (\<lambda>_. ()) cur)"
  then have keys: "fst ` set ys = links_of cur" by (simp add: keys_of_permutation links_of_def)
  show "wp True (forIO (\<lambda>(alias, u). whenIO (alias \<notin> set providers)
      (wrapErr (''unable to remove user from identity provider '' @ go_quote alias @ '': '')
         (voidIO (DeleteUserFederatedIdentity env c realm userID alias)))) ys)
     (\<lambda>_ s'. links (world s') = links (world s) - (links_of cur - set providers)) (\<lambda>_ _. True) s"
    by (rule wp_weaken [OF wp_remove_loop])
      (use assms keys in \<open>auto simp: DeleteUserFederatedIdentity_def federation_server_def intro!: wp_sendRequest\<close>)
qed


section \<open>Concrete servers\<close>

text \<open>A Keycloak that keeps one role mapping, the list of the names of the roles in it.\<close>

definition named_role :: "string \<Rightarrow> RoleRepresentation" where
  "named_role n = zero_role\<lparr>role_Name := Some n\<rparr>"

definition mapping_env :: "string list \<Rightarrow> string list env" where
  "mapping_env mapping_path = idle_env\<lparr>kc_http := (\<lambda>c rq w.
     case rq_method rq of
       POST \<Rightarrow> (Inr (Some (accepted None)), (case rq_body rq of RolesB rs \<Rightarrow> w @ List.map_filter role_Name rs | _ \<Rightarrow> w))
     | DELETE \<Rightarrow> (Inr (Some (accepted None)), (case rq_body rq of
          RolesB rs \<Rightarrow> filter (\<lambda>n. n \<notin> set (List.map_filter role_Name rs)) w | _ \<Rightarrow> w))
     | _ \<Rightarrow> (Inr (Some (accepted (Some (
          if rq_path rq = mapping_path then RolesB (map named_role w)
          else if rq_query rq \<noteq> [] then ClientsB [\<lparr>cl_Id = Some ''uuid'', cl_ClientId = Some ''app'', cl_rest = []\<rparr>]
          else RoleB (named_role (last (rq_path rq))))))), w))\<rparr>"

lemma names_of_map_filter: "names_of rs = set (List.map_filter role_Name rs)"
  by (force simp: names_of_def List.map_filter_def)

lemma names_of_named [simp]: "names_of (map named_role w) = set w"
  by (auto simp: names_of_def named_role_def)

lemma mapping_env_server:
  assumes "\<And>n. rp @ [n] \<noteq> mp"
  shows "role_mapping_server (mapping_env mp) mp rp set"
  using assms
  by (auto simp: role_mapping_server_def success_def mapping_env_def accepted_def json_roles_def json_role_def
      names_of_map_filter [symmetric] named_role_def)

text \<open>A Keycloak that keeps the groups or the linked providers of one user, by id or alias.\<close>

definition member_env :: "string list env" where
  "member_env = idle_env\<lparr>kc_http := (\<lambda>c rq w.
     case rq_method rq of
       DELETE \<Rightarrow> (Inr (Some (accepted None)), filter (\<lambda>i. i \<noteq> last (rq_path rq)) w)
     | GET \<Rightarrow> (Inr (Some (accepted (Some (
          if rq_query rq \<noteq> [] then GroupsB (map (\<lambda>(k, v). zero_group\<lparr>gp_Id := Some v, gp_Name := Some v\<rparr>) (rq_query rq))
          else if rq_path rq ! 3 = ''users'' then
            (if last (rq_path rq) = ''groups'' then GroupsB (map (\<lambda>i. zero_group\<lparr>gp_Id := Some i\<rparr>) w)
             else FedsB (map (\<lambda>a. \<lparr>fed_IdentityProvider = Some a, fed_UserId = None, fed_UserName = None\<rparr>) w))
          else GroupB (zero_group\<lparr>gp_Id := Some (last (rq_path rq))\<rparr>))))), w)
     | _ \<Rightarrow> (Inr (Some (accepted None)), last (rq_path rq) # w))\<rparr>"

lemma member_env_memberships: "membership_server member_env realm userID (\<lambda>g. g) set"
  by (auto simp: membership_server_def success_def member_env_def accepted_def json_groups_def json_group_def
      ids_of_def realm_path_def split: if_splits)

lemma member_env_federation: "federation_server member_env realm userID set"
  by (auto simp: federation_server_def success_def member_env_def accepted_def json_feds_def
      links_of_def realm_path_def)

lemmas server_simps = mapping_env_def member_env_def idle_env_def accepted_def sendRequest_def checkResponseError_def
  json_roles_def json_role_def json_groups_def json_group_def json_feds_def json_idp_def json_clients_def
  client_defs realm_path_def named_role_def zero_role_def role_map_def build_map_def named_not_in_def zero_group_def

definition server_state :: "KeycloakUserSpec \<Rightarrow> (string list, event, user_mem) io_state" where
  "server_state spec = \<lparr>world = [''a'', ''b''], trace = [],
     mem = \<lparr>um_user = \<lparr>ku_Meta = zero_ObjectMeta, ku_Spec = spec, ku_Status = zero_UserStatus\<rparr>, um_UserID = ''u''\<rparr>\<rparr>"

theorem syncRealmRoles_witness:
  "set (world (snd (syncRealmRoles (mapping_env (user_realm_mapping ''r'' ''u'')) 0 ''r'' ''u'' [''b'', ''c''] False
      (server_state zero_UserSpec)))) = {''b'', ''c''}"
proof -
  let ?m = "syncRealmRoles (mapping_env (user_realm_mapping ''r'' ''u'')) 0 ''r'' ''u'' [''b'', ''c''] False
      (server_state zero_UserSpec)"
  have "fst ?m = Ok ()"
    by (simp add: syncRealmRoles_def user_realm_mapping_def server_state_def server_simps go_simps)
  then have run: "?m = (Ok (), snd ?m)" by (metis prod.collapse)
  have laws: "role_mapping_server (mapping_env (user_realm_mapping ''r'' ''u'')) (user_realm_mapping ''r'' ''u'')
      (realm_path ''r'' [''roles'']) set"
    by (rule mapping_env_server) (simp add: user_realm_mapping_def realm_path_def)
  from syncRealmRoles_correct [OF laws run] show ?thesis by simp
qed

theorem syncOneClient_witness:
  "set (world (snd (syncOneClient (mapping_env (user_client_mapping ''r'' ''u'' ''uuid'')) 0 ''r'' ''u'' True
      \<lparr>ucr_ClientID = ''app'', ucr_Roles = [''c'']\<rparr> (server_state zero_UserSpec)))) = {''a'', ''b'', ''c''}"
proof -
  let ?env = "mapping_env (user_client_mapping ''r'' ''u'' ''uuid'')"
    and ?cr = "\<lparr>ucr_ClientID = ''app'', ucr_Roles = [''c'']\<rparr>"
  let ?m = "syncOneClient ?env 0 ''r'' ''u'' True ?cr (server_state zero_UserSpec)"
  have "fst ?m = Ok ()"
    by (simp add: syncOneClient_def syncClientMapping_def user_client_mapping_def server_state_def server_simps go_simps)
  then have run: "?m = (Ok (), snd ?m)" by (metis prod.collapse)
  have laws: "role_mapping_server ?env (user_client_mapping ''r'' ''u'' ''uuid'')
      (realm_path ''r'' [''clients'', ''uuid'', ''roles'']) set"
    by (rule mapping_env_server) (simp add: user_client_mapping_def realm_path_def)
  have "set w' = set w \<and> (\<forall>cl cls. json_clients r = Some (cl # cls) \<longrightarrow> cl_Id cl \<noteq> None \<longrightarrow> cl_Id cl = Some ''uuid'')"
    if "success ?env c (mk_request GET (realm_path ''r'' [''clients'']) [(''clientId'', ucr_ClientID ?cr)] NoBody) w r w'"
    for c w r w'
    using that
    by (auto simp: success_def mapping_env_def accepted_def json_clients_def user_client_mapping_def realm_path_def)
  from syncOneClient_correct [OF this laws run] show ?thesis by (auto simp: server_state_def)
qed

theorem SyncUserGroups_witness:
  "set (world (snd (SyncUserGroups_Serve member_env 0 ''r''
      (server_state (zero_UserSpec\<lparr>us_Groups := [''b'', ''/x'']\<rparr>))))) = {''b'', ''/x''}"
proof -
  let ?s = "server_state (zero_UserSpec\<lparr>us_Groups := [''b'', ''/x'']\<rparr>)"
  let ?m = "SyncUserGroups_Serve member_env 0 ''r'' ?s"
  have "fst ?m = Ok ()"
    by (simp add: SyncUserGroups_Serve_def resolveGroup_def joinGroups_def leaveGroups_def
        server_state_def server_simps go_simps IsAddOnly_spec zero_UserSpec_def Let_def)
  then have run: "?m = (Ok (), snd ?m)" by (metis prod.collapse)
  from SyncUserGroups_correct [OF member_env_memberships run] show ?thesis
    by (simp add: server_state_def IsAddOnly_spec zero_UserSpec_def)
qed


end
