(* ===== verification/UserController.thy ===== *)
theory UserController
  imports UserSync
begin

text \<open>
  \<open>internal/controller/keycloakuser/keycloakuser_controller.go\<close>: one reconciliation of a
  \<open>KeycloakUser\<close>. The request is a namespace and a name; the instance read from the cluster is
  the resource in the memory of the run.
\<close>

record ctrl_Result =
  RequeueAfter :: int64

definition zero_Result :: ctrl_Result where
  "zero_Result = \<lparr>RequeueAfter = 0\<rparr>"

definition RequeueOnKeycloakNotAvailable :: ctrl_Result where
  "RequeueOnKeycloakNotAvailable = \<lparr>RequeueAfter = 60 * 1000000000\<rparr>"

definition user_finalizerName :: string where
  "user_finalizerName = ''keycloak.realmuser.operator.finalizer.name''"

section \<open>Operations\<close>

definition migrateAttributes :: "KeycloakUser \<Rightarrow> bool \<times> KeycloakUser" where
  "migrateAttributes u =
     (if us_AttributesV2 (ku_Spec u) = [] \<and> us_Attributes (ku_Spec u) \<noteq> [] then
        (True, u\<lparr>ku_Spec := (ku_Spec u)\<lparr>us_AttributesV2 :=
           map (\<lambda>(attr, v). (attr, [v])) (us_Attributes (ku_Spec u))\<rparr>\<rparr>)
      else (False, u))"

definition user_applyDefaults :: "'w env \<Rightarrow> ('w, bool) user_prog" where
  "user_applyDefaults env =
     bindIO (getMem um_user) (\<lambda>u. case migrateAttributes u of (migrate, u') \<Rightarrow>
     bindIO (modMem (\<lambda>m. m\<lparr>um_user := u'\<rparr>)) (\<lambda>_.
     if migrate then
       bindIO (wrapErr ''failed to update keycloak client default values: '' (k8s_Update env user_obj)) (\<lambda>_.
       ret True)
     else ret False))"

text \<open>
  \<open>oldStatus := instance.Status\<close> copies the header of the slice of conditions, not its array.
  \<open>SetStatusCondition\<close> writes an existing condition in place, and decoding an answer of the API
  server reuses the array, so what \<open>oldStatus\<close> reads afterwards is the new content of the cells it
  can see.
\<close>

definition alias_status :: "KeycloakUserStatus \<Rightarrow> KeycloakUserStatus \<Rightarrow> KeycloakUserStatus" where
  "alias_status old new = old\<lparr>ust_Conditions :=
     take (length (ust_Conditions old)) (ust_Conditions new) @ drop (length (ust_Conditions new)) (ust_Conditions old)\<rparr>"

definition updateKeycloakUserStatus :: "'w env \<Rightarrow> KeycloakUserStatus \<Rightarrow> ('w, unit) user_prog" where
  "updateKeycloakUserStatus env oldStatus =
     bindIO (getMem (\<lambda>m. ku_Status (um_user m))) (\<lambda>status.
     if DeepEqual_UserStatus env status (alias_status oldStatus status) then ret ()
     else wrapErr ''failed to update KeycloakRealmUser status: '' (k8s_StatusUpdate env user_obj))"

text \<open>The part of \<open>tryReconcile\<close> for a kept resource that is being deleted.\<close>

definition user_removeWithRetry :: "'w env \<Rightarrow> HelperConf \<Rightarrow> kc_client \<Rightarrow> string \<Rightarrow> ('w, unit) user_prog" where
  "user_removeWithRetry env h kClientV2 realmName =
     bindIO (tryIO (RemoveUser_ServeRequest env kClientV2 realmName)) (\<lambda>res. case res of
       Inr _ \<Rightarrow> ret ()
     | Inl err \<Rightarrow>
         if IsUnauthorizedError (Some err) then
           bindIO (user_refreshToken env h) (\<lambda>cl.
           wrapErr ''failed to remove user: '' (RemoveUser_ServeRequest env cl realmName))
         else fail (Wrapped ''failed to remove user: '' err))"

definition user_finalize :: "'w env \<Rightarrow> HelperConf \<Rightarrow> kc_client \<Rightarrow> string \<Rightarrow> ('w, unit) user_prog" where
  "user_finalize env h kClientV2 realmName =
     bindIO (getMem (\<lambda>m. om_Finalizers (ku_Meta (um_user m)))) (\<lambda>fs.
     if ContainsFinalizer env fs user_finalizerName then
       bindIO (user_removeWithRetry env h kClientV2 realmName) (\<lambda>_.
       bindIO (removeFinalizer env user_obj user_finalizerName) (\<lambda>_.
       wrapErr ''failed to remove finalizer: '' (k8s_Update env user_obj)))
     else ret ())"

definition user_tryReconcile :: "'w env \<Rightarrow> HelperConf \<Rightarrow> ('w, unit) user_prog" where
  "user_tryReconcile env h =
     bindIO (wrapErr ''unable to set realm owner ref: ''
              (SetRealmOwnerRef env h user_obj (\<lambda>m. us_RealmRef (ku_Spec (um_user m))))) (\<lambda>_.
     bindIO (tryIO (user_refreshToken env h)) (\<lambda>res. case res of
       Inl err \<Rightarrow>
         if errors_Is err ErrKeycloakRealmNotFound then
           wrapErr ''unable to remove finalizer: '' (TryRemoveFinalizer env user_obj user_finalizerName)
         else fail (Wrapped ''unable to create keycloak v2 client from ref: '' err)
     | Inr kClientV2 \<Rightarrow>
         bindIO (wrapErr ''unable to get realm name from ref: ''
                  (GetRealmNameFromRef env h user_obj (\<lambda>m. us_RealmRef (ku_Spec (um_user m))))) (\<lambda>realmName.
         bindIO (getMem um_user) (\<lambda>instance.
         if us_KeepResource (ku_Spec instance) \<and> om_DeletionTimestamp (ku_Meta instance) \<noteq> None then
           user_finalize env h kClientV2 realmName
         else
           bindIO (whenIO (us_KeepResource (ku_Spec instance))
             (bindIO (addFinalizer env user_obj user_finalizerName) (\<lambda>changed.
              whenIO changed (wrapErr ''failed to add finalizer: '' (k8s_Update env user_obj))))) (\<lambda>_.
           wrapErr ''error during realm user chain: ''
             (user_Chain_Serve env h (user_MakeChain kClientV2) realmName))))))"

definition user_report :: "string \<Rightarrow> string \<Rightarrow> user_mem \<Rightarrow> user_mem" where
  "user_report err phase m = m\<lparr>um_user := (um_user m)\<lparr>ku_Status :=
     (ku_Status (um_user m))\<lparr>ust_Error := err, ust_Phase := phase\<rparr>\<rparr>\<rparr>"

definition user_Reconcile ::
  "'w env \<Rightarrow> HelperConf \<Rightarrow> string \<Rightarrow> string \<Rightarrow> ('w, ctrl_Result) user_prog" where
  "user_Reconcile env h ns name =
     bindIO (tryIO (get_user_cr env ns name)) (\<lambda>res. case res of
       Inl err \<Rightarrow>
         if k8s_IsNotFound err then ret zero_Result
         else fail (Wrapped ''unable to get keycloak realm user from k8s: '' err)
     | Inr instance \<Rightarrow>
         bindIO (modMem (\<lambda>m. m\<lparr>um_user := instance\<rparr>)) (\<lambda>_.
         let oldStatus = ku_Status instance in
         bindIO (user_applyDefaults env) (\<lambda>updated.
         if updated then ret zero_Result
         else bindIO (tryIO (user_tryReconcile env h)) (\<lambda>res. case res of
           Inl err \<Rightarrow>
             if errors_Is err ErrKeycloakIsNotAvailable then ret RequeueOnKeycloakNotAvailable
             else
               bindIO (modMem (user_report (Error err) PhaseFailed)) (\<lambda>_.
               bindIO (updateKeycloakUserStatus env oldStatus) (\<lambda>_. fail err))
         | Inr _ \<Rightarrow>
             bindIO (modMem (user_report '''' PhaseCompleted)) (\<lambda>_.
             bindIO (updateKeycloakUserStatus env oldStatus) (\<lambda>_. ret zero_Result))))))"

section \<open>Deleting a user\<close>

lemma user_obj_simps:
  "obj_meta user_obj m = ku_Meta (um_user m)"
  "obj_set_meta user_obj x m = m\<lparr>um_user := (um_user m)\<lparr>ku_Meta := x\<rparr>\<rparr>"
  "obj_out user_obj m = UserObj (um_user m)"
  by (simp_all add: user_obj_def)

lemma k8s_write_trace:
  "trace (snd (k8s_Update env user_obj s)) = trace s @ [Kube (KUpdate (UserObj (um_user (mem s))))]"
  "trace (snd (k8s_StatusUpdate env user_obj s)) = trace s @ [Kube (KStatusUpdate (UserObj (um_user (mem s))))]"
  by (auto simp: k8s_Update_def k8s_StatusUpdate_def go_simps user_obj_simps split: prod.split sum.split)

lemma wrapErr_snd [simp]: "snd (wrapErr pre m s) = snd (m s)"
  by (auto simp: wrapErr_def split: prod.split outcome.split)

text \<open>
  What the removal relies on: \<open>absent w\<close> says that Keycloak has no user of that name in the realm,
  \<open>owner i\<close> that \<open>i\<close> is the id of the user of that name. A search that finds nobody, or a realm
  that is not there, means absence; a search returns the user of that name; a deletion that
  succeeds, or finds nothing to delete, leaves the user absent.
\<close>

definition removal_laws ::
  "'w env \<Rightarrow> string \<Rightarrow> string \<Rightarrow> (string \<Rightarrow> bool) \<Rightarrow> ('w \<Rightarrow> bool) \<Rightarrow> bool" where
  "removal_laws env realm username owner absent \<longleftrightarrow>
     (\<forall>c s. wp True (FindUserByUsername env c realm username)
        (\<lambda>u _. \<forall>i. ur_Id u = Some i \<longrightarrow> owner i)
        (\<lambda>e s'. IsNotFound e \<longrightarrow> absent (world (s' :: ('w, event, user_mem) io_state))) s) \<and>
     (\<forall>c i s. owner i \<longrightarrow> wp True (DeleteUser env c realm i)
        (\<lambda>_ s'. absent (world (s' :: ('w, event, user_mem) io_state)))
        (\<lambda>e s'. IsNotFound e \<longrightarrow> absent (world s')) s)"

definition no_update :: "event set" where
  "no_update = {e. \<forall>x. e \<noteq> Kube (KUpdate x)}"

lemma no_update_simps [simp]:
  "Http c rq \<in> no_update" "NewClient p \<in> no_update" "Kube (KGet k n x) \<in> no_update"
  by (auto simp: no_update_def)

lemma wp_RemoveUser:
  assumes "removal_laws env realm (us_Username (ku_Spec (um_user (mem s)))) owner absent"
    and "\<not> PreserveResourcesOnDeletion (ku_Meta (um_user (mem s)))"
  shows "wp True (RemoveUser_ServeRequest env c realm) (\<lambda>_ s'. absent (world s')) (\<lambda>_ _. True) s"
proof -
  let ?n = "us_Username (ku_Spec (um_user (mem s)))"
  have find: "wp True (FindUserByUsername env c realm ?n) (\<lambda>u _. \<forall>i. ur_Id u = Some i \<longrightarrow> owner i)
      (\<lambda>e s'. IsNotFound e \<longrightarrow> absent (world s')) s"
    and del: "\<And>i (s :: ('a, event, user_mem) io_state). owner i \<Longrightarrow> wp True (DeleteUser env c realm i) (\<lambda>_ s'. absent (world s'))
      (\<lambda>e s'. IsNotFound e \<longrightarrow> absent (world s')) s"
    using assms(1) by (auto simp: removal_laws_def)
  show ?thesis
    unfolding RemoveUser_ServeRequest_def wp_bindIO wp_getMem wp_tryIO if_not_P [OF assms(2)]
    by (rule wp_mono [OF find]) (auto split: option.split intro!: wp_mono [OF del])
qed

lemma emits_user_removeWithRetry:
  "emits_under (\<lambda>m. um_user m = u) no_update (user_removeWithRetry env h c realm)"
  unfolding user_removeWithRetry_def RemoveUser_ServeRequest_def user_refreshToken_def
    CreateKeycloakClientV2FromConfigRef_def createKeycloakClientV2FromAuthData_def getCredentialsFromSecret_def
    NewKeycloakClient_def client_defs
  by (intro emits_intros) simp_all

lemma emits_user_refreshToken_mem: "emits_under (\<lambda>m. m = m0) UNIV (user_refreshToken env h)"
  by (intro emits_intros) auto

lemma emits_RemoveUser_mem: "emits_under (\<lambda>m. m = m0) UNIV (RemoveUser_ServeRequest env c realm)"
  unfolding RemoveUser_ServeRequest_def client_defs by (intro emits_intros) simp_all

lemma emits_wp: "emits_under P S m \<Longrightarrow> P (mem s) \<Longrightarrow> wp True m (\<lambda>_ s'. P (mem s')) (\<lambda>_ s'. P (mem s')) s"
  unfolding emits_under_def wp_def by (auto split: prod.split outcome.split dest: spec [where x = s])

lemma wp_user_removeWithRetry:
  assumes laws: "removal_laws env realm (us_Username (ku_Spec (um_user (mem s)))) owner absent"
    and keep: "\<not> PreserveResourcesOnDeletion (ku_Meta (um_user (mem s)))"
  shows "wp True (user_removeWithRetry env h c realm) (\<lambda>_ s'. absent (world s')) (\<lambda>_ _. True) s"
proof -
  have again: "wp True (RemoveUser_ServeRequest env c' realm) (\<lambda>_ s'. absent (world s')) (\<lambda>_ s'. mem s' = mem s) s1"
    if "mem s1 = mem s" for c' s1
    using wp_conj [OF wp_RemoveUser emits_wp [OF emits_RemoveUser_mem [of "mem s"]], of env realm s1 owner absent c']
      laws keep that by (auto elim!: wp_mono)
  have refresh: "wp True (user_refreshToken env h) (\<lambda>_ s'. mem s' = mem s) (\<lambda>_ _. True) s1" if "mem s1 = mem s" for s1
    using emits_wp [OF emits_user_refreshToken_mem [of "mem s" env h], of s1] that by (auto elim!: wp_mono)
  show ?thesis
    unfolding user_removeWithRetry_def wp_bindIO wp_tryIO
    by (rule wp_mono [OF again [OF refl]])
      (auto intro!: wp_weaken [OF refresh] wp_weaken [OF again])
qed


section \<open>What a reconciliation reports\<close>

text \<open>Documented behaviour of \<open>equality.Semantic.DeepEqual\<close> on statuses.\<close>

definition deep_equal_ok :: "'w env \<Rightarrow> bool" where
  "deep_equal_ok env \<longleftrightarrow> (\<forall>a b. DeepEqual_UserStatus env a b \<longleftrightarrow> a = b)"

lemma updateKeycloakUserStatus_run:
  assumes "deep_equal_ok env"
  shows "updateKeycloakUserStatus env old s =
    (if ku_Status (um_user (mem s)) = alias_status old (ku_Status (um_user (mem s))) then (Ok (), s)
     else wrapErr ''failed to update KeycloakRealmUser status: '' (k8s_StatusUpdate env user_obj) s)"
  using assms by (simp add: updateKeycloakUserStatus_def deep_equal_ok_def bindIO_def getMem_def ret_def)

text \<open>
  C24. Every finished attempt is reported. After an attempt on a resource that needed no
  migration, either the phase and the error text of the stored status already are those of the
  outcome, or exactly one status update with them is sent: \<open>Completed\<close> and no error, or \<open>Failed\<close>
  and the text of the error. The error itself is returned unless the status update fails. Only
  an unavailable Keycloak is not reported: the attempt is repeated after a minute.
\<close>

theorem user_Reconcile_reports:
  assumes "deep_equal_ok env"
    and "get_user_cr env ns name s = (Ok u, s1)" and "\<not> fst (migrateAttributes u)"
    and "user_tryReconcile env h (s1\<lparr>mem := (mem s1)\<lparr>um_user := u\<rparr>\<rparr>) = (r, s2)" and "r \<noteq> Panic"
    and "user_Reconcile env h ns name s = (r', s')"
  shows "(case r of
      Err e \<Rightarrow> if errors_Is e ErrKeycloakIsNotAvailable then (r', s') = (Ok RequeueOnKeycloakNotAvailable, s2)
        else (trace s' = trace s2 \<and> ust_Error (ku_Status u) = Error e \<and> ust_Phase (ku_Status u) = PhaseFailed \<or>
              trace s' = trace s2 @ [Kube (KStatusUpdate (UserObj (um_user (user_report (Error e) PhaseFailed (mem s2)))))])
           \<and> (r' = Err e \<or> (\<exists>e'. r' = Err (Wrapped ''failed to update KeycloakRealmUser status: '' e')))
    | _ \<Rightarrow> (trace s' = trace s2 \<and> ust_Error (ku_Status u) = '''' \<and> ust_Phase (ku_Status u) = PhaseCompleted \<or>
            trace s' = trace s2 @ [Kube (KStatusUpdate (UserObj (um_user (user_report '''' PhaseCompleted (mem s2)))))])
          \<and> (r' = Ok zero_Result \<or> (\<exists>e'. r' = Err (Wrapped ''failed to update KeycloakRealmUser status: '' e'))))"
proof -
  have tail: "(trace (snd (updateKeycloakUserStatus env (ku_Status u) s3)) = trace s2 \<and>
        ust_Error (ku_Status u) = t \<and> ust_Phase (ku_Status u) = p \<or>
      trace (snd (updateKeycloakUserStatus env (ku_Status u) s3)) =
        trace s2 @ [Kube (KStatusUpdate (UserObj (um_user (user_report t p (mem s2)))))]) \<and>
      (\<forall>e. fst (updateKeycloakUserStatus env (ku_Status u) s3) = Err e \<longrightarrow>
         (\<exists>e'. e = Wrapped ''failed to update KeycloakRealmUser status: '' e')) \<and>
      fst (updateKeycloakUserStatus env (ku_Status u) s3) \<noteq> Panic"
    if "s3 = s2\<lparr>mem := user_report t p (mem s2)\<rparr>" for s3 t p
  proof (cases "ku_Status (um_user (mem s3)) = alias_status (ku_Status u) (ku_Status (um_user (mem s3)))")
    case True
    then have "ust_Error (ku_Status (um_user (mem s3))) = ust_Error (ku_Status u)"
      "ust_Phase (ku_Status (um_user (mem s3))) = ust_Phase (ku_Status u)"
      by (metis (no_types, lifting) alias_status_def KeycloakUserStatus.select_convs KeycloakUserStatus.surjective
          KeycloakUserStatus.update_convs(2))+
    with True that show ?thesis by (simp add: updateKeycloakUserStatus_run [OF assms(1)] user_report_def)
  next
    case False
    then show ?thesis using that
      by (auto simp: updateKeycloakUserStatus_run [OF assms(1)] k8s_write_trace)
        (auto simp: wrapErr_def k8s_StatusUpdate_def go_simps split: prod.splits outcome.splits sum.splits)
  qed
  have mig: "migrateAttributes u = (False, u)" using assms(3) by (simp add: migrateAttributes_def split: if_splits)
  have run: "user_Reconcile env h ns name s = (case r of
      Err e \<Rightarrow> if errors_Is e ErrKeycloakIsNotAvailable then (Ok RequeueOnKeycloakNotAvailable, s2)
        else bindIO (updateKeycloakUserStatus env (ku_Status u)) (\<lambda>_. fail e) (s2\<lparr>mem := user_report (Error e) PhaseFailed (mem s2)\<rparr>)
    | _ \<Rightarrow> bindIO (updateKeycloakUserStatus env (ku_Status u)) (\<lambda>_. ret zero_Result) (s2\<lparr>mem := user_report '''' PhaseCompleted (mem s2)\<rparr>))"
    using assms(2,4,5) mig
    by (auto simp: user_Reconcile_def user_applyDefaults_def Let_def go_simps split: outcome.split)
  show ?thesis
  proof (cases r)
    case (Ok x)
    with run assms(6) tail [OF refl, of "''''" PhaseCompleted] show ?thesis
      by (auto simp: bindIO_def ret_def split: prod.splits outcome.splits)
  next
    case (Err e)
    with run assms(6) tail [OF refl, of "Error e" PhaseFailed] show ?thesis
      by (auto simp: bindIO_def fail_def split: prod.splits outcome.splits)
  qed (use assms(5) in simp)
qed

text \<open>
  A change of conditions alone is lost. Because \<open>oldStatus\<close> shares the array of conditions, a
  run that only rewrites existing conditions (and keeps phase, error text, failure count and
  synced version) compares the new conditions with themselves, and no status update is sent.
\<close>

theorem user_condition_change_lost:
  assumes "deep_equal_ok env"
    and "length (ust_Conditions (ku_Status (um_user (mem s)))) = length (ust_Conditions old)"
    and "ku_Status (um_user (mem s)) = old\<lparr>ust_Conditions := ust_Conditions (ku_Status (um_user (mem s)))\<rparr>"
  shows "updateKeycloakUserStatus env old s = (Ok (), s)"
proof -
  have "alias_status old (ku_Status (um_user (mem s))) = ku_Status (um_user (mem s))"
    unfolding alias_status_def using assms(2,3) by simp
  then show ?thesis by (simp add: updateKeycloakUserStatus_run [OF assms(1)])
qed

text \<open>
  Legacy attributes are migrated once: afterwards every attribute has exactly its old value
  as the one value of the list, the old field is untouched, and a second migration does nothing.
\<close>

theorem migrateAttributes_once:
  assumes "migrateAttributes u = (migrated, u')"
  shows "\<not> fst (migrateAttributes u') \<and> us_Attributes (ku_Spec u') = us_Attributes (ku_Spec u) \<and>
    (migrated \<longrightarrow> (\<forall>k. map_of (us_AttributesV2 (ku_Spec u')) k = map_option (\<lambda>v. [v]) (map_of (us_Attributes (ku_Spec u)) k))) \<and>
    (\<not> migrated \<longrightarrow> u' = u)"
proof -
  have "map_of (map (\<lambda>(a, v). (a, [v])) xs) k = map_option (\<lambda>v. [v]) (map_of xs k)" for xs :: "string gomap" and k
    by (induction xs) auto
  with assms show ?thesis by (auto simp: migrateAttributes_def split: if_splits)
qed

section \<open>Concrete runs\<close>

text \<open>A Keycloak with one user that may be deleted, and a cluster that accepts updates.\<close>

definition removable_env :: "bool env" where
  "removable_env = idle_env\<lparr>
     kc_http := (\<lambda>c rq present. if rq_method rq = DELETE then (Inr (Some (accepted None)), False)
        else (Inr (Some (accepted (Some (UsersB (if present then [zero_user\<lparr>ur_Id := Some ''1''\<rparr>] else []))))), present)),
     k8s := (\<lambda>rq w. case rq of KUpdate x \<Rightarrow> (Inr x, w) | _ \<Rightarrow> (Inl (NewError ''refused''), w))\<rparr>"

definition leaving_user :: KeycloakUser where
  "leaving_user = secret_user\<lparr>ku_Meta := zero_ObjectMeta\<lparr>om_Finalizers := [''other'', user_finalizerName],
     om_DeletionTimestamp := Some 1\<rparr>\<rparr>"

definition leaving_state :: "(bool, event, user_mem) io_state" where
  "leaving_state = \<lparr>world = True, trace = [], mem = \<lparr>um_user = leaving_user, um_UserID = ''''\<rparr>\<rparr>"

lemmas removable_simps = removable_env_def idle_env_def accepted_def sendRequest_def checkResponseError_def
  json_users_def client_defs leaving_state_def leaving_user_def secret_user_def zero_ObjectMeta_def zero_user_def

lemma removable_laws: "removal_laws removable_env realm username (\<lambda>i. i = ''1'') (\<lambda>present. \<not> present)"
  by (auto simp: removal_laws_def wp_def removable_simps go_simps split: if_splits)

lemma removable_finalizers: "finalizers_ok removable_env"
  using idle_env_finalizers by (simp add: finalizers_ok_def removable_env_def)


definition reporting_env :: "unit env" where
  "reporting_env = idle_env\<lparr>k8s := (\<lambda>rq w. case rq of
     KGet KindUser _ _ \<Rightarrow> (Inr (UserObj secret_user), w)
   | KStatusUpdate x \<Rightarrow> (Inr x, w)
   | _ \<Rightarrow> (Inl (NewError ''refused''), w))\<rparr>"

lemma reporting_equal: "deep_equal_ok reporting_env"
  by (simp add: deep_equal_ok_def reporting_env_def idle_env_def)

theorem user_Reconcile_reports_witness:
  "\<exists>u. last (trace (snd (user_Reconcile reporting_env \<lparr>h_watchNamespace = ''ns'', h_enableOwnerRef = False\<rparr>
       ''ns'' ''u'' secret_state))) = Kube (KStatusUpdate (UserObj u)) \<and> ust_Phase (ku_Status u) = PhaseFailed"
proof -
  let ?h = "\<lparr>h_watchNamespace = ''ns'', h_enableOwnerRef = False\<rparr>"
  let ?s1 = "secret_state\<lparr>trace := [Kube (KGet KindUser ''ns'' ''u'')]\<rparr>"
  let ?e = "Wrapped ''unable to create keycloak v2 client from ref: '' (Wrapped ''unable to get credentials: ''
     (Wrapped ''secret not found: '' (NewError ''refused'')))"
  have get: "get_user_cr reporting_env ''ns'' ''u'' secret_state = (Ok secret_user, ?s1)"
    by (simp add: get_user_cr_def k8s_Get_def reporting_env_def secret_state_def go_simps)
  have "fst (user_tryReconcile reporting_env ?h (?s1\<lparr>mem := (mem ?s1)\<lparr>um_user := secret_user\<rparr>\<rparr>)) = Err ?e"
    by (simp add: user_tryReconcile_def SetRealmOwnerRef_def user_refreshToken_def CreateKeycloakClientV2FromConfigRef_def
        createKeycloakClientV2FromAuthData_def getKeycloakAuthDataFromConfigRef_def MakeKeycloakAuthDataFromKeycloakConfig_def
        getCredentialsFromSecret_def get_secret_def k8s_Get_def reporting_env_def errors_Is_def secret_state_def go_simps)
  then obtain s2 where run: "user_tryReconcile reporting_env ?h (?s1\<lparr>mem := (mem ?s1)\<lparr>um_user := secret_user\<rparr>\<rparr>) = (Err ?e, s2)"
    by (metis prod.collapse)
  have "\<not> fst (migrateAttributes secret_user)"
    by (simp add: migrateAttributes_def secret_user_def zero_UserSpec_def)
  from user_Reconcile_reports [OF reporting_equal get this run _ surjective_pairing] show ?thesis
    by (simp add: errors_Is_def secret_user_def zero_UserStatus_def user_report_def split: if_splits)
qed

theorem user_condition_change_lost_witness:
  "let old = zero_UserStatus\<lparr>ust_Conditions := [\<lparr>cond_Type = ''PasswordSynced'', cond_Status = ''False'',
         cond_Reason = ''SecretNotFound'', cond_Message = ''m'', cond_ObservedGeneration = 1\<rparr>]\<rparr>;
       s = secret_state\<lparr>mem := \<lparr>um_user = secret_user\<lparr>ku_Status := zero_UserStatus\<lparr>ust_Conditions :=
         [\<lparr>cond_Type = ''PasswordSynced'', cond_Status = ''True'', cond_Reason = ''PasswordSetFromSpec'',
           cond_Message = ''n'', cond_ObservedGeneration = 2\<rparr>]\<rparr>\<rparr>, um_UserID = ''''\<rparr>\<rparr>
   in ku_Status (um_user (mem s)) \<noteq> old \<and> updateKeycloakUserStatus reporting_env old s = (Ok (), s)"
  unfolding Let_def
  by (rule conjI, simp add: zero_UserStatus_def)
    (rule user_condition_change_lost [OF reporting_equal]; simp add: zero_UserStatus_def)

theorem migrateAttributes_once_witness:
  "map_of (us_AttributesV2 (ku_Spec (snd (migrateAttributes
     (secret_user\<lparr>ku_Spec := zero_UserSpec\<lparr>us_Attributes := [(''k'', ''v'')]\<rparr>\<rparr>))))) ''k'' = Some [''v'']"
  using migrateAttributes_once [OF surjective_pairing, of "secret_user\<lparr>ku_Spec := zero_UserSpec\<lparr>us_Attributes := [(''k'', ''v'')]\<rparr>\<rparr>"]
  by (simp add: migrateAttributes_def zero_UserSpec_def)

end
