(* ===== verification/RoleChain.thy ===== *)
theory RoleChain
  imports HandlerChain
begin

text \<open>
  \<open>internal/controller/keycloakrealm/chain/role\<close>: the roles of a realm. For every role of the
  resource three handlers run in turn; afterwards \<open>Flush\<close> deletes the roles a former run had
  recorded in the status and the resource does not list any more.

  The memory of a realm run holds the resource and the contexts the handlers of a chain share:
  \<open>RoleContext.RoleID\<close> and \<open>GroupContext.GroupID\<close>.
\<close>

record realm_mem =
  rm_realm :: KeycloakRealm
  rm_RoleID :: string
  rm_GroupID :: string

type_synonym ('w, 'a) realm_prog = "('w, realm_mem, 'a) prog"

definition realm_obj :: "realm_mem client_Object" where
  "realm_obj = \<lparr>obj_meta = (\<lambda>m. kr_Meta (rm_realm m)),
     obj_set_meta = (\<lambda>x m. m\<lparr>rm_realm := (rm_realm m)\<lparr>kr_Meta := x\<rparr>\<rparr>),
     obj_out = (\<lambda>m. RealmObj (rm_realm m)),
     obj_in = (\<lambda>x m. case x of RealmObj r \<Rightarrow> m\<lparr>rm_realm := r\<rparr> | _ \<Rightarrow> m)\<rparr>"

interpretation realm_object: client_object realm_obj
  by unfold_locales (simp_all add: realm_obj_def)

definition realm_refreshToken :: "'w env \<Rightarrow> HelperConf \<Rightarrow> ('w, kc_client) realm_prog" where
  "realm_refreshToken env h =
     bindIO (getMem (\<lambda>m. rs_ConfigRef (kr_Spec (rm_realm m)))) (CreateKeycloakClientV2FromConfigRef env h)"

text \<open>The test the three \<open>Flush\<close> types share, each with its own copy of it.\<close>

definition hasReconciliationStrategyFull :: "KeycloakRealm \<Rightarrow> bool" where
  "hasReconciliationStrategyFull r \<longleftrightarrow> \<not> PreserveResourcesOnDeletion (kr_Meta r) \<and>
     (rs_ReconciliationStrategy (kr_Spec r) = ReconciliationStrategyFull \<or>
      rs_ReconciliationStrategy (kr_Spec r) = '''')"

section \<open>create_or_update_role.go\<close>

definition new_role_rep :: "Role \<Rightarrow> RoleRepresentation" where
  "new_role_rep role = zero_role\<lparr>role_Name := Some (rol_Name role), role_Description := Some (rol_Description role),
     role_Composite := Some (rol_Composite role), role_Attributes := Some (rol_Attributes role)\<rparr>"

definition updated_role_rep :: "RoleRepresentation \<Rightarrow> Role \<Rightarrow> RoleRepresentation" where
  "updated_role_rep existing role = existing\<lparr>role_Description := Some (rol_Description role),
     role_Composite := Some (rol_Composite role), role_Attributes := Some (rol_Attributes role)\<rparr>"

definition CreateOrUpdateRole_Serve ::
  "'w env \<Rightarrow> kc_client \<Rightarrow> Role \<Rightarrow> string \<Rightarrow> ('w, unit) realm_prog" where
  "CreateOrUpdateRole_Serve env c role realmName =
     bindIO (tryIO (GetRealmRole env c realmName (rol_Name role))) (\<lambda>res.
     bindIO (case res of
         Inr found \<Rightarrow> ret found
       | Inl err \<Rightarrow> if IsNotFound err then ret None else fail (Wrapped ''failed to get realm role: '' err)) (\<lambda>existing.
     bindIO (case existing of
         None \<Rightarrow>
           bindIO (wrapErr ''failed to create realm role: ''
                    (voidIO (CreateRealmRole env c realmName (new_role_rep role)))) (\<lambda>_.
           wrapErr ''failed to get created realm role: '' (GetRealmRole env c realmName (rol_Name role)))
       | Some r \<Rightarrow>
           bindIO (wrapErr ''failed to update realm role: ''
                    (voidIO (UpdateRealmRole env c realmName (rol_Name role) (updated_role_rep r role)))) (\<lambda>_.
           ret (Some (updated_role_rep r role)))) (\<lambda>existing'.
     bindIO (derefIO existing') (\<lambda>r.
     case role_Id r of None \<Rightarrow> ret () | Some i \<Rightarrow> modMem (\<lambda>m. m\<lparr>rm_RoleID := i\<rparr>)))))"

section \<open>sync_composites.go\<close>

text \<open>The key of a composite: its name, or its container and name for the role of a client.\<close>

definition composite_key :: "RoleRepresentation \<Rightarrow> string option" where
  "composite_key cr = (case role_Name cr of None \<Rightarrow> None | Some n \<Rightarrow>
     Some (if role_ClientRole cr = Some True
           then (case role_ContainerId cr of None \<Rightarrow> n | Some i \<Rightarrow> i @ ''-'' @ n) else n))"

type_synonym composites = "RoleRepresentation gomap \<times> RoleRepresentation list"

definition index_composite ::
  "RoleRepresentation \<Rightarrow> RoleRepresentation gomap \<Rightarrow> ('w, RoleRepresentation gomap) realm_prog" where
  "index_composite cr stale = bindIO (derefIO (composite_key cr)) (\<lambda>key. ret (AList.update key cr stale))"

definition claim_realm_composite ::
  "'w env \<Rightarrow> kc_client \<Rightarrow> string \<Rightarrow> Composite \<Rightarrow> composites \<Rightarrow> ('w, composites) realm_prog" where
  "claim_realm_composite env c realmName composite acc = (case acc of (stale, rolesToAdd) \<Rightarrow>
     let name = cmp_Name composite in
     if map_of stale name \<noteq> None then ret (AList.delete name stale, rolesToAdd)
     else bindIO (wrapErr (''failed to get realm role '' @ name @ '': '') (GetRealmRole env c realmName name)) (\<lambda>role.
          bindIO (derefIO role) (\<lambda>r. ret (stale, rolesToAdd @ [r]))))"

definition claim_client_composite ::
  "'w env \<Rightarrow> kc_client \<Rightarrow> string \<Rightarrow> string \<Rightarrow> Composite \<Rightarrow> composites \<Rightarrow> ('w, composites) realm_prog" where
  "claim_client_composite env c realmName clientUUID composite acc = (case acc of (stale, rolesToAdd) \<Rightarrow>
     let roleName = cmp_Name composite; mapKey = clientUUID @ ''-'' @ roleName in
     if map_of stale mapKey \<noteq> None then ret (AList.delete mapKey stale, rolesToAdd)
     else bindIO (wrapErr (''failed to get client role '' @ roleName @ '': '')
                   (GetClientRole env c realmName clientUUID roleName)) (\<lambda>role.
          bindIO (derefIO role) (\<lambda>r. ret (stale, rolesToAdd @ [r]))))"

definition claim_client ::
  "'w env \<Rightarrow> kc_client \<Rightarrow> string \<Rightarrow> string \<times> Composite list \<Rightarrow> composites \<Rightarrow> ('w, composites) realm_prog" where
  "claim_client env c realmName entry acc = (case entry of (clientName, cs) \<Rightarrow>
     bindIO (wrapErr (''failed to get client '' @ clientName @ '': '')
              (GetClients env c realmName [(''clientId'', clientName)])) (\<lambda>clients.
     case clients of
       [] \<Rightarrow> fail (NewError (''client '' @ clientName @ '' not found''))
     | cl # _ \<Rightarrow> (case cl_Id cl of
         None \<Rightarrow> fail (NewError (''client '' @ clientName @ '' not found''))
       | Some clientUUID \<Rightarrow> foldIO (claim_client_composite env c realmName clientUUID) cs acc)))"

definition SyncComposites_Serve ::
  "'w env \<Rightarrow> kc_client \<Rightarrow> Role \<Rightarrow> string \<Rightarrow> ('w, unit) realm_prog" where
  "SyncComposites_Serve env c role realmName =
     (if \<not> rol_Composite role then ret ()
      else
        bindIO (wrapErr ''failed to get current composites: ''
                 (GetRealmRoleComposites env c realmName (rol_Name role))) (\<lambda>currentComposites.
        bindIO (foldIO index_composite currentComposites []) (\<lambda>stale0.
        bindIO (foldIO (claim_realm_composite env c realmName) (rol_Composites role) (stale0, [])) (\<lambda>acc.
        bindIO (range_order (map_rank env) (rol_CompositesClientRoles role)) (\<lambda>entries.
        bindIO (foldIO (claim_client env c realmName) entries acc) (\<lambda>(stale, rolesToAdd).
        bindIO (whenIO (rolesToAdd \<noteq> []) (wrapErr ''failed to add composite roles: ''
                 (voidIO (AddRealmRoleComposites env c realmName (rol_Name role) rolesToAdd)))) (\<lambda>_.
        whenIO (stale \<noteq> [])
          (bindIO (range_order (map_rank env) stale) (\<lambda>staleRoles.
           wrapErr ''failed to delete stale composite roles: ''
             (voidIO (DeleteRealmRoleComposites env c realmName (rol_Name role) (map snd staleRoles))))))))))))"

section \<open>make_default.go and remove_role.go\<close>

definition MakeDefault_Serve :: "'w env \<Rightarrow> kc_client \<Rightarrow> Role \<Rightarrow> string \<Rightarrow> ('w, unit) realm_prog" where
  "MakeDefault_Serve env c role realmName =
     (if \<not> rol_IsDefault role then ret ()
      else bindIO (getMem rm_RoleID) (\<lambda>roleID.
        wrapErr ''failed to add role to default-roles: ''
          (voidIO (AddRealmRoleComposites env c realmName (''default-roles-'' @ realmName)
            [zero_role\<lparr>role_Id := Some roleID, role_Name := Some (rol_Name role)\<rparr>]))))"

definition RemoveRole_ServeRequest :: "'w env \<Rightarrow> kc_client \<Rightarrow> Role \<Rightarrow> string \<Rightarrow> ('w, unit) realm_prog" where
  "RemoveRole_ServeRequest env c role realmName =
     bindIO (tryIO (DeleteRealmRole env c realmName (rol_Name role))) (\<lambda>res. case res of
       Inr _ \<Rightarrow> ret ()
     | Inl err \<Rightarrow> if IsNotFound err then ret ()
         else fail (Wrapped (''failed to delete realm role '' @ rol_Name role @ '': '') err))"

section \<open>flush.go\<close>

definition set_RoleIDs :: "string gomap \<Rightarrow> realm_mem \<Rightarrow> realm_mem" where
  "set_RoleIDs ids m = m\<lparr>rm_realm := (rm_realm m)\<lparr>kr_Status := (kr_Status (rm_realm m))\<lparr>rst_RoleIDs := ids\<rparr>\<rparr>\<rparr>"

definition flush_delete_role :: "'w env \<Rightarrow> kc_client \<Rightarrow> string \<Rightarrow> string \<Rightarrow> ('w, unit) realm_prog" where
  "flush_delete_role env c realmName name =
     bindIO (tryIO (DeleteRealmRole env c realmName name)) (\<lambda>res. case res of
       Inr _ \<Rightarrow> ret ()
     | Inl err \<Rightarrow> if IsNotFound err then ret ()
         else fail (Wrapped (''flush failed to delete realm ['' @ realmName @ ''] role '' @ name @ '': '') err))"

text \<open>
  \<open>storageIDs\<close> is the map of the status itself, so the entries deleted from it in the first loop
  are gone from the resource whatever happens next.
\<close>

definition role_Flush :: "'w env \<Rightarrow> kc_client \<Rightarrow> string gomap \<Rightarrow> ('w, unit) realm_prog" where
  "role_Flush env c rIDs =
     bindIO (getMem rm_realm) (\<lambda>realm.
     if \<not> hasReconciliationStrategyFull realm then ret ()
     else let realmName = rs_RealmName (kr_Spec realm); storageIDs = rst_RoleIDs (kr_Status realm) in
       bindIO (range_order (map_rank env) storageIDs) (\<lambda>entries.
       let deleteRolesNames = filter (\<lambda>n. map_of rIDs n = None) (map fst entries);
           storageIDs1 = filter (\<lambda>(n, i). map_of rIDs n \<noteq> None) storageIDs in
       bindIO (modMem (set_RoleIDs storageIDs1)) (\<lambda>_.
       bindIO (forIO (flush_delete_role env c realmName) deleteRolesNames) (\<lambda>_.
       bindIO (modMem (set_RoleIDs (fold (\<lambda>(n, i) m. AList.update n i m) rIDs storageIDs1))) (\<lambda>_.
       wrapErr ''unable to update status of role: '' (k8s_StatusUpdate env realm_obj))))))"

section \<open>chain.go\<close>

datatype role_handler = CreateOrUpdateRole kc_client | SyncComposites kc_client | MakeDefault kc_client

fun role_handler_Serve :: "'w env \<Rightarrow> Role \<Rightarrow> string \<Rightarrow> role_handler \<Rightarrow> ('w, unit) realm_prog" where
  "role_handler_Serve env role realmName (CreateOrUpdateRole c) = CreateOrUpdateRole_Serve env c role realmName"
| "role_handler_Serve env role realmName (SyncComposites c) = SyncComposites_Serve env c role realmName"
| "role_handler_Serve env role realmName (MakeDefault c) = MakeDefault_Serve env c role realmName"

fun role_WithKeycloakApiClient :: "kc_client \<Rightarrow> role_handler \<Rightarrow> role_handler" where
  "role_WithKeycloakApiClient c (CreateOrUpdateRole _) = CreateOrUpdateRole c"
| "role_WithKeycloakApiClient c (SyncComposites _) = SyncComposites c"
| "role_WithKeycloakApiClient c (MakeDefault _) = MakeDefault c"

primrec role_chain_run ::
  "'w env \<Rightarrow> HelperConf \<Rightarrow> Role \<Rightarrow> string \<Rightarrow> role_handler list \<Rightarrow> ('w, role_handler list) realm_prog" where
  "role_chain_run env h role realmName [] = ret []"
| "role_chain_run env h role realmName (x # xs) =
     bindIO (serveRetry (role_handler_Serve env role realmName) (realm_refreshToken env h)
               role_WithKeycloakApiClient x) (\<lambda>x'.
     bindIO (role_chain_run env h role realmName xs) (\<lambda>xs'. ret (x' # xs')))"

interpretation role_chain: handler_chain "role_handler_Serve env role realmName" "realm_refreshToken env h"
  role_WithKeycloakApiClient "role_chain_run env h role realmName"
  for env h role realmName
  by unfold_locales simp_all

definition role_MakeChain :: "kc_client \<Rightarrow> role_handler list" where
  "role_MakeChain c = [CreateOrUpdateRole c, SyncComposites c, MakeDefault c]"

text \<open>
  The handlers are shared by all roles of a run: a client refreshed for one role serves the next.
  \<open>Flush\<close> keeps the client the chain was made with.
\<close>

definition role_serveOne ::
  "'w env \<Rightarrow> HelperConf \<Rightarrow> string \<Rightarrow> Role \<Rightarrow> role_handler list \<times> string gomap \<Rightarrow>
   ('w, role_handler list \<times> string gomap) realm_prog" where
  "role_serveOne env h realmName role acc = (case acc of (handlers, rIDs) \<Rightarrow>
     bindIO (modMem (\<lambda>m. m\<lparr>rm_RoleID := ''''\<rparr>)) (\<lambda>_.
     bindIO (role_chain_run env h role realmName handlers) (\<lambda>handlers'.
     bindIO (getMem rm_RoleID) (\<lambda>roleID.
     ret (handlers', AList.update (rol_Name role) roleID rIDs)))))"

definition role_Chain_Serve :: "'w env \<Rightarrow> HelperConf \<Rightarrow> kc_client \<Rightarrow> ('w, unit) realm_prog" where
  "role_Chain_Serve env h c =
     bindIO (getMem (\<lambda>m. kr_Spec (rm_realm m))) (\<lambda>spec.
     bindIO (foldIO (role_serveOne env h (rs_RealmName spec)) (rs_Roles spec) (role_MakeChain c, [])) (\<lambda>(_, rIDs).
     role_Flush env c rIDs))"

end
