(* ===== verification/GroupChain.thy ===== *)
theory GroupChain
  imports RoleChain
begin

text \<open>
  \<open>internal/controller/keycloakrealm/chain/group\<close>: the groups of a realm. They are visited
  parents first; four handlers run for each of them, and \<open>Flush\<close> deletes the recorded groups the
  resource no longer lists. The handlers take the client as an argument.
\<close>

record GroupContext =
  gc_ParentGroupID :: string
  gc_RealmName :: string

section \<open>create_or_update_group.go\<close>

definition new_group_rep :: "Group \<Rightarrow> GroupRepresentation" where
  "new_group_rep g = zero_group\<lparr>gp_Name := Some (grp_Name g), gp_Description := Some (grp_Description g),
     gp_Path := Some (grp_Path g), gp_Attributes := Some (grp_Attributes g)\<rparr>"

definition updated_group_rep :: "GroupRepresentation \<Rightarrow> Group \<Rightarrow> GroupRepresentation" where
  "updated_group_rep existing g = existing\<lparr>gp_Description := Some (grp_Description g),
     gp_Path := Some (grp_Path g), gp_Attributes := Some (grp_Attributes g)\<rparr>"

definition CreateOrUpdateGroup_Serve ::
  "'w env \<Rightarrow> kc_client \<Rightarrow> Group \<Rightarrow> GroupContext \<Rightarrow> ('w, unit) realm_prog" where
  "CreateOrUpdateGroup_Serve env c g ctx =
     (let realm = gc_RealmName ctx; parent = gc_ParentGroupID ctx in
      bindIO (tryIO (if parent \<noteq> '''' then FindChildGroupByName env c realm parent (grp_Name g)
                     else FindGroupByName env c realm (grp_Name g))) (\<lambda>res. case res of
        Inl err \<Rightarrow>
          if \<not> IsNotFound err then fail (Wrapped (''unable to search for group '' @ go_quote (grp_Name g) @ '': '') err)
          else
            bindIO (wrapErr (''unable to create group '' @ go_quote (grp_Name g) @ '': '')
              (if parent \<noteq> '''' then CreateChildGroup env c realm parent (new_group_rep g)
               else CreateGroup env c realm (new_group_rep g))) (\<lambda>resp.
            modMem (\<lambda>m. m\<lparr>rm_GroupID := GetResourceIDFromResponse env (Some resp)\<rparr>))
      | Inr existing \<Rightarrow>
          bindIO (derefIO (gp_Id existing)) (\<lambda>groupID.
          bindIO (modMem (\<lambda>m. m\<lparr>rm_GroupID := groupID\<rparr>)) (\<lambda>_.
          wrapErr (''unable to update group '' @ go_quote (grp_Name g) @ '': '')
            (voidIO (UpdateGroup env c realm groupID (updated_group_rep existing g)))))))"

section \<open>sync_realm_roles.go\<close>

text \<open>The roles of a map of current roles that are not claimed, in the order the loop visits them.\<close>

definition unclaimed :: "'w env \<Rightarrow> 'v gomap \<Rightarrow> string list \<Rightarrow> ('w, 'v list) realm_prog" where
  "unclaimed env currentMap claimed =
     bindIO (range_order (map_rank env) currentMap) (\<lambda>entries.
     ret (map snd (filter (\<lambda>(name, v). name \<notin> set claimed) entries)))"

definition SyncRealmRoles_Serve ::
  "'w env \<Rightarrow> kc_client \<Rightarrow> Group \<Rightarrow> GroupContext \<Rightarrow> ('w, unit) realm_prog" where
  "SyncRealmRoles_Serve env c g ctx =
     (let realm = gc_RealmName ctx in
      bindIO (getMem rm_GroupID) (\<lambda>groupID.
      bindIO (wrapErr (''unable to get realm role mappings for group '' @ groupID @ '': '')
               (GetRealmRoleMappings env c realm groupID)) (\<lambda>currentRoles.
      let currentMap = build_map role_Name id currentRoles in
      bindIO (foldIO (\<lambda>claimedName rolesToAdd.
          if map_of currentMap claimedName \<noteq> None then ret rolesToAdd
          else bindIO (wrapErr (''unable to get realm role '' @ go_quote claimedName @ '': '')
                        (GetRealmRole env c realm claimedName)) (\<lambda>role. case role of
               None \<Rightarrow> fail (NewError (''realm role '' @ go_quote claimedName @ '' not found in realm '' @ go_quote realm))
             | Some r \<Rightarrow> ret (rolesToAdd @ [r]))) (grp_RealmRoles g) []) (\<lambda>rolesToAdd.
      bindIO (whenIO (rolesToAdd \<noteq> []) (wrapErr ''unable to add realm role mappings: ''
               (voidIO (AddRealmRoleMappings env c realm groupID rolesToAdd)))) (\<lambda>_.
      bindIO (unclaimed env currentMap (grp_RealmRoles g)) (\<lambda>rolesToRemove.
      whenIO (rolesToRemove \<noteq> []) (wrapErr ''unable to delete realm role mappings: ''
        (voidIO (DeleteRealmRoleMappings env c realm groupID rolesToRemove)))))))))"

section \<open>sync_client_roles.go\<close>

definition resolveClientUUID :: "'w env \<Rightarrow> kc_client \<Rightarrow> string \<Rightarrow> string \<Rightarrow> ('w, string) realm_prog" where
  "resolveClientUUID env c realm clientIDStr =
     bindIO (wrapErr ''unable to get clients: '' (GetClients env c realm [(''clientId'', clientIDStr)])) (\<lambda>clients.
     case find (\<lambda>cl. cl_ClientId cl = Some clientIDStr \<and> cl_Id cl \<noteq> None) clients of
       None \<Rightarrow> fail (NewError (''client '' @ go_quote clientIDStr @ '' not found in realm '' @ go_quote realm))
     | Some cl \<Rightarrow> ret (the_default '''' (cl_Id cl)))"

definition current_client_roles ::
  "'w env \<Rightarrow> kc_client \<Rightarrow> string \<Rightarrow> string \<Rightarrow> ClientMappingsRepresentation gomap \<Rightarrow>
   ('w, string \<times> RoleRepresentation list) realm_prog" where
  "current_client_roles env c realm clientIDStr clientMappings =
     (case map_of clientMappings clientIDStr of
        Some cm \<Rightarrow> ret (the_default '''' (cmr_Id cm), the_default [] (cmr_Mappings cm))
      | None \<Rightarrow> bindIO (resolveClientUUID env c realm clientIDStr) (\<lambda>uuid. ret (uuid, [])))"

definition syncOneClientRoles ::
  "'w env \<Rightarrow> kc_client \<Rightarrow> string \<Rightarrow> string \<Rightarrow> string \<Rightarrow> string list \<Rightarrow> ClientMappingsRepresentation gomap \<Rightarrow>
   ('w, unit) realm_prog" where
  "syncOneClientRoles env c realm groupID clientIDStr claimedRoleNames clientMappings =
     bindIO (current_client_roles env c realm clientIDStr clientMappings) (\<lambda>(clientUUID, currentRoles).
     let currentMap = build_map role_Name id currentRoles in
     bindIO (foldIO (\<lambda>rn rolesToAdd.
         if map_of currentMap rn \<noteq> None then ret rolesToAdd
         else bindIO (wrapErr (''unable to get client role '' @ go_quote rn @ '': '')
                       (GetClientRole env c realm clientUUID rn)) (\<lambda>role. case role of
              None \<Rightarrow> fail (NewError (''client role '' @ go_quote rn @ '' not found for client '' @ go_quote clientIDStr
                        @ '' in realm '' @ go_quote realm))
            | Some r \<Rightarrow> ret (rolesToAdd @ [r]))) claimedRoleNames []) (\<lambda>rolesToAdd.
     bindIO (whenIO (rolesToAdd \<noteq> []) (wrapErr ''unable to add client role mappings: ''
              (voidIO (AddClientRoleMappings env c realm groupID clientUUID rolesToAdd)))) (\<lambda>_.
     bindIO (unclaimed env currentMap claimedRoleNames) (\<lambda>rolesToRemove.
     whenIO (rolesToRemove \<noteq> []) (wrapErr ''unable to delete client role mappings: ''
       (voidIO (DeleteClientRoleMappings env c realm groupID clientUUID rolesToRemove)))))))"

definition remove_unclaimed_client ::
  "'w env \<Rightarrow> kc_client \<Rightarrow> string \<Rightarrow> string \<Rightarrow> string list gomap \<Rightarrow> string \<times> ClientMappingsRepresentation \<Rightarrow>
   ('w, unit) realm_prog" where
  "remove_unclaimed_client env c realm groupID claimed entry = (case entry of (clientName, cm) \<Rightarrow>
     if map_of claimed clientName \<noteq> None then ret ()
     else case cmr_Mappings cm of
         None \<Rightarrow> ret ()
       | Some roles \<Rightarrow> if roles = [] then ret () else (case cmr_Id cm of
           None \<Rightarrow> ret ()
         | Some i \<Rightarrow> wrapErr (''unable to remove unclaimed client roles for '' @ go_quote clientName @ '': '')
             (voidIO (DeleteClientRoleMappings env c realm groupID i roles))))"

definition SyncClientRoles_Serve ::
  "'w env \<Rightarrow> kc_client \<Rightarrow> Group \<Rightarrow> GroupContext \<Rightarrow> ('w, unit) realm_prog" where
  "SyncClientRoles_Serve env c g ctx =
     (let realm = gc_RealmName ctx in
      bindIO (getMem rm_GroupID) (\<lambda>groupID.
      bindIO (wrapErr (''unable to get role mappings for group '' @ groupID @ '': '')
               (GetRoleMappings env c realm groupID)) (\<lambda>roleMappings.
      let claimed = build_map (\<lambda>cr. Some (ucr_ClientID cr)) ucr_Roles (grp_ClientRoles g);
          clientMappings = the_default [] (Option.bind roleMappings mr_ClientMappings) in
      bindIO (range_order (map_rank env) claimed) (\<lambda>entries.
      bindIO (forIO (\<lambda>(clientIDStr, names).
               wrapErr (''unable to sync client roles for client '' @ go_quote clientIDStr @ '': '')
                 (syncOneClientRoles env c realm groupID clientIDStr names clientMappings)) entries) (\<lambda>_.
      bindIO (range_order (map_rank env) clientMappings) (
      forIO (remove_unclaimed_client env c realm groupID claimed)))))))"

section \<open>sync_sub_groups.go\<close>

definition attach_subgroup ::
  "'w env \<Rightarrow> kc_client \<Rightarrow> string \<Rightarrow> string \<Rightarrow> string \<Rightarrow> ('w, unit) realm_prog" where
  "attach_subgroup env c realm groupID claimed =
     bindIO (tryIO (FindGroupByName env c realm claimed)) (\<lambda>res. case res of
       Inl err \<Rightarrow>
         if IsNotFound err
         then fail (NewError (''subgroup '' @ go_quote claimed @ '' not found in realm '' @ go_quote realm))
         else fail (Wrapped (''unable to find subgroup '' @ go_quote claimed @ '': '') err)
     | Inr subGroup \<Rightarrow> wrapErr (''unable to add subgroup '' @ go_quote claimed @ '': '')
         (voidIO (CreateChildGroup env c realm groupID subGroup)))"

definition SyncSubGroups_Serve ::
  "'w env \<Rightarrow> kc_client \<Rightarrow> Group \<Rightarrow> GroupContext \<Rightarrow> ('w, unit) realm_prog" where
  "SyncSubGroups_Serve env c g ctx =
     (if grp_SubGroups g = [] then ret ()
      else let realm = gc_RealmName ctx in
        bindIO (getMem rm_GroupID) (\<lambda>groupID.
        bindIO (wrapErr ''unable to get child groups: '' (GetChildGroups env c realm groupID [])) (\<lambda>currentChildren.
        let currentMap = build_map gp_Name id currentChildren in
        bindIO (forIO (\<lambda>claimed. whenIO (map_of currentMap claimed = None)
                 (attach_subgroup env c realm groupID claimed)) (grp_SubGroups g)) (\<lambda>_.
        bindIO (range_order (map_rank env) currentMap) (
        forIO (\<lambda>(name, child). whenIO (name \<notin> set (grp_SubGroups g))
          (wrapErr (''unable to detach subgroup '' @ go_quote name @ '': '')
            (voidIO (CreateGroup env c realm child)))))))))"

section \<open>flush.go\<close>

text \<open>
  The first loop ranges over the recorded ids with the length they had at its start, while
  \<open>RemoveSliceIndex\<close> shifts the same array: a state is the array with the length of the shrinking
  slice, and the ids found stale. \<open>scan_stale\<close> is also the loop of \<open>identityprovider/flush.go\<close>.
\<close>

primrec scan_stale ::
  "string list \<Rightarrow> nat list \<Rightarrow> (string list \<times> nat) \<times> string list \<Rightarrow> (string list \<times> nat) \<times> string list" where
  "scan_stale current [] st = st"
| "scan_stale current (i # is) st = (case st of (storage, stale) \<Rightarrow>
     let x = fst storage ! i in
     scan_stale current is
       (if x \<in> set current then (storage, stale)
        else (RemoveSliceIndex storage (int i), stale @ [x])))"

definition scan_recorded :: "string list \<Rightarrow> string list \<Rightarrow> (string list \<times> nat) \<times> string list" where
  "scan_recorded current recorded =
     scan_stale current [0..<length recorded] ((recorded, length recorded), [])"

definition set_GroupIDs :: "string list \<Rightarrow> realm_mem \<Rightarrow> realm_mem" where
  "set_GroupIDs ids m = m\<lparr>rm_realm := (rm_realm m)\<lparr>kr_Status := (kr_Status (rm_realm m))\<lparr>rst_GroupIDs := ids\<rparr>\<rparr>\<rparr>"

text \<open>The result says whether the loop left the function because a group was not found.\<close>

primrec flush_delete_groups :: "'w env \<Rightarrow> kc_client \<Rightarrow> string \<Rightarrow> string list \<Rightarrow> ('w, bool) realm_prog" where
  "flush_delete_groups env c realmName [] = ret False"
| "flush_delete_groups env c realmName (x # xs) =
     bindIO (tryIO (client_DeleteGroup env c realmName x)) (\<lambda>res. case res of
       Inr _ \<Rightarrow> flush_delete_groups env c realmName xs
     | Inl err \<Rightarrow> if IsNotFound err then ret True
         else fail (Wrapped (''flush unable to delete realmName: '' @ realmName @ '' groupID: '' @ go_quote x @ '': '') err))"

definition group_Flush :: "'w env \<Rightarrow> kc_client \<Rightarrow> string list \<Rightarrow> ('w, unit) realm_prog" where
  "group_Flush env c groupIDs =
     bindIO (getMem rm_realm) (\<lambda>realm.
     if \<not> hasReconciliationStrategyFull realm then ret ()
     else case scan_recorded groupIDs (rst_GroupIDs (kr_Status realm)) of (storage, deleteGroupIDs) \<Rightarrow>
       bindIO (modMem (set_GroupIDs (fst storage))) (\<lambda>_.
       bindIO (flush_delete_groups env c (rs_RealmName (kr_Spec realm)) deleteGroupIDs) (\<lambda>notFound.
       if notFound then ret ()
       else bindIO (modMem (set_GroupIDs (RemoveDuplicates (slice_of storage @ groupIDs)))) (\<lambda>_.
         wrapErr ''unable to update status of group: '' (k8s_StatusUpdate env realm_obj)))))"

section \<open>chain.go\<close>

datatype group_handler = CreateOrUpdateGroup | SyncRealmRoles | SyncClientRoles | SyncSubGroups

fun group_handler_Serve ::
  "'w env \<Rightarrow> Group \<Rightarrow> GroupContext \<Rightarrow> group_handler \<times> kc_client \<Rightarrow> ('w, unit) realm_prog" where
  "group_handler_Serve env g ctx (CreateOrUpdateGroup, c) = CreateOrUpdateGroup_Serve env c g ctx"
| "group_handler_Serve env g ctx (SyncRealmRoles, c) = SyncRealmRoles_Serve env c g ctx"
| "group_handler_Serve env g ctx (SyncClientRoles, c) = SyncClientRoles_Serve env c g ctx"
| "group_handler_Serve env g ctx (SyncSubGroups, c) = SyncSubGroups_Serve env c g ctx"

definition group_withClient :: "kc_client \<Rightarrow> group_handler \<times> kc_client \<Rightarrow> group_handler \<times> kc_client" where
  "group_withClient cl h = (fst h, cl)"

text \<open>A handler is paired with the client it is called with; a refreshed one serves that call only.\<close>

primrec group_chain_loop ::
  "'w env \<Rightarrow> HelperConf \<Rightarrow> Group \<Rightarrow> GroupContext \<Rightarrow> (group_handler \<times> kc_client) list \<Rightarrow>
   ('w, (group_handler \<times> kc_client) list) realm_prog" where
  "group_chain_loop env h g ctx [] = ret []"
| "group_chain_loop env h g ctx (x # xs) =
     bindIO (serveRetry (group_handler_Serve env g ctx) (realm_refreshToken env h) group_withClient x) (\<lambda>x'.
     bindIO (group_chain_loop env h g ctx xs) (\<lambda>xs'. ret (x' # xs')))"

interpretation group_chain: handler_chain "group_handler_Serve env g ctx" "realm_refreshToken env h"
  group_withClient "group_chain_loop env h g ctx"
  for env g ctx h
  by unfold_locales simp_all

definition group_MakeChain :: "group_handler list" where
  "group_MakeChain = [CreateOrUpdateGroup, SyncRealmRoles, SyncClientRoles, SyncSubGroups]"

definition group_run :: "'w env \<Rightarrow> HelperConf \<Rightarrow> kc_client \<Rightarrow> Group \<Rightarrow> GroupContext \<Rightarrow> ('w, unit) realm_prog" where
  "group_run env h c g ctx = voidIO (group_chain_loop env h g ctx (map (\<lambda>x. (x, c)) group_MakeChain))"

definition getParentGroupID :: "'w env \<Rightarrow> kc_client \<Rightarrow> string \<Rightarrow> Group \<Rightarrow> ('w, string) realm_prog" where
  "getParentGroupID env c realmName cGroup =
     (case grp_ParentGroup cGroup of
        None \<Rightarrow> ret ''''
      | Some _ \<Rightarrow>
          bindIO (wrapErr (''unable to search for group '' @ go_quote (grp_Name cGroup) @ '': '')
                   (FindGroupByName env c realmName (grp_Name cGroup))) (\<lambda>existing.
          derefIO (gp_Id existing)))"

definition group_serveOne ::
  "'w env \<Rightarrow> HelperConf \<Rightarrow> kc_client \<Rightarrow> string \<Rightarrow> Group \<Rightarrow> string list \<Rightarrow> ('w, string list) realm_prog" where
  "group_serveOne env h c realmName g groupIDs =
     bindIO (getParentGroupID env c realmName g) (\<lambda>parentGroupID.
     bindIO (modMem (\<lambda>m. m\<lparr>rm_GroupID := ''''\<rparr>)) (\<lambda>_.
     bindIO (group_run env h c g \<lparr>gc_ParentGroupID = parentGroupID, gc_RealmName = realmName\<rparr>) (\<lambda>_.
     bindIO (getMem rm_GroupID) (\<lambda>groupID. ret (groupIDs @ [groupID])))))"

text \<open>\<open>depth\<close> is the number of nested calls of the sort; exceeding it ends the process.\<close>

definition group_Chain_Serve :: "nat \<Rightarrow> 'w env \<Rightarrow> HelperConf \<Rightarrow> kc_client \<Rightarrow> ('w, unit) realm_prog" where
  "group_Chain_Serve depth env h c =
     bindIO (getMem (\<lambda>m. kr_Spec (rm_realm m))) (\<lambda>spec.
     bindIO (derefIO (SortRealmGroupByParent depth (rs_Groups spec))) (\<lambda>groups.
     bindIO (foldIO (group_serveOne env h c (rs_RealmName spec)) groups (replicate (length (rs_Groups spec)) ''''))
       (group_Flush env c)))"

end
