(* ===== verification/Terminator.thy ===== *)
theory Terminator
  imports GroupChain
begin

text \<open>
  \<open>internal/controller/keycloakrealm/terminator.go\<close>: what is deleted in Keycloak when a realm
  resource is deleted, in the order identity providers, roles, groups, realm.

  \<open>DeleteIdentityProvider\<close> and \<open>DeleteGroup\<close> call themselves after a rejected token. Go bounds
  the depth of such calls by the size of the stack only; \<open>depth\<close> is that bound, and a run that
  exceeds it ends the process (\<open>Panic\<close>). The client of the terminator is replaced by a refreshed
  one, so these operations return the client to go on with.
\<close>

section \<open>Identity providers\<close>

text \<open>The loop: whether it was left because the token was rejected.\<close>

primrec delete_idps :: "'w env \<Rightarrow> kc_client \<Rightarrow> string \<Rightarrow> IdentityProvider list \<Rightarrow> ('w, bool) realm_prog" where
  "delete_idps env c realmName [] = ret False"
| "delete_idps env c realmName (idp # idps) =
     bindIO (tryIO (client_DeleteIdentityProvider env c realmName (ip_Alias idp))) (\<lambda>res. case res of
       Inr _ \<Rightarrow> delete_idps env c realmName idps
     | Inl err \<Rightarrow>
         if IsUnauthorizedError (Some err) then ret True
         else if IsErrNotFound err then ret False
         else fail (Wrapped (''unable to delete realm idp '' @ go_quote (ip_Alias idp) @ '': '') err))"

primrec DeleteIdentityProvider ::
  "nat \<Rightarrow> 'w env \<Rightarrow> HelperConf \<Rightarrow> KeycloakRealmSpec \<Rightarrow> kc_client \<Rightarrow> ('w, kc_client) realm_prog" where
  "DeleteIdentityProvider 0 env h spec c = panic"
| "DeleteIdentityProvider (Suc depth) env h spec c =
     bindIO (delete_idps env c (rs_RealmName spec) (rs_IdentityProviders spec)) (\<lambda>unauthorized.
     if unauthorized
     then bindIO (realm_refreshToken env h) (DeleteIdentityProvider depth env h spec)
     else ret c)"

section \<open>Roles\<close>

text \<open>A refreshed client stays in the handler \<open>roleCH\<close>; the terminator keeps its own.\<close>

definition remove_role_retry ::
  "'w env \<Rightarrow> HelperConf \<Rightarrow> string \<Rightarrow> Role \<Rightarrow> kc_client \<Rightarrow> ('w, go_error + kc_client) realm_prog" where
  "remove_role_retry env h realmName role c =
     bindIO (tryIO (RemoveRole_ServeRequest env c role realmName)) (\<lambda>res. case res of
       Inr _ \<Rightarrow> ret (Inr c)
     | Inl err \<Rightarrow>
         if IsUnauthorizedError (Some err) then
           bindIO (realm_refreshToken env h) (\<lambda>cl.
           bindIO (tryIO (RemoveRole_ServeRequest env cl role realmName)) (\<lambda>res2. case res2 of
             Inr _ \<Rightarrow> ret (Inr cl)
           | Inl err2 \<Rightarrow> ret (Inl err2)))
         else ret (Inl err))"

primrec delete_roles ::
  "'w env \<Rightarrow> HelperConf \<Rightarrow> string \<Rightarrow> RealmRoleRepresentation option \<Rightarrow> Role list \<Rightarrow> kc_client \<Rightarrow> ('w, unit) realm_prog" where
  "delete_roles env h realmName def [] c = ret ()"
| "delete_roles env h realmName def (role # roles) c =
     (if (case def of None \<Rightarrow> False | Some d \<Rightarrow> drr_Name d = rol_Name role)
      then delete_roles env h realmName def roles c
      else bindIO (remove_role_retry env h realmName role c) (\<lambda>res. case res of
        Inr cl \<Rightarrow> delete_roles env h realmName def roles cl
      | Inl err \<Rightarrow>
          if IsNotFound err then ret ()
          else fail (Wrapped (''['' @ rol_Name role @ ''] failed to delete keycloak realm role: '') err)))"

definition DeleteRole :: "'w env \<Rightarrow> HelperConf \<Rightarrow> KeycloakRealmSpec \<Rightarrow> kc_client \<Rightarrow> ('w, unit) realm_prog" where
  "DeleteRole env h spec c = delete_roles env h (rs_RealmName spec) (rs_DefaultRole spec) (rs_Roles spec) c"

section \<open>Groups\<close>

definition deleteGroupItem :: "'w env \<Rightarrow> kc_client \<Rightarrow> string \<Rightarrow> string \<Rightarrow> ('w, unit) realm_prog" where
  "deleteGroupItem env c realmName groupName =
     bindIO (tryIO (FindGroupByName env c realmName groupName)) (\<lambda>res. case res of
       Inl err \<Rightarrow>
         if IsNotFound err then ret ()
         else fail (Wrapped (''unable to search for group '' @ go_quote groupName @ '': '') err)
     | Inr existingGroup \<Rightarrow>
         bindIO (derefIO (gp_Id existingGroup)) (\<lambda>i.
         bindIO (tryIO (client_DeleteGroup env c realmName i)) (\<lambda>res2. case res2 of
           Inr _ \<Rightarrow> ret ()
         | Inl err \<Rightarrow>
             if IsNotFound err then ret ()
             else fail (Wrapped (''unable to delete group: '' @ go_quote groupName @ '': '') err))))"

primrec delete_groups :: "'w env \<Rightarrow> kc_client \<Rightarrow> string \<Rightarrow> Group list \<Rightarrow> ('w, bool) realm_prog" where
  "delete_groups env c realmName [] = ret False"
| "delete_groups env c realmName (g # gs) =
     bindIO (tryIO (deleteGroupItem env c realmName (grp_Name g))) (\<lambda>res. case res of
       Inr _ \<Rightarrow> delete_groups env c realmName gs
     | Inl err \<Rightarrow> if IsUnauthorizedError (Some err) then ret True else fail err)"

primrec DeleteGroup ::
  "nat \<Rightarrow> 'w env \<Rightarrow> HelperConf \<Rightarrow> KeycloakRealmSpec \<Rightarrow> kc_client \<Rightarrow> ('w, kc_client) realm_prog" where
  "DeleteGroup 0 env h spec c = panic"
| "DeleteGroup (Suc depth) env h spec c =
     bindIO (derefIO (SortRealmGroupByParentFirstChild depth (rs_Groups spec))) (\<lambda>groups.
     bindIO (delete_groups env c (rs_RealmName spec) groups) (\<lambda>unauthorized.
     if unauthorized
     then bindIO (realm_refreshToken env h) (DeleteGroup depth env h spec)
     else ret c))"

section \<open>The realm\<close>

definition DeleteResource ::
  "nat \<Rightarrow> 'w env \<Rightarrow> HelperConf \<Rightarrow> KeycloakRealmSpec \<Rightarrow> kc_client \<Rightarrow> bool \<Rightarrow> ('w, unit) realm_prog" where
  "DeleteResource depth env h spec kcClient preserveResourcesOnDeletion =
     (if preserveResourcesOnDeletion then ret ()
      else
        bindIO (DeleteIdentityProvider depth env h spec kcClient) (\<lambda>c1.
        bindIO (DeleteRole env h spec c1) (\<lambda>_.
        bindIO (DeleteGroup depth env h spec c1) (\<lambda>c2.
        bindIO (tryIO (DeleteRealm env c2 (rs_RealmName spec))) (\<lambda>res. case res of
          Inr _ \<Rightarrow> ret ()
        | Inl err \<Rightarrow>
            if IsNotFound err then ret ()
            else fail (Wrapped ''failed to delete keycloak realm: '' err))))))"

end
