(* ===== verification/RoleProps.thy ===== *)
theory RoleProps
  imports RoleChain UserSync
begin

text \<open>
  What the role chain of a realm guarantees: the composites of a role after synchronisation, and
  what \<open>Flush\<close> deletes and records.
\<close>

section \<open>Composites\<close>

definition keys_of :: "RoleRepresentation list \<Rightarrow> string set" where
  "keys_of rs = {k. \<exists>x \<in> set rs. composite_key x = Some k}"

lemma keys_of_simps [simp]: "keys_of [] = {}" "keys_of (xs @ ys) = keys_of xs \<union> keys_of ys"
  by (auto simp: keys_of_def)

text \<open>
  The composites of one role as a set of keys, and the internal id a client name stands for.
\<close>

definition composites_server ::
  "'w env \<Rightarrow> string \<Rightarrow> string \<Rightarrow> (string \<Rightarrow> string) \<Rightarrow> ('w \<Rightarrow> string set) \<Rightarrow> bool" where
  "composites_server env realm roleName uuid keys \<longleftrightarrow>
     (\<forall>c w r w'. success env c (mk_request GET (realm_path realm [''roles'', roleName, ''composites'']) [] NoBody) w r w' \<longrightarrow>
        keys w' = keys w \<and> (\<exists>rs. json_roles r = Some rs \<and> keys_of rs = keys w)) \<and>
     (\<forall>c n w r w'. success env c (mk_request GET (realm_path realm [''roles'', n]) [] NoBody) w r w' \<longrightarrow>
        keys w' = keys w \<and> (\<forall>x. json_role r = Some x \<longrightarrow> composite_key x = Some n)) \<and>
     (\<forall>c cn w r w'. success env c (mk_request GET (realm_path realm [''clients'']) [(''clientId'', cn)] NoBody) w r w' \<longrightarrow>
        keys w' = keys w \<and> (\<forall>cl cls i. json_clients r = Some (cl # cls) \<longrightarrow> cl_Id cl = Some i \<longrightarrow> i = uuid cn)) \<and>
     (\<forall>c i n w r w'. success env c (mk_request GET (realm_path realm [''clients'', i, ''roles'', n]) [] NoBody) w r w' \<longrightarrow>
        keys w' = keys w \<and> (\<forall>x. json_role r = Some x \<longrightarrow> composite_key x = Some (i @ ''-'' @ n))) \<and>
     (\<forall>c rs w r w'. success env c (mk_request POST (realm_path realm [''roles'', roleName, ''composites'']) [] (RolesB rs)) w r w' \<longrightarrow>
        keys w' = keys w \<union> keys_of rs) \<and>
     (\<forall>c rs w r w'. success env c (mk_request DELETE (realm_path realm [''roles'', roleName, ''composites'']) [] (RolesB rs)) w r w' \<longrightarrow>
        keys w' = keys w - keys_of rs)"

text \<open>
  The state of the claiming loops: of the composites \<open>K\<close> that were there, those not claimed so
  far are stale; what has been collected to be added is claimed, and covers every claimed key
  that was missing.
\<close>

definition claiming :: "string set \<Rightarrow> string set \<Rightarrow> composites \<Rightarrow> bool" where
  "claiming K C acc \<longleftrightarrow> (case acc of (stale, add) \<Rightarrow>
     distinct (map fst stale) \<and> (\<forall>(k, v) \<in> set stale. composite_key v = Some k) \<and> fst ` set stale = K - C \<and>
     keys_of add \<subseteq> C \<and> C - K \<subseteq> keys_of add)"

lemma set_update_cases: "x \<in> set (AList.update k v al) \<Longrightarrow> x = (k, v) \<or> x \<in> set al"
  by (induction al) (auto split: if_splits)

lemma wp_index_composites:
  fixes s :: "('w, event, realm_mem) io_state"
  shows "wp True (foldIO index_composite rs [])
     (\<lambda>stale s'. keys (world s') = keys (world s) \<and> claiming (keys_of rs) {} (stale, [])) (\<lambda>_ _. True) s"
proof (rule wp_foldIO [where I = "\<lambda>vis stale s'. keys (world s') = keys (world s) \<and> claiming (keys_of vis) {} (stale, [])"])
  fix vis cr rest stale and s' :: "('w, event, realm_mem) io_state"
  assume I: "keys (world s') = keys (world s) \<and> claiming (keys_of vis) {} (stale, [])"
  have "claiming (keys_of (vis @ [cr])) {} (AList.update k cr stale, [])" if "composite_key cr = Some k" for k
    using I that
    by (auto simp: claiming_def keys_of_def distinct_update dom_update dest: set_update_cases)
  with I show "wp True (index_composite cr stale)
      (\<lambda>stale' s''. keys (world s'') = keys (world s) \<and> claiming (keys_of (vis @ [cr])) {} (stale', [])) (\<lambda>_ _. True) s'"
    by (auto simp: index_composite_def split: option.split)
qed (auto simp: claiming_def)

text \<open>One claim, whether for the role of the realm or of a client.\<close>

lemma claiming_hit:
  assumes "claiming K C (stale, add)" and "map_of stale k \<noteq> None"
  shows "claiming K (insert k C) (AList.delete k stale, add)"
proof -
  from assms(2) obtain v where "(k, v) \<in> set stale" by (auto dest: map_of_SomeD)
  with assms(1) have "k \<in> K" by (force simp: claiming_def)
  moreover have "fst ` set (AList.delete k stale) = fst ` set stale - {k}"
    by (metis delete_keys list.set_map set_removeAll)
  moreover have "set (AList.delete k stale) \<subseteq> set stale" by (auto simp: AList.delete_eq)
  ultimately show ?thesis using assms(1)
    by (auto simp: claiming_def distinct_delete)
qed

lemma claiming_miss:
  assumes "claiming K C (stale, add)" and "map_of stale k = None" and "composite_key r = Some k"
  shows "claiming K (insert k C) (stale, add @ [r])"
proof -
  have "k \<notin> K - C" using assms by (auto simp: claiming_def map_of_eq_None_iff)
  with assms show ?thesis by (auto simp: claiming_def keys_of_def)
qed

lemma wp_claim:
  fixes s :: "('w, event, realm_mem) io_state"
  assumes look: "wp True look (\<lambda>role s'. keys (world s') = keys (world s) \<and> (\<forall>x. role = Some x \<longrightarrow> composite_key x = Some k))
      (\<lambda>_ _. True) s"
    and I: "claiming K C (stale, add)"
  shows "wp True (if map_of stale k \<noteq> None then ret (AList.delete k stale, add)
      else bindIO (wrapErr pre look) (\<lambda>role. bindIO (derefIO role) (\<lambda>r. ret (stale, add @ [r]))))
     (\<lambda>acc s'. keys (world s') = keys (world s) \<and> claiming K (insert k C) acc) (\<lambda>_ _. True) s"
proof (cases "map_of stale k = None")
  case True
  then show ?thesis
    by (auto intro!: wp_weaken [OF look] claiming_miss [OF I] split: option.split)
next
  case False
  with claiming_hit [OF I] show ?thesis by auto
qed

lemma wp_claim_realm:
  fixes s :: "('w, event, realm_mem) io_state"
  assumes "composites_server env realm roleName uuid keys" and "claiming K C acc"
  shows "wp True (claim_realm_composite env c realm x acc)
     (\<lambda>acc' s'. keys (world s') = keys (world s) \<and> claiming K (insert (cmp_Name x) C) acc') (\<lambda>_ _. True) s"
proof -
  obtain stale add where acc: "acc = (stale, add)" by (cases acc)
  have look: "wp True (GetRealmRole env c realm n) (\<lambda>role s'. keys (world s') = keys (world s) \<and>
      (\<forall>x. role = Some x \<longrightarrow> composite_key x = Some n)) (\<lambda>_ _. True) s" for n
    unfolding GetRealmRole_def wp_bindIO
    by (rule wp_sendRequest) (use assms(1) in \<open>auto simp: composites_server_def\<close>)
  show ?thesis
    unfolding claim_realm_composite_def acc prod.case Let_def
    by (rule wp_claim [OF look]) (use assms(2) acc in simp)
qed

lemma wp_claim_client_composite:
  fixes s :: "('w, event, realm_mem) io_state"
  assumes "composites_server env realm roleName uuid keys" and "claiming K C acc"
  shows "wp True (claim_client_composite env c realm i x acc)
     (\<lambda>acc' s'. keys (world s') = keys (world s) \<and> claiming K (insert (i @ ''-'' @ cmp_Name x) C) acc') (\<lambda>_ _. True) s"
proof -
  obtain stale add where acc: "acc = (stale, add)" by (cases acc)
  have look: "wp True (GetClientRole env c realm i n) (\<lambda>role s'. keys (world s') = keys (world s) \<and>
      (\<forall>x. role = Some x \<longrightarrow> composite_key x = Some (i @ ''-'' @ n))) (\<lambda>_ _. True) s" for n
    unfolding GetClientRole_def wp_bindIO
    by (rule wp_sendRequest) (use assms(1) in \<open>auto simp: composites_server_def\<close>)
  show ?thesis
    unfolding claim_client_composite_def acc prod.case Let_def
    by (rule wp_claim [OF look]) (use assms(2) acc in simp)
qed

text \<open>A loop of claims, where one step claims the keys \<open>f x\<close>.\<close>

lemma wp_claim_loop:
  fixes s :: "('w, event, realm_mem) io_state"
  assumes step: "\<And>x C acc (s :: ('w, event, realm_mem) io_state). x \<in> set xs \<Longrightarrow> claiming K C acc \<Longrightarrow>
      wp True (m x acc) (\<lambda>acc' s'. keys (world s') = keys (world s) \<and> claiming K (f x \<union> C) acc') (\<lambda>_ _. True) s"
    and "claiming K C acc"
  shows "wp True (foldIO m xs acc)
     (\<lambda>acc' s'. keys (world s') = keys (world s) \<and> claiming K (C \<union> (\<Union>x \<in> set xs. f x)) acc') (\<lambda>_ _. True) s"
proof (rule wp_foldIO [where I = "\<lambda>vis acc' s'. keys (world s') = keys (world s) \<and> claiming K (C \<union> (\<Union>x \<in> set vis. f x)) acc'"])
  fix vis x rest acc and s' :: "('w, event, realm_mem) io_state"
  assume "xs = vis @ x # rest" and I: "keys (world s') = keys (world s) \<and> claiming K (C \<union> (\<Union>x \<in> set vis. f x)) acc"
  moreover have "f x \<union> (C \<union> (\<Union>x \<in> set vis. f x)) = C \<union> (\<Union>x \<in> set (vis @ [x]). f x)" by auto
  ultimately show "wp True (m x acc) (\<lambda>acc' s''. keys (world s'') = keys (world s) \<and>
      claiming K (C \<union> (\<Union>x \<in> set (vis @ [x]). f x)) acc') (\<lambda>_ _. True) s'"
    using step [of x "C \<union> (\<Union>x \<in> set vis. f x)" acc s'] by simp
qed (use assms(2) in simp_all)

lemma wp_claim_client:
  fixes s :: "('w, event, realm_mem) io_state"
  assumes laws: "composites_server env realm roleName uuid keys" and "claiming K C acc"
  shows "wp True (claim_client env c realm (cn, cs) acc)
     (\<lambda>acc' s'. keys (world s') = keys (world s) \<and>
        claiming K ((\<lambda>x. uuid cn @ ''-'' @ cmp_Name x) ` set cs \<union> C) acc') (\<lambda>_ _. True) s"
proof -
  have found: "wp True (GetClients env c realm [(''clientId'', cn)]) (\<lambda>cls s'. keys (world s') = keys (world s) \<and>
      (\<forall>cl cls' i. cls = cl # cls' \<longrightarrow> cl_Id cl = Some i \<longrightarrow> i = uuid cn)) (\<lambda>_ _. True) s"
    unfolding GetClients_def wp_bindIO
    by (rule wp_sendRequest) (use laws in \<open>auto simp: composites_server_def split: option.split\<close>)
  have loop: "wp True (foldIO (claim_client_composite env c realm (uuid cn)) cs acc)
      (\<lambda>acc' s'. keys (world s') = keys (world s1) \<and>
         claiming K (C \<union> (\<Union>x \<in> set cs. {uuid cn @ ''-'' @ cmp_Name x})) acc') (\<lambda>_ _. True) s1" for s1
    by (rule wp_claim_loop [OF _ assms(2)]) (use wp_claim_client_composite [OF laws] in auto)
  have "C \<union> (\<Union>x \<in> set cs. {uuid cn @ ''-'' @ cmp_Name x}) = (\<lambda>x. uuid cn @ ''-'' @ cmp_Name x) ` set cs \<union> C" by auto
  with loop show ?thesis
    unfolding claim_client_def prod.case wp_bindIO wp_wrapErr
    by (intro wp_weaken [OF found]) (auto split: list.split option.split intro!: wp_weaken [OF loop])
qed

lemma wp_write_composites:
  fixes s :: "('w, event, realm_mem) io_state"
  assumes "composites_server env realm roleName uuid keys"
  shows "wp True (AddRealmRoleComposites env c realm roleName rs)
      (\<lambda>_ s'. keys (world s') = keys (world s) \<union> keys_of rs) (\<lambda>_ _. True) s"
    and "wp True (DeleteRealmRoleComposites env c realm roleName rs)
      (\<lambda>_ s'. keys (world s') = keys (world s) - keys_of rs) (\<lambda>_ _. True) s"
  unfolding AddRealmRoleComposites_def DeleteRealmRoleComposites_def wp_bindIO
  by (rule wp_sendRequest, use assms in \<open>auto simp: composites_server_def\<close>)+

lemma keys_of_stale:
  assumes "claiming K C (stale, add)" and "set ys = set stale"
  shows "keys_of (map snd ys) = K - C"
proof -
  have "\<forall>p \<in> set stale. composite_key (snd p) = Some (fst p)" "fst ` set stale = K - C"
    using assms(1) by (auto simp: claiming_def)
  moreover from this(1) have "keys_of (map snd ys) = fst ` set stale"
    using assms(2) by (auto simp: keys_of_def image_iff)
  ultimately show ?thesis by simp
qed

lemma wp_apply_composites:
  fixes s :: "('w, event, realm_mem) io_state"
  assumes laws: "composites_server env realm roleName uuid keys" and I: "claiming K C (stale, add)"
    and "keys (world s) = K"
  shows "wp True (bindIO (whenIO (add \<noteq> []) (wrapErr e1 (voidIO (AddRealmRoleComposites env c realm roleName add)))) (\<lambda>_.
      whenIO (stale \<noteq> []) (bindIO (range_order (map_rank env) stale) (\<lambda>staleRoles.
        wrapErr e2 (voidIO (DeleteRealmRoleComposites env c realm roleName (map snd staleRoles)))))))
     (\<lambda>_ s'. keys (world s') = C) (\<lambda>_ _. True) s"
proof -
  have post: "wp True (whenIO (add \<noteq> []) (wrapErr e1 (voidIO (AddRealmRoleComposites env c realm roleName add))))
      (\<lambda>_ s'. keys (world s') = K \<union> C) (\<lambda>_ _. True) s"
  proof (cases "add = []")
    case True
    with I assms(3) show ?thesis by (auto simp: claiming_def)
  next
    case False
    have "K \<union> keys_of add = K \<union> C" using I by (auto simp: claiming_def)
    with False assms(3) show ?thesis using wp_weaken [OF wp_write_composites(1) [OF laws, of c add s]] by simp
  qed
  have del: "wp True (whenIO (stale \<noteq> []) (bindIO (range_order (map_rank env) stale) (\<lambda>staleRoles.
        wrapErr e2 (voidIO (DeleteRealmRoleComposites env c realm roleName (map snd staleRoles))))))
      (\<lambda>_ s'. keys (world s') = C) (\<lambda>_ _. True) s1"
    if "keys (world s1) = K \<union> C" for s1 :: "('w, event, realm_mem) io_state"
  proof (cases "stale = []")
    case True
    with I that show ?thesis by (auto simp: claiming_def)
  next
    case False
    have "keys_of (map snd ys) = K - C" if "mset ys = mset stale" for ys
      using keys_of_stale [OF I mset_eq_setD [OF that]] .
    moreover have "(K \<union> C) - (K - C) = C" by blast
    ultimately have "wp True (DeleteRealmRoleComposites env c realm roleName (map snd ys)) (\<lambda>_ s'. keys (world s') = C)
        (\<lambda>_ _. True) s1" if "mset ys = mset stale" for ys
      using wp_weaken [OF wp_write_composites(2) [OF laws, of c "map snd ys" s1]] that \<open>keys (world s1) = K \<union> C\<close> by simp
    then show ?thesis using False by simp (rule wp_range_order, simp)
  qed
  show ?thesis unfolding wp_bindIO by (rule wp_weaken [OF post]) (use del in auto)
qed

definition desired_composites :: "(string \<Rightarrow> string) \<Rightarrow> Role \<Rightarrow> string set" where
  "desired_composites uuid role = cmp_Name ` set (rol_Composites role) \<union>
     {uuid cn @ ''-'' @ cmp_Name x | cn cs x. (cn, cs) \<in> set (rol_CompositesClientRoles role) \<and> x \<in> set cs}"

text \<open>
  C26. Composites of a realm role: when \<open>SyncComposites\<close> returns without an error for a composite
  role, its composites in Keycloak are exactly the realm roles and the client roles the resource
  lists, whatever was there before and in whatever order Go iterates over its maps.
\<close>

theorem SyncComposites_correct:
  assumes laws: "composites_server env realm (rol_Name role) uuid keys" and "rol_Composite role"
    and "SyncComposites_Serve env c role realm s = (Ok (), s')"
  shows "keys (world s') = desired_composites uuid role"
proof -
  let ?K = "keys (world s)" and ?R = "cmp_Name ` set (rol_Composites role)"
  let ?f = "\<lambda>(cn, cs). (\<lambda>x. uuid cn @ ''-'' @ cmp_Name x) ` set cs"
  have current: "wp True (GetRealmRoleComposites env c realm (rol_Name role)) (\<lambda>rs s'. keys (world s') = ?K \<and> keys_of rs = ?K)
      (\<lambda>_ _. True) s"
    unfolding GetRealmRoleComposites_def wp_bindIO
    by (rule wp_sendRequest) (use laws in \<open>fastforce simp: composites_server_def\<close>)
  have "wp True (foldIO (claim_realm_composite env c realm) (rol_Composites role) acc)
      (\<lambda>acc' s'. keys (world s') = keys (world s1) \<and> claiming ?K ({} \<union> (\<Union>x \<in> set (rol_Composites role). {cmp_Name x})) acc')
      (\<lambda>_ _. True) s1" if "claiming ?K {} acc" for acc s1
    by (rule wp_claim_loop [OF _ that]) (use wp_claim_realm [OF laws] in auto)
  moreover have "{} \<union> (\<Union>x \<in> set (rol_Composites role). {cmp_Name x}) = ?R" by auto
  ultimately have realm_roles: "wp True (foldIO (claim_realm_composite env c realm) (rol_Composites role) acc)
      (\<lambda>acc' s'. keys (world s') = keys (world s1) \<and> claiming ?K ?R acc') (\<lambda>_ _. True) s1" if "claiming ?K {} acc" for acc s1
    using that by (simp only:)
  have client_roles: "wp True (foldIO (claim_client env c realm) ys acc)
      (\<lambda>acc' s'. keys (world s') = keys (world s1) \<and> claiming ?K (?R \<union> (\<Union>y \<in> set ys. ?f y)) acc') (\<lambda>_ _. True) s1"
    if "claiming ?K ?R acc" for ys acc s1
    by (rule wp_claim_loop [OF _ that]) (use wp_claim_client [OF laws] in auto)
  have all: "?R \<union> (\<Union>y \<in> set ys. ?f y) = desired_composites uuid role"
    if "mset ys = mset (rol_CompositesClientRoles role)" for ys
    using mset_eq_setD [OF that] by (fastforce simp: desired_composites_def)
  have tail: "wp True (bindIO (range_order (map_rank env) (rol_CompositesClientRoles role)) (\<lambda>entries.
      bindIO (foldIO (claim_client env c realm) entries acc) (\<lambda>(stale, rolesToAdd).
      bindIO (whenIO (rolesToAdd \<noteq> []) (wrapErr e1 (voidIO (AddRealmRoleComposites env c realm (rol_Name role) rolesToAdd)))) (\<lambda>_.
      whenIO (stale \<noteq> []) (bindIO (range_order (map_rank env) stale) (\<lambda>staleRoles.
        wrapErr e2 (voidIO (DeleteRealmRoleComposites env c realm (rol_Name role) (map snd staleRoles)))))))))
      (\<lambda>_ s'. keys (world s') = desired_composites uuid role) (\<lambda>_ _. True) s1"
    if s1: "keys (world s1) = ?K" and acc: "claiming ?K ?R acc" for acc s1 e1 e2
    unfolding wp_bindIO [of _ "range_order (map_rank env) (rol_CompositesClientRoles role)"]
  proof (rule wp_range_order, subst wp_bindIO, rule wp_weaken [OF client_roles [OF acc]], elim conjE)
    fix ys acc' and s2 :: "('a, event, realm_mem) io_state"
    assume "mset ys = mset (rol_CompositesClientRoles role)" and s2: "keys (world s2) = keys (world s1)"
      and "claiming ?K (?R \<union> (\<Union>y \<in> set ys. ?f y)) acc'"
    then have "claiming ?K (desired_composites uuid role) acc'" by (simp only: all)
    then show "wp True (case acc' of (stale, rolesToAdd) \<Rightarrow>
      bindIO (whenIO (rolesToAdd \<noteq> []) (wrapErr e1 (voidIO (AddRealmRoleComposites env c realm (rol_Name role) rolesToAdd)))) (\<lambda>_.
      whenIO (stale \<noteq> []) (bindIO (range_order (map_rank env) stale) (\<lambda>staleRoles.
        wrapErr e2 (voidIO (DeleteRealmRoleComposites env c realm (rol_Name role) (map snd staleRoles)))))))
      (\<lambda>_ s'. keys (world s') = desired_composites uuid role) (\<lambda>_ _. True) s2"
      by (cases acc') (simp only: prod.case, rule wp_apply_composites [OF laws], auto simp: s1 s2)
  qed
  have "wp True (SyncComposites_Serve env c role realm) (\<lambda>_ s'. keys (world s') = desired_composites uuid role) (\<lambda>_ _. True) s"
    unfolding SyncComposites_Serve_def not_True_eq_False assms(2) [THEN eq_True [THEN iffD2]] if_False
      wp_bindIO [of _ "wrapErr _ _"] wp_bindIO [of _ "foldIO index_composite _ _"]
      wp_bindIO [of _ "foldIO (claim_realm_composite env c realm) _ _"] wp_wrapErr
  proof (rule wp_weaken [OF current], elim conjE, rule wp_weaken [OF wp_index_composites [where keys = keys]], elim conjE,
      rule wp_weaken [OF realm_roles])
    fix rs s1 stale0 and s2 :: "('a, event, realm_mem) io_state"
    assume "claiming (keys_of rs) {} (stale0, [])" and "keys_of rs = ?K"
    then show "claiming ?K {} (stale0, [])" by simp
  next
    fix rs acc and s1 s2 s3 :: "('a, event, realm_mem) io_state"
    assume "keys (world s1) = ?K" and "keys (world s2) = keys (world s1)"
      and "keys (world s3) = keys (world s2) \<and> claiming ?K ?R acc"
    then show "wp True (bindIO (range_order (map_rank env) (rol_CompositesClientRoles role)) (\<lambda>entries.
      bindIO (foldIO (claim_client env c realm) entries acc) (\<lambda>(stale, rolesToAdd).
      bindIO (whenIO (rolesToAdd \<noteq> []) (wrapErr ''failed to add composite roles: ''
        (voidIO (AddRealmRoleComposites env c realm (rol_Name role) rolesToAdd)))) (\<lambda>_.
      whenIO (stale \<noteq> []) (bindIO (range_order (map_rank env) stale) (\<lambda>staleRoles.
        wrapErr ''failed to delete stale composite roles: ''
          (voidIO (DeleteRealmRoleComposites env c realm (rol_Name role) (map snd staleRoles)))))))))
      (\<lambda>_ s'. keys (world s') = desired_composites uuid role) (\<lambda>_ _. True) s3"
      by (intro tail) auto
  qed
  from wp_OkD [OF this assms(3)] show ?thesis .
qed

section \<open>Flush\<close>

definition role_delete_event :: "kc_client \<Rightarrow> string \<Rightarrow> string \<Rightarrow> event" where
  "role_delete_event c realm n = Http c (mk_request DELETE (realm_path realm [''roles'', n]) [] NoBody)"

lemma sendRequest_trace:
  "sendRequest env c rq s = (r, s') \<Longrightarrow> trace s' = trace s @ [Http c rq] \<and> mem s' = mem s"
  by (auto simp: sendRequest_def bindIO_def callIO_def ret_def fail_def
      split: prod.splits sum.splits outcome.splits option.splits)

lemma flush_delete_role_trace:
  "flush_delete_role env c realm n s = (r, s') \<Longrightarrow> trace s' = trace s @ [role_delete_event c realm n] \<and> mem s' = mem s"
  by (auto simp: flush_delete_role_def DeleteRealmRole_def role_delete_event_def bindIO_def tryIO_def ret_def fail_def
      dest!: sendRequest_trace split: prod.splits outcome.splits if_splits)

lemma flush_delete_roles_trace:
  "forIO (flush_delete_role env c realm) ns s = (r, s') \<Longrightarrow>
   mem s' = mem s \<and> (r = Ok () \<longrightarrow> trace s' = trace s @ map (role_delete_event c realm) ns)"
proof (induction ns arbitrary: s)
  case (Cons n ns)
  obtain x s1 where run: "flush_delete_role env c realm n s = (x, s1)" by (cases "flush_delete_role env c realm n s")
  from flush_delete_role_trace [OF run] Cons run show ?case
    by (cases x) (auto simp: bindIO_def)
qed (simp add: ret_def)

text \<open>A flush as its parts: the names to delete in some order, and the two versions of the record.\<close>

lemma role_Flush_run:
  assumes "hasReconciliationStrategyFull (rm_realm (mem s))"
  obtains names where
    "mset names = mset (filter (\<lambda>n. map_of rIDs n = None) (map fst (rst_RoleIDs (kr_Status (rm_realm (mem s))))))"
    "role_Flush env c rIDs s = bindIO (forIO (flush_delete_role env c (rs_RealmName (kr_Spec (rm_realm (mem s))))) names) (\<lambda>_.
       bindIO (modMem (set_RoleIDs (fold (\<lambda>(n, i) m. AList.update n i m) rIDs
         (filter (\<lambda>(n, i). map_of rIDs n \<noteq> None) (rst_RoleIDs (kr_Status (rm_realm (mem s)))))))) (\<lambda>_.
       wrapErr ''unable to update status of role: '' (k8s_StatusUpdate env realm_obj)))
       (s\<lparr>mem := set_RoleIDs (filter (\<lambda>(n, i). map_of rIDs n \<noteq> None) (rst_RoleIDs (kr_Status (rm_realm (mem s))))) (mem s)\<rparr>)"
proof -
  let ?ids = "rst_RoleIDs (kr_Status (rm_realm (mem s)))"
  let ?entries = "sort_key (\<lambda>(k, v). map_rank env (length (trace s)) k) ?ids"
  show ?thesis
  proof (rule that [of "filter (\<lambda>n. map_of rIDs n = None) (map fst ?entries)"])
    show "mset (filter (\<lambda>n. map_of rIDs n = None) (map fst ?entries)) = mset (filter (\<lambda>n. map_of rIDs n = None) (map fst ?ids))"
      by simp
  qed (use assms in \<open>simp add: role_Flush_def Let_def bindIO_def getMem_def modMem_def range_order_def\<close>)
qed

lemma realm_status_trace:
  "k8s_StatusUpdate env realm_obj s = (r, s') \<Longrightarrow>
   trace s' = trace s @ [Kube (KStatusUpdate (RealmObj (rm_realm (mem s))))] \<and> (\<forall>e. r = Err e \<longrightarrow> mem s' = mem s)"
  by (auto simp: k8s_StatusUpdate_def realm_obj_def go_simps split: prod.splits sum.splits)

text \<open>
  C27. What a flush deletes and records: with the full strategy, a flush that succeeds sends one
  \<open>DELETE\<close> for every role recorded by a former run that the resource no longer lists, and for no
  other role; then it stores exactly the roles of this run in the status.
\<close>

theorem role_Flush_correct:
  assumes full: "hasReconciliationStrategyFull (rm_realm (mem s))"
    and "distinct (map fst (rst_RoleIDs (kr_Status (rm_realm (mem s)))))" and "distinct (map fst rIDs)"
    and "role_Flush env c rIDs s = (Ok (), s')"
  shows "\<exists>names r. trace s' = trace s @ map (role_delete_event c (rs_RealmName (kr_Spec (rm_realm (mem s))))) names @
       [Kube (KStatusUpdate (RealmObj r))] \<and> distinct names \<and>
     set names = {n. map_of (rst_RoleIDs (kr_Status (rm_realm (mem s)))) n \<noteq> None \<and> map_of rIDs n = None} \<and>
     map_of (rst_RoleIDs (kr_Status r)) = map_of rIDs"
proof -
  let ?ids = "rst_RoleIDs (kr_Status (rm_realm (mem s)))"
  let ?kept = "filter (\<lambda>(n, i). map_of rIDs n \<noteq> None) ?ids"
  let ?new = "fold (\<lambda>(n, i) m. AList.update n i m) rIDs ?kept"
  obtain names where names: "mset names = mset (filter (\<lambda>n. map_of rIDs n = None) (map fst ?ids))"
    and run: "role_Flush env c rIDs s = bindIO (forIO (flush_delete_role env c (rs_RealmName (kr_Spec (rm_realm (mem s))))) names) (\<lambda>_.
       bindIO (modMem (set_RoleIDs ?new)) (\<lambda>_. wrapErr ''unable to update status of role: '' (k8s_StatusUpdate env realm_obj)))
       (s\<lparr>mem := set_RoleIDs ?kept (mem s)\<rparr>)"
    by (rule role_Flush_run [OF full])
  obtain s1 where s1: "forIO (flush_delete_role env c (rs_RealmName (kr_Spec (rm_realm (mem s))))) names
      (s\<lparr>mem := set_RoleIDs ?kept (mem s)\<rparr>) = (Ok (), s1)"
    using run assms(4) by (auto simp: bindIO_def split: prod.splits outcome.splits)
  have tr: "trace s1 = trace s @ map (role_delete_event c (rs_RealmName (kr_Spec (rm_realm (mem s))))) names"
    using flush_delete_roles_trace [OF s1] by simp
  have upd: "k8s_StatusUpdate env realm_obj (s1\<lparr>mem := set_RoleIDs ?new (mem s1)\<rparr>) = (Ok (), s')"
    using run assms(4) s1 by (auto simp: bindIO_def modMem_def wrapErr_def split: prod.splits outcome.splits)
  have "map_of ?new = map_of rIDs"
    by (rule ext) (simp add: map_of_fold_update [OF assms(3)] map_of_filter_keys del: not_None_eq split: option.split)
  moreover have "distinct names" "set names = {n. map_of ?ids n \<noteq> None \<and> map_of rIDs n = None}"
    using mset_eq_imp_distinct_iff [OF names] mset_eq_setD [OF names] assms(2)
    by (auto simp: distinct_filter map_of_eq_None_iff)
  ultimately show ?thesis
    using realm_status_trace [OF upd] tr
    by (intro exI [of _ names] exI [of _ "rm_realm (set_RoleIDs ?new (mem s1))"]) (simp add: set_RoleIDs_def)
qed

text \<open>
  A failed flush forgets: when a flush returns an error, the status in memory, which the
  controller goes on to store, has lost every role the resource no longer lists, whether or not
  it was deleted from Keycloak. A role whose deletion failed is not tried again.
\<close>

theorem role_Flush_error_forgets:
  assumes full: "hasReconciliationStrategyFull (rm_realm (mem s))" and "distinct (map fst rIDs)"
    and "role_Flush env c rIDs s = (Err e, s')" and "map_of rIDs n = None"
  shows "map_of (rst_RoleIDs (kr_Status (rm_realm (mem s')))) n = None"
proof -
  let ?ids = "rst_RoleIDs (kr_Status (rm_realm (mem s)))"
  let ?kept = "filter (\<lambda>(n, i). map_of rIDs n \<noteq> None) ?ids"
  let ?new = "fold (\<lambda>(n, i) m. AList.update n i m) rIDs ?kept"
  obtain names where
    run: "role_Flush env c rIDs s = bindIO (forIO (flush_delete_role env c (rs_RealmName (kr_Spec (rm_realm (mem s))))) names) (\<lambda>_.
       bindIO (modMem (set_RoleIDs ?new)) (\<lambda>_. wrapErr ''unable to update status of role: '' (k8s_StatusUpdate env realm_obj)))
       (s\<lparr>mem := set_RoleIDs ?kept (mem s)\<rparr>)"
    by (rule role_Flush_run [OF full])
  obtain x s1 where s1: "forIO (flush_delete_role env c (rs_RealmName (kr_Spec (rm_realm (mem s))))) names
      (s\<lparr>mem := set_RoleIDs ?kept (mem s)\<rparr>) = (x, s1)"
    by (metis surj_pair)
  have "mem s1 = set_RoleIDs ?kept (mem s)" using flush_delete_roles_trace [OF s1] by simp
  then have "mem s' = set_RoleIDs ?kept (mem s) \<or> mem s' = set_RoleIDs ?new (set_RoleIDs ?kept (mem s))"
    using run assms(3) s1
    by (cases x) (auto simp: bindIO_def modMem_def wrapErr_def dest!: realm_status_trace split: prod.splits outcome.splits)
  moreover have "map_of ?kept n = None" "map_of ?new n = None"
    using assms(4) by (simp_all add: map_of_fold_update [OF assms(2)] map_of_filter_keys)
  ultimately show ?thesis by (auto simp: set_RoleIDs_def simp del: not_None_eq)
qed

section \<open>Concrete runs\<close>

text \<open>A Keycloak that keeps the keys of the composites of one role.\<close>

definition composites_env :: "string list env" where
  "composites_env = idle_env\<lparr>kc_http := (\<lambda>c rq w.
     case rq_method rq of
       POST \<Rightarrow> (Inr (Some (accepted None)), (case rq_body rq of RolesB rs \<Rightarrow> w @ List.map_filter composite_key rs | _ \<Rightarrow> w))
     | DELETE \<Rightarrow> (Inr (Some (accepted None)), (case rq_body rq of
          RolesB rs \<Rightarrow> filter (\<lambda>k. k \<notin> set (List.map_filter composite_key rs)) w | _ \<Rightarrow> w))
     | _ \<Rightarrow> (Inr (Some (accepted (Some (
          if length (rq_path rq) = 6 then RolesB (map named_role w)
          else if rq_query rq \<noteq> [] then ClientsB [\<lparr>cl_Id = Some (snd (hd (rq_query rq))), cl_ClientId = None, cl_rest = []\<rparr>]
          else if length (rq_path rq) = 5 then RoleB (named_role (last (rq_path rq)))
          else RoleB ((named_role (last (rq_path rq)))\<lparr>role_ClientRole := Some True, role_ContainerId := Some (rq_path rq ! 4)\<rparr>))))), w))\<rparr>"

lemma composite_key_named [simp]: "composite_key (named_role n) = Some n"
  by (simp add: composite_key_def named_role_def zero_role_def)

lemma keys_of_map_filter: "keys_of rs = set (List.map_filter composite_key rs)"
  by (force simp: keys_of_def List.map_filter_def)

lemma composites_env_server: "composites_server composites_env realm roleName (\<lambda>cn. cn) set"
  by (auto simp: composites_server_def success_def composites_env_def accepted_def json_roles_def json_role_def
      json_clients_def keys_of_map_filter [symmetric] realm_path_def)
    (auto simp: keys_of_def composite_key_def named_role_def zero_role_def)

definition test_role :: Role where
  "test_role = \<lparr>rol_Name = ''r'', rol_Description = '''', rol_Attributes = [], rol_Composite = True,
     rol_Composites = [\<lparr>cmp_Name = ''b''\<rparr>, \<lparr>cmp_Name = ''c''\<rparr>],
     rol_CompositesClientRoles = [(''app'', [\<lparr>cmp_Name = ''x''\<rparr>])], rol_IsDefault = False\<rparr>"

definition idle_realm :: KeycloakRealm where
  "idle_realm = \<lparr>kr_Meta = zero_ObjectMeta, kr_Spec = zero_RealmSpec\<lparr>rs_RealmName := ''realm''\<rparr>, kr_Status = zero_RealmStatus\<rparr>"

definition realm_start :: "'w \<Rightarrow> KeycloakRealm \<Rightarrow> ('w, event, realm_mem) io_state" where
  "realm_start w r = \<lparr>world = w, trace = [], mem = \<lparr>rm_realm = r, rm_RoleID = '''', rm_GroupID = ''''\<rparr>\<rparr>"

theorem SyncComposites_witness:
  "set (world (snd (SyncComposites_Serve composites_env 0 test_role ''realm'' (realm_start [''a'', ''b''] idle_realm)))) =
     {''b'', ''c'', ''app-x''}"
proof -
  let ?m = "SyncComposites_Serve composites_env 0 test_role ''realm'' (realm_start [''a'', ''b''] idle_realm)"
  have "fst ?m = Ok ()"
    by (simp add: SyncComposites_Serve_def index_composite_def claim_realm_composite_def claim_client_def
        claim_client_composite_def test_role_def realm_start_def composites_env_def server_simps go_simps Let_def
        composite_key_def)
  then have run: "?m = (Ok (), snd ?m)" by (metis prod.collapse)
  from SyncComposites_correct [OF composites_env_server _ run] show ?thesis
    by (auto simp: desired_composites_def test_role_def)
qed

text \<open>A Keycloak and a cluster that accept everything, and a Keycloak that refuses everything.\<close>

definition accepting_env :: "unit env" where
  "accepting_env = idle_env\<lparr>kc_http := (\<lambda>c rq w. (Inr (Some (accepted None)), w)),
     k8s := (\<lambda>rq w. case rq of KStatusUpdate x \<Rightarrow> (Inr x, w) | KUpdate x \<Rightarrow> (Inr x, w) | _ \<Rightarrow> (Inl (NewError ''refused''), w))\<rparr>"

definition recorded_realm :: KeycloakRealm where
  "recorded_realm = idle_realm\<lparr>kr_Status := zero_RealmStatus\<lparr>rst_RoleIDs := [(''old'', ''1''), (''r'', ''2'')]\<rparr>\<rparr>"

lemmas flush_simps = role_Flush_def flush_delete_role_def hasReconciliationStrategyFull_def PreserveResourcesOnDeletion_def
  recorded_realm_def idle_realm_def realm_start_def realm_obj_def k8s_StatusUpdate_def set_RoleIDs_def get_str_def
  zero_RealmStatus_def zero_RealmSpec_def zero_ObjectMeta_def

lemma distinct_singleton: "distinct xs \<Longrightarrow> set xs = {x} \<Longrightarrow> xs = [x]"
  by (cases xs) (auto simp: subset_singleton_iff)

theorem role_Flush_witness:
  "\<exists>r. trace (snd (role_Flush accepting_env 0 [(''r'', ''2'')] (realm_start () recorded_realm))) =
     [role_delete_event 0 ''realm'' ''old'', Kube (KStatusUpdate (RealmObj r))] \<and>
     map_of (rst_RoleIDs (kr_Status r)) = map_of [(''r'', ''2'')]"
proof -
  let ?m = "role_Flush accepting_env 0 [(''r'', ''2'')] (realm_start () recorded_realm)"
  have "fst ?m = Ok ()"
    by (simp add: flush_simps accepting_env_def server_simps go_simps Let_def)
  then have run: "?m = (Ok (), snd ?m)" by (metis prod.collapse)
  have "hasReconciliationStrategyFull (rm_realm (mem (realm_start () recorded_realm)))" by (simp add: flush_simps)
  from role_Flush_correct [OF this _ _ run] obtain names r where
    r: "trace (snd ?m) = map (role_delete_event 0 ''realm'') names @ [Kube (KStatusUpdate (RealmObj r))]"
      "distinct names" "set names = {''old''}" "map_of (rst_RoleIDs (kr_Status r)) = map_of [(''r'', ''2'')]"
    by (fastforce simp: flush_simps split: if_splits)
  then have "names = [''old'']" by (intro distinct_singleton)
  with r show ?thesis by auto
qed

theorem role_Flush_error_witness:
  "map_of (rst_RoleIDs (kr_Status (rm_realm (mem (snd (role_Flush idle_env 0 [] (realm_start () recorded_realm))))))) ''old'' = None"
proof -
  let ?m = "role_Flush idle_env 0 [] (realm_start () recorded_realm)"
  have "\<exists>e. fst ?m = Err e"
    by (simp add: flush_simps server_simps go_simps Let_def IsNotFound_def errors_Is_def errors_As_def)
  then obtain e where run: "?m = (Err e, snd ?m)" by (metis prod.collapse)
  have "hasReconciliationStrategyFull (rm_realm (mem (realm_start () recorded_realm)))" by (simp add: flush_simps)
  from role_Flush_error_forgets [OF this _ run] show ?thesis by simp
qed

end
