(* ===== verification/GroupProps.thy ===== *)
theory GroupProps
  imports GroupChain RoleProps UserController
begin

text \<open>
  What the group chain of a realm guarantees: the realm roles of a group after synchronisation,
  what a flush can delete, and two behaviours that differ from what the chain is for.
\<close>

section \<open>Realm roles of a group\<close>

definition group_realm_mapping :: "string \<Rightarrow> string \<Rightarrow> string list" where
  "group_realm_mapping realm groupID = realm_path realm [''groups'', groupID, ''role-mappings'', ''realm'']"

lemma fold_map_values:
  "(\<And>k v. (k, v) \<in> set m0 \<Longrightarrow> key v = Some k) \<Longrightarrow>
   (k, v) \<in> set (fold (\<lambda>x m. case key x of None \<Rightarrow> m | Some k \<Rightarrow> AList.update k (id x) m) xs m0) \<Longrightarrow> key v = Some k"
proof (induction xs arbitrary: m0)
  case (Cons x xs)
  show ?case
  proof (cases "key x")
    case (Some a)
    then show ?thesis
      using Cons.IH [of "AList.update a (id x) m0"] Cons.prems by (auto dest!: set_update_cases)
  qed (use Cons in auto)
qed simp

lemma build_map_values: "(k, v) \<in> set (build_map key id xs) \<Longrightarrow> key v = Some k"
  using fold_map_values [of "[]" key k v xs] by (simp add: build_map_def)

lemma names_of_unclaimed:
  assumes "mset ys = mset (build_map role_Name id rs)"
  shows "names_of (map snd (filter (\<lambda>(name, v). name \<notin> set claimed) ys)) = names_of rs - set claimed"
proof -
  have ys: "set ys = set (build_map role_Name id rs)" using assms by (rule mset_eq_setD)
  then have val: "\<And>p. p \<in> set ys \<Longrightarrow> role_Name (snd p) = Some (fst p)" by (auto dest: build_map_values)
  have "names_of rs = fst ` set ys" using ys by (simp add: keys_build_map names_of_def)
  then show ?thesis
    by (auto simp: names_of_def val image_iff split_beta) (metis val fst_conv option.inject)+
qed

lemma wp_unclaimed:
  "wp b (unclaimed env (build_map role_Name id rs) claimed) (\<lambda>xs s'. s' = s \<and> names_of xs = names_of rs - set claimed) E s"
  unfolding unclaimed_def wp_bindIO by (rule wp_range_order) (simp add: names_of_unclaimed)

text \<open>Add what is missing of a mapping, then remove what is not claimed.\<close>

lemma wp_replace_mapping:
  fixes s :: "('w, event, realm_mem) io_state"
  assumes "names_of rs = names (world s)" and "names_of toAdd = set claimed - names (world s)"
    and add: "\<And>(s :: ('w, event, realm_mem) io_state). wp True addm (\<lambda>_ s'. names (world s') = names (world s) \<union> names_of toAdd) (\<lambda>_ _. True) s"
    and rem: "\<And>xs (s :: ('w, event, realm_mem) io_state). wp True (remm xs) (\<lambda>_ s'. names (world s') = names (world s) - names_of xs) (\<lambda>_ _. True) s"
  shows "wp True (bindIO (whenIO (toAdd \<noteq> []) addm) (\<lambda>_. bindIO (unclaimed env (build_map role_Name id rs) claimed)
     (\<lambda>xs. whenIO (xs \<noteq> []) (remm xs)))) (\<lambda>_ s'. names (world s') = set claimed) (\<lambda>_ _. True) s"
proof -
  let ?K = "names (world s)"
  have add': "wp True (whenIO (toAdd \<noteq> []) addm) (\<lambda>_ s'. names (world s') = ?K \<union> set claimed) (\<lambda>_ _. True) s"
    using wp_weaken [OF add [of s]] assms(2) by (cases "toAdd = []") auto
  have rem': "wp True (whenIO (xs \<noteq> []) (remm xs)) (\<lambda>_ s'. names (world s') = set claimed) (\<lambda>_ _. True) s1"
    if "names (world s1) = ?K \<union> set claimed" "names_of xs = ?K - set claimed" for s1 xs
  proof -
    have "?K \<union> set claimed - (?K - set claimed) = set claimed" by blast
    with that show ?thesis using wp_weaken [OF rem [of xs s1]] by (cases "xs = []") auto
  qed
  show ?thesis
    unfolding wp_bindIO
    by (rule wp_weaken [OF add'], rule wp_weaken [OF wp_unclaimed]) (use rem' assms(1) in auto)
qed

text \<open>The whole of a synchronisation, for the realm roles and for the roles of one client.\<close>

lemma wp_claim_mapping:
  fixes s :: "('w, event, realm_mem) io_state"
  assumes look: "\<And>n. lookup_law names n (look n)"
    and add: "\<And>xs (s :: ('w, event, realm_mem) io_state). wp True (addm xs) (\<lambda>_ s'. names (world s') = names (world s) \<union> names_of xs) (\<lambda>_ _. True) s"
    and rem: "\<And>xs (s :: ('w, event, realm_mem) io_state). wp True (remm xs) (\<lambda>_ s'. names (world s') = names (world s) - names_of xs) (\<lambda>_ _. True) s"
    and rs: "names_of rs = names (world s)"
  shows "wp True (bindIO (foldIO (\<lambda>n acc. if map_of (build_map role_Name id rs) n \<noteq> None then ret acc
        else bindIO (wrapErr (pre n) (look n)) (\<lambda>role. case role of None \<Rightarrow> fail (err n) | Some r \<Rightarrow> ret (acc @ [r]))) want [])
      (\<lambda>toAdd. bindIO (whenIO (toAdd \<noteq> []) (wrapErr e1 (voidIO (addm toAdd)))) (\<lambda>_.
        bindIO (unclaimed env (build_map role_Name id rs) want) (\<lambda>xs. whenIO (xs \<noteq> []) (wrapErr e2 (voidIO (remm xs)))))))
     (\<lambda>_ s'. names (world s') = set want) (\<lambda>_ _. True) s"
proof (subst wp_bindIO, rule wp_weaken [OF wp_collect_roles_gen [OF look]])
  fix toAdd and s2 :: "('w, event, realm_mem) io_state"
  assume "names (world s2) = names (world s) \<and> names_of toAdd = {n \<in> set want. map_of (build_map role_Name id rs) n = None}"
  with rs have "names_of rs = names (world s2)" "names_of toAdd = set want - names (world s2)"
    by (auto simp: map_of_build_map_None names_of_def)
  then show "wp True (bindIO (whenIO (toAdd \<noteq> []) (wrapErr e1 (voidIO (addm toAdd)))) (\<lambda>_.
      bindIO (unclaimed env (build_map role_Name id rs) want) (\<lambda>xs. whenIO (xs \<noteq> []) (wrapErr e2 (voidIO (remm xs))))))
     (\<lambda>_ s'. names (world s') = set want) (\<lambda>_ _. True) s2"
    by (rule wp_replace_mapping) (use add rem in simp_all)
qed (auto split: option.split)

text \<open>
  Realm roles of a group: when \<open>SyncRealmRoles\<close> returns without an error, the realm roles
  mapped to the group are exactly those the resource lists.
\<close>

theorem SyncRealmRoles_correct:
  assumes laws: "role_mapping_server env (group_realm_mapping (gc_RealmName ctx) (rm_GroupID (mem s)))
      (realm_path (gc_RealmName ctx) [''roles'']) names"
    and "SyncRealmRoles_Serve env c g ctx s = (Ok (), s')"
  shows "names (world s') = set (grp_RealmRoles g)"
proof -
  let ?realm = "gc_RealmName ctx" and ?id = "rm_GroupID (mem s)"
  note defs = group_realm_mapping_def client_defs realm_path_def
  have current: "wp True (GetRealmRoleMappings env c ?realm ?id) (\<lambda>rs s'. names (world s') = names (world s) \<and>
      names_of rs = names (world s)) (\<lambda>_ _. True) s"
    by (rule wp_GetMapping [OF laws]) (simp add: defs)
  have "wp True (SyncRealmRoles_Serve env c g ctx) (\<lambda>_ s'. names (world s') = set (grp_RealmRoles g)) (\<lambda>_ _. True) s"
    unfolding SyncRealmRoles_Serve_def Let_def wp_bindIO [of _ "getMem _"] wp_bindIO [of _ "wrapErr _ _"] wp_getMem wp_wrapErr
    by (rule wp_weaken [OF current], elim conjE)
      (rule wp_claim_mapping [OF lookup_law_sendRequest [OF laws] wp_PostMapping [OF laws] wp_DeleteMapping [OF laws]];
       simp add: defs)
  from wp_OkD [OF this assms(2)] show ?thesis .
qed

definition group_client_mapping :: "string \<Rightarrow> string \<Rightarrow> string \<Rightarrow> string list" where
  "group_client_mapping realm groupID uuid = realm_path realm [''groups'', groupID, ''role-mappings'', ''clients'', uuid]"

text \<open>
  Client roles of a group: when the roles of one client have been synchronised without an
  error, they are exactly the claimed ones. The mappings read at the start must be current for
  this client: with its id and roles if it has any, and without an entry if it has none.
\<close>

theorem syncOneClientRoles_correct:
  assumes laws: "role_mapping_server env (group_client_mapping realm groupID uuid)
      (realm_path realm [''clients'', uuid, ''roles'']) names"
    and clients: "\<And>c w r w'. success env c (mk_request GET (realm_path realm [''clients'']) [(''clientId'', clientID)] NoBody) w r w' \<Longrightarrow>
        names w' = names w \<and> (\<forall>cls cl. json_clients r = Some cls \<longrightarrow> cl \<in> set cls \<longrightarrow> cl_ClientId cl = Some clientID \<longrightarrow>
          cl_Id cl \<noteq> None \<longrightarrow> cl_Id cl = Some uuid)"
    and cached: "case map_of mappings clientID of None \<Rightarrow> names (world s) = {}
        | Some cm \<Rightarrow> cmr_Id cm = Some uuid \<and> names_of (the_default [] (cmr_Mappings cm)) = names (world s)"
    and "syncOneClientRoles env c realm groupID clientID claimed mappings s = (Ok (), s')"
  shows "names (world s') = set claimed"
proof -
  note defs = group_client_mapping_def client_defs realm_path_def
  have found: "wp True (GetClients env c realm [(''clientId'', clientID)]) (\<lambda>cls s'. names (world s') = names (world s) \<and>
      (\<forall>cl \<in> set cls. cl_ClientId cl = Some clientID \<longrightarrow> cl_Id cl \<noteq> None \<longrightarrow> cl_Id cl = Some uuid)) (\<lambda>_ _. True) s"
    unfolding GetClients_def wp_bindIO
  proof (rule wp_sendRequest)
    fix r w'
    assume "success env c (mk_request GET (realm_path realm [''clients'']) [(''clientId'', clientID)] NoBody) (world s) r w'"
    from clients [OF this] show "wp True (ret (case json_clients r of None \<Rightarrow> [] | Some xs \<Rightarrow> xs)) (\<lambda>cls s'. names (world s') = names (world s) \<and>
        (\<forall>cl \<in> set cls. cl_ClientId cl = Some clientID \<longrightarrow> cl_Id cl \<noteq> None \<longrightarrow> cl_Id cl = Some uuid)) (\<lambda>_ _. True)
        (s\<lparr>world := w', trace := trace s @ [Http c (mk_request GET (realm_path realm [''clients'']) [(''clientId'', clientID)] NoBody)]\<rparr>)"
      by (cases "json_clients r") auto
  qed
  have resolved: "wp True (resolveClientUUID env c realm clientID) (\<lambda>i s'. names (world s') = names (world s) \<and> i = uuid)
      (\<lambda>_ _. True) s"
    unfolding resolveClientUUID_def wp_bindIO wp_wrapErr
    by (rule wp_weaken [OF found]) (auto split: option.split simp: find_Some_iff)
  have current: "wp True (current_client_roles env c realm clientID mappings)
      (\<lambda>p s'. fst p = uuid \<and> names (world s') = names (world s) \<and> names_of (snd p) = names (world s)) (\<lambda>_ _. True) s"
    using cached wp_weaken [OF resolved] by (auto simp: current_client_roles_def split: option.splits)
  have "wp True (syncOneClientRoles env c realm groupID clientID claimed mappings) (\<lambda>_ s'. names (world s') = set claimed) (\<lambda>_ _. True) s"
    unfolding syncOneClientRoles_def Let_def split_beta wp_bindIO [of _ "current_client_roles _ _ _ _ _"]
    by (rule wp_weaken [OF current], elim conjE, simp only:)
      (rule wp_claim_mapping [OF lookup_law_sendRequest [OF laws] wp_PostMapping [OF laws] wp_DeleteMapping [OF laws]];
       simp add: defs)
  from wp_OkD [OF this assms(4)] show ?thesis .
qed

section \<open>Flush\<close>

lemma RemoveSliceIndex_props:
  assumes "snd st \<le> length (fst st)"
  shows "length (fst (RemoveSliceIndex st i)) = length (fst st)"
    and "set (fst (RemoveSliceIndex st i)) \<subseteq> set (fst st)"
    and "snd (RemoveSliceIndex st i) \<le> length (fst st)"
proof -
  obtain arr len where st: "st = (arr, len)" by (cases st)
  show "length (fst (RemoveSliceIndex st i)) = length (fst st)"
    using assms by (auto simp: RemoveSliceIndex_def st Let_def nat_less_iff min_def)
  show "set (fst (RemoveSliceIndex st i)) \<subseteq> set (fst st)"
    by (auto simp: RemoveSliceIndex_def st Let_def dest: in_set_takeD in_set_dropD)
  show "snd (RemoveSliceIndex st i) \<le> length (fst st)"
    using assms by (auto simp: RemoveSliceIndex_def st Let_def)
qed

lemma scan_stale_props:
  assumes "\<forall>i \<in> set is. i < length (fst storage)" and "snd storage \<le> length (fst storage)"
    and "scan_stale current is (storage, stale) = (storage', stale')"
  shows "set stale' \<subseteq> set stale \<union> (set (fst storage) - set current) \<and> set (fst storage') \<subseteq> set (fst storage)"
  using assms
proof (induction "is" arbitrary: storage stale)
  case (Cons i "is")
  let ?x = "fst storage ! i"
  have x: "?x \<in> set (fst storage)" using Cons.prems(1) by simp
  note p = RemoveSliceIndex_props [OF Cons.prems(2), of "int i"]
  show ?case
  proof (cases "?x \<in> set current")
    case True
    then show ?thesis using Cons by simp
  next
    case False
    with Cons.prems have rec: "scan_stale current is (RemoveSliceIndex storage (int i), stale @ [?x]) = (storage', stale')"
      by simp
    have "set stale' \<subseteq> set (stale @ [?x]) \<union> (set (fst (RemoveSliceIndex storage (int i))) - set current) \<and>
        set (fst storage') \<subseteq> set (fst (RemoveSliceIndex storage (int i)))"
      by (rule Cons.IH [OF _ _ rec]) (use Cons.prems p in auto)
    with p(2) x False show ?thesis by auto
  qed
qed simp

definition group_delete_event :: "kc_client \<Rightarrow> string \<Rightarrow> string \<Rightarrow> event" where
  "group_delete_event c realm i = Http c (mk_request DELETE (realm_path realm [''groups'', i]) [] NoBody)"

lemma flush_delete_groups_trace:
  "flush_delete_groups env c realm xs s = (r, s') \<Longrightarrow>
   mem s' = mem s \<and> (\<exists>es. trace s' = trace s @ es \<and> set es \<subseteq> group_delete_event c realm ` set xs)"
proof (induction xs arbitrary: s)
  case (Cons x xs)
  obtain y s1 where send: "client_DeleteGroup env c realm x s = (y, s1)" by (cases "client_DeleteGroup env c realm x s")
  then have s1: "trace s1 = trace s @ [group_delete_event c realm x]" "mem s1 = mem s"
    by (auto simp: client_DeleteGroup_def group_delete_event_def bindIO_def ret_def
        dest!: sendRequest_trace split: prod.splits outcome.splits)
  show ?case
  proof (cases y)
    case (Ok a)
    with Cons.prems send have "flush_delete_groups env c realm xs s1 = (r, s')" by (simp add: bindIO_def tryIO_def)
    from Cons.IH [OF this] s1 show ?thesis by fastforce
  qed (use Cons.prems send s1 in \<open>auto simp: bindIO_def tryIO_def ret_def fail_def split: if_splits\<close>)
qed (simp add: ret_def)

text \<open>
  C34. A flush of groups touches only forgotten groups: every \<open>DELETE\<close> it sends names a group that a
  former run recorded and that is not among the groups of this run, however often the in-place
  removals shift the ids under the loop.
\<close>

theorem group_Flush_safe:
  assumes "group_Flush env c groupIDs s = (r, s')"
    and "e \<in> set (drop (length (trace s)) (trace s'))" and "e = Http c' rq" and "rq_method rq = DELETE"
  shows "\<exists>i. e = group_delete_event c (rs_RealmName (kr_Spec (rm_realm (mem s)))) i \<and>
     i \<in> set (rst_GroupIDs (kr_Status (rm_realm (mem s)))) \<and> i \<notin> set groupIDs"
proof (cases "hasReconciliationStrategyFull (rm_realm (mem s))")
  case True
  let ?ids = "rst_GroupIDs (kr_Status (rm_realm (mem s)))" and ?realm = "rs_RealmName (kr_Spec (rm_realm (mem s)))"
  obtain storage stale where scan: "scan_recorded groupIDs ?ids = (storage, stale)" by (cases "scan_recorded groupIDs ?ids")
  then have stale: "set stale \<subseteq> set ?ids - set groupIDs"
    using scan_stale_props [of "[0..<length ?ids]" "(?ids, length ?ids)" groupIDs "[]"] by (auto simp: scan_recorded_def)
  let ?s0 = "s\<lparr>mem := set_GroupIDs (fst storage) (mem s)\<rparr>"
  obtain x s1 where run: "flush_delete_groups env c ?realm stale ?s0 = (x, s1)"
    by (cases "flush_delete_groups env c ?realm stale ?s0")
  from flush_delete_groups_trace [OF run] obtain es where
    es: "trace s1 = trace s @ es" "set es \<subseteq> group_delete_event c ?realm ` set stale" by auto
  have "\<exists>es'. trace s' = trace s1 @ es' \<and> (\<forall>e \<in> set es'. \<forall>c rq. e \<noteq> Http c rq)"
  proof (cases "x = Ok False")
    case True
    let ?s2 = "s1\<lparr>mem := set_GroupIDs (RemoveDuplicates (slice_of storage @ groupIDs)) (mem s1)\<rparr>"
    have "wrapErr ''unable to update status of group: '' (k8s_StatusUpdate env realm_obj) ?s2 = (r, s')"
      using assms(1) \<open>hasReconciliationStrategyFull (rm_realm (mem s))\<close> scan run True
      by (simp add: group_Flush_def bindIO_def getMem_def modMem_def)
    then have "s' = snd (k8s_StatusUpdate env realm_obj ?s2)"
      using wrapErr_snd [of "''unable to update status of group: ''" "k8s_StatusUpdate env realm_obj" ?s2] by (simp del: wrapErr_snd)
    then have "trace s' = trace s1 @ [Kube (KStatusUpdate (RealmObj (rm_realm (mem ?s2))))]"
      using realm_status_trace [OF prod.collapse [symmetric], of env ?s2] by simp
    then show ?thesis by simp
  next
    case False
    with assms(1) \<open>hasReconciliationStrategyFull (rm_realm (mem s))\<close> scan run have "s' = s1"
      by (cases x) (auto simp: group_Flush_def bindIO_def getMem_def modMem_def ret_def)
    then show ?thesis by simp
  qed
  with es assms(2,3) have "e \<in> set es" by fastforce
  with es(2) stale show ?thesis by auto
next
  case False
  with assms(1,2) show ?thesis by (auto simp: group_Flush_def bindIO_def getMem_def ret_def)
qed

text \<open>
  The removals inside the loop lose groups: of three neighbouring recorded groups that are all
  gone from the resource, the second is never deleted and stays in the record, and the third is
  deleted twice, where the second attempt may end the flush before it has saved anything.
\<close>

theorem group_Flush_skips:
  assumes "a \<notin> set groupIDs" and "b \<notin> set groupIDs" and "d \<notin> set groupIDs"
  shows "\<exists>arr. scan_recorded groupIDs [a, b, d] = ((arr, 1), [a, d, d]) \<and> slice_of (arr, 1) = [b]"
  using assms by (simp add: scan_recorded_def RemoveSliceIndex_def Let_def slice_of_def upt_rec)

section \<open>Groups with a parent\<close>

lemma foldIO_append: "foldIO f (xs @ ys) acc = bindIO (foldIO f xs acc) (foldIO f ys)"
  by (induction xs arbitrary: acc) (auto simp: bindIO_def ret_def split: prod.split outcome.split)

lemma wp_foldIO_never:
  assumes "x \<in> set xs" and "\<And>acc s. wp True (f x acc) (\<lambda>_ _. False) (\<lambda>_ _. True) s"
  shows "wp True (foldIO f xs acc) (\<lambda>_ _. False) (\<lambda>_ _. True) s"
proof -
  from assms(1) obtain ys zs where xs: "xs = ys @ x # zs" by (auto dest: split_list)
  have "f x a t \<noteq> (Ok v, t')" for a t v t' using assms(2) [of a t] by (auto simp: wp_def)
  then show ?thesis by (auto simp: xs foldIO_append wp_def bindIO_def split: prod.split outcome.split)
qed

text \<open>
  A new group with a parent is never created. The id of the parent is looked up under the
  name of the group itself; as long as Keycloak has no group of that name, the chain does not
  succeed for a resource with such a group, whatever else Keycloak answers.
\<close>

theorem child_group_never_created:
  assumes "g \<in> set (rs_Groups (kr_Spec (rm_realm (mem s))))" and "grp_ParentGroup g \<noteq> None"
    and "distinct (map grp_Name (rs_Groups (kr_Spec (rm_realm (mem s)))))"
    and "rooted (rs_Groups (kr_Spec (rm_realm (mem s)))) g"
    and absent: "\<And>c w r w' gs. success env c (mk_request GET (realm_path (rs_RealmName (kr_Spec (rm_realm (mem s)))) [''groups''])
        [(''search'', grp_Name g), (''exact'', ''true'')] NoBody) w r w' \<Longrightarrow> json_groups r = Some gs \<Longrightarrow>
        findGroupInList gs (grp_Name g) = None"
  shows "fst (group_Chain_Serve depth env h c s) \<noteq> Ok ()"
proof -
  let ?spec = "kr_Spec (rm_realm (mem s))"
  have find: "wp True (FindGroupByName env c (rs_RealmName ?spec) (grp_Name g)) (\<lambda>_ _. False) (\<lambda>_ _. True) s1" for s1
    unfolding FindGroupByName_def wp_bindIO
    by (rule wp_sendRequest) (use absent in \<open>auto split: option.split\<close>)
  have never: "wp True (group_serveOne env h c (rs_RealmName ?spec) g acc) (\<lambda>_ _. False) (\<lambda>_ _. True) s1" for acc s1
    unfolding group_serveOne_def getParentGroupID_def using assms(2) by (auto intro!: wp_weaken [OF find])
  have "wp True (group_Chain_Serve depth env h c) (\<lambda>_ _. False) (\<lambda>_ _. True) s"
  proof (cases "SortRealmGroupByParent depth (rs_Groups ?spec)")
    case None
    then show ?thesis by (simp add: group_Chain_Serve_def)
  next
    case (Some gs)
    then have "g \<in> set gs" using Sort_content [OF assms(3)] assms(1,4) by blast
    with never have "wp True (foldIO (group_serveOne env h c (rs_RealmName ?spec)) gs acc) (\<lambda>_ _. False) (\<lambda>_ _. True) s1" for acc s1
      by (intro wp_foldIO_never) auto
    then show ?thesis using Some wp_weaken by (fastforce simp: group_Chain_Serve_def)
  qed
  then show ?thesis by (auto simp: wp_def split: prod.splits)
qed

section \<open>Concrete runs\<close>

definition group_start :: "'w \<Rightarrow> ('w, event, realm_mem) io_state" where
  "group_start w = \<lparr>world = w, trace = [], mem = \<lparr>rm_realm = idle_realm, rm_RoleID = '''', rm_GroupID = ''g''\<rparr>\<rparr>"

definition roles_group :: Group where
  "roles_group = (test_group ''team'' None)\<lparr>grp_RealmRoles := [''b'', ''c'']\<rparr>"

theorem SyncRealmRoles_witness:
  "set (world (snd (SyncRealmRoles_Serve (mapping_env (group_realm_mapping ''r'' ''g'')) 0 roles_group
      \<lparr>gc_ParentGroupID = '''', gc_RealmName = ''r''\<rparr> (group_start [''a'', ''b''])))) = {''b'', ''c''}"
proof -
  let ?m = "SyncRealmRoles_Serve (mapping_env (group_realm_mapping ''r'' ''g'')) 0 roles_group
      \<lparr>gc_ParentGroupID = '''', gc_RealmName = ''r''\<rparr> (group_start [''a'', ''b''])"
  have "fst ?m = Ok ()"
    by (simp add: SyncRealmRoles_Serve_def unclaimed_def group_realm_mapping_def group_start_def roles_group_def
        test_group_def server_simps go_simps Let_def)
  then have run: "?m = (Ok (), snd ?m)" by (metis prod.collapse)
  have "role_mapping_server (mapping_env (group_realm_mapping ''r'' ''g'')) (group_realm_mapping ''r'' ''g'')
      (realm_path ''r'' [''roles'']) set"
    by (rule mapping_env_server) (simp add: group_realm_mapping_def realm_path_def)
  with SyncRealmRoles_correct [OF _ run, of set] show ?thesis
    by (simp add: group_start_def roles_group_def)
qed

theorem syncOneClientRoles_witness:
  "set (world (snd (syncOneClientRoles (mapping_env (group_client_mapping ''r'' ''g'' ''uuid'')) 0 ''r'' ''g'' ''app''
      [''x'', ''y''] [] (group_start [])))) = {''x'', ''y''}"
proof -
  let ?env = "mapping_env (group_client_mapping ''r'' ''g'' ''uuid'')"
  let ?m = "syncOneClientRoles ?env 0 ''r'' ''g'' ''app'' [''x'', ''y''] [] (group_start [])"
  have "fst ?m = Ok ()"
    by (simp add: syncOneClientRoles_def current_client_roles_def resolveClientUUID_def unclaimed_def
        group_client_mapping_def group_start_def server_simps go_simps Let_def)
  then have run: "?m = (Ok (), snd ?m)" by (metis prod.collapse)
  have laws: "role_mapping_server ?env (group_client_mapping ''r'' ''g'' ''uuid'')
      (realm_path ''r'' [''clients'', ''uuid'', ''roles'']) set"
    by (rule mapping_env_server) (simp add: group_client_mapping_def realm_path_def)
  show ?thesis
    by (rule trans [OF syncOneClientRoles_correct [where names = set, OF laws _ _ run]])
      (auto simp: success_def mapping_env_def accepted_def json_clients_def group_client_mapping_def realm_path_def group_start_def)
qed

definition recorded_groups :: KeycloakRealm where
  "recorded_groups = idle_realm\<lparr>kr_Status := zero_RealmStatus\<lparr>rst_GroupIDs := [''old'', ''g'']\<rparr>\<rparr>"

theorem group_Flush_safe_witness:
  "let s' = snd (group_Flush accepting_env 0 [''g''] (realm_start () recorded_groups))
   in hd (trace s') = group_delete_event 0 ''realm'' ''old'' \<and>
      (\<exists>i. hd (trace s') = group_delete_event 0 ''realm'' i \<and> i \<in> {''old'', ''g''} \<and> i \<notin> {''g''})"
proof -
  let ?m = "group_Flush accepting_env 0 [''g''] (realm_start () recorded_groups)"
  have tr: "trace (snd ?m) \<noteq> []" "hd (trace (snd ?m)) = group_delete_event 0 ''realm'' ''old''"
    by (simp_all add: group_Flush_def scan_recorded_def RemoveSliceIndex_def flush_delete_role_def recorded_groups_def
        hasReconciliationStrategyFull_def PreserveResourcesOnDeletion_def idle_realm_def realm_start_def realm_obj_def
        k8s_StatusUpdate_def set_GroupIDs_def get_str_def zero_RealmStatus_def zero_RealmSpec_def zero_ObjectMeta_def
        accepting_env_def server_simps go_simps Let_def group_delete_event_def upt_rec)
  have "\<exists>i. hd (trace (snd ?m)) = group_delete_event 0 (rs_RealmName (kr_Spec (rm_realm (mem (realm_start () recorded_groups))))) i \<and>
     i \<in> set (rst_GroupIDs (kr_Status (rm_realm (mem (realm_start () recorded_groups))))) \<and> i \<notin> set [''g'']"
  proof (rule group_Flush_safe [OF surjective_pairing])
    show "hd (trace (snd ?m)) \<in> set (drop (length (trace (realm_start () recorded_groups))) (trace (snd ?m)))"
      using tr(1) by (simp add: realm_start_def)
  qed (rule tr(2) [unfolded group_delete_event_def], simp)
  with tr(2) show ?thesis
    by (simp add: Let_def realm_start_def recorded_groups_def idle_realm_def)
qed

theorem group_Flush_skips_witness:
  "\<exists>arr. scan_recorded [''x''] [''a'', ''b'', ''c''] = ((arr, 1), [''a'', ''c'', ''c'']) \<and> slice_of (arr, 1) = [''b'']"
  by (rule group_Flush_skips) simp_all

definition nested_realm :: KeycloakRealm where
  "nested_realm = idle_realm\<lparr>kr_Spec := zero_RealmSpec\<lparr>rs_RealmName := ''realm'',
     rs_Groups := [test_group ''p'' None, test_group ''k'' (Some ''p'')]\<rparr>\<rparr>"

theorem child_group_witness:
  "fst (group_Chain_Serve 10 accepting_env \<lparr>h_watchNamespace = '''', h_enableOwnerRef = False\<rparr> 0 (realm_start () nested_realm)) \<noteq> Ok ()"
proof (rule child_group_never_created)
  show "test_group ''k'' (Some ''p'') \<in> set (rs_Groups (kr_Spec (rm_realm (mem (realm_start () nested_realm)))))"
    by (simp add: realm_start_def nested_realm_def)
  show "rooted (rs_Groups (kr_Spec (rm_realm (mem (realm_start () nested_realm))))) (test_group ''k'' (Some ''p''))"
    unfolding rooted_def
    by (rule exI [of _ "[test_group ''p'' None]"])
      (simp add: realm_start_def nested_realm_def test_group_def parent_name_def)
qed (auto simp: realm_start_def nested_realm_def test_group_def success_def accepting_env_def accepted_def json_groups_def)

end
