(* ===== verification/TerminatorProps.thy ===== *)
theory TerminatorProps
  imports Terminator GroupProps
begin

text \<open>
  Properties of the terminator of a realm: which deletions it can send, that it comes to an end
  when tokens are not rejected for ever, and that it does not otherwise.
\<close>

section \<open>What can be deleted\<close>

definition terminator_deletable :: "KeycloakRealmSpec \<Rightarrow> string list set" where
  "terminator_deletable spec =
     {realm_path (rs_RealmName spec) [''identity-provider'', ''instances'', ip_Alias idp] |idp. idp \<in> set (rs_IdentityProviders spec)} \<union>
     {realm_path (rs_RealmName spec) [''roles'', rol_Name role] |role. role \<in> set (rs_Roles spec) \<and>
        (\<forall>d. rs_DefaultRole spec = Some d \<longrightarrow> drr_Name d \<noteq> rol_Name role)} \<union>
     {realm_path (rs_RealmName spec) [''groups'', i] |i. True} \<union>
     {realm_path (rs_RealmName spec) []}"

definition terminator_events :: "KeycloakRealmSpec \<Rightarrow> event set" where
  "terminator_events spec = {e. (\<forall>k. e = Kube k \<longrightarrow> (\<exists>kind n x. k = KGet kind n x)) \<and> (\<forall>c rq. e = Http c rq \<longrightarrow>
     rq_method rq = GET \<or> rq_method rq = DELETE \<and> rq_path rq \<in> terminator_deletable spec)}"

lemma terminator_events_simps [simp]:
  "Http c rq \<in> terminator_events spec \<longleftrightarrow>
     rq_method rq = GET \<or> rq_method rq = DELETE \<and> rq_path rq \<in> terminator_deletable spec"
  "Kube (KGet kind n x) \<in> terminator_events spec" "NewClient p \<in> terminator_events spec"
  by (auto simp: terminator_events_def)

lemma terminator_deletable_intros:
  "idp \<in> set (rs_IdentityProviders spec) \<Longrightarrow>
     realm_path (rs_RealmName spec) [''identity-provider'', ''instances'', ip_Alias idp] \<in> terminator_deletable spec"
  "role \<in> set (rs_Roles spec) \<Longrightarrow> (\<And>d. rs_DefaultRole spec = Some d \<Longrightarrow> drr_Name d \<noteq> rol_Name role) \<Longrightarrow>
     realm_path (rs_RealmName spec) [''roles'', rol_Name role] \<in> terminator_deletable spec"
  "realm_path (rs_RealmName spec) [''groups'', i] \<in> terminator_deletable spec"
  "realm_path (rs_RealmName spec) [] \<in> terminator_deletable spec"
  by (auto simp: terminator_deletable_def)

lemma emits_realm_refreshToken [emits_intros]:
  "(\<And>kind n x. Kube (KGet kind n x) \<in> S) \<Longrightarrow> (\<And>p. NewClient p \<in> S) \<Longrightarrow> emits_under P S (realm_refreshToken env h)"
  unfolding realm_refreshToken_def CreateKeycloakClientV2FromConfigRef_def createKeycloakClientV2FromAuthData_def
    getCredentialsFromSecret_def NewKeycloakClient_def
  by (intro emits_intros)

lemma emits_DeleteIdentityProvider [emits_intros]:
  "emits_under P (terminator_events spec) (DeleteIdentityProvider depth env h spec c)"
proof (induction depth arbitrary: c)
  case (Suc depth)
  have "set idps \<subseteq> set (rs_IdentityProviders spec) \<Longrightarrow>
      emits_under P (terminator_events spec) (delete_idps env c (rs_RealmName spec) idps)" for idps
    by (induction idps) (auto simp: client_DeleteIdentityProvider_def intro!: emits_intros terminator_deletable_intros)
  then show ?case by (auto intro!: emits_intros Suc.IH)
qed (simp add: emits_intros)

lemma emits_remove_role_retry:
  assumes "role \<in> set (rs_Roles spec)" and "\<And>d. rs_DefaultRole spec = Some d \<Longrightarrow> drr_Name d \<noteq> rol_Name role"
  shows "emits_under P (terminator_events spec) (remove_role_retry env h (rs_RealmName spec) role c)"
  unfolding remove_role_retry_def RemoveRole_ServeRequest_def DeleteRealmRole_def
  by (intro emits_intros) (use assms in \<open>auto intro: terminator_deletable_intros(2)\<close>)

lemma emits_DeleteRole [emits_intros]: "emits_under P (terminator_events spec) (DeleteRole env h spec c)"
proof -
  have "set roles \<subseteq> set (rs_Roles spec) \<Longrightarrow>
      emits_under P (terminator_events spec) (delete_roles env h (rs_RealmName spec) (rs_DefaultRole spec) roles c)" for roles
    by (induction roles arbitrary: c) (auto intro!: emits_intros emits_remove_role_retry split: option.splits)
  then show ?thesis by (simp add: DeleteRole_def)
qed

lemma emits_deleteGroupItem [emits_intros]:
  "emits_under P (terminator_events spec) (deleteGroupItem env c (rs_RealmName spec) name)"
  unfolding deleteGroupItem_def FindGroupByName_def client_DeleteGroup_def
  by (intro emits_intros) (auto intro: terminator_deletable_intros)

lemma emits_DeleteGroup [emits_intros]: "emits_under P (terminator_events spec) (DeleteGroup depth env h spec c)"
proof (induction depth arbitrary: c)
  case (Suc depth)
  have "emits_under P (terminator_events spec) (delete_groups env c (rs_RealmName spec) gs)" for gs
    by (induction gs) (auto intro!: emits_intros)
  then show ?case by (auto intro!: emits_intros Suc.IH)
qed (simp add: emits_intros)

lemma emits_DeleteResource [emits_intros]:
  "emits_under P (terminator_events spec) (DeleteResource depth env h spec c preserve)"
  unfolding DeleteResource_def DeleteRealm_def by (intro emits_intros) (auto intro: terminator_deletable_intros)


section \<open>Tokens that are rejected\<close>

lemma sublist_append_boundary:
  assumes "sublist p (xs @ CHR '':'' # CHR '' '' # ys)" and "CHR '':'' \<notin> set p" and "hd p \<noteq> CHR '' ''" and "p \<noteq> []"
  shows "sublist p xs \<or> sublist p ys"
proof -
  from assms(1) obtain u v where eq: "u @ p @ v = xs @ CHR '':'' # CHR '' '' # ys" by (auto simp: sublist_def)
  have "CHR '':'' \<in> set p \<or> sublist p xs \<or> (\<exists>t. CHR '' '' # ys = t @ p @ v)"
    using eq
  proof (induction xs arbitrary: u)
    case Nil
    show ?case
    proof (cases u)
      case Nil
      with Nil.prems assms(4) show ?thesis by (cases p) auto
    next
      case (Cons a l)
      with Nil.prems have "CHR '' '' # ys = l @ p @ v" by simp
      then show ?thesis by blast
    qed
  next
    case (Cons x xs)
    show ?case
    proof (cases u)
      case Nil
      then have "p @ v = (x # xs) @ CHR '':'' # CHR '' '' # ys" using Cons.prems by simp
      then have "prefix p (x # xs) \<or> (\<exists>q. p = (x # xs) @ q \<and> q @ v = CHR '':'' # CHR '' '' # ys)"
        unfolding append_eq_append_conv2 prefix_def by (elim exE disjE conjE) (blast, metis)
      then have "prefix p (x # xs) \<or> CHR '':'' \<in> set p" by (auto simp: append_eq_Cons_conv)
      then show ?thesis by (auto simp: prefix_imp_sublist)
    next
      case (Cons y u')
      with Cons.prems Cons.IH [of u'] show ?thesis by (auto simp: sublist_Cons_right)
    qed
  qed
  with assms(2) consider "sublist p xs" | t where "CHR '' '' # ys = t @ p @ v" by blast
  then show ?thesis
  proof cases
    case 2
    with assms(3,4) obtain t' where "ys = t' @ p @ v" by (cases t; cases p) auto
    then show ?thesis by (auto simp: sublist_def)
  qed simp
qed

text \<open>A text that does not itself read as a rejected token adds none in front of an error.\<close>

lemma IsUnauthorizedError_prefix:
  assumes "\<not> IsUnauthorizedError (Some (NewError (t @ '': '')))" and "IsUnauthorizedError (Some (Wrapped (t @ '': '') e))"
  shows "IsUnauthorizedError (Some e)"
proof -
  have split: "strings_Contains (strings_ToLower t @ '': '' @ strings_ToLower (Error e)) p \<Longrightarrow>
      strings_Contains (strings_ToLower t @ '': '') p \<or> strings_Contains (strings_ToLower (Error e)) p"
    if "CHR '':'' \<notin> set p" and "hd p \<noteq> CHR '' ''" and "p \<noteq> []" for p
    using sublist_append_boundary [of p "strings_ToLower t" "strings_ToLower (Error e)"] that
    by (auto simp: strings_Contains_sublist sublist_append)
  have low: "strings_ToLower (CHR '':'' # CHR '' '' # s) = CHR '':'' # CHR '' '' # strings_ToLower s" for s
    by (simp add: strings_ToLower_def lower_char_def)
  have nil: "strings_ToLower [] = []" by (simp add: strings_ToLower_def)
  show ?thesis
    using assms split [of "''401''"] split [of "''unauthorized''"] split [of "''invalid_token''"] split [of "''token expired''"]
    by (auto simp: IsUnauthorizedError_def Let_def errors_As_Wrapped low nil errors_As_def)
qed

text \<open>
  How often tokens can still be rejected, as a function of the state of the outside: it never
  grows, every new client lowers it, and at zero no answer is an error that reads as a rejected
  token.
\<close>

definition token_budget :: "'w env \<Rightarrow> ('w \<Rightarrow> nat) \<Rightarrow> bool" where
  "token_budget env B \<longleftrightarrow>
     (\<forall>c rq w. B (snd (kc_http env c rq w)) \<le> B w) \<and>
     (\<forall>rq w. B (snd (k8s env rq w)) \<le> B w) \<and>
     (\<forall>p w. B (snd (kc_new env p w)) \<le> B w - 1) \<and>
     (\<forall>c rq w e. B w = 0 \<longrightarrow> fst (kc_http env c rq w) = Inl e \<longrightarrow> \<not> IsUnauthorizedError (Some e)) \<and>
     (\<forall>c rq w r e. B w = 0 \<longrightarrow> fst (kc_http env c rq w) = Inr (Some r) \<longrightarrow>
        checkResponseError (hr_HTTPResponse r) (hr_Body r) = Some e \<longrightarrow> \<not> IsUnauthorizedError (Some e))"

lemma wp_callIO_budget:
  fixes B :: "'w \<Rightarrow> nat" and n :: "nat \<Rightarrow> nat"
  assumes "\<And>w. B (snd (g w)) \<le> n (B w)" and "\<And>x y. x \<le> y \<Longrightarrow> n x \<le> n y" and "B (world s) \<le> k"
  shows "wp False (callIO e g) (\<lambda>a s'. fst (g (world s)) = Inr a \<and> B (world s') \<le> n k)
     (\<lambda>err s'. fst (g (world s)) = Inl err \<and> B (world s') \<le> n k) s"
  using order_trans [OF assms(1) assms(2) [OF assms(3)]] by (auto simp: wp_callIO split: prod.splits sum.splits)

definition answered :: "'w env \<Rightarrow> kc_client \<Rightarrow> http_request \<Rightarrow> http_result \<Rightarrow> bool" where
  "answered env c rq r \<longleftrightarrow> (\<exists>w w'. success env c rq w r w')"

lemma ErrNilResponse_authorized: "\<not> IsUnauthorizedError (Some (Sentinel ErrNilResponse))"
  by code_simp

lemma wp_sendRequest_budget:
  assumes "token_budget env B" and "B (world s) \<le> n"
  shows "wp False (sendRequest env c rq) (\<lambda>r s'. B (world s') \<le> n \<and> answered env c rq r)
     (\<lambda>e s'. B (world s') \<le> n \<and> (IsUnauthorizedError (Some e) \<longrightarrow> 0 < n)) s"
proof -
  have call: "wp False (callIO (Http c rq) (kc_http env c rq)) (\<lambda>a s'. fst (kc_http env c rq (world s)) = Inr a \<and> B (world s') \<le> n)
     (\<lambda>err s'. fst (kc_http env c rq (world s)) = Inl err \<and> B (world s') \<le> n) s"
    by (rule wp_callIO_budget [where n = id, simplified]) (use assms in \<open>auto simp: token_budget_def\<close>)
  have rejected: "fst (kc_http env c rq (world s)) = Inl e \<Longrightarrow> IsUnauthorizedError (Some e) \<Longrightarrow> 0 < n"
    "fst (kc_http env c rq (world s)) = Inr (Some r) \<Longrightarrow> checkResponseError (hr_HTTPResponse r) (hr_Body r) = Some e \<Longrightarrow>
      IsUnauthorizedError (Some e) \<Longrightarrow> 0 < n" for e r
    using assms by (cases "n = 0"; auto simp: token_budget_def)+
  have answered: "fst (kc_http env c rq (world s)) = Inr (Some r) \<Longrightarrow>
      checkResponseError (hr_HTTPResponse r) (hr_Body r) = None \<Longrightarrow> answered env c rq r" for r
    unfolding answered_def success_def by (metis prod.collapse)
  show ?thesis
    unfolding sendRequest_def wp_bindIO
    by (rule wp_mono [OF call]) (auto simp: ErrNilResponse_authorized split: option.split intro: rejected answered)
qed

lemma wp_refresh_budget:
  assumes "token_budget env B" and "B (world s) \<le> n"
  shows "wp False (realm_refreshToken env h) (\<lambda>_ s'. B (world s') \<le> n - 1) (\<lambda>_ _. True) s"
proof -
  have get: "wp False (callIO (Kube rq) (k8s env rq)) (\<lambda>a s'. B (world s') \<le> n) (\<lambda>_ _. True) s" for rq
    by (rule wp_mono [OF wp_callIO_budget [where n = id and B = B and k = n, simplified]])
      (use assms in \<open>auto simp: token_budget_def\<close>)
  have new: "B (world s1) \<le> n \<Longrightarrow>
      wp False (callIO (NewClient p) (kc_new env p)) (\<lambda>a s'. B (world s') \<le> n - 1) (\<lambda>_ _. True) s1" for p and s1 :: "('a, event, realm_mem) io_state"
    by (rule wp_mono [OF wp_callIO_budget [where n = "\<lambda>x. x - 1" and B = B and k = n]])
      (use assms in \<open>auto simp: token_budget_def\<close>)
  show ?thesis
    unfolding realm_refreshToken_def CreateKeycloakClientV2FromConfigRef_def createKeycloakClientV2FromAuthData_def
      getCredentialsFromSecret_def get_secret_def k8s_Get_def NewKeycloakClient_def
    by (auto intro!: wp_mono [OF get] new [simplified] split: k8s_object.split)
qed

text \<open>The shape the two recursive operations share: a loop that tells a rejected token apart.\<close>

lemma wp_token_recursion:
  assumes budget: "token_budget env B"
    and step: "\<And>d c. f (Suc d) c = bindIO (loop d c) (\<lambda>unauthorized. if unauthorized
        then bindIO (realm_refreshToken env h) (f d) else ret c)"
    and loop: "\<And>d c s n. k \<le> d \<Longrightarrow> B (world s) \<le> n \<Longrightarrow>
        wp False (loop d c) (\<lambda>u s'. B (world s') \<le> n \<and> (u \<longrightarrow> 0 < n)) (\<lambda>_ _. True) s"
    and "B (world s) \<le> n" and "n + k < depth"
  shows "wp False (f depth c) (\<lambda>_ s'. B (world s') \<le> n) (\<lambda>_ _. True) s"
  using assms(4,5)
proof (induction depth arbitrary: n c s)
  case (Suc d)
  have again: "B (world s1) \<le> n \<Longrightarrow> 0 < n \<Longrightarrow>
      wp False (realm_refreshToken env h) (\<lambda>cl. wp False (f d cl) (\<lambda>_ s'. B (world s') \<le> n) (\<lambda>_ _. True)) (\<lambda>_ _. True) s1" for s1
    by (rule wp_mono [OF wp_refresh_budget [OF budget]])
      (use Suc.prems in \<open>auto intro!: wp_mono [OF Suc.IH [of _ "n - 1"]]\<close>)
  show ?case
    unfolding step wp_bindIO by (rule wp_mono [OF loop [of d s n]]) (use Suc.prems again in auto)
qed simp

lemma wp_delete_idps_budget:
  assumes "token_budget env B" and "B (world s) \<le> n"
  shows "wp False (delete_idps env c realm idps) (\<lambda>u s'. B (world s') \<le> n \<and> (u \<longrightarrow> 0 < n)) (\<lambda>_ _. True) s"
  using assms(2)
  by (induction idps arbitrary: s)
    (auto simp: client_DeleteIdentityProvider_def intro!: wp_mono [OF wp_sendRequest_budget [OF assms(1)]])

lemma wp_DeleteIdentityProvider_budget:
  assumes "token_budget env B" and "B (world s) \<le> n" and "n < depth"
  shows "wp False (DeleteIdentityProvider depth env h spec c) (\<lambda>_ s'. B (world s') \<le> n) (\<lambda>_ _. True) s"
  by (rule wp_token_recursion [where k = 0 and f = "\<lambda>d. DeleteIdentityProvider d env h spec", OF assms(1)])
    (use assms in \<open>auto intro!: wp_delete_idps_budget\<close>)

lemma wp_RemoveRole_budget:
  assumes "token_budget env B" and "B (world s) \<le> n"
  shows "wp False (RemoveRole_ServeRequest env c role realm) (\<lambda>_ s'. B (world s') \<le> n) (\<lambda>_ s'. B (world s') \<le> n) s"
  unfolding RemoveRole_ServeRequest_def DeleteRealmRole_def
  by (auto intro!: wp_mono [OF wp_sendRequest_budget [OF assms]])

lemma wp_DeleteRole_budget:
  assumes "token_budget env B" and "B (world s) \<le> n"
  shows "wp False (DeleteRole env h spec c) (\<lambda>_ s'. B (world s') \<le> n) (\<lambda>_ _. True) s"
proof -
  have retry: "B (world s) \<le> n \<Longrightarrow>
      wp False (remove_role_retry env h realm role c) (\<lambda>_ s'. B (world s') \<le> n) (\<lambda>_ _. True) s" for realm role c and s :: "('a, event, realm_mem) io_state"
    unfolding remove_role_retry_def
    by (auto intro!: wp_mono [OF wp_RemoveRole_budget [OF assms(1), where n = n]] wp_mono [OF wp_refresh_budget [OF assms(1), where n = n]])
  have "B (world s) \<le> n \<Longrightarrow>
      wp False (delete_roles env h realm def roles c) (\<lambda>_ s'. B (world s') \<le> n) (\<lambda>_ _. True) s" for realm def roles
    by (induction roles arbitrary: c s) (auto intro!: wp_mono [OF retry] split: sum.split)
  with assms(2) show ?thesis by (simp add: DeleteRole_def)
qed

text \<open>
  Two more conditions for groups: Keycloak answers with groups that have an id, and the texts the
  terminator puts in front of an error do not read as a rejected token because of the name they
  quote.
\<close>

definition groups_have_ids :: "'w env \<Rightarrow> bool" where
  "groups_have_ids env \<longleftrightarrow> (\<forall>c rq r gs n g. answered env c rq r \<longrightarrow> json_groups r = Some gs \<longrightarrow>
     findGroupInList gs n = Some g \<longrightarrow> gp_Id g \<noteq> None)"

definition harmless_name :: "string \<Rightarrow> bool" where
  "harmless_name name \<longleftrightarrow>
     \<not> IsUnauthorizedError (Some (NewError ((''unable to search for group '' @ go_quote name) @ '': ''))) \<and>
     \<not> IsUnauthorizedError (Some (NewError ((''unable to delete group: '' @ go_quote name) @ '': '')))"

lemma wp_deleteGroupItem_budget:
  assumes "token_budget env B" and "B (world s) \<le> n" and "groups_have_ids env" and "harmless_name name"
  shows "wp False (deleteGroupItem env c realm name) (\<lambda>_ s'. B (world s') \<le> n)
     (\<lambda>e s'. B (world s') \<le> n \<and> (IsUnauthorizedError (Some e) \<longrightarrow> 0 < n)) s"
proof -
  note calm = assms(4) [unfolded harmless_name_def]
  note plain = IsUnauthorizedError_prefix [OF conjunct1 [OF calm]] IsUnauthorizedError_prefix [OF conjunct2 [OF calm]]
  have find: "wp False (FindGroupByName env c realm name) (\<lambda>g s'. B (world s') \<le> n \<and> gp_Id g \<noteq> None)
      (\<lambda>e s'. B (world s') \<le> n \<and> (IsUnauthorizedError (Some e) \<longrightarrow> \<not> IsNotFound e \<longrightarrow> 0 < n)) s"
    unfolding FindGroupByName_def wp_bindIO
    by (rule wp_mono [OF wp_sendRequest_budget [OF assms(1,2)]])
      (use assms(3) in \<open>auto simp: groups_have_ids_def split: option.split\<close>)
  have delete: "B (world s) \<le> n \<Longrightarrow> wp False (client_DeleteGroup env c realm i) (\<lambda>_ s'. B (world s') \<le> n)
      (\<lambda>e s'. B (world s') \<le> n \<and> (IsUnauthorizedError (Some e) \<longrightarrow> 0 < n)) s" for i and s :: "('a, event, realm_mem) io_state"
    unfolding client_DeleteGroup_def by (auto intro!: wp_mono [OF wp_sendRequest_budget [OF assms(1)]])
  show ?thesis
    unfolding deleteGroupItem_def
    by (auto intro!: wp_mono [OF find] wp_mono [OF delete] dest!: plain [simplified] split: option.split)
qed

lemma FirstChild_subset:
  assumes "distinct (map grp_Name items)" and "SortRealmGroupByParentFirstChild d items = Some gs"
  shows "set gs \<subseteq> set items"
proof -
  from Sort_same_groups [of d items] assms(2) obtain hs where hs: "SortRealmGroupByParent d items = Some hs" "mset gs = mset hs"
    by (cases "SortRealmGroupByParent d items") auto
  with Sort_content [OF assms(1) hs(1)] mset_eq_setD [OF hs(2)] show ?thesis by auto
qed

lemma wp_DeleteGroup_budget:
  assumes "token_budget env B" and "B (world s) \<le> n" and "groups_have_ids env"
    and "\<forall>g \<in> set (rs_Groups spec). harmless_name (grp_Name g)"
    and "distinct (map grp_Name (rs_Groups spec))" and "n + length (rs_Groups spec) < depth"
  shows "wp False (DeleteGroup depth env h spec c) (\<lambda>_ s'. B (world s') \<le> n) (\<lambda>_ _. True) s"
proof (rule wp_token_recursion [where k = "length (rs_Groups spec)" and f = "\<lambda>d. DeleteGroup d env h spec", OF assms(1)])
  fix d c n and s :: "('a, event, realm_mem) io_state"
  assume d: "length (rs_Groups spec) \<le> d" and n: "B (world s) \<le> n"
  from Sort_returns [OF assms(5) d] obtain gs where gs: "SortRealmGroupByParentFirstChild d (rs_Groups spec) = Some gs" by auto
  have "set gs \<subseteq> set (rs_Groups spec)" by (rule FirstChild_subset [OF assms(5) gs])
  then have "wp False (delete_groups env c (rs_RealmName spec) gs) (\<lambda>u s'. B (world s') \<le> n \<and> (u \<longrightarrow> 0 < n)) (\<lambda>_ _. True) s"
    using n assms(4)
    by (induction gs arbitrary: s) (auto intro!: wp_mono [OF wp_deleteGroupItem_budget [OF assms(1) _ assms(3)]])
  with gs show "wp False (bindIO (derefIO (SortRealmGroupByParentFirstChild d (rs_Groups spec)))
      (\<lambda>groups. delete_groups env c (rs_RealmName spec) groups)) (\<lambda>u s'. B (world s') \<le> n \<and> (u \<longrightarrow> 0 < n)) (\<lambda>_ _. True) s"
    by simp
next
  show "DeleteGroup (Suc d) env h spec c = bindIO (bindIO (derefIO (SortRealmGroupByParentFirstChild d (rs_Groups spec)))
      (\<lambda>groups. delete_groups env c (rs_RealmName spec) groups))
      (\<lambda>unauthorized. if unauthorized then bindIO (realm_refreshToken env h) (DeleteGroup d env h spec) else ret c)" for d c
    by (rule ext) (auto simp: bindIO_def split: prod.split outcome.split)
qed (use assms in auto)


text \<open>
  C33. A token that stays rejected is fatal: when the deletion of the first identity provider is
  answered with a rejected token whatever the client, and new clients can be made, the terminator
  recurses beyond every bound instead of reporting the error.
\<close>

theorem terminator_diverges:
  fixes env :: "'w env"
  assumes "rs_IdentityProviders spec = idp # idps"
    and rejected: "\<And>c (s :: ('w, event, realm_mem) io_state). \<exists>e s'. client_DeleteIdentityProvider env c (rs_RealmName spec) (ip_Alias idp) s = (Err e, s') \<and>
        IsUnauthorizedError (Some e)"
    and renewed: "\<And>s. \<exists>cl s'. realm_refreshToken env h s = (Ok cl, s')"
  shows "fst (DeleteResource depth env h spec c False s) = Panic"
proof -
  have "fst (DeleteIdentityProvider depth env h spec c s) = Panic" for c s
  proof (induction depth arbitrary: c s)
    case (Suc d)
    obtain e s1 where e: "client_DeleteIdentityProvider env c (rs_RealmName spec) (ip_Alias idp) s = (Err e, s1)"
      "IsUnauthorizedError (Some e)" using rejected by blast
    obtain cl s2 where "realm_refreshToken env h s1 = (Ok cl, s2)" using renewed by blast
    with e assms(1) Suc.IH [of cl s2] show ?case by (simp add: bindIO_def tryIO_def ret_def)
  qed (simp add: panic_def)
  then show ?thesis by (auto simp: DeleteResource_def bindIO_def split: prod.split outcome.split) (metis fst_conv outcome.distinct)+
qed

section \<open>Concrete runs\<close>

definition token_secret :: k8s_object where
  "token_secret = SecretObj \<lparr>sec_Name = ''s'', sec_Namespace = ''n'', sec_ResourceVersion = '''', sec_OwnerReferences = [], sec_Data = []\<rparr>"

definition refused :: http_result where
  "refused = \<lparr>hr_HTTPResponse = Some \<lparr>rsp_StatusCode = 401, rsp_Location = ''''\<rparr>,
     hr_Body = \<lparr>body_text = '''', body_json = None\<rparr>, hr_JSON200 = None\<rparr>"

text \<open>A Keycloak that rejects tokens as long as its state is not zero; a new client lowers it.\<close>

definition expiring_env :: "nat env" where
  "expiring_env = idle_env\<lparr>kc_http := (\<lambda>c rq w. (Inr (Some (if w = 0 then accepted None else refused)), w)),
     kc_new := (\<lambda>p w. (Inr 0, w - 1)), k8s := (\<lambda>rq w. (Inr token_secret, w))\<rparr>"

text \<open>One that rejects every token.\<close>

definition locked_env :: "unit env" where
  "locked_env = idle_env\<lparr>kc_http := (\<lambda>c rq w. (Inr (Some refused), w)),
     kc_new := (\<lambda>p w. (Inr 0, w)), k8s := (\<lambda>rq w. (Inr token_secret, w))\<rparr>"

definition test_idp :: IdentityProvider where
  "test_idp = \<lparr>ip_ProviderID = ''oidc'', ip_Alias = ''idp'', ip_Config = [], ip_Enabled = True,
     ip_AddReadTokenRoleOnCreate = False, ip_AuthenticateByDefault = False, ip_DisplayName = '''',
     ip_FirstBrokerLoginFlowAlias = '''', ip_PostBrokerLoginFlowAlias = '''', ip_LinkOnly = False,
     ip_StoreToken = False, ip_TrustEmail = False, ip_Mappers = [],
     ip_AdminFineGrainedPermissionsEnabled = False, ip_Permission = None\<rparr>"

definition doomed_spec :: KeycloakRealmSpec where
  "doomed_spec = zero_RealmSpec\<lparr>rs_RealmName := ''realm'', rs_IdentityProviders := [test_idp],
     rs_Groups := [test_group ''team'' None]\<rparr>"

definition watch_all :: HelperConf where
  "watch_all = \<lparr>h_watchNamespace = '''', h_enableOwnerRef = False\<rparr>"

lemma expiring_env_budget: "token_budget expiring_env id"
  by (auto simp: token_budget_def expiring_env_def idle_env_def accepted_def checkResponseError_def)


theorem terminator_diverges_witness:
  "fst (DeleteResource 1000 locked_env watch_all doomed_spec 0 False (realm_start () idle_realm)) = Panic"
proof (rule terminator_diverges)
  show "rs_IdentityProviders doomed_spec = [test_idp]" by (simp add: doomed_spec_def)
  have "IsUnauthorizedError (Some (ApiError 401 ''Unauthorized''))"
    by code_simp
  then show "\<exists>e s'. client_DeleteIdentityProvider locked_env c (rs_RealmName doomed_spec) (ip_Alias test_idp) s = (Err e, s') \<and>
      IsUnauthorizedError (Some e)" for c and s :: "(unit, event, realm_mem) io_state"
    by (auto simp: client_DeleteIdentityProvider_def sendRequest_def locked_env_def idle_env_def refused_def go_simps
        checkResponseError_def parseKeycloakError_def StatusText_def StatusTexts_def)
  show "\<exists>cl s'. realm_refreshToken locked_env watch_all s = (Ok cl, s')" for s
    by (simp add: realm_refreshToken_def CreateKeycloakClientV2FromConfigRef_def createKeycloakClientV2FromAuthData_def
        getCredentialsFromSecret_def get_secret_def k8s_Get_def NewKeycloakClient_def locked_env_def idle_env_def
        token_secret_def go_simps)
qed


end
