(* ===== verification/RealmBuilder.thy ===== *)
theory RealmBuilder
  imports KcClients
begin

text \<open>
  \<open>pkg/realmbuilder/settings_builder.go\<close>: the settings of a realm. \<open>BuildRealmRepresentationFromV1\<close>
  turns a resource into a representation with the managed fields set (the overlay), and
  \<open>MergeRealmRepresentation\<close> lays it over what Keycloak has. A representation is the association
  list of the fields that are not nil, so a literal is the list of its fields with their optional
  values (\<open>rep_of\<close>), and \<open>mergePtr\<close> copies one field if the overlay has it. Go's \<open>int32(x)\<close> keeps
  the low 32 bits of \<open>x\<close>.
\<close>

section \<open>Numbers as text\<close>

definition strconv_Itoa :: "int64 \<Rightarrow> string" where
  "strconv_Itoa i = (if sint i < 0 then CHR ''-'' # nat_digits (nat (- sint i)) else nat_digits (nat (sint i)))"

definition strconv_FormatBool :: "bool \<Rightarrow> string" where
  "strconv_FormatBool b = (if b then ''true'' else ''false'')"

definition to_int32 :: "int64 \<Rightarrow> int32" where
  "to_int32 i = ucast i"

section \<open>The overlay\<close>

record commonRealmSpec =
  cs_DisplayName :: string
  cs_DisplayHTMLName :: string
  cs_SslRequired :: string
  cs_UseOrganizations :: bool
  cs_OrganizationsEnabled :: bool
  cs_FrontendURL :: string
  cs_BrowserSecurityHeaders :: "string gomap option"
  cs_PasswordPolicy :: string
  cs_RequiredCredentials :: "string list"
  cs_TokenSettings :: "TokenSettings option"
  cs_RealmEventConfig :: "RealmEventConfig option"
  cs_Login :: "RealmLogin option"
  cs_Sessions :: "RealmSessions option"
  cs_WebAuthnPolicySettings :: "WebAuthnPolicySettings option"
  cs_Oauth2DeviceSettings :: "Oauth2DeviceSettings option"
  cs_OTPPolicySettings :: "OTPPolicySettings option"
  cs_ClientSessionSettings :: "ClientSessionSettings option"
  cs_DefaultRole :: "RealmRoleRepresentation option"
  cs_LoginTheme :: "string option"
  cs_AccountTheme :: "string option"
  cs_AdminTheme :: "string option"
  cs_EmailTheme :: "string option"
  cs_InternationalizationEnabled :: "bool option"
  cs_BruteForceProtected :: bool
  cs_PermanentLockout :: bool
  cs_MaxFailureWaitSeconds :: int64
  cs_MinimumQuickLoginWaitSeconds :: int64
  cs_WaitIncrementSeconds :: int64
  cs_QuickLoginCheckMilliSeconds :: int64
  cs_MaxDeltaTimeSeconds :: int64
  cs_FailureFactor :: int64
  cs_SupportedLocales :: "string list"
  cs_RegistrationFlow :: string
  cs_DirectGrantFlow :: string
  cs_ResetCredentialsFlow :: string
  cs_ClientAuthenticationFlow :: string
  cs_DockerAuthenticationFlow :: string
  cs_UserManagedAccessAllowed :: bool
  cs_Attributes :: "string gomap option"

fun strings_Join :: "string list \<Rightarrow> string \<Rightarrow> string" where
  "strings_Join [] sep = ''''"
| "strings_Join [x] sep = x"
| "strings_Join (x # y # xs) sep = x @ sep @ strings_Join (y # xs) sep"

definition buildPasswordPolicy :: "PasswordPolicy list \<Rightarrow> string" where
  "buildPasswordPolicy policies =
     (if policies = [] then ''''
      else strings_Join (map (\<lambda>p. pp_Type p @ ''('' @ pp_Value p @ '')'') policies) '' and '')"

definition rep_of :: "(string \<times> rval option) list \<Rightarrow> RealmRepresentation" where
  "rep_of fs = concat (map (\<lambda>(n, v). case v of None \<Rightarrow> [] | Some x \<Rightarrow> [(n, x)]) fs)"

abbreviation (input) i32 :: "int64 \<Rightarrow> rval option" where
  "i32 x \<equiv> Some (RInt32 (to_int32 x))"

text \<open>The attributes: those of the resource, a fresh map with the front-end URL, and the expiry.\<close>

definition realm_attributes :: "commonRealmSpec \<Rightarrow> string gomap option" where
  "realm_attributes spec =
     (let attrs = (if cs_FrontendURL spec \<noteq> '''' then Some [(''frontendUrl'', cs_FrontendURL spec)]
                   else cs_Attributes spec) in
      case cs_RealmEventConfig spec of
        None \<Rightarrow> attrs
      | Some ev \<Rightarrow>
          if evc_AdminEventsEnabled ev
          then Some (AList.update ''adminEventsExpiration'' (strconv_Itoa (evc_AdminEventsExpiration ev))
                      (the_default [] attrs))
          else attrs)"

definition rep_token_settings :: "TokenSettings option \<Rightarrow> (string \<times> rval option) list" where
  "rep_token_settings settings = (case settings of None \<Rightarrow> [] | Some ts \<Rightarrow>
     [(''DefaultSignatureAlgorithm'', Some (RStr (ts_DefaultSignatureAlgorithm ts))),
      (''RevokeRefreshToken'', Some (RBool (ts_RevokeRefreshToken ts))),
      (''RefreshTokenMaxReuse'', i32 (ts_RefreshTokenMaxReuse ts)),
      (''AccessTokenLifespan'', i32 (ts_AccessTokenLifespan ts)),
      (''AccessTokenLifespanForImplicitFlow'', i32 (ts_AccessTokenLifespanForImplicitFlow ts)),
      (''AccessCodeLifespan'', i32 (ts_AccessCodeLifespan ts)),
      (''ActionTokenGeneratedByUserLifespan'', i32 (ts_ActionTokenGeneratedByUserLifespan ts)),
      (''ActionTokenGeneratedByAdminLifespan'', i32 (ts_ActionTokenGeneratedByAdminLifespan ts))])"

definition rep_login :: "RealmLogin option \<Rightarrow> (string \<times> rval option) list" where
  "rep_login login = (case login of None \<Rightarrow> [] | Some l \<Rightarrow>
     [(''RegistrationAllowed'', Some (RBool (rl_UserRegistration l))),
      (''ResetPasswordAllowed'', Some (RBool (rl_ForgotPassword l))),
      (''RememberMe'', Some (RBool (rl_RememberMe l))),
      (''RegistrationEmailAsUsername'', Some (RBool (rl_EmailAsUsername l))),
      (''LoginWithEmailAllowed'', Some (RBool (rl_LoginWithEmail l))),
      (''DuplicateEmailsAllowed'', Some (RBool (rl_DuplicateEmails l))),
      (''VerifyEmail'', Some (RBool (rl_VerifyEmail l))),
      (''EditUsernameAllowed'', Some (RBool (rl_EditUsername l)))])"

definition rep_webauthn :: "WebAuthnPolicySettings option \<Rightarrow> (string \<times> rval option) list" where
  "rep_webauthn settings = (case settings of None \<Rightarrow> [] | Some w \<Rightarrow>
     [(''WebAuthnPolicyAcceptableAaguids'', Some (RStrs (wa_AcceptableAaguids w))),
      (''WebAuthnPolicyAttestationConveyancePreference'', Some (RStr (wa_AttestationConveyancePreference w))),
      (''WebAuthnPolicyAuthenticatorAttachment'', Some (RStr (wa_AuthenticatorAttachment w))),
      (''WebAuthnPolicyAvoidSameAuthenticatorRegister'', Some (RBool (wa_AvoidSameAuthenticatorRegister w))),
      (''WebAuthnPolicyCreateTimeout'', i32 (wa_CreateTimeout w)),
      (''WebAuthnPolicyPasswordlessAcceptableAaguids'', Some (RStrs (wa_PasswordlessAcceptableAaguids w))),
      (''WebAuthnPolicyPasswordlessAttestationConveyancePreference'',
         Some (RStr (wa_PasswordlessAttestationConveyancePreference w))),
      (''WebAuthnPolicyPasswordlessAuthenticatorAttachment'', Some (RStr (wa_PasswordlessAuthenticatorAttachment w))),
      (''WebAuthnPolicyPasswordlessAvoidSameAuthenticatorRegister'',
         Some (RBool (wa_PasswordlessAvoidSameAuthenticatorRegister w))),
      (''WebAuthnPolicyPasswordlessCreateTimeout'', i32 (wa_PasswordlessCreateTimeout w)),
      (''WebAuthnPolicyPasswordlessRequireResidentKey'', Some (RStr (wa_PasswordlessRequireResidentKey w))),
      (''WebAuthnPolicyPasswordlessRpEntityName'', Some (RStr (wa_PasswordlessRpEntityName w))),
      (''WebAuthnPolicyPasswordlessRpId'', Some (RStr (wa_PasswordlessRpID w))),
      (''WebAuthnPolicyPasswordlessSignatureAlgorithms'', Some (RStrs (wa_PasswordlessSignatureAlgorithms w))),
      (''WebAuthnPolicyPasswordlessUserVerificationRequirement'',
         Some (RStr (wa_PasswordlessUserVerificationRequirement w))),
      (''WebAuthnPolicyRequireResidentKey'', Some (RStr (wa_RequireResidentKey w))),
      (''WebAuthnPolicyRpEntityName'', Some (RStr (wa_RpEntityName w))),
      (''WebAuthnPolicyRpId'', Some (RStr (wa_RpID w))),
      (''WebAuthnPolicySignatureAlgorithms'', Some (RStrs (wa_SignatureAlgorithms w))),
      (''WebAuthnPolicyUserVerificationRequirement'', Some (RStr (wa_UserVerificationRequirement w))),
      (''WebAuthnPolicyExtraOrigins'', Some (RStrs (wa_ExtraOrigins w))),
      (''WebAuthnPolicyPasswordlessExtraOrigins'', Some (RStrs (wa_PasswordlessExtraOrigins w)))])"

definition rep_oauth2_device :: "Oauth2DeviceSettings option \<Rightarrow> (string \<times> rval option) list" where
  "rep_oauth2_device settings = (case settings of None \<Rightarrow> [] | Some d \<Rightarrow>
     [(''Oauth2DevicePollingInterval'', i32 (od_PollingInterval d)),
      (''Oauth2DeviceCodeLifespan'', i32 (od_CodeLifespan d))])"

definition rep_otp :: "OTPPolicySettings option \<Rightarrow> (string \<times> rval option) list" where
  "rep_otp settings = (case settings of None \<Rightarrow> [] | Some otp \<Rightarrow>
     [(''OtpPolicyAlgorithm'', Some (RStr (otp_Algorithm otp))),
      (''OtpPolicyCodeReusable'', Some (RBool (otp_CodeReusable otp))),
      (''OtpPolicyDigits'', i32 (otp_Digits otp)),
      (''OtpPolicyInitialCounter'', i32 (otp_InitialCounter otp)),
      (''OtpPolicyLookAheadWindow'', i32 (otp_LookAheadWindow otp)),
      (''OtpPolicyPeriod'', i32 (otp_Period otp)),
      (''OtpPolicyType'', Some (RStr (otp_Type otp))),
      (''OtpSupportedApplications'', Some (RStrs (otp_SupportedApplications otp)))])"

definition rep_client_session :: "ClientSessionSettings option \<Rightarrow> (string \<times> rval option) list" where
  "rep_client_session settings = (case settings of None \<Rightarrow> [] | Some cs \<Rightarrow>
     [(''ClientSessionIdleTimeout'', i32 (css_IdleTimeout cs)),
      (''ClientSessionMaxLifespan'', i32 (css_MaxLifespan cs)),
      (''ClientOfflineSessionIdleTimeout'', i32 (css_OfflineIdleTimeout cs)),
      (''ClientOfflineSessionMaxLifespan'', i32 (css_OfflineMaxLifespan cs))])"

text \<open>The composites of the default role are not copied.\<close>

definition rep_default_role :: "RealmRoleRepresentation \<Rightarrow> RoleRepresentation" where
  "rep_default_role d = zero_role\<lparr>role_Attributes := drr_Attributes d, role_ClientRole := Some (drr_ClientRole d),
     role_Composite := Some (drr_Composite d), role_ContainerId := Some (drr_ContainerId d),
     role_Description := Some (drr_Description d), role_Id := Some (drr_Id d), role_Name := Some (drr_Name d),
     role_ScopeParamRequired := Some (drr_ScopeParamRequired d)\<rparr>"

definition setRealmRepSessionSettings :: "RealmSessions option \<Rightarrow> (string \<times> rval option) list" where
  "setRealmRepSessionSettings sessions = (case sessions of None \<Rightarrow> [] | Some ses \<Rightarrow>
     (case ses_SSOSessionSettings ses of None \<Rightarrow> [] | Some s \<Rightarrow>
        [(''SsoSessionIdleTimeout'', i32 (sso_IdleTimeout s)),
         (''SsoSessionMaxLifespan'', i32 (sso_MaxLifespan s)),
         (''SsoSessionIdleTimeoutRememberMe'', i32 (sso_IdleTimeoutRememberMe s)),
         (''SsoSessionMaxLifespanRememberMe'', i32 (sso_MaxLifespanRememberMe s))]) @
     (case ses_SSOOfflineSessionSettings ses of None \<Rightarrow> [] | Some s \<Rightarrow>
        [(''OfflineSessionIdleTimeout'', i32 (off_IdleTimeout s)),
         (''OfflineSessionMaxLifespanEnabled'', Some (RBool (off_MaxLifespanEnabled s))),
         (''OfflineSessionMaxLifespan'', i32 (off_MaxLifespan s))]) @
     (case ses_SSOLoginSettings ses of None \<Rightarrow> [] | Some s \<Rightarrow>
        [(''AccessCodeLifespanLogin'', i32 (lgs_AccessCodeLifespanLogin s)),
         (''AccessCodeLifespanUserAction'', i32 (lgs_AccessCodeLifespanUserAction s))]))"

definition rep_core :: "commonRealmSpec \<Rightarrow> (string \<times> rval option) list" where
  "rep_core spec =
     [(''DisplayName'', Some (RStr (cs_DisplayName spec))),
      (''DisplayNameHtml'', Some (RStr (cs_DisplayHTMLName spec))),
      (''SslRequired'', Some (RStr (cs_SslRequired spec))),
      (''RequiredCredentials'', Some (RStrs (cs_RequiredCredentials spec))),
      (''LoginTheme'', map_option RStr (cs_LoginTheme spec)),
      (''AccountTheme'', map_option RStr (cs_AccountTheme spec)),
      (''AdminTheme'', map_option RStr (cs_AdminTheme spec)),
      (''EmailTheme'', map_option RStr (cs_EmailTheme spec)),
      (''InternationalizationEnabled'', map_option RBool (cs_InternationalizationEnabled spec)),
      (''BruteForceProtected'', Some (RBool (cs_BruteForceProtected spec))),
      (''PermanentLockout'', Some (RBool (cs_PermanentLockout spec))),
      (''MaxFailureWaitSeconds'', i32 (cs_MaxFailureWaitSeconds spec)),
      (''MinimumQuickLoginWaitSeconds'', i32 (cs_MinimumQuickLoginWaitSeconds spec)),
      (''WaitIncrementSeconds'', i32 (cs_WaitIncrementSeconds spec)),
      (''QuickLoginCheckMilliSeconds'', Some (RInt64 (cs_QuickLoginCheckMilliSeconds spec))),
      (''MaxDeltaTimeSeconds'', i32 (cs_MaxDeltaTimeSeconds spec)),
      (''FailureFactor'', i32 (cs_FailureFactor spec)),
      (''SupportedLocales'', Some (RStrs (cs_SupportedLocales spec))),
      (''RegistrationFlow'', Some (RStr (cs_RegistrationFlow spec))),
      (''DirectGrantFlow'', Some (RStr (cs_DirectGrantFlow spec))),
      (''ResetCredentialsFlow'', Some (RStr (cs_ResetCredentialsFlow spec))),
      (''ClientAuthenticationFlow'', Some (RStr (cs_ClientAuthenticationFlow spec))),
      (''DockerAuthenticationFlow'', Some (RStr (cs_DockerAuthenticationFlow spec))),
      (''UserManagedAccessAllowed'', Some (RBool (cs_UserManagedAccessAllowed spec))),
      (''Attributes'', map_option RMap (realm_attributes spec)),
      (''OrganizationsEnabled'', if cs_UseOrganizations spec then Some (RBool (cs_OrganizationsEnabled spec)) else None),
      (''BrowserSecurityHeaders'', map_option RMap (cs_BrowserSecurityHeaders spec)),
      (''PasswordPolicy'', if cs_PasswordPolicy spec \<noteq> '''' then Some (RStr (cs_PasswordPolicy spec)) else None)]"

definition buildRealmRepresentationFromCommon :: "commonRealmSpec \<Rightarrow> RealmRepresentation" where
  "buildRealmRepresentationFromCommon spec = rep_of (
     rep_core spec @
     rep_token_settings (cs_TokenSettings spec) @ rep_login (cs_Login spec) @
     rep_webauthn (cs_WebAuthnPolicySettings spec) @ rep_oauth2_device (cs_Oauth2DeviceSettings spec) @
     rep_otp (cs_OTPPolicySettings spec) @ rep_client_session (cs_ClientSessionSettings spec) @
     [(''DefaultRole'', map_option (\<lambda>d. RRole (rep_default_role d)) (cs_DefaultRole spec))] @
     setRealmRepSessionSettings (cs_Sessions spec))"

definition common_spec :: "KeycloakRealmSpec \<Rightarrow> commonRealmSpec" where
  "common_spec spec = \<lparr>
     cs_DisplayName = rs_DisplayName spec, cs_DisplayHTMLName = rs_DisplayHTMLName spec,
     cs_SslRequired = rs_SSLRequired spec,
     cs_UseOrganizations = rs_UseOrganizations spec,
     cs_OrganizationsEnabled = (rs_UseOrganizations spec \<and> rs_OrganizationsEnabled spec),
     cs_FrontendURL = rs_FrontendURL spec, cs_BrowserSecurityHeaders = rs_BrowserSecurityHeaders spec,
     cs_PasswordPolicy = buildPasswordPolicy (rs_PasswordPolicies spec),
     cs_RequiredCredentials = rs_RequiredCredentials spec, cs_TokenSettings = rs_TokenSettings spec,
     cs_RealmEventConfig = rs_RealmEventConfig spec, cs_Login = rs_Login spec, cs_Sessions = rs_Sessions spec,
     cs_WebAuthnPolicySettings = rs_WebAuthnPolicySettings spec,
     cs_Oauth2DeviceSettings = rs_Oauth2DeviceSettings spec, cs_OTPPolicySettings = rs_OTPPolicySettings spec,
     cs_ClientSessionSettings = rs_ClientSessionSettings spec, cs_DefaultRole = rs_DefaultRole spec,
     cs_LoginTheme = Option.bind (rs_Themes spec) th_LoginTheme,
     cs_AccountTheme = Option.bind (rs_Themes spec) th_AccountTheme,
     cs_AdminTheme = Option.bind (rs_Themes spec) th_AdminConsoleTheme,
     cs_EmailTheme = Option.bind (rs_Themes spec) th_EmailTheme,
     cs_InternationalizationEnabled = Option.bind (rs_Themes spec) th_InternationalizationEnabled,
     cs_BruteForceProtected = rs_BruteForceProtected spec, cs_PermanentLockout = rs_PermanentLockout spec,
     cs_MaxFailureWaitSeconds = rs_MaxFailureWaitSeconds spec,
     cs_MinimumQuickLoginWaitSeconds = rs_MinimumQuickLoginWaitSeconds spec,
     cs_WaitIncrementSeconds = rs_WaitIncrementSeconds spec,
     cs_QuickLoginCheckMilliSeconds = rs_QuickLoginCheckMilliSeconds spec,
     cs_MaxDeltaTimeSeconds = rs_MaxDeltaTimeSeconds spec, cs_FailureFactor = rs_FailureFactor spec,
     cs_SupportedLocales = rs_SupportedLocales spec, cs_RegistrationFlow = rs_RegistrationFlow spec,
     cs_DirectGrantFlow = rs_DirectGrantFlow spec, cs_ResetCredentialsFlow = rs_ResetCredentialsFlow spec,
     cs_ClientAuthenticationFlow = rs_ClientAuthenticationFlow spec,
     cs_DockerAuthenticationFlow = rs_DockerAuthenticationFlow spec,
     cs_UserManagedAccessAllowed = rs_UserManagedAccessAllowed spec, cs_Attributes = rs_Attributes spec\<rparr>"

definition BuildRealmRepresentationFromV1 :: "KeycloakRealmSpec \<Rightarrow> RealmRepresentation" where
  "BuildRealmRepresentationFromV1 spec = buildRealmRepresentationFromCommon (common_spec spec)"

text \<open>
  The overlay shares the attribute map of the resource unless a front-end URL is given, so writing
  the expiry into it also changes the resource in memory.
\<close>

definition spec_after_build :: "KeycloakRealmSpec \<Rightarrow> KeycloakRealmSpec" where
  "spec_after_build spec =
     (if rs_FrontendURL spec = '''' \<and> rs_Attributes spec \<noteq> None
      then spec\<lparr>rs_Attributes := realm_attributes (common_spec spec)\<rparr> else spec)"

section \<open>Merging\<close>

definition mergePtr :: "RealmRepresentation \<Rightarrow> string \<Rightarrow> RealmRepresentation \<Rightarrow> RealmRepresentation" where
  "mergePtr overlay field base =
     (case map_of overlay field of None \<Rightarrow> base | Some v \<Rightarrow> AList.update field v base)"

definition appearance_fields :: "string list" where
  "appearance_fields =
     [''DisplayName'', ''DisplayNameHtml'', ''OrganizationsEnabled'', ''LoginTheme'', ''AccountTheme'',
      ''AdminTheme'', ''EmailTheme'', ''InternationalizationEnabled'', ''PasswordPolicy'', ''SslRequired'',
      ''BruteForceProtected'', ''PermanentLockout'', ''MaxFailureWaitSeconds'',
      ''MinimumQuickLoginWaitSeconds'', ''WaitIncrementSeconds'', ''QuickLoginCheckMilliSeconds'',
      ''MaxDeltaTimeSeconds'', ''FailureFactor'', ''SupportedLocales'', ''RegistrationFlow'',
      ''DirectGrantFlow'', ''ResetCredentialsFlow'', ''ClientAuthenticationFlow'',
      ''DockerAuthenticationFlow'', ''UserManagedAccessAllowed'', ''DefaultRole'', ''RequiredCredentials'']"

definition token_fields :: "string list" where
  "token_fields =
     [''DefaultSignatureAlgorithm'', ''RevokeRefreshToken'', ''RefreshTokenMaxReuse'', ''AccessTokenLifespan'',
      ''AccessTokenLifespanForImplicitFlow'', ''AccessCodeLifespan'', ''ActionTokenGeneratedByUserLifespan'',
      ''ActionTokenGeneratedByAdminLifespan'']"

definition webauthn_fields :: "string list" where
  "webauthn_fields =
     [''WebAuthnPolicyAcceptableAaguids'', ''WebAuthnPolicyAttestationConveyancePreference'',
      ''WebAuthnPolicyAuthenticatorAttachment'', ''WebAuthnPolicyAvoidSameAuthenticatorRegister'',
      ''WebAuthnPolicyCreateTimeout'', ''WebAuthnPolicyPasswordlessAcceptableAaguids'',
      ''WebAuthnPolicyPasswordlessAttestationConveyancePreference'',
      ''WebAuthnPolicyPasswordlessAuthenticatorAttachment'',
      ''WebAuthnPolicyPasswordlessAvoidSameAuthenticatorRegister'', ''WebAuthnPolicyPasswordlessCreateTimeout'',
      ''WebAuthnPolicyPasswordlessRequireResidentKey'', ''WebAuthnPolicyPasswordlessRpEntityName'',
      ''WebAuthnPolicyPasswordlessRpId'', ''WebAuthnPolicyPasswordlessSignatureAlgorithms'',
      ''WebAuthnPolicyPasswordlessUserVerificationRequirement'', ''WebAuthnPolicyRequireResidentKey'',
      ''WebAuthnPolicyRpEntityName'', ''WebAuthnPolicyRpId'', ''WebAuthnPolicySignatureAlgorithms'',
      ''WebAuthnPolicyUserVerificationRequirement'']"

definition login_fields :: "string list" where
  "login_fields =
     [''RegistrationAllowed'', ''ResetPasswordAllowed'', ''RememberMe'', ''RegistrationEmailAsUsername'',
      ''LoginWithEmailAllowed'', ''DuplicateEmailsAllowed'', ''VerifyEmail'', ''EditUsernameAllowed'']"

definition session_fields :: "string list" where
  "session_fields =
     [''SsoSessionIdleTimeout'', ''SsoSessionMaxLifespan'', ''SsoSessionIdleTimeoutRememberMe'',
      ''SsoSessionMaxLifespanRememberMe'', ''OfflineSessionIdleTimeout'', ''OfflineSessionMaxLifespanEnabled'',
      ''OfflineSessionMaxLifespan'', ''AccessCodeLifespanLogin'', ''AccessCodeLifespanUserAction'']"

definition otp_fields :: "string list" where
  "otp_fields =
     [''OtpPolicyAlgorithm'', ''OtpPolicyCodeReusable'', ''OtpPolicyDigits'', ''OtpPolicyInitialCounter'',
      ''OtpPolicyLookAheadWindow'', ''OtpPolicyPeriod'', ''OtpPolicyType'', ''OtpSupportedApplications'']"

definition client_session_fields :: "string list" where
  "client_session_fields =
     [''ClientSessionIdleTimeout'', ''ClientSessionMaxLifespan'', ''ClientOfflineSessionIdleTimeout'',
      ''ClientOfflineSessionMaxLifespan'']"

definition mergeRealmAppearance :: "RealmRepresentation \<Rightarrow> RealmRepresentation \<Rightarrow> RealmRepresentation" where
  "mergeRealmAppearance base overlay = fold (mergePtr overlay) appearance_fields base"

definition mergeRealmTokenSettings :: "RealmRepresentation \<Rightarrow> RealmRepresentation \<Rightarrow> RealmRepresentation" where
  "mergeRealmTokenSettings base overlay = fold (mergePtr overlay) token_fields base"

definition mergeRealmLoginSettings :: "RealmRepresentation \<Rightarrow> RealmRepresentation \<Rightarrow> RealmRepresentation" where
  "mergeRealmLoginSettings base overlay = fold (mergePtr overlay) login_fields base"

definition mergeRealmSessionSettings :: "RealmRepresentation \<Rightarrow> RealmRepresentation \<Rightarrow> RealmRepresentation" where
  "mergeRealmSessionSettings base overlay = fold (mergePtr overlay) session_fields base"

definition mergeRealmWebAuthnPolicySettings :: "RealmRepresentation \<Rightarrow> RealmRepresentation \<Rightarrow> RealmRepresentation" where
  "mergeRealmWebAuthnPolicySettings base overlay = fold (mergePtr overlay) webauthn_fields base"

definition mergeRealmOTPPolicySettings :: "RealmRepresentation \<Rightarrow> RealmRepresentation \<Rightarrow> RealmRepresentation" where
  "mergeRealmOTPPolicySettings base overlay = fold (mergePtr overlay) otp_fields base"

definition mergeRealmClientSessionSettings :: "RealmRepresentation \<Rightarrow> RealmRepresentation \<Rightarrow> RealmRepresentation" where
  "mergeRealmClientSessionSettings base overlay = fold (mergePtr overlay) client_session_fields base"

text \<open>A field of map type: nil, or the map.\<close>

definition map_field :: "RealmRepresentation \<Rightarrow> string \<Rightarrow> string gomap option" where
  "map_field rep field = (case map_of rep field of Some (RMap m) \<Rightarrow> Some m | _ \<Rightarrow> None)"

text \<open>\<open>maps.Copy\<close> into the map of the base, which is made if it is nil.\<close>

definition copy_field :: "RealmRepresentation \<Rightarrow> string \<Rightarrow> RealmRepresentation \<Rightarrow> RealmRepresentation" where
  "copy_field overlay field base =
     (case map_field overlay field of
        None \<Rightarrow> base
      | Some m \<Rightarrow> AList.update field
          (RMap (fold (\<lambda>(k, v) b. AList.update k v b) m (the_default [] (map_field base field)))) base)"

definition mergeRealmMaps :: "RealmRepresentation \<Rightarrow> RealmRepresentation \<Rightarrow> RealmRepresentation" where
  "mergeRealmMaps base overlay =
     copy_field overlay ''Attributes'' (copy_field overlay ''BrowserSecurityHeaders'' base)"

definition MergeRealmRepresentation :: "RealmRepresentation \<Rightarrow> RealmRepresentation \<Rightarrow> RealmRepresentation" where
  "MergeRealmRepresentation base overlay =
     (let base = mergeRealmAppearance base overlay;
          base = mergeRealmTokenSettings base overlay;
          base = mergeRealmLoginSettings base overlay;
          base = mergeRealmSessionSettings base overlay;
          base = mergeRealmWebAuthnPolicySettings base overlay;
          base = mergeRealmOTPPolicySettings base overlay;
          base = mergeRealmClientSessionSettings base overlay
      in mergeRealmMaps base overlay)"

section \<open>Writing to Keycloak\<close>

definition ApplyRealmEventConfig ::
  "'w env \<Rightarrow> kc_client \<Rightarrow> string \<Rightarrow> RealmEventConfig option \<Rightarrow> ('w, 'm, unit) prog" where
  "ApplyRealmEventConfig env c realmName cfg = (case cfg of
     None \<Rightarrow> ret ()
   | Some ev \<Rightarrow> wrapErr ''unable to set realm event config: ''
       (voidIO (SetRealmEventConfig env c realmName
         \<lparr>rec_AdminEventsDetailsEnabled = Some (evc_AdminEventsDetailsEnabled ev),
          rec_AdminEventsEnabled = Some (evc_AdminEventsEnabled ev),
          rec_EnabledEventTypes = evc_EnabledEventTypes ev,
          rec_EventsEnabled = Some (evc_EventsEnabled ev),
          rec_EventsExpiration = Some (evc_EventsExpiration ev),
          rec_EventsListeners = evc_EventsListeners ev\<rparr>)))"

definition ApplyRealmSettings ::
  "'w env \<Rightarrow> kc_client \<Rightarrow> string \<Rightarrow> RealmRepresentation \<Rightarrow> ('w, 'm, unit) prog" where
  "ApplyRealmSettings env c realmName overlay =
     bindIO (wrapErr ''unable to get realm: '' (GetRealm env c realmName)) (\<lambda>current.
     bindIO (derefIO current) (\<lambda>base.
     wrapErr ''unable to update realm settings: ''
       (voidIO (UpdateRealm env c realmName (MergeRealmRepresentation base overlay)))))"

section \<open>Merging against its specification\<close>

definition managed_fields :: "string list" where
  "managed_fields = appearance_fields @ token_fields @ login_fields @ session_fields @ webauthn_fields @
     otp_fields @ client_session_fields"

definition map_fields :: "string list" where
  "map_fields = [''Attributes'', ''BrowserSecurityHeaders'']"

text \<open>What merging means, field by field.\<close>

definition merged_field :: "RealmRepresentation \<Rightarrow> RealmRepresentation \<Rightarrow> string \<Rightarrow> rval option" where
  "merged_field base overlay n =
     (if n \<in> set map_fields then
        (case map_field overlay n of
           None \<Rightarrow> map_of base n
         | Some m \<Rightarrow> Some (RMap (fold (\<lambda>(k, v) b. AList.update k v b) m (the_default [] (map_field base n)))))
      else if n \<in> set managed_fields then
        (case map_of overlay n of None \<Rightarrow> map_of base n | Some v \<Rightarrow> Some v)
      else map_of base n)"

lemma map_of_fold_mergePtr:
  "map_of (fold (mergePtr overlay) fs base) n =
     (if n \<in> set fs then (case map_of overlay n of None \<Rightarrow> map_of base n | Some v \<Rightarrow> Some v) else map_of base n)"
  by (induction fs arbitrary: base) (auto simp: mergePtr_def update_conv' split: option.split)

lemma managed_not_map: "set managed_fields \<inter> set map_fields = {}"
  by (simp add: managed_fields_def map_fields_def appearance_fields_def token_fields_def login_fields_def
      session_fields_def webauthn_fields_def otp_fields_def client_session_fields_def)

lemma map_of_copy_field:
  "map_of (copy_field overlay field base) n =
     (if n = field then (case map_field overlay n of
           None \<Rightarrow> map_of base n
         | Some m \<Rightarrow> Some (RMap (fold (\<lambda>(k, v) b. AList.update k v b) m (the_default [] (map_field base n)))))
      else map_of base n)"
  by (auto simp: copy_field_def update_conv' split: option.split)

lemma map_field_cong: "map_of a n = map_of b n \<Longrightarrow> map_field a n = map_field b n"
  by (simp add: map_field_def)

lemma MergeRealmRepresentation_managed:
  "MergeRealmRepresentation base overlay = mergeRealmMaps (fold (mergePtr overlay) managed_fields base) overlay"
  by (simp add: MergeRealmRepresentation_def managed_fields_def mergeRealmAppearance_def mergeRealmTokenSettings_def
      mergeRealmLoginSettings_def mergeRealmSessionSettings_def mergeRealmWebAuthnPolicySettings_def
      mergeRealmOTPPolicySettings_def mergeRealmClientSessionSettings_def)


section \<open>Settings that are lost, and numbers that wrap\<close>

lemma rep_of_simps [simp]:
  "rep_of [] = []"
  "rep_of ((n, v) # fs) = (case v of None \<Rightarrow> rep_of fs | Some x \<Rightarrow> (n, x) # rep_of fs)"
  "rep_of (fs @ gs) = rep_of fs @ rep_of gs"
  by (simp_all add: rep_of_def split: option.split)

lemma map_of_rep_of_notin: "n \<notin> fst ` set fs \<Longrightarrow> map_of (rep_of fs) n = None"
  by (induction fs) (auto split: option.split)

lemma sint_to_int32:
  "sint (to_int32 x) = sint x \<longleftrightarrow> - 2147483648 \<le> sint x \<and> sint x < 2147483648"
proof -
  have "sint (to_int32 x) = signed_take_bit 31 (sint x)"
    unfolding to_int32_def by (simp add: sint_uint unsigned_ucast_eq take_bit_word_def) (simp add: signed_take_bit_take_bit)
  then show ?thesis by (simp add: signed_take_bit_int_eq_self_iff)
qed

text \<open>
  Some settings never reach Keycloak: the extra origins of the two WebAuthn policies and the
  OAuth 2.0 device settings are put into the overlay, but merging does not copy them, so the realm
  keeps whatever it had.
\<close>

theorem settings_not_merged:
  assumes "n \<in> {''WebAuthnPolicyExtraOrigins'', ''WebAuthnPolicyPasswordlessExtraOrigins'',
      ''Oauth2DevicePollingInterval'', ''Oauth2DeviceCodeLifespan''}"
  shows "map_of (MergeRealmRepresentation base overlay) n = map_of base n"
proof -
  have "n \<notin> set managed_fields" "n \<notin> set map_fields"
    using assms
    by (auto simp: managed_fields_def map_fields_def appearance_fields_def token_fields_def login_fields_def
      session_fields_def webauthn_fields_def otp_fields_def client_session_fields_def)
  then show ?thesis
    by (auto simp: MergeRealmRepresentation_managed mergeRealmMaps_def map_of_copy_field map_of_fold_mergePtr map_fields_def)
qed

theorem settings_not_merged_witness:
  "map_of (MergeRealmRepresentation [] (BuildRealmRepresentationFromV1
     (zero_RealmSpec\<lparr>rs_Oauth2DeviceSettings := Some \<lparr>od_CodeLifespan = 600, od_PollingInterval = 5\<rparr>\<rparr>)))
     ''Oauth2DeviceCodeLifespan'' = None"
  using settings_not_merged [of "''Oauth2DeviceCodeLifespan''" "[]"] by simp

text \<open>
  Numbers of the resource are 64 bits wide and those of Keycloak 32: the lifespan of access
  tokens is passed on unchanged exactly if it fits; otherwise its low 32 bits are, so that for
  instance 2147483648 seconds become a negative lifespan.
\<close>

theorem token_lifespan_bounds:
  assumes "rs_TokenSettings spec = Some ts"
  shows "\<exists>v. map_of (BuildRealmRepresentationFromV1 spec) ''AccessTokenLifespan'' = Some (RInt32 v) \<and>
     (sint v = sint (ts_AccessTokenLifespan ts) \<longleftrightarrow>
        - 2147483648 \<le> sint (ts_AccessTokenLifespan ts) \<and> sint (ts_AccessTokenLifespan ts) < 2147483648) \<and>
     (ts_AccessTokenLifespan ts = 2147483648 \<longrightarrow> sint v = - 2147483648)"
proof -
  have core: "map_of (rep_of (rep_core c)) ''AccessTokenLifespan'' = None" for c
    by (rule map_of_rep_of_notin) (simp add: rep_core_def)
  have "map_of (rep_of (rep_token_settings (Some ts))) ''AccessTokenLifespan'' =
      Some (RInt32 (to_int32 (ts_AccessTokenLifespan ts)))"
    by (simp add: rep_token_settings_def)
  then have "map_of (BuildRealmRepresentationFromV1 spec) ''AccessTokenLifespan'' =
      Some (RInt32 (to_int32 (ts_AccessTokenLifespan ts)))"
    using assms core by (simp add: BuildRealmRepresentationFromV1_def buildRealmRepresentationFromCommon_def
        common_spec_def map_add_def)
  moreover have "sint (to_int32 2147483648) = - 2147483648" by (simp add: to_int32_def)
  ultimately show ?thesis using sint_to_int32 by auto
qed

theorem token_lifespan_witness:
  "\<exists>v. map_of (BuildRealmRepresentationFromV1 (zero_RealmSpec\<lparr>rs_TokenSettings :=
       Some \<lparr>ts_DefaultSignatureAlgorithm = ''RS256'', ts_RevokeRefreshToken = False, ts_RefreshTokenMaxReuse = 0,
         ts_AccessTokenLifespan = 2147483648, ts_AccessTokenLifespanForImplicitFlow = 0, ts_AccessCodeLifespan = 0,
         ts_ActionTokenGeneratedByUserLifespan = 0, ts_ActionTokenGeneratedByAdminLifespan = 0\<rparr>\<rparr>)) ''AccessTokenLifespan'' =
     Some (RInt32 v) \<and> sint v = - 2147483648"
  using token_lifespan_bounds [of "zero_RealmSpec\<lparr>rs_TokenSettings :=
       Some \<lparr>ts_DefaultSignatureAlgorithm = ''RS256'', ts_RevokeRefreshToken = False, ts_RefreshTokenMaxReuse = 0,
         ts_AccessTokenLifespan = 2147483648, ts_AccessTokenLifespanForImplicitFlow = 0, ts_AccessCodeLifespan = 0,
         ts_ActionTokenGeneratedByUserLifespan = 0, ts_ActionTokenGeneratedByAdminLifespan = 0\<rparr>\<rparr>"] by auto

end
