(* ===== verification/UserProfile.thy ===== *)
theory UserProfile
  imports RealmBuilder UserSync
begin

text \<open>
  \<open>internal/controller/keycloakrealm/chain/realm/user_profile.go\<close>: the user profile of a realm.
  The attributes and groups of the resource replace those of the same name in the profile Keycloak
  has, in place, and the new ones are appended.
\<close>

section \<open>From the resource to the model\<close>

definition validation_value :: "UserProfileAttributeValidation \<Rightarrow> up_any option" where
  "validation_value v =
     (if upv_StringVal v \<noteq> '''' then Some (AnyStr (upv_StringVal v))
      else case upv_MapVal v of Some m \<Rightarrow> Some (AnyMap m)
      | None \<Rightarrow> if upv_IntVal v \<noteq> 0 then Some (AnyInt (upv_IntVal v))
          else map_option AnyStrs (upv_SliceVal v))"

definition userProfileConfigValidationSpecToModel ::
  "UserProfileAttributeValidation gomap gomap \<Rightarrow> up_any gomap gomap" where
  "userProfileConfigValidationSpecToModel validations =
     map (\<lambda>(validatorName, validatorVal). (validatorName,
       concat (map (\<lambda>(k, v). case validation_value v of None \<Rightarrow> [] | Some x \<Rightarrow> [(k, x)]) validatorVal))) validations"

definition annotations_model :: "string gomap \<Rightarrow> up_any gomap" where
  "annotations_model = map (\<lambda>(k, v). (k, AnyStr v))"

definition userProfileConfigAttributeSpecToModel :: "UserProfileAttribute \<Rightarrow> UPAttribute" where
  "userProfileConfigAttributeSpecToModel v = \<lparr>
     ua_Annotations = Some (annotations_model (upa_Annotations v)),
     ua_DefaultValue = None,
     ua_DisplayName = Some (upa_DisplayName v),
     ua_Group = (if upa_Group v \<noteq> '''' then Some (upa_Group v) else None),
     ua_Multivalued = Some (upa_Multivalued v),
     ua_Name = Some (upa_Name v),
     ua_Permissions = map_option (\<lambda>p. \<lparr>uap_Edit = Some (upp_Edit p), uap_View = Some (upp_View p)\<rparr>) (upa_Permissions v),
     ua_Required = map_option (\<lambda>r. \<lparr>uar_Roles = Some (upr_Roles r), uar_Scopes = Some (upr_Scopes r)\<rparr>) (upa_Required v),
     ua_Selector = map_option (\<lambda>x. \<lparr>uas_Scopes = Some (ups_Scopes x)\<rparr>) (upa_Selector v),
     ua_Validations = Some (userProfileConfigValidationSpecToModel (upa_Validations v))\<rparr>"

definition userProfileConfigGroupSpecToModel :: "UserProfileGroup \<Rightarrow> UPGroup" where
  "userProfileConfigGroupSpecToModel v = \<lparr>
     ug_Annotations = Some (annotations_model (upg_Annotations v)),
     ug_DisplayDescription = Some (upg_DisplayDescription v),
     ug_DisplayHeader = Some (upg_DisplayHeader v),
     ug_Name = Some (upg_Name v)\<rparr>"

definition userProfileConfigSpecToModel :: "UserProfileConfig \<Rightarrow> UPConfig" where
  "userProfileConfigSpecToModel spec = \<lparr>
     uc_Attributes = map_option (map userProfileConfigAttributeSpecToModel) (upc_Attributes spec),
     uc_Groups = map_option (map userProfileConfigGroupSpecToModel) (upc_Groups spec),
     uc_UnmanagedAttributePolicy =
       (if upc_UnmanagedAttributePolicy spec \<noteq> '''' then Some (upc_UnmanagedAttributePolicy spec) else None)\<rparr>"

definition userProfileConfigAttributeToMap :: "UPConfig \<Rightarrow> UPAttribute gomap" where
  "userProfileConfigAttributeToMap profile = build_map ua_Name id (the_default [] (uc_Attributes profile))"

definition userProfileConfigGroupToMap :: "UPConfig \<Rightarrow> UPGroup gomap" where
  "userProfileConfigGroupToMap profile = build_map ug_Name id (the_default [] (uc_Groups profile))"

section \<open>Merging\<close>

text \<open>
  The loop over the entries Keycloak has: an entry whose name is in the map is replaced and leaves
  the map. The same loop is written for attributes and for groups.
\<close>

primrec replace_entries ::
  "('a \<Rightarrow> string option) \<Rightarrow> 'a list \<Rightarrow> 'a gomap \<Rightarrow> ('w, 'm, 'a list \<times> 'a gomap) prog" where
  "replace_entries name [] toUpdate = ret ([], toUpdate)"
| "replace_entries name (x # xs) toUpdate =
     bindIO (derefIO (name x)) (\<lambda>n. case map_of toUpdate n of
       None \<Rightarrow> bindIO (replace_entries name xs toUpdate) (\<lambda>(ys, m). ret (x # ys, m))
     | Some v \<Rightarrow> bindIO (replace_entries name xs (AList.delete n toUpdate)) (\<lambda>(ys, m). ret (v # ys, m)))"

definition merge_entries ::
  "'w env \<Rightarrow> ('a \<Rightarrow> string option) \<Rightarrow> 'a list \<Rightarrow> 'a gomap \<Rightarrow> ('w, 'm, 'a list) prog" where
  "merge_entries env name xs toUpdate =
     bindIO (replace_entries name xs toUpdate) (\<lambda>(ys, rest).
     bindIO (range_order (map_rank env) rest) (\<lambda>entries. ret (ys @ map snd entries)))"

definition update_profile :: "'w env \<Rightarrow> kc_client \<Rightarrow> string \<Rightarrow> UserProfileConfig \<Rightarrow> UPConfig \<Rightarrow> ('w, 'm, unit) prog" where
  "update_profile env c realm userProfileSpec userProfile =
     (let userProfileToUpdate = userProfileConfigSpecToModel userProfileSpec in
      bindIO (merge_entries env ua_Name (the_default [] (uc_Attributes userProfile))
                (userProfileConfigAttributeToMap userProfileToUpdate)) (\<lambda>attributes.
      bindIO (merge_entries env ug_Name (the_default [] (uc_Groups userProfile))
                (userProfileConfigGroupToMap userProfileToUpdate)) (\<lambda>groups.
      wrapErr ''unable to update user profile: ''
        (voidIO (UpdateUsersProfile env c realm
          (userProfile\<lparr>uc_Attributes := Some attributes, uc_Groups := Some groups,
             uc_UnmanagedAttributePolicy := uc_UnmanagedAttributePolicy userProfileToUpdate\<rparr>))))))"

definition ProcessUserProfile :: "'w env \<Rightarrow> kc_client \<Rightarrow> string \<Rightarrow> UserProfileConfig \<Rightarrow> ('w, 'm, unit) prog" where
  "ProcessUserProfile env c realm userProfileSpec =
     bindIO (wrapErr ''unable to get current user profile: '' (GetUsersProfile env c realm)) (\<lambda>current.
     bindIO (derefIO current) (update_profile env c realm userProfileSpec))"

section \<open>Properties\<close>

definition named_once :: "('a \<Rightarrow> string option) \<Rightarrow> 'a list \<Rightarrow> bool" where
  "named_once name xs \<longleftrightarrow> distinct (map name xs) \<and> None \<notin> name ` set xs"

definition replaced :: "('a \<Rightarrow> string option) \<Rightarrow> 'a gomap \<Rightarrow> 'a \<Rightarrow> 'a" where
  "replaced name toUpdate x = the_default x (Option.bind (name x) (map_of toUpdate))"

lemma replaced_delete: "name x \<noteq> Some n \<Longrightarrow> replaced name (AList.delete n m) x = replaced name m x"
  by (cases "name x") (auto simp: replaced_def delete_conv')

lemma replace_entries_run:
  assumes "named_once name xs"
  shows "replace_entries name xs m s =
    (Ok (map (replaced name m) xs, filter (\<lambda>(k, v). Some k \<notin> name ` set xs) m), s)"
  using assms
proof (induction xs arbitrary: m)
  case Nil
  then show ?case by (simp add: ret_def)
next
  case (Cons x xs)
  then obtain n where n: "name x = Some n" by (cases "name x") (auto simp: named_once_def)
  with Cons.prems have fresh: "Some n \<notin> name ` set xs" and xs: "named_once name xs" by (auto simp: named_once_def)
  have same: "map (replaced name (AList.delete n m)) xs = map (replaced name m) xs"
    by (rule map_cong [OF refl], rule replaced_delete) (use fresh in force)
  have "filter (\<lambda>(k, v). Some k \<notin> name ` set xs) (AList.delete n m) = filter (\<lambda>(k, v). Some k \<notin> name ` set (x # xs)) m"
    by (auto simp: AList.delete_eq n intro!: filter_cong)
  moreover have "map_of m n = None \<Longrightarrow>
      filter (\<lambda>(k, v). Some k \<notin> name ` set xs) m = filter (\<lambda>(k, v). Some k \<notin> name ` set (x # xs)) m"
    by (rule filter_cong) (auto simp: n map_of_eq_None_iff image_iff)
  ultimately show ?case
    using Cons.IH [OF xs] same by (auto simp: n derefIO_def bindIO_def ret_def replaced_def split: option.split)
qed

text \<open>What the merge of a list of named entries is to be.\<close>

definition merged_entries :: "('a \<Rightarrow> string option) \<Rightarrow> 'a list \<Rightarrow> 'a gomap \<Rightarrow> 'a list \<Rightarrow> bool" where
  "merged_entries name xs toUpdate zs \<longleftrightarrow>
     (\<exists>new. zs = map (replaced name toUpdate) xs @ new \<and>
        mset new = mset (map snd (filter (\<lambda>(k, v). Some k \<notin> name ` set xs) toUpdate)))"

lemma merge_entries_run:
  assumes "named_once name xs"
  shows "\<exists>zs. merge_entries env name xs m s = (Ok zs, s) \<and> merged_entries name xs m zs"
  unfolding merge_entries_def merged_entries_def bindIO_def replace_entries_run [OF assms]
  by (auto simp: range_order_def ret_def)

definition updated_profile :: "UserProfileConfig \<Rightarrow> UPConfig \<Rightarrow> UPConfig \<Rightarrow> bool" where
  "updated_profile spec p p' \<longleftrightarrow>
     merged_entries ua_Name (the_default [] (uc_Attributes p))
       (userProfileConfigAttributeToMap (userProfileConfigSpecToModel spec)) (the_default [] (uc_Attributes p')) \<and>
     merged_entries ug_Name (the_default [] (uc_Groups p))
       (userProfileConfigGroupToMap (userProfileConfigSpecToModel spec)) (the_default [] (uc_Groups p')) \<and>
     uc_UnmanagedAttributePolicy p' =
       (if upc_UnmanagedAttributePolicy spec = '''' then None else Some (upc_UnmanagedAttributePolicy spec))"

definition well_named :: "UPConfig \<Rightarrow> bool" where
  "well_named p \<longleftrightarrow> named_once ua_Name (the_default [] (uc_Attributes p)) \<and> named_once ug_Name (the_default [] (uc_Groups p))"

definition profile_event :: "kc_client \<Rightarrow> string \<Rightarrow> http_method \<Rightarrow> payload \<Rightarrow> event" where
  "profile_event c realm m b = Http c (mk_request m (realm_path realm [''users'', ''profile'']) [] b)"

definition profile_answer :: "'w env \<Rightarrow> kc_client \<Rightarrow> string \<Rightarrow> 'w \<Rightarrow> UPConfig \<Rightarrow> bool" where
  "profile_answer env c realm w p \<longleftrightarrow> (\<exists>r w'.
     success env c (mk_request GET (realm_path realm [''users'', ''profile'']) [] NoBody) w r w' \<and> json_profile r = Some p)"

lemma wp_update_profile:
  assumes "well_named p"
  shows "wp True (update_profile env c realm spec p)
    (\<lambda>_ t. \<exists>p'. trace t = trace s @ [profile_event c realm PUT (ProfileB p')] \<and> updated_profile spec p p') (\<lambda>_ _. True) s"
proof -
  let ?m = "userProfileConfigSpecToModel spec"
  let ?Q = "\<lambda>t. \<exists>p'. trace t = trace s @ [profile_event c realm PUT (ProfileB p')] \<and> updated_profile spec p p'"
  from assms have once: "named_once ua_Name (the_default [] (uc_Attributes p))" "named_once ug_Name (the_default [] (uc_Groups p))"
    by (auto simp: well_named_def)
  obtain as where
    as: "merge_entries env ua_Name (the_default [] (uc_Attributes p)) (userProfileConfigAttributeToMap ?m) s = (Ok as, s)"
      "merged_entries ua_Name (the_default [] (uc_Attributes p)) (userProfileConfigAttributeToMap ?m) as"
    using merge_entries_run [OF once(1)] by blast
  obtain gs where
    gs: "merge_entries env ug_Name (the_default [] (uc_Groups p)) (userProfileConfigGroupToMap ?m) s = (Ok gs, s)"
      "merged_entries ug_Name (the_default [] (uc_Groups p)) (userProfileConfigGroupToMap ?m) gs"
    using merge_entries_run [OF once(2)] by blast
  let ?p = "p\<lparr>uc_Attributes := Some as, uc_Groups := Some gs, uc_UnmanagedAttributePolicy := uc_UnmanagedAttributePolicy ?m\<rparr>"
  let ?prog = "wrapErr ''unable to update user profile: '' (voidIO (UpdateUsersProfile env c realm ?p))"
  have upd: "updated_profile spec p ?p"
    using as(2) gs(2) by (simp add: updated_profile_def userProfileConfigSpecToModel_def)
  have "wp True (UpdateUsersProfile env c realm ?p) (\<lambda>_. ?Q) (\<lambda>_ _. True) s"
    unfolding UpdateUsersProfile_def wp_bindIO
    by (rule wp_sendRequest) (use upd in \<open>auto simp: profile_event_def\<close>)
  then have "wp True ?prog (\<lambda>_. ?Q) (\<lambda>_ _. True) s" by simp
  moreover have "update_profile env c realm spec p s = ?prog s"
    using as(1) gs(1) by (simp add: update_profile_def bindIO_def Let_def)
  ultimately show ?thesis by (simp only: wp_def)
qed


section \<open>A concrete run\<close>

text \<open>A Keycloak whose state is the profile.\<close>

definition profile_env :: "UPConfig env" where
  "profile_env = idle_env\<lparr>kc_http := (\<lambda>c rq w. case rq_body rq of
     ProfileB p \<Rightarrow> (Inr (Some (accepted None)), p) | _ \<Rightarrow> (Inr (Some (accepted (Some (ProfileB w)))), w))\<rparr>"

definition stock_profile :: UPConfig where
  "stock_profile = \<lparr>uc_Attributes = Some [userProfileConfigAttributeSpecToModel
       \<lparr>upa_Name = ''email'', upa_DisplayName = ''old'', upa_Group = '''', upa_Multivalued = False, upa_Permissions = None,
        upa_Required = None, upa_Selector = None, upa_Annotations = [], upa_Validations = []\<rparr>],
     uc_Groups = None, uc_UnmanagedAttributePolicy = None\<rparr>"

definition profile_spec :: UserProfileConfig where
  "profile_spec = \<lparr>upc_UnmanagedAttributePolicy = ''ENABLED'', upc_Attributes = Some [
       \<lparr>upa_Name = ''email'', upa_DisplayName = ''new'', upa_Group = '''', upa_Multivalued = False, upa_Permissions = None,
        upa_Required = None, upa_Selector = None, upa_Annotations = [], upa_Validations = []\<rparr>], upc_Groups = None\<rparr>"

lemmas profile_simps = profile_env_def stock_profile_def profile_spec_def userProfileConfigAttributeSpecToModel_def
  userProfileConfigSpecToModel_def userProfileConfigAttributeToMap_def userProfileConfigGroupToMap_def build_map_def


end
