(* ===== verification/SecretRef.thy ===== *)
theory SecretRef
  imports Helper
begin

text \<open>
  \<open>pkg/secretref\<close>: values taken from secrets and config maps, either through a typed reference
  (\<open>sourceref.go\<close>) or through a value of the form \<open>$secret:key\<close> (\<open>secretref.go\<close>). The configuration
  maps are local to their callers, so the functions that fill them in return the new map; values
  already replaced stay replaced when a later one fails, but no caller looks at the map then.
\<close>

section \<open>sourceref.go\<close>

definition GetValueFromSourceRef :: "'w env \<Rightarrow> SourceRef option \<Rightarrow> string \<Rightarrow> ('w, 'm, string) prog" where
  "GetValueFromSourceRef env sourceRef namespace = (case sourceRef of
     None \<Rightarrow> ret ''''
   | Some ref \<Rightarrow> (case src_ConfigMapKeyRef ref of
       Some cm \<Rightarrow>
         bindIO (wrapErr ''unable to get configmap: '' (get_configmap env namespace (cm_Name cm))) (\<lambda>configMap.
         ret (get_str (cfm_Data configMap) (cm_Key cm)))
     | None \<Rightarrow> (case src_SecretKeyRef ref of
         Some sk \<Rightarrow>
           bindIO (wrapErr ''unable to get secret: '' (get_secret env namespace (sk_Name sk))) (\<lambda>secret.
           ret (get_str (sec_Data secret) (sk_Key sk)))
       | None \<Rightarrow> ret '''')))"

definition GetValueFromSourceRefOrVal :: "'w env \<Rightarrow> SourceRefOrVal option \<Rightarrow> string \<Rightarrow> ('w, 'm, string) prog" where
  "GetValueFromSourceRefOrVal env sourceRef namespace = (case sourceRef of
     None \<Rightarrow> ret ''''
   | Some v \<Rightarrow> (case srv_SourceRef v of
       Some ref \<Rightarrow> GetValueFromSourceRef env (Some ref) namespace
     | None \<Rightarrow> ret (srv_Value v)))"

section \<open>secretref.go\<close>

definition HasSecretRef :: "string \<Rightarrow> bool" where
  "HasSecretRef val \<longleftrightarrow> strings_HasPrefix val ''$''"

definition GenerateSecretRef :: "string \<Rightarrow> string \<Rightarrow> string" where
  "GenerateSecretRef secretName secretFiled = ''$'' @ secretName @ '':'' @ secretFiled"

definition GetSecretFromRef :: "'w env \<Rightarrow> string \<Rightarrow> string \<Rightarrow> ('w, 'm, string) prog" where
  "GetSecretFromRef env refVal secretNamespace =
     (if \<not> HasSecretRef refVal
      then fail (NewError (''invalid config secret reference '' @ refVal @ '' is not in format '' @
             [CHR 0x27] @ ''$secretName:secretKey'' @ [CHR 0x27]))
      else if strings_HasPrefix refVal ''${'' then ret refVal
      else case strings_Split (CHR '':'') (tl refVal) of
        [name, key] \<Rightarrow>
          bindIO (wrapErr (''failed to get secret '' @ name @ '': '') (get_secret env secretNamespace name)) (\<lambda>secret.
          case map_of (sec_Data secret) key of
            None \<Rightarrow> fail (NewError (''secret '' @ name @ '' does not contain key '' @ key))
          | Some secretVal \<Rightarrow> ret secretVal)
      | _ \<Rightarrow> fail (NewError (''invalid config secret  reference '' @ refVal @ '' is not in format '' @
             [CHR 0x27] @ ''$secretName:secretKey'' @ [CHR 0x27])))"

text \<open>Assigning to the key a loop over a map is at does not disturb the loop.\<close>

definition MapConfigSecretsRefs :: "'w env \<Rightarrow> string gomap \<Rightarrow> string \<Rightarrow> ('w, 'm, string gomap) prog" where
  "MapConfigSecretsRefs env config namespace =
     bindIO (range_order (map_rank env) config) (\<lambda>entries.
     foldIO (\<lambda>(k, v) cfg.
       if \<not> HasSecretRef v then ret cfg
       else bindIO (GetSecretFromRef env v namespace) (\<lambda>secretVal. ret (AList.update k secretVal cfg))) entries config)"

primrec map_values :: "'w env \<Rightarrow> string \<Rightarrow> string list \<Rightarrow> ('w, 'm, string list) prog" where
  "map_values env namespace [] = ret []"
| "map_values env namespace (v # vs) =
     bindIO (if \<not> HasSecretRef v then ret v else GetSecretFromRef env v namespace) (\<lambda>v'.
     bindIO (map_values env namespace vs) (\<lambda>vs'. ret (v' # vs')))"

definition MapComponentConfigSecretsRefs :: "'w env \<Rightarrow> string list gomap \<Rightarrow> string \<Rightarrow> ('w, 'm, string list gomap) prog" where
  "MapComponentConfigSecretsRefs env config namespace =
     bindIO (range_order (map_rank env) config) (\<lambda>entries.
     foldIO (\<lambda>(k, values) cfg.
       bindIO (map_values env namespace values) (\<lambda>values'. ret (AList.update k values' cfg))) entries config)"

section \<open>Properties\<close>

text \<open>A cluster whose secrets do not change while they are read.\<close>

definition stable_secrets :: "'w env \<Rightarrow> string \<Rightarrow> ('w \<Rightarrow> string \<Rightarrow> string gomap option) \<Rightarrow> bool" where
  "stable_secrets env ns secrets \<longleftrightarrow> (\<forall>name w w' x. k8s env (KGet KindSecret ns name) w = (x, w') \<longrightarrow>
     secrets w' = secrets w \<and>
     (\<forall>s. x = Inr (SecretObj s) \<longrightarrow> secrets w name = Some (sec_Data s)))"

text \<open>What a value stands for.\<close>

definition ref_value :: "(string \<Rightarrow> string gomap option) \<Rightarrow> string \<Rightarrow> string option" where
  "ref_value secrets v =
     (if \<not> HasSecretRef v \<or> strings_HasPrefix v ''${'' then Some v
      else case strings_Split (CHR '':'') (tl v) of
        [name, key] \<Rightarrow> Option.bind (secrets name) (\<lambda>d. map_of d key)
      | _ \<Rightarrow> None)"

lemma wp_GetSecretFromRef:
  assumes "stable_secrets env ns secrets"
  shows "wp False (GetSecretFromRef env v ns) (\<lambda>x s'. ref_value (secrets (world s)) v = Some x \<and>
     HasSecretRef v \<and> secrets (world s') = secrets (world s) \<and> mem s' = mem s) (\<lambda>_ _. True) s"
proof -
  have get: "wp False (get_secret env ns name) (\<lambda>x s'. secrets (world s) name = Some (sec_Data x) \<and>
      secrets (world s') = secrets (world s) \<and> mem s' = mem s) (\<lambda>_ _. True) s" for name
    using assms
    by (auto simp: get_secret_def k8s_Get_def wp_callIO stable_secrets_def split: prod.split sum.split k8s_object.split)
  show ?thesis
    unfolding GetSecretFromRef_def ref_value_def
    by (auto intro!: wp_mono [OF get] split: list.split option.split)
qed

text \<open>A configuration in which every value is what it stands for.\<close>

definition resolved :: "(string \<Rightarrow> string gomap option) \<Rightarrow> string gomap \<Rightarrow> string gomap \<Rightarrow> bool" where
  "resolved secrets config config' \<longleftrightarrow> (\<forall>k. map_of config' k = Option.bind (map_of config k) (ref_value secrets) \<and>
     (map_of config' k = None \<longleftrightarrow> map_of config k = None))"

lemma wp_MapConfigSecretsRefs:
  assumes "stable_secrets env ns secrets" and "distinct (map fst config)"
  shows "wp False (MapConfigSecretsRefs env config ns)
    (\<lambda>config' t. resolved (secrets (world s)) config config' \<and> secrets (world t) = secrets (world s)) (\<lambda>_ _. True) s"
  unfolding MapConfigSecretsRefs_def wp_bindIO
proof (rule wp_range_order)
  fix es
  assume "mset es = mset config"
  then have es_set: "set es = set config" by (metis set_mset_mset)
  let ?S = "secrets (world s)"
  let ?I = "\<lambda>vis cfg t. secrets (world t) = ?S \<and>
      (\<forall>k \<in> fst ` set vis. \<exists>v y. map_of config k = Some v \<and> ref_value ?S v = Some y \<and> map_of cfg k = Some y) \<and>
      (\<forall>k. k \<notin> fst ` set vis \<longrightarrow> map_of cfg k = map_of config k)"
  let ?f = "\<lambda>(k, v) cfg. if \<not> HasSecretRef v then ret cfg
     else bindIO (GetSecretFromRef env v ns) (\<lambda>secretVal. ret (AList.update k secretVal cfg))"
  show "wp False (foldIO ?f es config)
      (\<lambda>config' t. resolved ?S config config' \<and> secrets (world t) = ?S) (\<lambda>_ _. True) s"
  proof (rule wp_foldIO [where I = ?I])
    fix vis x rest cfg and t :: "('a, event, 'b) io_state"
    assume es: "es = vis @ x # rest" and I: "?I vis cfg t"
    obtain k v where x: "x = (k, v)" by (cases x)
    have "(k, v) \<in> set config" unfolding es_set [symmetric] es x by simp
    then have kv: "map_of config k = Some v" using assms(2) by simp
    show "wp False (?f x cfg) (\<lambda>cfg' t'. ?I (vis @ [x]) cfg' t') (\<lambda>_ _. True) t"
    proof (cases "HasSecretRef v")
      case True
      show ?thesis
        unfolding x using True I kv
        by (auto intro!: wp_mono [OF wp_GetSecretFromRef [OF assms(1)]] simp: update_conv')
    next
      case False
      then have "ref_value ?S v = Some v" by (simp add: ref_value_def)
      with False I kv show ?thesis by (cases "k \<in> fst ` set vis") (auto simp: x)
    qed
  next
    fix cfg and t :: "('a, event, 'b) io_state"
    assume I: "?I es cfg t"
    have out: "k \<notin> fst ` set es \<Longrightarrow> map_of config k = None" for k by (simp add: es_set map_of_eq_None_iff)
    have "map_of cfg k = Option.bind (map_of config k) (ref_value ?S) \<and> (map_of cfg k = None \<longleftrightarrow> map_of config k = None)" for k
      by (cases "k \<in> fst ` set es") (use I out [of k] in \<open>(fastforce, simp)\<close>)
    with I show "resolved ?S config cfg \<and> secrets (world t) = ?S" unfolding resolved_def by blast
  qed auto
qed

text \<open>What reading secrets does not change, resolving references does not either.\<close>

lemma wp_GetSecretFromRef_frame:
  assumes "\<And>name w. f (snd (k8s env (KGet KindSecret ns name) w)) = f w"
  shows "wp True (GetSecretFromRef env v ns) (\<lambda>_ t. f (world t) = f (world s)) (\<lambda>_ _. True) s"
proof -
  have get: "wp True (get_secret env ns name) (\<lambda>_ t. f (world t) = f (world s)) (\<lambda>_ _. True) s" for name
    using assms [of name "world s"]
    by (auto simp: get_secret_def k8s_Get_def wp_callIO split: prod.split sum.split k8s_object.split)
  show ?thesis
    unfolding GetSecretFromRef_def by (auto intro!: wp_mono [OF get] split: list.split option.split)
qed

lemma wp_MapConfigSecretsRefs_frame:
  assumes "\<And>name w. f (snd (k8s env (KGet KindSecret ns name) w)) = f w"
  shows "wp True (MapConfigSecretsRefs env config ns) (\<lambda>_ t. f (world t) = f (world s)) (\<lambda>_ _. True) s"
  unfolding MapConfigSecretsRefs_def wp_bindIO
  by (rule wp_range_order, rule wp_foldIO [where I = "\<lambda>_ _ t. f (world t) = f (world s)"])
    (auto intro!: wp_mono [OF wp_GetSecretFromRef_frame [where f = f, OF assms]])

text \<open>
  Resolving the references of a configuration: when \<open>MapConfigSecretsRefs\<close> succeeds, the
  configuration has the same keys, every value without a reference and every reference in
  Keycloak's own format \<open>${...}\<close> is unchanged, and every other reference \<open>$secret:key\<close> has become
  the value the secret holds under that key, in whatever order the map is visited.
\<close>

theorem MapConfigSecretsRefs_correct:
  assumes "stable_secrets env ns secrets" and "distinct (map fst config)"
    and "MapConfigSecretsRefs env config ns s = (Ok config', s')"
  shows "\<forall>k. map_of config' k = Option.bind (map_of config k) (ref_value (secrets (world s))) \<and>
     (map_of config' k = None \<longleftrightarrow> map_of config k = None)"
  using wp_OkD [OF wp_MapConfigSecretsRefs [OF assms(1,2)] assms(3)] unfolding resolved_def by blast

text \<open>
  A generated reference is read back: for a secret and a key whose names have no colon, and
  a secret whose name does not start with a brace, resolving \<open>GenerateSecretRef\<close> is reading that key
  of that secret, and it counts as a reference.
\<close>

theorem GenerateSecretRef_roundtrip:
  assumes "CHR '':'' \<notin> set name" and "CHR '':'' \<notin> set key" and "\<not> prefix ''{'' name"
  shows "HasSecretRef (GenerateSecretRef name key) \<and>
    GetSecretFromRef env (GenerateSecretRef name key) ns =
      bindIO (wrapErr (''failed to get secret '' @ name @ '': '') (get_secret env ns name)) (\<lambda>secret.
      case map_of (sec_Data secret) key of
        None \<Rightarrow> fail (NewError (''secret '' @ name @ '' does not contain key '' @ key))
      | Some v \<Rightarrow> ret v)"
proof -
  have split: "strings_Split (CHR '':'') (name @ CHR '':'' # key) = [name, key]"
    using assms by (simp add: strings_Split_append strings_Split_no_sep)
  have "\<not> prefix ''{'' (name @ CHR '':'' # key)" using assms(3) by (cases name) auto
  with split show ?thesis
    by (simp add: GetSecretFromRef_def GenerateSecretRef_def HasSecretRef_def)
qed

definition vault_env :: "unit env" where
  "vault_env = idle_env\<lparr>k8s := (\<lambda>rq w. (Inr (SecretObj \<lparr>sec_Name = ''db'', sec_Namespace = ''ns'', sec_ResourceVersion = ''1'', sec_OwnerReferences = [],
     sec_Data = [(''pass'', ''s3cret'')]\<rparr>), w))\<rparr>"

lemma vault_env_stable: "stable_secrets vault_env ns (\<lambda>_ _. Some [(''pass'', ''s3cret'')])"
  by (auto simp: stable_secrets_def vault_env_def)

theorem MapConfigSecretsRefs_witness:
  "\<exists>config' s'. MapConfigSecretsRefs vault_env [(''url'', ''http://h''), (''secret'', ''$db:pass'')] ''ns''
       \<lparr>world = (), trace = [], mem = ()\<rparr> = (Ok config', s') \<and>
     map_of config' ''secret'' = Some ''s3cret'' \<and> map_of config' ''url'' = Some ''http://h''"
proof -
  let ?cfg = "[(''url'', ''http://h''), (''secret'', ''$db:pass'')]" and ?s = "\<lparr>world = (), trace = [], mem = ()\<rparr>"
  have "\<exists>c s'. MapConfigSecretsRefs vault_env ?cfg ''ns'' ?s = (Ok c, s')"
    by (simp add: MapConfigSecretsRefs_def GetSecretFromRef_def HasSecretRef_def get_secret_def k8s_Get_def
        vault_env_def idle_env_def go_simps)
  then obtain c s' where run: "MapConfigSecretsRefs vault_env ?cfg ''ns'' ?s = (Ok c, s')" by blast
  from MapConfigSecretsRefs_correct [OF vault_env_stable _ run]
  have "\<forall>k. map_of c k = Option.bind (map_of ?cfg k) (ref_value (\<lambda>_. Some [(''pass'', ''s3cret'')]))" by simp
  with run show ?thesis by (simp add: ref_value_def HasSecretRef_def)
qed

theorem GenerateSecretRef_witness:
  "HasSecretRef (GenerateSecretRef ''db'' ''pass'') \<and>
   fst (GetSecretFromRef vault_env (GenerateSecretRef ''db'' ''pass'') ''ns'' \<lparr>world = (), trace = [], mem = ()\<rparr>) = Ok ''s3cret''"
  by (simp add: GenerateSecretRef_roundtrip get_secret_def k8s_Get_def go_simps) (simp add: vault_env_def go_simps)

end
