(* ===== verification/RealmChain.thy ===== *)
theory RealmChain
  imports UserProfile SecretRef GroupChain
begin

text \<open>
  \<open>internal/controller/keycloakrealm/chain/realm\<close>: the handlers that put a realm and its settings.
  Each handler does its work and passes on to the next one (\<open>nextServeOrNil\<close>), which puts
  \<open>chain failed <name>\<close> in front of the errors of the rest of the chain.
\<close>

section \<open>realm.go and set_labels.go\<close>

definition put_realm_role :: "'w env \<Rightarrow> kc_client \<Rightarrow> string \<Rightarrow> string \<Rightarrow> ('w, unit) realm_prog" where
  "put_realm_role env c realmName r =
     bindIO (tryIO (GetRealmRole env c realmName r)) (\<lambda>res. case res of
       Inr _ \<Rightarrow> ret ()
     | Inl err \<Rightarrow>
         if \<not> IsNotFound err then fail (Wrapped ''unable to check realm role existence: '' err)
         else wrapErr ''unable to create new realm role: ''
           (voidIO (CreateRealmRole env c realmName (zero_role\<lparr>role_Name := Some r\<rparr>))))"

definition putRealmRoles :: "'w env \<Rightarrow> kc_client \<Rightarrow> KeycloakRealmSpec \<Rightarrow> ('w, unit) realm_prog" where
  "putRealmRoles env c spec =
     (let allRoles = build_map Some (\<lambda>_. ()) (concat (map ru_RealmRoles (rs_Users spec))) in
      bindIO (range_order (map_rank env) allRoles) (
      forIO (\<lambda>(r, u). put_realm_role env c (rs_RealmName spec) r)))"

definition createRealm :: "'w env \<Rightarrow> kc_client \<Rightarrow> KeycloakRealmSpec \<Rightarrow> ('w, unit) realm_prog" where
  "createRealm env c spec =
     bindIO (wrapErr ''unable to create realm with default config: ''
              (CreateRealm env c [(''Realm'', RStr (rs_RealmName spec)), (''Enabled'', RBool True)])) (\<lambda>_.
     wrapErr ''unable to create realm roles on no sso scenario: '' (putRealmRoles env c spec))"

definition PutRealm_work :: "'w env \<Rightarrow> kc_client \<Rightarrow> ('w, unit) realm_prog" where
  "PutRealm_work env c =
     bindIO (getMem (\<lambda>m. kr_Spec (rm_realm m))) (\<lambda>spec.
     bindIO (tryIO (GetRealm env c (rs_RealmName spec))) (\<lambda>res. case res of
       Inr _ \<Rightarrow> ret ()
     | Inl err \<Rightarrow>
         if \<not> IsNotFound err then fail (Wrapped ''unable to check realm existence: '' err)
         else createRealm env c spec))"

definition TargetRealmLabel :: string where "TargetRealmLabel = ''targetRealm''"

definition labelled :: "KeycloakRealm \<Rightarrow> KeycloakRealm" where
  "labelled r =
     (if map_of (om_Labels (kr_Meta r)) TargetRealmLabel = Some (rs_RealmName (kr_Spec r)) then r
      else r\<lparr>kr_Meta := (kr_Meta r)\<lparr>om_Labels :=
        AList.update TargetRealmLabel (rs_RealmName (kr_Spec r)) (om_Labels (kr_Meta r))\<rparr>\<rparr>)"

definition SetLabels_work :: "'w env \<Rightarrow> ('w, unit) realm_prog" where
  "SetLabels_work env =
     bindIO (modMem (\<lambda>m. m\<lparr>rm_realm := labelled (rm_realm m)\<rparr>)) (\<lambda>_.
     bindIO (tryIO (k8s_Update env realm_obj)) (\<lambda>res. case res of
       Inr _ \<Rightarrow> ret ()
     | Inl err \<Rightarrow> bindIO (getMem rm_realm) (\<lambda>r.
         fail (Wrapped (''unable to update realm with new labels, realm: '' @ fmt_realm env r @ '': '') err))))"

section \<open>users.go and users_roles.go\<close>

definition createOneUser :: "'w env \<Rightarrow> kc_client \<Rightarrow> string \<Rightarrow> string \<Rightarrow> ('w, unit) realm_prog" where
  "createOneUser env c realmName username =
     bindIO (tryIO (FindUserByUsername env c realmName username)) (\<lambda>res. case res of
       Inr _ \<Rightarrow> ret ()
     | Inl err \<Rightarrow>
         if \<not> IsNotFound err then fail (Wrapped ''error during exist realm user check: '' err)
         else wrapErr ''unable to create user in realm: ''
           (voidIO (CreateUser env c realmName (zero_user\<lparr>ur_Username := Some username, ur_Email := Some username,
              ur_Enabled := Some True\<rparr>))))"

definition createUsers :: "'w env \<Rightarrow> kc_client \<Rightarrow> string \<Rightarrow> RealmUser list \<Rightarrow> ('w, unit) realm_prog" where
  "createUsers env c realmName users =
     forIO (\<lambda>user. wrapErr ''error during createOneUser: '' (createOneUser env c realmName (ru_Username user))) users"

definition PutUsers_work :: "'w env \<Rightarrow> kc_client \<Rightarrow> ('w, unit) realm_prog" where
  "PutUsers_work env c =
     bindIO (getMem (\<lambda>m. kr_Spec (rm_realm m))) (\<lambda>spec.
     wrapErr ''error during createUsers: '' (createUsers env c (rs_RealmName spec) (rs_Users spec)))"

definition putOneRealmRoleToOneUser ::
  "'w env \<Rightarrow> kc_client \<Rightarrow> string \<Rightarrow> string \<Rightarrow> string \<Rightarrow> ('w, unit) realm_prog" where
  "putOneRealmRoleToOneUser env c realmName username role =
     bindIO (tryIO (FindUserByUsername env c realmName username)) (\<lambda>res. case res of
       Inl err \<Rightarrow>
         if IsNotFound err
         then fail (NewError (''user '' @ username @ '' not found in realm '' @ realmName))
         else fail (Wrapped ''unable to find user by username: '' err)
     | Inr user \<Rightarrow>
         bindIO (derefIO (ur_Id user)) (\<lambda>userID.
         bindIO (wrapErr ''unable to get user realm role mappings: ''
                  (GetUserRealmRoleMappings env c realmName userID)) (\<lambda>existingRoles.
         if Some role \<in> role_Name ` set existingRoles then ret ()
         else
           bindIO (wrapErr ''unable to get realm role: '' (GetRealmRole env c realmName role)) (\<lambda>realmRole.
           bindIO (derefIO realmRole) (\<lambda>r.
           wrapErr ''unable to add realm role to user: ''
             (voidIO (AddUserRealmRoles env c realmName userID [r])))))))"

definition putRolesToOneUser :: "'w env \<Rightarrow> kc_client \<Rightarrow> string \<Rightarrow> RealmUser \<Rightarrow> ('w, unit) realm_prog" where
  "putRolesToOneUser env c realmName user =
     forIO (\<lambda>role. wrapErr ''error during putOneRoleToOneUser: ''
       (putOneRealmRoleToOneUser env c realmName (ru_Username user) role)) (ru_RealmRoles user)"

definition putRolesToUsers :: "'w env \<Rightarrow> kc_client \<Rightarrow> string \<Rightarrow> RealmUser list \<Rightarrow> ('w, unit) realm_prog" where
  "putRolesToUsers env c realmName users =
     forIO (\<lambda>user. wrapErr ''error during putRolesToOneUser: '' (putRolesToOneUser env c realmName user)) users"

definition PutUsersRoles_work :: "'w env \<Rightarrow> kc_client \<Rightarrow> ('w, unit) realm_prog" where
  "PutUsersRoles_work env c =
     bindIO (getMem (\<lambda>m. kr_Spec (rm_realm m))) (\<lambda>spec.
     wrapErr ''error during putRolesToUsers: '' (putRolesToUsers env c (rs_RealmName spec) (rs_Users spec)))"

section \<open>realm_settings.go and realm_localization_texts.go\<close>

definition set_spec :: "KeycloakRealmSpec \<Rightarrow> realm_mem \<Rightarrow> realm_mem" where
  "set_spec spec m = m\<lparr>rm_realm := (rm_realm m)\<lparr>kr_Spec := spec\<rparr>\<rparr>"

definition RealmSettings_work :: "'w env \<Rightarrow> kc_client \<Rightarrow> ('w, unit) realm_prog" where
  "RealmSettings_work env c =
     bindIO (getMem (\<lambda>m. kr_Spec (rm_realm m))) (\<lambda>spec.
     bindIO (ApplyRealmEventConfig env c (rs_RealmName spec) (rs_RealmEventConfig spec)) (\<lambda>_.
     bindIO (modMem (set_spec (spec_after_build spec))) (\<lambda>_.
     ApplyRealmSettings env c (rs_RealmName spec) (BuildRealmRepresentationFromV1 spec))))"

definition localesAlreadyInSync :: "string gomap \<Rightarrow> string gomap \<Rightarrow> bool" where
  "localesAlreadyInSync current desired = list_all (\<lambda>(k, v). get_str current k = v) desired"

definition sync_locale :: "'w env \<Rightarrow> kc_client \<Rightarrow> string \<Rightarrow> string \<Rightarrow> string gomap \<Rightarrow> ('w, 'm, unit) prog" where
  "sync_locale env c realmName locale kv =
     (if kv = [] then ret ()
      else bindIO (tryIO (GetRealmLocalization env c realmName locale)) (\<lambda>res.
        if (case res of Inl _ \<Rightarrow> False | Inr current \<Rightarrow> localesAlreadyInSync current kv) then ret ()
        else wrapErr (''unable to set realm localization for locale '' @ go_quote locale @ '': '')
          (voidIO (PostRealmLocalization env c realmName locale kv))))"

text \<open>\<open>slices.Sorted(maps.Keys(desired))\<close>: the locales in ascending order of their bytes.\<close>

definition SyncLocalizationTexts ::
  "'w env \<Rightarrow> kc_client \<Rightarrow> string \<Rightarrow> string gomap gomap \<Rightarrow> ('w, 'm, unit) prog" where
  "SyncLocalizationTexts env c realmName desired =
     forIO (\<lambda>locale. sync_locale env c realmName locale (the_default [] (map_of desired locale)))
       (sort (map fst desired))"

definition RealmLocalizationTexts_work :: "'w env \<Rightarrow> kc_client \<Rightarrow> ('w, unit) realm_prog" where
  "RealmLocalizationTexts_work env c =
     bindIO (getMem (\<lambda>m. kr_Spec (rm_realm m))) (\<lambda>spec.
     case rs_Localization spec of
       None \<Rightarrow> ret ()
     | Some l \<Rightarrow> if loc_LocalizationTexts l = [] then ret ()
         else SyncLocalizationTexts env c (rs_RealmName spec) (loc_LocalizationTexts l))"

section \<open>auth_flow.go, user_profile.go and configure_email.go\<close>

definition AuthFlow_work :: "'w env \<Rightarrow> kc_client \<Rightarrow> ('w, unit) realm_prog" where
  "AuthFlow_work env c =
     bindIO (getMem (\<lambda>m. kr_Spec (rm_realm m))) (\<lambda>spec.
     case rs_BrowserFlow spec of
       None \<Rightarrow> ret ()
     | Some flow \<Rightarrow> wrapErr ''unable to set realm auth flow: ''
         (voidIO (SetRealmBrowserFlow env c (rs_RealmName spec) flow)))"

definition UserProfile_work :: "'w env \<Rightarrow> kc_client \<Rightarrow> ('w, unit) realm_prog" where
  "UserProfile_work env c =
     bindIO (getMem (\<lambda>m. kr_Spec (rm_realm m))) (\<lambda>spec.
     case rs_UserProfileConfig spec of
       None \<Rightarrow> ret ()
     | Some cfg \<Rightarrow> ProcessUserProfile env c (rs_RealmName spec) cfg)"

definition email_map :: "SMTP \<Rightarrow> string gomap" where
  "email_map emailSpec =
     (let t = smtp_Template emailSpec; conn = smtp_Connection emailSpec in
      [(''from'', et_From t), (''fromDisplayName'', et_FromDisplayName t), (''replyTo'', et_ReplyTo t),
       (''replyToDisplayName'', et_ReplyToDisplayName t), (''envelopeFrom'', et_EnvelopeFrom t),
       (''host'', ec_Host conn), (''port'', strconv_Itoa (ec_Port conn)),
       (''ssl'', strconv_FormatBool (ec_EnableSSL conn)), (''starttls'', strconv_FormatBool (ec_EnableStartTLS conn)),
       (''auth'', strconv_FormatBool (ec_Authentication conn \<noteq> None))])"

definition convertEmailSpecToMap :: "'w env \<Rightarrow> SMTP \<Rightarrow> string \<Rightarrow> ('w, 'm, string gomap) prog" where
  "convertEmailSpecToMap env emailSpec secretsNamespace =
     (case ec_Authentication (smtp_Connection emailSpec) of
        None \<Rightarrow> ret (email_map emailSpec)
      | Some auth \<Rightarrow>
          bindIO (wrapErr ''unable to get username: ''
                   (GetValueFromSourceRefOrVal env (Some (ea_Username auth)) secretsNamespace)) (\<lambda>username.
          bindIO (wrapErr ''unable to get password: ''
                   (GetValueFromSourceRef env (Some (ea_Password auth)) secretsNamespace)) (\<lambda>password.
          ret (email_map emailSpec @ [(''user'', username), (''password'', password)]))))"

definition ConfigureRealmEmail ::
  "'w env \<Rightarrow> kc_client \<Rightarrow> string \<Rightarrow> SMTP option \<Rightarrow> string \<Rightarrow> ('w, 'm, unit) prog" where
  "ConfigureRealmEmail env c realmName emailSpec secretsNamespace = (case emailSpec of
     None \<Rightarrow> ret ()
   | Some spec \<Rightarrow>
       bindIO (wrapErr (''unable to get realm '' @ realmName @ '': '') (GetRealm env c realmName)) (\<lambda>current.
       bindIO (convertEmailSpecToMap env spec secretsNamespace) (\<lambda>emailMap.
       bindIO (derefIO current) (\<lambda>rep.
       wrapErr (''unable to update realm '' @ realmName @ '': '')
         (voidIO (UpdateRealm env c realmName (AList.update ''SmtpServer'' (RMap emailMap) rep)))))))"

definition ConfigureEmail_work :: "'w env \<Rightarrow> kc_client \<Rightarrow> ('w, unit) realm_prog" where
  "ConfigureEmail_work env c =
     bindIO (getMem rm_realm) (\<lambda>realm.
     case rs_Smtp (kr_Spec realm) of
       None \<Rightarrow> ret ()
     | Some smtp \<Rightarrow>
         ConfigureRealmEmail env c (rs_RealmName (kr_Spec realm)) (Some smtp) (om_Namespace (kr_Meta realm)))"

section \<open>factory.go\<close>

datatype realm_handler = PutRealm | SetLabels | PutUsers | PutUsersRoles | RealmSettings
  | RealmLocalizationTexts | AuthFlow | UserProfile | ConfigureEmail

fun realm_handler_work :: "'w env \<Rightarrow> kc_client \<Rightarrow> realm_handler \<Rightarrow> ('w, unit) realm_prog" where
  "realm_handler_work env c PutRealm = PutRealm_work env c"
| "realm_handler_work env c SetLabels = SetLabels_work env"
| "realm_handler_work env c PutUsers = PutUsers_work env c"
| "realm_handler_work env c PutUsersRoles = PutUsersRoles_work env c"
| "realm_handler_work env c RealmSettings = RealmSettings_work env c"
| "realm_handler_work env c RealmLocalizationTexts = RealmLocalizationTexts_work env c"
| "realm_handler_work env c AuthFlow = AuthFlow_work env c"
| "realm_handler_work env c UserProfile = UserProfile_work env c"
| "realm_handler_work env c ConfigureEmail = ConfigureEmail_work env c"

text \<open>\<open>reflect.TypeOf(next).Name()\<close>.\<close>

fun realm_handler_name :: "realm_handler \<Rightarrow> string" where
  "realm_handler_name PutRealm = ''PutRealm''"
| "realm_handler_name SetLabels = ''SetLabels''"
| "realm_handler_name PutUsers = ''PutUsers''"
| "realm_handler_name PutUsersRoles = ''PutUsersRoles''"
| "realm_handler_name RealmSettings = ''RealmSettings''"
| "realm_handler_name RealmLocalizationTexts = ''RealmLocalizationTexts''"
| "realm_handler_name AuthFlow = ''AuthFlow''"
| "realm_handler_name UserProfile = ''UserProfile''"
| "realm_handler_name ConfigureEmail = ''ConfigureEmail''"

primrec nextServeOrNil :: "'w env \<Rightarrow> kc_client \<Rightarrow> realm_handler list \<Rightarrow> ('w, unit) realm_prog" where
  "nextServeOrNil env c [] = ret ()"
| "nextServeOrNil env c (h # hs) =
     wrapErr (''chain failed '' @ realm_handler_name h @ '': '')
       (bindIO (realm_handler_work env c h) (\<lambda>_. nextServeOrNil env c hs))"

definition CreateDefChain :: "realm_handler list" where
  "CreateDefChain = [PutRealm, SetLabels, PutUsers, PutUsersRoles, RealmSettings, RealmLocalizationTexts,
     AuthFlow, UserProfile, ConfigureEmail]"

definition realm_ServeRequest :: "'w env \<Rightarrow> kc_client \<Rightarrow> realm_handler list \<Rightarrow> ('w, unit) realm_prog" where
  "realm_ServeRequest env c handlers = (case handlers of
     [] \<Rightarrow> ret ()
   | h # hs \<Rightarrow> bindIO (realm_handler_work env c h) (\<lambda>_. nextServeOrNil env c hs))"

end
