(* ===== verification/RealmProps.thy ===== *)
theory RealmProps
  imports RealmChain GroupProps
begin

text \<open>Properties of the realm chain.\<close>

section \<open>Localization texts\<close>

text \<open>
  A Keycloak with texts: for every locale and key a text, empty if there is none. Reading returns
  the texts of a locale and changes nothing, even when it fails; posting adds texts and replaces
  those with the same key.
\<close>

definition localization_server :: "'w env \<Rightarrow> string \<Rightarrow> ('w \<Rightarrow> string \<Rightarrow> string \<Rightarrow> string) \<Rightarrow> bool" where
  "localization_server env realm texts \<longleftrightarrow>
     (\<forall>c l w. texts (snd (kc_http env c (mk_request GET (realm_path realm [''localization'', l]) [] NoBody) w)) = texts w) \<and>
     (\<forall>c l w r w'. success env c (mk_request GET (realm_path realm [''localization'', l]) [] NoBody) w r w' \<longrightarrow>
        get_str (the_default [] (json_texts r)) = texts w l) \<and>
     (\<forall>c l kv w r w'. success env c (mk_request POST (realm_path realm [''localization'', l]) [] (TextsB kv)) w r w' \<longrightarrow>
        texts w' = (texts w)(l := \<lambda>k. the_default (texts w l k) (map_of kv k)))"

text \<open>The texts a resource asks for, on top of those there are.\<close>

definition localized :: "string gomap gomap \<Rightarrow> (string \<Rightarrow> string \<Rightarrow> string) \<Rightarrow> string \<Rightarrow> string \<Rightarrow> string" where
  "localized desired t l k = the_default (t l k) (map_of (the_default [] (map_of desired l)) k)"

lemma wp_sendRequest_silent:
  assumes "\<And>w. f (snd (kc_http env c rq w)) = f w"
  shows "wp True (sendRequest env c rq) (\<lambda>r s'. f (world s') = f (world s) \<and> (\<exists>w'. success env c rq (world s) r w'))
     (\<lambda>_ s'. f (world s') = f (world s)) s"
  using assms [of "world s"]
  by (auto simp: sendRequest_def wp_callIO success_def split: prod.split sum.split option.split)

lemma in_sync_unchanged:
  assumes "localesAlreadyInSync current kv" and "distinct (map fst kv)"
  shows "(\<lambda>k. the_default (get_str current k) (map_of kv k)) = get_str current"
proof
  fix k
  show "the_default (get_str current k) (map_of kv k) = get_str current k"
    using assms by (cases "map_of kv k") (auto simp: localesAlreadyInSync_def list_all_iff dest: map_of_SomeD)
qed

lemma wp_sync_locale:
  assumes "localization_server env realm texts" and "distinct (map fst kv)"
  shows "wp True (sync_locale env c realm l kv)
    (\<lambda>_ s'. texts (world s') = (texts (world s))(l := \<lambda>k. the_default (texts (world s) l k) (map_of kv k))) (\<lambda>_ _. True) s"
proof -
  let ?get = "mk_request GET (realm_path realm [''localization'', l]) [] NoBody"
  let ?Q = "\<lambda>_ s'. texts (world s') = (texts (world s))(l := \<lambda>k. the_default (texts (world s) l k) (map_of kv k))"
  note laws = assms(1) [unfolded localization_server_def]
  have post: "texts (world t) = texts (world s) \<Longrightarrow>
      wp True (PostRealmLocalization env c realm l kv) (\<lambda>_. ?Q ()) (\<lambda>_ _. True) t" for t
    unfolding PostRealmLocalization_def wp_bindIO by (rule wp_sendRequest) (use laws in auto)
  have read: "success env c ?get w r w' \<Longrightarrow> get_str (case json_texts r of None \<Rightarrow> [] | Some m \<Rightarrow> m) = texts w l" for w r w'
    using laws unfolding the_default_def by blast
  have get: "wp True (GetRealmLocalization env c realm l)
      (\<lambda>current s'. texts (world s') = texts (world s) \<and> get_str current = texts (world s) l)
      (\<lambda>_ s'. texts (world s') = texts (world s)) s"
    unfolding GetRealmLocalization_def wp_bindIO
    by (rule wp_mono [OF wp_sendRequest_silent [where f = texts]])
      (use laws read in auto)
  have sync: "localesAlreadyInSync current kv \<Longrightarrow> get_str current = t \<Longrightarrow> (\<lambda>k. the_default (t k) (map_of kv k)) = t" for current t
    using in_sync_unchanged [OF _ assms(2)] by blast
  show ?thesis
    unfolding sync_locale_def
    by (auto intro!: wp_mono [OF get] post simp: sync [simplified])
qed


definition texts_env :: "string gomap gomap env" where
  "texts_env = idle_env\<lparr>kc_http := (\<lambda>c rq w. let l = last (rq_path rq); m = the_default [] (map_of w l) in
     case rq_body rq of
       TextsB kv \<Rightarrow> (Inr (Some (accepted None)), AList.update l (kv @ m) w)
     | _ \<Rightarrow> (Inr (Some (accepted (Some (TextsB m)))), w))\<rparr>"

definition texts_of :: "string gomap gomap \<Rightarrow> string \<Rightarrow> string \<Rightarrow> string" where
  "texts_of w l = get_str (the_default [] (map_of w l))"

lemma texts_env_server: "localization_server texts_env realm texts_of"
  by (auto simp: localization_server_def texts_env_def success_def texts_of_def accepted_def json_texts_def realm_path_def
      update_conv' fun_eq_iff get_str_def map_add_def the_default_def Let_def split: option.splits)


end
