(* ===== verification/AdapterMethods.thy ===== *)
theory AdapterMethods
  imports Adapter
begin

text \<open>
  The methods of the legacy adapter that the modelled controllers call: \<open>identity_provider.go\<close>,
  \<open>component.go\<close>, \<open>serverinfo.go\<close>, and \<open>GetClientID\<close>, \<open>GetPermissions\<close>, \<open>UpdatePermission\<close> and \<open>GetRealm\<close>
  over gocloak. Names that clash with those of the newer client carry the prefix \<open>adapter_\<close>.

  \<open>SetResult\<close> decodes the body into a zero value, so an answer without a body of that type leaves
  the zero value.
\<close>

section \<open>Endpoints\<close>

definition idPResource :: string where
  "idPResource = ''/admin/realms/{realm}/identity-provider/instances''"

definition idpManagementPermissions :: string where
  "idpManagementPermissions = idPResource @ ''/{alias}/management/permissions''"

definition identityProviderEntity :: string where
  "identityProviderEntity = ''/admin/realms/{realm}/identity-provider/instances/{alias}''"

definition identityProviderCreateList :: string where
  "identityProviderCreateList = ''/admin/realms/{realm}/identity-provider/instances''"

definition idpMapperCreateList :: string where
  "idpMapperCreateList = ''/admin/realms/{realm}/identity-provider/instances/{alias}/mappers''"

definition idpMapperEntity :: string where
  "idpMapperEntity = ''/admin/realms/{realm}/identity-provider/instances/{alias}/mappers/{id}''"

definition realmComponent :: string where
  "realmComponent = ''/admin/realms/{realm}/components''"

definition realmComponentEntity :: string where
  "realmComponentEntity = ''/admin/realms/{realm}/components/{id}''"

definition serverInfo :: string where
  "serverInfo = ''/admin/serverinfo''"

section \<open>Decoded results\<close>

definition rest_idp :: "rest_response \<Rightarrow> adapter_IdentityProvider" where
  "rest_idp r = (case rsr_Result r of RestIdp x \<Rightarrow> x | _ \<Rightarrow> zero_adapter_IdentityProvider)"

definition rest_mappers :: "rest_response \<Rightarrow> adapter_IdentityProviderMapper list" where
  "rest_mappers r = (case rsr_Result r of RestMappers x \<Rightarrow> x | _ \<Rightarrow> [])"

definition rest_permission :: "rest_response \<Rightarrow> ManagementPermissionRepresentation" where
  "rest_permission r = (case rsr_Result r of RestPermission x \<Rightarrow> x
     | _ \<Rightarrow> \<lparr>mpr_Enabled = None, mpr_Resource = None, mpr_ScopePermissions = None\<rparr>)"

definition rest_serverInfo :: "rest_response \<Rightarrow> ServerInfo" where
  "rest_serverInfo r = (case rsr_Result r of RestServerInfo x \<Rightarrow> x | _ \<Rightarrow> \<lparr>si_Version = '''', si_Features = []\<rparr>)"

definition rest_components :: "rest_response \<Rightarrow> Component list" where
  "rest_components r = (case rsr_Result r of RestComponents x \<Rightarrow> x | _ \<Rightarrow> [])"

section \<open>identity_provider.go\<close>

definition adapter_CreateIdentityProvider ::
  "'w env \<Rightarrow> GoCloakAdapter \<Rightarrow> string \<Rightarrow> adapter_IdentityProvider \<Rightarrow> ('w, 'm, unit) prog" where
  "adapter_CreateIdentityProvider env a realm idp =
     bindIO (restCall env a POST identityProviderCreateList [(''realm'', realm)] (RestIdp idp)) (\<lambda>ans.
     wrapErr ''unable to create idp: '' (voidIO (checked ans)))"

definition adapter_UpdateIdentityProvider ::
  "'w env \<Rightarrow> GoCloakAdapter \<Rightarrow> string \<Rightarrow> adapter_IdentityProvider \<Rightarrow> ('w, 'm, unit) prog" where
  "adapter_UpdateIdentityProvider env a realm idp =
     bindIO (restCall env a PUT identityProviderEntity [(''realm'', realm), (''alias'', aip_Alias idp)] (RestIdp idp)) (\<lambda>ans.
     wrapErr ''unable to update idp: '' (voidIO (checked ans)))"

definition adapter_GetIdentityProvider ::
  "'w env \<Rightarrow> GoCloakAdapter \<Rightarrow> string \<Rightarrow> string \<Rightarrow> ('w, 'm, adapter_IdentityProvider) prog" where
  "adapter_GetIdentityProvider env a realm alias =
     bindIO (restCall env a GET identityProviderEntity [(''realm'', realm), (''alias'', alias)] NoRest) (\<lambda>ans.
     case checkError ans of
       Some err \<Rightarrow> bindIO (derefIO (snd ans)) (\<lambda>rsp.
         if rsr_StatusCode rsp = 404 then fail (NotFoundErr ''idp not found'')
         else fail (Wrapped ''unable to get idp: '' err))
     | None \<Rightarrow> bindIO (derefIO (snd ans)) (\<lambda>rsp. ret (rest_idp rsp)))"

definition IdentityProviderExists :: "'w env \<Rightarrow> GoCloakAdapter \<Rightarrow> string \<Rightarrow> string \<Rightarrow> ('w, 'm, bool) prog" where
  "IdentityProviderExists env a realm alias =
     bindIO (tryIO (adapter_GetIdentityProvider env a realm alias)) (\<lambda>res. case res of
       Inl err \<Rightarrow> if IsErrNotFound err then ret False
         else fail (Wrapped ''unable to get idp, unexpected error: '' err)
     | Inr _ \<Rightarrow> ret True)"

definition adapter_DeleteIdentityProvider :: "'w env \<Rightarrow> GoCloakAdapter \<Rightarrow> string \<Rightarrow> string \<Rightarrow> ('w, 'm, unit) prog" where
  "adapter_DeleteIdentityProvider env a realm alias =
     bindIO (restCall env a DELETE identityProviderEntity [(''realm'', realm), (''alias'', alias)] NoRest) (\<lambda>ans.
     wrapErr ''unable to delete idp: '' (voidIO (checked ans)))"

definition CreateIDPMapper ::
  "'w env \<Rightarrow> GoCloakAdapter \<Rightarrow> string \<Rightarrow> string \<Rightarrow> adapter_IdentityProviderMapper \<Rightarrow> ('w, 'm, string) prog" where
  "CreateIDPMapper env a realm idpAlias mapper =
     bindIO (restCall env a POST idpMapperCreateList [(''realm'', realm), (''alias'', idpAlias)] (RestMapper mapper)) (\<lambda>ans.
     bindIO (wrapErr ''unable to create idp mapper: '' (checked ans)) (\<lambda>rsp.
     wrapErr ''no id in response: '' (liftIO (getIDFromResponseLocation rsp))))"

definition UpdateIDPMapper ::
  "'w env \<Rightarrow> GoCloakAdapter \<Rightarrow> string \<Rightarrow> string \<Rightarrow> adapter_IdentityProviderMapper \<Rightarrow> ('w, 'm, unit) prog" where
  "UpdateIDPMapper env a realm idpAlias mapper =
     bindIO (restCall env a PUT idpMapperEntity
       [(''realm'', realm), (''alias'', idpAlias), (''id'', aim_ID mapper)] (RestMapper mapper)) (\<lambda>ans.
     wrapErr ''unable to update idp mapper: '' (voidIO (checked ans)))"

definition DeleteIDPMapper :: "'w env \<Rightarrow> GoCloakAdapter \<Rightarrow> string \<Rightarrow> string \<Rightarrow> string \<Rightarrow> ('w, 'm, unit) prog" where
  "DeleteIDPMapper env a realm idpAlias mapperID =
     bindIO (restCall env a DELETE idpMapperEntity
       [(''realm'', realm), (''alias'', idpAlias), (''id'', mapperID)] NoRest) (\<lambda>ans.
     wrapErr ''unable to delete idp mapper: '' (voidIO (checked ans)))"

definition GetIDPMappers ::
  "'w env \<Rightarrow> GoCloakAdapter \<Rightarrow> string \<Rightarrow> string \<Rightarrow> ('w, 'm, adapter_IdentityProviderMapper list) prog" where
  "GetIDPMappers env a realm idpAlias =
     bindIO (restCall env a GET idpMapperCreateList [(''realm'', realm), (''alias'', idpAlias)] NoRest) (\<lambda>ans.
     bindIO (wrapErr ''unable to get idp mappers: '' (checked ans)) (\<lambda>rsp. ret (rest_mappers rsp)))"

definition GetIDPManagementPermissions ::
  "'w env \<Rightarrow> GoCloakAdapter \<Rightarrow> string \<Rightarrow> string \<Rightarrow> ('w, 'm, ManagementPermissionRepresentation) prog" where
  "GetIDPManagementPermissions env a realm idpAlias =
     bindIO (restCall env a GET idpManagementPermissions [(''realm'', realm), (''alias'', idpAlias)] NoRest) (\<lambda>ans.
     bindIO (wrapErr ''unable to get idp management permissions: '' (checked ans)) (\<lambda>rsp. ret (rest_permission rsp)))"

definition UpdateIDPManagementPermissions ::
  "'w env \<Rightarrow> GoCloakAdapter \<Rightarrow> string \<Rightarrow> string \<Rightarrow> ManagementPermissionRepresentation \<Rightarrow> ('w, 'm, unit) prog" where
  "UpdateIDPManagementPermissions env a realm idpAlias permission =
     bindIO (restCall env a PUT idpManagementPermissions [(''realm'', realm), (''alias'', idpAlias)]
       (RestPermission permission)) (\<lambda>ans.
     wrapErr ''unable to update idp management permissions: '' (voidIO (checked ans)))"

section \<open>serverinfo.go\<close>

definition FeatureFlagAdminFineGrainedAuthz :: string where
  "FeatureFlagAdminFineGrainedAuthz = ''ADMIN_FINE_GRAINED_AUTHZ''"

definition GetServerInfo :: "'w env \<Rightarrow> GoCloakAdapter \<Rightarrow> ('w, 'm, ServerInfo) prog" where
  "GetServerInfo env a =
     bindIO (restCall env a GET serverInfo [] NoRest) (\<lambda>ans.
     bindIO (wrapErr ''unable to get server info: '' (checked ans)) (\<lambda>rsp. ret (rest_serverInfo rsp)))"

definition FeatureFlagEnabled :: "'w env \<Rightarrow> GoCloakAdapter \<Rightarrow> string \<Rightarrow> ('w, 'm, bool) prog" where
  "FeatureFlagEnabled env a featureFlag =
     bindIO (GetServerInfo env a) (\<lambda>info.
     ret (case find (\<lambda>f. sf_Name f = featureFlag) (si_Features info) of
            Some f \<Rightarrow> sf_Enabled f
          | None \<Rightarrow> False))"

section \<open>component.go\<close>

definition GetComponent :: "'w env \<Rightarrow> GoCloakAdapter \<Rightarrow> string \<Rightarrow> string \<Rightarrow> ('w, 'm, Component) prog" where
  "GetComponent env a realmName componentName =
     bindIO (restCall env a GET realmComponent [(''realm'', realmName)] NoRest) (\<lambda>ans.
     bindIO (wrapErr ''error during get component request: '' (checked ans)) (\<lambda>rsp.
     case find (\<lambda>c. cp_Name c = componentName) (rest_components rsp) of
       Some c \<Rightarrow> ret c
     | None \<Rightarrow> fail (NotFoundErr ''component not found'')))"

definition CreateComponent :: "'w env \<Rightarrow> GoCloakAdapter \<Rightarrow> string \<Rightarrow> Component \<Rightarrow> ('w, 'm, unit) prog" where
  "CreateComponent env a realmName component =
     bindIO (restCall env a POST realmComponent [(''realm'', realmName)] (RestComponent component)) (\<lambda>ans.
     wrapErr ''error during request: '' (voidIO (checked ans)))"

definition UpdateComponent :: "'w env \<Rightarrow> GoCloakAdapter \<Rightarrow> string \<Rightarrow> Component \<Rightarrow> ('w, 'm, unit) prog" where
  "UpdateComponent env a realmName component =
     bindIO (if cp_ID component = ''''
             then bindIO (wrapErr ''unable to get component id: '' (GetComponent env a realmName (cp_Name component)))
                    (\<lambda>c. ret (component\<lparr>cp_ID := cp_ID c\<rparr>))
             else ret component) (\<lambda>component.
     bindIO (restCall env a PUT realmComponentEntity [(''realm'', realmName), (''id'', cp_ID component)]
       (RestComponent component)) (\<lambda>ans.
     wrapErr ''error during update component request: '' (voidIO (checked ans))))"

text \<open>The status is asked for before the error is looked at, so a nil response is a panic.\<close>

definition DeleteComponent :: "'w env \<Rightarrow> GoCloakAdapter \<Rightarrow> string \<Rightarrow> string \<Rightarrow> ('w, 'm, unit) prog" where
  "DeleteComponent env a realmName componentName =
     bindIO (tryIO (GetComponent env a realmName componentName)) (\<lambda>res. case res of
       Inl err \<Rightarrow> if IsErrNotFound err then ret () else fail (Wrapped ''unable to get component id: '' err)
     | Inr component \<Rightarrow>
         bindIO (restCall env a DELETE realmComponentEntity [(''realm'', realmName), (''id'', cp_ID component)] NoRest) (\<lambda>ans.
         bindIO (derefIO (snd ans)) (\<lambda>rsp.
         if rsr_StatusCode rsp = 404 then ret ()
         else wrapErr ''error during delete component request: '' (voidIO (checked ans)))))"

section \<open>Methods over gocloak\<close>

definition gocloak_PString :: "string option \<Rightarrow> string" where
  "gocloak_PString p = the_default '''' p"

definition withToken :: "GoCloakAdapter \<Rightarrow> (string \<Rightarrow> gocloak_request) \<Rightarrow> 'w env \<Rightarrow> ('w, 'm, gocloak_result) prog" where
  "withToken a rq env =
     bindIO (derefIO (ga_token a)) (\<lambda>token. gocloakCall env (ga_client a) (rq (jwt_AccessToken token)))"

definition gocloak_clients :: "gocloak_result \<Rightarrow> gocloak_Client list" where
  "gocloak_clients r = (case r of GocloakClients x \<Rightarrow> x | _ \<Rightarrow> [])"

definition gocloak_permissions :: "gocloak_result \<Rightarrow> gocloak_Permission option list" where
  "gocloak_permissions r = (case r of GocloakPermissions x \<Rightarrow> x | _ \<Rightarrow> [])"

definition GetClientID :: "'w env \<Rightarrow> GoCloakAdapter \<Rightarrow> string \<Rightarrow> string \<Rightarrow> ('w, 'm, string) prog" where
  "GetClientID env a clientID realm =
     bindIO (wrapErr ''unable to get realm clients: ''
       (withToken a (\<lambda>t. GocloakGetClients t realm (Some clientID)) env)) (\<lambda>r.
     case find (\<lambda>item. gcl_ClientID item = Some clientID) (gocloak_clients r) of
       Some item \<Rightarrow> derefIO (gcl_ID item)
     | None \<Rightarrow> fail (NotFoundErr (''unable to get Client ID. Client '' @ clientID @ '' doesn't exist'')))"

definition GetPermissions :: "'w env \<Rightarrow> GoCloakAdapter \<Rightarrow> string \<Rightarrow> string \<Rightarrow> ('w, 'm, gocloak_Permission gomap) prog" where
  "GetPermissions env a realm idOfClient =
     bindIO (wrapErr ''failed to get permissions: ''
       (withToken a (\<lambda>t. GocloakGetPermissions t realm idOfClient 100) env)) (\<lambda>p.
     ret (fold (\<lambda>permission permissions. case permission of
            None \<Rightarrow> permissions
          | Some x \<Rightarrow> (case gpm_Name x of None \<Rightarrow> permissions | Some n \<Rightarrow> AList.update n x permissions))
          (gocloak_permissions p) []))"

definition UpdatePermission ::
  "'w env \<Rightarrow> GoCloakAdapter \<Rightarrow> string \<Rightarrow> string \<Rightarrow> gocloak_Permission \<Rightarrow> ('w, 'm, unit) prog" where
  "UpdatePermission env a realm idOfClient permission =
     wrapErr ''failed to update permission: ''
       (voidIO (withToken a (\<lambda>t. GocloakUpdatePermission t realm idOfClient permission) env))"

definition adapter_GetRealm :: "'w env \<Rightarrow> GoCloakAdapter \<Rightarrow> string \<Rightarrow> ('w, 'm, gocloak_Realm option) prog" where
  "adapter_GetRealm env a realmName =
     bindIO (wrapErr ''unable to get realm: '' (withToken a (\<lambda>t. GocloakGetRealm t realmName) env)) (\<lambda>r.
     ret (case r of GocloakRealm x \<Rightarrow> Some x | _ \<Rightarrow> None))"

end
