(* ===== verification/IdpChain.thy ===== *)
theory IdpChain
  imports AdapterMethods SecretRef GroupChain
begin

text \<open>
  \<open>internal/controller/keycloakrealm/chain/identityprovider\<close>: the identity providers of a realm. For
  every provider of the resource three handlers run in turn, over the legacy adapter: the
  provider itself, its mappers, and the fine-grained permissions on it. Afterwards \<open>Flush\<close> deletes
  the providers a former run had recorded and this run has not served.
\<close>

section \<open>put_idp.go\<close>

definition createKeycloakIDPFromSpec :: "IdentityProvider \<Rightarrow> adapter_IdentityProvider" where
  "createKeycloakIDPFromSpec spec =
     \<lparr>aip_InternalID = '''', aip_ProviderID = ip_ProviderID spec, aip_Config = ip_Config spec,
      aip_AddReadTokenRoleOnCreate = ip_AddReadTokenRoleOnCreate spec, aip_Alias = ip_Alias spec,
      aip_AuthenticateByDefault = ip_AuthenticateByDefault spec, aip_DisplayName = ip_DisplayName spec,
      aip_Enabled = ip_Enabled spec, aip_FirstBrokerLoginFlowAlias = ip_FirstBrokerLoginFlowAlias spec,
      aip_PostBrokerLoginFlowAlias = ip_PostBrokerLoginFlowAlias spec, aip_LinkOnly = ip_LinkOnly spec,
      aip_StoreToken = ip_StoreToken spec, aip_TrustEmail = ip_TrustEmail spec\<rparr>"

definition putKeycloakIDP ::
  "'w env \<Rightarrow> GoCloakAdapter \<Rightarrow> IdentityProvider \<Rightarrow> string \<Rightarrow> string \<Rightarrow> ('w, unit) realm_prog" where
  "putKeycloakIDP env a idp realmName namespace =
     (let keycloakIDP = createKeycloakIDPFromSpec idp in
      bindIO (wrapErr ''unable to map config secrets: ''
        (MapConfigSecretsRefs env (aip_Config keycloakIDP) namespace)) (\<lambda>config.
      bindIO (wrapErr ''failed to check if the identity provider exists: ''
        (IdentityProviderExists env a realmName (ip_Alias idp))) (\<lambda>providerExists.
      if providerExists
      then wrapErr ''unable to update idp: ''
             (adapter_UpdateIdentityProvider env a realmName (keycloakIDP\<lparr>aip_Config := config\<rparr>))
      else wrapErr ''unable to create idp: ''
             (adapter_CreateIdentityProvider env a realmName (keycloakIDP\<lparr>aip_Config := config\<rparr>)))))"

definition PutIDP_Serve ::
  "'w env \<Rightarrow> GoCloakAdapter \<Rightarrow> IdentityProvider \<Rightarrow> string \<Rightarrow> string \<Rightarrow> ('w, unit) realm_prog" where
  "PutIDP_Serve env a idp realmName namespace =
     wrapErr ''unable to put keycloak idp: '' (putKeycloakIDP env a idp realmName namespace)"

section \<open>put_mappers.go\<close>

definition createKeycloakIDPMapperFromSpec :: "IdentityProviderMapper \<Rightarrow> adapter_IdentityProviderMapper" where
  "createKeycloakIDPMapperFromSpec spec =
     \<lparr>aim_ID = '''', aim_IdentityProviderAlias = ipm_IdentityProviderAlias spec,
      aim_IdentityProviderMapper = ipm_IdentityProviderMapper spec, aim_Name = ipm_Name spec,
      aim_Config = ipm_Config spec\<rparr>"

definition owned_mapper :: "string \<Rightarrow> IdentityProviderMapper \<Rightarrow> IdentityProviderMapper" where
  "owned_mapper alias m =
     (if ipm_IdentityProviderAlias m = '''' then m\<lparr>ipm_IdentityProviderAlias := alias\<rparr> else m)"

definition syncIDPMappers ::
  "'w env \<Rightarrow> IdentityProvider \<Rightarrow> GoCloakAdapter \<Rightarrow> string \<Rightarrow> ('w, unit) realm_prog" where
  "syncIDPMappers env idpSpec a targetRealm =
     (if ip_Mappers idpSpec = [] then ret ()
      else
        bindIO (wrapErr ''unable to get idp mappers: '' (GetIDPMappers env a targetRealm (ip_Alias idpSpec))) (\<lambda>mappers.
        bindIO (forIO (\<lambda>m. wrapErr ''unable to delete idp mapper: ''
                 (DeleteIDPMapper env a targetRealm (ip_Alias idpSpec) (aim_ID m))) mappers) (\<lambda>_.
        forIO (\<lambda>m. wrapErr ''unable to create idp mapper: ''
          (voidIO (CreateIDPMapper env a targetRealm (ip_Alias idpSpec)
            (createKeycloakIDPMapperFromSpec (owned_mapper (ip_Alias idpSpec) m))))) (ip_Mappers idpSpec))))"

definition PutIDPMappers_Serve ::
  "'w env \<Rightarrow> GoCloakAdapter \<Rightarrow> IdentityProvider \<Rightarrow> string \<Rightarrow> ('w, unit) realm_prog" where
  "PutIDPMappers_Serve env a idp realmName =
     wrapErr ''unable to sync idp mappers: '' (syncIDPMappers env idp a realmName)"

section \<open>put_client_admin_fine_grained_perms.go\<close>

definition RealmManagementClient :: string where
  "RealmManagementClient = ''realm-management''"

definition putKeycloakClientAdminFineGrainedPermissions ::
  "'w env \<Rightarrow> GoCloakAdapter \<Rightarrow> IdentityProvider \<Rightarrow> string \<Rightarrow> ('w, unit) realm_prog" where
  "putKeycloakClientAdminFineGrainedPermissions env a idp realmName =
     wrapErr ''unable to update idp management permissions: ''
       (UpdateIDPManagementPermissions env a realmName (ip_Alias idp)
         \<lparr>mpr_Enabled = Some (ip_AdminFineGrainedPermissionsEnabled idp), mpr_Resource = None,
          mpr_ScopePermissions = None\<rparr>)"

definition put_scope_permission ::
  "'w env \<Rightarrow> GoCloakAdapter \<Rightarrow> string \<Rightarrow> string \<Rightarrow> string \<Rightarrow> string gomap \<Rightarrow> gocloak_Permission gomap \<Rightarrow>
   ScopePermissions \<Rightarrow> ('w, unit) realm_prog" where
  "put_scope_permission env a realmName clientID internalID existing permissions sp =
     (if map_of existing (sp_Name sp) = None
      then fail (NewError (''scope '' @ sp_Name sp @ '' not found in permissions''))
      else
        let permissionName = sp_Name sp @ ''.permission.idp.'' @ internalID in
        case map_of permissions permissionName of
          None \<Rightarrow> ret ()
        | Some permission \<Rightarrow>
            wrapErr (''failed to update permission '' @ permissionName @ '': '')
              (UpdatePermission env a realmName clientID (permission\<lparr>gpm_Policies := Some (sp_Policies sp)\<rparr>)))"

definition putKeycloakIDPAdminPermissionPolicies ::
  "'w env \<Rightarrow> GoCloakAdapter \<Rightarrow> IdentityProvider \<Rightarrow> string \<Rightarrow> ('w, unit) realm_prog" where
  "putKeycloakIDPAdminPermissionPolicies env a keycloakIDP realmName =
     bindIO (wrapErr ''failed to get idp: '' (adapter_GetIdentityProvider env a realmName (ip_Alias keycloakIDP))) (\<lambda>idp.
     bindIO (wrapErr (''failed to get '' @ RealmManagementClient @ '' client id: '')
       (GetClientID env a RealmManagementClient realmName)) (\<lambda>realmManagementClientID.
     bindIO (wrapErr (''failed to get permissions for '' @ RealmManagementClient @ '' client: '')
       (GetPermissions env a realmName realmManagementClientID)) (\<lambda>realmManagementPermissions.
     bindIO (wrapErr ''failed to get idp permissions: ''
       (GetIDPManagementPermissions env a realmName (ip_Alias keycloakIDP))) (\<lambda>existingIDPPermissions.
     bindIO (derefIO (mpr_ScopePermissions existingIDPPermissions)) (\<lambda>existingScopePermissions.
     bindIO (derefIO (ip_Permission keycloakIDP)) (\<lambda>permission.
     forIO (put_scope_permission env a realmName realmManagementClientID (aip_InternalID idp)
       existingScopePermissions realmManagementPermissions) (afg_ScopePermissions permission)))))))"

definition PutAdminFineGrainedPermissions_Serve ::
  "'w env \<Rightarrow> GoCloakAdapter \<Rightarrow> IdentityProvider \<Rightarrow> string \<Rightarrow> ('w, unit) realm_prog" where
  "PutAdminFineGrainedPermissions_Serve env a idp realmName =
     bindIO (wrapErr ''failed to check feature flag ADMIN_FINE_GRAINED_AUTHZ: ''
       (FeatureFlagEnabled env a FeatureFlagAdminFineGrainedAuthz)) (\<lambda>featureFlagEnabled.
     if \<not> featureFlagEnabled then ret ()
     else
       bindIO (wrapErr ''unable to put keycloak idp admin fine grained permissions: ''
         (putKeycloakClientAdminFineGrainedPermissions env a idp realmName)) (\<lambda>_.
       whenIO (ip_AdminFineGrainedPermissionsEnabled idp \<and> ip_Permission idp \<noteq> None)
         (wrapErr ''unable to put keycloak idp admin permission policies: ''
           (putKeycloakIDPAdminPermissionPolicies env a idp realmName))))"

section \<open>flush.go\<close>

definition set_AliasIDPs :: "string list \<Rightarrow> realm_mem \<Rightarrow> realm_mem" where
  "set_AliasIDPs xs m = m\<lparr>rm_realm := (rm_realm m)\<lparr>kr_Status := (kr_Status (rm_realm m))\<lparr>rst_AliasIDPs := xs\<rparr>\<rparr>\<rparr>"

definition hasExistingAlias :: "string \<Rightarrow> string list \<Rightarrow> bool" where
  "hasExistingAlias alias listAlias = list_ex (\<lambda>cAlias. cAlias = alias) listAlias"

text \<open>So the test of the loop is the membership test of \<open>scan_stale\<close>.\<close>

lemma hasExistingAlias_iff: "hasExistingAlias x xs \<longleftrightarrow> x \<in> set xs"
  by (auto simp: hasExistingAlias_def list_ex_iff)

text \<open>The result says whether the loop left the function because a provider was not found.\<close>

primrec flush_delete_idps :: "'w env \<Rightarrow> GoCloakAdapter \<Rightarrow> string \<Rightarrow> string list \<Rightarrow> ('w, bool) realm_prog" where
  "flush_delete_idps env a realmName [] = ret False"
| "flush_delete_idps env a realmName (x # xs) =
     bindIO (tryIO (adapter_DeleteIdentityProvider env a realmName x)) (\<lambda>res. case res of
       Inr _ \<Rightarrow> flush_delete_idps env a realmName xs
     | Inl err \<Rightarrow> if IsErrNotFound err then ret True
         else fail (Wrapped (''flush unable to delete realm '' @ realmName @ '' idp '' @ go_quote x @ '': '') err))"

text \<open>The scan is that of \<open>group/flush.go\<close>: the recorded aliases are shifted while they are visited.\<close>

definition idp_Flush :: "'w env \<Rightarrow> GoCloakAdapter \<Rightarrow> string list \<Rightarrow> ('w, unit) realm_prog" where
  "idp_Flush env a currAlias =
     bindIO (getMem rm_realm) (\<lambda>realm.
     if \<not> hasReconciliationStrategyFull realm then ret ()
     else case scan_recorded currAlias (rst_AliasIDPs (kr_Status realm)) of (storage, deleteAlias) \<Rightarrow>
       bindIO (modMem (set_AliasIDPs (fst storage))) (\<lambda>_.
       bindIO (flush_delete_idps env a (rs_RealmName (kr_Spec realm)) deleteAlias) (\<lambda>notFound.
       if notFound then ret ()
       else bindIO (modMem (set_AliasIDPs (RemoveDuplicates (slice_of storage @ currAlias)))) (\<lambda>_.
         wrapErr ''unable to update status of idp: '' (k8s_StatusUpdate env realm_obj)))))"

section \<open>chain.go\<close>

datatype idp_handler = PutIDP GoCloakAdapter | PutIDPMappers GoCloakAdapter
  | PutAdminFineGrainedPermissions GoCloakAdapter

fun idp_handler_Serve ::
  "'w env \<Rightarrow> IdentityProvider \<Rightarrow> string \<Rightarrow> string \<Rightarrow> idp_handler \<Rightarrow> ('w, unit) realm_prog" where
  "idp_handler_Serve env idp realmName namespace (PutIDP a) = PutIDP_Serve env a idp realmName namespace"
| "idp_handler_Serve env idp realmName namespace (PutIDPMappers a) = PutIDPMappers_Serve env a idp realmName"
| "idp_handler_Serve env idp realmName namespace (PutAdminFineGrainedPermissions a) =
     PutAdminFineGrainedPermissions_Serve env a idp realmName"

fun idp_WithKeycloakApiClient :: "GoCloakAdapter \<Rightarrow> idp_handler \<Rightarrow> idp_handler" where
  "idp_WithKeycloakApiClient a (PutIDP _) = PutIDP a"
| "idp_WithKeycloakApiClient a (PutIDPMappers _) = PutIDPMappers a"
| "idp_WithKeycloakApiClient a (PutAdminFineGrainedPermissions _) = PutAdminFineGrainedPermissions a"

definition idp_refreshToken :: "'w env \<Rightarrow> HelperConf \<Rightarrow> ('w, GoCloakAdapter) realm_prog" where
  "idp_refreshToken env h =
     bindIO (getMem (\<lambda>m. rs_ConfigRef (kr_Spec (rm_realm m)))) (CreateKeycloakClientFromConfigRef env h)"

primrec idp_chain_run ::
  "'w env \<Rightarrow> HelperConf \<Rightarrow> IdentityProvider \<Rightarrow> string \<Rightarrow> string \<Rightarrow> idp_handler list \<Rightarrow> ('w, idp_handler list) realm_prog" where
  "idp_chain_run env h idp realmName namespace [] = ret []"
| "idp_chain_run env h idp realmName namespace (x # xs) =
     bindIO (serveRetry (idp_handler_Serve env idp realmName namespace) (idp_refreshToken env h)
               idp_WithKeycloakApiClient x) (\<lambda>x'.
     bindIO (idp_chain_run env h idp realmName namespace xs) (\<lambda>xs'. ret (x' # xs')))"

interpretation idp_chain: handler_chain "idp_handler_Serve env idp realmName namespace" "idp_refreshToken env h"
  idp_WithKeycloakApiClient "idp_chain_run env h idp realmName namespace"
  for env h idp realmName namespace
  by unfold_locales simp_all

definition idp_MakeChain :: "GoCloakAdapter \<Rightarrow> idp_handler list" where
  "idp_MakeChain a = [PutIDP a, PutIDPMappers a, PutAdminFineGrainedPermissions a]"

text \<open>
  The aliases start as one empty string per provider, because \<open>append\<close> follows a \<open>make\<close> with that
  length; the handlers are shared by all providers of a run.
\<close>

definition idp_serveOne ::
  "'w env \<Rightarrow> HelperConf \<Rightarrow> string \<Rightarrow> string \<Rightarrow> IdentityProvider \<Rightarrow> idp_handler list \<times> string list \<Rightarrow>
   ('w, idp_handler list \<times> string list) realm_prog" where
  "idp_serveOne env h realmName namespace idp acc = (case acc of (handlers, alias) \<Rightarrow>
     bindIO (idp_chain_run env h idp realmName namespace handlers) (\<lambda>handlers'.
     ret (handlers', alias @ [ip_Alias idp])))"

definition idp_Chain_Serve :: "'w env \<Rightarrow> HelperConf \<Rightarrow> GoCloakAdapter \<Rightarrow> ('w, unit) realm_prog" where
  "idp_Chain_Serve env h a =
     bindIO (getMem rm_realm) (\<lambda>realm.
     let spec = kr_Spec realm in
     bindIO (foldIO (idp_serveOne env h (rs_RealmName spec) (om_Namespace (kr_Meta realm)))
       (rs_IdentityProviders spec) (idp_MakeChain a, replicate (length (rs_IdentityProviders spec)) '''')) (\<lambda>(_, alias).
     idp_Flush env a alias))"

end
