(* ===== verification/RealmController.thy ===== *)
theory RealmController
  imports RealmChain IdpChain Terminator UserController
begin

text \<open>
  \<open>internal/controller/keycloakrealm/keycloakrealm_controller.go\<close>: one reconciliation of a
  \<open>KeycloakRealm\<close>. It composes the terminator (through \<open>TryToDelete\<close>) and the four chains: realm,
  roles, groups, identity providers. \<open>depth\<close> bounds the recursion of the terminator and of the sort
  of groups, as the stack does; \<open>timeout\<close> is \<open>successReconcileTimeout\<close>.
\<close>

definition keyCloakRealmOperatorFinalizerName :: string where
  "keyCloakRealmOperatorFinalizerName = ''keycloak.realm.operator.finalizer.name''"

definition realm_tryReconcile :: "nat \<Rightarrow> 'w env \<Rightarrow> HelperConf \<Rightarrow> ('w, unit) realm_prog" where
  "realm_tryReconcile depth env h =
     bindIO (wrapErr ''failed to create keycloak v2 client for realm: '' (realm_refreshToken env h)) (\<lambda>kClientV2.
     bindIO (wrapErr ''unable to create keycloak client from realm ref: '' (idp_refreshToken env h)) (\<lambda>kClient.
     bindIO (getMem rm_realm) (\<lambda>realm.
     bindIO (wrapErr ''failed to delete realm: ''
       (TryToDelete env realm_obj
         (DeleteResource depth env h (kr_Spec realm) kClientV2 (PreserveResourcesOnDeletion (kr_Meta realm)))
         keyCloakRealmOperatorFinalizerName)) (\<lambda>deleted.
     if deleted then ret ()
     else
       bindIO (wrapErr ''error during realm chain: '' (realm_ServeRequest env kClientV2 CreateDefChain)) (\<lambda>_.
       bindIO (wrapErr ''error during realm role chain: '' (role_Chain_Serve env h kClientV2)) (\<lambda>_.
       bindIO (wrapErr ''error during realm group chain: '' (group_Chain_Serve depth env h kClientV2)) (\<lambda>_.
       wrapErr ''unable to serve keycloak realm idp: '' (idp_Chain_Serve env h kClient))))))))"

definition set_realm_status :: "(KeycloakRealmStatus \<Rightarrow> KeycloakRealmStatus) \<Rightarrow> KeycloakRealm \<Rightarrow> KeycloakRealm" where
  "set_realm_status f r = r\<lparr>kr_Status := f (kr_Status r)\<rparr>"

text \<open>The two branches that fill in the status: a failure is counted and decides on the delay.\<close>

definition realm_failed :: "go_error \<Rightarrow> KeycloakRealm \<Rightarrow> int64 \<times> KeycloakRealm" where
  "realm_failed err r =
     SetFailureCount_helper realm_GetFailureCount realm_SetFailureCount
       (set_realm_status (\<lambda>st. st\<lparr>rst_Available := False, rst_Error := Error err, rst_Phase := PhaseFailed\<rparr>) r)"

definition realm_succeeded :: "KeycloakRealm \<Rightarrow> KeycloakRealm" where
  "realm_succeeded r =
     set_realm_status (\<lambda>st. st\<lparr>rst_Available := True, rst_Error := '''', rst_Phase := PhaseCompleted,
       rst_FailureCount := 0\<rparr>) r"

text \<open>An update of the status that fails replaces the result's error; the delay is returned with it.\<close>

definition realm_updateStatus :: "'w env \<Rightarrow> int64 \<Rightarrow> ('w, ctrl_Result \<times> go_error option) realm_prog" where
  "realm_updateStatus env delay =
     bindIO (tryIO (k8s_StatusUpdate env realm_obj)) (\<lambda>res.
     ret (\<lparr>RequeueAfter = delay\<rparr>,
       case res of Inr _ \<Rightarrow> None | Inl err \<Rightarrow> Some (Wrapped ''unable to update status: '' err)))"

definition realm_Reconcile ::
  "nat \<Rightarrow> 'w env \<Rightarrow> HelperConf \<Rightarrow> int64 \<Rightarrow> string \<Rightarrow> string \<Rightarrow> ('w, ctrl_Result \<times> go_error option) realm_prog" where
  "realm_Reconcile depth env h timeout ns name =
     bindIO (tryIO (get_realm_cr env ns name)) (\<lambda>res. case res of
       Inl err \<Rightarrow> ret (zero_Result, if k8s_IsNotFound err then None else Some err)
     | Inr instance \<Rightarrow>
         bindIO (modMem (\<lambda>m. m\<lparr>rm_realm := instance\<rparr>)) (\<lambda>_.
         bindIO (tryIO (realm_tryReconcile depth env h)) (\<lambda>res. case res of
           Inl err \<Rightarrow>
             if errors_Is err ErrKeycloakIsNotAvailable then ret (RequeueOnKeycloakNotAvailable, None)
             else
               bindIO (getMem rm_realm) (\<lambda>r. case realm_failed err r of (delay, r') \<Rightarrow>
               bindIO (modMem (\<lambda>m. m\<lparr>rm_realm := r'\<rparr>)) (\<lambda>_.
               realm_updateStatus env delay))
         | Inr _ \<Rightarrow>
             bindIO (modMem (\<lambda>m. m\<lparr>rm_realm := realm_succeeded (rm_realm m)\<rparr>)) (\<lambda>_.
             realm_updateStatus env timeout))))"

end
