(* ===== verification/AdapterLaws.thy ===== *)
theory AdapterLaws
  imports AdapterMethods MappingLaws
begin

text \<open>
  Reasoning about the legacy adapter: what one request of it may do to the world, the
  weakest preconditions of the shared steps, and an adapter and an answer for concrete runs.
\<close>

section \<open>Requests of the adapter\<close>

definition rest_rq :: "gocloak_JWT \<Rightarrow> GoCloakAdapter \<Rightarrow> http_method \<Rightarrow> string \<Rightarrow> string gomap \<Rightarrow> rest_body \<Rightarrow> rest_request" where
  "rest_rq t a method endpoint params body =
     \<lparr>rsq_AuthToken = jwt_AccessToken t, rsq_method = method, rsq_url = buildPath a endpoint,
      rsq_params = params, rsq_query = [], rsq_body = body\<rparr>"

text \<open>\<open>rest_sent\<close>: the request may take the world from \<open>w\<close> to \<open>w'\<close> with that answer.\<close>

definition rest_sent ::
  "'w env \<Rightarrow> GoCloakAdapter \<Rightarrow> http_method \<Rightarrow> string \<Rightarrow> string gomap \<Rightarrow> rest_body \<Rightarrow> 'w \<Rightarrow> rest_answer \<Rightarrow> 'w \<Rightarrow> bool" where
  "rest_sent env a method endpoint params body w ans w' \<longleftrightarrow>
     (\<exists>t. ga_token a = Some t \<and> resty env (ga_client a) (rest_rq t a method endpoint params body) w = (ans, w'))"

definition rest_ok ::
  "'w env \<Rightarrow> GoCloakAdapter \<Rightarrow> http_method \<Rightarrow> string \<Rightarrow> string gomap \<Rightarrow> rest_body \<Rightarrow> 'w \<Rightarrow> rest_response \<Rightarrow> 'w \<Rightarrow> bool" where
  "rest_ok env a method endpoint params body w rsp w' \<longleftrightarrow>
     rest_sent env a method endpoint params body w (None, Some rsp) w' \<and> rsr_StatusCode rsp \<le> 399"

lemma wp_restCall:
  assumes "\<And>ans w' tr. rest_sent env a method endpoint params body (world s) ans w' \<Longrightarrow> Q ans (s\<lparr>world := w', trace := tr\<rparr>)"
  shows "wp True (restCall env a method endpoint params body) Q E s"
  using assms
  by (auto simp: restCall_def startRestyRequest_def rest_sent_def rest_rq_def wp_callIO split: option.split prod.split)

lemma checked_ok: "checkError ans = None \<longleftrightarrow> (\<exists>rsp. ans = (None, Some rsp) \<and> rsr_StatusCode rsp \<le> 399)"
  by (cases ans) (auto simp: checkError_def Let_def split: option.splits)

lemma wp_checked:
  "wp b (checked ans) Q E s \<longleftrightarrow>
     (case checkError ans of Some e \<Rightarrow> E e s | None \<Rightarrow> \<forall>rsp. ans = (None, Some rsp) \<longrightarrow> Q rsp s)"
proof (cases "checkError ans")
  case None
  then obtain rsp where "ans = (None, Some rsp)" using checked_ok by blast
  with None show ?thesis by (simp add: checked_def)
qed (simp add: checked_def)

text \<open>A method that sends one request and checks the answer.\<close>

lemma wp_checkedCall:
  assumes "\<And>rsp w' tr. rest_ok env a method endpoint params body (world s) rsp w' \<Longrightarrow> Q rsp (s\<lparr>world := w', trace := tr\<rparr>)"
  shows "wp True (bindIO (restCall env a method endpoint params body) (\<lambda>ans. wrapErr pre (checked ans))) Q (\<lambda>_ _. True) s"
  unfolding wp_bindIO wp_wrapErr
  by (rule wp_restCall) (use assms checked_ok in \<open>auto simp: wp_checked rest_ok_def split: option.split\<close>)

section \<open>What the adapter can send\<close>

lemma emits_liftIO [emits_intros]: "emits_under P S (liftIO r)"
  unfolding liftIO_def by (intro emits_intros)

lemma emits_gocloakCall [emits_intros]: "Gocloak cl rq \<in> S \<Longrightarrow> emits_under P S (gocloakCall env cl rq)"
  unfolding gocloakCall_def by (intro emits_intros)

lemma emits_withToken [emits_intros]:
  "(\<And>t. Gocloak (ga_client a) (rq t) \<in> S) \<Longrightarrow> emits_under P S (withToken a rq env)"
  unfolding withToken_def by (intro emits_intros)

lemma emits_restCall [emits_intros]:
  "(\<And>t. Rest (ga_client a) (rest_rq t a method endpoint params body) \<in> S) \<Longrightarrow>
   emits_under P S (restCall env a method endpoint params body)"
  unfolding restCall_def startRestyRequest_def rest_rq_def
  by (intro emits_intros) (auto simp: go_simps split: option.splits)

lemma emits_checked [emits_intros]: "emits_under P S (checked ans)"
  unfolding checked_def by (intro emits_intros)

text \<open>A program that leaves the memory alone.\<close>

lemma wp_mem_kept:
  "(\<And>m0. emits_under (\<lambda>m. m = m0) UNIV p) \<Longrightarrow> wp True p (\<lambda>_ t. mem t = mem s) (\<lambda>_ t. mem t = mem s) s"
  unfolding emits_under_def wp_def by (simp split: prod.split outcome.split) (metis snd_conv)

section \<open>For concrete runs\<close>

definition test_adapter :: GoCloakAdapter where
  "test_adapter = \<lparr>ga_client = \<lparr>gk_Url = ''http://kc'', gk_Legacy = False, gk_InsecureSkipVerify = False, gk_RootCertificate = ''''\<rparr>,
     ga_token = Some \<lparr>jwt_AccessToken = ''token'', jwt_rest = []\<rparr>, ga_basePath = ''http://kc'', ga_legacyMode = False\<rparr>"

definition rest_accepted :: "rest_body \<Rightarrow> rest_answer" where
  "rest_accepted b = (None, Some \<lparr>rsr_StatusCode = 200, rsr_Status = ''200 OK'', rsr_String = '''', rsr_Location = ''/x/1'', rsr_Result = b\<rparr>)"

end
