(* ===== verification/RealmCtrlProps.thy ===== *)
theory RealmCtrlProps
  imports RealmController TerminatorProps AdapterLaws
begin

text \<open>
  What one reconciliation of a realm guarantees: the finalizer of a realm that is being deleted
  goes last, and every attempt is reported in the status.
\<close>

section \<open>Making clients\<close>

text \<open>The only writes a new adapter causes are those of the secret with its token.\<close>

definition client_events :: "event set" where
  "client_events = range NewClient \<union> {Gocloak g q | g q. True} \<union> {Kube (KGet k n x) | k n x. True} \<union>
     {Kube (KUpdate (SecretObj x)) | x. True} \<union> {Kube (KCreate (SecretObj x)) | x. True}"

lemma client_events_simps [simp]:
  "NewClient p \<in> client_events" "Gocloak g q \<in> client_events" "Kube (KGet k n x) \<in> client_events"
  "Kube (KUpdate (SecretObj y)) \<in> client_events" "Kube (KCreate (SecretObj y)) \<in> client_events"
  by (auto simp: client_events_def)

lemma emits_nowIO [emits_intros]: "emits_under P S (nowIO env)"
  by (rule emits_silent) (simp_all add: nowIO_def)

lemma emits_modern_or_legacy [emits_intros]:
  "emits_under P S m \<Longrightarrow> emits_under P S l \<Longrightarrow> emits_under P S (modern_or_legacy m l failed wrap)"
  unfolding modern_or_legacy_def by (intro emits_intros)

lemma emits_adapter_client [emits_intros]:
  "emits_under P client_events (CreateKeycloakClientFromConfigRef env h ref)"
  unfolding CreateKeycloakClientFromConfigRef_def CreateKeycloakClientFomAuthData_def
    createKeycloakClientFromTokenSecret_def createKeycloakClientFromLoginPassword_def getCredentialsFromSecret_def
    MakeFromToken_def makeClientFromToken_def CreateKeycloakClient_def adapterBuilder_def MakeFromServiceAccount_def
    Make_def login_with_def ExportToken_def saveKeycloakClientTokenSecret_def put_secret_def
  by (intro emits_intros) simp_all

lemma emits_v2_client [emits_intros]:
  "emits_under P client_events (CreateKeycloakClientV2FromConfigRef env h ref)"
  unfolding CreateKeycloakClientV2FromConfigRef_def createKeycloakClientV2FromAuthData_def getCredentialsFromSecret_def
    NewKeycloakClient_def
  by (intro emits_intros) simp_all

lemma emits_realm_clients:
  "emits_under P client_events (realm_refreshToken env h)" "emits_under P client_events (idp_refreshToken env h)"
  unfolding realm_refreshToken_def idp_refreshToken_def by (intro emits_intros)+

section \<open>Deleting a realm\<close>

definition deletion_events :: "KeycloakRealmSpec \<Rightarrow> event set" where
  "deletion_events spec = {e. (\<forall>x. e \<noteq> Kube (KUpdate (RealmObj x))) \<and>
     (\<forall>c rq. e = Http c rq \<longrightarrow> rq_method rq = GET \<or> rq_method rq = DELETE \<and> rq_path rq \<in> terminator_deletable spec)}"

lemma deletion_events_super:
  "client_events \<subseteq> deletion_events spec" "terminator_events spec \<subseteq> deletion_events spec"
  by (auto simp: client_events_def deletion_events_def terminator_events_def)

lemma emits_keeps_mem:
  "(\<And>P. emits_under P S m) \<Longrightarrow> m s = (r, s') \<Longrightarrow> mem s' = mem s \<and> (\<exists>es. trace s' = trace s @ es \<and> set es \<subseteq> S)"
  using emits_underD [of "\<lambda>x. x = mem s" S m s r s'] by auto

lemma realm_TryToDelete:
  assumes "finalizers_ok env" and "om_DeletionTimestamp (kr_Meta (rm_realm (mem s))) \<noteq> None"
    and "f \<in> set (om_Finalizers (kr_Meta (rm_realm (mem s))))"
    and "\<And>P. emits_under P S terminator" and "TryToDelete env realm_obj terminator f s = (r, s')"
  shows "\<exists>s1 es. trace s1 = trace s @ es \<and> set es \<subseteq> S \<and>
    ((s' = s1 \<and> (\<exists>x. terminator s = (x, s1) \<and> x \<noteq> Ok ()) \<and> (\<forall>b. r \<noteq> Ok b)) \<or>
     (terminator s = (Ok (), s1) \<and> (\<forall>b. r = Ok b \<longrightarrow> b) \<and>
      (\<exists>x. trace s' = trace s1 @ [Kube (KUpdate (RealmObj x))] \<and> f \<notin> set (om_Finalizers (kr_Meta x)))))"
proof -
  obtain x s1 where t: "terminator s = (x, s1)" by (cases "terminator s")
  from emits_keeps_mem [OF assms(4) t] obtain es where es: "trace s1 = trace s @ es" "set es \<subseteq> S" and m: "mem s1 = mem s"
    by auto
  show ?thesis
  proof (cases x)
    case (Ok u)
    from realm_object.TryToDelete_terminator_done(2) [OF assms(1), of s terminator s1 f] t Ok m assms(2,3,5)
    obtain m' where "trace s' = trace s1 @ [Kube (KUpdate (obj_out realm_obj m'))]"
      "f \<notin> set (om_Finalizers (obj_meta realm_obj m'))" "\<forall>b. r = Ok b \<longrightarrow> b"
      by (auto simp: realm_obj_def)
    with es t Ok show ?thesis by (intro exI [of _ s1] exI [of _ es]) (auto simp: realm_obj_def)
  qed (use es t assms(2,5) in \<open>(intro exI [of _ s1] exI [of _ es], auto simp: TryToDelete_def go_simps realm_obj_def)+\<close>)
qed


section \<open>What a reconciliation reports\<close>

lemma realm_updateStatus_run:
  "realm_updateStatus env delay s = (r, s') \<Longrightarrow>
   trace s' = trace s @ [Kube (KStatusUpdate (RealmObj (rm_realm (mem s))))] \<and>
   (\<exists>err. r = Ok (\<lparr>RequeueAfter = delay\<rparr>, err) \<and> (\<forall>e. err = Some e \<longrightarrow> (\<exists>e'. e = Wrapped ''unable to update status: '' e')))"
  by (auto simp: realm_updateStatus_def k8s_StatusUpdate_def realm_obj_def go_simps split: prod.splits sum.splits)

lemma realm_failed_status:
  assumes "realm_failed err r = (delay, r')"
  shows "delay = 10000000000 * (rst_FailureCount (kr_Status r) + 1)"
    and "rst_FailureCount (kr_Status r') = rst_FailureCount (kr_Status r) + 1"
    and "\<not> rst_Available (kr_Status r')" "rst_Error (kr_Status r') = Error err" "rst_Phase (kr_Status r') = PhaseFailed"
    and "kr_Spec r' = kr_Spec r" "kr_Meta r' = kr_Meta r"
  using assms realm_count.failure_counted [OF assms [unfolded realm_failed_def]]
  by (auto simp: realm_failed_def SetFailureCount_helper_def set_realm_status_def realm_GetFailureCount_def
      realm_SetFailureCount_def Let_def)

text \<open>
  Every attempt on a realm is reported by exactly one update of its status, the last thing
  that happens: a failure as not available, with phase \<open>Failed\<close>, the text of the error and one more
  failure, to be tried again after ten seconds per failure; a success as available, \<open>Completed\<close>,
  with no error and no failures. An error of the attempt is never returned to the caller, only
  one of the update is. An unavailable Keycloak is not reported but tried again after a minute.
\<close>

theorem realm_Reconcile_reports:
  assumes "get_realm_cr env ns name s = (Ok inst, s1)"
    and "realm_tryReconcile depth env h (s1\<lparr>mem := (mem s1)\<lparr>rm_realm := inst\<rparr>\<rparr>) = (r, s2)" and "r \<noteq> Panic"
    and "realm_Reconcile depth env h timeout ns name s = (r', s')"
  shows "if \<exists>e. r = Err e \<and> errors_Is e ErrKeycloakIsNotAvailable
     then (r', s') = (Ok (RequeueOnKeycloakNotAvailable, None), s2)
     else \<exists>x delay err. trace s' = trace s2 @ [Kube (KStatusUpdate (RealmObj x))] \<and>
       r' = Ok (\<lparr>RequeueAfter = delay\<rparr>, err) \<and> (\<forall>e. err = Some e \<longrightarrow> (\<exists>e'. e = Wrapped ''unable to update status: '' e')) \<and>
       (case r of
          Err e \<Rightarrow> \<not> rst_Available (kr_Status x) \<and> rst_Error (kr_Status x) = Error e \<and>
            rst_Phase (kr_Status x) = PhaseFailed \<and>
            rst_FailureCount (kr_Status x) = rst_FailureCount (kr_Status (rm_realm (mem s2))) + 1 \<and>
            delay = 10000000000 * rst_FailureCount (kr_Status x)
        | _ \<Rightarrow> rst_Available (kr_Status x) \<and> rst_Error (kr_Status x) = '''' \<and> rst_Phase (kr_Status x) = PhaseCompleted \<and>
            rst_FailureCount (kr_Status x) = 0 \<and> delay = timeout)"
proof (cases r)
  case (Ok u)
  have "realm_updateStatus env timeout (s2\<lparr>mem := (mem s2)\<lparr>rm_realm := realm_succeeded (rm_realm (mem s2))\<rparr>\<rparr>) = (r', s')"
    using assms(1,2,4) Ok by (simp add: realm_Reconcile_def bindIO_def tryIO_def modMem_def)
  from realm_updateStatus_run [OF this] Ok show ?thesis
    by (auto simp: realm_succeeded_def set_realm_status_def)
next
  case (Err e)
  show ?thesis
  proof (cases "errors_Is e ErrKeycloakIsNotAvailable")
    case True
    with assms(1,2,4) Err show ?thesis by (auto simp: realm_Reconcile_def bindIO_def tryIO_def modMem_def ret_def)
  next
    case False
    obtain delay x where f: "realm_failed e (rm_realm (mem s2)) = (delay, x)" by (cases "realm_failed e (rm_realm (mem s2))")
    have "realm_updateStatus env delay (s2\<lparr>mem := (mem s2)\<lparr>rm_realm := x\<rparr>\<rparr>) = (r', s')"
      using assms(1,2,4) Err False f by (simp add: realm_Reconcile_def bindIO_def tryIO_def modMem_def getMem_def)
    from realm_updateStatus_run [OF this] realm_failed_status [OF f] Err False show ?thesis by auto
  qed
qed (use assms(3) in simp)

section \<open>Concrete runs\<close>

definition leaving_realm :: KeycloakRealm where
  "leaving_realm = idle_realm\<lparr>kr_Meta := zero_ObjectMeta\<lparr>om_DeletionTimestamp := Some 0,
     om_Finalizers := [keyCloakRealmOperatorFinalizerName]\<rparr>\<rparr>"

text \<open>A cluster with the credentials and no cached token, and a Keycloak that accepts everything.\<close>

definition cluster_env :: "unit env" where
  "cluster_env = idle_env\<lparr>kc_http := (\<lambda>c rq w. (Inr (Some (accepted None)), w)), kc_new := (\<lambda>p w. (Inr 0, w)),
     gocloak := (\<lambda>c rq w. (Inr (GocloakToken \<lparr>jwt_AccessToken = ''token'', jwt_rest = []\<rparr>), w)),
     k8s := (\<lambda>rq w. case rq of
         KGet KindRealm _ _ \<Rightarrow> (Inr (RealmObj leaving_realm), w)
       | KGet KindSecret _ n \<Rightarrow> (if prefix ''kc-token-'' n then Inl (StatusError ''NotFound'' 404 ''no secret'') else Inr token_secret, w)
       | KUpdate x \<Rightarrow> (Inr x, w) | KStatusUpdate x \<Rightarrow> (Inr x, w) | KCreate x \<Rightarrow> (Inr x, w)
       | _ \<Rightarrow> (Inl (NewError ''refused''), w))\<rparr>"

lemma cluster_finalizers: "finalizers_ok cluster_env"
  using idle_env_finalizers by (simp add: finalizers_ok_def cluster_env_def)

lemma cluster_run:
  "fst (realm_tryReconcile 5 cluster_env watch_all (realm_start () leaving_realm)) = Ok ()"
  by code_simp


theorem realm_Reconcile_reports_witness:
  "\<exists>x. last (trace (snd (realm_Reconcile 5 cluster_env watch_all 7 ''ns'' ''r'' (realm_start () idle_realm)))) =
     Kube (KStatusUpdate (RealmObj x)) \<and> rst_Phase (kr_Status x) = PhaseCompleted"
proof -
  let ?s1 = "(realm_start () idle_realm)\<lparr>trace := [Kube (KGet KindRealm ''ns'' ''r'')]\<rparr>"
  have get: "get_realm_cr cluster_env ''ns'' ''r'' (realm_start () idle_realm) = (Ok leaving_realm, ?s1)"
    by (simp add: get_realm_cr_def k8s_Get_def cluster_env_def realm_start_def go_simps)
  let ?r = "realm_tryReconcile 5 cluster_env watch_all (?s1\<lparr>mem := (mem ?s1)\<lparr>rm_realm := leaving_realm\<rparr>\<rparr>)"
  have "fst ?r = Ok ()" by code_simp
  then have run: "?r = (Ok (), snd ?r)" by (metis prod.collapse)
  from realm_Reconcile_reports [where timeout = 7, OF get run _ surjective_pairing] show ?thesis by auto
qed

end
