(* ===== verification/IdpProps.thy ===== *)
theory IdpProps
  imports IdpChain GroupProps AdapterLaws
begin

text \<open>Properties of the identity-provider chain, over what Keycloak does with the adapter's requests.\<close>

section \<open>The provider\<close>

text \<open>
  What Keycloak does with providers: \<open>idps w alias\<close> is the provider of that alias, without its
  internal id. Reading one changes none; a successful \<open>PUT\<close> or \<open>POST\<close> stores the one it was sent.
\<close>

definition idp_server ::
  "'w env \<Rightarrow> GoCloakAdapter \<Rightarrow> string \<Rightarrow> ('w \<Rightarrow> string \<Rightarrow> adapter_IdentityProvider option) \<Rightarrow> bool" where
  "idp_server env a realm idps \<longleftrightarrow>
     (\<forall>alias w ans w'. rest_sent env a GET identityProviderEntity [(''realm'', realm), (''alias'', alias)] NoRest w ans w' \<longrightarrow>
        idps w' = idps w) \<and>
     (\<forall>alias idp w rsp w'. rest_ok env a PUT identityProviderEntity [(''realm'', realm), (''alias'', alias)] (RestIdp idp) w rsp w' \<longrightarrow>
        idps w' = (idps w)(alias := Some (idp\<lparr>aip_InternalID := ''''\<rparr>))) \<and>
     (\<forall>idp w rsp w'. rest_ok env a POST identityProviderCreateList [(''realm'', realm)] (RestIdp idp) w rsp w' \<longrightarrow>
        idps w' = (idps w)(aip_Alias idp := Some (idp\<lparr>aip_InternalID := ''''\<rparr>)))"

lemma wp_IdentityProviderExists:
  assumes "idp_server env a realm idps"
  shows "wp True (IdentityProviderExists env a realm alias) (\<lambda>_ s'. idps (world s') = idps (world s)) (\<lambda>_ _. True) s"
proof -
  have "wp True (adapter_GetIdentityProvider env a realm alias) (\<lambda>_ s'. idps (world s') = idps (world s))
      (\<lambda>_ s'. idps (world s') = idps (world s)) s"
    unfolding adapter_GetIdentityProvider_def wp_bindIO
    by (rule wp_restCall) (use assms in \<open>auto simp: idp_server_def split: option.split\<close>)
  then show ?thesis unfolding IdentityProviderExists_def wp_bindIO wp_tryIO by (auto elim!: wp_mono)
qed

lemma wp_store_idp:
  assumes "idp_server env a realm idps"
  shows "wp True (adapter_UpdateIdentityProvider env a realm idp)
      (\<lambda>_ s'. idps (world s') = (idps (world s))(aip_Alias idp := Some (idp\<lparr>aip_InternalID := ''''\<rparr>))) (\<lambda>_ _. True) s"
    and "wp True (adapter_CreateIdentityProvider env a realm idp)
      (\<lambda>_ s'. idps (world s') = (idps (world s))(aip_Alias idp := Some (idp\<lparr>aip_InternalID := ''''\<rparr>))) (\<lambda>_ _. True) s"
  unfolding adapter_UpdateIdentityProvider_def adapter_CreateIdentityProvider_def wp_bindIO wp_wrapErr wp_voidIO
  by (rule wp_checkedCall [unfolded wp_bindIO wp_wrapErr], use assms in \<open>auto simp: idp_server_def\<close>)+

lemma createKeycloakIDPFromSpec_simps [simp]:
  "aip_Config (createKeycloakIDPFromSpec idp) = ip_Config idp"
  by (simp add: createKeycloakIDPFromSpec_def)

lemma createKeycloakIDPFromSpec_keys [simp]:
  "aip_Alias (createKeycloakIDPFromSpec idp) = ip_Alias idp"
  "(createKeycloakIDPFromSpec idp)\<lparr>aip_Config := c, aip_InternalID := ''''\<rparr> =
     (createKeycloakIDPFromSpec idp)\<lparr>aip_Config := c\<rparr>"
  by (simp_all add: createKeycloakIDPFromSpec_def)


section \<open>Its mappers\<close>

text \<open>
  What Keycloak does with the mappers of a provider: listing returns them and changes nothing, a
  successful \<open>DELETE\<close> removes the one of that id, a successful \<open>POST\<close> adds one with a new id.
\<close>

definition mapper_server ::
  "'w env \<Rightarrow> GoCloakAdapter \<Rightarrow> string \<Rightarrow> string \<Rightarrow> ('w \<Rightarrow> adapter_IdentityProviderMapper list) \<Rightarrow> bool" where
  "mapper_server env a realm alias mappers \<longleftrightarrow>
     (\<forall>w rsp w'. rest_ok env a GET idpMapperCreateList [(''realm'', realm), (''alias'', alias)] NoRest w rsp w' \<longrightarrow>
        mappers w' = mappers w \<and> rest_mappers rsp = mappers w) \<and>
     (\<forall>i w rsp w'. rest_ok env a DELETE idpMapperEntity [(''realm'', realm), (''alias'', alias), (''id'', i)] NoRest w rsp w' \<longrightarrow>
        mappers w' = filter (\<lambda>m. aim_ID m \<noteq> i) (mappers w)) \<and>
     (\<forall>m w rsp w'. rest_ok env a POST idpMapperCreateList [(''realm'', realm), (''alias'', alias)] (RestMapper m) w rsp w' \<longrightarrow>
        (\<exists>i. mappers w' = mappers w @ [m\<lparr>aim_ID := i\<rparr>]))"

lemma wp_mapper_methods:
  assumes "mapper_server env a realm alias mappers"
  shows "wp True (GetIDPMappers env a realm alias)
      (\<lambda>ms s'. ms = mappers (world s) \<and> mappers (world s') = mappers (world s)) (\<lambda>_ _. True) s"
    and "wp True (DeleteIDPMapper env a realm alias i)
      (\<lambda>_ s'. mappers (world s') = filter (\<lambda>m. aim_ID m \<noteq> i) (mappers (world s))) (\<lambda>_ _. True) s"
    and "wp True (CreateIDPMapper env a realm alias m)
      (\<lambda>_ s'. \<exists>i. mappers (world s') = mappers (world s) @ [m\<lparr>aim_ID := i\<rparr>]) (\<lambda>_ _. True) s"
  unfolding GetIDPMappers_def DeleteIDPMapper_def CreateIDPMapper_def wp_bindIO wp_wrapErr wp_voidIO liftIO_def
  by (rule wp_checkedCall [unfolded wp_bindIO wp_wrapErr], use assms in \<open>auto simp: mapper_server_def split: sum.split\<close>)+

definition anonymous :: "adapter_IdentityProviderMapper \<Rightarrow> adapter_IdentityProviderMapper" where
  "anonymous m = m\<lparr>aim_ID := ''''\<rparr>"

lemma anonymous_from_spec: "anonymous ((createKeycloakIDPMapperFromSpec m)\<lparr>aim_ID := i\<rparr>) = createKeycloakIDPMapperFromSpec m"
  by (simp add: anonymous_def createKeycloakIDPMapperFromSpec_def)

text \<open>
  Synchronising mappers: when it succeeds for a provider that lists mappers, Keycloak has
  exactly the listed ones for that provider, in their order, each once and whatever was there
  before; a mapper without an alias belongs to the provider that lists it.
\<close>

theorem syncIDPMappers_correct:
  assumes "mapper_server env a realm (ip_Alias idp) mappers" and "ip_Mappers idp \<noteq> []"
    and "syncIDPMappers env idp a realm s = (Ok (), s')"
  shows "map anonymous (mappers (world s')) =
     map (createKeycloakIDPMapperFromSpec \<circ> owned_mapper (ip_Alias idp)) (ip_Mappers idp)"
proof -
  note methods = wp_mapper_methods [OF assms(1)]
  let ?new = "createKeycloakIDPMapperFromSpec \<circ> owned_mapper (ip_Alias idp)"
  let ?I = "\<lambda>old vis s1. mappers (world s1) = filter (\<lambda>m. aim_ID m \<notin> aim_ID ` set vis) old"
  have clear: "wp True (forIO (\<lambda>m. wrapErr ''unable to delete idp mapper: ''
      (DeleteIDPMapper env a realm (ip_Alias idp) (aim_ID m))) old) (\<lambda>_ s1. mappers (world s1) = []) (\<lambda>_ _. True) s1"
    if "mappers (world s1) = old" for old and s1 :: "('a, event, realm_mem) io_state"
    by (rule wp_forIO [where I = "?I old"]) (use that in \<open>auto intro!: wp_weaken [OF methods(2)] simp: filter_empty_conv conj_commute\<close>)
  let ?J = "\<lambda>vis s1. map anonymous (mappers (world s1)) = map ?new vis"
  have add: "wp True (forIO (\<lambda>m. wrapErr ''unable to create idp mapper: ''
      (voidIO (CreateIDPMapper env a realm (ip_Alias idp) (createKeycloakIDPMapperFromSpec (owned_mapper (ip_Alias idp) m)))))
      (ip_Mappers idp)) (\<lambda>_ s1. ?J (ip_Mappers idp) s1) (\<lambda>_ _. True) s1"
    if "mappers (world s1) = []" for s1 :: "('a, event, realm_mem) io_state"
    by (rule wp_forIO [where I = ?J]) (use that in \<open>auto intro!: wp_weaken [OF methods(3)] simp: anonymous_from_spec\<close>)
  have "wp True (syncIDPMappers env idp a realm) (\<lambda>_ s1. ?J (ip_Mappers idp) s1) (\<lambda>_ _. True) s"
    unfolding syncIDPMappers_def using assms(2)
    by (auto intro!: wp_weaken [OF methods(1)] wp_weaken [OF clear] wp_weaken [OF add])
  from wp_OkD [OF this assms(3)] show ?thesis .
qed

section \<open>Concrete runs\<close>

definition vault_k8s :: "'w env \<Rightarrow> 'w env" where
  "vault_k8s env = env\<lparr>k8s := (\<lambda>rq w. (Inr (SecretObj \<lparr>sec_Name = ''db'', sec_Namespace = ''ns'', sec_ResourceVersion = ''1'', sec_OwnerReferences = [],
     sec_Data = [(''pass'', ''s3cret'')]\<rparr>), w))\<rparr>"

text \<open>A Keycloak that stores providers and the mappers of one provider.\<close>

definition broker_env :: "((string \<Rightarrow> adapter_IdentityProvider option) \<times> adapter_IdentityProviderMapper list) env" where
  "broker_env = vault_k8s (idle_env\<lparr>resty := (\<lambda>cl rq (idps, ms). case (rsq_method rq, rsq_body rq) of
       (PUT, RestIdp x) \<Rightarrow> (rest_accepted NoRest, (idps(get_str (rsq_params rq) ''alias'' := Some (x\<lparr>aip_InternalID := ''''\<rparr>)), ms))
     | (POST, RestIdp x) \<Rightarrow> (rest_accepted NoRest, (idps(aip_Alias x := Some (x\<lparr>aip_InternalID := ''''\<rparr>)), ms))
     | (POST, RestMapper m) \<Rightarrow> (rest_accepted NoRest, (idps, ms @ [m\<lparr>aim_ID := ''id''\<rparr>]))
     | (DELETE, _) \<Rightarrow> (rest_accepted NoRest, (idps, filter (\<lambda>m. aim_ID m \<noteq> get_str (rsq_params rq) ''id'') ms))
     | _ \<Rightarrow> (rest_accepted (RestMappers ms), (idps, ms)))\<rparr>)"

lemma broker_idp_server: "idp_server broker_env a realm fst"
  by (auto simp: idp_server_def rest_ok_def rest_sent_def rest_rq_def broker_env_def vault_k8s_def get_str_def
      split: prod.splits)

lemma broker_mapper_server: "mapper_server broker_env a realm alias snd"
  by (auto simp: mapper_server_def rest_ok_def rest_sent_def rest_rq_def broker_env_def vault_k8s_def get_str_def
      rest_accepted_def rest_mappers_def split: prod.splits)

lemma broker_secrets: "stable_secrets broker_env ns (\<lambda>_ _. Some [(''pass'', ''s3cret'')])"
  by (auto simp: stable_secrets_def broker_env_def vault_k8s_def)

definition broker_idp :: IdentityProvider where
  "broker_idp = \<lparr>ip_ProviderID = ''oidc'', ip_Alias = ''idp'', ip_Config = [(''clientSecret'', ''$db:pass'')], ip_Enabled = True,
     ip_AddReadTokenRoleOnCreate = False, ip_AuthenticateByDefault = False, ip_DisplayName = '''',
     ip_FirstBrokerLoginFlowAlias = '''', ip_PostBrokerLoginFlowAlias = '''', ip_LinkOnly = False,
     ip_StoreToken = False, ip_TrustEmail = False,
     ip_Mappers = [\<lparr>ipm_IdentityProviderAlias = '''', ipm_IdentityProviderMapper = ''hardcoded'', ipm_Name = ''m'', ipm_Config = []\<rparr>],
     ip_AdminFineGrainedPermissionsEnabled = False, ip_Permission = None\<rparr>"

lemma broker_run:
  "fst (PutIDP_Serve broker_env test_adapter broker_idp ''realm'' ''ns'' (realm_start ((\<lambda>_. None), []) idle_realm)) = Ok ()"
  "fst (syncIDPMappers broker_env broker_idp test_adapter ''realm'' (realm_start ((\<lambda>_. None), []) idle_realm)) = Ok ()"
  by code_simp+


theorem syncIDPMappers_witness:
  "map anonymous (snd (world (snd (syncIDPMappers broker_env broker_idp test_adapter ''realm''
      (realm_start ((\<lambda>_. None), []) idle_realm))))) =
   [\<lparr>aim_ID = '''', aim_IdentityProviderAlias = ''idp'', aim_IdentityProviderMapper = ''hardcoded'', aim_Name = ''m'', aim_Config = []\<rparr>]"
proof -
  let ?r = "syncIDPMappers broker_env broker_idp test_adapter ''realm'' (realm_start ((\<lambda>_. None), []) idle_realm)"
  have run: "?r = (Ok (), snd ?r)" using broker_run(2) by (metis prod.collapse)
  have "ip_Mappers broker_idp \<noteq> []" by (simp add: broker_idp_def)
  from syncIDPMappers_correct [OF broker_mapper_server this run] show ?thesis
    by (simp add: broker_idp_def owned_mapper_def createKeycloakIDPMapperFromSpec_def)
qed

end
