(* ===== verification/KcAuthFlows.thy ===== *)
theory KcAuthFlows
  imports KcClients
begin

text \<open>
  \<open>pkg/client/keycloakv2/auth_flows.go\<close>: the methods for authentication flows, their executions and
  configurations, and for required actions, in the style of \<open>KcClients\<close>.
\<close>

definition json_flows :: "http_result \<Rightarrow> (AuthFlowRepresentation list) option" where
  "json_flows r = (case hr_JSON200 r of Some (FlowsB x) \<Rightarrow> Some x | _ \<Rightarrow> None)"

definition json_flow :: "http_result \<Rightarrow> AuthFlowRepresentation option" where
  "json_flow r = (case hr_JSON200 r of Some (FlowB x) \<Rightarrow> Some x | _ \<Rightarrow> None)"

definition json_execs :: "http_result \<Rightarrow> (AuthenticationExecutionInfoRepresentation list) option" where
  "json_execs r = (case hr_JSON200 r of Some (ExecInfosB x) \<Rightarrow> Some x | _ \<Rightarrow> None)"

definition json_authConfig :: "http_result \<Rightarrow> AuthenticatorConfigRepresentation option" where
  "json_authConfig r = (case hr_JSON200 r of Some (AuthConfigB x) \<Rightarrow> Some x | _ \<Rightarrow> None)"

definition json_actions :: "http_result \<Rightarrow> (json list) option" where
  "json_actions r = (case hr_JSON200 r of Some (JsonsB x) \<Rightarrow> Some x | _ \<Rightarrow> None)"

definition GetAuthFlows ::
  "'w env \<Rightarrow> kc_client \<Rightarrow> string \<Rightarrow> ('w, 'm, AuthFlowRepresentation list) prog" where
  "GetAuthFlows env c realm =
     bindIO (sendRequest env c (mk_request GET (realm_path realm [''authentication'', ''flows'']) [] NoBody)) (\<lambda>r. ret (case json_flows r of None \<Rightarrow> [] | Some xs \<Rightarrow> xs))"

definition CreateAuthFlow ::
  "'w env \<Rightarrow> kc_client \<Rightarrow> string \<Rightarrow> AuthFlowRepresentation \<Rightarrow> ('w, 'm, Response) prog" where
  "CreateAuthFlow env c realm body =
     bindIO (sendRequest env c (mk_request POST (realm_path realm [''authentication'', ''flows'']) [] (FlowB body))) (\<lambda>r. ret (response_of r))"

definition UpdateAuthFlow ::
  "'w env \<Rightarrow> kc_client \<Rightarrow> string \<Rightarrow> string \<Rightarrow> AuthFlowRepresentation \<Rightarrow> ('w, 'm, Response) prog" where
  "UpdateAuthFlow env c realm i body =
     bindIO (sendRequest env c (mk_request PUT (realm_path realm [''authentication'', ''flows'', i]) [] (FlowB body))) (\<lambda>r. ret (response_of r))"

definition DeleteAuthFlow ::
  "'w env \<Rightarrow> kc_client \<Rightarrow> string \<Rightarrow> string \<Rightarrow> ('w, 'm, Response) prog" where
  "DeleteAuthFlow env c realm i =
     bindIO (sendRequest env c (mk_request DELETE (realm_path realm [''authentication'', ''flows'', i]) [] NoBody)) (\<lambda>r. ret (response_of r))"

definition GetFlowExecutions ::
  "'w env \<Rightarrow> kc_client \<Rightarrow> string \<Rightarrow> string \<Rightarrow> ('w, 'm, AuthenticationExecutionInfoRepresentation list) prog" where
  "GetFlowExecutions env c realm flowAlias =
     bindIO (sendRequest env c (mk_request GET (realm_path realm [''authentication'', ''flows'', flowAlias, ''executions'']) [] NoBody)) (\<lambda>r. ret (case json_execs r of None \<Rightarrow> [] | Some xs \<Rightarrow> xs))"

definition UpdateFlowExecution ::
  "'w env \<Rightarrow> kc_client \<Rightarrow> string \<Rightarrow> string \<Rightarrow> AuthenticationExecutionInfoRepresentation \<Rightarrow> ('w, 'm, Response) prog" where
  "UpdateFlowExecution env c realm flowAlias body =
     bindIO (sendRequest env c (mk_request PUT (realm_path realm [''authentication'', ''flows'', flowAlias, ''executions'']) [] (ExecInfoB body))) (\<lambda>r. ret (response_of r))"

definition AddExecutionToFlow ::
  "'w env \<Rightarrow> kc_client \<Rightarrow> string \<Rightarrow> AuthenticationExecutionRepresentation \<Rightarrow> ('w, 'm, Response) prog" where
  "AddExecutionToFlow env c realm body =
     bindIO (sendRequest env c (mk_request POST (realm_path realm [''authentication'', ''executions'']) [] (ExecB body))) (\<lambda>r. ret (response_of r))"

definition AddChildFlowToFlow ::
  "'w env \<Rightarrow> kc_client \<Rightarrow> string \<Rightarrow> string \<Rightarrow> json gomap \<Rightarrow> ('w, 'm, Response) prog" where
  "AddChildFlowToFlow env c realm flowAlias body =
     bindIO (sendRequest env c (mk_request POST (realm_path realm [''authentication'', ''flows'', flowAlias, ''executions'', ''flow'']) [] (JsonB (JObj body)))) (\<lambda>r. ret (response_of r))"

definition DeleteExecution ::
  "'w env \<Rightarrow> kc_client \<Rightarrow> string \<Rightarrow> string \<Rightarrow> ('w, 'm, Response) prog" where
  "DeleteExecution env c realm executionID =
     bindIO (sendRequest env c (mk_request DELETE (realm_path realm [''authentication'', ''executions'', executionID]) [] NoBody)) (\<lambda>r. ret (response_of r))"

definition CreateExecutionConfig ::
  "'w env \<Rightarrow> kc_client \<Rightarrow> string \<Rightarrow> string \<Rightarrow> AuthenticatorConfigRepresentation \<Rightarrow> ('w, 'm, Response) prog" where
  "CreateExecutionConfig env c realm executionID body =
     bindIO (sendRequest env c (mk_request POST (realm_path realm [''authentication'', ''executions'', executionID, ''config'']) [] (AuthConfigB body))) (\<lambda>r. ret (response_of r))"

definition GetAuthenticatorConfig ::
  "'w env \<Rightarrow> kc_client \<Rightarrow> string \<Rightarrow> string \<Rightarrow> ('w, 'm, AuthenticatorConfigRepresentation option) prog" where
  "GetAuthenticatorConfig env c realm configID =
     bindIO (sendRequest env c (mk_request GET (realm_path realm [''authentication'', ''config'', configID]) [] NoBody)) (\<lambda>r. ret (json_authConfig r))"

definition GetAuthFlow ::
  "'w env \<Rightarrow> kc_client \<Rightarrow> string \<Rightarrow> string \<Rightarrow> ('w, 'm, AuthFlowRepresentation option) prog" where
  "GetAuthFlow env c realm flowID =
     bindIO (sendRequest env c (mk_request GET (realm_path realm [''authentication'', ''flows'', flowID]) [] NoBody)) (\<lambda>r. ret (json_flow r))"

definition CopyAuthFlow ::
  "'w env \<Rightarrow> kc_client \<Rightarrow> string \<Rightarrow> string \<Rightarrow> string \<Rightarrow> ('w, 'm, Response) prog" where
  "CopyAuthFlow env c realm flowAlias newName =
     bindIO (sendRequest env c (mk_request POST (realm_path realm [''authentication'', ''flows'', flowAlias, ''copy'']) [] (JsonB (JObj [(''newName'', JStr newName)])))) (\<lambda>r. ret (response_of r))"

definition UpdateAuthenticatorConfig ::
  "'w env \<Rightarrow> kc_client \<Rightarrow> string \<Rightarrow> string \<Rightarrow> AuthenticatorConfigRepresentation \<Rightarrow> ('w, 'm, Response) prog" where
  "UpdateAuthenticatorConfig env c realm configID body =
     bindIO (sendRequest env c (mk_request PUT (realm_path realm [''authentication'', ''config'', configID]) [] (AuthConfigB body))) (\<lambda>r. ret (response_of r))"

definition DeleteAuthenticatorConfig ::
  "'w env \<Rightarrow> kc_client \<Rightarrow> string \<Rightarrow> string \<Rightarrow> ('w, 'm, Response) prog" where
  "DeleteAuthenticatorConfig env c realm configID =
     bindIO (sendRequest env c (mk_request DELETE (realm_path realm [''authentication'', ''config'', configID]) [] NoBody)) (\<lambda>r. ret (response_of r))"

definition GetRequiredActions ::
  "'w env \<Rightarrow> kc_client \<Rightarrow> string \<Rightarrow> ('w, 'm, json list) prog" where
  "GetRequiredActions env c realm =
     bindIO (sendRequest env c (mk_request GET (realm_path realm [''authentication'', ''required-actions'']) [] NoBody)) (\<lambda>r. ret (case json_actions r of None \<Rightarrow> [] | Some xs \<Rightarrow> xs))"

definition UpdateRequiredAction ::
  "'w env \<Rightarrow> kc_client \<Rightarrow> string \<Rightarrow> string \<Rightarrow> json \<Rightarrow> ('w, 'm, Response) prog" where
  "UpdateRequiredAction env c realm alias action =
     bindIO (sendRequest env c (mk_request PUT (realm_path realm [''authentication'', ''required-actions'', alias]) [] (JsonB action))) (\<lambda>r. ret (response_of r))"

lemmas flow_client_defs =
  GetAuthFlows_def CreateAuthFlow_def UpdateAuthFlow_def DeleteAuthFlow_def GetFlowExecutions_def UpdateFlowExecution_def AddExecutionToFlow_def AddChildFlowToFlow_def DeleteExecution_def CreateExecutionConfig_def GetAuthenticatorConfig_def GetAuthFlow_def CopyAuthFlow_def UpdateAuthenticatorConfig_def DeleteAuthenticatorConfig_def GetRequiredActions_def UpdateRequiredAction_def

end
