(* ===== verification/AuthFlowChain.thy ===== *)
theory AuthFlowChain
  imports KcAuthFlows HandlerChain
begin

text \<open>
  \<open>internal/controller/keycloakauthflow/chain\<close>: the handlers that bring one authentication flow of
  Keycloak in line with a \<open>KeycloakAuthFlow\<close> resource, the chain that runs them, and the removal of a
  flow. The memory of a run holds the resource.
\<close>

record flow_mem =
  fm_flow :: KeycloakAuthFlow

type_synonym ('w, 'a) flow_prog = "('w, flow_mem, 'a) prog"

definition flow_obj :: "flow_mem client_Object" where
  "flow_obj = \<lparr>obj_meta = (\<lambda>m. af_Meta (fm_flow m)),
     obj_set_meta = (\<lambda>x m. m\<lparr>fm_flow := (fm_flow m)\<lparr>af_Meta := x\<rparr>\<rparr>),
     obj_out = (\<lambda>m. AuthFlowObj (fm_flow m)),
     obj_in = (\<lambda>x m. case x of AuthFlowObj f \<Rightarrow> m\<lparr>fm_flow := f\<rparr> | _ \<Rightarrow> m)\<rparr>"

interpretation flow_object: client_object flow_obj
  by unfold_locales (simp_all add: flow_obj_def)

definition set_flow_ID :: "string \<Rightarrow> flow_mem \<Rightarrow> flow_mem" where
  "set_flow_ID i m = m\<lparr>fm_flow := (fm_flow m)\<lparr>af_Status := (af_Status (fm_flow m))\<lparr>aft_ID := i\<rparr>\<rparr>\<rparr>"

section \<open>create_or_update_auth_flow.go\<close>

definition authFlowRepFromSpec :: "KeycloakAuthFlowSpec \<Rightarrow> AuthFlowRepresentation" where
  "authFlowRepFromSpec spec =
     \<lparr>afr_Alias = Some (afs_Alias spec), afr_AuthenticationExecutions = None, afr_BuiltIn = Some (afs_BuiltIn spec),
      afr_Description = Some (afs_Description spec), afr_Id = None, afr_ProviderId = Some (afs_ProviderID spec),
      afr_TopLevel = Some (afs_TopLevel spec)\<rparr>"

definition findExecByDisplayName ::
  "AuthenticationExecutionInfoRepresentation list \<Rightarrow> string \<Rightarrow> AuthenticationExecutionInfoRepresentation option" where
  "findExecByDisplayName execs displayName = find (\<lambda>e. aei_DisplayName e = Some displayName) execs"

definition isFlowExec :: "AuthenticationExecutionInfoRepresentation \<Rightarrow> bool" where
  "isFlowExec e \<longleftrightarrow> aei_AuthenticationFlow e = Some True"

definition isTopLevel :: "AuthenticationExecutionInfoRepresentation \<Rightarrow> bool" where
  "isTopLevel e \<longleftrightarrow> aei_Level e = Some 0"

definition validateChildFlows :: "'w env \<Rightarrow> kc_client \<Rightarrow> string \<Rightarrow> ('w, unit) flow_prog" where
  "validateChildFlows env c realmName =
     bindIO (getMem (\<lambda>m. af_Spec (fm_flow m))) (\<lambda>spec.
     let expectedChildFlows = length (filter ae_AuthenticatorFlow (afs_AuthenticationExecutions spec)) in
     if expectedChildFlows = 0 then ret ()
     else
       bindIO (wrapErr ''failed to get flow executions for validation: ''
         (GetFlowExecutions env c realmName (afs_Alias spec))) (\<lambda>execs.
       let createdChildFlows = length (filter (\<lambda>e. isFlowExec e \<and> isTopLevel e) execs) in
       if createdChildFlows < expectedChildFlows
       then fail (NewError ''not all child flows have been created yet'')
       else ret ()))"

definition serveTopLevelFlow :: "'w env \<Rightarrow> kc_client \<Rightarrow> string \<Rightarrow> ('w, unit) flow_prog" where
  "serveTopLevelFlow env c realmName =
     bindIO (getMem (\<lambda>m. af_Spec (fm_flow m))) (\<lambda>spec.
     bindIO (wrapErr ''failed to get auth flows: '' (GetAuthFlows env c realmName)) (\<lambda>flows.
     case find (\<lambda>f. afr_Alias f = Some (afs_Alias spec)) flows of
       Some f \<Rightarrow>
         (case afr_Id f of
            None \<Rightarrow> fail (NewError (''auth flow '' @ go_quote (afs_Alias spec) @ '' has no ID''))
          | Some i \<Rightarrow>
              bindIO (modMem (set_flow_ID i)) (\<lambda>_.
              bindIO (wrapErr ''failed to update auth flow: ''
                (UpdateAuthFlow env c realmName i (authFlowRepFromSpec spec))) (\<lambda>_.
              validateChildFlows env c realmName)))
     | None \<Rightarrow>
         bindIO (wrapErr ''failed to create auth flow: ''
           (CreateAuthFlow env c realmName (authFlowRepFromSpec spec))) (\<lambda>resp.
         let i = GetResourceIDFromResponse env (Some resp) in
         bindIO (modMem (set_flow_ID i)) (\<lambda>_.
         if i = '''' then
           fail (NewError (''auth flow Location header missing or empty for alias '' @ go_quote (afs_Alias spec)))
         else validateChildFlows env c realmName))))"

definition create_child_flow ::
  "'w env \<Rightarrow> kc_client \<Rightarrow> string \<Rightarrow> KeycloakAuthFlowSpec \<Rightarrow>
   ('w, AuthenticationExecutionInfoRepresentation option) flow_prog" where
  "create_child_flow env c realmName spec =
     bindIO (wrapErr ''failed to create child auth flow: ''
       (AddChildFlowToFlow env c realmName (afs_ParentName spec)
         [(''alias'', JStr (afs_Alias spec)), (''description'', JStr (afs_Description spec)),
          (''provider'', JStr (afs_ProviderID spec)), (''type'', JStr (afs_ChildType spec))])) (\<lambda>_.
     bindIO (wrapErr ''failed to get parent flow executions after child creation: ''
       (GetFlowExecutions env c realmName (afs_ParentName spec))) (\<lambda>execs.
     ret (findExecByDisplayName execs (afs_Alias spec))))"

definition serveChildFlow :: "'w env \<Rightarrow> kc_client \<Rightarrow> string \<Rightarrow> ('w, unit) flow_prog" where
  "serveChildFlow env c realmName =
     bindIO (getMem (\<lambda>m. af_Spec (fm_flow m))) (\<lambda>spec.
     bindIO (wrapErr ''failed to get parent flow executions: ''
       (GetFlowExecutions env c realmName (afs_ParentName spec))) (\<lambda>execs.
     bindIO (case findExecByDisplayName execs (afs_Alias spec) of
         Some e \<Rightarrow> ret (Some e)
       | None \<Rightarrow> create_child_flow env c realmName spec) (\<lambda>existing.
     bindIO (case Option.bind existing aei_FlowId of
         Some i \<Rightarrow> modMem (set_flow_ID i)
       | None \<Rightarrow> ret ()) (\<lambda>_.
     bindIO (case existing of
         None \<Rightarrow> ret ()
       | Some e \<Rightarrow>
           whenIO (afs_ChildRequirement spec \<noteq> '''' \<and>
               (case aei_Requirement e of None \<Rightarrow> '''' | Some r \<Rightarrow> r) \<noteq> afs_ChildRequirement spec)
             (wrapErr ''failed to update child flow requirement: ''
               (voidIO (UpdateFlowExecution env c realmName (afs_ParentName spec)
                 (e\<lparr>aei_Requirement := Some (afs_ChildRequirement spec)\<rparr>))))) (\<lambda>_.
     validateChildFlows env c realmName)))))"

definition CreateOrUpdateAuthFlow_Serve :: "'w env \<Rightarrow> kc_client \<Rightarrow> string \<Rightarrow> ('w, unit) flow_prog" where
  "CreateOrUpdateAuthFlow_Serve env c realmName =
     bindIO (getMem (\<lambda>m. af_Spec (fm_flow m))) (\<lambda>spec.
     if afs_ParentName spec \<noteq> '''' then serveChildFlow env c realmName
     else serveTopLevelFlow env c realmName)"

section \<open>sync_auth_flow_executions.go\<close>

definition clearNonFlowExecutions :: "'w env \<Rightarrow> kc_client \<Rightarrow> string \<Rightarrow> string \<Rightarrow> ('w, unit) flow_prog" where
  "clearNonFlowExecutions env c flowAlias realmName =
     bindIO (wrapErr ''failed to get flow executions: '' (GetFlowExecutions env c realmName flowAlias)) (\<lambda>execs.
     forIO (\<lambda>e.
       if isFlowExec e \<or> \<not> isTopLevel e then ret ()
       else let execID = (case aei_Id e of None \<Rightarrow> '''' | Some i \<Rightarrow> i) in
         whenIO (execID \<noteq> '''')
           (wrapErr (''failed to delete execution '' @ go_quote execID @ '': '')
             (voidIO (DeleteExecution env c realmName execID)))) execs)"

definition addExecution ::
  "'w env \<Rightarrow> kc_client \<Rightarrow> string \<Rightarrow> string \<Rightarrow> string \<Rightarrow> string \<Rightarrow> ('w, string) flow_prog" where
  "addExecution env c realmName flowID authenticator requirement =
     bindIO (wrapErr ''failed to post execution: ''
       (AddExecutionToFlow env c realmName
         \<lparr>aer_Authenticator = Some authenticator, aer_ParentFlow = Some flowID,
          aer_Requirement = Some requirement, aer_rest = []\<rparr>)) (\<lambda>resp.
     let execID = GetResourceIDFromResponse env (Some resp) in
     if execID = '''' then
       fail (NewError (''execution Location header missing or empty for authenticator '' @ go_quote authenticator))
     else ret execID)"

definition createExecutionConfig ::
  "'w env \<Rightarrow> kc_client \<Rightarrow> string \<Rightarrow> string \<Rightarrow> AuthenticatorConfig \<Rightarrow> ('w, unit) flow_prog" where
  "createExecutionConfig env c realmName execID cfg =
     wrapErr ''failed to create execution config: ''
       (voidIO (CreateExecutionConfig env c realmName execID
         \<lparr>acr_Alias = Some (ac_Alias cfg), acr_Config = Some (ac_Config cfg), acr_Id = None\<rparr>))"

definition add_execution_with_config ::
  "'w env \<Rightarrow> kc_client \<Rightarrow> string \<Rightarrow> string \<Rightarrow> AuthenticationExecution \<Rightarrow> ('w, unit) flow_prog" where
  "add_execution_with_config env c realmName flowID e =
     bindIO (wrapErr (''failed to add execution '' @ go_quote (ae_Authenticator e) @ '': '')
       (addExecution env c realmName flowID (ae_Authenticator e) (ae_Requirement e))) (\<lambda>execID.
     case ae_AuthenticatorConfig e of
       None \<Rightarrow> ret ()
     | Some cfg \<Rightarrow> wrapErr (''failed to create config for execution '' @ go_quote (ae_Authenticator e) @ '': '')
         (createExecutionConfig env c realmName execID cfg))"

text \<open>\<open>int32(specEntry.Priority)\<close> keeps the low 32 bits.\<close>

definition adjusted_exec ::
  "AuthenticationExecution \<Rightarrow> AuthenticationExecutionInfoRepresentation \<Rightarrow> AuthenticationExecutionInfoRepresentation" where
  "adjusted_exec specEntry e =
     (let e1 = (if ae_Requirement specEntry \<noteq> '''' \<and> aei_Requirement e \<noteq> Some (ae_Requirement specEntry)
                then e\<lparr>aei_Requirement := Some (ae_Requirement specEntry)\<rparr> else e);
          expectedPriority = (ucast (ae_Priority specEntry) :: 32 word)
      in if aei_Priority e1 \<noteq> Some expectedPriority then e1\<lparr>aei_Priority := Some expectedPriority\<rparr> else e1)"

definition adjust_child ::
  "'w env \<Rightarrow> kc_client \<Rightarrow> string \<Rightarrow> string \<Rightarrow> AuthenticationExecution gomap \<Rightarrow>
   AuthenticationExecutionInfoRepresentation \<Rightarrow> ('w, unit) flow_prog" where
  "adjust_child env c realmName alias childFlowSpecs e =
     (if \<not> isFlowExec e \<or> \<not> isTopLevel e then ret ()
      else case aei_DisplayName e of
        None \<Rightarrow> ret ()
      | Some name \<Rightarrow>
          (case map_of childFlowSpecs name of
             None \<Rightarrow> ret ()
           | Some specEntry \<Rightarrow>
               whenIO (adjusted_exec specEntry e \<noteq> e)
                 (wrapErr (''failed to update priority for child flow '' @ go_quote name @ '': '')
                   (voidIO (UpdateFlowExecution env c realmName alias (adjusted_exec specEntry e))))))"

definition child_flow_specs :: "KeycloakAuthFlowSpec \<Rightarrow> AuthenticationExecution gomap" where
  "child_flow_specs spec =
     fold (\<lambda>e m. if ae_AuthenticatorFlow e then AList.update (ae_Alias e) e m else m) (afs_AuthenticationExecutions spec) []"

definition adjustChildFlowsPriority :: "'w env \<Rightarrow> kc_client \<Rightarrow> string \<Rightarrow> ('w, unit) flow_prog" where
  "adjustChildFlowsPriority env c realmName =
     bindIO (getMem (\<lambda>m. af_Spec (fm_flow m))) (\<lambda>spec.
     if child_flow_specs spec = [] then ret ()
     else
       bindIO (wrapErr ''failed to get flow executions for priority adjustment: ''
         (GetFlowExecutions env c realmName (afs_Alias spec))) (\<lambda>execs.
       forIO (adjust_child env c realmName (afs_Alias spec) (child_flow_specs spec)) execs))"

definition SyncAuthFlowExecutions_Serve :: "'w env \<Rightarrow> kc_client \<Rightarrow> string \<Rightarrow> ('w, unit) flow_prog" where
  "SyncAuthFlowExecutions_Serve env c realmName =
     bindIO (getMem (\<lambda>m. af_Spec (fm_flow m))) (\<lambda>spec.
     bindIO (wrapErr ''failed to clear flow executions: ''
       (clearNonFlowExecutions env c (afs_Alias spec) realmName)) (\<lambda>_.
     let execsToAdd = filter (\<lambda>e. \<not> ae_AuthenticatorFlow e) (afs_AuthenticationExecutions spec) in
     if execsToAdd = [] then adjustChildFlowsPriority env c realmName
     else
       bindIO (getMem (\<lambda>m. aft_ID (af_Status (fm_flow m)))) (\<lambda>flowID.
       if flowID = '''' then
         fail (NewError (''flow ID is empty for alias '' @ go_quote (afs_Alias spec) @
           ''; ensure CreateOrUpdateAuthFlow ran first''))
       else
         bindIO (forIO (add_execution_with_config env c realmName flowID) (sort_Slice env execsToAdd)) (\<lambda>_.
         adjustChildFlowsPriority env c realmName))))"

section \<open>remove_auth_flow.go\<close>

definition list_auth_flows :: "'w env \<Rightarrow> ('w, 'm, KeycloakAuthFlow list) prog" where
  "list_auth_flows env =
     bindIO (callIO (Kube (KList KindAuthFlow)) (k8s env (KList KindAuthFlow))) (\<lambda>x.
     case x of AuthFlowListObj fs \<Rightarrow> ret fs | _ \<Rightarrow> fail decode_error)"

definition is_child_of :: "KeycloakAuthFlow \<Rightarrow> KeycloakAuthFlow \<Rightarrow> bool" where
  "is_child_of flow item \<longleftrightarrow>
     rr_Name (afs_RealmRef (af_Spec item)) = rr_Name (afs_RealmRef (af_Spec flow)) \<and>
     rr_Kind (afs_RealmRef (af_Spec item)) = rr_Kind (afs_RealmRef (af_Spec flow)) \<and>
     afs_ParentName (af_Spec item) = afs_Alias (af_Spec flow)"

definition checkNoChildFlows :: "'w env \<Rightarrow> ('w, unit) flow_prog" where
  "checkNoChildFlows env =
     bindIO (getMem fm_flow) (\<lambda>flow.
     bindIO (wrapErr ''failed to list KeycloakAuthFlow resources: '' (list_auth_flows env)) (\<lambda>items.
     case find (is_child_of flow) items of
       Some item \<Rightarrow> fail (NewError (''cannot delete flow '' @ go_quote (afs_Alias (af_Spec flow)) @ '': child flow '' @
         go_quote (afs_Alias (af_Spec item)) @ '' still exists''))
     | None \<Rightarrow> ret ()))"

definition deleteChildFlow :: "'w env \<Rightarrow> kc_client \<Rightarrow> string \<Rightarrow> ('w, unit) flow_prog" where
  "deleteChildFlow env c realmName =
     bindIO (getMem (\<lambda>m. af_Spec (fm_flow m))) (\<lambda>spec.
     bindIO (tryIO (GetFlowExecutions env c realmName (afs_ParentName spec))) (\<lambda>res. case res of
       Inl err \<Rightarrow> if IsNotFound err then ret () else fail (Wrapped ''failed to get parent flow executions: '' err)
     | Inr execs \<Rightarrow>
         (case find (\<lambda>e. aei_DisplayName e = Some (afs_Alias spec)) execs of
            None \<Rightarrow> ret ()
          | Some e \<Rightarrow>
              (case aei_Id e of
                 None \<Rightarrow> fail (NewError (''child flow execution '' @ go_quote (afs_Alias spec) @ '' has no ID''))
               | Some i \<Rightarrow>
                   bindIO (tryIO (DeleteExecution env c realmName i)) (\<lambda>res2. case res2 of
                     Inr _ \<Rightarrow> ret ()
                   | Inl err \<Rightarrow> if IsNotFound err then ret ()
                       else fail (Wrapped ''failed to delete child flow execution: '' err))))))"

definition unsetBrowserFlow :: "'w env \<Rightarrow> kc_client \<Rightarrow> string \<Rightarrow> string \<Rightarrow> ('w, unit) flow_prog" where
  "unsetBrowserFlow env c realmName flowAlias =
     bindIO (wrapErr ''failed to get realm: '' (GetRealm env c realmName)) (\<lambda>res.
     bindIO (derefIO res) (\<lambda>realm.
     if map_of realm ''BrowserFlow'' \<noteq> Some (RStr flowAlias) then ret ()
     else
       bindIO (wrapErr ''failed to get auth flows: '' (GetAuthFlows env c realmName)) (\<lambda>flows.
       let replaceAlias = (case find (\<lambda>f. afr_Alias f \<noteq> None \<and> afr_Alias f \<noteq> Some flowAlias) flows of
             None \<Rightarrow> '''' | Some f \<Rightarrow> the_default '''' (afr_Alias f)) in
       if replaceAlias = '''' then
         fail (NewError (''no replacement flow found for browser flow '' @ go_quote flowAlias))
       else wrapErr ''failed to update realm browser flow: ''
         (voidIO (UpdateRealm env c realmName (AList.update ''BrowserFlow'' (RStr replaceAlias) realm))))))"

definition deleteTopLevelFlow :: "'w env \<Rightarrow> kc_client \<Rightarrow> string \<Rightarrow> ('w, unit) flow_prog" where
  "deleteTopLevelFlow env c realmName =
     bindIO (getMem fm_flow) (\<lambda>flow.
     let flowID = aft_ID (af_Status flow) in
     if flowID = '''' then ret ()
     else
       bindIO (wrapErr ''failed to unset browser flow: ''
         (unsetBrowserFlow env c realmName (afs_Alias (af_Spec flow)))) (\<lambda>_.
       bindIO (tryIO (DeleteAuthFlow env c realmName flowID)) (\<lambda>res. case res of
         Inr _ \<Rightarrow> ret ()
       | Inl err \<Rightarrow> if IsNotFound err then ret () else fail (Wrapped ''failed to delete auth flow: '' err))))"

definition RemoveAuthFlow_Serve :: "'w env \<Rightarrow> kc_client \<Rightarrow> string \<Rightarrow> ('w, unit) flow_prog" where
  "RemoveAuthFlow_Serve env c realmName =
     bindIO (getMem fm_flow) (\<lambda>flow.
     if PreserveResourcesOnDeletion (af_Meta flow) then ret ()
     else
       bindIO (checkNoChildFlows env) (\<lambda>_.
       if afs_ParentName (af_Spec flow) \<noteq> '''' then deleteChildFlow env c realmName
       else deleteTopLevelFlow env c realmName))"

section \<open>chain.go\<close>

datatype flow_handler = CreateOrUpdateAuthFlow kc_client | SyncAuthFlowExecutions kc_client

fun flow_handler_Serve :: "'w env \<Rightarrow> string \<Rightarrow> flow_handler \<Rightarrow> ('w, unit) flow_prog" where
  "flow_handler_Serve env realmName (CreateOrUpdateAuthFlow c) = CreateOrUpdateAuthFlow_Serve env c realmName"
| "flow_handler_Serve env realmName (SyncAuthFlowExecutions c) = SyncAuthFlowExecutions_Serve env c realmName"

fun flow_WithKeycloakApiClient :: "kc_client \<Rightarrow> flow_handler \<Rightarrow> flow_handler" where
  "flow_WithKeycloakApiClient c (CreateOrUpdateAuthFlow _) = CreateOrUpdateAuthFlow c"
| "flow_WithKeycloakApiClient c (SyncAuthFlowExecutions _) = SyncAuthFlowExecutions c"

definition flow_refreshToken :: "'w env \<Rightarrow> HelperConf \<Rightarrow> ('w, kc_client) flow_prog" where
  "flow_refreshToken env h =
     bindIO (getMem (\<lambda>m. afs_ConfigRef (af_Spec (fm_flow m)))) (CreateKeycloakClientV2FromConfigRef env h)"

primrec flow_chain_run ::
  "'w env \<Rightarrow> HelperConf \<Rightarrow> string \<Rightarrow> flow_handler list \<Rightarrow> ('w, flow_handler list) flow_prog" where
  "flow_chain_run env h realmName [] = ret []"
| "flow_chain_run env h realmName (x # xs) =
     bindIO (serveRetry (flow_handler_Serve env realmName) (flow_refreshToken env h)
               flow_WithKeycloakApiClient x) (\<lambda>x'.
     bindIO (flow_chain_run env h realmName xs) (\<lambda>xs'. ret (x' # xs')))"

interpretation flow_chain: handler_chain "flow_handler_Serve env realmName" "flow_refreshToken env h"
  flow_WithKeycloakApiClient "flow_chain_run env h realmName"
  for env realmName h
  by unfold_locales simp_all

definition flow_MakeChain :: "kc_client \<Rightarrow> flow_handler list" where
  "flow_MakeChain c = [CreateOrUpdateAuthFlow c, SyncAuthFlowExecutions c]"

definition flow_Chain_Serve :: "'w env \<Rightarrow> HelperConf \<Rightarrow> flow_handler list \<Rightarrow> string \<Rightarrow> ('w, unit) flow_prog" where
  "flow_Chain_Serve env h handlers realmName = voidIO (flow_chain_run env h realmName handlers)"

end
