(* ===== verification/AuthFlowController.thy ===== *)
theory AuthFlowController
  imports AuthFlowChain UserController
begin

text \<open>
  \<open>internal/controller/keycloakauthflow/keycloakauthflow_controller.go\<close>: one reconciliation of a
  \<open>KeycloakAuthFlow\<close>. The instance that is read from the cluster is the resource in the memory of
  the run; \<open>initializeReconciliation\<close> answers \<open>None\<close> where the code answers a nil instance.
\<close>

definition FinalizerName :: string where
  "FinalizerName = ''config.idp.edenlab.io/finalizer''"

definition legacyFinalizerName :: string where
  "legacyFinalizerName = ''keycloak.authflow.operator.finalizer.name''"

definition successRequeueTime :: int64 where
  "successRequeueTime = 60 * 1000000000 * 10"

definition get_flow_cr :: "'w env \<Rightarrow> string \<Rightarrow> string \<Rightarrow> ('w, 'm, KeycloakAuthFlow) prog" where
  "get_flow_cr env ns name =
     bindIO (k8s_Get env KindAuthFlow ns name) (\<lambda>x. case x of AuthFlowObj f \<Rightarrow> ret f | _ \<Rightarrow> fail decode_error)"

definition flow_realmRef :: "flow_mem \<Rightarrow> RealmRef" where
  "flow_realmRef m = afs_RealmRef (af_Spec (fm_flow m))"

definition flow_initializeReconciliation ::
  "'w env \<Rightarrow> HelperConf \<Rightarrow> string \<Rightarrow> string \<Rightarrow> ('w, (kc_client \<times> string) option) flow_prog" where
  "flow_initializeReconciliation env h ns name =
     bindIO (tryIO (get_flow_cr env ns name)) (\<lambda>res. case res of
       Inl err \<Rightarrow> if k8s_IsNotFound err then ret None else fail (Wrapped ''failed to get KeycloakAuthFlow: '' err)
     | Inr instance \<Rightarrow>
         bindIO (modMem (\<lambda>m. m\<lparr>fm_flow := instance\<rparr>)) (\<lambda>_.
         bindIO (wrapErr ''unable to set realm owner ref: '' (SetRealmOwnerRef env h flow_obj flow_realmRef)) (\<lambda>_.
         bindIO (tryIO (flow_refreshToken env h)) (\<lambda>res. case res of
           Inl err \<Rightarrow>
             bindIO (getMem (\<lambda>m. om_DeletionTimestamp (af_Meta (fm_flow m)))) (\<lambda>deletion.
             bindIO (if errors_Is err ErrKeycloakRealmNotFound \<and> deletion \<noteq> None
                then RemoveFinalizersOnRealmNotFound env flow_obj [FinalizerName, legacyFinalizerName]
                else ret False) (\<lambda>stop.
             if stop then ret None else fail (Wrapped ''failed to create Keycloak client: '' err)))
         | Inr kClient \<Rightarrow>
             bindIO (wrapErr ''unable to get realm name from ref: ''
               (GetRealmNameFromRef env h flow_obj flow_realmRef)) (\<lambda>realmName.
             ret (Some (kClient, realmName)))))))"

definition updateKeycloakAuthFlowStatus :: "'w env \<Rightarrow> KeycloakAuthFlowStatus \<Rightarrow> ('w, unit) flow_prog" where
  "updateKeycloakAuthFlowStatus env oldStatus =
     bindIO (getMem (\<lambda>m. af_Status (fm_flow m))) (\<lambda>status.
     if DeepEqual_AuthFlowStatus env status oldStatus then ret ()
     else wrapErr ''failed to update KeycloakAuthFlow status: '' (k8s_StatusUpdate env flow_obj))"

definition flow_report :: "string \<Rightarrow> string \<Rightarrow> flow_mem \<Rightarrow> flow_mem" where
  "flow_report err phase m = m\<lparr>fm_flow := (fm_flow m)\<lparr>af_Status :=
     (af_Status (fm_flow m))\<lparr>aft_Error := err, aft_Phase := phase\<rparr>\<rparr>\<rparr>"

definition flow_handleReconciliation ::
  "'w env \<Rightarrow> HelperConf \<Rightarrow> kc_client \<Rightarrow> string \<Rightarrow> ('w, ctrl_Result) flow_prog" where
  "flow_handleReconciliation env h kClient realmName =
     bindIO (addFinalizer env flow_obj FinalizerName) (\<lambda>changed.
     bindIO (whenIO changed (wrapErr ''failed to add finalizer to KeycloakAuthFlow: '' (k8s_Update env flow_obj))) (\<lambda>_.
     bindIO (getMem (\<lambda>m. af_Status (fm_flow m))) (\<lambda>oldStatus.
     bindIO (tryIO (flow_Chain_Serve env h (flow_MakeChain kClient) realmName)) (\<lambda>res. case res of
       Inl err \<Rightarrow>
         (let resultErr = Wrapped ''auth flow chain processing failed: '' err in
          bindIO (modMem (flow_report (Error resultErr) PhaseFailed)) (\<lambda>_.
          bindIO (wrapErr (''failed to update KeycloakAuthFlow status ('' @ Error resultErr @ ''): '')
            (updateKeycloakAuthFlowStatus env oldStatus)) (\<lambda>_. fail resultErr)))
     | Inr _ \<Rightarrow>
         bindIO (modMem (flow_report '''' PhaseCompleted)) (\<lambda>_.
         bindIO (updateKeycloakAuthFlowStatus env oldStatus) (\<lambda>_.
         ret \<lparr>RequeueAfter = successRequeueTime\<rparr>))))))"

definition flow_handleDeletion ::
  "'w env \<Rightarrow> HelperConf \<Rightarrow> kc_client \<Rightarrow> string \<Rightarrow> ('w, ctrl_Result) flow_prog" where
  "flow_handleDeletion env h kClient realmName =
     bindIO (getMem (\<lambda>m. om_Finalizers (af_Meta (fm_flow m)))) (\<lambda>fs.
     if ContainsFinalizer env fs FinalizerName \<or> ContainsFinalizer env fs legacyFinalizerName then
       bindIO (tryIO (RemoveAuthFlow_Serve env kClient realmName)) (\<lambda>res. case res of
         Inl err \<Rightarrow>
           if IsUnauthorizedError (Some err) then
             bindIO (wrapErr ''handleDeletion failed to refreshToke auth flow: '' (flow_refreshToken env h)) (\<lambda>cl.
             flow_handleReconciliation env h cl realmName)
           else fail (Wrapped ''failed to remove auth flow: '' err)
       | Inr _ \<Rightarrow>
           bindIO (removeFinalizer env flow_obj FinalizerName) (\<lambda>_.
           bindIO (removeFinalizer env flow_obj legacyFinalizerName) (\<lambda>_.
           bindIO (wrapErr ''failed to update KeycloakAuthFlow after finalizer removal: '' (k8s_Update env flow_obj)) (\<lambda>_.
           ret zero_Result))))
     else ret zero_Result)"

definition flow_Reconcile ::
  "'w env \<Rightarrow> HelperConf \<Rightarrow> string \<Rightarrow> string \<Rightarrow> ('w, ctrl_Result) flow_prog" where
  "flow_Reconcile env h ns name =
     bindIO (tryIO (flow_initializeReconciliation env h ns name)) (\<lambda>res. case res of
       Inl err \<Rightarrow> if errors_Is err ErrKeycloakIsNotAvailable then ret RequeueOnKeycloakNotAvailable else fail err
     | Inr None \<Rightarrow> ret zero_Result
     | Inr (Some (kClient, realmName)) \<Rightarrow>
         bindIO (getMem (\<lambda>m. om_DeletionTimestamp (af_Meta (fm_flow m)))) (\<lambda>deletion.
         if deletion \<noteq> None then flow_handleDeletion env h kClient realmName
         else flow_handleReconciliation env h kClient realmName))"

end
