(* ===== verification/NoPanic.thy ===== *)
theory NoPanic
  imports HandlerChain
begin

text \<open>
  Where a program can panic. \<open>panics_after S m\<close> says that whenever \<open>m\<close> ends in a panic, the last
  request it sent is in \<open>S\<close>, whatever the world answers: the panic is the treatment of the answer
  to such a request. With the empty set, \<open>m\<close> never panics. The rules follow the programs, so that a
  component is handled by unfolding its definitions.
\<close>

named_theorems safe_intros \<comment> \<open>where a program can panic\<close>

definition panics_after :: "'e set \<Rightarrow> ('w, 'e, 'm, 'a) io \<Rightarrow> bool" where
  "panics_after S m \<longleftrightarrow> (\<forall>s s'. m s = (Panic, s') \<longrightarrow> trace s' \<noteq> [] \<and> last (trace s') \<in> S)"

lemma panics_afterD: "panics_after S m \<Longrightarrow> m s = (Panic, s') \<Longrightarrow> trace s' \<noteq> [] \<and> last (trace s') \<in> S"
  by (simp add: panics_after_def)

lemma never_panics: "panics_after {} m \<Longrightarrow> fst (m s) \<noteq> Panic"
  by (cases "m s") (auto dest: panics_afterD)

lemma not_Panic: "panics_after {} m \<Longrightarrow> m s \<noteq> (Panic, s')"
  by (auto dest: panics_afterD)

lemma bindIO_Panic:
  "bindIO m f s = (Panic, s') \<longleftrightarrow> m s = (Panic, s') \<or> (\<exists>a s1. m s = (Ok a, s1) \<and> f a s1 = (Panic, s'))"
  by (auto simp: bindIO_def split: prod.splits outcome.splits)

lemma bindIO_getMem: "bindIO (getMem f) k s = k (f (mem s)) s"
  by (simp add: bindIO_def getMem_def)

lemma ret_Panic: "ret a s \<noteq> (Panic, s')" "fail e s \<noteq> (Panic, s')"
  by (simp_all add: ret_def fail_def)

lemma tryIO_Panic: "tryIO m s = (Panic, s') \<longleftrightarrow> m s = (Panic, s')"
  by (auto simp: tryIO_def split: prod.splits outcome.splits)

lemma bindIO_tryIO_Panic:
  "bindIO (tryIO m) k s = (Panic, s') \<Longrightarrow> (\<And>x. panics_after {} (k x)) \<Longrightarrow> m s = (Panic, s')"
  using not_Panic unfolding bindIO_Panic tryIO_Panic by blast

lemma panics_after_mono: "panics_after S m \<Longrightarrow> S \<subseteq> T \<Longrightarrow> panics_after T m"
  unfolding panics_after_def by blast

section \<open>Rules\<close>

lemma safe_prim [safe_intros]:
  "panics_after S (ret a)" "panics_after S (fail e)" "panics_after S (getMem f)" "panics_after S (modMem g)"
  "panics_after S (range_order rank m)" "panics_after S (derefIO (Some a))"
  by (simp_all add: panics_after_def go_simps)

lemma safe_callIO [safe_intros]: "panics_after S (callIO e g)"
  by (auto simp: panics_after_def callIO_def split: prod.splits sum.splits)

lemma safe_bindIO [safe_intros]:
  assumes "panics_after S m" and "\<And>s a s'. m s = (Ok a, s') \<Longrightarrow> panics_after S (f a)"
  shows "panics_after S (bindIO m f)"
  unfolding panics_after_def
proof (intro allI impI)
  fix s s'
  assume "bindIO m f s = (Panic, s')"
  then show "trace s' \<noteq> [] \<and> last (trace s') \<in> S"
    using panics_afterD [OF assms(1)] panics_afterD [OF assms(2)]
    by (auto simp: bindIO_def split: prod.splits outcome.splits)
qed

lemma safe_wrap [safe_intros]:
  "panics_after S m \<Longrightarrow> panics_after S (wrapErr pre m)"
  "panics_after S m \<Longrightarrow> panics_after S (tryIO m)"
  "panics_after S m \<Longrightarrow> panics_after S (voidIO m)"
  "(b \<Longrightarrow> panics_after S n) \<Longrightarrow> panics_after S (whenIO b n)"
  by (auto simp: panics_after_def go_simps split: prod.splits outcome.splits)

lemma safe_if [safe_intros]:
  "(b \<Longrightarrow> panics_after S m) \<Longrightarrow> (\<not> b \<Longrightarrow> panics_after S n) \<Longrightarrow> panics_after S (if b then m else n)"
  by simp

lemma safe_case_option [safe_intros]:
  "(x = None \<Longrightarrow> panics_after S m) \<Longrightarrow> (\<And>a. x = Some a \<Longrightarrow> panics_after S (f a)) \<Longrightarrow>
   panics_after S (case x of None \<Rightarrow> m | Some a \<Rightarrow> f a)"
  by (simp split: option.split)

lemma safe_case_sum [safe_intros]:
  "(\<And>a. x = Inl a \<Longrightarrow> panics_after S (f a)) \<Longrightarrow> (\<And>b. x = Inr b \<Longrightarrow> panics_after S (g b)) \<Longrightarrow>
   panics_after S (case x of Inl a \<Rightarrow> f a | Inr b \<Rightarrow> g b)"
  by (simp split: sum.split)

lemma safe_case_prod [safe_intros]:
  "(\<And>a b. x = (a, b) \<Longrightarrow> panics_after S (f a b)) \<Longrightarrow> panics_after S (case x of (a, b) \<Rightarrow> f a b)"
  by (simp split: prod.split)

lemma safe_let [safe_intros]: "(\<And>x. x = t \<Longrightarrow> panics_after S (f x)) \<Longrightarrow> panics_after S (Let t f)"
  by simp

lemma safe_foldIO [safe_intros]:
  "(\<And>x acc. x \<in> set xs \<Longrightarrow> panics_after S (f x acc)) \<Longrightarrow> panics_after S (foldIO f xs acc)"
  by (induction xs arbitrary: acc) (auto intro!: safe_intros)

lemma safe_forIO [safe_intros]:
  "(\<And>x. x \<in> set xs \<Longrightarrow> panics_after S (f x)) \<Longrightarrow> panics_after S (forIO f xs)"
  unfolding forIO_foldIO by (rule safe_foldIO) simp

text \<open>The pointer that a successful call returned: the last request is the one of the call.\<close>

lemma safe_deref:
  assumes "panics_after S m" and "\<And>s p s'. m s = (Ok p, s') \<Longrightarrow> trace s' \<noteq> [] \<and> last (trace s') \<in> S"
    and "\<And>a. panics_after S (f a)"
  shows "panics_after S (bindIO m (\<lambda>p. bindIO (derefIO p) f))"
  unfolding panics_after_def
proof (intro allI impI)
  fix s s'
  assume "bindIO m (\<lambda>p. bindIO (derefIO p) f) s = (Panic, s')"
  then show "trace s' \<noteq> [] \<and> last (trace s') \<in> S"
    using panics_afterD [OF assms(1)] panics_afterD [OF assms(3)] assms(2)
    by (auto simp: bindIO_def derefIO_def panic_def ret_def split: prod.splits outcome.splits option.splits)
qed

section \<open>What the components share\<close>

lemma safe_sendRequest [safe_intros]: "panics_after S (sendRequest env c rq)"
  unfolding sendRequest_def by (intro safe_intros)

lemma sendRequest_last: "sendRequest env c rq s = (Ok r, s') \<Longrightarrow> trace s' = trace s @ [Http c rq]"
  by (auto simp: sendRequest_def go_simps split: prod.splits sum.splits option.splits)

lemma safe_serveRetry [safe_intros]:
  "(\<And>h. panics_after S (serve h)) \<Longrightarrow> panics_after S refreshToken \<Longrightarrow>
   panics_after S (serveRetry serve refreshToken withClient h)"
  unfolding serveRetry_def by (intro safe_intros)

lemma safe_k8s_get [safe_intros]:
  "panics_after S (get_realm_cr env ns name)" "panics_after S (get_secret env ns name)"
  unfolding get_realm_cr_def get_secret_def k8s_Get_def by (auto intro!: safe_intros split: k8s_object.split)

lemma safe_k8s_write [safe_intros]:
  "panics_after S (k8s_Update env obj)" "panics_after S (k8s_StatusUpdate env obj)"
  unfolding k8s_Update_def k8s_StatusUpdate_def by (intro safe_intros)+

lemma safe_finalizers [safe_intros]:
  "panics_after S (addFinalizer env obj f)" "panics_after S (removeFinalizer env obj f)"
  unfolding addFinalizer_def removeFinalizer_def by (intro safe_intros)+

lemma safe_helper [safe_intros]:
  "panics_after S (SetRealmOwnerRef env h obj ref)" "panics_after S (GetRealmNameFromRef env h obj ref)"
  "panics_after S (RemoveFinalizersOnRealmNotFound env obj fs)"
  "panics_after S (CreateKeycloakClientV2FromConfigRef env h cref)"
  unfolding SetRealmOwnerRef_def GetRealmNameFromRef_def RemoveFinalizersOnRealmNotFound_def
    CreateKeycloakClientV2FromConfigRef_def createKeycloakClientV2FromAuthData_def getCredentialsFromSecret_def
    NewKeycloakClient_def
  by (intro safe_intros)+

end
