(* ===== verification/AuthFlowProps.thy ===== *)
theory AuthFlowProps
  imports AuthFlowController NoPanic MappingLaws
begin

text \<open>Properties of the chain and the controller of authentication flows.\<close>

section \<open>Panics\<close>

lemma safe_flow_handler [safe_intros]: "panics_after S (flow_handler_Serve env realmName x)"
  by (cases x)
    (auto simp: CreateOrUpdateAuthFlow_Serve_def SyncAuthFlowExecutions_Serve_def serveTopLevelFlow_def
      serveChildFlow_def create_child_flow_def validateChildFlows_def clearNonFlowExecutions_def
      add_execution_with_config_def addExecution_def createExecutionConfig_def adjustChildFlowsPriority_def
      adjust_child_def flow_client_defs intro!: safe_intros)

lemma safe_flow_refresh [safe_intros]: "panics_after S (flow_refreshToken env h)"
  unfolding flow_refreshToken_def by (intro safe_intros)

lemma safe_handleReconciliation [safe_intros]: "panics_after S (flow_handleReconciliation env h c realmName)"
  unfolding flow_handleReconciliation_def flow_Chain_Serve_def flow_MakeChain_def flow_chain_run.simps
    updateKeycloakAuthFlowStatus_def
  by (intro safe_intros)

definition realm_reads :: "event set" where
  "realm_reads = {Http c (mk_request GET (realm_path r []) [] NoBody) | c r. True}"

lemma safe_unsetBrowserFlow [safe_intros]: "panics_after realm_reads (unsetBrowserFlow env c realmName flowAlias)"
  unfolding unsetBrowserFlow_def
proof (rule safe_deref)
  fix s s' p
  assume "wrapErr ''failed to get realm: '' (GetRealm env c realmName) s = (Ok p, s' :: ('a, event, flow_mem) io_state)"
  then have "trace s' = trace s @ [Http c (mk_request GET (realm_path realmName []) [] NoBody)]"
    by (auto simp: GetRealm_def wrapErr_def bindIO_def ret_def dest: sendRequest_last split: prod.splits outcome.splits)
  then show "trace s' \<noteq> [] \<and> last (trace s') \<in> realm_reads" by (auto simp: realm_reads_def)
qed (auto simp: GetRealm_def UpdateRealm_def flow_client_defs intro!: safe_intros)

lemma safe_RemoveAuthFlow [safe_intros]: "panics_after realm_reads (RemoveAuthFlow_Serve env c realmName)"
  unfolding RemoveAuthFlow_Serve_def checkNoChildFlows_def list_auth_flows_def deleteChildFlow_def deleteTopLevelFlow_def
    flow_client_defs
  by (auto intro!: safe_intros split: k8s_object.split)

lemma safe_initialize [safe_intros]: "panics_after S (flow_initializeReconciliation env h ns name)"
  unfolding flow_initializeReconciliation_def get_flow_cr_def k8s_Get_def
  by (auto intro!: safe_intros split: k8s_object.split)

lemma RemoveAuthFlow_mem: "emits_under (\<lambda>m. m = m0) UNIV (RemoveAuthFlow_Serve env c realmName)"
  unfolding RemoveAuthFlow_Serve_def checkNoChildFlows_def list_auth_flows_def deleteChildFlow_def deleteTopLevelFlow_def
    unsetBrowserFlow_def GetRealm_def UpdateRealm_def flow_client_defs
  by (auto intro!: emits_intros split: k8s_object.split)

lemma handleDeletion_panic:
  "flow_handleDeletion env h c realm s = (Panic, s') \<Longrightarrow> RemoveAuthFlow_Serve env c realm s = (Panic, s')"
  unfolding flow_handleDeletion_def bindIO_getMem
  by (split if_splits) (erule bindIO_tryIO_Panic, intro safe_intros, simp add: ret_Panic)


section \<open>Removal\<close>

text \<open>The changes of Keycloak that the removal of a flow may ask for.\<close>

definition removal_requests :: "KeycloakAuthFlow \<Rightarrow> string \<Rightarrow> event set" where
  "removal_requests flow realm = {e. \<forall>c rq. e = Http c rq \<longrightarrow> rq_method rq = GET \<or>
     (if afs_ParentName (af_Spec flow) = '''' then
        aft_ID (af_Status flow) \<noteq> '''' \<and>
        (rq = mk_request DELETE (realm_path realm [''authentication'', ''flows'', aft_ID (af_Status flow)]) [] NoBody \<or>
         rq_method rq = PUT \<and> rq_path rq = realm_path realm [])
      else \<exists>i. rq = mk_request DELETE (realm_path realm [''authentication'', ''executions'', i]) [] NoBody)}"

lemma emits_delete_flow:
  "afs_ParentName (af_Spec (fm_flow m0)) \<noteq> '''' \<Longrightarrow>
   emits_under (\<lambda>m. m = m0) (removal_requests (fm_flow m0) realm) (deleteChildFlow env c realm)"
  "afs_ParentName (af_Spec (fm_flow m0)) = '''' \<Longrightarrow>
   emits_under (\<lambda>m. m = m0) (removal_requests (fm_flow m0) realm) (deleteTopLevelFlow env c realm)"
  unfolding deleteChildFlow_def deleteTopLevelFlow_def unsetBrowserFlow_def GetRealm_def UpdateRealm_def flow_client_defs
  by (intro emits_intros; auto simp: removal_requests_def getMem_def)+

lemma checkNoChildFlows_run:
  assumes "checkNoChildFlows env s = (r, s1)"
  shows "mem s1 = mem s" and "trace s1 = trace s @ [Kube (KList KindAuthFlow)]"
    and "r = Ok () \<Longrightarrow> \<exists>items. list_auth_flows env s = (Ok items, s1) \<and> (\<forall>x \<in> set items. \<not> is_child_of (fm_flow (mem s)) x)"
    and "list_auth_flows env s = (Ok items, s2) \<Longrightarrow> x \<in> set items \<Longrightarrow> is_child_of (fm_flow (mem s)) x \<Longrightarrow> \<exists>e. r = Err e"
  using assms
  by (auto simp: checkNoChildFlows_def list_auth_flows_def go_simps find_None_iff find_Some_iff
      split: prod.splits sum.splits k8s_object.splits option.splits)


section \<open>A rejected token during deletion\<close>

text \<open>Everything a reconciliation may send: no deletion of a flow, no update without the finalizer.\<close>

definition reconcile_events :: "event set" where
  "reconcile_events = {e. (\<forall>x. e = Kube (KUpdate (AuthFlowObj x)) \<longrightarrow> FinalizerName \<in> set (om_Finalizers (af_Meta x))) \<and>
     (\<forall>c rq realm i. e = Http c rq \<longrightarrow> rq \<noteq> mk_request DELETE (realm_path realm [''authentication'', ''flows'', i]) [] NoBody)}"

lemma emits_flow_steps:
  "emits reconcile_events (adjust_child env c realmName alias specs e)"
  "emits reconcile_events (add_execution_with_config env c realmName flowID x)"
  unfolding adjust_child_def add_execution_with_config_def addExecution_def createExecutionConfig_def flow_client_defs
  by (intro emits_intros; auto simp: reconcile_events_def mk_request_def realm_path_def)+

lemma emits_flow_chain:
  "emits reconcile_events (flow_Chain_Serve env h (flow_MakeChain c) realmName)"
proof -
  have "emits reconcile_events (flow_handler_Serve env realmName x)" for x
    by (cases x; simp only: flow_handler_Serve.simps CreateOrUpdateAuthFlow_Serve_def SyncAuthFlowExecutions_Serve_def
      serveTopLevelFlow_def serveChildFlow_def create_child_flow_def validateChildFlows_def clearNonFlowExecutions_def
      adjustChildFlowsPriority_def flow_client_defs; intro emits_intros emits_flow_steps;
      auto simp: reconcile_events_def mk_request_def realm_path_def)
  moreover have "emits reconcile_events (flow_refreshToken env h)"
    unfolding flow_refreshToken_def CreateKeycloakClientV2FromConfigRef_def createKeycloakClientV2FromAuthData_def
      getCredentialsFromSecret_def NewKeycloakClient_def
    by (intro emits_intros) (auto simp: reconcile_events_def)
  ultimately show ?thesis
    unfolding flow_Chain_Serve_def by (intro emits_voidIO flow_chain.run_emits)
qed

lemma emits_add_finalizer:
  assumes "finalizers_ok env"
  shows "emits reconcile_events (bindIO (addFinalizer env flow_obj FinalizerName) (\<lambda>changed.
     whenIO changed (wrapErr pre (k8s_Update env flow_obj))))"
  using assms
  by (intro emits_underI)
    (auto simp: finalizers_ok_def addFinalizer_def k8s_Update_def flow_obj_def reconcile_events_def go_simps split: prod.splits sum.splits)

lemma emits_handleReconciliation:
  assumes "finalizers_ok env"
  shows "emits reconcile_events (flow_handleReconciliation env h c realm)"
proof -
  have assoc: "bindIO m (\<lambda>a. bindIO (f a) (\<lambda>_. k)) = bindIO (bindIO m f) (\<lambda>_. k)" for m f k
    by (rule ext) (auto simp: bindIO_def split: prod.split outcome.split)
  show ?thesis
    unfolding flow_handleReconciliation_def updateKeycloakAuthFlowStatus_def
    by (subst assoc, intro emits_intros emits_add_finalizer [OF assms] emits_flow_chain)
      (auto simp: reconcile_events_def)
qed

lemma handleReconciliation_requeue:
  "flow_handleReconciliation env h c realm s = (Ok v, s') \<Longrightarrow> RequeueAfter v = successRequeueTime"
  by (auto simp: flow_handleReconciliation_def bindIO_def ret_def fail_def Let_def split: prod.splits outcome.splits sum.splits)

text \<open>
  A token that is rejected while a flow is being removed turns the removal into a
  reconciliation: nothing that is sent from then on deletes the flow, every update of the
  resource keeps the finalizer, and a success asks to be called again after ten minutes, as for
  a flow that is to stay.
\<close>

theorem flow_deletion_becomes_reconciliation:
  assumes "finalizers_ok env"
    and "{FinalizerName, legacyFinalizerName} \<inter> set (om_Finalizers (af_Meta (fm_flow (mem s)))) \<noteq> {}"
    and "RemoveAuthFlow_Serve env c realm s = (Err e, s1)" and "IsUnauthorizedError (Some e)"
    and "flow_refreshToken env h s1 = (Ok cl, s2)" and "flow_handleDeletion env h c realm s = (r, s')"
  shows "\<exists>es. trace s' = trace s2 @ es \<and>
     (\<forall>x. Kube (KUpdate (AuthFlowObj x)) \<in> set es \<longrightarrow> FinalizerName \<in> set (om_Finalizers (af_Meta x))) \<and>
     (\<forall>c rq i. Http c rq \<in> set es \<longrightarrow> rq \<noteq> mk_request DELETE (realm_path realm [''authentication'', ''flows'', i]) [] NoBody) \<and>
     (\<forall>v. r = Ok v \<longrightarrow> RequeueAfter v = successRequeueTime)"
proof -
  have "flow_handleReconciliation env h cl realm s2 = (r, s')"
    using assms by (auto simp: flow_handleDeletion_def bindIO_def tryIO_def wrapErr_def getMem_def finalizers_ok_def)
  with emits_underD [OF emits_handleReconciliation [OF assms(1)] _ this] handleReconciliation_requeue show ?thesis
    by (fastforce simp: reconcile_events_def)
qed

section \<open>Synchronising the executions\<close>

text \<open>
  What Keycloak does with the executions of a flow that are at its top level and are not flows
  themselves: \<open>rows w\<close> has their id, authenticator, requirement and configuration, in order. Listing
  shows them with their non-empty ids and changes nothing; a successful \<open>DELETE\<close> removes the one of that id; a
  successful \<open>POST\<close> appends one under a new id, which the \<open>Location\<close> of the answer names if
  it names any; a configuration is stored with its execution; changing an execution
  that is a flow does not concern them.
\<close>

type_synonym execution_row = "string \<times> string option \<times> string option \<times> AuthenticatorConfigRepresentation option"

definition flow_server ::
  "'w env \<Rightarrow> string \<Rightarrow> string \<Rightarrow> string \<Rightarrow> ('w \<Rightarrow> execution_row list) \<Rightarrow> bool" where
  "flow_server env realm alias flowID rows \<longleftrightarrow>
     (\<forall>c w r w'. success env c (mk_request GET (realm_path realm [''authentication'', ''flows'', alias, ''executions'']) [] NoBody) w r w' \<longrightarrow>
        rows w' = rows w \<and> (\<forall>x \<in> set (rows w). fst x \<noteq> '''' \<and>
          (\<exists>e \<in> set (the_default [] (json_execs r)). \<not> isFlowExec e \<and> isTopLevel e \<and> aei_Id e = Some (fst x)))) \<and>
     (\<forall>c w r w' i. success env c (mk_request DELETE (realm_path realm [''authentication'', ''executions'', i]) [] NoBody) w r w' \<longrightarrow>
        rows w' = filter (\<lambda>x. fst x \<noteq> i) (rows w)) \<and>
     (\<forall>c w r w' b. success env c (mk_request POST (realm_path realm [''authentication'', ''executions'']) [] (ExecB b)) w r w' \<longrightarrow>
        aer_ParentFlow b = Some flowID \<longrightarrow>
        (\<exists>i. i \<notin> fst ` set (rows w) \<and> rows w' = rows w @ [(i, aer_Authenticator b, aer_Requirement b, None)] \<and>
           GetResourceIDFromResponse env (Some (response_of r)) \<in> {i, ''''})) \<and>
     (\<forall>c w r w' i b. success env c (mk_request POST (realm_path realm [''authentication'', ''executions'', i, ''config'']) [] (AuthConfigB b)) w r w' \<longrightarrow>
        rows w' = map (\<lambda>(j, p, q, x). (j, p, q, if j = i then Some b else x)) (rows w)) \<and>
     (\<forall>c w r w' e. success env c (mk_request PUT (realm_path realm [''authentication'', ''flows'', alias, ''executions'']) [] (ExecInfoB e)) w r w' \<longrightarrow>
        isFlowExec e \<longrightarrow> rows w' = rows w)"

text \<open>What \<open>sort.Slice\<close> is documented to do with the executions: the same ones, by priority.\<close>

definition sort_Slice_ok :: "'w env \<Rightarrow> bool" where
  "sort_Slice_ok env \<longleftrightarrow> (\<forall>xs. mset (sort_Slice env xs) = mset xs \<and> sorted (map (\<lambda>e. sint (ae_Priority e)) (sort_Slice env xs)))"

definition wanted_row :: "AuthenticationExecution \<Rightarrow> string option \<times> string option \<times> AuthenticatorConfigRepresentation option" where
  "wanted_row e = (Some (ae_Authenticator e), Some (ae_Requirement e), map_option (\<lambda>cfg.
     \<lparr>acr_Alias = Some (ac_Alias cfg), acr_Config = Some (ac_Config cfg), acr_Id = None\<rparr>) (ae_AuthenticatorConfig e))"

lemma wp_flow_methods:
  assumes "flow_server env realm alias flowID rows"
  shows "wp True (GetFlowExecutions env c realm alias)
      (\<lambda>execs s'. rows (world s') = rows (world s) \<and> (\<forall>x \<in> set (rows (world s)). fst x \<noteq> '''' \<and>
          (\<exists>e \<in> set execs. \<not> isFlowExec e \<and> isTopLevel e \<and> aei_Id e = Some (fst x)))) (\<lambda>_ _. True) s"
    and "wp True (DeleteExecution env c realm i)
      (\<lambda>_ s'. rows (world s') = filter (\<lambda>x. fst x \<noteq> i) (rows (world s))) (\<lambda>_ _. True) s"
    and "aer_ParentFlow b = Some flowID \<Longrightarrow> wp True (AddExecutionToFlow env c realm b)
      (\<lambda>resp s'. \<exists>i. i \<notin> fst ` set (rows (world s)) \<and> rows (world s') = rows (world s) @ [(i, aer_Authenticator b, aer_Requirement b, None)] \<and>
           GetResourceIDFromResponse env (Some resp) \<in> {i, ''''}) (\<lambda>_ _. True) s"
    and "wp True (CreateExecutionConfig env c realm i a)
      (\<lambda>_ s'. rows (world s') = map (\<lambda>(j, p, q, x). (j, p, q, if j = i then Some a else x)) (rows (world s))) (\<lambda>_ _. True) s"
    and "isFlowExec e \<Longrightarrow> wp True (UpdateFlowExecution env c realm alias e)
      (\<lambda>_ s'. rows (world s') = rows (world s)) (\<lambda>_ _. True) s"
proof -
  note laws = assms [unfolded flow_server_def]
  note get = laws [THEN conjunct1, rule_format] and rest = laws [THEN conjunct2]
  note delete = rest [THEN conjunct1, rule_format] and rest = rest [THEN conjunct2]
  note add = rest [THEN conjunct1, rule_format] and rest = rest [THEN conjunct2]
  note config = rest [THEN conjunct1, rule_format] and update = rest [THEN conjunct2, rule_format]
  note by_request = wp_bindIO [THEN fun_cong, THEN iffD2, OF wp_sendRequest]
  show "wp True (GetFlowExecutions env c realm alias)
      (\<lambda>execs s'. rows (world s') = rows (world s) \<and> (\<forall>x \<in> set (rows (world s)). fst x \<noteq> '''' \<and>
          (\<exists>e \<in> set execs. \<not> isFlowExec e \<and> isTopLevel e \<and> aei_Id e = Some (fst x)))) (\<lambda>_ _. True) s"
    unfolding flow_client_defs
    by (rule by_request, drule get) (simp add: the_default_def)
  show "wp True (DeleteExecution env c realm i)
      (\<lambda>_ s'. rows (world s') = filter (\<lambda>x. fst x \<noteq> i) (rows (world s))) (\<lambda>_ _. True) s"
    unfolding flow_client_defs by (rule by_request, drule delete) simp
  show "wp True (AddExecutionToFlow env c realm b)
      (\<lambda>resp s'. \<exists>i. i \<notin> fst ` set (rows (world s)) \<and> rows (world s') = rows (world s) @ [(i, aer_Authenticator b, aer_Requirement b, None)] \<and>
           GetResourceIDFromResponse env (Some resp) \<in> {i, ''''}) (\<lambda>_ _. True) s" if "aer_ParentFlow b = Some flowID"
    unfolding flow_client_defs by (rule by_request, drule add [OF _ that]) simp
  show "wp True (CreateExecutionConfig env c realm i a)
      (\<lambda>_ s'. rows (world s') = map (\<lambda>(j, p, q, x). (j, p, q, if j = i then Some a else x)) (rows (world s))) (\<lambda>_ _. True) s"
    unfolding flow_client_defs by (rule by_request, drule config) simp
  show "wp True (UpdateFlowExecution env c realm alias e)
      (\<lambda>_ s'. rows (world s') = rows (world s)) (\<lambda>_ _. True) s" if "isFlowExec e"
    unfolding flow_client_defs by (rule by_request, drule update [OF _ that]) simp
qed

lemma flow_mem_kept:
  "emits_under (\<lambda>m. m = m0) UNIV (clearNonFlowExecutions env c alias realm)"
  "emits_under (\<lambda>m. m = m0) UNIV (forIO (add_execution_with_config env c realm flowID) xs)"
  unfolding clearNonFlowExecutions_def add_execution_with_config_def addExecution_def createExecutionConfig_def flow_client_defs
  by (intro emits_intros UNIV_I)+

text \<open>
  Deleting the listed executions of the flow one by one: what remains is a part of the old rows, and
  no row of an execution that was visited remains.
\<close>

definition remaining :: "execution_row list \<Rightarrow> AuthenticationExecutionInfoRepresentation list \<Rightarrow> execution_row list \<Rightarrow> bool" where
  "remaining old vis now \<longleftrightarrow> set now \<subseteq> set old \<and>
     (\<forall>x \<in> set now. \<forall>e \<in> set vis. \<not> isFlowExec e \<and> isTopLevel e \<longrightarrow> aei_Id e \<noteq> Some (fst x))"

lemma remaining_step:
  "remaining old vis now \<Longrightarrow> set now' \<subseteq> set now \<Longrightarrow>
   (\<And>x. x \<in> set now' \<Longrightarrow> \<not> isFlowExec e \<Longrightarrow> isTopLevel e \<Longrightarrow> aei_Id e \<noteq> Some (fst x)) \<Longrightarrow> remaining old (vis @ [e]) now'"
  unfolding remaining_def by auto

lemma wp_clearNonFlowExecutions:
  assumes "flow_server env realm alias flowID rows"
  shows "wp True (clearNonFlowExecutions env c alias realm) (\<lambda>_ s'. rows (world s') = []) (\<lambda>_ _. True) s"
  unfolding clearNonFlowExecutions_def wp_bindIO wp_wrapErr
proof (rule wp_weaken [OF wp_flow_methods(1) [OF assms]], elim conjE)
  fix execs :: "AuthenticationExecutionInfoRepresentation list" and s1 :: "('a, event, flow_mem) io_state"
  let ?old = "rows (world s)"
  assume s1: "rows (world s1) = ?old" and cover: "\<forall>x \<in> set ?old. fst x \<noteq> '''' \<and>
     (\<exists>e \<in> set execs. \<not> isFlowExec e \<and> isTopLevel e \<and> aei_Id e = Some (fst x))"
  have ids: "x \<in> set now \<Longrightarrow> remaining ?old vis now \<Longrightarrow> fst x \<noteq> ''''" for x now vis
    using cover unfolding remaining_def by blast
  show "wp True (forIO (\<lambda>e. if isFlowExec e \<or> \<not> isTopLevel e then ret ()
       else let execID = (case aei_Id e of None \<Rightarrow> '''' | Some i \<Rightarrow> i) in
         whenIO (execID \<noteq> '''')
           (wrapErr (''failed to delete execution '' @ go_quote execID @ '': '')
             (voidIO (DeleteExecution env c realm execID)))) execs) (\<lambda>_ s'. rows (world s') = []) (\<lambda>_ _. True) s1"
  proof (rule wp_forIO [where I = "\<lambda>vis t. remaining ?old vis (rows (world t))"])
    show "remaining ?old [] (rows (world s1))" using s1 by (simp add: remaining_def)
  next
    fix t :: "('a, event, flow_mem) io_state"
    assume "remaining ?old execs (rows (world t))"
    with cover have "x \<notin> set (rows (world t))" for x unfolding remaining_def by blast
    then show "rows (world t) = []" by (cases "rows (world t)") auto
  next
    fix vis e rest and t :: "('a, event, flow_mem) io_state"
    assume old: "remaining ?old vis (rows (world t))"
    note step = remaining_step [OF old]
    have "wp True (DeleteExecution env c realm i) (\<lambda>_ t'. remaining ?old (vis @ [e]) (rows (world t'))) (\<lambda>_ _. True) t"
      if "aei_Id e = Some i" for i
      by (rule wp_weaken [OF wp_flow_methods(2) [OF assms]], rule step) (use that in auto)
    then show "wp True (if isFlowExec e \<or> \<not> isTopLevel e then ret ()
       else let execID = (case aei_Id e of None \<Rightarrow> '''' | Some i \<Rightarrow> i) in
         whenIO (execID \<noteq> '''')
           (wrapErr (''failed to delete execution '' @ go_quote execID @ '': '')
             (voidIO (DeleteExecution env c realm execID))))
        (\<lambda>_ t'. remaining ?old (vis @ [e]) (rows (world t'))) (\<lambda>_ _. True) t"
      using ids [OF _ old] by (auto simp: Let_def intro!: step split: option.split)
  qed
qed

lemma config_elsewhere:
  "i \<notin> fst ` set xs \<Longrightarrow> map (\<lambda>(j, p, q, x). (j, p, q, if j = i then b else x)) xs = xs"
  by (induction xs) auto

lemma wp_add_execution_with_config:
  assumes "flow_server env realm alias flowID rows"
  shows "wp True (add_execution_with_config env c realm flowID e)
    (\<lambda>_ s'. map snd (rows (world s')) = map snd (rows (world s)) @ [wanted_row e]) (\<lambda>_ _. True) s"
  unfolding add_execution_with_config_def addExecution_def createExecutionConfig_def Let_def wp_bindIO wp_wrapErr
  by (rule wp_weaken [OF wp_flow_methods(3) [OF assms]])
    (auto split: option.split simp: wanted_row_def config_elsewhere simp del: map_map intro!: wp_weaken [OF wp_flow_methods(4) [OF assms]])

lemma wp_adjustChildFlowsPriority:
  assumes "flow_server env realm (afs_Alias (af_Spec (fm_flow (mem s)))) flowID rows"
  shows "wp True (adjustChildFlowsPriority env c realm) (\<lambda>_ s'. rows (world s') = rows (world s)) (\<lambda>_ _. True) s"
proof -
  let ?flowAlias = "afs_Alias (af_Spec (fm_flow (mem s)))"
  have [simp]: "isFlowExec (adjusted_exec x e) = isFlowExec e" for x e
    by (simp add: adjusted_exec_def isFlowExec_def Let_def)
  have one: "wp True (adjust_child env c realm ?flowAlias specs e) (\<lambda>_ s'. rows (world s') = rows (world t)) (\<lambda>_ _. True) t" for specs e
    and t :: "('a, event, flow_mem) io_state"
    by (auto simp: adjust_child_def split: option.split intro!: wp_weaken [OF wp_flow_methods(5) [OF assms]])
  have "wp True (forIO (adjust_child env c realm ?flowAlias specs) execs) (\<lambda>_ s'. rows (world s') = rows (world s)) (\<lambda>_ _. True) t"
    if "rows (world t) = rows (world s)" for specs execs and t :: "('a, event, flow_mem) io_state"
    by (rule wp_forIO [where I = "\<lambda>_ s'. rows (world s') = rows (world s)"]) (use that one in \<open>auto intro!: wp_weaken [OF one]\<close>)
  then show ?thesis
    by (auto simp: adjustChildFlowsPriority_def intro!: wp_weaken [OF wp_flow_methods(1) [OF assms]])
qed

text \<open>
  C4. When synchronising the executions of a flow succeeds, Keycloak has as its own top-level
  executions exactly those the resource lists, each with its requirement and configuration, in
  the order of their priorities, whatever was there before.
\<close>

theorem SyncAuthFlowExecutions_correct:
  assumes "flow_server env realm (afs_Alias (af_Spec (fm_flow (mem s)))) (aft_ID (af_Status (fm_flow (mem s)))) rows"
    and "sort_Slice_ok env" and "SyncAuthFlowExecutions_Serve env c realm s = (Ok (), s')"
  shows "\<exists>execs. mset execs = mset (filter (\<lambda>e. \<not> ae_AuthenticatorFlow e) (afs_AuthenticationExecutions (af_Spec (fm_flow (mem s))))) \<and>
     sorted (map (\<lambda>e. sint (ae_Priority e)) execs) \<and> map snd (rows (world s')) = map wanted_row execs"
proof -
  let ?flow = "fm_flow (mem s)"
  let ?list = "filter (\<lambda>e. \<not> ae_AuthenticatorFlow e) (afs_AuthenticationExecutions (af_Spec ?flow))"
  let ?sorted = "sort_Slice env ?list"
  have clear: "wp True (clearNonFlowExecutions env c (afs_Alias (af_Spec ?flow)) realm)
      (\<lambda>_ t. rows (world t) = [] \<and> mem t = mem s) (\<lambda>_ _. True) s"
    by (rule wp_weaken [OF wp_conj [OF wp_clearNonFlowExecutions [OF assms(1)] emits_wp [OF flow_mem_kept(1) refl]]]) simp
  have add: "wp True (forIO (add_execution_with_config env c realm (aft_ID (af_Status ?flow))) ?sorted)
      (\<lambda>_ t'. map snd (rows (world t')) = map wanted_row ?sorted \<and> mem t' = mem s) (\<lambda>_ _. True) t"
    if "rows (world t) = [] \<and> mem t = mem s" for t
  proof -
    have "wp True (forIO (add_execution_with_config env c realm (aft_ID (af_Status ?flow))) ?sorted)
        (\<lambda>_ t'. map snd (rows (world t')) = map wanted_row ?sorted) (\<lambda>_ _. True) t"
      by (rule wp_forIO [where I = "\<lambda>vis t'. map snd (rows (world t')) = map wanted_row vis"])
        (use that in \<open>auto intro!: wp_weaken [OF wp_add_execution_with_config [OF assms(1)]]\<close>)
    from wp_weaken [OF wp_conj [OF this emits_wp [OF flow_mem_kept(2) [of "mem s"]]]] that show ?thesis by auto
  qed
  have adjust: "wp True (adjustChildFlowsPriority env c realm) (\<lambda>_ t'. map snd (rows (world t')) = map wanted_row ?sorted) (\<lambda>_ _. True) t"
    if "map snd (rows (world t)) = map wanted_row ?sorted \<and> mem t = mem s" for t
    by (rule wp_weaken [OF wp_adjustChildFlowsPriority]) (use that assms(1) in auto)
  have empty: "sort_Slice env [] = []" using assms(2) unfolding sort_Slice_ok_def by (metis mset_zero_iff)
  have "wp True (SyncAuthFlowExecutions_Serve env c realm) (\<lambda>_ t. map snd (rows (world t)) = map wanted_row ?sorted) (\<lambda>_ _. True) s"
    unfolding SyncAuthFlowExecutions_Serve_def Let_def wp_bindIO wp_getMem wp_wrapErr
    using adjust add by (intro wp_weaken [OF clear]) (auto intro!: wp_weaken [OF add] simp: empty simp del: filter_empty_conv)
  from wp_OkD [OF this assms(3)] assms(2) show ?thesis by (intro exI [of _ ?sorted]) (simp add: sort_Slice_ok_def)
qed

section \<open>Concrete runs\<close>

definition located :: "string \<Rightarrow> http_result" where
  "located l = \<lparr>hr_HTTPResponse = Some \<lparr>rsp_StatusCode = 201, rsp_Location = l\<rparr>,
     hr_Body = \<lparr>body_text = '''', body_json = None\<rparr>, hr_JSON200 = None\<rparr>"

definition listed_exec :: "execution_row \<Rightarrow> AuthenticationExecutionInfoRepresentation" where
  "listed_exec x = \<lparr>aei_AuthenticationFlow = None, aei_DisplayName = None, aei_FlowId = None, aei_Id = Some (fst x),
     aei_Level = Some 0, aei_Priority = None, aei_Requirement = None, aei_rest = []\<rparr>"

text \<open>A Keycloak with one flow that holds at most two executions.\<close>

definition post_exec :: "AuthenticationExecutionRepresentation \<Rightarrow> execution_row list \<Rightarrow> (go_error + http_result option) \<times> execution_row list" where
  "post_exec b rows =
     (if rows = [] then (Inr (Some (located ''/executions/e1'')), [(''e1'', aer_Authenticator b, aer_Requirement b, None)])
      else if map fst rows = [''e1''] then
        (Inr (Some (located ''/executions/e2'')), rows @ [(''e2'', aer_Authenticator b, aer_Requirement b, None)])
      else (Inl (NewError ''full''), rows))"

definition flow_http :: "http_request \<Rightarrow> execution_row list \<Rightarrow> (go_error + http_result option) \<times> execution_row list" where
  "flow_http rq rows = (case (rq_method rq, rq_body rq, drop 4 (rq_path rq)) of
       (GET, _, _) \<Rightarrow> if '''' \<in> fst ` set rows then (Inl (NewError ''broken''), rows)
         else (Inr (Some (accepted (Some (ExecInfosB (map listed_exec rows))))), rows)
     | (DELETE, _, [_, i]) \<Rightarrow> (Inr (Some (accepted None)), filter (\<lambda>x. fst x \<noteq> i) rows)
     | (POST, ExecB b, _) \<Rightarrow> post_exec b rows
     | (POST, AuthConfigB b, [_, i, _]) \<Rightarrow>
         (Inr (Some (accepted None)), map (\<lambda>(j, p, q, x). (j, p, q, if j = i then Some b else x)) rows)
     | _ \<Rightarrow> (Inr (Some (accepted None)), rows))"

definition flow_env :: "execution_row list env" where
  "flow_env = idle_env\<lparr>kc_http := (\<lambda>c rq rows. flow_http rq rows)\<rparr>"

lemma flow_env_server: "flow_server flow_env realm alias flowID id"
proof -
  have "GetResourceIDFromResponse flow_env (Some (response_of (located ''/executions/e1''))) = ''e1''"
    "GetResourceIDFromResponse flow_env (Some (response_of (located ''/executions/e2''))) = ''e2''" by code_simp+
  note locations = this
  have sent: "success flow_env c rq w r w' \<Longrightarrow> flow_http rq w = (Inr (Some r), w')" for c rq w r w'
    by (simp add: success_def flow_env_def)
  have list: "json_execs (accepted (Some (ExecInfosB xs))) = Some xs" for xs by (simp add: json_execs_def accepted_def)
  have plain: "\<not> isFlowExec (listed_exec x) \<and> isTopLevel (listed_exec x) \<and> aei_Id (listed_exec x) = Some (fst x)" for x
    by (simp add: listed_exec_def isFlowExec_def isTopLevel_def)
  show ?thesis
    unfolding flow_server_def id_apply
  proof (intro conjI allI impI ballI; drule sent)
    fix x w r w'
    assume "flow_http (mk_request GET (realm_path realm [''authentication'', ''flows'', alias, ''executions'']) [] NoBody) w = (Inr (Some r), w')"
      and x: "x \<in> set w"
    then have ids: "'''' \<notin> fst ` set w" and r: "r = accepted (Some (ExecInfosB (map listed_exec w)))"
      by (auto simp: flow_http_def split: if_splits)
    from ids imageI [OF x, of fst] show "fst x \<noteq> ''''" by metis
    from x plain r show "\<exists>e \<in> set (the_default [] (json_execs r)). \<not> isFlowExec e \<and> isTopLevel e \<and> aei_Id e = Some (fst x)"
      by (auto simp: list)
  qed (auto simp: flow_http_def post_exec_def realm_path_def locations split: if_splits)
qed

lemma flow_env_sort: "sort_Slice_ok flow_env"
  by (simp add: sort_Slice_ok_def flow_env_def idle_env_def)

definition test_exec :: "string \<Rightarrow> int64 \<Rightarrow> AuthenticatorConfig option \<Rightarrow> AuthenticationExecution" where
  "test_exec a p cfg = \<lparr>ae_Authenticator = a, ae_AuthenticatorConfig = cfg, ae_AuthenticatorFlow = False, ae_Priority = p,
     ae_Requirement = ''REQUIRED'', ae_Alias = '''', ae_FlowV1 = False\<rparr>"

definition test_flow :: KeycloakAuthFlow where
  "test_flow = \<lparr>af_Meta = zero_ObjectMeta,
     af_Spec = \<lparr>afs_RealmRef = \<lparr>rr_Kind = KeycloakRealmKind, rr_Name = ''realm''\<rparr>, afs_ConfigRef = \<lparr>cr_Url = '''', cr_Secret = ''s''\<rparr>,
       afs_Alias = ''flow'', afs_Description = '''', afs_ProviderID = ''basic-flow'', afs_TopLevel = True, afs_BuiltIn = False,
       afs_AuthenticationExecutions = [test_exec ''b'' 20 (Some \<lparr>ac_Alias = ''cfg'', ac_Config = []\<rparr>), test_exec ''a'' 10 None],
       afs_ParentName = '''', afs_ChildType = '''', afs_ChildRequirement = '''', afs_ReconciliationStrategy = ''''\<rparr>,
     af_Status = \<lparr>aft_Error = '''', aft_Phase = '''', aft_FailureCount = 0, aft_ID = ''f1''\<rparr>\<rparr>"

definition flow_start :: "'w \<Rightarrow> KeycloakAuthFlow \<Rightarrow> ('w, event, flow_mem) io_state" where
  "flow_start w f = \<lparr>world = w, trace = [], mem = \<lparr>fm_flow = f\<rparr>\<rparr>"

lemma flow_start_simps [simp]:
  "world (flow_start w f) = w" "trace (flow_start w f) = []" "fm_flow (mem (flow_start w f)) = f"
  by (simp_all add: flow_start_def)

theorem SyncAuthFlowExecutions_witness:
  "map snd (world (snd (SyncAuthFlowExecutions_Serve flow_env 0 ''realm'' (flow_start [(''old'', None, None, None)] test_flow)))) =
   [(Some ''a'', Some ''REQUIRED'', None),
    (Some ''b'', Some ''REQUIRED'', Some \<lparr>acr_Alias = Some ''cfg'', acr_Config = Some [], acr_Id = None\<rparr>)]"
proof -
  let ?s = "flow_start [(''old'', None, None, None)] test_flow"
  let ?r = "SyncAuthFlowExecutions_Serve flow_env 0 ''realm'' ?s"
  let ?a = "test_exec ''a'' 10 None" and ?b = "test_exec ''b'' 20 (Some \<lparr>ac_Alias = ''cfg'', ac_Config = []\<rparr>)"
  have "fst ?r = Ok ()" by code_simp
  then have run: "?r = (Ok (), snd ?r)" by (metis prod.collapse)
  from SyncAuthFlowExecutions_correct [OF flow_env_server flow_env_sort run]
  obtain execs where e: "mset execs = {#?b, ?a#}" "sorted (map (\<lambda>e. sint (ae_Priority e)) execs)"
    "map snd (world (snd ?r)) = map wanted_row execs" by (auto simp: test_flow_def test_exec_def)
  from e(1) have "execs = [?a, ?b] \<or> execs = [?b, ?a]"
    by (cases execs; cases "tl execs") (auto simp: add_eq_conv_ex)
  with e(2,3) show ?thesis by (auto simp: test_exec_def wanted_row_def)
qed

definition leaving_flow :: KeycloakAuthFlow where
  "leaving_flow = test_flow\<lparr>af_Meta := zero_ObjectMeta\<lparr>om_DeletionTimestamp := Some 0, om_Finalizers := [FinalizerName]\<rparr>\<rparr>"

text \<open>A cluster with the resource and the credentials; Keycloak answers as given.\<close>

definition flow_cluster :: "KeycloakAuthFlow list \<Rightarrow> (kc_client \<Rightarrow> http_request \<Rightarrow> http_result) \<Rightarrow> nat env" where
  "flow_cluster others answer = idle_env\<lparr>kc_http := (\<lambda>c rq w. (Inr (Some (answer c rq)), w)), kc_new := (\<lambda>p w. (Inr w, Suc w)),
     k8s := (\<lambda>rq w. case rq of
         KGet KindAuthFlow _ _ \<Rightarrow> (Inr (AuthFlowObj leaving_flow), w)
       | KGet KindSecret _ n \<Rightarrow> (Inr (SecretObj \<lparr>sec_Name = ''s'', sec_Namespace = '''', sec_ResourceVersion = '''', sec_OwnerReferences = [], sec_Data = []\<rparr>), w)
       | KUpdate x \<Rightarrow> (Inr x, w) | KStatusUpdate x \<Rightarrow> (Inr x, w)
       | KList KindAuthFlow \<Rightarrow> (Inr (AuthFlowListObj others), w)
       | _ \<Rightarrow> (Inl (NewError ''refused''), w))\<rparr>"

definition flow_conf :: HelperConf where
  "flow_conf = \<lparr>h_watchNamespace = '''', h_enableOwnerRef = False\<rparr>"



definition expired_once :: "kc_client \<Rightarrow> http_request \<Rightarrow> http_result" where
  "expired_once c rq = (if c = 0 then \<lparr>hr_HTTPResponse = Some \<lparr>rsp_StatusCode = 401, rsp_Location = ''''\<rparr>,
     hr_Body = \<lparr>body_text = '''', body_json = None\<rparr>, hr_JSON200 = None\<rparr> else located ''/flows/f1'')"

theorem flow_deletion_becomes_reconciliation_witness:
  "\<exists>v es. flow_handleDeletion (flow_cluster [] expired_once) flow_conf 0 ''realm'' (flow_start 1 leaving_flow) = (Ok v, es) \<and>
     RequeueAfter v = successRequeueTime"
proof -
  let ?env = "flow_cluster [] expired_once" and ?s = "flow_start 1 leaving_flow"
  let ?rm = "RemoveAuthFlow_Serve ?env 0 ''realm'' ?s"
  have fin: "finalizers_ok ?env" using idle_env_finalizers by (simp add: finalizers_ok_def flow_cluster_def)
  have has: "{FinalizerName, legacyFinalizerName} \<inter> set (om_Finalizers (af_Meta (fm_flow (mem ?s)))) \<noteq> {}"
    by (simp add: leaving_flow_def)
  have "(case fst ?rm of Err e \<Rightarrow> IsUnauthorizedError (Some e) | _ \<Rightarrow> False) \<and> fst (flow_refreshToken ?env flow_conf (snd ?rm)) = Ok 1 \<and>
     (case fst (flow_handleDeletion ?env flow_conf 0 ''realm'' ?s) of Ok _ \<Rightarrow> True | _ \<Rightarrow> False)" by code_simp
  then obtain e v where runs: "fst ?rm = Err e" "IsUnauthorizedError (Some e)" "fst (flow_refreshToken ?env flow_conf (snd ?rm)) = Ok 1"
    "fst (flow_handleDeletion ?env flow_conf 0 ''realm'' ?s) = Ok v" by (auto split: outcome.splits)
  have "?rm = (Err e, snd ?rm)" "flow_refreshToken ?env flow_conf (snd ?rm) = (Ok 1, snd (flow_refreshToken ?env flow_conf (snd ?rm)))"
    "flow_handleDeletion ?env flow_conf 0 ''realm'' ?s = (Ok v, snd (flow_handleDeletion ?env flow_conf 0 ''realm'' ?s))"
    using runs by (metis prod.collapse)+
  from flow_deletion_becomes_reconciliation [OF fin has this(1) runs(2) this(2,3)] this(3) show ?thesis by blast
qed

end
