(* ===== verification/ComponentController.thy ===== *)
theory ComponentController
  imports AdapterMethods SecretRef UserController
begin

text \<open>
  \<open>internal/controller/keycloakcomponent\<close>: the terminator of a \<open>KeycloakComponent\<close> and one
  reconciliation of it, through the legacy adapter. The memory of a run holds the resource.
  \<open>Reconcile\<close> may return a delay together with an error, so its result is a pair; an error that
  comes with the zero result is an error of the run.
\<close>

record component_mem =
  cm_component :: KeycloakComponent

type_synonym ('w, 'a) component_prog = "('w, component_mem, 'a) prog"

definition component_obj :: "component_mem client_Object" where
  "component_obj = \<lparr>obj_meta = (\<lambda>m. kc_Meta (cm_component m)),
     obj_set_meta = (\<lambda>x m. m\<lparr>cm_component := (cm_component m)\<lparr>kc_Meta := x\<rparr>\<rparr>),
     obj_out = (\<lambda>m. ComponentObj (cm_component m)),
     obj_in = (\<lambda>x m. case x of ComponentObj k \<Rightarrow> m\<lparr>cm_component := k\<rparr> | _ \<Rightarrow> m)\<rparr>"

interpretation component_object: client_object component_obj
  by unfold_locales (simp_all add: component_obj_def)

interpretation component_status: StatusValueFailureCountable component_GetFailureCount component_SetFailureCount
  component_GetPhase component_SetPhase component_GetError component_SetError
  by unfold_locales
    (simp_all add: component_GetFailureCount_def component_SetFailureCount_def component_GetPhase_def
      component_SetPhase_def component_GetError_def component_SetError_def Let_def split: option.split)

section \<open>terminator.go\<close>

definition component_DeleteResource :: "'w env \<Rightarrow> string \<Rightarrow> string \<Rightarrow> GoCloakAdapter \<Rightarrow> bool \<Rightarrow> ('w, 'm, unit) prog" where
  "component_DeleteResource env realmName componentName kClient preserveResourcesOnDeletion =
     (if preserveResourcesOnDeletion then ret ()
      else
        bindIO (tryIO (DeleteComponent env kClient realmName componentName)) (\<lambda>res. case res of
          Inr _ \<Rightarrow> ret ()
        | Inl err \<Rightarrow> if IsErrNotFound err then ret () else fail (Wrapped ''unable to delete realm component '' err)))"

section \<open>keycloakrealmcomponent_controller.go\<close>

definition component_finalizerName :: string where
  "component_finalizerName = ''keycloak.realmcomponent.operator.finalizer.name''"

definition KeycloakRealmComponentKind :: string where
  "KeycloakRealmComponentKind = ''KeycloakRealmComponent''"

definition get_component_cr :: "'w env \<Rightarrow> string \<Rightarrow> string \<Rightarrow> ('w, 'm, KeycloakComponent) prog" where
  "get_component_cr env ns name =
     bindIO (k8s_Get env KindComponent ns name) (\<lambda>x. case x of ComponentObj k \<Rightarrow> ret k | _ \<Rightarrow> fail decode_error)"

definition GetKeycloakRealmFromRef ::
  "'w env \<Rightarrow> HelperConf \<Rightarrow> 'm client_Object \<Rightarrow> ('m \<Rightarrow> RealmRef) \<Rightarrow> GoCloakAdapter \<Rightarrow> ('w, 'm, gocloak_Realm option) prog" where
  "GetKeycloakRealmFromRef env h obj getRealmRef kcClient =
     bindIO (getMem getRealmRef) (\<lambda>ref.
     bindIO (getMem (obj_meta obj)) (\<lambda>meta.
     if \<not> h_enableOwnerRef h then
       wrapErr (''failed to get realm: ['' @ rr_Name ref @ ''] '') (adapter_GetRealm env kcClient (rr_Name ref))
     else if rr_Kind ref = KeycloakRealmKind then
       bindIO (wrapErr ''failed to get KeycloakRealm: ''
                (get_realm_cr env (om_Namespace meta) (rr_Name ref))) (\<lambda>realm.
       wrapErr ''failed to get realm: '' (adapter_GetRealm env kcClient (rs_RealmName (kr_Spec realm))))
     else fail (NewError (''unknown realm kind: '' @ rr_Kind ref))))"

definition setComponentOwnerReference :: "'w env \<Rightarrow> ('w, unit) component_prog" where
  "setComponentOwnerReference env =
     bindIO (getMem cm_component) (\<lambda>component.
     case cs_ParentRef (kc_Spec component) of
       None \<Rightarrow> ret ()
     | Some parent \<Rightarrow>
         if pc_Kind parent \<noteq> KeycloakRealmComponentKind then ret ()
         else if \<exists>ref \<in> set (om_OwnerReferences (kc_Meta component)). or_Kind ref = KeycloakRealmComponentKind then ret ()
         else
           bindIO (wrapErr ''unable to get parent component: ''
             (get_component_cr env (om_Namespace (kc_Meta component)) (pc_Name parent))) (\<lambda>parentComponent.
           case GVKForComponent env of
             Inl err \<Rightarrow> fail (Wrapped ''unable to get gvk for parent component: '' err)
           | Inr (groupVersion, kind) \<Rightarrow>
               bindIO (modMem (obj_set_meta component_obj ((kc_Meta component)\<lparr>om_OwnerReferences :=
                 [\<lparr>or_APIVersion = groupVersion, or_Kind = kind, or_Name = om_Name (kc_Meta parentComponent),
                   or_UID = om_UID (kc_Meta parentComponent), or_BlockOwnerDeletion = Some True,
                   or_Controller = Some False\<rparr>]\<rparr>))) (\<lambda>_.
               wrapErr (''failed to set owner reference '' @ om_Name (kc_Meta parentComponent) @ '': '')
                 (k8s_Update env component_obj))))"

definition getParentID ::
  "'w env \<Rightarrow> KeycloakComponent \<Rightarrow> string \<Rightarrow> GoCloakAdapter \<Rightarrow> ('w, 'm, string) prog" where
  "getParentID env component kcRealmName kClient =
     (case cs_ParentRef (kc_Spec component) of
        None \<Rightarrow> ret ''''
      | Some parent \<Rightarrow>
          if pc_Kind parent = KeycloakRealmKind then
            bindIO (wrapErr ''unable to get parent kcRealmName: ''
              (get_realm_cr env (om_Namespace (kc_Meta component)) (pc_Name parent))) (\<lambda>parentRealm.
            bindIO (wrapErr ''unable to get parent kcRealmName: ''
              (adapter_GetRealm env kClient (rs_RealmName (kr_Spec parentRealm)))) (\<lambda>res.
            bindIO (derefIO res) (\<lambda>kcParentRealm.
            case grl_ID kcParentRealm of
              None \<Rightarrow> fail (NewError ''kcRealmName id is empty'')
            | Some i \<Rightarrow> if i = '''' then fail (NewError ''kcRealmName id is empty'') else ret i)))
          else if pc_Kind parent = KeycloakRealmComponentKind then
            bindIO (wrapErr ''unable to get parent component: ''
              (get_component_cr env (om_Namespace (kc_Meta component)) (pc_Name parent))) (\<lambda>parentComponent.
            bindIO (wrapErr ''unable to get parent component: ''
              (GetComponent env kClient kcRealmName (cs_Name (kc_Spec parentComponent)))) (\<lambda>c. ret (cp_ID c)))
          else fail (NewError (''parent kind '' @ pc_Kind parent @ '' is not supported'')))"

text \<open>
  The sub type of the resource is not copied. An empty id of the parent leaves the field at its
  zero value, which is the empty string.
\<close>

definition createKeycloakComponent ::
  "'w env \<Rightarrow> KeycloakComponent \<Rightarrow> string \<Rightarrow> GoCloakAdapter \<Rightarrow> ('w, 'm, Component) prog" where
  "createKeycloakComponent env component kcRealmName kClient =
     (let ksComponent = \<lparr>cp_Name = cs_Name (kc_Spec component), cp_ParentID = '''', cp_ProviderID = cs_ProviderID (kc_Spec component),
        cp_ProviderType = cs_ProviderType (kc_Spec component), cp_SubType = '''', cp_Config = cs_Config (kc_Spec component), cp_ID = ''''\<rparr>
      in bindIO (wrapErr ''unable to get parent id: '' (getParentID env component kcRealmName kClient)) (\<lambda>parenID.
         ret (if parenID \<noteq> '''' then ksComponent\<lparr>cp_ParentID := parenID\<rparr> else ksComponent)))"

definition component_tryReconcile ::
  "'w env \<Rightarrow> string \<Rightarrow> GoCloakAdapter \<Rightarrow> ('w, unit) component_prog" where
  "component_tryReconcile env realmName kClient =
     bindIO (getMem cm_component) (\<lambda>component.
     bindIO (wrapErr ''unable to create keycloak component: ''
       (createKeycloakComponent env component realmName kClient)) (\<lambda>kc0.
     bindIO (wrapErr ''unable to map config secrets: ''
       (MapComponentConfigSecretsRefs env (cp_Config kc0) (om_Namespace (kc_Meta component)))) (\<lambda>config.
     let keycloakComponent = kc0\<lparr>cp_Config := config\<rparr> in
     bindIO (tryIO (GetComponent env kClient realmName (cs_Name (kc_Spec component)))) (\<lambda>res. case res of
       Inl err \<Rightarrow>
         if \<not> IsErrNotFound err then fail (Wrapped ''unable to get component, unexpected error: '' err)
         else wrapErr ''unable to create component '' (CreateComponent env kClient realmName keycloakComponent)
     | Inr cmp \<Rightarrow>
         wrapErr ''unable to update component: ''
           (UpdateComponent env kClient realmName (keycloakComponent\<lparr>cp_ID := cp_ID cmp\<rparr>))))))"

definition component_failed :: "go_error \<Rightarrow> KeycloakComponent \<Rightarrow> int64 \<times> KeycloakComponent" where
  "component_failed err k =
     SetFailureCount_helper component_GetFailureCount component_SetFailureCount
       (k\<lparr>kc_Status := (kc_Status k)\<lparr>cst_Error := Error err, cst_Phase := PhaseFailed\<rparr>\<rparr>)"

definition component_succeeded :: "KeycloakComponent \<Rightarrow> KeycloakComponent" where
  "component_succeeded = SetSuccessStatus component_SetFailureCount component_SetPhase component_SetError"

definition component_storeStatus :: "'w env \<Rightarrow> ('w, unit) component_prog" where
  "component_storeStatus env =
     wrapErr ''unable to update KeycloakRealmComponent status: '' (k8s_StatusUpdate env component_obj)"

text \<open>The part of \<open>Reconcile\<close> that follows the construction of the client.\<close>

definition component_serve ::
  "'w env \<Rightarrow> HelperConf \<Rightarrow> GoCloakAdapter \<Rightarrow> ('w, ctrl_Result \<times> go_error option) component_prog" where
  "component_serve env h kClient =
     bindIO (wrapErr ''unable to get realm: ''
       (GetKeycloakRealmFromRef env h component_obj (\<lambda>m. cs_RealmRef (kc_Spec (cm_component m))) kClient)) (\<lambda>res.
     bindIO (derefIO res) (\<lambda>realm.
     bindIO (getMem cm_component) (\<lambda>component.
     bindIO (wrapErr ''unable to tryToDelete realm component ''
       (TryToDelete env component_obj
         (component_DeleteResource env (gocloak_PString (grl_Realm realm)) (cs_Name (kc_Spec component)) kClient
           (PreserveResourcesOnDeletion (kc_Meta component))) component_finalizerName)) (\<lambda>deleted.
     if deleted then ret (zero_Result, None)
     else
       bindIO (tryIO (component_tryReconcile env (gocloak_PString (grl_Realm realm)) kClient)) (\<lambda>res. case res of
         Inl err \<Rightarrow>
           bindIO (getMem cm_component) (\<lambda>k. case component_failed err k of (requeueAfter, k') \<Rightarrow>
           bindIO (modMem (\<lambda>m. m\<lparr>cm_component := k'\<rparr>)) (\<lambda>_.
           bindIO (component_storeStatus env) (\<lambda>_.
           ret (\<lparr>RequeueAfter = requeueAfter\<rparr>, Some (Wrapped ''unable to reconcile KeycloakRealmComponent: '' err)))))
       | Inr _ \<Rightarrow>
           bindIO (modMem (\<lambda>m. m\<lparr>cm_component := component_succeeded (cm_component m)\<rparr>)) (\<lambda>_.
           bindIO (component_storeStatus env) (\<lambda>_.
           ret (zero_Result, None))))))))"

definition component_Reconcile ::
  "'w env \<Rightarrow> HelperConf \<Rightarrow> string \<Rightarrow> string \<Rightarrow> ('w, ctrl_Result \<times> go_error option) component_prog" where
  "component_Reconcile env h ns name =
     bindIO (tryIO (get_component_cr env ns name)) (\<lambda>res. case res of
       Inl err \<Rightarrow> if k8s_IsNotFound err then ret (zero_Result, None) else fail (Wrapped ''unable to get KeycloakRealmComponent: '' err)
     | Inr instance \<Rightarrow>
         bindIO (modMem (\<lambda>m. m\<lparr>cm_component := instance\<rparr>)) (\<lambda>_.
         bindIO (wrapErr ''unable to get realm owner ref: ''
           (SetRealmOwnerRef env h component_obj (\<lambda>m. cs_RealmRef (kc_Spec (cm_component m))))) (\<lambda>_.
         bindIO (setComponentOwnerReference env) (\<lambda>_.
         bindIO (getMem (\<lambda>m. cs_ConfigRef (kc_Spec (cm_component m)))) (\<lambda>configRef.
         bindIO (tryIO (CreateKeycloakClientFromConfigRef env h configRef)) (\<lambda>res. case res of
           Inl err \<Rightarrow>
             if errors_Is err ErrKeycloakIsNotAvailable then ret (RequeueOnKeycloakNotAvailable, None)
             else fail (Wrapped ''unable to create keycloak client: '' err)
         | Inr kClient \<Rightarrow> component_serve env h kClient))))))"

end
