(* ===== verification/ComponentProps.thy ===== *)
theory ComponentProps
  imports ComponentController AdapterLaws
begin

text \<open>Properties of the controller of components, over what Keycloak does with the adapter's requests.\<close>

section \<open>The configuration\<close>

text \<open>What a list of values stands for: every value has to stand for something.\<close>

definition ref_values :: "(string \<Rightarrow> string gomap option) \<Rightarrow> string list \<Rightarrow> string list option" where
  "ref_values secrets vs = those (map (ref_value secrets) vs)"

lemma wp_map_values:
  assumes "stable_secrets env ns secrets"
  shows "wp True (map_values env ns vs) (\<lambda>vs' t. ref_values (secrets (world s)) vs = Some vs' \<and>
     secrets (world t) = secrets (world s)) (\<lambda>_ _. True) s"
proof (induction vs arbitrary: s)
  case Nil
  then show ?case by (simp add: ref_values_def)
next
  case (Cons v vs)
  have first: "wp True (if \<not> HasSecretRef v then ret v else GetSecretFromRef env v ns)
      (\<lambda>x t. ref_value (secrets (world s)) v = Some x \<and> secrets (world t) = secrets (world s)) (\<lambda>_ _. True) s"
    by (auto simp: ref_value_def [of _ v] intro!: wp_weaken [OF wp_panic_ok [OF wp_GetSecretFromRef [OF assms]]] dest: sym)
  show ?case
    unfolding map_values.simps wp_bindIO
    by (rule wp_weaken [OF first], rule wp_weaken [OF Cons.IH]) (auto simp: ref_values_def)
qed

lemma wp_MapComponentConfigSecretsRefs:
  assumes "stable_secrets env ns secrets" and "distinct (map fst config)"
  shows "wp True (MapComponentConfigSecretsRefs env config ns)
    (\<lambda>config' t. (\<forall>k. map_of config' k = Option.bind (map_of config k) (ref_values (secrets (world s)))) \<and>
       secrets (world t) = secrets (world s)) (\<lambda>_ _. True) s"
  unfolding MapComponentConfigSecretsRefs_def wp_bindIO
proof (rule wp_range_order)
  fix es
  assume "mset es = mset config"
  then have es_set: "set es = set config" by (metis set_mset_mset)
  let ?S = "secrets (world s)"
  let ?I = "\<lambda>vis cfg t. secrets (world t) = ?S \<and> (\<forall>k. map_of cfg k = (if k \<in> fst ` set vis
      then Option.bind (map_of config k) (ref_values ?S) else map_of config k))"
  show "wp True (foldIO (\<lambda>(k, values) cfg.
       bindIO (map_values env ns values) (\<lambda>values'. ret (AList.update k values' cfg))) es config)
      (\<lambda>config' t. (\<forall>k. map_of config' k = Option.bind (map_of config k) (ref_values ?S)) \<and> secrets (world t) = ?S) (\<lambda>_ _. True) s"
  proof (rule wp_foldIO [where I = ?I])
    fix vis x rest cfg and t :: "('a, event, 'b) io_state"
    assume es: "es = vis @ x # rest" and I: "?I vis cfg t"
    obtain k v where x: "x = (k, v)" by (cases x)
    have "(k, v) \<in> set config" unfolding es_set [symmetric] es x by simp
    then have kv: "map_of config k = Some v" using assms(2) by simp
    show "wp True ((\<lambda>(k, values) cfg. bindIO (map_values env ns values) (\<lambda>values'. ret (AList.update k values' cfg))) x cfg)
        (\<lambda>cfg' t'. ?I (vis @ [x]) cfg' t') (\<lambda>_ _. True) t"
      unfolding x using I kv by (auto intro!: wp_weaken [OF wp_map_values [OF assms(1)]] simp: update_conv')
  next
    fix cfg and t :: "('a, event, 'b) io_state"
    assume I: "?I es cfg t"
    have "k \<notin> fst ` set es \<Longrightarrow> map_of config k = None" for k by (simp add: es_set map_of_eq_None_iff)
    with I show "(\<forall>k. map_of cfg k = Option.bind (map_of config k) (ref_values ?S)) \<and> secrets (world t) = ?S"
      by auto
  qed auto
qed

lemma wp_MapComponentConfigSecretsRefs_frame:
  assumes "\<And>name w. f (snd (k8s env (KGet KindSecret ns name) w)) = f w"
  shows "wp True (MapComponentConfigSecretsRefs env config ns) (\<lambda>_ t. f (world t) = f (world s)) (\<lambda>_ _. True) s"
proof -
  note ref = wp_GetSecretFromRef_frame [where f = f, OF assms]
  have vals: "wp True (map_values env ns vs) (\<lambda>_ t. f (world t) = f (world s)) (\<lambda>_ _. True) s" for vs s
  proof (induction vs arbitrary: s)
    case (Cons v vs)
    then show ?case
      unfolding map_values.simps by (auto intro!: wp_weaken [OF ref] wp_weaken [OF Cons.IH])
  qed simp
  show ?thesis
    unfolding MapComponentConfigSecretsRefs_def wp_bindIO
    by (rule wp_range_order, rule wp_foldIO [where I = "\<lambda>_ _ t. f (world t) = f (world s)"])
      (auto intro!: wp_weaken [OF vals])
qed

section \<open>Create or update\<close>

text \<open>
  What Keycloak does with components: \<open>comps w\<close> are those of the realm, by distinct non-empty ids. Asking for them
  shows them and changes nothing, and is answered with \<open>not found\<close> only if there are none; a successful \<open>POST\<close> adds one under a new id; a successful \<open>PUT\<close>
  replaces the one of that id. Neither the API server nor reading realms changes them, and the
  requests of the adapter do not change secrets.
\<close>

definition component_server ::
  "'w env \<Rightarrow> GoCloakAdapter \<Rightarrow> string \<Rightarrow> ('w \<Rightarrow> Component list) \<Rightarrow> ('w \<Rightarrow> string \<Rightarrow> string gomap option) \<Rightarrow> bool" where
  "component_server env a realm comps secrets \<longleftrightarrow>
     (\<forall>w. distinct (map cp_ID (comps w)) \<and> '''' \<notin> cp_ID ` set (comps w)) \<and>
     (\<forall>w ans w'. rest_sent env a GET realmComponent [(''realm'', realm)] NoRest w ans w' \<longrightarrow>
        comps w' = comps w \<and> secrets w' = secrets w) \<and>
     (\<forall>w rsp w'. rest_ok env a GET realmComponent [(''realm'', realm)] NoRest w rsp w' \<longrightarrow> rest_components rsp = comps w) \<and>
     (\<forall>w ans w' e. rest_sent env a GET realmComponent [(''realm'', realm)] NoRest w ans w' \<longrightarrow>
        checkError ans = Some e \<longrightarrow> IsErrNotFound (Wrapped ''error during get component request: '' e) \<longrightarrow> comps w = []) \<and>
     (\<forall>c w rsp w'. rest_ok env a POST realmComponent [(''realm'', realm)] (RestComponent c) w rsp w' \<longrightarrow>
        (\<exists>i. comps w' = comps w @ [c\<lparr>cp_ID := i\<rparr>])) \<and>
     (\<forall>i c w rsp w'. rest_ok env a PUT realmComponentEntity [(''realm'', realm), (''id'', i)] (RestComponent c) w rsp w' \<longrightarrow>
        comps w' = map (\<lambda>x. if cp_ID x = i then c else x) (comps w)) \<and>
     (\<forall>rq w. comps (snd (k8s env rq w)) = comps w \<and> secrets (snd (k8s env rq w)) = secrets w) \<and>
     (\<forall>cl rq w. comps (snd (gocloak env cl rq w)) = comps w \<and> secrets (snd (gocloak env cl rq w)) = secrets w)"

lemma component_serverD:
  assumes "component_server env a realm comps secrets"
  shows "\<forall>w. distinct (map cp_ID (comps w)) \<and> '''' \<notin> cp_ID ` set (comps w)"
    and "\<forall>w ans w'. rest_sent env a GET realmComponent [(''realm'', realm)] NoRest w ans w' \<longrightarrow>
        comps w' = comps w \<and> secrets w' = secrets w"
    and "\<forall>w rsp w'. rest_ok env a GET realmComponent [(''realm'', realm)] NoRest w rsp w' \<longrightarrow> rest_components rsp = comps w"
    and "\<forall>w ans w' e. rest_sent env a GET realmComponent [(''realm'', realm)] NoRest w ans w' \<longrightarrow>
        checkError ans = Some e \<longrightarrow> IsErrNotFound (Wrapped ''error during get component request: '' e) \<longrightarrow> comps w = []"
    and "\<forall>c w rsp w'. rest_ok env a POST realmComponent [(''realm'', realm)] (RestComponent c) w rsp w' \<longrightarrow>
        (\<exists>i. comps w' = comps w @ [c\<lparr>cp_ID := i\<rparr>])"
    and "\<forall>i c w rsp w'. rest_ok env a PUT realmComponentEntity [(''realm'', realm), (''id'', i)] (RestComponent c) w rsp w' \<longrightarrow>
        comps w' = map (\<lambda>x. if cp_ID x = i then c else x) (comps w)"
    and "\<forall>rq w. comps (snd (k8s env rq w)) = comps w \<and> secrets (snd (k8s env rq w)) = secrets w"
    and "\<forall>cl rq w. comps (snd (gocloak env cl rq w)) = comps w \<and> secrets (snd (gocloak env cl rq w)) = secrets w"
  using assms unfolding component_server_def by - (elim conjE, assumption)+

lemmas component_laws = component_serverD [rule_format]

lemma wp_GetComponent:
  assumes "component_server env a realm comps secrets"
  shows "wp True (GetComponent env a realm name)
    (\<lambda>c t. find (\<lambda>c. cp_Name c = name) (comps (world s)) = Some c \<and> comps (world t) = comps (world s) \<and> secrets (world t) = secrets (world s))
    (\<lambda>e t. (IsErrNotFound e \<longrightarrow> find (\<lambda>c. cp_Name c = name) (comps (world s)) = None) \<and>
       comps (world t) = comps (world s) \<and> secrets (world t) = secrets (world s)) s"
  unfolding GetComponent_def wp_bindIO [of _ "restCall _ _ _ _ _ _"]
proof (rule wp_restCall)
  fix ans w' tr
  assume sent: "rest_sent env a GET realmComponent [(''realm'', realm)] NoRest (world s) ans w'"
  note laws = component_laws [OF assms]
  from laws(2) [OF sent] have same: "comps w' = comps (world s)" "secrets w' = secrets (world s)" by blast+
  show "wp True (bindIO (wrapErr ''error during get component request: '' (checked ans)) (\<lambda>rsp.
     case find (\<lambda>c. cp_Name c = name) (rest_components rsp) of
       Some c \<Rightarrow> ret c | None \<Rightarrow> fail (NotFoundErr ''component not found'')))
    (\<lambda>c t. find (\<lambda>c. cp_Name c = name) (comps (world s)) = Some c \<and> comps (world t) = comps (world s) \<and> secrets (world t) = secrets (world s))
    (\<lambda>e t. (IsErrNotFound e \<longrightarrow> find (\<lambda>c. cp_Name c = name) (comps (world s)) = None) \<and>
       comps (world t) = comps (world s) \<and> secrets (world t) = secrets (world s)) (s\<lparr>world := w', trace := tr\<rparr>)"
  proof (cases "checkError ans")
    case None
    then obtain rsp where ans: "ans = (None, Some rsp)" "rsr_StatusCode rsp \<le> 399" using checked_ok by blast
    with sent have "rest_ok env a GET realmComponent [(''realm'', realm)] NoRest (world s) rsp w'" by (simp add: rest_ok_def)
    from laws(3) [OF this] have "rest_components rsp = comps (world s)" .
    with None ans same show ?thesis by (auto simp: wp_checked split: option.split)
  next
    case (Some e)
    with laws(4) [OF sent] have "IsErrNotFound (Wrapped ''error during get component request: '' e) \<longrightarrow> comps (world s) = []" by blast
    with Some same show ?thesis by (auto simp: wp_checked)
  qed
qed

lemma wp_store_component:
  assumes "component_server env a realm comps secrets"
  shows "wp True (CreateComponent env a realm c) (\<lambda>_ t. \<exists>i. comps (world t) = comps (world s) @ [c\<lparr>cp_ID := i\<rparr>]) (\<lambda>_ _. True) s"
    and "cp_ID c \<noteq> '''' \<Longrightarrow> wp True (UpdateComponent env a realm c)
      (\<lambda>_ t. comps (world t) = map (\<lambda>x. if cp_ID x = cp_ID c then c else x) (comps (world s))) (\<lambda>_ _. True) s"
proof -
  note laws = component_laws [OF assms]
  show "wp True (CreateComponent env a realm c) (\<lambda>_ t. \<exists>i. comps (world t) = comps (world s) @ [c\<lparr>cp_ID := i\<rparr>]) (\<lambda>_ _. True) s"
    unfolding CreateComponent_def wp_bindIO wp_wrapErr wp_voidIO
    by (rule wp_checkedCall [unfolded wp_bindIO wp_wrapErr], drule laws(5)) simp
  show "wp True (UpdateComponent env a realm c)
      (\<lambda>_ t. comps (world t) = map (\<lambda>x. if cp_ID x = cp_ID c then c else x) (comps (world s))) (\<lambda>_ _. True) s" if "cp_ID c \<noteq> ''''"
    unfolding UpdateComponent_def wp_bindIO wp_wrapErr wp_voidIO if_not_P [OF that] wp_ret
    by (rule wp_checkedCall [unfolded wp_bindIO wp_wrapErr], drule laws(6)) simp
qed

lemma wp_getParentID:
  assumes "component_server env a realm comps secrets"
  shows "wp True (getParentID env component realm a) (\<lambda>i t. (cs_ParentRef (kc_Spec component) = None \<longrightarrow> i = '''') \<and>
     comps (world t) = comps (world s) \<and> secrets (world t) = secrets (world s)) (\<lambda>_ _. True) s"
proof -
  note laws = component_laws [OF assms]
  let ?same = "\<lambda>(s :: ('a, event, 'b) io_state) (t :: ('a, event, 'b) io_state). comps (world t) = comps (world s) \<and> secrets (world t) = secrets (world s)"
  have k8s: "wp True (k8s_Get env kind ns name) (\<lambda>_. ?same s) (\<lambda>_ _. True) s" for kind ns name s
    unfolding k8s_Get_def by (rule wp_weaken [OF wp_callIO [THEN iffD2]]) (use laws(7) [of "KGet kind ns name" "world s"] in \<open>auto split: prod.split sum.split\<close>)
  have realm: "wp True (adapter_GetRealm env a r) (\<lambda>_. ?same s) (\<lambda>_ _. True) s" for r s
  proof (cases "ga_token a")
    case (Some t)
    show ?thesis
      using laws(8) [of "ga_client a" "GocloakGetRealm (jwt_AccessToken t) r" "world s"]
      by (auto simp: adapter_GetRealm_def withToken_def gocloakCall_def Some wp_callIO split: prod.split sum.split)
  qed (simp add: adapter_GetRealm_def withToken_def)
  have comp: "wp True (GetComponent env a realm name) (\<lambda>_. ?same s) (\<lambda>_ _. True) s" for name s
    by (rule wp_mono [OF wp_GetComponent [OF assms]]) auto
  show ?thesis
    unfolding getParentID_def get_realm_cr_def get_component_cr_def
    by (auto split: option.split k8s_object.split intro!: wp_weaken [OF k8s] wp_weaken [OF realm] wp_weaken [OF comp])
qed

lemma find_snoc: "find P (xs @ [x]) = (case find P xs of None \<Rightarrow> if P x then Some x else None | Some y \<Rightarrow> Some y)"
  by (induction xs) auto

lemma find_replaced:
  assumes "find (\<lambda>c. cp_Name c = name) xs = Some x" and "cp_Name y = name" and "cp_ID y = cp_ID x" and "distinct (map cp_ID xs)"
  shows "find (\<lambda>c. cp_Name c = name) (map (\<lambda>z. if cp_ID z = cp_ID y then y else z) xs) = Some y"
    and "filter (\<lambda>c. cp_Name c \<noteq> name) (map (\<lambda>z. if cp_ID z = cp_ID y then y else z) xs) = filter (\<lambda>c. cp_Name c \<noteq> name) xs"
proof -
  from assms(1) have x: "x \<in> set xs" "cp_Name x = name" by (auto simp: find_Some_iff)
  have same: "z = x" if "z \<in> set xs" "cp_ID z = cp_ID y" for z
    using that x(1) assms(3,4) by (metis distinct_map inj_onD)
  show "find (\<lambda>c. cp_Name c = name) (map (\<lambda>z. if cp_ID z = cp_ID y then y else z) xs) = Some y"
    using assms(1-3) same by (induction xs) (auto split: if_splits)
  show "filter (\<lambda>c. cp_Name c \<noteq> name) (map (\<lambda>z. if cp_ID z = cp_ID y then y else z) xs) = filter (\<lambda>c. cp_Name c \<noteq> name) xs"
    using same x(2) assms(2) by (induction xs) auto
qed

text \<open>What the resource asks for, apart from the id.\<close>

definition describes :: "(string \<Rightarrow> string gomap option) \<Rightarrow> KeycloakComponent \<Rightarrow> Component \<Rightarrow> bool" where
  "describes secrets k c \<longleftrightarrow> cp_Name c = cs_Name (kc_Spec k) \<and> cp_ProviderID c = cs_ProviderID (kc_Spec k) \<and>
     cp_ProviderType c = cs_ProviderType (kc_Spec k) \<and> cp_SubType c = '''' \<and>
     (cs_ParentRef (kc_Spec k) = None \<longrightarrow> cp_ParentID c = '''') \<and>
     (\<forall>key. map_of (cp_Config c) key = Option.bind (map_of (cs_Config (kc_Spec k)) key) (ref_values secrets))"

lemma wp_createKeycloakComponent:
  assumes "component_server env a realm comps secrets"
  shows "wp True (createKeycloakComponent env k realm a) (\<lambda>c t. cp_Config c = cs_Config (kc_Spec k) \<and>
     (\<forall>config i. (\<forall>key. map_of config key = Option.bind (map_of (cs_Config (kc_Spec k)) key) (ref_values (secrets (world s)))) \<longrightarrow>
        describes (secrets (world s)) k (c\<lparr>cp_Config := config, cp_ID := i\<rparr>)) \<and>
     comps (world t) = comps (world s) \<and> secrets (world t) = secrets (world s)) (\<lambda>_ _. True) s"
  unfolding createKeycloakComponent_def Let_def wp_bindIO wp_wrapErr
  by (rule wp_weaken [OF wp_getParentID [OF assms]]) (auto simp: describes_def)


section \<open>The owner reference\<close>

text \<open>
  The reference to a parent component is written by every reconciliation: the kind that is
  registered for components is not the one the controller looks for, so the reference it wrote
  last time is never recognised. Each time all owner references are replaced by the one to the
  parent, which is not a controller, so that the reference to the realm, if the helper has set one, is lost.
\<close>

theorem component_owner_never_recognised:
  assumes "GVKForComponent env = Inr (groupVersion, ''KeycloakComponent'')"
    and "cs_ParentRef (kc_Spec (cm_component (mem s))) = Some parent" and "pc_Kind parent = KeycloakRealmComponentKind"
    and "\<forall>ref \<in> set (om_OwnerReferences (kc_Meta (cm_component (mem s)))). or_Kind ref \<noteq> KeycloakRealmComponentKind"
    and "get_component_cr env (om_Namespace (kc_Meta (cm_component (mem s)))) (pc_Name parent) s = (Ok p, s1)"
    and "setComponentOwnerReference env s = (r, s')"
  shows "\<exists>k. trace s' = trace s1 @ [Kube (KUpdate (ComponentObj k))] \<and> kc_Spec k = kc_Spec (cm_component (mem s)) \<and>
     (\<exists>ref. om_OwnerReferences (kc_Meta k) = [ref] \<and> or_Name ref = om_Name (kc_Meta p) \<and> or_UID ref = om_UID (kc_Meta p) \<and>
        or_Controller ref = Some False \<and> or_Kind ref \<noteq> KeycloakRealmComponentKind)"
proof -
  have m: "mem s1 = mem s"
    using assms(5) by (auto simp: get_component_cr_def k8s_Get_def go_simps split: prod.splits sum.splits k8s_object.splits)
  let ?ref = "\<lparr>or_APIVersion = groupVersion, or_Kind = ''KeycloakComponent'', or_Name = om_Name (kc_Meta p),
      or_UID = om_UID (kc_Meta p), or_BlockOwnerDeletion = Some True, or_Controller = Some False\<rparr>"
  let ?k = "(cm_component (mem s))\<lparr>kc_Meta := (kc_Meta (cm_component (mem s)))\<lparr>om_OwnerReferences := [?ref]\<rparr>\<rparr>"
  have "trace s' = trace s1 @ [Kube (KUpdate (ComponentObj ?k))]"
    using assms m
    by (auto simp: setComponentOwnerReference_def bindIO_def getMem_def modMem_def wrapErr_def k8s_Update_def callIO_def component_obj_def
        split: prod.splits sum.splits)
  then show ?thesis by (intro exI [of _ ?k]) (simp add: KeycloakRealmComponentKind_def)
qed

section \<open>Concrete runs\<close>

definition test_component :: KeycloakComponent where
  "test_component = \<lparr>kc_Meta = zero_ObjectMeta,
     kc_Spec = \<lparr>cs_Name = ''ldap'', cs_RealmRef = \<lparr>rr_Kind = KeycloakRealmKind, rr_Name = ''realm''\<rparr>,
       cs_ConfigRef = \<lparr>cr_Url = '''', cr_Secret = ''s''\<rparr>, cs_ProviderID = ''ldap'', cs_ProviderType = ''storage'',
       cs_SubType = ''sub'', cs_ParentRef = Some \<lparr>pc_Kind = KeycloakRealmComponentKind, pc_Name = ''parent''\<rparr>,
       cs_Config = [(''bind'', [''plain'', ''$db:pass''])], cs_ReconciliationStrategy = ''''\<rparr>,
     kc_Status = \<lparr>cst_Error = '''', cst_Phase = '''', cst_FailureCount = 0\<rparr>\<rparr>"

text \<open>
  A Keycloak that has the parent, may have one component more, and refuses further ones; a
  cluster with one secret in which every component is the parent.
\<close>

definition parent_component :: Component where
  "parent_component = \<lparr>cp_Name = ''p'', cp_ParentID = '''', cp_ProviderID = '''', cp_ProviderType = '''', cp_SubType = '''',
     cp_Config = [], cp_ID = ''1''\<rparr>"

definition component_env :: "Component option env" where
  "component_env = idle_env\<lparr>resty := (\<lambda>cl rq w. case (rsq_method rq, rsq_body rq) of
       (GET, _) \<Rightarrow> (rest_accepted (RestComponents (parent_component # (case w of None \<Rightarrow> [] | Some c \<Rightarrow> [c\<lparr>cp_ID := ''2''\<rparr>]))), w)
     | (POST, RestComponent c) \<Rightarrow> if w = None then (rest_accepted NoRest, Some c) else ((Some (NewError ''full''), None), w)
     | _ \<Rightarrow> ((Some (NewError ''refused''), None), w)),
     k8s := (\<lambda>rq w. (case rq of
         KGet KindSecret _ _ \<Rightarrow> Inr (SecretObj \<lparr>sec_Name = ''db'', sec_Namespace = ''ns'', sec_ResourceVersion = ''1'', sec_OwnerReferences = [], sec_Data = [(''pass'', ''s3cret'')]\<rparr>)
       | KGet KindComponent _ _ \<Rightarrow> Inr (ComponentObj (test_component\<lparr>kc_Spec := (kc_Spec test_component)\<lparr>cs_Name := ''p''\<rparr>\<rparr>))
       | KUpdate x \<Rightarrow> Inr x
       | _ \<Rightarrow> Inl (NewError ''refused''), w))\<rparr>"

definition stored_components :: "Component option \<Rightarrow> Component list" where
  "stored_components w = parent_component # (case w of None \<Rightarrow> [] | Some c \<Rightarrow> [c\<lparr>cp_ID := ''2''\<rparr>])"

definition db_secrets :: "'w \<Rightarrow> string \<Rightarrow> string gomap option" where
  "db_secrets w n = Some [(''pass'', ''s3cret'')]"

lemma component_env_server: "component_server component_env a realm stored_components db_secrets"
proof -
  have idle: "snd (gocloak idle_env cl rq w) = w" for cl rq and w :: "Component option" by (simp add: idle_env_def)
  show ?thesis
    unfolding component_server_def
    by (intro conjI allI impI; auto simp: rest_ok_def rest_sent_def rest_rq_def component_env_def stored_components_def
        db_secrets_def parent_component_def idle checkError_def rest_accepted_def rest_components_def split: option.splits if_splits prod.splits sum.splits)
qed

definition component_start :: "'w \<Rightarrow> KeycloakComponent \<Rightarrow> ('w, event, component_mem) io_state" where
  "component_start w k = \<lparr>world = w, trace = [], mem = \<lparr>cm_component = k\<rparr>\<rparr>"

lemma component_start_simps [simp]:
  "world (component_start w k) = w" "trace (component_start w k) = []" "cm_component (mem (component_start w k)) = k"
  by (simp_all add: component_start_def)


theorem component_owner_witness:
  "\<exists>k ref. last (trace (snd (setComponentOwnerReference component_env (component_start None test_component)))) =
     Kube (KUpdate (ComponentObj k)) \<and> om_OwnerReferences (kc_Meta k) = [ref] \<and> or_Kind ref \<noteq> KeycloakRealmComponentKind"
proof -
  let ?s = "component_start (None :: Component option) test_component"
  let ?get = "get_component_cr component_env (om_Namespace (kc_Meta (cm_component (mem ?s)))) ''parent'' ?s"
  have gvk: "GVKForComponent component_env = Inr (''config.idp.edenlab.io/v1alpha1'', ''KeycloakComponent'')"
    by (simp add: component_env_def idle_env_def)
  have get: "?get = (Ok (test_component\<lparr>kc_Spec := (kc_Spec test_component)\<lparr>cs_Name := ''p''\<rparr>\<rparr>), snd ?get)"
    by (simp add: get_component_cr_def k8s_Get_def component_env_def go_simps)
  have parent: "cs_ParentRef (kc_Spec (cm_component (mem ?s))) = Some \<lparr>pc_Kind = KeycloakRealmComponentKind, pc_Name = ''parent''\<rparr>"
    "\<forall>ref \<in> set (om_OwnerReferences (kc_Meta (cm_component (mem ?s)))). or_Kind ref \<noteq> KeycloakRealmComponentKind"
    by (simp_all add: test_component_def zero_ObjectMeta_def)
  from component_owner_never_recognised [OF gvk parent(1) _ parent(2) _ surjective_pairing] get show ?thesis by fastforce
qed

end
