(* ===== verification/ScopeAdapter.thy ===== *)
theory ScopeAdapter
  imports AdapterMethods
begin

text \<open>
  The methods of the legacy adapter for scope mappings: \<open>gocloak_adapter_scope_mapping.go\<close>,
  \<open>gocloak_adapter_client_scope_mapping.go\<close>, and what they use of \<open>gocloak_adapter_client_scope.go\<close> and
  \<open>gocloak_adapter.go\<close>. The adapter's \<open>RealmRole\<close> has one field, so a list of them is a list of names.
\<close>

section \<open>Roles\<close>

definition gocloak_PBool :: "bool option \<Rightarrow> bool" where
  "gocloak_PBool p = the_default False p"

definition gocloak_roles :: "gocloak_result \<Rightarrow> gocloak_Role option list" where
  "gocloak_roles r = (case r of GocloakRoles x \<Rightarrow> x | _ \<Rightarrow> [])"

definition convertRolePointersToValues :: "gocloak_Role option list \<Rightarrow> gocloak_Role list" where
  "convertRolePointersToValues roles = List.map_filter id roles"

definition convertRoleNameMap :: "gocloak_Role option list \<Rightarrow> gocloak_Role gomap" where
  "convertRoleNameMap roles = build_map gro_Name id (convertRolePointersToValues roles)"

text \<open>\<open>GetRealmRoles\<close> and \<open>GetScopeMappingRealmRoles\<close> build the same map in a loop of their own.\<close>

definition rolesMap :: "gocloak_Role option list \<Rightarrow> gocloak_Role gomap" where
  "rolesMap roles = fold (\<lambda>r m. case r of None \<Rightarrow> m | Some x \<Rightarrow>
     (case gro_Name x of None \<Rightarrow> m | Some n \<Rightarrow> AList.update n x m)) roles []"

definition adapter_GetRealmRoles :: "'w env \<Rightarrow> GoCloakAdapter \<Rightarrow> string \<Rightarrow> ('w, 'm, gocloak_Role gomap) prog" where
  "adapter_GetRealmRoles env a realm =
     bindIO (wrapErr ''failed to get realm roles: '' (withToken a (\<lambda>t. GocloakGetRealmRoles t realm 100) env)) (\<lambda>r.
     ret (rolesMap (gocloak_roles r)))"

definition filterRoles :: "gocloak_Role gomap \<Rightarrow> bool \<Rightarrow> gocloak_Role gomap" where
  "filterRoles roles isRoleClient = filter (\<lambda>(cRoleName, cRole). gocloak_PBool (gro_ClientRole cRole) = isRoleClient) roles"

definition findRoleMath :: "string list \<Rightarrow> gocloak_Role gomap \<Rightarrow> gocloak_Role list" where
  "findRoleMath currentRoles scopeRoles = List.map_filter (map_of scopeRoles) currentRoles"

definition checkFullRoleNameByRealmRoleMatch :: "string \<Rightarrow> gocloak_Role gomap \<Rightarrow> gocloak_Role option" where
  "checkFullRoleNameByRealmRoleMatch role roles = (if roles = [] then None else map_of roles role)"

fun prepareRoles_loop :: "gocloak_Role gomap \<Rightarrow> string list \<Rightarrow> gocloak_Role gomap \<Rightarrow> go_error + gocloak_Role gomap" where
  "prepareRoles_loop existing [] result = Inr result"
| "prepareRoles_loop existing (cRole # rest) result =
     (case checkFullRoleNameByRealmRoleMatch cRole existing of
        None \<Rightarrow> Inl (NewError (''failed to find role with name '' @ cRole))
      | Some obj \<Rightarrow> prepareRoles_loop existing rest (AList.update cRole obj result))"

definition prepareRoles :: "string list \<Rightarrow> gocloak_Role gomap \<Rightarrow> go_error + gocloak_Role gomap" where
  "prepareRoles currRoles existingRealmRoles = prepareRoles_loop existingRealmRoles currRoles []"

definition needCreateRoles ::
  "'w env \<Rightarrow> gocloak_Role gomap \<Rightarrow> gocloak_Role gomap \<Rightarrow> ('w, 'm, gocloak_Role list) prog" where
  "needCreateRoles env currentRoles clientScopeRoles =
     bindIO (range_order (map_rank env) currentRoles) (\<lambda>es.
     ret (map snd (filter (\<lambda>(cRoleName, _). map_of clientScopeRoles cRoleName = None) es)))"

definition needDeleteRoles ::
  "'w env \<Rightarrow> gocloak_Role gomap \<Rightarrow> gocloak_Role gomap \<Rightarrow> ('w, 'm, gocloak_Role list) prog" where
  "needDeleteRoles env currentRoles clientScopeRoles =
     bindIO (range_order (map_rank env) clientScopeRoles) (\<lambda>es.
     ret (map snd (filter (\<lambda>(cRoleName, _). map_of currentRoles cRoleName = None) es)))"

section \<open>Looking up a client scope and a client\<close>

definition getRealmClientScopes :: string where
  "getRealmClientScopes = ''/admin/realms/{realm}/client-scopes''"

definition rest_clientScopes :: "rest_response \<Rightarrow> adapter_ClientScope list option" where
  "rest_clientScopes r = (case rsr_Result r of RestClientScopes x \<Rightarrow> Some x | _ \<Rightarrow> None)"

definition getClientScope :: "string \<Rightarrow> adapter_ClientScope list \<Rightarrow> go_error + adapter_ClientScope" where
  "getClientScope name clientScopes = (case find (\<lambda>cs. dcs_Name cs = name) clientScopes of
     Some cs \<Rightarrow> Inr cs
   | None \<Rightarrow> Inl (NotFoundErr (''scope '' @ name @ '' was not found'')))"

definition GetClientScope :: "'w env \<Rightarrow> GoCloakAdapter \<Rightarrow> string \<Rightarrow> string \<Rightarrow> ('w, 'm, adapter_ClientScope) prog" where
  "GetClientScope env a scopeName realmName =
     bindIO (restCall env a GET getRealmClientScopes [(''realm'', realmName)] NoRest) (\<lambda>ans.
     bindIO (checked ans) (\<lambda>resp.
     case rest_clientScopes resp of
       None \<Rightarrow> fail (NotFoundErr (''realm '' @ realmName @ '' doesnt contain client scopes, rsp: '' @ rsr_String resp))
     | Some result \<Rightarrow> liftIO (getClientScope scopeName result)))"

definition adapter_GetClient :: "'w env \<Rightarrow> GoCloakAdapter \<Rightarrow> string \<Rightarrow> string \<Rightarrow> ('w, 'm, gocloak_Client) prog" where
  "adapter_GetClient env a realm client =
     bindIO (wrapErr (''failed to get clients for realm '' @ realm @ '': '')
       (withToken a (\<lambda>t. GocloakGetClients t realm (Some client)) env)) (\<lambda>r.
     case gocloak_clients r of
       [] \<Rightarrow> fail (NotFoundErr (''client '' @ client @ '' doesn't exist''))
     | [c] \<Rightarrow> ret c
     | _ \<Rightarrow> fail (NewError (''more than one client with ID '' @ client @ '' found'')))"

definition getExistingClientRoles :: "'w env \<Rightarrow> GoCloakAdapter \<Rightarrow> string \<Rightarrow> string \<Rightarrow> ('w, 'm, gocloak_Role gomap) prog" where
  "getExistingClientRoles env a realmName clientID =
     bindIO (wrapErr ''failed to get client roles: '' (withToken a (\<lambda>t. GocloakGetClientRoles t realmName clientID 1000) env)) (\<lambda>r.
     ret (convertRoleNameMap (gocloak_roles r)))"

section \<open>gocloak_adapter_scope_mapping.go\<close>

definition GetScopeMappingRealmRoles ::
  "'w env \<Rightarrow> GoCloakAdapter \<Rightarrow> string \<Rightarrow> string \<Rightarrow> ('w, 'm, gocloak_Role gomap) prog" where
  "GetScopeMappingRealmRoles env a realm scopeID =
     bindIO (wrapErr ''failed to get realm roles by scope: ''
       (withToken a (\<lambda>t. GocloakGetClientScopesScopeMappingsRealmRoles t realm scopeID) env)) (\<lambda>r.
     ret (rolesMap (gocloak_roles r)))"

text \<open>The last part of \<open>createOrDeleteRoleScopeMapping\<close> and of \<open>createOrDeleteRoleScope\<close>, the same in both.\<close>

definition syncScopeRoles ::
  "'w env \<Rightarrow> GoCloakAdapter \<Rightarrow> string \<Rightarrow> string \<Rightarrow> gocloak_Role gomap \<Rightarrow> gocloak_Role gomap \<Rightarrow> ('w, 'm, unit) prog" where
  "syncScopeRoles env a realmName scopeID currentRoles rolesWithScope =
     bindIO (needCreateRoles env currentRoles rolesWithScope) (\<lambda>newRoles.
     bindIO (wrapErr ''error during create client scope mapping client roles: ''
       (withToken a (\<lambda>t. GocloakCreateClientScopesScopeMappingsRealmRoles t realmName scopeID newRoles) env)) (\<lambda>_.
     bindIO (needDeleteRoles env currentRoles rolesWithScope) (\<lambda>delRoles.
     if delRoles = [] then ret ()
     else wrapErr ''error during delete client scope mapping client roles: ''
       (voidIO (withToken a (\<lambda>t. GocloakDeleteClientScopesScopeMappingsRealmRoles t realmName scopeID delRoles) env)))))"

definition createOrDeleteRoleScopeMapping ::
  "'w env \<Rightarrow> GoCloakAdapter \<Rightarrow> string \<Rightarrow> string \<Rightarrow> string list \<Rightarrow> ('w, 'm, unit) prog" where
  "createOrDeleteRoleScopeMapping env a realmName scopeID rols =
     bindIO (wrapErr ''failed to get realm roles: '' (adapter_GetRealmRoles env a realmName)) (\<lambda>existingRoles.
     bindIO (wrapErr ''error during createOrDeleteRoleScope: '' (liftIO (prepareRoles rols existingRoles))) (\<lambda>currentClientRoles.
     bindIO (wrapErr ''failed to get realm roles by scope: '' (GetScopeMappingRealmRoles env a realmName scopeID)) (\<lambda>existingWithScope.
     syncScopeRoles env a realmName scopeID currentClientRoles (filterRoles existingWithScope False))))"

definition SyncRealmScopeMapping ::
  "'w env \<Rightarrow> GoCloakAdapter \<Rightarrow> string \<Rightarrow> string \<Rightarrow> string list \<Rightarrow> ('w, 'm, unit) prog" where
  "SyncRealmScopeMapping env a realmName scopeID roles =
     wrapErr ''error during createOrDeleteRoleScopeMapping: '' (createOrDeleteRoleScopeMapping env a realmName scopeID roles)"

definition DeleteScopeMappingRoles ::
  "'w env \<Rightarrow> GoCloakAdapter \<Rightarrow> string \<Rightarrow> string \<Rightarrow> string list \<Rightarrow> ('w, 'm, unit) prog" where
  "DeleteScopeMappingRoles env a realmName scopeID currRoles =
     bindIO (wrapErr ''failed to get realm roles by scope: '' (GetScopeMappingRealmRoles env a realmName scopeID)) (\<lambda>existingWithScope.
     voidIO (withToken a (\<lambda>t. GocloakDeleteClientScopesScopeMappingsRealmRoles t realmName scopeID
       (findRoleMath currRoles (filterRoles existingWithScope False))) env))"

section \<open>gocloak_adapter_client_scope_mapping.go\<close>

record ScopeMappingOptions =
  smo_Client :: string
  smo_ClientScope :: string

definition isOnlyClientScope :: "ScopeMappingOptions \<Rightarrow> bool" where
  "isOnlyClientScope smo \<longleftrightarrow> smo_ClientScope smo \<noteq> '''' \<and> smo_Client smo = ''''"

definition isOnlyClient :: "ScopeMappingOptions \<Rightarrow> bool" where
  "isOnlyClient smo \<longleftrightarrow> smo_ClientScope smo = '''' \<and> smo_Client smo \<noteq> ''''"

definition checkRequired :: "ScopeMappingOptions \<Rightarrow> bool" where
  "checkRequired smo \<longleftrightarrow> smo_ClientScope smo = '''' \<and> smo_Client smo = ''''"

text \<open>A scope that is not found leaves a nil pointer, which is dereferenced further down.\<close>

definition findClientScope ::
  "'w env \<Rightarrow> GoCloakAdapter \<Rightarrow> string \<Rightarrow> string \<Rightarrow> ('w, 'm, adapter_ClientScope option) prog" where
  "findClientScope env a scopeName realmName =
     bindIO (tryIO (GetClientScope env a scopeName realmName)) (\<lambda>res. case res of
       Inl err \<Rightarrow> if \<not> IsErrNotFound err then fail (Wrapped ''unable to get client scope: '' err) else ret None
     | Inr cs \<Rightarrow> ret (Some cs))"

definition createOrDeleteRoleScope ::
  "'w env \<Rightarrow> GoCloakAdapter \<Rightarrow> string \<Rightarrow> string \<Rightarrow> string list \<Rightarrow> ScopeMappingOptions \<Rightarrow> ('w, 'm, unit) prog" where
  "createOrDeleteRoleScope env a realmName fromClientID rols opts =
     bindIO (findClientScope env a (smo_ClientScope opts) realmName) (\<lambda>clientScope.
     bindIO (case clientScope of
               None \<Rightarrow> ret []
             | Some cs \<Rightarrow> wrapErr ''failed to get realm roles by scope: ''
                 (GetScopeMappingRealmRoles env a realmName (dcs_ID cs))) (\<lambda>existingWithScope.
     bindIO (wrapErr ''failed to get client roles: '' (getExistingClientRoles env a realmName fromClientID)) (\<lambda>existingRoles.
     bindIO (wrapErr ''error during createOrDeleteRoleScope: '' (liftIO (prepareRoles rols existingRoles))) (\<lambda>currentClientRoles.
     bindIO (derefIO clientScope) (\<lambda>cs.
     syncScopeRoles env a realmName (dcs_ID cs) currentClientRoles (filterRoles existingWithScope True))))))"

definition createOrDeleteClientRoleToClient ::
  "'w env \<Rightarrow> GoCloakAdapter \<Rightarrow> string \<Rightarrow> string \<Rightarrow> string list \<Rightarrow> ScopeMappingOptions \<Rightarrow> ('w, 'm, unit) prog" where
  "createOrDeleteClientRoleToClient env a realmName fromClientID rols opts =
     bindIO (wrapErr ''failed to get client roles: '' (getExistingClientRoles env a realmName fromClientID)) (\<lambda>existingRoles.
     bindIO (wrapErr ''error during createOrDeleteRoleScope: '' (liftIO (prepareRoles rols existingRoles))) (\<lambda>currentClientRoles.
     bindIO (wrapErr ''error during find client: '' (adapter_GetClient env a realmName (smo_Client opts))) (\<lambda>toClient.
     let to = gocloak_PString (gcl_ID toClient) in
     bindIO (wrapErr ''failed to get roles by client: ''
       (withToken a (\<lambda>t. GocloakGetClientScopeMappingsClientRoles t realmName to fromClientID) env)) (\<lambda>r.
     let existingMap = convertRoleNameMap (gocloak_roles r) in
     bindIO (needCreateRoles env currentClientRoles existingMap) (\<lambda>newRoles.
     bindIO (wrapErr ''error during create client scope mapping client: ''
       (withToken a (\<lambda>t. GocloakCreateClientScopeMappingsClientRoles t realmName to fromClientID newRoles) env)) (\<lambda>_.
     bindIO (needDeleteRoles env currentClientRoles existingMap) (\<lambda>delRoles.
     wrapErr ''error during delete client scope mapping client: ''
       (voidIO (withToken a (\<lambda>t. GocloakDeleteClientScopeMappingsClientRoles t realmName to fromClientID delRoles) env)))))))))"

definition SyncRealmClientScopeMapping ::
  "'w env \<Rightarrow> GoCloakAdapter \<Rightarrow> string \<Rightarrow> string \<Rightarrow> string list \<Rightarrow> ScopeMappingOptions \<Rightarrow> ('w, 'm, unit) prog" where
  "SyncRealmClientScopeMapping env a fromClientID realmName rols opts =
     (if checkRequired opts then fail (NewError ''must provide either ClientScope or FromClient'')
      else
        bindIO (whenIO (isOnlyClientScope opts) (wrapErr ''error during createOrDeleteRoleScope: ''
          (createOrDeleteRoleScope env a realmName fromClientID rols opts))) (\<lambda>_.
        whenIO (isOnlyClient opts) (wrapErr ''error during createOrDeleteRoleScope: ''
          (createOrDeleteClientRoleToClient env a realmName fromClientID rols opts))))"

definition DeleteClientScopeMappingRealmRoles ::
  "'w env \<Rightarrow> GoCloakAdapter \<Rightarrow> string \<Rightarrow> string \<Rightarrow> ScopeMappingOptions \<Rightarrow> string list \<Rightarrow> ('w, 'm, unit) prog" where
  "DeleteClientScopeMappingRealmRoles env a realmName fromClientID opts currRoles =
     (if checkRequired opts then fail (NewError ''failed to delete not set required fields ClientScope or Client'')
      else if isOnlyClientScope opts then
        bindIO (findClientScope env a (smo_ClientScope opts) realmName) (\<lambda>clientScope.
        bindIO (derefIO clientScope) (\<lambda>cs.
        bindIO (wrapErr ''failed to get realm roles by scope: '' (GetScopeMappingRealmRoles env a realmName (dcs_ID cs))) (\<lambda>existingWithScope.
        voidIO (withToken a (\<lambda>t. GocloakDeleteClientScopesScopeMappingsRealmRoles t realmName (dcs_ID cs)
          (findRoleMath currRoles (filterRoles existingWithScope True))) env))))
      else if isOnlyClient opts then
        bindIO (wrapErr ''error during find client: '' (adapter_GetClient env a realmName (smo_Client opts))) (\<lambda>toClient.
        let to = gocloak_PString (gcl_ID toClient) in
        bindIO (wrapErr ''failed to get roles by client: ''
          (withToken a (\<lambda>t. GocloakGetClientScopeMappingsClientRoles t realmName to fromClientID) env)) (\<lambda>r.
        wrapErr ''error during delete client scope mapping client: ''
          (voidIO (withToken a (\<lambda>t. GocloakDeleteClientScopeMappingsClientRoles t realmName to fromClientID
            (findRoleMath currRoles (convertRoleNameMap (gocloak_roles r)))) env))))
      else ret ())"

end
