(* ===== verification/ScopeController.thy ===== *)
theory ScopeController
  imports ScopeAdapter ComponentController
begin

text \<open>
  \<open>internal/controller/keycloakscopemapping\<close>: the terminator of a \<open>KeycloakScopeMapping\<close> and one
  reconciliation of it. The memory of a run holds the resource.
\<close>

record scope_mem =
  scm_scope :: KeycloakScopeMapping

type_synonym ('w, 'a) scope_prog = "('w, scope_mem, 'a) prog"

definition scope_obj :: "scope_mem client_Object" where
  "scope_obj = \<lparr>obj_meta = (\<lambda>m. sm_Meta (scm_scope m)),
     obj_set_meta = (\<lambda>x m. m\<lparr>scm_scope := (scm_scope m)\<lparr>sm_Meta := x\<rparr>\<rparr>),
     obj_out = (\<lambda>m. ScopeMappingObj (scm_scope m)),
     obj_in = (\<lambda>x m. case x of ScopeMappingObj k \<Rightarrow> m\<lparr>scm_scope := k\<rparr> | _ \<Rightarrow> m)\<rparr>"

interpretation scope_object: client_object scope_obj
  by unfold_locales (simp_all add: scope_obj_def)

section \<open>terminator.go\<close>

record scope_terminator =
  st_realmName :: string
  st_scopeID :: string
  st_clientScope :: string
  st_client :: string
  st_roles :: "string list"
  st_kClient :: GoCloakAdapter
  st_preserveResourcesOnDeletion :: bool

definition scope_delete :: "'w env \<Rightarrow> scope_terminator \<Rightarrow> ('w, 'm, unit) prog" where
  "scope_delete env t =
     (if st_scopeID t = '''' then ret ()
      else if (st_clientScope t \<noteq> '''' \<or> st_client t \<noteq> '''') \<and> st_scopeID t \<noteq> '''' then
        DeleteClientScopeMappingRealmRoles env (st_kClient t) (st_realmName t) (st_scopeID t)
          \<lparr>smo_Client = st_client t, smo_ClientScope = st_clientScope t\<rparr> (st_roles t)
      else DeleteScopeMappingRoles env (st_kClient t) (st_realmName t) (st_scopeID t) (st_roles t))"

definition scope_DeleteResource :: "'w env \<Rightarrow> scope_terminator \<Rightarrow> ('w, 'm, unit) prog" where
  "scope_DeleteResource env t =
     (if st_preserveResourcesOnDeletion t then ret ()
      else
        bindIO (tryIO (scope_delete env t)) (\<lambda>res. case res of
          Inr _ \<Rightarrow> ret ()
        | Inl err \<Rightarrow> if IsErrNotFound err then ret () else fail (Wrapped ''failed to delete scope mapping: '' err)))"

section \<open>keycloakscopemapping_controller.go\<close>

definition scope_finalizerName :: string where
  "scope_finalizerName = ''keycloak.scopemapping.operator.finalizer.name''"

text \<open>
  \<open>SyncErr\<close>: the error that is reported although the reconciliation goes on. \<open>tryReconcile\<close> returns
  it beside the id; its other errors are errors of the run, and none of them is a \<open>SyncErr\<close>.
\<close>

datatype SyncErr = SyncErr (se_Err: "go_error option")

definition SyncErr_Error :: "SyncErr \<Rightarrow> string" where
  "SyncErr_Error se = (case se_Err se of None \<Rightarrow> '''' | Some err \<Rightarrow> Error err)"

definition get_scope_cr :: "'w env \<Rightarrow> string \<Rightarrow> string \<Rightarrow> ('w, 'm, KeycloakScopeMapping) prog" where
  "get_scope_cr env ns name =
     bindIO (k8s_Get env KindScopeMapping ns name) (\<lambda>x. case x of ScopeMappingObj k \<Rightarrow> ret k | _ \<Rightarrow> fail decode_error)"

definition getAdapterRoles :: "KeycloakScopeMapping \<Rightarrow> string list" where
  "getAdapterRoles instance = sms_Roles (sm_Spec instance)"

definition set_status_ID :: "string \<Rightarrow> KeycloakScopeMapping \<Rightarrow> KeycloakScopeMapping" where
  "set_status_ID i k = k\<lparr>sm_Status := (sm_Status k)\<lparr>smt_ID := i\<rparr>\<rparr>"

definition syncScopeMapping :: "'w env \<Rightarrow> string \<Rightarrow> GoCloakAdapter \<Rightarrow> ('w, string) scope_prog" where
  "syncScopeMapping env realmName cl =
     bindIO (getMem scm_scope) (\<lambda>instance.
     bindIO (tryIO (GetClientScope env cl (sms_ClientScope (sm_Spec instance)) realmName)) (\<lambda>res. case res of
       Inl err \<Rightarrow>
         if \<not> IsErrNotFound err then fail (Wrapped ''unable to get client scope: '' err)
         else fail (NewError (''not fount syncScopeMapping clientScope '' @ sms_ClientScope (sm_Spec instance)))
     | Inr clientScope \<Rightarrow>
         bindIO (wrapErr ''failed to SyncRealmScopeMapping: ''
           (SyncRealmScopeMapping env cl realmName (dcs_ID clientScope) (getAdapterRoles instance))) (\<lambda>_.
         bindIO (modMem (\<lambda>m. m\<lparr>scm_scope := set_status_ID (dcs_ID clientScope) (scm_scope m)\<rparr>)) (\<lambda>_.
         ret (dcs_ID clientScope)))))"

definition syncClientScopeMapping :: "'w env \<Rightarrow> string \<Rightarrow> GoCloakAdapter \<Rightarrow> ('w, string) scope_prog" where
  "syncClientScopeMapping env realmName cl =
     bindIO (getMem scm_scope) (\<lambda>instance.
     bindIO (tryIO (adapter_GetClient env cl realmName (sms_FromClient (sm_Spec instance)))) (\<lambda>res. case res of
       Inl err \<Rightarrow>
         if \<not> IsErrNotFound err then fail (Wrapped ''unable to get client: '' err)
         else fail (NewError (''not fount syncClientScopeMapping FromClient '' @ sms_FromClient (sm_Spec instance)))
     | Inr existingClient \<Rightarrow>
         let fromClientID = gocloak_PString (gcl_ID existingClient) in
         bindIO (wrapErr ''failed to SyncRealmClientScopeMapping: ''
           (SyncRealmClientScopeMapping env cl fromClientID realmName (getAdapterRoles instance)
             \<lparr>smo_Client = sms_Client (sm_Spec instance), smo_ClientScope = sms_ClientScope (sm_Spec instance)\<rparr>)) (\<lambda>_.
         bindIO (modMem (\<lambda>m. m\<lparr>scm_scope := set_status_ID fromClientID (scm_scope m)\<rparr>)) (\<lambda>_.
         ret fromClientID))))"

definition scope_Sync :: "'w env \<Rightarrow> string \<Rightarrow> GoCloakAdapter \<Rightarrow> ('w, string) scope_prog" where
  "scope_Sync env realmName cl =
     bindIO (getMem (\<lambda>m. sm_Spec (scm_scope m))) (\<lambda>spec.
     if (sms_Client spec = '''' \<or> sms_FromClient spec = '''') \<and> sms_ClientScope spec = ''''
     then fail (NewError ''required fields client or fromClient or clientScope'')
     else if sms_Client spec \<noteq> '''' \<or> sms_FromClient spec \<noteq> '''' then syncClientScopeMapping env realmName cl
     else syncScopeMapping env realmName cl)"

definition scope_makeTerminator :: "GoCloakAdapter \<Rightarrow> string \<Rightarrow> KeycloakScopeMapping \<Rightarrow> scope_terminator" where
  "scope_makeTerminator cl realmName instance =
     \<lparr>st_realmName = realmName, st_scopeID = smt_ID (sm_Status instance), st_clientScope = sms_ClientScope (sm_Spec instance),
      st_client = sms_Client (sm_Spec instance), st_roles = getAdapterRoles instance, st_kClient = cl,
      st_preserveResourcesOnDeletion = PreserveResourcesOnDeletion (sm_Meta instance)\<rparr>"

text \<open>The part of \<open>tryReconcile\<close> that follows the lookup of the realm.\<close>

definition scope_serve :: "'w env \<Rightarrow> string \<Rightarrow> GoCloakAdapter \<Rightarrow> ('w, string \<times> SyncErr option) scope_prog" where
  "scope_serve env realmName cl =
     bindIO (tryIO (scope_Sync env realmName cl)) (\<lambda>res.
     bindIO (case res of
         Inr i \<Rightarrow> ret (i, SyncErr None)
       | Inl err \<Rightarrow>
           if \<not> IsNoMatchScopeMapping (Some err) then fail (Wrapped ''unable to create keycloak scope mapping: '' err)
           else ret ('''', SyncErr (Some (Wrapped ''unable to create keycloak scope mapping: '' err)))) (\<lambda>(i, syncErr).
     bindIO (getMem scm_scope) (\<lambda>instance.
     bindIO (wrapErr ''unable to delete scope mapping: ''
       (TryToDelete env scope_obj (scope_DeleteResource env (scope_makeTerminator cl realmName instance)) scope_finalizerName)) (\<lambda>_.
     ret (i, Some syncErr)))))"

definition scope_tryReconcile :: "'w env \<Rightarrow> HelperConf \<Rightarrow> ('w, string \<times> SyncErr option) scope_prog" where
  "scope_tryReconcile env h =
     bindIO (wrapErr ''unable to set realm owner ref: ''
       (SetRealmOwnerRef env h scope_obj (\<lambda>m. sms_RealmRef (sm_Spec (scm_scope m))))) (\<lambda>_.
     bindIO (getMem (\<lambda>m. sms_ConfigRef (sm_Spec (scm_scope m)))) (\<lambda>configRef.
     bindIO (tryIO (CreateKeycloakClientFromConfigRef env h configRef)) (\<lambda>res. case res of
       Inl err \<Rightarrow>
         if errors_Is err ErrKeycloakRealmNotFound then
           bindIO (wrapErr ''unable to remove finalizer: '' (TryRemoveFinalizer env scope_obj scope_finalizerName)) (\<lambda>_.
           ret ('''', None))
         else fail (Wrapped ''unable to create keycloak client from realm ref: '' err)
     | Inr cl \<Rightarrow>
         bindIO (wrapErr ''unable to get keycloak realm from ref: ''
           (GetKeycloakRealmFromRef env h scope_obj (\<lambda>m. sms_RealmRef (sm_Spec (scm_scope m))) cl)) (\<lambda>res.
         bindIO (derefIO res) (\<lambda>realm.
         scope_serve env (gocloak_PString (grl_Realm realm)) cl)))))"

definition updateKeycloakScopeMappingStatus :: "'w env \<Rightarrow> KeycloakScopeMappingStatus \<Rightarrow> ('w, unit) scope_prog" where
  "updateKeycloakScopeMappingStatus env oldStatus =
     bindIO (getMem scm_scope) (\<lambda>scopeMapping.
     if sm_Status scopeMapping = oldStatus then ret ()
     else wrapErr ''failed to update KeycloakScopeMapping status: '' (k8s_StatusUpdate env scope_obj))"

definition scope_failed :: "go_error \<Rightarrow> KeycloakScopeMapping \<Rightarrow> KeycloakScopeMapping" where
  "scope_failed err k = k\<lparr>sm_Status := (sm_Status k)\<lparr>smt_Error := Error err, smt_Phase := PhaseFailed\<rparr>\<rparr>"

definition scope_completed :: "string \<Rightarrow> SyncErr option \<Rightarrow> KeycloakScopeMapping \<Rightarrow> KeycloakScopeMapping" where
  "scope_completed i syncErr k =
     (let k1 = k\<lparr>sm_Status := (sm_Status k)\<lparr>smt_Error := (case syncErr of None \<Rightarrow> '''' | Some se \<Rightarrow> SyncErr_Error se)\<rparr>\<rparr>;
          k2 = (if i \<noteq> '''' then set_status_ID i k1 else k1)
      in k2\<lparr>sm_Status := (sm_Status k2)\<lparr>smt_Phase := PhaseCompleted\<rparr>\<rparr>)"

definition scope_Reconcile :: "'w env \<Rightarrow> HelperConf \<Rightarrow> string \<Rightarrow> string \<Rightarrow> ('w, ctrl_Result) scope_prog" where
  "scope_Reconcile env h ns name =
     bindIO (tryIO (get_scope_cr env ns name)) (\<lambda>res. case res of
       Inl err \<Rightarrow> if k8s_IsNotFound err then ret zero_Result
         else fail (Wrapped ''unable to get keycloak scope mapping from k8s: '' err)
     | Inr scope \<Rightarrow>
         bindIO (modMem (\<lambda>m. m\<lparr>scm_scope := scope\<rparr>)) (\<lambda>_.
         bindIO (tryIO (scope_tryReconcile env h)) (\<lambda>res. case res of
           Inl err \<Rightarrow>
             if errors_Is err ErrKeycloakIsNotAvailable then ret RequeueOnKeycloakNotAvailable
             else
               bindIO (modMem (\<lambda>m. m\<lparr>scm_scope := scope_failed err (scm_scope m)\<rparr>)) (\<lambda>_.
               bindIO (updateKeycloakScopeMappingStatus env (sm_Status scope)) (\<lambda>_.
               fail err))
         | Inr (i, syncErr) \<Rightarrow>
             bindIO (modMem (\<lambda>m. m\<lparr>scm_scope := scope_completed i syncErr (scm_scope m)\<rparr>)) (\<lambda>_.
             bindIO (updateKeycloakScopeMappingStatus env (sm_Status scope)) (\<lambda>_.
             ret zero_Result)))))"

end
