(* ===== verification/ScopeProps.thy ===== *)
theory ScopeProps
  imports ScopeController AdapterLaws
begin

text \<open>
  Properties of the controller of scope mappings, over what Keycloak does with the adapter's
  requests: which roles are mapped after a run, and what happens when a resource is deleted.
\<close>

section \<open>Requests over gocloak\<close>

definition gocloak_sent ::
  "'w env \<Rightarrow> GoCloakAdapter \<Rightarrow> (string \<Rightarrow> gocloak_request) \<Rightarrow> 'w \<Rightarrow> gocloak_result \<Rightarrow> 'w \<Rightarrow> bool" where
  "gocloak_sent env a rq w r w' \<longleftrightarrow>
     (\<exists>t. ga_token a = Some t \<and> gocloak env (ga_client a) (rq (jwt_AccessToken t)) w = (Inr r, w'))"

lemma wp_withToken:
  assumes "\<And>r w' tr. gocloak_sent env a rq (world s) r w' \<Longrightarrow> Q r (s\<lparr>world := w', trace := tr\<rparr>)"
  shows "wp True (withToken a rq env) Q (\<lambda>_ _. True) s"
  using assms
  by (auto simp: withToken_def gocloakCall_def gocloak_sent_def wp_callIO split: option.split prod.split sum.split)

section \<open>Maps of roles\<close>

lemma rolesMap_eq: "rolesMap roles = convertRoleNameMap roles"
proof -
  have "fold (\<lambda>r m. case r of None \<Rightarrow> m | Some x \<Rightarrow> (case gro_Name x of None \<Rightarrow> m | Some n \<Rightarrow> AList.update n x m)) roles m0 =
    fold (\<lambda>x m. case gro_Name x of None \<Rightarrow> m | Some n \<Rightarrow> AList.update n x m) (List.map_filter id roles) m0" for m0
    by (induction roles arbitrary: m0) (auto simp: List.map_filter_simps split: option.split)
  then show ?thesis by (simp add: rolesMap_def convertRoleNameMap_def build_map_def convertRolePointersToValues_def id_def)
qed

text \<open>The names of the realm roles (\<open>False\<close>) or of the client roles (\<open>True\<close>) of a list.\<close>

definition role_names :: "bool \<Rightarrow> gocloak_Role list \<Rightarrow> string set" where
  "role_names level rs = {n. \<exists>x \<in> set rs. gocloak_PBool (gro_ClientRole x) = level \<and> gro_Name x = Some n}"

definition good_roles :: "bool \<Rightarrow> gocloak_Role gomap \<Rightarrow> bool" where
  "good_roles level m \<longleftrightarrow> distinct (map fst m) \<and>
     (\<forall>(k, v) \<in> set m. gro_Name v = Some k \<and> gocloak_PBool (gro_ClientRole v) = level)"

lemma good_filterRoles: "good_roles level (filterRoles (convertRoleNameMap rs) level)"
proof -
  have "distinct (map fst (filterRoles (convertRoleNameMap rs) level))"
    by (simp add: filterRoles_def convertRoleNameMap_def distinct_map_filter)
  then show ?thesis
    by (auto simp: good_roles_def filterRoles_def convertRoleNameMap_def dest: build_map_val)
qed

lemma good_convertRoleNameMap:
  "\<forall>x \<in> set (convertRolePointersToValues rs). gocloak_PBool (gro_ClientRole x) = level \<Longrightarrow>
   good_roles level (convertRoleNameMap rs)"
  by (auto simp: good_roles_def convertRoleNameMap_def dest: build_map_val)

lemma good_level:
  "role_names (\<not> level) (convertRolePointersToValues rs) = {} \<Longrightarrow> good_roles level (convertRoleNameMap rs)"
  unfolding good_roles_def convertRoleNameMap_def role_names_def by (fastforce dest: build_map_val)

lemma keys_convertRoleNameMap:
  "role_names (\<not> level) (convertRolePointersToValues rs) = {} \<Longrightarrow>
   fst ` set (convertRoleNameMap rs) = role_names level (convertRolePointersToValues rs)"
  by (auto simp: convertRoleNameMap_def keys_build_map role_names_def)

lemma filterRoles_level:
  "role_names (\<not> level) (convertRolePointersToValues rs) = {} \<Longrightarrow>
   filterRoles (convertRoleNameMap rs) level = convertRoleNameMap rs"
  "role_names (\<not> level) (convertRolePointersToValues rs) = {} \<Longrightarrow>
   filterRoles (convertRoleNameMap rs) (\<not> level) = []"
  using good_level [of level rs] by (auto simp: good_roles_def filterRoles_def filter_id_conv filter_empty_conv)

lemma prepareRoles_loop_ok:
  "prepareRoles_loop ex rols m = Inr m' \<Longrightarrow> good_roles level ex \<Longrightarrow> good_roles level m \<Longrightarrow>
   good_roles level m' \<and> fst ` set m' = fst ` set m \<union> set rols"
proof (induction rols arbitrary: m)
  case (Cons n rols)
  then obtain v where v: "map_of ex n = Some v" and rest: "prepareRoles_loop ex rols (AList.update n v m) = Inr m'"
    by (auto simp: checkFullRoleNameByRealmRoleMatch_def split: option.splits if_splits)
  have val: "gro_Name v = Some n \<and> gocloak_PBool (gro_ClientRole v) = level"
    using Cons.prems(2) map_of_SomeD [OF v] by (auto simp: good_roles_def)
  have "(k, x) \<in> set (AList.update n v m) \<Longrightarrow> (k, x) \<in> set m \<or> (k = n \<and> x = v)" for k x
    by (induction m) (auto split: if_splits)
  with Cons.prems(3) val have "good_roles level (AList.update n v m)"
    by (fastforce simp: good_roles_def distinct_update)
  from Cons.IH [OF rest Cons.prems(2) this] show ?case by (auto simp: dom_update)
qed auto

lemma prepareRoles_ok:
  assumes "prepareRoles rols ex = Inr cur" and "good_roles level ex"
  shows "good_roles level cur" "fst ` set cur = set rols"
  using prepareRoles_loop_ok [OF assms(1) [unfolded prepareRoles_def] assms(2)] by (auto simp: good_roles_def)

definition at_level :: "bool \<Rightarrow> string set \<Rightarrow> bool \<Rightarrow> string set" where
  "at_level level ns l = (if l = level then ns else {})"

lemma at_level_simps [simp]: "at_level l ns l = ns" "at_level True ns False = {}" "at_level False ns True = {}"
  by (simp_all add: at_level_def)

lemma role_names_good:
  assumes "good_roles level m" and "mset es = mset m"
  shows "role_names l (map snd (filter (\<lambda>(n, _). P n) es)) = at_level level {n \<in> fst ` set m. P n} l"
proof -
  from assms(2) have "set es = set m" by (metis set_mset_mset)
  with assms(1) show ?thesis by (force simp: role_names_def good_roles_def at_level_def)
qed

section \<open>What an endpoint for mapped roles does\<close>

text \<open>
  The three requests on the roles mapped to a client scope or to a client. The roles of a level
  (of the realm, or of clients) that are mapped in a world are a set of names. Reading returns
  those of one level only, posting and deleting go by role, whatever its level.
\<close>

definition scope_endpoint ::
  "'w env \<Rightarrow> GoCloakAdapter \<Rightarrow> bool \<Rightarrow> (string \<Rightarrow> gocloak_request) \<Rightarrow> (gocloak_Role list \<Rightarrow> string \<Rightarrow> gocloak_request) \<Rightarrow>
   (gocloak_Role list \<Rightarrow> string \<Rightarrow> gocloak_request) \<Rightarrow> ('w \<Rightarrow> bool \<Rightarrow> string set) \<Rightarrow> bool" where
  "scope_endpoint env a level get create delete mapped \<longleftrightarrow>
     (\<forall>w r w'. gocloak_sent env a get w r w' \<longrightarrow> mapped w' = mapped w \<and>
        role_names level (convertRolePointersToValues (gocloak_roles r)) = mapped w level \<and>
        role_names (\<not> level) (convertRolePointersToValues (gocloak_roles r)) = {}) \<and>
     (\<forall>rs w r w'. gocloak_sent env a (create rs) w r w' \<longrightarrow> (\<forall>l. mapped w' l = mapped w l \<union> role_names l rs)) \<and>
     (\<forall>rs w r w'. gocloak_sent env a (delete rs) w r w' \<longrightarrow> (\<forall>l. mapped w' l = mapped w l - role_names l rs))"

text \<open>A request for roles that changes nothing and returns roles of one level.\<close>

definition lists_roles ::
  "'w env \<Rightarrow> GoCloakAdapter \<Rightarrow> bool \<Rightarrow> (string \<Rightarrow> gocloak_request) \<Rightarrow> ('w \<Rightarrow> bool \<Rightarrow> string set) \<Rightarrow> bool" where
  "lists_roles env a level get mapped \<longleftrightarrow> (\<forall>w r w'. gocloak_sent env a get w r w' \<longrightarrow> mapped w' = mapped w \<and>
     (\<forall>x \<in> set (convertRolePointersToValues (gocloak_roles r)). gocloak_PBool (gro_ClientRole x) = level))"

text \<open>Creating what is missing and deleting what is too much.\<close>

lemma wp_create_and_delete:
  assumes endpoint: "scope_endpoint env a level get create delete mapped"
    and cur: "good_roles lc cur" and ex: "good_roles le ex"
  shows "wp True (bindIO (needCreateRoles env cur ex) (\<lambda>new. bindIO (wrapErr p (withToken a (create new) env)) (\<lambda>_.
     bindIO (needDeleteRoles env cur ex) (\<lambda>del.
     if skip \<and> del = [] then ret () else wrapErr q (voidIO (withToken a (delete del) env))))))
     (\<lambda>_ t. \<forall>l. mapped (world t) l = (mapped (world s) l \<union> at_level lc (fst ` set cur - fst ` set ex) l) -
        at_level le (fst ` set ex - fst ` set cur) l) (\<lambda>_ _. True) s"
proof -
  have names: "role_names l (map snd (filter (\<lambda>(n, _). map_of m' n = None) es)) =
      at_level lm (fst ` set m - fst ` set m') l"
    if "good_roles lm m" "mset es = mset m" for l lm m m' es
    using role_names_good [OF that, of l "\<lambda>n. map_of m' n = None"] by (auto simp: map_of_eq_None_iff set_diff_eq)
  have create: "wp True (withToken a (create rs) env) (\<lambda>_ t'. \<forall>l. mapped (world t') l = mapped (world t) l \<union> role_names l rs) (\<lambda>_ _. True) t"
    and delete: "wp True (withToken a (delete rs) env) (\<lambda>_ t'. \<forall>l. mapped (world t') l = mapped (world t) l - role_names l rs) (\<lambda>_ _. True) t"
    for rs and t :: "('a, event, 'b) io_state"
    by (rule wp_withToken; use endpoint in \<open>auto simp: scope_endpoint_def\<close>)+
  show ?thesis
    unfolding needCreateRoles_def needDeleteRoles_def wp_bindIO wp_ret
  proof (rule wp_range_order)
    fix es
    assume es: "mset es = mset cur"
    let ?new = "map snd (filter (\<lambda>(n, _). map_of ex n = None) es)"
    show "wp True (wrapErr p (withToken a (create ?new) env)) (\<lambda>_. wp True (range_order (map_rank env) ex) (\<lambda>es.
       wp True (if skip \<and> map snd (filter (\<lambda>(n, _). map_of cur n = None) es) = [] then ret ()
           else wrapErr q (voidIO (withToken a (delete (map snd (filter (\<lambda>(n, _). map_of cur n = None) es))) env)))
         (\<lambda>_ t. \<forall>l. mapped (world t) l = (mapped (world s) l \<union> at_level lc (fst ` set cur - fst ` set ex) l) -
           at_level le (fst ` set ex - fst ` set cur) l) (\<lambda>_ _. True)) (\<lambda>_ _. True)) (\<lambda>_ _. True) s"
      unfolding wp_wrapErr
    proof (rule wp_weaken [OF create], rule wp_range_order)
      fix fs and t :: "('a, event, 'b) io_state"
      assume t: "\<forall>l. mapped (world t) l = mapped (world s) l \<union> role_names l ?new" and fs: "mset fs = mset ex"
      let ?del = "map snd (filter (\<lambda>(n, _). map_of cur n = None) fs)"
      have made: "mapped (world t) l = mapped (world s) l \<union> at_level lc (fst ` set cur - fst ` set ex) l" for l
        unfolding names [OF cur es, symmetric] using t by blast
      have gone: "role_names l ?del = at_level le (fst ` set ex - fst ` set cur) l" for l
        by (rule names [OF ex fs])
      have none: "?del = [] \<Longrightarrow> role_names l ?del = {}" for l by (simp add: role_names_def)
      show "wp True (if skip \<and> ?del = [] then ret () else wrapErr q (voidIO (withToken a (delete ?del) env)))
         (\<lambda>_ t. \<forall>l. mapped (world t) l = (mapped (world s) l \<union> at_level lc (fst ` set cur - fst ` set ex) l) -
           at_level le (fst ` set ex - fst ` set cur) l) (\<lambda>_ _. True) t"
      proof (cases "skip \<and> ?del = []")
        case True
        with none gone have "at_level le (fst ` set ex - fst ` set cur) l = {}" for l by metis
        with True made show ?thesis by simp
      next
        case False
        have "wp True (wrapErr q (voidIO (withToken a (delete ?del) env))) (\<lambda>_ t'. \<forall>l. mapped (world t') l =
            mapped (world t) l - role_names l ?del) (\<lambda>_ _. True) t"
          using delete by simp
        then show ?thesis unfolding if_not_P [OF False] made gone .
      qed
    qed
  qed
qed

section \<open>Which roles are mapped after a synchronisation\<close>

text \<open>The endpoint for the realm roles of a client scope, and the roles of the realm.\<close>

definition realm_scope_endpoint :: "'w env \<Rightarrow> GoCloakAdapter \<Rightarrow> string \<Rightarrow> string \<Rightarrow> ('w \<Rightarrow> bool \<Rightarrow> string set) \<Rightarrow> bool" where
  "realm_scope_endpoint env a realm scopeID =
     scope_endpoint env a False (\<lambda>t. GocloakGetClientScopesScopeMappingsRealmRoles t realm scopeID)
       (\<lambda>rs t. GocloakCreateClientScopesScopeMappingsRealmRoles t realm scopeID rs)
       (\<lambda>rs t. GocloakDeleteClientScopesScopeMappingsRealmRoles t realm scopeID rs)"

definition realm_scope_server :: "'w env \<Rightarrow> GoCloakAdapter \<Rightarrow> string \<Rightarrow> string \<Rightarrow> ('w \<Rightarrow> bool \<Rightarrow> string set) \<Rightarrow> bool" where
  "realm_scope_server env a realm scopeID mapped \<longleftrightarrow> realm_scope_endpoint env a realm scopeID mapped \<and>
     lists_roles env a False (\<lambda>t. GocloakGetRealmRoles t realm 100) mapped"

lemma wp_GetScopeMappingRealmRoles:
  assumes "realm_scope_endpoint env a realm scopeID mapped"
  shows "wp True (GetScopeMappingRealmRoles env a realm scopeID) (\<lambda>m t. mapped (world t) = mapped (world s) \<and>
     good_roles False m \<and> fst ` set m = mapped (world s) False \<and> filterRoles m False = m \<and> filterRoles m True = []) (\<lambda>_ _. True) s"
  unfolding GetScopeMappingRealmRoles_def wp_bindIO wp_wrapErr wp_ret rolesMap_eq
  by (rule wp_withToken)
    (use assms good_level [of False] keys_convertRoleNameMap [of False] filterRoles_level [of False] in
      \<open>auto simp: realm_scope_endpoint_def scope_endpoint_def\<close>)

lemma wp_prepared:
  assumes "good_roles level ex" and "\<And>cur. good_roles level cur \<Longrightarrow> fst ` set cur = set rols \<Longrightarrow> Q cur s"
  shows "wp True (liftIO (prepareRoles rols ex)) Q (\<lambda>_ _. True) s"
  using assms prepareRoles_ok [OF _ assms(1), of rols] by (auto simp: liftIO_def split: sum.split)

lemma wp_syncScopeRoles:
  assumes "realm_scope_endpoint env a realm scopeID mapped" and "good_roles lc cur" and "good_roles le ex"
  shows "wp True (syncScopeRoles env a realm scopeID cur ex) (\<lambda>_ t. \<forall>l. mapped (world t) l =
     (mapped (world s) l \<union> at_level lc (fst ` set cur - fst ` set ex) l) -
     at_level le (fst ` set ex - fst ` set cur) l) (\<lambda>_ _. True) s"
  using wp_create_and_delete [where skip = True, OF assms(1) [unfolded realm_scope_endpoint_def] assms(2,3)]
  unfolding syncScopeRoles_def simp_thms .

lemma wp_SyncRealmScopeMapping:
  assumes "realm_scope_server env a realm scopeID mapped"
  shows "wp True (SyncRealmScopeMapping env a realm scopeID roles) (\<lambda>_ t. mapped (world t) False = set roles \<and>
     mapped (world t) True = mapped (world s) True) (\<lambda>_ _. True) s"
proof -
  have endpoint: "realm_scope_endpoint env a realm scopeID mapped" using assms by (simp add: realm_scope_server_def)
  have list: "wp True (adapter_GetRealmRoles env a realm) (\<lambda>m t. mapped (world t) = mapped (world s) \<and> good_roles False m) (\<lambda>_ _. True) s"
    unfolding adapter_GetRealmRoles_def wp_bindIO wp_wrapErr wp_ret rolesMap_eq
    by (rule wp_withToken) (use assms in \<open>auto simp: realm_scope_server_def lists_roles_def intro: good_convertRoleNameMap\<close>)
  show ?thesis
    unfolding SyncRealmScopeMapping_def createOrDeleteRoleScopeMapping_def wp_bindIO wp_wrapErr
    by (rule wp_weaken [OF list], elim conjE, erule wp_prepared, rule wp_weaken [OF wp_GetScopeMappingRealmRoles [OF endpoint]])
      (auto intro!: wp_weaken [OF wp_syncScopeRoles [OF endpoint]])
qed

text \<open>
  C7. Mapping realm roles to a client scope: when it succeeds, the realm roles of the scope are
  exactly the listed ones, whatever they were, and its client roles are what they were.
\<close>

theorem SyncRealmScopeMapping_correct:
  assumes "realm_scope_server env a realm scopeID mapped"
    and "SyncRealmScopeMapping env a realm scopeID roles s = (Ok (), s')"
  shows "mapped (world s') False = set roles \<and> mapped (world s') True = mapped (world s) True"
  by (rule wp_OkD [OF wp_SyncRealmScopeMapping [OF assms(1)] assms(2)])

text \<open>The endpoint for the roles of one client mapped to another, and looking the latter up.\<close>

definition client_scope_server ::
  "'w env \<Rightarrow> GoCloakAdapter \<Rightarrow> string \<Rightarrow> string \<Rightarrow> string \<Rightarrow> string \<Rightarrow> ('w \<Rightarrow> bool \<Rightarrow> string set) \<Rightarrow> bool" where
  "client_scope_server env a realm from client to mapped \<longleftrightarrow>
     scope_endpoint env a True (\<lambda>t. GocloakGetClientScopeMappingsClientRoles t realm to from)
       (\<lambda>rs t. GocloakCreateClientScopeMappingsClientRoles t realm to from rs)
       (\<lambda>rs t. GocloakDeleteClientScopeMappingsClientRoles t realm to from rs) mapped \<and>
     lists_roles env a True (\<lambda>t. GocloakGetClientRoles t realm from 1000) mapped \<and>
     (\<forall>w r w' c. gocloak_sent env a (\<lambda>t. GocloakGetClients t realm (Some client)) w r w' \<longrightarrow>
        mapped w' = mapped w \<and> (gocloak_clients r = [c] \<longrightarrow> gocloak_PString (gcl_ID c) = to))"

lemma wp_adapter_GetClient:
  assumes "\<And>w r w'. gocloak_sent env a (\<lambda>t. GocloakGetClients t realm (Some client)) w r w' \<Longrightarrow>
     mapped w' = mapped w \<and> (\<forall>c. gocloak_clients r = [c] \<longrightarrow> gocloak_PString (gcl_ID c) = to)"
  shows "wp True (adapter_GetClient env a realm client) (\<lambda>c t. mapped (world t) = mapped (world s) \<and> gocloak_PString (gcl_ID c) = to) (\<lambda>_ _. True) s"
  unfolding adapter_GetClient_def wp_bindIO wp_wrapErr
  by (rule wp_withToken) (use assms in \<open>auto split: list.split\<close>)

lemma wp_getExistingClientRoles:
  assumes "lists_roles env a True (\<lambda>t. GocloakGetClientRoles t realm from 1000) mapped"
  shows "wp True (getExistingClientRoles env a realm from) (\<lambda>m t. mapped (world t) = mapped (world s) \<and> good_roles True m) (\<lambda>_ _. True) s"
  unfolding getExistingClientRoles_def wp_bindIO wp_wrapErr wp_ret
  by (rule wp_withToken) (use assms in \<open>auto simp: lists_roles_def intro: good_convertRoleNameMap\<close>)

text \<open>
  Mapping the roles of one client to another: when it succeeds, the roles of the first that
  are mapped to the second are exactly the listed ones.
\<close>

theorem createOrDeleteClientRoleToClient_correct:
  assumes "client_scope_server env a realm from (smo_Client opts) to mapped"
    and "createOrDeleteClientRoleToClient env a realm from roles opts s = (Ok (), s')"
  shows "mapped (world s') True = set roles"
proof -
  have endpoint: "scope_endpoint env a True (\<lambda>t. GocloakGetClientScopeMappingsClientRoles t realm to from)
       (\<lambda>rs t. GocloakCreateClientScopeMappingsClientRoles t realm to from rs)
       (\<lambda>rs t. GocloakDeleteClientScopeMappingsClientRoles t realm to from rs) mapped"
    and roles: "lists_roles env a True (\<lambda>t. GocloakGetClientRoles t realm from 1000) mapped"
    using assms(1) by (simp_all add: client_scope_server_def)
  have client: "wp True (adapter_GetClient env a realm (smo_Client opts)) (\<lambda>c t'. mapped (world t') = mapped (world t) \<and>
      gocloak_PString (gcl_ID c) = to) (\<lambda>_ _. True) t" for t :: "('a, event, 'b) io_state"
    by (rule wp_adapter_GetClient) (use assms(1) in \<open>simp add: client_scope_server_def\<close>)
  have read: "wp True (withToken a (\<lambda>t. GocloakGetClientScopeMappingsClientRoles t realm to from) env)
      (\<lambda>r t'. mapped (world t') = mapped (world t) \<and> good_roles True (convertRoleNameMap (gocloak_roles r)) \<and>
         fst ` set (convertRoleNameMap (gocloak_roles r)) = mapped (world t) True) (\<lambda>_ _. True) t" for t :: "('a, event, 'b) io_state"
    by (rule wp_withToken) (use endpoint good_level [of True] keys_convertRoleNameMap [of True] in \<open>auto simp: scope_endpoint_def\<close>)
  have "wp True (createOrDeleteClientRoleToClient env a realm from roles opts) (\<lambda>_ t. mapped (world t) True = set roles) (\<lambda>_ _. True) s"
    unfolding createOrDeleteClientRoleToClient_def Let_def wp_bindIO wp_wrapErr
  proof (rule wp_weaken [OF wp_getExistingClientRoles [OF roles]], elim conjE, erule wp_prepared, rule wp_weaken [OF client], elim conjE,
      simp only:, rule wp_weaken [OF read], goal_cases)
    case (1 m s1 cur c s2 r s3)
    let ?ex = "convertRoleNameMap (gocloak_roles r)"
    have ex: "good_roles True ?ex" "fst ` set ?ex = mapped (world s3) True" using 1 by auto
    have cur: "fst ` set cur = set roles" by fact
    have "good_roles True cur" by fact
    note finish = wp_weaken [OF wp_create_and_delete [where skip = False and s = s3, OF endpoint this ex(1)],
        where Q' = "\<lambda>_ t. mapped (world t) True = set roles"]
    show ?case by (rule finish [unfolded simp_thms if_False wp_bindIO wp_wrapErr]) (auto simp: ex(2) cur)
  qed
  from wp_OkD [OF this assms(2)] show ?thesis .
qed

section \<open>Deleting a resource\<close>

text \<open>The client scope of that name has that id, and neither looking it up nor the cluster changes mappings.\<close>

definition scope_lookup :: "'w env \<Rightarrow> GoCloakAdapter \<Rightarrow> string \<Rightarrow> string \<Rightarrow> string \<Rightarrow> ('w \<Rightarrow> bool \<Rightarrow> string set) \<Rightarrow> bool" where
  "scope_lookup env a realm name scopeID mapped \<longleftrightarrow>
     (\<forall>w rsp w' scopes cs. rest_ok env a GET getRealmClientScopes [(''realm'', realm)] NoRest w rsp w' \<longrightarrow> mapped w' = mapped w \<and>
        (rest_clientScopes rsp = Some scopes \<longrightarrow> find (\<lambda>cs. dcs_Name cs = name) scopes = Some cs \<longrightarrow> dcs_ID cs = scopeID)) \<and>
     (\<forall>rq w. mapped (snd (k8s env rq w)) = mapped w)"

lemma wp_GetClientScope:
  assumes "scope_lookup env a realm name scopeID mapped"
  shows "wp True (GetClientScope env a name realm) (\<lambda>cs t. dcs_ID cs = scopeID \<and> mapped (world t) = mapped (world s) \<and> mem t = mem s) (\<lambda>_ _. True) s"
  unfolding GetClientScope_def wp_bindIO
  by (rule wp_restCall)
    (use assms checked_ok in \<open>auto simp: wp_checked scope_lookup_def rest_ok_def getClientScope_def liftIO_def split: option.split\<close>)

lemma keeps_SyncRealmScopeMapping: "emits_under P UNIV (SyncRealmScopeMapping env a realm scopeID roles)"
  unfolding SyncRealmScopeMapping_def createOrDeleteRoleScopeMapping_def adapter_GetRealmRoles_def GetScopeMappingRealmRoles_def
    syncScopeRoles_def needCreateRoles_def needDeleteRoles_def
  by (intro emits_intros) simp_all

lemma wp_syncScopeMapping:
  assumes "realm_scope_server env a realm scopeID mapped"
    and "scope_lookup env a realm (sms_ClientScope (sm_Spec (scm_scope (mem s)))) scopeID mapped"
  shows "wp True (syncScopeMapping env realm a) (\<lambda>i t. mapped (world t) False = set (sms_Roles (sm_Spec (scm_scope (mem s)))) \<and>
     scm_scope (mem t) = set_status_ID scopeID (scm_scope (mem s))) (\<lambda>_ _. True) s"
proof -
  have sync: "wp True (SyncRealmScopeMapping env a realm scopeID roles) (\<lambda>_ t'. (mapped (world t') False = set roles \<and>
     mapped (world t') True = mapped (world t) True) \<and> mem t' = mem t) (\<lambda>_ _. True) t" for roles and t :: "('a, event, scope_mem) io_state"
    by (rule wp_weaken [OF wp_conj [OF wp_SyncRealmScopeMapping [OF assms(1)] wp_mem_kept [OF keeps_SyncRealmScopeMapping]]]) auto
  show ?thesis
    unfolding syncScopeMapping_def wp_bindIO wp_getMem wp_tryIO
    by (rule wp_mono [OF wp_GetClientScope [OF assms(2)]])
      (auto simp: getAdapterRoles_def intro!: wp_weaken [OF sync])
qed

text \<open>A request over gocloak that is answered with not found changes no mapping.\<close>

definition not_found_idle :: "'w env \<Rightarrow> ('w \<Rightarrow> bool \<Rightarrow> string set) \<Rightarrow> bool" where
  "not_found_idle env mapped \<longleftrightarrow>
     (\<forall>cl rq w e w'. gocloak env cl rq w = (Inl e, w') \<longrightarrow> IsErrNotFound e \<longrightarrow> mapped w' = mapped w)"

lemma IsErrNotFound_wrapped [simp]: "IsErrNotFound (Wrapped p e) = IsErrNotFound e"
proof -
  have "errors_As (as_GocloakAPIError b) (Wrapped p e) = errors_As (as_GocloakAPIError b) e"
    "errors_As as_NotFoundErr (Wrapped p e) = errors_As as_NotFoundErr e" for b
    by (rule errors_As_Wrapped, simp)+
  then show ?thesis unfolding IsErrNotFound_def by metis
qed

lemma wp_withToken_404:
  assumes "not_found_idle env mapped"
    and "\<And>r w' tr. gocloak_sent env a rq (world s) r w' \<Longrightarrow> Q r (s\<lparr>world := w', trace := tr\<rparr>)"
  shows "wp True (withToken a rq env) Q (\<lambda>e t. IsErrNotFound e \<longrightarrow> mapped (world t) = mapped (world s)) s"
  using assms
  by (auto simp: withToken_def gocloakCall_def wp_callIO gocloak_sent_def not_found_idle_def split: option.split prod.split sum.split)

text \<open>The terminator asks the endpoint of the realm's roles and keeps the client roles of the answer: none.\<close>

lemma wp_scope_delete:
  assumes endpoint: "realm_scope_endpoint env (st_kClient t) (st_realmName t) scopeID mapped"
    and "scope_lookup env (st_kClient t) (st_realmName t) (st_clientScope t) scopeID mapped"
    and idle: "not_found_idle env mapped"
    and "st_clientScope t \<noteq> ''''" and "st_client t = ''''"
  shows "wp True (scope_delete env t) (\<lambda>_ s'. mapped (world s') = mapped (world s))
     (\<lambda>e s'. IsErrNotFound e \<longrightarrow> mapped (world s') = mapped (world s)) s"
proof -
  let ?a = "st_kClient t" and ?realm = "st_realmName t"
  let ?Q = "\<lambda>_ s'. mapped (world s') = mapped (world s)"
    and ?E = "\<lambda>e s'. IsErrNotFound e \<longrightarrow> mapped (world s') = mapped (world s)"
  have find: "wp True (findClientScope env ?a (st_clientScope t) ?realm)
     (\<lambda>c s'. \<forall>cs. c = Some cs \<longrightarrow> dcs_ID cs = scopeID \<and> mapped (world s') = mapped (world s)) ?E s"
    unfolding findClientScope_def wp_bindIO wp_tryIO by (rule wp_mono [OF wp_GetClientScope [OF assms(2)]]) auto
  have read: "wp True (GetScopeMappingRealmRoles env ?a ?realm scopeID)
      (\<lambda>m u'. mapped (world u') = mapped (world s) \<and> filterRoles m True = []) ?E u"
    if "mapped (world u) = mapped (world s)" for u :: "('a, event, 'b) io_state"
    unfolding GetScopeMappingRealmRoles_def wp_bindIO wp_wrapErr wp_ret rolesMap_eq IsErrNotFound_wrapped that [symmetric]
    by (rule wp_withToken_404 [OF idle])
      (use endpoint filterRoles_level [of False] in \<open>auto simp: realm_scope_endpoint_def scope_endpoint_def\<close>)
  have none: "role_names l (findRoleMath roles []) = {}" for l roles
    by (auto simp: role_names_def findRoleMath_def map_filter_def)
  have delete: "wp True (withToken ?a (\<lambda>tk. GocloakDeleteClientScopesScopeMappingsRealmRoles tk ?realm scopeID
      (findRoleMath roles [])) env) ?Q ?E u" if "mapped (world u) = mapped (world s)" for roles and u :: "('a, event, 'b) io_state"
    unfolding that [symmetric]
    by (rule wp_withToken_404 [OF idle]) (use endpoint none in \<open>auto simp: realm_scope_endpoint_def scope_endpoint_def\<close>)
  have "wp True (bindIO (findClientScope env ?a (st_clientScope t) ?realm) (\<lambda>c. bindIO (derefIO c) (\<lambda>cs.
      bindIO (wrapErr p (GetScopeMappingRealmRoles env ?a ?realm (dcs_ID cs))) (\<lambda>ex.
      voidIO (withToken ?a (\<lambda>tk. GocloakDeleteClientScopesScopeMappingsRealmRoles tk ?realm (dcs_ID cs)
        (findRoleMath (st_roles t) (filterRoles ex True))) env))))) ?Q ?E s" for p
    unfolding wp_bindIO wp_wrapErr wp_voidIO wp_derefIO IsErrNotFound_wrapped
    by (rule wp_mono [OF find]) (auto split: option.split intro!: wp_mono [OF read] delete)
  then show ?thesis
    using assms(4,5) by (simp add: scope_delete_def DeleteClientScopeMappingRealmRoles_def checkRequired_def isOnlyClientScope_def)
qed

lemma wp_scope_DeleteResource:
  assumes "realm_scope_endpoint env (st_kClient t) (st_realmName t) scopeID mapped"
    and "scope_lookup env (st_kClient t) (st_realmName t) (st_clientScope t) scopeID mapped"
    and "not_found_idle env mapped" and "st_clientScope t \<noteq> ''''" and "st_client t = ''''"
  shows "wp True (scope_DeleteResource env t) (\<lambda>_ s'. mapped (world s') = mapped (world s)) (\<lambda>_ _. True) s"
proof -
  have "wp True (tryIO (scope_delete env t)) (\<lambda>res s'. (\<exists>u. res = Inr u) \<or> (\<exists>e. res = Inl e \<and> IsErrNotFound e) \<longrightarrow>
      mapped (world s') = mapped (world s)) (\<lambda>_ _. True) s"
    unfolding wp_tryIO by (rule wp_mono [OF wp_scope_delete [OF assms]]) auto
  then show ?thesis by (auto simp: scope_DeleteResource_def split: sum.split elim!: wp_mono)
qed

lemma keeps_scope_DeleteResource: "emits_under P UNIV (scope_DeleteResource env t)"
  unfolding scope_DeleteResource_def scope_delete_def DeleteClientScopeMappingRealmRoles_def DeleteScopeMappingRoles_def
    findClientScope_def GetClientScope_def GetScopeMappingRealmRoles_def adapter_GetClient_def
  by (intro emits_intros) simp_all

lemma wp_TryToDelete_world:
  assumes "\<And>s. wp True t (\<lambda>_ s'. f (world s') = f (world s)) (\<lambda>_ _. True) s" and "\<And>rq w. f (snd (k8s env rq w)) = f w"
  shows "wp True (TryToDelete env obj t fin) (\<lambda>_ s'. f (world s') = f (world s)) (\<lambda>_ _. True) s"
proof -
  have update: "wp True (k8s_Update env obj) (\<lambda>_ u'. f (world u') = f (world u)) (\<lambda>_ _. True) u" for u
    using assms(2) [of "KUpdate (obj_out obj (mem u))" "world u"]
    by (auto simp: k8s_Update_def wp_callIO split: prod.split sum.split)
  have change: "wp True (addFinalizer env obj fin) (\<lambda>_ u'. world u' = world u) (\<lambda>_ _. True) u"
    "wp True (removeFinalizer env obj fin) (\<lambda>_ u'. world u' = world u) (\<lambda>_ _. True) u" for u
    by (auto simp: addFinalizer_def removeFinalizer_def split: prod.split)
  show ?thesis
    unfolding TryToDelete_def
    by (auto intro!: wp_weaken [OF assms(1)] wp_weaken [OF change(1)] wp_weaken [OF change(2)] wp_weaken [OF update])
qed

lemma scope_serve_synced:
  assumes "scope_serve env realm a s = (Ok (i, Some (SyncErr None)), s')"
  obtains s1 b where "scope_Sync env realm a s = (Ok i, s1)"
    and "TryToDelete env scope_obj (scope_DeleteResource env (scope_makeTerminator a realm (scm_scope (mem s1)))) scope_finalizerName s1 = (Ok b, s')"
  using assms
  by (auto simp: scope_serve_def bindIO_def tryIO_def wrapErr_def getMem_def ret_def fail_def
      split: prod.splits outcome.splits if_splits)

text \<open>
  C28. A resource that maps realm roles to a client scope does not take them back: when it is
  being deleted, a run first maps its roles again, then looks for client roles among the
  realm roles of the scope, deletes nothing and removes the finalizer. All roles stay mapped.
\<close>

theorem scope_deletion_keeps_roles:
  assumes "finalizers_ok env" and "realm_scope_server env a realm scopeID mapped" and "not_found_idle env mapped"
    and "scope_lookup env a realm (sms_ClientScope (sm_Spec (scm_scope (mem s)))) scopeID mapped"
    and "sms_ClientScope (sm_Spec (scm_scope (mem s))) \<noteq> ''''" and "sms_Client (sm_Spec (scm_scope (mem s))) = ''''"
    and "sms_FromClient (sm_Spec (scm_scope (mem s))) = ''''"
    and "om_DeletionTimestamp (sm_Meta (scm_scope (mem s))) \<noteq> None"
    and "scope_finalizerName \<in> set (om_Finalizers (sm_Meta (scm_scope (mem s))))"
    and "scope_serve env realm a s = (Ok (i, Some (SyncErr None)), s')"
  shows "mapped (world s') False = set (sms_Roles (sm_Spec (scm_scope (mem s)))) \<and>
     (\<exists>k. last (trace s') = Kube (KUpdate (ScopeMappingObj k)) \<and> scope_finalizerName \<notin> set (om_Finalizers (sm_Meta k)))"
proof -
  let ?k = "scm_scope (mem s)"
  obtain s1 b where sync: "scope_Sync env realm a s = (Ok i, s1)" and
    del: "TryToDelete env scope_obj (scope_DeleteResource env (scope_makeTerminator a realm (scm_scope (mem s1)))) scope_finalizerName s1 = (Ok b, s')"
    using scope_serve_synced [OF assms(10)] .
  have "syncScopeMapping env realm a s = (Ok i, s1)"
    using sync assms(5-7) by (simp add: scope_Sync_def bindIO_def getMem_def)
  from wp_OkD [OF wp_syncScopeMapping [OF assms(2,4)] this]
  have s1: "mapped (world s1) False = set (sms_Roles (sm_Spec ?k))" "scm_scope (mem s1) = set_status_ID scopeID ?k" by auto
  let ?t = "scope_makeTerminator a realm (scm_scope (mem s1))"
  have endpoint: "realm_scope_endpoint env a realm scopeID mapped" using assms(2) by (simp add: realm_scope_server_def)
  have terminate: "wp True (scope_DeleteResource env ?t) (\<lambda>_ u'. mapped (world u') = mapped (world u)) (\<lambda>_ _. True) u"
    for u :: "('a, event, scope_mem) io_state"
    by (rule wp_scope_DeleteResource [where scopeID = scopeID])
      (use endpoint assms(3-6) s1(2) in \<open>simp_all add: scope_makeTerminator_def set_status_ID_def\<close>)
  have "mapped (world s') = mapped (world s1)"
    by (rule wp_OkD [OF wp_TryToDelete_world [OF terminate] del]) (use assms(4) in \<open>simp add: scope_lookup_def\<close>)
  with s1(1) have roles: "mapped (world s') False = set (sms_Roles (sm_Spec ?k))" by simp
  have meta: "obj_meta scope_obj (mem s1) = sm_Meta ?k" using s1(2) by (simp add: scope_obj_def set_status_ID_def)
  obtain s2 where s2: "scope_DeleteResource env ?t s1 = (Ok (), s2)"
    using del assms(8) meta by (auto simp: TryToDelete_def bindIO_def getMem_def wrapErr_def split: prod.splits outcome.splits)
  have "mem s2 = mem s1" using wp_OkD [OF wp_mem_kept [OF keeps_scope_DeleteResource] s2] by simp
  with scope_object.TryToDelete_terminator_done(2) [where terminator = "scope_DeleteResource env ?t" and s = s1 and
      f = scope_finalizerName, OF assms(1) _ s2] del meta assms(8,9) roles
  show ?thesis by (auto simp: scope_obj_def)
qed

text \<open>
  A resource for a client scope that Keycloak does not have can never be deleted: the
  synchronisation comes before the deletion, the message it fails with is misspelt and so is not taken
  for one of a missing object, and the run ends there. Nothing is sent to the cluster, the finalizer stays.
\<close>

theorem missing_scope_blocks_deletion:
  assumes "sms_ClientScope (sm_Spec (scm_scope (mem s))) = name" and "name \<noteq> ''''" and "sms_Client (sm_Spec (scm_scope (mem s))) = ''''"
    and "sms_FromClient (sm_Spec (scm_scope (mem s))) = ''''"
    and "GetClientScope env a name realm s = (Err e, s1)" and "IsErrNotFound e"
    and "\<not> IsNoMatchScopeMapping (Some (NewError (''not fount syncScopeMapping clientScope '' @ name)))"
  shows "scope_serve env realm a s = (Err (Wrapped ''unable to create keycloak scope mapping: ''
       (NewError (''not fount syncScopeMapping clientScope '' @ name))), s1) \<and>
     (\<exists>es. trace s1 = trace s @ es \<and> (\<forall>x. Kube x \<notin> set es)) \<and> mem s1 = mem s"
proof -
  have "syncScopeMapping env realm a s = (Err (NewError (''not fount syncScopeMapping clientScope '' @ name)), s1)"
    using assms(1,5,6) by (simp add: syncScopeMapping_def bindIO_def getMem_def tryIO_def fail_def)
  then have "scope_Sync env realm a s = (Err (NewError (''not fount syncScopeMapping clientScope '' @ name)), s1)"
    using assms(1-4) by (simp add: scope_Sync_def bindIO_def getMem_def)
  with assms(7) have run: "scope_serve env realm a s = (Err (Wrapped ''unable to create keycloak scope mapping: ''
       (NewError (''not fount syncScopeMapping clientScope '' @ name))), s1)"
    by (simp add: scope_serve_def bindIO_def tryIO_def fail_def)
  have "emits_under (\<lambda>m. m = mem s) {ev. \<forall>x. ev \<noteq> Kube x} (GetClientScope env a name realm)"
    unfolding GetClientScope_def by (intro emits_intros) simp
  with assms(5) run show ?thesis unfolding emits_under_def by fastforce
qed

section \<open>Concrete runs\<close>

text \<open>
  A Keycloak with one client scope and one client, and the roles mapped to it: the world is the
  list of their levels and names, of which one level is shown.
\<close>

definition named_role :: "bool \<times> string \<Rightarrow> gocloak_Role" where
  "named_role x = \<lparr>gro_ID = None, gro_Name = Some (snd x), gro_Description = None, gro_ClientRole = Some (fst x), gro_rest = []\<rparr>"

definition listed :: "gocloak_Role list \<Rightarrow> (bool \<times> string) list" where
  "listed rs = List.map_filter (\<lambda>r. map_option (Pair (gocloak_PBool (gro_ClientRole r))) (gro_Name r)) rs"

definition shown :: "bool \<Rightarrow> (bool \<times> string) list \<Rightarrow> gocloak_result" where
  "shown level w = GocloakRoles (map (Some \<circ> named_role) (filter (\<lambda>x. fst x = level) w))"

definition test_scope :: adapter_ClientScope where
  "test_scope = \<lparr>dcs_ID = ''id'', dcs_Name = ''scope'', dcs_Description = '''', dcs_Attributes = [], dcs_Protocol = ''openid-connect'',
     dcs_ProtocolMappers = [], dcs_Type = ''none''\<rparr>"

definition scope_gocloak :: "gocloak_request \<Rightarrow> (bool \<times> string) list \<Rightarrow> (go_error + gocloak_result) \<times> (bool \<times> string) list" where
  "scope_gocloak rq w = (case rq of
       GocloakGetRealmRoles _ _ _ \<Rightarrow> (Inr (shown False [(False, ''admin''), (False, ''viewer'')]), w)
     | GocloakGetClientRoles _ _ _ _ \<Rightarrow> (Inr (shown True [(True, ''admin''), (True, ''viewer'')]), w)
     | GocloakGetClients _ _ _ \<Rightarrow> (Inr (GocloakClients [zero_gocloak_Client\<lparr>gcl_ID := Some ''to'', gcl_ClientID := Some ''app''\<rparr>]), w)
     | GocloakGetClientScopesScopeMappingsRealmRoles _ _ _ \<Rightarrow> (Inr (shown False w), w)
     | GocloakCreateClientScopesScopeMappingsRealmRoles _ _ _ rs \<Rightarrow> (Inr NoGocloak, w @ listed rs)
     | GocloakDeleteClientScopesScopeMappingsRealmRoles _ _ _ rs \<Rightarrow> (Inr NoGocloak, filter (\<lambda>x. x \<notin> set (listed rs)) w)
     | GocloakGetClientScopeMappingsClientRoles _ _ _ _ \<Rightarrow> (Inr (shown True w), w)
     | GocloakCreateClientScopeMappingsClientRoles _ _ _ _ rs \<Rightarrow> (Inr NoGocloak, w @ listed rs)
     | GocloakDeleteClientScopeMappingsClientRoles _ _ _ _ rs \<Rightarrow> (Inr NoGocloak, filter (\<lambda>x. x \<notin> set (listed rs)) w)
     | _ \<Rightarrow> (Inl (NewError ''refused''), w))"

definition scope_env :: "(bool \<times> string) list env" where
  "scope_env = idle_env\<lparr>gocloak := (\<lambda>cl. scope_gocloak), resty := (\<lambda>cl rq w. (rest_accepted (RestClientScopes [test_scope]), w)),
     k8s := (\<lambda>rq w. (case rq of KUpdate x \<Rightarrow> Inr x | _ \<Rightarrow> Inl (NewError ''refused''), w))\<rparr>"

definition mapped_names :: "(bool \<times> string) list \<Rightarrow> bool \<Rightarrow> string set" where
  "mapped_names w level = {n. (level, n) \<in> set w}"

lemma set_map_filter [simp]: "set (List.map_filter f xs) = {y. \<exists>x \<in> set xs. f x = Some y}"
  by (force simp: List.map_filter_def)

lemma role_names_shown:
  "role_names l (convertRolePointersToValues (gocloak_roles (shown level w))) = (if l = level then mapped_names w l else {})"
  by (force simp: role_names_def convertRolePointersToValues_def shown_def gocloak_roles_def named_role_def gocloak_PBool_def mapped_names_def)

lemma mapped_names_simps:
  "mapped_names (w @ listed rs) l = mapped_names w l \<union> role_names l rs"
  "mapped_names (filter (\<lambda>x. x \<notin> set (listed rs)) w) l = mapped_names w l - role_names l rs"
  by (auto simp: mapped_names_def listed_def role_names_def)

lemma shown_level: "x \<in> set (convertRolePointersToValues (gocloak_roles (shown level w))) \<Longrightarrow> gocloak_PBool (gro_ClientRole x) = level"
  by (auto simp: convertRolePointersToValues_def shown_def gocloak_roles_def named_role_def gocloak_PBool_def)

lemma scope_env_realm: "realm_scope_server scope_env a realm scopeID mapped_names"
  by (auto simp: realm_scope_server_def realm_scope_endpoint_def scope_endpoint_def lists_roles_def gocloak_sent_def scope_env_def
      scope_gocloak_def role_names_shown mapped_names_simps dest: shown_level)

lemma scope_env_client: "client_scope_server scope_env a realm from client ''to'' mapped_names"
  by (auto simp: client_scope_server_def scope_endpoint_def lists_roles_def gocloak_sent_def scope_env_def
      scope_gocloak_def role_names_shown mapped_names_simps gocloak_clients_def gocloak_PString_def dest: shown_level)

theorem SyncRealmScopeMapping_witness:
  "mapped_names (world (snd (SyncRealmScopeMapping scope_env test_adapter ''r'' ''id'' [''admin'']
     \<lparr>world = [(False, ''viewer''), (True, ''x'')], trace = [], mem = ()\<rparr>))) False = {''admin''}"
proof -
  let ?r = "SyncRealmScopeMapping scope_env test_adapter ''r'' ''id'' [''admin''] \<lparr>world = [(False, ''viewer''), (True, ''x'')], trace = [], mem = ()\<rparr>"
  have "fst ?r = Ok ()" by code_simp
  then have run: "?r = (Ok (), snd ?r)" by (metis prod.collapse)
  from SyncRealmScopeMapping_correct [OF scope_env_realm run] show ?thesis by simp
qed

theorem createOrDeleteClientRoleToClient_witness:
  "mapped_names (world (snd (createOrDeleteClientRoleToClient scope_env test_adapter ''r'' ''from'' [''admin''] \<lparr>smo_Client = ''app'', smo_ClientScope = ''''\<rparr>
     \<lparr>world = [(True, ''viewer'')], trace = [], mem = ()\<rparr>))) True = {''admin''}"
proof -
  let ?r = "createOrDeleteClientRoleToClient scope_env test_adapter ''r'' ''from'' [''admin''] \<lparr>smo_Client = ''app'', smo_ClientScope = ''''\<rparr>
     \<lparr>world = [(True, ''viewer'')], trace = [], mem = ()\<rparr>"
  have "fst ?r = Ok ()" by code_simp
  then have run: "?r = (Ok (), snd ?r)" by (metis prod.collapse)
  from createOrDeleteClientRoleToClient_correct [OF scope_env_client run] show ?thesis by simp
qed

text \<open>A resource that is being deleted.\<close>

definition leaving_scope :: "string \<Rightarrow> KeycloakScopeMapping" where
  "leaving_scope name = \<lparr>sm_Meta = zero_ObjectMeta\<lparr>om_DeletionTimestamp := Some 0, om_Finalizers := [scope_finalizerName]\<rparr>,
     sm_Spec = \<lparr>sms_RealmRef = \<lparr>rr_Kind = KeycloakRealmKind, rr_Name = ''realm''\<rparr>, sms_ConfigRef = \<lparr>cr_Url = '''', cr_Secret = ''s''\<rparr>,
       sms_ClientScope = name, sms_Client = '''', sms_FromClient = '''', sms_Description = '''', sms_Roles = [''admin''],
       sms_ReconciliationStrategy = ''''\<rparr>,
     sm_Status = \<lparr>smt_ID = '''', smt_FailureCount = 0, smt_Error = '''', smt_Phase = ''''\<rparr>\<rparr>"

definition scope_start :: "string \<Rightarrow> ((bool \<times> string) list, event, scope_mem) io_state" where
  "scope_start name = \<lparr>world = [], trace = [], mem = \<lparr>scm_scope = leaving_scope name\<rparr>\<rparr>"

theorem scope_deletion_witness:
  "mapped_names (world (snd (scope_serve scope_env ''r'' test_adapter (scope_start ''scope'')))) False = {''admin''}"
proof -
  let ?s = "scope_start ''scope''"
  let ?r = "scope_serve scope_env ''r'' test_adapter ?s"
  have "fst ?r = Ok (''id'', Some (SyncErr None))" by code_simp
  then have run: "?r = (Ok (''id'', Some (SyncErr None)), snd ?r)" by (metis prod.collapse)
  have fin: "finalizers_ok scope_env" using idle_env_finalizers by (simp add: finalizers_ok_def scope_env_def)
  have idle: "not_found_idle scope_env mapped_names"
    by (auto simp: not_found_idle_def scope_env_def scope_gocloak_def split: gocloak_request.splits)
  have look: "scope_lookup scope_env test_adapter ''r'' ''scope'' ''id'' mapped_names"
    by (auto simp: scope_lookup_def rest_ok_def rest_sent_def scope_env_def rest_accepted_def rest_clientScopes_def test_scope_def)
  show ?thesis
    using scope_deletion_keeps_roles [where scopeID = "''id''", OF fin scope_env_realm idle _ _ _ _ _ _ run] look
    by (simp add: scope_start_def leaving_scope_def)
qed

theorem missing_scope_witness:
  "\<exists>e s'. scope_serve scope_env ''r'' test_adapter (scope_start ''gone'') = (Err e, s') \<and> (\<forall>x. Kube x \<notin> set (trace s'))"
proof -
  let ?s = "scope_start ''gone''"
  let ?g = "GetClientScope scope_env test_adapter ''gone'' ''r'' ?s"
  have "fst ?g = Err (NotFoundErr ''scope gone was not found'')" by code_simp
  then have get: "?g = (Err (NotFoundErr ''scope gone was not found''), snd ?g)" by (metis prod.collapse)
  have facts: "IsErrNotFound (NotFoundErr ''scope gone was not found'')"
    "\<not> IsNoMatchScopeMapping (Some (NewError (''not fount syncScopeMapping clientScope '' @ ''gone'')))"
    by code_simp+
  from missing_scope_blocks_deletion [OF _ _ _ _ get facts] show ?thesis
    by (auto simp: scope_start_def leaving_scope_def)
qed

end
