(* ===== verification/Webhooks.thy ===== *)
theory Webhooks
  imports RoleProps
begin

text \<open>
  \<open>internal/webhook/v1\<close>: the defaulting webhook of \<open>KeycloakClient\<close> and the validating webhook of
  \<open>KeycloakRealm\<close>, with what they guarantee: defaults are stable and override nothing, and realm names
  stay unique among the resources of a cluster.
\<close>

section \<open>keycloakclient_webhook.go\<close>

definition ClientAttributeLogoutRedirectUris :: string where
  "ClientAttributeLogoutRedirectUris = ''post.logout.redirect.uris''"

definition ClientAttributeLogoutRedirectUrisDefValue :: string where
  "ClientAttributeLogoutRedirectUrisDefValue = ''+''"

definition migrateClientRoles :: "Client \<Rightarrow> bool \<times> Client" where
  "migrateClientRoles c =
     (if acl_ClientRolesV2 c = [] \<and> acl_ClientRoles c \<noteq> [] then
        (True, c\<lparr>acl_ClientRolesV2 := map (\<lambda>roleName. \<lparr>clr_Name = roleName, clr_Description = '''', clr_AssociatedClientRoles = []\<rparr>)
           (acl_ClientRoles c)\<rparr>)
      else (False, c))"

definition migrateServiceAccountAttributes :: "ServiceAccount \<Rightarrow> bool \<times> ServiceAccount" where
  "migrateServiceAccountAttributes sa =
     (if the_default [] (sac_AttributesV2 sa) = [] \<and> sac_Attributes sa \<noteq> [] then
        (True, sa\<lparr>sac_AttributesV2 := Some (map (\<lambda>(attr, value). (attr, [value])) (sac_Attributes sa))\<rparr>)
      else (False, sa))"

definition applyDefaults :: "Client \<Rightarrow> bool \<times> Client" where
  "applyDefaults c =
     (let attributes = the_default [] (acl_Attributes c);
          noUris = (map_of attributes ClientAttributeLogoutRedirectUris = None);
          noOrigins = (acl_WebOrigins c = None \<and> acl_WebUrl c \<noteq> '''');
          c1 = c\<lparr>acl_Attributes := Some (if noUris then AList.update ClientAttributeLogoutRedirectUris
            ClientAttributeLogoutRedirectUrisDefValue attributes else attributes)\<rparr>;
          c2 = (if noOrigins then c1\<lparr>acl_WebOrigins := Some [acl_WebUrl c]\<rparr> else c1);
          (migrated, c3) = migrateClientRoles c2;
          updated = (migrated \<or> noOrigins \<or> noUris)
      in case acl_ServiceAccount c of
           None \<Rightarrow> (updated, c3)
         | Some sa \<Rightarrow> (let (migratedSa, sa') = migrateServiceAccountAttributes sa
             in (migratedSa \<or> updated, c3\<lparr>acl_ServiceAccount := Some sa'\<rparr>)))"

definition Default :: "KeycloakClient \<Rightarrow> KeycloakClient" where
  "Default obj = obj\<lparr>kcl_Spec := (kcl_Spec obj)\<lparr>kcs_Client := map (\<lambda>c. snd (applyDefaults c)) (kcs_Client (kcl_Spec obj))\<rparr>\<rparr>"

section \<open>keycloakrealm_webhook.go\<close>

definition list_realms :: "'w env \<Rightarrow> ('w, 'm, KeycloakRealm list) prog" where
  "list_realms env = bindIO (callIO (Kube (KList KindRealm)) (k8s env (KList KindRealm))) (\<lambda>x.
     case x of RealmListObj rs \<Rightarrow> ret rs | _ \<Rightarrow> fail decode_error)"

definition isSameResource :: "KeycloakRealm \<Rightarrow> KeycloakRealm \<Rightarrow> bool" where
  "isSameResource existing obj \<longleftrightarrow> om_Namespace (kr_Meta existing) = om_Namespace (kr_Meta obj) \<and>
     om_Name (kr_Meta existing) = om_Name (kr_Meta obj)"

definition ValidateCreate :: "'w env \<Rightarrow> KeycloakRealm \<Rightarrow> ('w, 'm, unit) prog" where
  "ValidateCreate env obj =
     (if \<exists>group \<in> set (rs_Groups (kr_Spec obj)). grp_SubGroups group \<noteq> [] \<and> grp_ParentGroup group \<noteq> None
      then fail (NewError ''cannot use both SubGroups (deprecated) and ParentGroup fields - migrate to ParentGroup approach'')
      else
        bindIO (wrapErr ''failed to list KeycloakRealm resources: '' (list_realms env)) (\<lambda>existing.
        case find (\<lambda>e. rs_RealmName (kr_Spec e) = rs_RealmName (kr_Spec obj) \<and> \<not> isSameResource e obj) existing of
          Some e \<Rightarrow> fail (NewError (''realm name '' @ rs_RealmName (kr_Spec obj) @
            '' is already in use by another KeycloakRealm resource ('' @ om_Namespace (kr_Meta e) @ ''/'' @ om_Name (kr_Meta e) @ '')''))
        | None \<Rightarrow> ret ()))"

definition ValidateUpdate :: "KeycloakRealm \<Rightarrow> KeycloakRealm \<Rightarrow> ('w, 'e, 'm, unit) io" where
  "ValidateUpdate oldObj newObj = ret ()"

definition ValidateDelete :: "KeycloakRealm \<Rightarrow> ('w, 'e, 'm, unit) io" where
  "ValidateDelete obj = ret ()"

section \<open>Defaults\<close>

lemma migrateClientRoles_snd:
  "snd (migrateClientRoles c) = c\<lparr>acl_ClientRolesV2 := (if acl_ClientRolesV2 c = [] then
     map (\<lambda>roleName. \<lparr>clr_Name = roleName, clr_Description = '''', clr_AssociatedClientRoles = []\<rparr>) (acl_ClientRoles c)
     else acl_ClientRolesV2 c)\<rparr>"
  by (simp add: migrateClientRoles_def)

lemma migrateServiceAccountAttributes_snd:
  "snd (migrateServiceAccountAttributes sa) = sa\<lparr>sac_AttributesV2 :=
     (if the_default [] (sac_AttributesV2 sa) = [] \<and> sac_Attributes sa \<noteq> [] then
       Some (map (\<lambda>(attr, value). (attr, [value])) (sac_Attributes sa)) else sac_AttributesV2 sa)\<rparr>"
  by (simp add: migrateServiceAccountAttributes_def)

definition defaultAttributes :: "string gomap \<Rightarrow> string gomap" where
  "defaultAttributes attributes = (if map_of attributes ClientAttributeLogoutRedirectUris = None
     then AList.update ClientAttributeLogoutRedirectUris ClientAttributeLogoutRedirectUrisDefValue attributes else attributes)"

text \<open>The client after the defaults, field by field.\<close>

lemma applyDefaults_snd:
  "snd (applyDefaults c) = c\<lparr>acl_Attributes := Some (defaultAttributes (the_default [] (acl_Attributes c))),
     acl_WebOrigins := (if acl_WebOrigins c = None \<and> acl_WebUrl c \<noteq> '''' then Some [acl_WebUrl c] else acl_WebOrigins c),
     acl_ClientRolesV2 := acl_ClientRolesV2 (snd (migrateClientRoles c)),
     acl_ServiceAccount := map_option (\<lambda>sa. snd (migrateServiceAccountAttributes sa)) (acl_ServiceAccount c)\<rparr>"
  by (cases "acl_ServiceAccount c"; cases "acl_WebOrigins c = None \<and> acl_WebUrl c \<noteq> ''''")
    (simp_all add: applyDefaults_def Let_def case_prod_unfold migrateClientRoles_snd defaultAttributes_def)

lemma defaultAttributes_idem [simp]: "defaultAttributes (defaultAttributes m) = defaultAttributes m"
  by (simp add: defaultAttributes_def update_conv')

lemma defaultAttributes_keep: "map_of m k = Some v \<Longrightarrow> map_of (defaultAttributes m) k = Some v"
  by (auto simp: defaultAttributes_def update_conv')

lemma defaultAttributes_uris: "map_of (defaultAttributes m) ClientAttributeLogoutRedirectUris \<noteq> None"
  by (auto simp: defaultAttributes_def update_conv')

lemma applyDefaults_idem: "snd (applyDefaults (snd (applyDefaults c))) = snd (applyDefaults c)"
proof -
  have roles: "acl_ClientRolesV2 (snd (migrateClientRoles (snd (applyDefaults c)))) = acl_ClientRolesV2 (snd (migrateClientRoles c))"
    by (simp add: migrateClientRoles_snd applyDefaults_snd)
  have sa: "snd (migrateServiceAccountAttributes (snd (migrateServiceAccountAttributes x))) = snd (migrateServiceAccountAttributes x)" for x
    by (simp add: migrateServiceAccountAttributes_snd)
  show ?thesis
    unfolding applyDefaults_snd [of "snd (applyDefaults c)"] roles
    by (simp add: applyDefaults_snd option.map_comp comp_def sa)
qed

text \<open>
  Defaulting a client resource a second time changes nothing more, and it overrides nothing:
  every attribute that is set keeps its value, so do web origins and roles in the new format that
  are given; the attribute for logout redirects is there afterwards, and roles in the old format
  are carried over under their names if there are none in the new one.
\<close>

theorem Default_correct:
  assumes "i < length (kcs_Client (kcl_Spec obj))"
  shows "Default (Default obj) = Default obj \<and>
     (let c = kcs_Client (kcl_Spec obj) ! i; c' = kcs_Client (kcl_Spec (Default obj)) ! i;
          attrs = the_default [] (acl_Attributes c); attrs' = the_default [] (acl_Attributes c')
      in (\<forall>k v. map_of attrs k = Some v \<longrightarrow> map_of attrs' k = Some v) \<and>
         map_of attrs' ClientAttributeLogoutRedirectUris \<noteq> None \<and>
         (acl_WebOrigins c \<noteq> None \<longrightarrow> acl_WebOrigins c' = acl_WebOrigins c) \<and>
         (if acl_ClientRolesV2 c = [] then map clr_Name (acl_ClientRolesV2 c') = acl_ClientRoles c
          else acl_ClientRolesV2 c' = acl_ClientRolesV2 c))"
proof -
  have "Default (Default obj) = Default obj" by (simp add: Default_def applyDefaults_idem)
  moreover have "kcs_Client (kcl_Spec (Default obj)) ! i = snd (applyDefaults (kcs_Client (kcl_Spec obj) ! i))"
    using assms by (simp add: Default_def)
  ultimately show ?thesis
    using defaultAttributes_keep defaultAttributes_uris by (simp add: Let_def applyDefaults_snd migrateClientRoles_snd comp_def)
qed

section \<open>Uniqueness of realm names\<close>

text \<open>
  The resources of a cluster, as the webhook sees them, and how they change: an admitted resource
  of a new name is added, a resource is replaced by one with the same realm name (the field is
  marked immutable in \<open>keycloakrealm_types.go\<close>), a resource is removed. Requests are admitted one at a time.
\<close>

definition registry_env :: "KeycloakRealm list env" where
  "registry_env = idle_env\<lparr>k8s := (\<lambda>rq w. (case rq of KList KindRealm \<Rightarrow> Inr (RealmListObj w) | _ \<Rightarrow> Inl (NewError ''refused''), w))\<rparr>"

definition admitted :: "KeycloakRealm list \<Rightarrow> KeycloakRealm \<Rightarrow> bool" where
  "admitted w obj \<longleftrightarrow> fst (ValidateCreate registry_env obj \<lparr>world = w, trace = [], mem = ()\<rparr>) = Ok ()"

inductive realm_step :: "KeycloakRealm list \<Rightarrow> KeycloakRealm list \<Rightarrow> bool" where
  created: "admitted w r \<Longrightarrow> \<not> (\<exists>x \<in> set w. isSameResource x r) \<Longrightarrow> realm_step w (w @ [r])"
| updated: "isSameResource r r' \<Longrightarrow> rs_RealmName (kr_Spec r') = rs_RealmName (kr_Spec r) \<Longrightarrow> realm_step (xs @ r # ys) (xs @ r' # ys)"
| deleted: "realm_step (xs @ r # ys) (xs @ ys)"

lemma admitted_iff:
  "admitted w obj \<longleftrightarrow> \<not> (\<exists>g \<in> set (rs_Groups (kr_Spec obj)). grp_SubGroups g \<noteq> [] \<and> grp_ParentGroup g \<noteq> None) \<and>
     (\<forall>e \<in> set w. rs_RealmName (kr_Spec e) = rs_RealmName (kr_Spec obj) \<longrightarrow> isSameResource e obj)"
proof -
  have list: "list_realms registry_env \<lparr>world = w, trace = [], mem = ()\<rparr> = (Ok w, \<lparr>world = w, trace = [Kube (KList KindRealm)], mem = ()\<rparr>)"
    by (simp add: list_realms_def registry_env_def bindIO_def callIO_def ret_def)
  show ?thesis
    by (auto simp: admitted_def ValidateCreate_def bindIO_def wrapErr_def list fail_def ret_def find_None_iff find_Some_iff split: option.split)
qed

lemma realm_step_unique:
  "realm_step w w' \<Longrightarrow> distinct (map (\<lambda>r. rs_RealmName (kr_Spec r)) w) \<Longrightarrow> distinct (map (\<lambda>r. rs_RealmName (kr_Spec r)) w')"
  by (induction rule: realm_step.induct) (auto simp: admitted_iff)

text \<open>
  C15. Whatever sequence of admitted creations, updates and deletions, no two realm resources of
  the cluster have the same realm name.
\<close>

theorem realm_names_unique:
  assumes "realm_step\<^sup>*\<^sup>* [] w"
  shows "distinct (map (\<lambda>r. rs_RealmName (kr_Spec r)) w)"
  using assms by (induction rule: rtranclp_induct) (simp, rule realm_step_unique)

section \<open>Concrete runs\<close>

definition named_realm :: "string \<Rightarrow> KeycloakRealm" where
  "named_realm n = idle_realm\<lparr>kr_Meta := zero_ObjectMeta\<lparr>om_Name := n\<rparr>, kr_Spec := (kr_Spec idle_realm)\<lparr>rs_RealmName := n\<rparr>\<rparr>"

theorem realm_names_witness:
  "realm_step\<^sup>*\<^sup>* [] [named_realm ''a'', named_realm ''b''] \<and>
   distinct (map (\<lambda>r. rs_RealmName (kr_Spec r)) [named_realm ''a'', named_realm ''b''])"
proof -
  have ok: "admitted [] (named_realm ''a'')" "admitted [named_realm ''a''] (named_realm ''b'')" by code_simp+
  have new: "\<not> isSameResource (named_realm ''a'') (named_realm ''b'')" by code_simp
  have "realm_step [] [named_realm ''a'']" using created [OF ok(1)] by simp
  moreover have "realm_step [named_realm ''a''] [named_realm ''a'', named_realm ''b'']" using created [OF ok(2)] new by simp
  ultimately have run: "realm_step\<^sup>*\<^sup>* [] [named_realm ''a'', named_realm ''b'']" by (meson r_into_rtranclp rtranclp_trans)
  from run realm_names_unique [OF run] show ?thesis by blast
qed

definition test_client :: Client where
  "test_client = \<lparr>acl_ClientId = ''app'', acl_Secret = '''', acl_RealmRoles = None, acl_Public = False, acl_WebUrl = ''https://app'',
     acl_AdminUrl = '''', acl_HomeUrl = '''', acl_Protocol = None, acl_Attributes = Some [(''a'', ''1'')], acl_DirectAccess = False,
     acl_AdvancedProtocolMappers = False, acl_ClientRoles = [''r''], acl_ClientRolesV2 = [], acl_ProtocolMappers = None,
     acl_ServiceAccount = None, acl_FrontChannelLogout = False, acl_ReconciliationStrategy = '''', acl_DefaultClientScopes = [],
     acl_OptionalClientScopes = [], acl_RedirectUris = None, acl_WebOrigins = None, acl_ImplicitFlowEnabled = False,
     acl_AuthorizationServicesEnabled = False, acl_AdminFineGrainedPermissionsEnabled = False, acl_BearerOnly = False,
     acl_ClientAuthenticatorType = ''client-secret'', acl_ConsentRequired = False, acl_Description = '''', acl_Enabled = True,
     acl_FullScopeAllowed = True, acl_Name = ''app'', acl_StandardFlowEnabled = True, acl_SurrogateAuthRequired = False,
     acl_Authorization = None, acl_Permission = None, acl_AuthenticationFlowBindingOverrides = None\<rparr>"

definition test_client_cr :: KeycloakClient where
  "test_client_cr = \<lparr>kcl_Meta = zero_ObjectMeta,
     kcl_Spec = \<lparr>kcs_RealmRef = \<lparr>rr_Kind = KeycloakRealmKind, rr_Name = ''realm''\<rparr>, kcs_ConfigRef = \<lparr>cr_Url = '''', cr_Secret = ''s''\<rparr>,
       kcs_Client = [test_client], kcs_ClientScope = None, kcs_ClientRegistrationPolicy = None\<rparr>,
     kcl_Status = \<lparr>kct_Error = '''', kct_Phase = '''', kct_ClientIDs = [], kct_ClientScopeIDs = [], kct_FailureCount = 0, kct_Conditions = []\<rparr>\<rparr>"

theorem Default_witness:
  "map clr_Name (acl_ClientRolesV2 (kcs_Client (kcl_Spec (Default test_client_cr)) ! 0)) = [''r''] \<and>
   Default (Default test_client_cr) = Default test_client_cr"
proof -
  have "0 < length (kcs_Client (kcl_Spec test_client_cr))" by (simp add: test_client_cr_def)
  from Default_correct [OF this] show ?thesis by (simp add: Let_def) (simp add: test_client_cr_def test_client_def)
qed

end
