(* ===== verification/ClientAdapter.thy ===== *)
theory ClientAdapter
  imports ScopeAdapter RealmBuilder
begin

text \<open>
  The methods of the legacy adapter for client scopes (\<open>gocloak_adapter_client_scope.go\<close>), client
  registration policies (\<open>client_registration_policy.go\<close>) and the deletion of a client.
\<close>

section \<open>gocloak_adapter_client_scope.go\<close>

definition postClientScope :: string where "postClientScope = ''/admin/realms/{realm}/client-scopes''"
definition putClientScope :: string where "putClientScope = ''/admin/realms/{realm}/client-scopes/{id}''"
definition postClientScopeMapper :: string where
  "postClientScopeMapper = ''/admin/realms/{realm}/client-scopes/{scopeId}/protocol-mappers/models''"
definition deleteClientScopeProtocolMapper :: string where
  "deleteClientScopeProtocolMapper = ''/admin/realms/{realm}/client-scopes/{clientScopeID}/protocol-mappers/models/{protocolMapperID}''"
definition createClientScopeProtocolMapper :: string where
  "createClientScopeProtocolMapper = ''/admin/realms/{realm}/client-scopes/{clientScopeID}/protocol-mappers/models''"
definition defaultClientScope :: string where
  "defaultClientScope = ''/admin/realms/{realm}/default-default-client-scopes/{clientScopeID}''"
definition getDefaultClientScopes :: string where
  "getDefaultClientScopes = ''/admin/realms/{realm}/default-default-client-scopes''"
definition optionalClientScope :: string where
  "optionalClientScope = ''/admin/realms/{realm}/default-optional-client-scopes/{clientScopeID}''"
definition getOptionalClientScopes :: string where
  "getOptionalClientScopes = ''/admin/realms/{realm}/default-optional-client-scopes''"

definition ClientScopeTypeDefault :: string where "ClientScopeTypeDefault = ''default''"
definition ClientScopeTypeOptional :: string where "ClientScopeTypeOptional = ''optional''"
definition ClientScopeTypeNone :: string where "ClientScopeTypeNone = ''none''"

text \<open>
  The four requests on the lists of a realm. The endpoint constants for putting and deleting an
  entry of a list are equal, and so is one here.
\<close>

definition scope_params :: "string \<Rightarrow> string \<Rightarrow> string gomap" where
  "scope_params realm scopeID = [(''realm'', realm), (''clientScopeID'', scopeID)]"

definition setDefaultClientScopeForRealm :: "'w env \<Rightarrow> GoCloakAdapter \<Rightarrow> string \<Rightarrow> string \<Rightarrow> ('w, 'm, unit) prog" where
  "setDefaultClientScopeForRealm env a realm scopeID =
     bindIO (restCall env a PUT defaultClientScope (scope_params realm scopeID) (RestParams (scope_params realm scopeID))) (\<lambda>ans.
     wrapErr ''unable to set default client scope for realm: '' (voidIO (checked ans)))"

definition setOptionalClientScopeForRealm :: "'w env \<Rightarrow> GoCloakAdapter \<Rightarrow> string \<Rightarrow> string \<Rightarrow> ('w, 'm, unit) prog" where
  "setOptionalClientScopeForRealm env a realm scopeID =
     bindIO (restCall env a PUT optionalClientScope (scope_params realm scopeID) (RestParams (scope_params realm scopeID))) (\<lambda>ans.
     wrapErr ''unable to set optional client scope for realm: '' (voidIO (checked ans)))"

definition unsetDefaultClientScopeForRealm :: "'w env \<Rightarrow> GoCloakAdapter \<Rightarrow> string \<Rightarrow> string \<Rightarrow> ('w, 'm, unit) prog" where
  "unsetDefaultClientScopeForRealm env a realm scopeID =
     bindIO (restCall env a DELETE defaultClientScope (scope_params realm scopeID) NoRest) (\<lambda>ans.
     wrapErr ''unable to unset default client scope for realm: '' (voidIO (checked ans)))"

definition unsetOptionalClientScopeForRealm :: "'w env \<Rightarrow> GoCloakAdapter \<Rightarrow> string \<Rightarrow> string \<Rightarrow> ('w, 'm, unit) prog" where
  "unsetOptionalClientScopeForRealm env a realm scopeID =
     bindIO (restCall env a DELETE optionalClientScope (scope_params realm scopeID) NoRest) (\<lambda>ans.
     wrapErr ''unable to unset optional client scope for realm: '' (voidIO (checked ans)))"

text \<open>\<open>if err := m; err != nil && !IsErrNotFound(err) { return wrap(err) }\<close>\<close>

definition unless_missing :: "string \<Rightarrow> ('w, 'm, unit) prog \<Rightarrow> ('w, 'm, unit) prog" where
  "unless_missing pre m = bindIO (tryIO m) (\<lambda>res. case res of
     Inl err \<Rightarrow> if \<not> IsErrNotFound err then fail (Wrapped pre err) else ret ()
   | Inr _ \<Rightarrow> ret ())"

definition setClientScopeType :: "'w env \<Rightarrow> GoCloakAdapter \<Rightarrow> string \<Rightarrow> string \<Rightarrow> string \<Rightarrow> ('w, 'm, unit) prog" where
  "setClientScopeType env a realm scopeID scopeType =
     (if scopeType = ClientScopeTypeDefault then
        bindIO (unless_missing ''unable to unset optional client scope for realm: '' (unsetOptionalClientScopeForRealm env a realm scopeID)) (\<lambda>_.
        wrapErr ''unable to set default client scope for realm: '' (setDefaultClientScopeForRealm env a realm scopeID))
      else if scopeType = ClientScopeTypeOptional then
        bindIO (unless_missing ''unable to unset default client scope for realm: '' (unsetDefaultClientScopeForRealm env a realm scopeID)) (\<lambda>_.
        wrapErr ''unable to set optional client scope for realm: '' (setOptionalClientScopeForRealm env a realm scopeID))
      else if scopeType = ClientScopeTypeNone then
        bindIO (unless_missing ''unable to unset default client scope for realm: '' (unsetDefaultClientScopeForRealm env a realm scopeID)) (\<lambda>_.
        unless_missing ''unable to unset optional client scope for realm: '' (unsetOptionalClientScopeForRealm env a realm scopeID))
      else fail (NewError (''invalid client scope type: '' @ scopeType)))"

definition GetDefaultClientScopesForRealm :: "'w env \<Rightarrow> GoCloakAdapter \<Rightarrow> string \<Rightarrow> ('w, 'm, adapter_ClientScope list) prog" where
  "GetDefaultClientScopesForRealm env a realmName =
     bindIO (restCall env a GET getDefaultClientScopes [(''realm'', realmName)] NoRest) (\<lambda>ans.
     bindIO (wrapErr ''unable to get default client scopes for realm: '' (checked ans)) (\<lambda>rsp. ret (the_default [] (rest_clientScopes rsp))))"

definition GetOptionalClientScopesForRealm :: "'w env \<Rightarrow> GoCloakAdapter \<Rightarrow> string \<Rightarrow> ('w, 'm, adapter_ClientScope list) prog" where
  "GetOptionalClientScopesForRealm env a realmName =
     bindIO (restCall env a GET getOptionalClientScopes [(''realm'', realmName)] NoRest) (\<lambda>ans.
     bindIO (wrapErr ''unable to get optional client scopes for realm: '' (checked ans)) (\<lambda>rsp. ret (the_default [] (rest_clientScopes rsp))))"

definition HasDefaultClientScope :: "'w env \<Rightarrow> GoCloakAdapter \<Rightarrow> string \<Rightarrow> string \<Rightarrow> ('w, 'm, bool) prog" where
  "HasDefaultClientScope env a realmName scopeName =
     bindIO (GetDefaultClientScopesForRealm env a realmName) (\<lambda>scopes. ret (\<exists>s \<in> set scopes. dcs_Name s = scopeName))"

definition HasOptionalClientScope :: "'w env \<Rightarrow> GoCloakAdapter \<Rightarrow> string \<Rightarrow> string \<Rightarrow> ('w, 'm, bool) prog" where
  "HasOptionalClientScope env a realmName scopeName =
     bindIO (GetOptionalClientScopesForRealm env a realmName) (\<lambda>scopes. ret (\<exists>s \<in> set scopes. dcs_Name s = scopeName))"

text \<open>
  The two lookups of the last case run in goroutines. Either may come first; an error of the
  first cancels the other, whose request is then not sent here.
\<close>

definition both_lookups :: "'w env \<Rightarrow> ('w, 'm, bool) prog \<Rightarrow> ('w, 'm, bool) prog \<Rightarrow> ('w, 'm, bool \<times> bool) prog" where
  "both_lookups env m n = (\<lambda>s.
     if errgroup_first env (length (trace s)) then bindIO m (\<lambda>x. bindIO n (\<lambda>y. ret (x, y))) s
     else bindIO n (\<lambda>y. bindIO m (\<lambda>x. ret (x, y))) s)"

definition needToUpdateType :: "'w env \<Rightarrow> GoCloakAdapter \<Rightarrow> string \<Rightarrow> adapter_ClientScope \<Rightarrow> ('w, 'm, bool) prog" where
  "needToUpdateType env a realmName scope =
     (if dcs_Type scope = ClientScopeTypeDefault then
        bindIO (wrapErr ''unable to check default client scopes: '' (HasDefaultClientScope env a realmName (dcs_Name scope))) (\<lambda>hasDefault.
        ret (\<not> hasDefault))
      else if dcs_Type scope = ClientScopeTypeOptional then
        bindIO (wrapErr ''unable to check optional client scopes: '' (HasOptionalClientScope env a realmName (dcs_Name scope))) (\<lambda>hasOptional.
        ret (\<not> hasOptional))
      else if dcs_Type scope = ClientScopeTypeNone then
        bindIO (wrapErr ''unable to check client scope lists: ''
          (both_lookups env (HasDefaultClientScope env a realmName (dcs_Name scope)) (HasOptionalClientScope env a realmName (dcs_Name scope))))
          (\<lambda>(hasDefault, hasOptional). ret (hasDefault \<or> hasOptional))
      else ret True)"

definition CreateClientScope :: "'w env \<Rightarrow> GoCloakAdapter \<Rightarrow> string \<Rightarrow> adapter_ClientScope \<Rightarrow> ('w, 'm, string) prog" where
  "CreateClientScope env a realmName scope =
     bindIO (restCall env a POST postClientScope [(''realm'', realmName)] (RestClientScope scope)) (\<lambda>ans.
     bindIO (wrapErr ''unable to create client scope: '' (checked ans)) (\<lambda>rsp.
     bindIO (wrapErr ''unable to get flow id: '' (liftIO (getIDFromResponseLocation rsp))) (\<lambda>i.
     bindIO (whenIO (dcs_Type scope \<noteq> '''' \<and> dcs_Type scope \<noteq> ClientScopeTypeNone)
       (wrapErr ''unable to set client scope type: '' (setClientScopeType env a realmName i (dcs_Type scope)))) (\<lambda>_.
     ret i))))"

definition deleteScopeMapper :: "'w env \<Rightarrow> GoCloakAdapter \<Rightarrow> string \<Rightarrow> string \<Rightarrow> gocloak_ProtocolMapper \<Rightarrow> ('w, 'm, unit) prog" where
  "deleteScopeMapper env a realm scopeID pm =
     bindIO (derefIO (gpr_ID pm)) (\<lambda>i.
     bindIO (restCall env a DELETE deleteClientScopeProtocolMapper (scope_params realm scopeID @ [(''protocolMapperID'', i)]) NoRest) (\<lambda>ans.
     wrapErr ''error during client scope protocol mapper deletion: '' (voidIO (checked ans))))"

definition createScopeMapper :: "'w env \<Rightarrow> GoCloakAdapter \<Rightarrow> string \<Rightarrow> string \<Rightarrow> adapter_ProtocolMapper \<Rightarrow> ('w, 'm, unit) prog" where
  "createScopeMapper env a realm scopeID pm =
     bindIO (restCall env a POST createClientScopeProtocolMapper (scope_params realm scopeID) (RestProtocolMapper pm)) (\<lambda>ans.
     wrapErr (''error during client scope protocol mapper creation ['' @ dpm_Name pm @ '']: '') (voidIO (checked ans)))"

definition gocloak_clientScope :: "gocloak_result \<Rightarrow> gocloak_ClientScope" where
  "gocloak_clientScope r = (case r of GocloakClientScope x \<Rightarrow> x | _ \<Rightarrow> \<lparr>gcs_ID = None, gcs_ProtocolMappers = None, gcs_rest = []\<rparr>)"

definition syncClientScopeProtocolMappers ::
  "'w env \<Rightarrow> GoCloakAdapter \<Rightarrow> string \<Rightarrow> string \<Rightarrow> adapter_ProtocolMapper list \<Rightarrow> ('w, 'm, unit) prog" where
  "syncClientScopeProtocolMappers env a realm scopeID instanceProtocolMappers =
     bindIO (wrapErr ''unable to get client scope: '' (withToken a (\<lambda>t. GocloakGetClientScope t realm scopeID) env)) (\<lambda>r.
     bindIO (forIO (deleteScopeMapper env a realm scopeID) (the_default [] (gcs_ProtocolMappers (gocloak_clientScope r)))) (\<lambda>_.
     forIO (createScopeMapper env a realm scopeID) instanceProtocolMappers))"

definition UpdateClientScope :: "'w env \<Rightarrow> GoCloakAdapter \<Rightarrow> string \<Rightarrow> string \<Rightarrow> adapter_ClientScope \<Rightarrow> ('w, 'm, unit) prog" where
  "UpdateClientScope env a realmName scopeID scope =
     bindIO (wrapErr ''unable to sync client scope protocol mappers: ''
       (syncClientScopeProtocolMappers env a realmName scopeID (dcs_ProtocolMappers scope))) (\<lambda>_.
     bindIO (restCall env a PUT putClientScope [(''realm'', realmName), (''id'', scopeID)] (RestClientScope scope)) (\<lambda>ans.
     bindIO (wrapErr ''unable to update client scope: '' (checked ans)) (\<lambda>_.
     bindIO (wrapErr ''unable to check if need to update type: '' (needToUpdateType env a realmName scope)) (\<lambda>need.
     if \<not> need then ret ()
     else wrapErr ''unable to set client scope type: '' (setClientScopeType env a realmName scopeID (dcs_Type scope))))))"

definition DeleteClientScope :: "'w env \<Rightarrow> GoCloakAdapter \<Rightarrow> string \<Rightarrow> string \<Rightarrow> ('w, 'm, unit) prog" where
  "DeleteClientScope env a realmName scopeID =
     bindIO (wrapErr ''unable to unset client scope from realm: '' (setClientScopeType env a realmName scopeID ClientScopeTypeNone)) (\<lambda>_.
     wrapErr ''unable to delete client scope: '' (voidIO (withToken a (\<lambda>t. GocloakDeleteClientScope t realmName scopeID) env)))"

definition filterClientScopes :: "string list \<Rightarrow> adapter_ClientScope list \<Rightarrow> go_error + adapter_ClientScope list" where
  "filterClientScopes scopeNames clientScopes =
     (let clientScopesMap = build_map (\<lambda>s. Some (dcs_Name s)) id clientScopes;
          missingScopes = filter (\<lambda>n. map_of clientScopesMap n = None) scopeNames
      in if missingScopes \<noteq> [] then Inl (NewError (''failed to get '' @ [CHR 0x27] @ strings_Join missingScopes '','' @ [CHR 0x27] @ '' keycloak client scopes''))
         else Inr (List.map_filter (map_of clientScopesMap) scopeNames))"

definition GetClientScopesByNames :: "'w env \<Rightarrow> GoCloakAdapter \<Rightarrow> string \<Rightarrow> string list \<Rightarrow> ('w, 'm, adapter_ClientScope list) prog" where
  "GetClientScopesByNames env a realmName scopeNames =
     bindIO (restCall env a GET getRealmClientScopes [(''realm'', realmName)] NoRest) (\<lambda>ans.
     bindIO (checked ans) (\<lambda>resp.
     liftIO (filterClientScopes scopeNames (the_default [] (rest_clientScopes resp)))))"

definition rest_protocolMappers :: "rest_response \<Rightarrow> adapter_ProtocolMapper list" where
  "rest_protocolMappers r = (case rsr_Result r of RestProtocolMappers x \<Rightarrow> x | _ \<Rightarrow> [])"

definition GetClientScopeMappers :: "'w env \<Rightarrow> GoCloakAdapter \<Rightarrow> string \<Rightarrow> string \<Rightarrow> ('w, 'm, adapter_ProtocolMapper list) prog" where
  "GetClientScopeMappers env a realmName scopeID =
     bindIO (restCall env a GET postClientScopeMapper [(''realm'', realmName), (''scopeId'', scopeID)] NoRest) (\<lambda>ans.
     bindIO (wrapErr ''unable to get client scope mappers: '' (checked ans)) (\<lambda>rsp. ret (rest_protocolMappers rsp)))"

definition PutClientScopeMapper :: "'w env \<Rightarrow> GoCloakAdapter \<Rightarrow> string \<Rightarrow> string \<Rightarrow> adapter_ProtocolMapper \<Rightarrow> ('w, 'm, unit) prog" where
  "PutClientScopeMapper env a realmName scopeID protocolMapper =
     bindIO (restCall env a POST postClientScopeMapper [(''realm'', realmName), (''scopeId'', scopeID)] (RestProtocolMapper protocolMapper)) (\<lambda>ans.
     wrapErr ''unable to put client scope mapper: '' (voidIO (checked ans)))"

section \<open>gocloak_adapter.go\<close>

definition adapter_DeleteClient :: "'w env \<Rightarrow> GoCloakAdapter \<Rightarrow> string \<Rightarrow> string \<Rightarrow> ('w, 'm, unit) prog" where
  "adapter_DeleteClient env a kcClientID realmName =
     wrapErr ''unable to delete client: '' (voidIO (withToken a (\<lambda>t. GocloakClientOp t realmName kcClientID DeleteClientOp) env))"

section \<open>client_registration_policy.go\<close>

definition ClientRegistrationPolicyProviderType :: string where
  "ClientRegistrationPolicyProviderType = ''org.keycloak.services.clientregistration.policy.ClientRegistrationPolicy''"

definition AllowedClientScopesPolicySubTypeAuthenticated :: string where
  "AllowedClientScopesPolicySubTypeAuthenticated = ''authenticated''"

definition DefaultAllowedClientScopesPolicyName :: string where
  "DefaultAllowedClientScopesPolicyName = ''Allowed Client Scopes''"

record GetComponentsParams =
  gcp_ProviderType :: "string option"
  gcp_Name :: "string option"

definition query_of :: "string \<Rightarrow> string option \<Rightarrow> string gomap" where
  "query_of key v = (case v of None \<Rightarrow> [] | Some x \<Rightarrow> if x = '''' then [] else [(key, x)])"

definition GetComponents :: "'w env \<Rightarrow> GoCloakAdapter \<Rightarrow> string \<Rightarrow> GetComponentsParams option \<Rightarrow> ('w, 'm, Component list) prog" where
  "GetComponents env a realmName params =
     bindIO (restQuery env a GET realmComponent [(''realm'', realmName)] (case params of None \<Rightarrow> []
       | Some p \<Rightarrow> query_of ''type'' (gcp_ProviderType p) @ query_of ''name'' (gcp_Name p)) NoRest) (\<lambda>ans.
     bindIO (wrapErr ''error during get components request: '' (checked ans)) (\<lambda>rsp. ret (rest_components rsp)))"

record ClientRegistrationPolicy =
  crp_Name :: string
  crp_ProviderID :: string
  crp_SubType :: string
  crp_Config :: "string list gomap"

definition policy_name :: "ClientRegistrationPolicy \<Rightarrow> string" where
  "policy_name p = (if crp_Name p = '''' then DefaultAllowedClientScopesPolicyName else crp_Name p)"

definition getClientRegistrationPolicy ::
  "'w env \<Rightarrow> GoCloakAdapter \<Rightarrow> string \<Rightarrow> string \<Rightarrow> string \<Rightarrow> ('w, 'm, Component option) prog" where
  "getClientRegistrationPolicy env a realmName providerID subType =
     bindIO (wrapErr ''unable to get client registration policies: ''
       (GetComponents env a realmName (Some \<lparr>gcp_ProviderType = Some ClientRegistrationPolicyProviderType, gcp_Name = None\<rparr>))) (\<lambda>components.
     ret (find (\<lambda>c. cp_ProviderID c = providerID \<and> cp_SubType c = subType) components))"

definition policy_label :: "ClientRegistrationPolicy \<Rightarrow> string" where
  "policy_label policy = crp_ProviderID policy @ ''/'' @ crp_SubType policy @ '': ''"

definition createClientRegistrationPolicy :: "'w env \<Rightarrow> GoCloakAdapter \<Rightarrow> string \<Rightarrow> ClientRegistrationPolicy \<Rightarrow> ('w, 'm, unit) prog" where
  "createClientRegistrationPolicy env a realmName policy =
     wrapErr (''unable to create client registration policy '' @ policy_label policy)
       (CreateComponent env a realmName \<lparr>cp_Name = policy_name policy, cp_ParentID = '''', cp_ProviderID = crp_ProviderID policy,
          cp_ProviderType = ClientRegistrationPolicyProviderType, cp_SubType = crp_SubType policy, cp_Config = crp_Config policy, cp_ID = ''''\<rparr>)"

definition appendMissing :: "string list \<Rightarrow> string list \<Rightarrow> string list \<times> string list" where
  "appendMissing current values = fold (\<lambda>v (result, added). if v \<in> set result then (result, added) else (result @ [v], added @ [v])) values (current, [])"

definition merge_key :: "string \<times> string list \<Rightarrow> string list gomap \<times> bool \<Rightarrow> string list gomap \<times> bool" where
  "merge_key e acc = (case (e, acc) of ((key, values), (config, changed)) \<Rightarrow>
     (case appendMissing (get_list config key) values of (merged, addedValues) \<Rightarrow>
        if addedValues = [] then (config, changed) else (AList.update key merged config, True)))"

definition AddClientRegistrationPolicyConfig :: "'w env \<Rightarrow> GoCloakAdapter \<Rightarrow> string \<Rightarrow> ClientRegistrationPolicy \<Rightarrow> ('w, 'm, unit) prog" where
  "AddClientRegistrationPolicyConfig env a realmName policy =
     (if crp_Config policy = [] then ret ()
      else
        bindIO (getClientRegistrationPolicy env a realmName (crp_ProviderID policy) (crp_SubType policy)) (\<lambda>res. case res of
          None \<Rightarrow> createClientRegistrationPolicy env a realmName policy
        | Some component \<Rightarrow>
            bindIO (range_order (map_rank env) (crp_Config policy)) (\<lambda>es.
            case fold merge_key es (cp_Config component, False) of (config, changed) \<Rightarrow>
              if \<not> changed then ret ()
              else wrapErr (''unable to update client registration policy '' @ policy_label policy)
                (UpdateComponent env a realmName (component\<lparr>cp_Config := config\<rparr>)))))"

end
