(* ===== verification/ClientScopeChain.thy ===== *)
theory ClientScopeChain
  imports ClientAdapter SecretRef UserController
begin

text \<open>
  Parts of \<open>internal/controller/keycloakclient\<close>: the chain of client scopes (\<open>chain/scope\<close>), the chain of
  client registration policies (\<open>chain/policy\<close>), and what they share with the chain of clients. The
  memory of a run holds the resource, the id of the client scope at hand (\<open>ReasonScope\<close> of the scope
  chain) and the client at hand.
\<close>

section \<open>chain/consts.go\<close>

definition ConditionReady :: string where "ConditionReady = ''Ready''"
definition ConditionClientSynced :: string where "ConditionClientSynced = ''ClientSynced''"
definition ConditionClientRolesSynced :: string where "ConditionClientRolesSynced = ''ClientRolesSynced''"
definition ConditionRealmRolesSynced :: string where "ConditionRealmRolesSynced = ''RealmRolesSynced''"
definition ConditionClientScopesSynced :: string where "ConditionClientScopesSynced = ''ClientScopesSynced''"
definition ConditionProtocolMappersSynced :: string where "ConditionProtocolMappersSynced = ''ProtocolMappersSynced''"
definition ConditionServiceAccountSynced :: string where "ConditionServiceAccountSynced = ''ServiceAccountSynced''"
definition ConditionAuthorizationScopesSynced :: string where "ConditionAuthorizationScopesSynced = ''AuthorizationScopesSynced''"
definition ConditionAuthorizationResourcesSynced :: string where "ConditionAuthorizationResourcesSynced = ''AuthorizationResourcesSynced''"
definition ConditionAuthorizationPoliciesSynced :: string where "ConditionAuthorizationPoliciesSynced = ''AuthorizationPoliciesSynced''"
definition ConditionAuthorizationPermissionsSynced :: string where "ConditionAuthorizationPermissionsSynced = ''AuthorizationPermissionsSynced''"
definition ConditionAdminFineGrainedPermissionsV1Synced :: string where "ConditionAdminFineGrainedPermissionsV1Synced = ''AdminFineGrainedPermissionsV1Synced''"
definition ConditionClientRegistrationPolicySynced :: string where "ConditionClientRegistrationPolicySynced = ''ClientRegistrationPolicySynced''"
definition ReasonClientRolesSynced :: string where "ReasonClientRolesSynced = ''ClientRolesSynced''"
definition ReasonRealmRolesSynced :: string where "ReasonRealmRolesSynced = ''RealmRolesSynced''"
definition ReasonClientScopesSynced :: string where "ReasonClientScopesSynced = ''ClientScopesSynced''"
definition ReasonProtocolMappersSynced :: string where "ReasonProtocolMappersSynced = ''ProtocolMappersSynced''"
definition ReasonServiceAccountSynced :: string where "ReasonServiceAccountSynced = ''ServiceAccountSynced''"
definition ReasonAuthorizationScopesSynced :: string where "ReasonAuthorizationScopesSynced = ''AuthorizationScopesSynced''"
definition ReasonAuthorizationResourcesSynced :: string where "ReasonAuthorizationResourcesSynced = ''AuthorizationResourcesSynced''"
definition ReasonAuthorizationPoliciesSynced :: string where "ReasonAuthorizationPoliciesSynced = ''AuthorizationPoliciesSynced''"
definition ReasonAuthorizationPermissionsSynced :: string where "ReasonAuthorizationPermissionsSynced = ''AuthorizationPermissionsSynced''"
definition ReasonAdminFineGrainedPermissionsV1Synced :: string where "ReasonAdminFineGrainedPermissionsV1Synced = ''AdminFineGrainedPermissionsV1Synced''"
definition ReasonClientRegistrationPolicySynced :: string where "ReasonClientRegistrationPolicySynced = ''ClientRegistrationPolicySynced''"
definition ReasonClientUpdated :: string where "ReasonClientUpdated = ''ClientUpdated''"
definition ReasonReconciliationSucceeded :: string where "ReasonReconciliationSucceeded = ''ReconciliationSucceeded''"
definition client_ReasonKeycloakAPIError :: string where "client_ReasonKeycloakAPIError = ''KeycloakAPIError''"

section \<open>The memory of a run\<close>

text \<open>
  \<open>DataClient\<close> of \<open>chain/client\<close>, with the fields of its \<open>ReasonScope\<close>; its resource is the one of the
  run. \<open>dc_Client\<close> is a copy of the entry of the resource.
\<close>

record DataClient =
  dc_Client :: Client
  dc_ClientIndex :: nat
  dc_Namespace :: string
  dc_ClientID :: string
  dc_Generation :: int64

record client_mem =
  clm_client :: KeycloakClient
  clm_scopeID :: string
  clm_data :: DataClient

type_synonym ('w, 'a) client_prog = "('w, client_mem, 'a) prog"

definition client_obj :: "client_mem client_Object" where
  "client_obj = \<lparr>obj_meta = (\<lambda>m. kcl_Meta (clm_client m)),
     obj_set_meta = (\<lambda>x m. m\<lparr>clm_client := (clm_client m)\<lparr>kcl_Meta := x\<rparr>\<rparr>),
     obj_out = (\<lambda>m. ClientObj (clm_client m)),
     obj_in = (\<lambda>x m. case x of ClientObj k \<Rightarrow> m\<lparr>clm_client := k\<rparr> | _ \<Rightarrow> m)\<rparr>"

interpretation client_object: client_object client_obj
  by unfold_locales (simp_all add: client_obj_def)

section \<open>Accessors\<close>

definition scope_GetType :: "ClientScope \<Rightarrow> string" where
  "scope_GetType sc = (if acs_Default sc then ''default'' else acs_Type sc)"

definition GetClientScopeIDByName :: "KeycloakClientStatus \<Rightarrow> string \<Rightarrow> string" where
  "GetClientScopeIDByName st name = get_str (kct_ClientScopeIDs st) name"

definition PutClientScopeIDByName :: "string \<Rightarrow> string \<Rightarrow> KeycloakClientStatus \<Rightarrow> KeycloakClientStatus" where
  "PutClientScopeIDByName name i st = st\<lparr>kct_ClientScopeIDs := AList.update name i (kct_ClientScopeIDs st)\<rparr>"

definition GetClientIDByName :: "KeycloakClientStatus \<Rightarrow> string \<Rightarrow> string" where
  "GetClientIDByName st name = get_str (kct_ClientIDs st) name"

definition PutClientIDByName :: "string \<Rightarrow> string \<Rightarrow> KeycloakClientStatus \<Rightarrow> KeycloakClientStatus" where
  "PutClientIDByName name i st = st\<lparr>kct_ClientIDs := AList.update name i (kct_ClientIDs st)\<rparr>"

definition client_GetReconciliationStrategy :: "Client \<Rightarrow> string" where
  "client_GetReconciliationStrategy c =
     (if acl_ReconciliationStrategy c = '''' then ReconciliationStrategyFull else acl_ReconciliationStrategy c)"

definition set_client_status :: "(KeycloakClientStatus \<Rightarrow> KeycloakClientStatus) \<Rightarrow> client_mem \<Rightarrow> client_mem" where
  "set_client_status f m = m\<lparr>clm_client := (clm_client m)\<lparr>kcl_Status := f (kcl_Status (clm_client m))\<rparr>\<rparr>"

definition client_refreshToken :: "'w env \<Rightarrow> HelperConf \<Rightarrow> ('w, GoCloakAdapter) client_prog" where
  "client_refreshToken env h =
     bindIO (getMem (\<lambda>m. kcs_ConfigRef (kcl_Spec (clm_client m)))) (CreateKeycloakClientFromConfigRef env h)"

section \<open>chain/scope\<close>

definition convertProtocolMappers :: "ProtocolMapper list \<Rightarrow> adapter_ProtocolMapper list" where
  "convertProtocolMappers mappers = map (\<lambda>m. \<lparr>dpm_Name = apm_Name m, dpm_Protocol = apm_Protocol m,
     dpm_ProtocolMapper = apm_ProtocolMapper m, dpm_Config = apm_Config m\<rparr>) mappers"

definition scope_of_spec :: "ClientScope \<Rightarrow> adapter_ClientScope" where
  "scope_of_spec sc = \<lparr>dcs_ID = '''', dcs_Name = acs_Name sc, dcs_Description = acs_Description sc, dcs_Attributes = acs_Attributes sc,
     dcs_Protocol = acs_Protocol sc, dcs_ProtocolMappers = convertProtocolMappers (acs_ProtocolMappers sc), dcs_Type = scope_GetType sc\<rparr>"

definition createScope :: "'w env \<Rightarrow> GoCloakAdapter \<Rightarrow> ClientScope \<Rightarrow> string \<Rightarrow> ('w, string) client_prog" where
  "createScope env a sc realmName =
     bindIO (tryIO (GetClientScope env a (acs_Name sc) realmName)) (\<lambda>res. case res of
       Inl err \<Rightarrow>
         if \<not> IsErrNotFound err then fail (Wrapped ''unable to get client scope: '' err)
         else
           bindIO (wrapErr ''unable to create client scope: '' (CreateClientScope env a realmName (scope_of_spec sc))) (\<lambda>i.
           bindIO (modMem (\<lambda>m. m\<lparr>clm_scopeID := i\<rparr>)) (\<lambda>_. ret i))
     | Inr clientScope \<Rightarrow>
         bindIO (modMem (\<lambda>m. if clm_scopeID m = '''' \<or> clm_scopeID m \<noteq> dcs_ID clientScope then m\<lparr>clm_scopeID := dcs_ID clientScope\<rparr> else m)) (\<lambda>_.
         bindIO (getMem clm_scopeID) (\<lambda>i.
         bindIO (wrapErr ''unable to update client scope: '' (UpdateClientScope env a realmName i (scope_of_spec sc))) (\<lambda>_.
         ret i))))"

definition CreateScope_Serve :: "'w env \<Rightarrow> GoCloakAdapter \<Rightarrow> ClientScope \<Rightarrow> string \<Rightarrow> ('w, unit) client_prog" where
  "CreateScope_Serve env a sc realmName =
     bindIO (wrapErr ''unable to crate keycloak client scope: '' (createScope env a sc realmName)) (\<lambda>i.
     bindIO (modMem (\<lambda>m. m\<lparr>clm_scopeID := i\<rparr>)) (\<lambda>_.
     wrapErr ''failed to update KeycloakClientScope status: '' (k8s_StatusUpdate env client_obj)))"

datatype scope_handler = CreateScope GoCloakAdapter

primrec scope_handler_Serve :: "'w env \<Rightarrow> ClientScope \<Rightarrow> string \<Rightarrow> scope_handler \<Rightarrow> ('w, unit) client_prog" where
  "scope_handler_Serve env sc realmName (CreateScope a) = CreateScope_Serve env a sc realmName"

primrec scope_WithKeycloakApiClient :: "GoCloakAdapter \<Rightarrow> scope_handler \<Rightarrow> scope_handler" where
  "scope_WithKeycloakApiClient a (CreateScope _) = CreateScope a"

primrec scope_chain_run ::
  "'w env \<Rightarrow> HelperConf \<Rightarrow> ClientScope \<Rightarrow> string \<Rightarrow> scope_handler list \<Rightarrow> ('w, scope_handler list) client_prog" where
  "scope_chain_run env h sc realmName [] = ret []"
| "scope_chain_run env h sc realmName (x # xs) =
     bindIO (serveRetry (scope_handler_Serve env sc realmName) (client_refreshToken env h) scope_WithKeycloakApiClient x) (\<lambda>x'.
     bindIO (scope_chain_run env h sc realmName xs) (\<lambda>xs'. ret (x' # xs')))"

interpretation scope_chain: handler_chain "scope_handler_Serve env sc realmName" "client_refreshToken env h"
  scope_WithKeycloakApiClient "scope_chain_run env h sc realmName"
  for env h sc realmName
  by unfold_locales simp_all

definition scope_MakeChain :: "GoCloakAdapter \<Rightarrow> scope_handler list" where
  "scope_MakeChain a = [CreateScope a]"

definition scope_serveOne ::
  "'w env \<Rightarrow> HelperConf \<Rightarrow> string \<Rightarrow> ClientScope \<Rightarrow> scope_handler list \<Rightarrow> ('w, scope_handler list) client_prog" where
  "scope_serveOne env h realmName sc handlers =
     (let name = RemoveSpecialChar (acs_Name sc) in
     bindIO (modMem (\<lambda>m. m\<lparr>clm_scopeID := GetClientScopeIDByName (kcl_Status (clm_client m)) name\<rparr>)) (\<lambda>_.
     bindIO (scope_chain_run env h sc realmName handlers) (\<lambda>handlers'.
     bindIO (modMem (\<lambda>m. set_client_status (PutClientScopeIDByName name (clm_scopeID m)) m)) (\<lambda>_.
     ret handlers'))))"

definition scope_Chain_Serve :: "'w env \<Rightarrow> HelperConf \<Rightarrow> GoCloakAdapter \<Rightarrow> string \<Rightarrow> ('w, unit) client_prog" where
  "scope_Chain_Serve env h a realmName =
     bindIO (getMem (\<lambda>m. kcs_ClientScope (kcl_Spec (clm_client m)))) (\<lambda>scopes. case scopes of
       None \<Rightarrow> ret ()
     | Some scs \<Rightarrow> voidIO (foldIO (scope_serveOne env h realmName) scs (scope_MakeChain a)))"

section \<open>chain/policy\<close>

fun uniqueNonEmpty_loop :: "string list \<Rightarrow> string list \<Rightarrow> string list" where
  "uniqueNonEmpty_loop seen [] = []"
| "uniqueNonEmpty_loop seen (v # vs) =
     (if v = '''' then uniqueNonEmpty_loop seen vs
      else if v \<in> set seen then uniqueNonEmpty_loop seen vs
      else v # uniqueNonEmpty_loop (v # seen) vs)"

definition uniqueNonEmpty :: "string list \<Rightarrow> string list" where
  "uniqueNonEmpty values = uniqueNonEmpty_loop [] values"

definition policyConfig :: "string list gomap \<Rightarrow> string list gomap" where
  "policyConfig config = List.map_filter (\<lambda>(key, values).
     if key = '''' then None
     else let unique = uniqueNonEmpty values in if unique = [] then None else Some (key, unique)) config"

definition toClientRegistrationPolicy :: "ClientAllowedPolicy \<Rightarrow> ClientRegistrationPolicy" where
  "toClientRegistrationPolicy p = \<lparr>crp_Name = cap_Name p, crp_ProviderID = cap_ProviderID p,
     crp_SubType = (if cap_SubType p = '''' then AllowedClientScopesPolicySubTypeAuthenticated else cap_SubType p),
     crp_Config = policyConfig (cap_Config p)\<rparr>"

definition putOnePolicy :: "'w env \<Rightarrow> GoCloakAdapter \<Rightarrow> string \<Rightarrow> ClientAllowedPolicy \<Rightarrow> ('w, 'm, unit) prog" where
  "putOnePolicy env a realmName allowedPolicy =
     (let target = toClientRegistrationPolicy allowedPolicy in
      if crp_Config target = [] then ret ()
      else wrapErr (''unable to apply client registration policy config '' @ policy_label target)
        (AddClientRegistrationPolicyConfig env a realmName target))"

definition putClientRegistrationPolicy :: "'w env \<Rightarrow> GoCloakAdapter \<Rightarrow> ClientAllowedPolicy list \<Rightarrow> string \<Rightarrow> ('w, 'm, unit) prog" where
  "putClientRegistrationPolicy env a policies realmName = forIO (putOnePolicy env a realmName) policies"

definition policy_SetCondition :: "'w env \<Rightarrow> int64 \<Rightarrow> string \<Rightarrow> string \<Rightarrow> string \<Rightarrow> string \<Rightarrow> ('w, unit) client_prog" where
  "policy_SetCondition env generation conditionType status reason message =
     (let c = \<lparr>cond_Type = conditionType, cond_Status = status, cond_Reason = reason, cond_Message = message,
        cond_ObservedGeneration = generation\<rparr> in
     bindIO (getMem (\<lambda>m. kct_Conditions (kcl_Status (clm_client m)))) (\<lambda>cs.
     bindIO (modMem (set_client_status (\<lambda>st. st\<lparr>kct_Conditions := SetStatusCondition env cs c\<rparr>))) (\<lambda>_.
     if \<not> ConditionChanged env cs c then ret ()
     else wrapErr (''failed to update condition '' @ conditionType @ '': '') (k8s_StatusUpdate env client_obj))))"

definition policy_setFailureCondition :: "'w env \<Rightarrow> int64 \<Rightarrow> string \<Rightarrow> ('w, unit) client_prog" where
  "policy_setFailureCondition env generation message =
     voidIO (tryIO (policy_SetCondition env generation ConditionClientRegistrationPolicySynced ''False'' client_ReasonKeycloakAPIError message))"

definition policy_setSuccessCondition :: "'w env \<Rightarrow> int64 \<Rightarrow> string \<Rightarrow> ('w, unit) client_prog" where
  "policy_setSuccessCondition env generation message =
     voidIO (tryIO (policy_SetCondition env generation ConditionClientRegistrationPolicySynced ''True'' ReasonClientRegistrationPolicySynced message))"

definition PutClientRegistrationPolicy_Serve ::
  "'w env \<Rightarrow> GoCloakAdapter \<Rightarrow> ClientAllowedPolicy list \<Rightarrow> int64 \<Rightarrow> string \<Rightarrow> ('w, unit) client_prog" where
  "PutClientRegistrationPolicy_Serve env a policies generation realmName =
     bindIO (tryIO (putClientRegistrationPolicy env a policies realmName)) (\<lambda>res. case res of
       Inl err \<Rightarrow>
         bindIO (policy_setFailureCondition env generation (''Failed to sync client registration policy: '' @ Error err)) (\<lambda>_.
         fail (Wrapped ''error during putClientRegistrationPolicy: '' err))
     | Inr _ \<Rightarrow> policy_setSuccessCondition env generation ''Client registration policy synchronized'')"

datatype policy_handler = PutClientRegistrationPolicy GoCloakAdapter

primrec policy_handler_Serve ::
  "'w env \<Rightarrow> ClientAllowedPolicy list \<Rightarrow> int64 \<Rightarrow> string \<Rightarrow> policy_handler \<Rightarrow> ('w, unit) client_prog" where
  "policy_handler_Serve env policies generation realmName (PutClientRegistrationPolicy a) =
     PutClientRegistrationPolicy_Serve env a policies generation realmName"

primrec policy_WithKeycloakApiClient :: "GoCloakAdapter \<Rightarrow> policy_handler \<Rightarrow> policy_handler" where
  "policy_WithKeycloakApiClient a (PutClientRegistrationPolicy _) = PutClientRegistrationPolicy a"

primrec policy_chain_run ::
  "'w env \<Rightarrow> HelperConf \<Rightarrow> ClientAllowedPolicy list \<Rightarrow> int64 \<Rightarrow> string \<Rightarrow> policy_handler list \<Rightarrow> ('w, policy_handler list) client_prog" where
  "policy_chain_run env h policies generation realmName [] = ret []"
| "policy_chain_run env h policies generation realmName (x # xs) =
     bindIO (serveRetry (policy_handler_Serve env policies generation realmName) (client_refreshToken env h) policy_WithKeycloakApiClient x) (\<lambda>x'.
     bindIO (policy_chain_run env h policies generation realmName xs) (\<lambda>xs'. ret (x' # xs')))"

interpretation policy_chain: handler_chain "policy_handler_Serve env policies generation realmName" "client_refreshToken env h"
  policy_WithKeycloakApiClient "policy_chain_run env h policies generation realmName"
  for env h policies generation realmName
  by unfold_locales simp_all

definition policy_MakeChain :: "GoCloakAdapter \<Rightarrow> policy_handler list" where
  "policy_MakeChain a = [PutClientRegistrationPolicy a]"

definition policy_Chain_Serve :: "'w env \<Rightarrow> HelperConf \<Rightarrow> GoCloakAdapter \<Rightarrow> string \<Rightarrow> ('w, unit) client_prog" where
  "policy_Chain_Serve env h a realmName =
     bindIO (getMem clm_client) (\<lambda>client. case kcs_ClientRegistrationPolicy (kcl_Spec client) of
       None \<Rightarrow> ret ()
     | Some policies \<Rightarrow>
         voidIO (policy_chain_run env h policies (om_Generation (kcl_Meta client)) realmName (policy_MakeChain a)))"

end
