(* ===== verification/AuthzAdapter.thy ===== *)
theory AuthzAdapter
  imports ClientAdapter
begin

text \<open>
  The methods of the legacy adapter for clients and their authorization settings:
  \<open>gocloak_adapter_client.go\<close>, and of \<open>gocloak_adapter.go\<close>, \<open>gocloak_adapter_groups.go\<close>,
  \<open>gocloak_adapter_roles.go\<close> and \<open>gocloak_adapter_auth_flow.go\<close> what the chain of a client uses.
\<close>

section \<open>Requests about a client and about a realm\<close>

definition clientOp :: "'w env \<Rightarrow> GoCloakAdapter \<Rightarrow> string \<Rightarrow> string \<Rightarrow> gocloak_client_op \<Rightarrow> ('w, 'm, gocloak_result) prog" where
  "clientOp env a realm clientID rq = withToken a (\<lambda>t. GocloakClientOp t realm clientID rq) env"

definition authzOp :: "'w env \<Rightarrow> GoCloakAdapter \<Rightarrow> string \<Rightarrow> string \<Rightarrow> gocloak_authz_op \<Rightarrow> ('w, 'm, gocloak_result) prog" where
  "authzOp env a realm clientID rq = withToken a (\<lambda>t. GocloakAuthzOp t realm clientID rq) env"

definition realmOp :: "'w env \<Rightarrow> GoCloakAdapter \<Rightarrow> string \<Rightarrow> gocloak_realm_op \<Rightarrow> ('w, 'm, gocloak_result) prog" where
  "realmOp env a realm rq = withToken a (\<lambda>t. GocloakRealmOp t realm rq) env"

text \<open>The values behind the pointers of a list that are not nil.\<close>

definition non_nil :: "'a option list \<Rightarrow> 'a list" where
  "non_nil xs = List.map_filter id xs"

section \<open>gocloak_adapter_client.go, client scopes\<close>

definition gocloak_clientScopes :: "gocloak_result \<Rightarrow> gocloak_ClientScope option list" where
  "gocloak_clientScopes r = (case r of GocloakClientScopes x \<Rightarrow> x | _ \<Rightarrow> [])"

text \<open>The ids of the scopes; a scope without one is a nil dereference.\<close>

definition scope_ids :: "gocloak_ClientScope option list \<Rightarrow> ('w, 'm, string list) prog" where
  "scope_ids existingScopes = foldIO (\<lambda>s ids. bindIO (derefIO (gcs_ID s)) (\<lambda>i. ret (i # ids))) (non_nil existingScopes) []"

text \<open>An error of adding one scope is logged and dropped.\<close>

definition addScopeToClient ::
  "'w env \<Rightarrow> GoCloakAdapter \<Rightarrow> string \<Rightarrow> string \<Rightarrow> adapter_ClientScope list \<Rightarrow> gocloak_client_op \<Rightarrow> (string \<Rightarrow> gocloak_client_op) \<Rightarrow> ('w, 'm, unit) prog" where
  "addScopeToClient env a realmName clientName scopes getExistingScopes addScopeFunc =
     bindIO (wrapErr ''error during GetClientId: '' (GetClientID env a clientName realmName)) (\<lambda>clientID.
     bindIO (wrapErr (''failed to get existing client scope for client '' @ clientName @ '': '')
       (clientOp env a realmName clientID getExistingScopes)) (\<lambda>r.
     bindIO (scope_ids (gocloak_clientScopes r)) (\<lambda>existingScopes.
     forIO (\<lambda>scope. if dcs_ID scope \<in> set existingScopes then ret ()
       else voidIO (tryIO (clientOp env a realmName clientID (addScopeFunc (dcs_ID scope))))) scopes)))"

definition AddDefaultScopeToClient :: "'w env \<Rightarrow> GoCloakAdapter \<Rightarrow> string \<Rightarrow> string \<Rightarrow> adapter_ClientScope list \<Rightarrow> ('w, 'm, unit) prog" where
  "AddDefaultScopeToClient env a realmName clientName scopes =
     addScopeToClient env a realmName clientName scopes GetClientsDefaultScopesOp AddDefaultScopeToClientOp"

definition AddOptionalScopeToClient :: "'w env \<Rightarrow> GoCloakAdapter \<Rightarrow> string \<Rightarrow> string \<Rightarrow> adapter_ClientScope list \<Rightarrow> ('w, 'm, unit) prog" where
  "AddOptionalScopeToClient env a realmName clientName scopes =
     addScopeToClient env a realmName clientName scopes GetClientsOptionalScopesOp AddOptionalScopeToClientOp"

section \<open>gocloak_adapter_client.go, authorization\<close>

definition defaultMax :: int where
  "defaultMax = 100"

definition gocloak_scopes :: "gocloak_result \<Rightarrow> gocloak_Scope option list" where
  "gocloak_scopes r = (case r of GocloakScopes x \<Rightarrow> x | _ \<Rightarrow> [])"

definition gocloak_resources :: "gocloak_result \<Rightarrow> gocloak_Resource option list" where
  "gocloak_resources r = (case r of GocloakResources x \<Rightarrow> x | _ \<Rightarrow> [])"

definition gocloak_policies :: "gocloak_result \<Rightarrow> gocloak_Policy list" where
  "gocloak_policies r = (case r of GocloakPolicies x \<Rightarrow> x | _ \<Rightarrow> [])"

definition GetScopes :: "'w env \<Rightarrow> GoCloakAdapter \<Rightarrow> string \<Rightarrow> string \<Rightarrow> ('w, 'm, gocloak_Scope gomap) prog" where
  "GetScopes env a realm idOfClient =
     bindIO (wrapErr ''failed to get scopes: '' (authzOp env a realm idOfClient (GetScopesOp defaultMax))) (\<lambda>r.
     ret (build_map gsc_Name id (non_nil (gocloak_scopes r))))"

definition GetResources :: "'w env \<Rightarrow> GoCloakAdapter \<Rightarrow> string \<Rightarrow> string \<Rightarrow> ('w, 'm, gocloak_Resource gomap) prog" where
  "GetResources env a realm idOfClient =
     bindIO (wrapErr ''failed to get resources: '' (authzOp env a realm idOfClient (GetResourcesOp defaultMax))) (\<lambda>r.
     ret (build_map grs_Name id (non_nil (gocloak_resources r))))"

definition CreateResource :: "'w env \<Rightarrow> GoCloakAdapter \<Rightarrow> string \<Rightarrow> string \<Rightarrow> gocloak_Resource \<Rightarrow> ('w, 'm, unit) prog" where
  "CreateResource env a realm idOfClient resource =
     wrapErr ''failed to create resource: '' (voidIO (authzOp env a realm idOfClient (CreateResourceOp resource)))"

definition UpdateResource :: "'w env \<Rightarrow> GoCloakAdapter \<Rightarrow> string \<Rightarrow> string \<Rightarrow> gocloak_Resource \<Rightarrow> ('w, 'm, unit) prog" where
  "UpdateResource env a realm idOfClient resource =
     wrapErr ''failed to update resource: '' (voidIO (authzOp env a realm idOfClient (UpdateResourceOp resource)))"

definition adapter_DeleteResource :: "'w env \<Rightarrow> GoCloakAdapter \<Rightarrow> string \<Rightarrow> string \<Rightarrow> string \<Rightarrow> ('w, 'm, unit) prog" where
  "adapter_DeleteResource env a realm idOfClient resourceID =
     wrapErr ''failed to delete resource: '' (voidIO (authzOp env a realm idOfClient (DeleteResourceOp resourceID)))"

definition adapter_CreateScope :: "'w env \<Rightarrow> GoCloakAdapter \<Rightarrow> string \<Rightarrow> string \<Rightarrow> string \<Rightarrow> ('w, 'm, unit) prog" where
  "adapter_CreateScope env a realm idOfClient scope =
     wrapErr ''failed to create scope: '' (voidIO (authzOp env a realm idOfClient
       (CreateScopeOp \<lparr>gsc_ID = None, gsc_Name = Some scope, gsc_rest = []\<rparr>)))"

definition DeleteScope :: "'w env \<Rightarrow> GoCloakAdapter \<Rightarrow> string \<Rightarrow> string \<Rightarrow> string \<Rightarrow> ('w, 'm, unit) prog" where
  "DeleteScope env a realm idOfClient scope =
     wrapErr ''failed to delete scope: '' (voidIO (authzOp env a realm idOfClient (DeleteScopeOp scope)))"

definition CreatePermission :: "'w env \<Rightarrow> GoCloakAdapter \<Rightarrow> string \<Rightarrow> string \<Rightarrow> gocloak_Permission \<Rightarrow> ('w, 'm, unit) prog" where
  "CreatePermission env a realm idOfClient permission =
     wrapErr ''failed to create permission: '' (voidIO (authzOp env a realm idOfClient (CreatePermissionOp permission)))"

definition DeletePermission :: "'w env \<Rightarrow> GoCloakAdapter \<Rightarrow> string \<Rightarrow> string \<Rightarrow> string \<Rightarrow> ('w, 'm, unit) prog" where
  "DeletePermission env a realm idOfClient permissionID =
     wrapErr ''failed to delete permission: '' (voidIO (authzOp env a realm idOfClient (DeletePermissionOp permissionID)))"

definition GetPolicies :: "'w env \<Rightarrow> GoCloakAdapter \<Rightarrow> string \<Rightarrow> string \<Rightarrow> ('w, 'm, gocloak_Policy gomap) prog" where
  "GetPolicies env a realm idOfClient =
     bindIO (wrapErr ''failed to get policies: '' (authzOp env a realm idOfClient (GetPoliciesOp defaultMax))) (\<lambda>r.
     ret (build_map gpo_Name id (gocloak_policies r)))"

definition CreatePolicy :: "'w env \<Rightarrow> GoCloakAdapter \<Rightarrow> string \<Rightarrow> string \<Rightarrow> gocloak_Policy \<Rightarrow> ('w, 'm, unit) prog" where
  "CreatePolicy env a realm idOfClient policy =
     wrapErr ''failed to create policy: '' (voidIO (authzOp env a realm idOfClient (CreatePolicyOp policy)))"

definition UpdatePolicy :: "'w env \<Rightarrow> GoCloakAdapter \<Rightarrow> string \<Rightarrow> string \<Rightarrow> gocloak_Policy \<Rightarrow> ('w, 'm, unit) prog" where
  "UpdatePolicy env a realm idOfClient policy =
     wrapErr ''failed to update policy: '' (voidIO (authzOp env a realm idOfClient (UpdatePolicyOp policy)))"

definition DeletePolicy :: "'w env \<Rightarrow> GoCloakAdapter \<Rightarrow> string \<Rightarrow> string \<Rightarrow> string \<Rightarrow> ('w, 'm, unit) prog" where
  "DeletePolicy env a realm idOfClient policyID =
     wrapErr ''failed to delete policy: '' (voidIO (authzOp env a realm idOfClient (DeletePolicyOp policyID)))"

definition clientManagementPermissions :: string where
  "clientManagementPermissions = ''/admin/realms/{realm}/clients/{id}/management/permissions''"

definition GetClientManagementPermissions ::
  "'w env \<Rightarrow> GoCloakAdapter \<Rightarrow> string \<Rightarrow> string \<Rightarrow> ('w, 'm, ManagementPermissionRepresentation) prog" where
  "GetClientManagementPermissions env a realm idOfClient =
     bindIO (restCall env a GET clientManagementPermissions [(''realm'', realm), (''id'', idOfClient)] NoRest) (\<lambda>ans.
     bindIO (wrapErr ''unable to get client management permissions: '' (checked ans)) (\<lambda>rsp. ret (rest_permission rsp)))"

definition UpdateClientManagementPermissions ::
  "'w env \<Rightarrow> GoCloakAdapter \<Rightarrow> string \<Rightarrow> string \<Rightarrow> ManagementPermissionRepresentation \<Rightarrow> ('w, 'm, unit) prog" where
  "UpdateClientManagementPermissions env a realm idOfClient permission =
     bindIO (restCall env a PUT clientManagementPermissions [(''realm'', realm), (''id'', idOfClient)] (RestPermission permission)) (\<lambda>ans.
     wrapErr ''unable to update client management permissions: '' (voidIO (checked ans)))"

section \<open>gocloak_adapter.go, clients\<close>

text \<open>\<open>dto.Client\<close>; \<open>BaseUrl\<close>, which nothing reads, is left out.\<close>

record dto_Client =
  dtc_ID :: string
  dtc_ClientId :: string
  dtc_ClientSecret :: string
  dtc_RealmName :: string
  dtc_Roles :: "ClientRole list"
  dtc_PublicClient :: bool
  dtc_DirectAccess :: bool
  dtc_WebUrl :: string
  dtc_AdminUrl :: string
  dtc_HomeUrl :: string
  dtc_Protocol :: string
  dtc_Attributes :: "string gomap option"
  dtc_AdvancedProtocolMappers :: bool
  dtc_ServiceAccountEnabled :: bool
  dtc_FrontChannelLogout :: bool
  dtc_RedirectUris :: "string list option"
  dtc_WebOrigins :: "string list option"
  dtc_AuthorizationServicesEnabled :: bool
  dtc_BearerOnly :: bool
  dtc_ClientAuthenticatorType :: string
  dtc_ConsentRequired :: bool
  dtc_Description :: string
  dtc_Enabled :: bool
  dtc_FullScopeAllowed :: bool
  dtc_ImplicitFlowEnabled :: bool
  dtc_Name :: string
  dtc_Origin :: string
  dtc_RegistrationAccessToken :: string
  dtc_StandardFlowEnabled :: bool
  dtc_SurrogateAuthRequired :: bool
  dtc_AuthenticationFlowBindingOverrides :: "string gomap option"

definition getProtocolMappers :: "bool \<Rightarrow> gocloak_ProtocolMapper list option" where
  "getProtocolMappers need =
     (if \<not> need then None
      else Some
        [\<lparr>gpr_ID = None, gpr_Name = Some ''username'', gpr_Protocol = Some ''openid-connect'',
          gpr_ProtocolMapper = Some ''oidc-usermodel-property-mapper'',
          gpr_Config = Some [(''userinfo.token.claim'', ''true''), (''user.attribute'', ''username''), (''id.token.claim'', ''true''),
            (''access.token.claim'', ''true''), (''claim.name'', ''preferred_username''), (''jsonType.label'', ''String'')],
          gpr_rest = []\<rparr>,
         \<lparr>gpr_ID = None, gpr_Name = Some ''realm roles'', gpr_Protocol = Some ''openid-connect'',
          gpr_ProtocolMapper = Some ''oidc-usermodel-realm-role-mapper'',
          gpr_Config = Some [(''userinfo.token.claim'', ''true''), (''multivalued'', ''true''), (''id.token.claim'', ''true''),
            (''access.token.claim'', ''false''), (''claim.name'', ''roles''), (''jsonType.label'', ''String'')],
          gpr_rest = []\<rparr>])"

definition getGclCln :: "dto_Client \<Rightarrow> gocloak_Client" where
  "getGclCln client =
     \<lparr>gcl_ID = (if dtc_ID client \<noteq> '''' then Some (dtc_ID client) else None),
      gcl_ClientID = Some (dtc_ClientId client),
      gcl_Attributes = Some (dtc_Attributes client),
      gcl_AuthorizationServicesEnabled = Some (dtc_AuthorizationServicesEnabled client),
      gcl_BearerOnly = Some (dtc_BearerOnly client),
      gcl_ClientAuthenticatorType = Some (dtc_ClientAuthenticatorType client),
      gcl_ConsentRequired = Some (dtc_ConsentRequired client),
      gcl_Description = Some (dtc_Description client),
      gcl_DirectAccessGrantsEnabled = Some (dtc_DirectAccess client),
      gcl_Enabled = Some (dtc_Enabled client),
      gcl_FrontChannelLogout = Some (dtc_FrontChannelLogout client),
      gcl_FullScopeAllowed = Some (dtc_FullScopeAllowed client),
      gcl_ImplicitFlowEnabled = Some (dtc_ImplicitFlowEnabled client),
      gcl_Name = Some (dtc_Name client),
      gcl_Origin = Some (dtc_Origin client),
      gcl_Protocol = Some (dtc_Protocol client),
      gcl_ProtocolMappers = Some (getProtocolMappers (dtc_AdvancedProtocolMappers client)),
      gcl_PublicClient = Some (dtc_PublicClient client),
      gcl_RedirectURIs = Some (case dtc_RedirectUris client of
          Some (u # us) \<Rightarrow> u # us
        | _ \<Rightarrow> [dtc_WebUrl client @ ''/*'']),
      gcl_RegistrationAccessToken = Some (dtc_RegistrationAccessToken client),
      gcl_RootURL = Some (dtc_WebUrl client),
      gcl_AdminURL = Some (if dtc_AdminUrl client = '''' then dtc_WebUrl client else dtc_AdminUrl client),
      gcl_BaseURL = Some (dtc_HomeUrl client),
      gcl_Secret = Some (dtc_ClientSecret client),
      gcl_ServiceAccountsEnabled = Some (dtc_ServiceAccountEnabled client),
      gcl_StandardFlowEnabled = Some (dtc_StandardFlowEnabled client),
      gcl_SurrogateAuthRequired = Some (dtc_SurrogateAuthRequired client),
      gcl_WebOrigins = Some (dtc_WebOrigins client),
      gcl_AuthenticationFlowBindingOverrides = Some (dtc_AuthenticationFlowBindingOverrides client),
      gcl_rest = []\<rparr>"

definition UpdateClient :: "'w env \<Rightarrow> GoCloakAdapter \<Rightarrow> dto_Client \<Rightarrow> ('w, 'm, unit) prog" where
  "UpdateClient env a client =
     wrapErr ''unable to update keycloak client: '' (voidIO (realmOp env a (dtc_RealmName client) (UpdateClientOp (getGclCln client))))"

definition adapter_CreateClient :: "'w env \<Rightarrow> GoCloakAdapter \<Rightarrow> dto_Client \<Rightarrow> ('w, 'm, unit) prog" where
  "adapter_CreateClient env a client =
     wrapErr ''failed to create keycloak client: '' (voidIO (realmOp env a (dtc_RealmName client) (CreateClientOp (getGclCln client))))"

definition adapter_GetClients :: "'w env \<Rightarrow> GoCloakAdapter \<Rightarrow> string \<Rightarrow> ('w, 'm, gocloak_Client gomap) prog" where
  "adapter_GetClients env a realm =
     bindIO (wrapErr (''failed to get clients for realm '' @ realm @ '': '') (realmOp env a realm (ListClientsOp 100))) (\<lambda>r.
     ret (build_map gcl_ClientID id (gocloak_clients r)))"

section \<open>Roles, users, groups and flows of a realm\<close>

definition is404 :: "go_error \<Rightarrow> bool" where
  "is404 e = strings_Contains (Error e) ''404''"

definition strip404 :: "go_error option \<Rightarrow> go_error + bool" where
  "strip404 err = (case err of None \<Rightarrow> Inr True | Some e \<Rightarrow> if is404 e then Inr False else Inl e)"

definition ExistRealmRole :: "'w env \<Rightarrow> GoCloakAdapter \<Rightarrow> string \<Rightarrow> string \<Rightarrow> ('w, 'm, bool) prog" where
  "ExistRealmRole env a realmName roleName =
     bindIO (tryIO (realmOp env a realmName (GetRealmRoleOp roleName))) (\<lambda>r.
     liftIO (strip404 (case r of Inl err \<Rightarrow> Some err | Inr _ \<Rightarrow> None)))"

text \<open>A method of gocloak that returns a pointer and no error returns one that is not nil.\<close>

definition gocloak_role :: "gocloak_result \<Rightarrow> gocloak_Role" where
  "gocloak_role r = (case r of GocloakRole x \<Rightarrow> x | _ \<Rightarrow> zero_gocloak_Role)"

text \<open>\<open>dto.IncludedRealmRole\<close>: a name and the role it becomes a part of.\<close>

definition CreateIncludedRealmRole :: "'w env \<Rightarrow> GoCloakAdapter \<Rightarrow> string \<Rightarrow> RealmRole \<Rightarrow> ('w, 'm, unit) prog" where
  "CreateIncludedRealmRole env a realmName role =
     bindIO (wrapErr (''failed to create realm role '' @ arr_Name role @ '': '')
       (realmOp env a realmName (CreateRealmRoleOp (zero_gocloak_Role\<lparr>gro_Name := Some (arr_Name role)\<rparr>)))) (\<lambda>_.
     bindIO (wrapErr (''failed to get realm role '' @ arr_Name role @ '': '') (realmOp env a realmName (GetRealmRoleOp (arr_Name role)))) (\<lambda>persRole.
     wrapErr ''failed to add realm role composite: ''
       (voidIO (realmOp env a realmName (AddRealmRoleCompositeOp (arr_Composite role) [gocloak_role persRole])))))"

definition gocloak_users :: "gocloak_result \<Rightarrow> gocloak_User list" where
  "gocloak_users r = (case r of GocloakUsers x \<Rightarrow> x | _ \<Rightarrow> [])"

definition checkFullUsernameMatch :: "string \<Rightarrow> gocloak_User list \<Rightarrow> gocloak_User option" where
  "checkFullUsernameMatch userName users = find (\<lambda>el. gus_Username el = Some userName) users"

text \<open>
  Ten goroutines take the names from a channel and stop at their first error; the names are looked
  up in some order, until none is left or all ten have stopped. The first error is returned.
\<close>

definition workersCount :: nat where
  "workersCount = 10"

fun GetUsers_workers ::
  "'w env \<Rightarrow> GoCloakAdapter \<Rightarrow> string \<Rightarrow> string list \<Rightarrow> go_error list \<Rightarrow> gocloak_User gomap \<Rightarrow> ('w, 'm, gocloak_User gomap) prog" where
  "GetUsers_workers env a realm [] errc users = (case errc of [] \<Rightarrow> ret users | err # _ \<Rightarrow> fail err)"
| "GetUsers_workers env a realm (userName # names) errc users =
     (if length errc = workersCount then fail (hd errc)
      else
        bindIO (tryIO (realmOp env a realm (GetUsersOp userName))) (\<lambda>res. case res of
          Inl err \<Rightarrow> GetUsers_workers env a realm names
            (errc @ [Wrapped (''failed to get user '' @ userName @ '' from realm '' @ realm @ '': '') err]) users
        | Inr r \<Rightarrow> GetUsers_workers env a realm names errc
            (case checkFullUsernameMatch userName (gocloak_users r) of
               None \<Rightarrow> users
             | Some user \<Rightarrow> AList.update userName user users)))"

definition spawn_order :: "'w env \<Rightarrow> string list \<Rightarrow> ('w, 'm, string list) prog" where
  "spawn_order env names = bindIO (range_order (map_rank env) (map (\<lambda>n. (n, ())) names)) (\<lambda>es. ret (map fst es))"

definition GetUsersByNames :: "'w env \<Rightarrow> GoCloakAdapter \<Rightarrow> string \<Rightarrow> string list \<Rightarrow> ('w, 'm, gocloak_User gomap) prog" where
  "GetUsersByNames env a realm names =
     bindIO (spawn_order env names) (\<lambda>ns. GetUsers_workers env a realm ns [] [])"

definition gocloak_groups :: "gocloak_result \<Rightarrow> gocloak_Group option list" where
  "gocloak_groups r = (case r of GocloakGroups x \<Rightarrow> x | _ \<Rightarrow> [])"

definition adapter_GetGroups :: "'w env \<Rightarrow> GoCloakAdapter \<Rightarrow> string \<Rightarrow> ('w, 'm, gocloak_Group gomap) prog" where
  "adapter_GetGroups env a realm =
     bindIO (wrapErr ''failed to get groups: '' (realmOp env a realm (GetGroupsOp None))) (\<lambda>r.
     ret (build_map ggr_Name id (non_nil (gocloak_groups r))))"

definition authFlows :: string where
  "authFlows = ''/admin/realms/{realm}/authentication/flows''"

definition rest_authFlows :: "rest_response \<Rightarrow> adapter_AuthFlow list" where
  "rest_authFlows r = (case rsr_Result r of RestAuthFlows x \<Rightarrow> x | _ \<Rightarrow> [])"

definition GetRealmAuthFlows :: "'w env \<Rightarrow> GoCloakAdapter \<Rightarrow> string \<Rightarrow> ('w, 'm, adapter_AuthFlow list) prog" where
  "GetRealmAuthFlows env a realmName =
     bindIO (restCall env a GET authFlows [(''realm'', realmName)] NoRest) (\<lambda>ans.
     bindIO (wrapErr ''unable to list auth flow by realm: '' (checked ans)) (\<lambda>rsp. ret (rest_authFlows rsp)))"

end
