(* ===== verification/RoleSyncAdapter.thy ===== *)
theory RoleSyncAdapter
  imports AuthzAdapter
begin

text \<open>
  The methods of the legacy adapter that bring the roles of a client, the roles, groups and
  attributes of a service account and the protocol mappers of a client in line with what a resource
  says: of \<open>gocloak_adapter.go\<close> the family of \<open>adapter_SyncClientRoles\<close> and of \<open>SyncClientProtocolMapper\<close>,
  \<open>gocloak_adapter_sync_entity_roles.go\<close>, \<open>gocloak_adapter_service_account.go\<close>, and what they use
  of \<open>gocloak_adapter_user.go\<close> and \<open>gocloak_adapter_groups.go\<close>.
\<close>

section \<open>Roles of a client\<close>

definition createRoleNameMap :: "gocloak_Role option list \<Rightarrow> gocloak_Role gomap" where
  "createRoleNameMap roles = build_map gro_Name id (non_nil roles)"

definition createDesiredRolesMap :: "ClientRole list \<Rightarrow> ClientRole gomap" where
  "createDesiredRolesMap roles = build_map (\<lambda>r. Some (clr_Name r)) id roles"

definition getExistingClientRolesMap :: "'w env \<Rightarrow> GoCloakAdapter \<Rightarrow> string \<Rightarrow> string \<Rightarrow> ('w, 'm, gocloak_Role gomap) prog" where
  "getExistingClientRolesMap env a realmName clientID =
     bindIO (wrapErr ''failed to get client roles: '' (withToken a (\<lambda>t. GocloakGetClientRoles t realmName clientID 1000) env)) (\<lambda>r.
     ret (createRoleNameMap (gocloak_roles r)))"

definition createClientRole :: "'w env \<Rightarrow> GoCloakAdapter \<Rightarrow> string \<Rightarrow> string \<Rightarrow> ClientRole \<Rightarrow> ('w, 'm, unit) prog" where
  "createClientRole env a realmName clientID role =
     wrapErr (''failed to create client role '' @ clr_Name role @ '': '')
       (voidIO (clientOp env a realmName clientID (CreateClientRoleOp
          (zero_gocloak_Role\<lparr>gro_Name := Some (clr_Name role), gro_Description := Some (clr_Description role), gro_ClientRole := Some True\<rparr>))))"

definition updateClientRole :: "'w env \<Rightarrow> GoCloakAdapter \<Rightarrow> string \<Rightarrow> string \<Rightarrow> ClientRole \<Rightarrow> gocloak_Role \<Rightarrow> ('w, 'm, unit) prog" where
  "updateClientRole env a realmName clientID role existingRole =
     (let needsUpdate = (gro_Description existingRole = None \<or> gro_Description existingRole \<noteq> Some (clr_Description role))
      in if \<not> needsUpdate then ret ()
         else wrapErr (''failed to update client role '' @ clr_Name role @ '': '')
           (voidIO (clientOp env a realmName clientID (UpdateRoleOp
              (zero_gocloak_Role\<lparr>gro_ID := gro_ID existingRole, gro_Name := Some (clr_Name role),
                 gro_Description := Some (clr_Description role), gro_ClientRole := Some True\<rparr>)))))"

definition deleteRemovedRoles ::
  "'w env \<Rightarrow> GoCloakAdapter \<Rightarrow> string \<Rightarrow> string \<Rightarrow> gocloak_Role gomap \<Rightarrow> ClientRole gomap \<Rightarrow> ('w, 'm, unit) prog" where
  "deleteRemovedRoles env a realmName clientID existingRolesMap desiredRolesMap =
     bindIO (range_order (map_rank env) existingRolesMap) (\<lambda>es.
     forIO (\<lambda>(roleName, _).
       if map_of desiredRolesMap roleName \<noteq> None then ret ()
       else wrapErr (''failed to delete client role '' @ roleName @ '': '')
         (voidIO (clientOp env a realmName clientID (DeleteClientRoleOp roleName)))) es)"

definition syncExistingRoles ::
  "'w env \<Rightarrow> GoCloakAdapter \<Rightarrow> string \<Rightarrow> string \<Rightarrow> ClientRole list \<Rightarrow> gocloak_Role gomap \<Rightarrow> ('w, 'm, unit) prog" where
  "syncExistingRoles env a realmName clientID roles existingRolesMap =
     forIO (\<lambda>desiredRole. case map_of existingRolesMap (clr_Name desiredRole) of
         None \<Rightarrow> createClientRole env a realmName clientID desiredRole
       | Some existingRole \<Rightarrow> updateClientRole env a realmName clientID desiredRole existingRole) roles"

definition addCompositeRoles :: "'w env \<Rightarrow> GoCloakAdapter \<Rightarrow> string \<Rightarrow> string \<Rightarrow> gocloak_Role list \<Rightarrow> string \<Rightarrow> ('w, 'm, unit) prog" where
  "addCompositeRoles env a realmName roleID rolesToAdd roleName =
     (if rolesToAdd = [] then ret ()
      else wrapErr (''failed to add composite roles to '' @ roleName @ '': '')
        (voidIO (realmOp env a realmName (AddClientRoleCompositeOp roleID rolesToAdd))))"

definition removeCompositeRoles :: "'w env \<Rightarrow> GoCloakAdapter \<Rightarrow> string \<Rightarrow> string \<Rightarrow> gocloak_Role list \<Rightarrow> string \<Rightarrow> ('w, 'm, unit) prog" where
  "removeCompositeRoles env a realmName roleID rolesToRemove roleName =
     (if rolesToRemove = [] then ret ()
      else wrapErr (''failed to remove composite roles from '' @ roleName @ '': '')
        (voidIO (realmOp env a realmName (DeleteClientRoleCompositeOp roleID rolesToRemove))))"

definition handleEmptyComposites ::
  "'w env \<Rightarrow> GoCloakAdapter \<Rightarrow> string \<Rightarrow> string \<Rightarrow> gocloak_Role option list \<Rightarrow> string \<Rightarrow> ('w, 'm, unit) prog" where
  "handleEmptyComposites env a realmName roleID currentCompositeRoles roleName =
     (if currentCompositeRoles = [] then ret ()
      else removeCompositeRoles env a realmName roleID (convertRolePointersToValues currentCompositeRoles) roleName)"

definition getAssociatedRoleDetails :: "'w env \<Rightarrow> GoCloakAdapter \<Rightarrow> string \<Rightarrow> string \<Rightarrow> string \<Rightarrow> ('w, 'm, gocloak_Role) prog" where
  "getAssociatedRoleDetails env a realmName clientID roleName =
     bindIO (wrapErr (''failed to get associated client role '' @ roleName @ '': '')
       (clientOp env a realmName clientID (GetClientRoleOp roleName))) (\<lambda>r. ret (gocloak_role r))"

definition calculateRolesToAdd ::
  "'w env \<Rightarrow> GoCloakAdapter \<Rightarrow> string \<Rightarrow> string \<Rightarrow> string list \<Rightarrow> gocloak_Role gomap \<Rightarrow> ('w, 'm, gocloak_Role list) prog" where
  "calculateRolesToAdd env a realmName clientID desiredRoles currentCompositeMap =
     foldIO (\<lambda>associatedRoleName rolesToAdd.
       if map_of currentCompositeMap associatedRoleName \<noteq> None then ret rolesToAdd
       else bindIO (getAssociatedRoleDetails env a realmName clientID associatedRoleName) (\<lambda>r. ret (rolesToAdd @ [r])))
       desiredRoles []"

definition calculateRolesToRemove :: "gocloak_Role option list \<Rightarrow> string list \<Rightarrow> gocloak_Role list" where
  "calculateRolesToRemove currentCompositeRoles desiredRoles =
     filter (\<lambda>r. case gro_Name r of None \<Rightarrow> False | Some n \<Rightarrow> n \<notin> set desiredRoles) (non_nil currentCompositeRoles)"

definition processSingleRoleComposites ::
  "'w env \<Rightarrow> GoCloakAdapter \<Rightarrow> string \<Rightarrow> string \<Rightarrow> ClientRole \<Rightarrow> gocloak_Role \<Rightarrow> ('w, 'm, unit) prog" where
  "processSingleRoleComposites env a realmName clientID desiredRole existingRole =
     bindIO (derefIO (gro_ID existingRole)) (\<lambda>roleID.
     bindIO (wrapErr (''failed to get composite roles for role '' @ clr_Name desiredRole @ '': '')
       (realmOp env a realmName (GetCompositeRolesByRoleIDOp roleID))) (\<lambda>r.
     let currentCompositeRoles = gocloak_roles r in
     if clr_AssociatedClientRoles desiredRole = [] then
       handleEmptyComposites env a realmName roleID currentCompositeRoles (clr_Name desiredRole)
     else
       bindIO (calculateRolesToAdd env a realmName clientID (clr_AssociatedClientRoles desiredRole) (createRoleNameMap currentCompositeRoles)) (\<lambda>rolesToAdd.
       bindIO (addCompositeRoles env a realmName roleID rolesToAdd (clr_Name desiredRole)) (\<lambda>_.
       removeCompositeRoles env a realmName roleID
         (calculateRolesToRemove currentCompositeRoles (clr_AssociatedClientRoles desiredRole)) (clr_Name desiredRole)))))"

definition syncClientRoleComposites :: "'w env \<Rightarrow> GoCloakAdapter \<Rightarrow> string \<Rightarrow> string \<Rightarrow> ClientRole list \<Rightarrow> ('w, 'm, unit) prog" where
  "syncClientRoleComposites env a realmName clientID desiredRoles =
     bindIO (wrapErr ''failed to get client roles: '' (getExistingClientRolesMap env a realmName clientID)) (\<lambda>existingRolesMap.
     forIO (\<lambda>desiredRole. case map_of existingRolesMap (clr_Name desiredRole) of
         None \<Rightarrow> fail (NewError (''failed to setup composite roles: role '' @ clr_Name desiredRole @ '' does not exist in Keycloak''))
       | Some existingRole \<Rightarrow> processSingleRoleComposites env a realmName clientID desiredRole existingRole) desiredRoles)"

definition adapter_SyncClientRoles :: "'w env \<Rightarrow> GoCloakAdapter \<Rightarrow> string \<Rightarrow> dto_Client \<Rightarrow> ('w, 'm, unit) prog" where
  "adapter_SyncClientRoles env a realmName client =
     bindIO (wrapErr ''failed to get client ID: '' (GetClientID env a (dtc_ClientId client) realmName)) (\<lambda>clientID.
     bindIO (wrapErr ''failed to get client roles: '' (getExistingClientRolesMap env a realmName clientID)) (\<lambda>existingRolesMap.
     bindIO (syncExistingRoles env a realmName clientID (dtc_Roles client) existingRolesMap) (\<lambda>_.
     bindIO (deleteRemovedRoles env a realmName clientID existingRolesMap (createDesiredRolesMap (dtc_Roles client))) (\<lambda>_.
     wrapErr ''failed to sync client role composites: '' (syncClientRoleComposites env a realmName clientID (dtc_Roles client))))))"

section \<open>gocloak_adapter_sync_entity_roles.go\<close>

text \<open>The functions that add and delete roles are passed as programs over the realm, ids and roles.\<close>

type_synonym ('w, 'm) realm_roles_fun = "string \<Rightarrow> string \<Rightarrow> gocloak_Role list \<Rightarrow> ('w, 'm, unit) prog"
type_synonym ('w, 'm) client_roles_fun = "string \<Rightarrow> string \<Rightarrow> string \<Rightarrow> gocloak_Role list \<Rightarrow> ('w, 'm, unit) prog"

text \<open>A map from the names of roles; a role without a name is a nil dereference.\<close>

definition makeCurrentEntityRoles :: "gocloak_Role list option \<Rightarrow> ('w, 'm, gocloak_Role gomap) prog" where
  "makeCurrentEntityRoles currentRealmRoles =
     foldIO (\<lambda>r m. bindIO (derefIO (gro_Name r)) (\<lambda>n. ret (AList.update n r m))) (the_default [] currentRealmRoles) []"

text \<open>A map to the empty struct is its list of keys.\<close>

definition makeClimedEntityRoles :: "string list \<Rightarrow> string list" where
  "makeClimedEntityRoles claimedRealmRoles = nub claimedRealmRoles"

definition makeEntityRolesToAdd ::
  "'w env \<Rightarrow> GoCloakAdapter \<Rightarrow> string \<Rightarrow> string list \<Rightarrow> gocloak_Role gomap \<Rightarrow> ('w, 'm, gocloak_Role list) prog" where
  "makeEntityRolesToAdd env a realm claimedRealmRoles currentRealmRoleMap =
     foldIO (\<lambda>r realmRolesToAdd.
       if map_of currentRealmRoleMap r \<noteq> None then ret realmRolesToAdd
       else bindIO (wrapErr (''unable to get realm role, realm: '' @ realm @ '', role: '' @ r @ '': '') (realmOp env a realm (GetRealmRoleOp r)))
         (\<lambda>role. ret (realmRolesToAdd @ [gocloak_role role]))) claimedRealmRoles []"

definition syncEntityRealmRoles ::
  "'w env \<Rightarrow> GoCloakAdapter \<Rightarrow> string \<Rightarrow> string \<Rightarrow> string list \<Rightarrow> gocloak_Role list option \<Rightarrow>
   ('w, 'm) realm_roles_fun \<Rightarrow> ('w, 'm) realm_roles_fun \<Rightarrow> ('w, 'm, unit) prog" where
  "syncEntityRealmRoles env a entityID realm claimedRealmRoles currentRealmRoles addRoleFunc delRoleFunc =
     bindIO (makeCurrentEntityRoles currentRealmRoles) (\<lambda>currentRealmRoleMap.
     let claimedRoleMap = makeClimedEntityRoles claimedRealmRoles in
     bindIO (makeEntityRolesToAdd env a realm claimedRealmRoles currentRealmRoleMap) (\<lambda>realmRolesToAdd.
     bindIO (whenIO (realmRolesToAdd \<noteq> [])
       (wrapErr (''unable to add realm roles to entity, realm: '' @ realm @ '', entity id: '' @ entityID @ '', roles: '' @ fmt_roles env realmRolesToAdd @ '': '')
         (addRoleFunc realm entityID realmRolesToAdd))) (\<lambda>_.
     bindIO (range_order (map_rank env) currentRealmRoleMap) (\<lambda>es.
     let realmRolesToDelete = map snd (filter (\<lambda>(currentRoleName, _). currentRoleName \<notin> set claimedRoleMap) es) in
     whenIO (realmRolesToDelete \<noteq> [])
       (wrapErr (''unable to delete realm roles from group, realm: '' @ realm @ '', entity id: '' @ entityID @ '', roles: '' @ fmt_roles env realmRolesToDelete @ '': '')
         (delRoleFunc realm entityID realmRolesToDelete))))))"

definition makeCurrentClientRoles :: "string \<Rightarrow> gocloak_ClientMappings option gomap \<Rightarrow> ('w, 'm, gocloak_Role gomap) prog" where
  "makeCurrentClientRoles clientID currentRoles =
     (case map_of currentRoles clientID of
        Some (Some client) \<Rightarrow> makeCurrentEntityRoles (gmp_Mappings client)
      | _ \<Rightarrow> ret [])"

definition makeClaimedClientRoles :: "string list \<Rightarrow> string list" where
  "makeClaimedClientRoles claimedRoles = nub claimedRoles"

definition makeClientRolesToAdd ::
  "'w env \<Rightarrow> GoCloakAdapter \<Rightarrow> string \<Rightarrow> string \<Rightarrow> gocloak_Role gomap \<Rightarrow> string list \<Rightarrow> ('w, 'm, gocloak_Role list) prog" where
  "makeClientRolesToAdd env a realm clientId currentClientRoles claimedClientRoles =
     bindIO (spawn_order env claimedClientRoles) (\<lambda>ks.
     foldIO (\<lambda>k rolesToAdd.
       if map_of currentClientRoles k \<noteq> None then ret rolesToAdd
       else bindIO (wrapErr (''unable to get client role, realm: '' @ realm @ '', clientID: '' @ clientId @ '', role: '' @ k @ '': '')
              (clientOp env a realm clientId (GetClientRoleOp k)))
         (\<lambda>role. ret (rolesToAdd @ [gocloak_role role]))) ks [])"

definition syncOneEntityClientRole ::
  "'w env \<Rightarrow> GoCloakAdapter \<Rightarrow> string \<Rightarrow> string \<Rightarrow> string \<Rightarrow> string list \<Rightarrow> gocloak_ClientMappings option gomap \<Rightarrow>
   ('w, 'm) client_roles_fun \<Rightarrow> ('w, 'm) client_roles_fun \<Rightarrow> ('w, 'm, unit) prog" where
  "syncOneEntityClientRole env a realm entityID clientID claimedRoles currentRoles addRoleFunc delRoleFunc =
     bindIO (wrapErr (''unable to get client id, realm: '' @ realm @ '', clientID '' @ clientID @ '': '') (GetClientID env a clientID realm)) (\<lambda>CID.
     bindIO (makeCurrentClientRoles clientID currentRoles) (\<lambda>currentClientRoles.
     let claimedClientRoles = makeClaimedClientRoles claimedRoles in
     bindIO (makeClientRolesToAdd env a realm CID currentClientRoles claimedClientRoles) (\<lambda>rolesToAdd.
     bindIO (whenIO (rolesToAdd \<noteq> [])
       (wrapErr (''unable to add realm role to entity, realm: '' @ realm @ '', clientID: '' @ CID @ '', entityID: '' @ entityID @ '': '')
         (addRoleFunc realm CID entityID rolesToAdd))) (\<lambda>_.
     bindIO (range_order (map_rank env) currentClientRoles) (\<lambda>es.
     let rolesToDelete = map snd (filter (\<lambda>(k, _). k \<notin> set claimedClientRoles) es) in
     whenIO (rolesToDelete \<noteq> [])
       (wrapErr (''unable to del client role from entity, realm: '' @ realm @ '', clientID: '' @ CID @ '', entityID: '' @ entityID @ '': '')
         (delRoleFunc realm CID entityID rolesToDelete)))))))"

definition removeUnclaimedClient ::
  "string \<Rightarrow> string \<Rightarrow> string list gomap \<Rightarrow> ('w, 'm) client_roles_fun \<Rightarrow> string \<times> gocloak_ClientMappings option \<Rightarrow> ('w, 'm, unit) prog" where
  "removeUnclaimedClient realm entityID claimedRoles delRoleFunc e = (case e of (clientName, client) \<Rightarrow>
     if map_of claimedRoles clientName \<noteq> None then ret ()
     else bindIO (derefIO client) (\<lambda>c. case gmp_Mappings c of
         None \<Rightarrow> ret ()
       | Some rolesToDelete \<Rightarrow>
           whenIO (rolesToDelete \<noteq> [])
             (bindIO (derefIO (gmp_ID c)) (\<lambda>i.
              wrapErr ''unable to delete client role from user: '' (delRoleFunc realm i entityID rolesToDelete)))))"

definition syncEntityClientRoles ::
  "'w env \<Rightarrow> GoCloakAdapter \<Rightarrow> string \<Rightarrow> string \<Rightarrow> string list gomap \<Rightarrow> gocloak_ClientMappings option gomap \<Rightarrow>
   ('w, 'm) client_roles_fun \<Rightarrow> ('w, 'm) client_roles_fun \<Rightarrow> ('w, 'm, unit) prog" where
  "syncEntityClientRoles env a realm entityID claimedRoles currentRoles addRoleFunc delRoleFunc =
     bindIO (range_order (map_rank env) claimedRoles) (\<lambda>es.
     bindIO (forIO (\<lambda>(clientID, roles). wrapErr ''error during syncOneEntityClientRole: ''
       (syncOneEntityClientRole env a realm entityID clientID roles currentRoles addRoleFunc delRoleFunc)) es) (\<lambda>_.
     bindIO (range_order (map_rank env) currentRoles) (\<lambda>cs.
     forIO (removeUnclaimedClient realm entityID claimedRoles delRoleFunc) cs)))"

section \<open>gocloak_adapter_user.go, gocloak_adapter_groups.go\<close>

definition gocloak_mappings :: "gocloak_result \<Rightarrow> gocloak_Mappings" where
  "gocloak_mappings r = (case r of GocloakMappings x \<Rightarrow> x | _ \<Rightarrow> \<lparr>gms_RealmMappings = None, gms_ClientMappings = []\<rparr>)"

definition doNotDeleteRealmRoleFromUser :: "('w, 'm) realm_roles_fun" where
  "doNotDeleteRealmRoleFromUser realm entityID roles = ret ()"

definition doNotDeleteClientRoleFromUser :: "('w, 'm) client_roles_fun" where
  "doNotDeleteClientRoleFromUser realm clientID groupID roles = ret ()"

definition adapter_SyncUserRoles ::
  "'w env \<Rightarrow> GoCloakAdapter \<Rightarrow> string \<Rightarrow> string \<Rightarrow> string list \<Rightarrow> string list gomap \<Rightarrow> bool \<Rightarrow> ('w, 'm, unit) prog" where
  "adapter_SyncUserRoles env a realm userID realmRoles clientRoles addOnly =
     bindIO (wrapErr ''error during GetRoleMappingByUserID: '' (realmOp env a realm (GetRoleMappingByUserIDOp userID))) (\<lambda>r.
     let roleMappings = gocloak_mappings r in
     bindIO (wrapErr ''unable to sync user realm roles: ''
       (syncEntityRealmRoles env a userID realm realmRoles (gms_RealmMappings roleMappings)
         (\<lambda>rl u roles. voidIO (realmOp env a rl (AddRealmRoleToUserOp u roles)))
         (if addOnly then doNotDeleteRealmRoleFromUser
          else (\<lambda>rl u roles. voidIO (realmOp env a rl (DeleteRealmRoleFromUserOp u roles)))))) (\<lambda>_.
     wrapErr ''unable to sync user client roles: ''
       (syncEntityClientRoles env a realm userID clientRoles (gms_ClientMappings roleMappings)
         (\<lambda>rl c u roles. voidIO (clientOp env a rl c (AddClientRoleToUserOp u roles)))
         (if addOnly then doNotDeleteClientRoleFromUser
          else (\<lambda>rl c u roles. voidIO (clientOp env a rl c (DeleteClientRoleFromUserOp u roles)))))))"

definition getUserGroupMappings :: string where
  "getUserGroupMappings = ''/admin/realms/{realm}/users/{id}/groups''"

definition manageUserGroups :: string where
  "manageUserGroups = ''/admin/realms/{realm}/users/{userID}/groups/{groupID}''"

definition rest_groupMappings :: "rest_response \<Rightarrow> UserGroupMapping list" where
  "rest_groupMappings r = (case rsr_Result r of RestGroupMappings x \<Rightarrow> x | _ \<Rightarrow> [])"

definition GetUserGroupMappings :: "'w env \<Rightarrow> GoCloakAdapter \<Rightarrow> string \<Rightarrow> string \<Rightarrow> ('w, 'm, UserGroupMapping list) prog" where
  "GetUserGroupMappings env a realmName userID =
     bindIO (restCall env a GET getUserGroupMappings [(''realm'', realmName), (''id'', userID)] NoRest) (\<lambda>ans.
     bindIO (wrapErr ''unable to get group mappings: '' (checked ans)) (\<lambda>rsp. ret (rest_groupMappings rsp)))"

definition adapter_RemoveUserFromGroup :: "'w env \<Rightarrow> GoCloakAdapter \<Rightarrow> string \<Rightarrow> string \<Rightarrow> string \<Rightarrow> ('w, 'm, unit) prog" where
  "adapter_RemoveUserFromGroup env a realmName userID groupID =
     bindIO (restCall env a DELETE manageUserGroups [(''realm'', realmName), (''userID'', userID), (''groupID'', groupID)] NoRest) (\<lambda>ans.
     wrapErr ''unable to remove user from group: '' (voidIO (checked ans)))"

definition adapter_AddUserToGroup :: "'w env \<Rightarrow> GoCloakAdapter \<Rightarrow> string \<Rightarrow> string \<Rightarrow> string \<Rightarrow> ('w, 'm, unit) prog" where
  "adapter_AddUserToGroup env a realmName userID groupID =
     bindIO (restCall env a PUT manageUserGroups [(''realm'', realmName), (''userID'', userID), (''groupID'', groupID)]
       (RestParams [(''groupId'', groupID), (''realm'', realmName), (''userId'', userID)])) (\<lambda>ans.
     wrapErr ''unable to add user to group: '' (voidIO (checked ans)))"

text \<open>Depth first; \<open>None\<close> is a nil dereference, for a group without a name.\<close>

fun getGroupByName :: "gocloak_Group list \<Rightarrow> string \<Rightarrow> gocloak_Group option option" where
  "getGroupByName [] groupName = Some None"
| "getGroupByName (gocloak_Group i name subs rest # gs) groupName =
     (case name of
        None \<Rightarrow> None
      | Some n \<Rightarrow>
          if n = groupName then Some (Some (gocloak_Group i name subs rest))
          else (case subs of
              None \<Rightarrow> getGroupByName gs groupName
            | Some sg \<Rightarrow> (case getGroupByName sg groupName of
                None \<Rightarrow> None
              | Some (Some g) \<Rightarrow> Some (Some g)
              | Some None \<Rightarrow> getGroupByName gs groupName)))"

text \<open>A nil pointer of the list becomes a zero group.\<close>

definition getGroup :: "'w env \<Rightarrow> GoCloakAdapter \<Rightarrow> string \<Rightarrow> string \<Rightarrow> ('w, 'm, gocloak_Group) prog" where
  "getGroup env a realm groupName =
     bindIO (wrapErr ''unable to search groups: '' (realmOp env a realm (GetGroupsOp (Some groupName)))) (\<lambda>r.
     bindIO (derefIO (getGroupByName (map (the_default (gocloak_Group None None None [])) (gocloak_groups r)) groupName)) (\<lambda>res.
     case res of Some gr \<Rightarrow> ret gr | None \<Rightarrow> fail (NotFoundErr ''group not found'')))"

text \<open>The lookups run in goroutines, in some order; all of them run, and the first error is returned.\<close>

definition getGroupsByNames :: "'w env \<Rightarrow> GoCloakAdapter \<Rightarrow> string \<Rightarrow> string list \<Rightarrow> ('w, 'm, gocloak_Group gomap) prog" where
  "getGroupsByNames env a realm groupNames =
     bindIO (spawn_order env groupNames) (\<lambda>ns.
     bindIO (foldIO (\<lambda>groupName (groups, errs).
       bindIO (tryIO (getGroup env a realm groupName)) (\<lambda>res. case res of
         Inl err \<Rightarrow> ret (groups, errs @ [err])
       | Inr gr \<Rightarrow> ret (AList.update groupName gr groups, errs))) ns ([], [])) (\<lambda>(groups, errs).
     case errs of [] \<Rightarrow> ret groups | err # _ \<Rightarrow> fail (Wrapped ''failed to get groups by names: '' err)))"

definition adapter_SyncUserGroups :: "'w env \<Rightarrow> GoCloakAdapter \<Rightarrow> string \<Rightarrow> string \<Rightarrow> string list \<Rightarrow> bool \<Rightarrow> ('w, 'm, unit) prog" where
  "adapter_SyncUserGroups env a realmName userID groups addOnly =
     bindIO (GetUserGroupMappings env a realmName userID) (\<lambda>userGroups.
     let groupsToAdd = filter (\<lambda>gn. \<not> (\<exists>mapping \<in> set userGroups. ugm_Name mapping = gn)) groups in
     bindIO (whenIO (groupsToAdd \<noteq> [])
       (bindIO (wrapErr ''unable to get groups: '' (getGroupsByNames env a realmName groupsToAdd)) (\<lambda>kcGroups.
        bindIO (range_order (map_rank env) kcGroups) (\<lambda>es.
        forIO (\<lambda>(_, gr). bindIO (derefIO (ggr_ID gr)) (\<lambda>i.
          wrapErr (''failed to add user to group '' @ fmt_pointer env (ggr_Name gr) @ '': '') (adapter_AddUserToGroup env a realmName userID i))) es)))) (\<lambda>_.
     whenIO (\<not> addOnly)
       (forIO (\<lambda>gr. whenIO (ugm_Name gr \<notin> set groups)
          (wrapErr ''unable to remove user from group: '' (adapter_RemoveUserFromGroup env a realmName userID (ugm_ID gr)))) userGroups)))"

section \<open>gocloak_adapter_service_account.go\<close>

definition gocloak_user :: "gocloak_result \<Rightarrow> gocloak_User" where
  "gocloak_user r = (case r of GocloakUser x \<Rightarrow> x | _ \<Rightarrow> \<lparr>gus_ID = None, gus_Username = None, gus_Attributes = None, gus_rest = []\<rparr>)"

definition get_service_account :: "'w env \<Rightarrow> GoCloakAdapter \<Rightarrow> string \<Rightarrow> string \<Rightarrow> ('w, 'm, gocloak_User) prog" where
  "get_service_account env a realm clientID =
     bindIO (wrapErr ''unable to get client service account: '' (clientOp env a realm clientID GetClientServiceAccountOp)) (\<lambda>r.
     ret (gocloak_user r))"

definition SyncServiceAccountRoles ::
  "'w env \<Rightarrow> GoCloakAdapter \<Rightarrow> string \<Rightarrow> string \<Rightarrow> string list \<Rightarrow> string list gomap \<Rightarrow> bool \<Rightarrow> ('w, 'm, unit) prog" where
  "SyncServiceAccountRoles env a realm clientID realmRoles clientRoles addOnly =
     bindIO (get_service_account env a realm clientID) (\<lambda>user.
     bindIO (derefIO (gus_ID user)) (\<lambda>i. adapter_SyncUserRoles env a realm i realmRoles clientRoles addOnly))"

definition SyncServiceAccountGroups :: "'w env \<Rightarrow> GoCloakAdapter \<Rightarrow> string \<Rightarrow> string \<Rightarrow> string list \<Rightarrow> bool \<Rightarrow> ('w, 'm, unit) prog" where
  "SyncServiceAccountGroups env a realm clientID groups addOnly =
     bindIO (get_service_account env a realm clientID) (\<lambda>user.
     bindIO (derefIO (gus_ID user)) (\<lambda>i. adapter_SyncUserGroups env a realm i groups addOnly))"

text \<open>The loops over the attributes: what is wanted is merged or set, what is not wanted deleted.\<close>

definition append_values :: "string list \<Rightarrow> string list \<Rightarrow> string list" where
  "append_values existingValues v = fold (\<lambda>newValue vs. if newValue \<in> set vs then vs else vs @ [newValue]) v existingValues"

definition set_attribute :: "bool \<Rightarrow> string \<times> string list \<Rightarrow> string list gomap \<Rightarrow> string list gomap" where
  "set_attribute addOnly e m = (case e of (k, v) \<Rightarrow>
     AList.update k (if addOnly then append_values (get_list m k) v else v) m)"

definition SetServiceAccountAttributes ::
  "'w env \<Rightarrow> GoCloakAdapter \<Rightarrow> string \<Rightarrow> string \<Rightarrow> string list gomap \<Rightarrow> bool \<Rightarrow> ('w, 'm, unit) prog" where
  "SetServiceAccountAttributes env a realm clientID attributes addOnly =
     bindIO (get_service_account env a realm clientID) (\<lambda>user.
     bindIO (range_order (map_rank env) attributes) (\<lambda>es.
     let merged = fold (set_attribute addOnly) es (the_default [] (gus_Attributes user));
         result = (if addOnly then merged else filter (\<lambda>(existingKey, _). map_of attributes existingKey \<noteq> None) merged)
     in wrapErr (''unable to update service account user: '' @ clientID @ '': '')
          (voidIO (realmOp env a realm (UpdateUserOp (user\<lparr>gus_Attributes := Some result\<rparr>))))))"

section \<open>Protocol mappers of a client\<close>

definition getClientProtocolMappers :: string where
  "getClientProtocolMappers = ''/admin/realms/{realm}/clients/{id}/protocol-mappers/models''"

definition rest_gocloakMappers :: "rest_response \<Rightarrow> gocloak_ProtocolMapper list" where
  "rest_gocloakMappers r = (case rsr_Result r of RestGocloakMappers x \<Rightarrow> x | _ \<Rightarrow> [])"

definition GetClientProtocolMappers :: "'w env \<Rightarrow> GoCloakAdapter \<Rightarrow> dto_Client \<Rightarrow> string \<Rightarrow> ('w, 'm, gocloak_ProtocolMapper list) prog" where
  "GetClientProtocolMappers env a client clientID =
     bindIO (restCall env a GET getClientProtocolMappers [(''realm'', dtc_RealmName client), (''id'', clientID)] NoRest) (\<lambda>ans.
     case fst ans of
       Some err \<Rightarrow> fail (Wrapped ''failed to get client protocol mappers: '' err)
     | None \<Rightarrow>
         bindIO (derefIO (snd ans)) (\<lambda>resp.
         if rsr_StatusCode resp > 399 then fail (NewError (rsr_String resp))
         else ret (rest_gocloakMappers resp)))"

definition named_mappers :: "gocloak_ProtocolMapper list \<Rightarrow> ('w, 'm, gocloak_ProtocolMapper gomap) prog" where
  "named_mappers mappers = foldIO (\<lambda>m acc. bindIO (derefIO (gpr_Name m)) (\<lambda>n. ret (AList.update n m acc))) mappers []"

text \<open>The claimed mappers, with an empty configuration where there was none, and the two maps by name.\<close>

definition with_config :: "gocloak_ProtocolMapper \<Rightarrow> gocloak_ProtocolMapper" where
  "with_config m = m\<lparr>gpr_Config := Some (the_default [] (gpr_Config m))\<rparr>"

definition prepareProtocolMapperMaps ::
  "'w env \<Rightarrow> GoCloakAdapter \<Rightarrow> dto_Client \<Rightarrow> string \<Rightarrow> gocloak_ProtocolMapper list \<Rightarrow>
   ('w, 'm, gocloak_ProtocolMapper gomap \<times> gocloak_ProtocolMapper gomap \<times> gocloak_ProtocolMapper list) prog" where
  "prepareProtocolMapperMaps env a client clientID claimedMappers =
     bindIO (wrapErr ''unable to get client protocol mappers: '' (GetClientProtocolMappers env a client clientID)) (\<lambda>currentMappers.
     bindIO (named_mappers currentMappers) (\<lambda>currentMappersMap.
     bindIO (named_mappers (map with_config claimedMappers)) (\<lambda>claimedMappersMap.
     ret (currentMappersMap, claimedMappersMap, map with_config claimedMappers))))"

definition mapperNeedsToBeCreated ::
  "'w env \<Rightarrow> GoCloakAdapter \<Rightarrow> gocloak_ProtocolMapper \<Rightarrow> gocloak_ProtocolMapper gomap \<Rightarrow> string \<Rightarrow> string \<Rightarrow> ('w, 'm, unit) prog" where
  "mapperNeedsToBeCreated env a claimed currentMappersMap realmName clientID =
     bindIO (derefIO (gpr_Name claimed)) (\<lambda>n.
     if map_of currentMappersMap n \<noteq> None then ret ()
     else wrapErr ''unable to client create protocol mapper: ''
       (voidIO (clientOp env a realmName clientID (CreateClientProtocolMapperOp claimed))))"

text \<open>
  \<open>reflect.DeepEqual\<close> is given a pointer to a mapper and a mapper. Values of distinct types are never
  deeply equal, whatever they hold.
\<close>

datatype go_value = PointerTo gocloak_ProtocolMapper | ValueOf gocloak_ProtocolMapper

fun reflect_DeepEqual :: "go_value \<Rightarrow> go_value \<Rightarrow> bool" where
  "reflect_DeepEqual (PointerTo x) (PointerTo y) = (x = y)"
| "reflect_DeepEqual (ValueOf x) (ValueOf y) = (x = y)"
| "reflect_DeepEqual _ _ = False"

definition mapperNeedsToBeUpdated ::
  "'w env \<Rightarrow> GoCloakAdapter \<Rightarrow> gocloak_ProtocolMapper \<Rightarrow> gocloak_ProtocolMapper gomap \<Rightarrow> string \<Rightarrow> string \<Rightarrow> ('w, 'm, unit) prog" where
  "mapperNeedsToBeUpdated env a claimed currentMappersMap realmName clientID =
     bindIO (derefIO (gpr_Name claimed)) (\<lambda>n.
     case map_of currentMappersMap n of
       None \<Rightarrow> ret ()
     | Some current \<Rightarrow>
         let claimed' = claimed\<lparr>gpr_ID := gpr_ID current\<rparr> in
         if reflect_DeepEqual (PointerTo claimed') (ValueOf current) then ret ()
         else bindIO (derefIO (gpr_ID claimed')) (\<lambda>i.
           wrapErr ''unable to update client protocol mapper: ''
             (voidIO (clientOp env a realmName clientID (UpdateClientProtocolMapperOp i claimed')))))"

definition SyncClientProtocolMapper ::
  "'w env \<Rightarrow> GoCloakAdapter \<Rightarrow> dto_Client \<Rightarrow> gocloak_ProtocolMapper list \<Rightarrow> bool \<Rightarrow> ('w, 'm, unit) prog" where
  "SyncClientProtocolMapper env a client claimedMappers addOnly =
     bindIO (wrapErr ''unable to get client id: '' (GetClientID env a (dtc_ClientId client) (dtc_RealmName client))) (\<lambda>clientID.
     bindIO (wrapErr ''unable to prepare protocol mapper maps: '' (prepareProtocolMapperMaps env a client clientID claimedMappers))
       (\<lambda>(currentMappersMap, claimedMappersMap, claimedMappers').
     bindIO (forIO (\<lambda>claimed.
       bindIO (wrapErr ''error during mapperNeedsToBeCreated: ''
         (mapperNeedsToBeCreated env a claimed currentMappersMap (dtc_RealmName client) clientID)) (\<lambda>_.
       wrapErr ''error during mapperNeedsToBeUpdated: ''
         (mapperNeedsToBeUpdated env a claimed currentMappersMap (dtc_RealmName client) clientID))) claimedMappers') (\<lambda>_.
     if addOnly then ret ()
     else
       bindIO (range_order (map_rank env) currentMappersMap) (\<lambda>es.
       forIO (\<lambda>(_, kc).
         bindIO (derefIO (gpr_Name kc)) (\<lambda>n.
         if map_of claimedMappersMap n \<noteq> None then ret ()
         else bindIO (derefIO (gpr_ID kc)) (\<lambda>i.
           wrapErr ''unable to delete client protocol mapper: ''
             (voidIO (clientOp env a (dtc_RealmName client) clientID (DeleteClientProtocolMapperOp i)))))) es))))"

end
