(* ===== verification/ClientChain.thy ===== *)
theory ClientChain
  imports ClientScopeChain RoleSyncAdapter
begin

text \<open>
  \<open>internal/controller/keycloakclient/chain/client\<close>, the handlers that concern a client itself:
  \<open>put_client.go\<close> (with the secret of a client), \<open>put_client_role.go\<close>, \<open>put_realm_role.go\<close>,
  \<open>put_client_scope.go\<close>, \<open>put_protocol_mappers.go\<close> and \<open>service_account.go\<close>, with \<open>dto.go\<close> and
  \<open>conditions.go\<close>. Every handler reports its outcome as a condition of the resource.
\<close>

section \<open>conditions.go\<close>

definition client_SetCondition :: "'w env \<Rightarrow> string \<Rightarrow> string \<Rightarrow> string \<Rightarrow> string \<Rightarrow> ('w, unit) client_prog" where
  "client_SetCondition env condition status reason message =
     bindIO (getMem clm_data) (\<lambda>d.
     bindIO (getMem (\<lambda>m. kct_Conditions (kcl_Status (clm_client m)))) (\<lambda>cs.
     let conditionType = RemoveSpecialChar (acl_Name (dc_Client d)) @ ''.'' @ condition;
         c = \<lparr>cond_Type = conditionType, cond_Status = status, cond_Reason = reason, cond_Message = message,
           cond_ObservedGeneration = dc_Generation d\<rparr> in
     bindIO (modMem (set_client_status (\<lambda>st. st\<lparr>kct_Conditions := SetStatusCondition env cs c\<rparr>))) (\<lambda>_.
     if \<not> ConditionChanged env cs c then ret ()
     else wrapErr (''failed to update condition '' @ conditionType @ '': '') (k8s_StatusUpdate env client_obj))))"

text \<open>The handlers log an error of setting a condition and go on.\<close>

definition try_SetCondition :: "'w env \<Rightarrow> string \<Rightarrow> string \<Rightarrow> string \<Rightarrow> string \<Rightarrow> ('w, unit) client_prog" where
  "try_SetCondition env condition status reason message =
     voidIO (tryIO (client_SetCondition env condition status reason message))"

definition PutClient_setFailureCondition :: "'w env \<Rightarrow> string \<Rightarrow> ('w, unit) client_prog" where
  "PutClient_setFailureCondition env message = try_SetCondition env ConditionClientSynced ''False'' client_ReasonKeycloakAPIError message"

definition PutClient_setSuccessCondition :: "'w env \<Rightarrow> string \<Rightarrow> ('w, unit) client_prog" where
  "PutClient_setSuccessCondition env message = try_SetCondition env ConditionClientSynced ''True'' ReasonClientUpdated message"

definition PutClientRole_setFailureCondition :: "'w env \<Rightarrow> string \<Rightarrow> ('w, unit) client_prog" where
  "PutClientRole_setFailureCondition env message = try_SetCondition env ConditionClientRolesSynced ''False'' client_ReasonKeycloakAPIError message"

definition PutClientRole_setSuccessCondition :: "'w env \<Rightarrow> string \<Rightarrow> ('w, unit) client_prog" where
  "PutClientRole_setSuccessCondition env message = try_SetCondition env ConditionClientRolesSynced ''True'' ReasonClientRolesSynced message"

definition PutRealmRole_setFailureCondition :: "'w env \<Rightarrow> string \<Rightarrow> ('w, unit) client_prog" where
  "PutRealmRole_setFailureCondition env message = try_SetCondition env ConditionRealmRolesSynced ''False'' client_ReasonKeycloakAPIError message"

definition PutRealmRole_setSuccessCondition :: "'w env \<Rightarrow> string \<Rightarrow> ('w, unit) client_prog" where
  "PutRealmRole_setSuccessCondition env message = try_SetCondition env ConditionRealmRolesSynced ''True'' ReasonRealmRolesSynced message"

definition PutClientScope_setFailureCondition :: "'w env \<Rightarrow> string \<Rightarrow> ('w, unit) client_prog" where
  "PutClientScope_setFailureCondition env message = try_SetCondition env ConditionClientScopesSynced ''False'' client_ReasonKeycloakAPIError message"

definition PutClientScope_setSuccessCondition :: "'w env \<Rightarrow> string \<Rightarrow> ('w, unit) client_prog" where
  "PutClientScope_setSuccessCondition env message = try_SetCondition env ConditionClientScopesSynced ''True'' ReasonClientScopesSynced message"

definition PutProtocolMappers_setFailureCondition :: "'w env \<Rightarrow> string \<Rightarrow> ('w, unit) client_prog" where
  "PutProtocolMappers_setFailureCondition env message = try_SetCondition env ConditionProtocolMappersSynced ''False'' client_ReasonKeycloakAPIError message"

definition PutProtocolMappers_setSuccessCondition :: "'w env \<Rightarrow> string \<Rightarrow> ('w, unit) client_prog" where
  "PutProtocolMappers_setSuccessCondition env message = try_SetCondition env ConditionProtocolMappersSynced ''True'' ReasonProtocolMappersSynced message"

definition ServiceAccount_setFailureCondition :: "'w env \<Rightarrow> string \<Rightarrow> ('w, unit) client_prog" where
  "ServiceAccount_setFailureCondition env message = try_SetCondition env ConditionServiceAccountSynced ''False'' client_ReasonKeycloakAPIError message"

definition ServiceAccount_setSuccessCondition :: "'w env \<Rightarrow> string \<Rightarrow> ('w, unit) client_prog" where
  "ServiceAccount_setSuccessCondition env message = try_SetCondition env ConditionServiceAccountSynced ''True'' ReasonServiceAccountSynced message"

text \<open>\<open>if err := m; err != nil { setFailureCondition(what + err.Error()); return err }\<close>.\<close>

definition reporting :: "(string \<Rightarrow> ('w, unit) client_prog) \<Rightarrow> string \<Rightarrow> ('w, 'a) client_prog \<Rightarrow> ('w, 'a) client_prog" where
  "reporting setFailureCondition what m =
     bindIO (tryIO m) (\<lambda>res. case res of
       Inr x \<Rightarrow> ret x
     | Inl err \<Rightarrow> bindIO (setFailureCondition (what @ Error err)) (\<lambda>_. fail err))"

section \<open>dto.go\<close>

definition defaultClientProtocol :: string where
  "defaultClientProtocol = ''openid-connect''"

definition getValueOrDefault :: "string option \<Rightarrow> string" where
  "getValueOrDefault protocol = (case protocol of None \<Rightarrow> defaultClientProtocol | Some p \<Rightarrow> p)"

definition ConvertDataClientToClient :: "Client \<Rightarrow> string \<Rightarrow> string \<Rightarrow> string gomap option \<Rightarrow> dto_Client" where
  "ConvertDataClientToClient spec clientSecret realmName authFlowOverrides =
     \<lparr>dtc_ID = '''', dtc_ClientId = acl_ClientId spec, dtc_ClientSecret = clientSecret, dtc_RealmName = realmName,
      dtc_Roles = filter (\<lambda>role. clr_Name role \<noteq> '''') (acl_ClientRolesV2 spec),
      dtc_PublicClient = acl_Public spec, dtc_DirectAccess = acl_DirectAccess spec, dtc_WebUrl = acl_WebUrl spec,
      dtc_AdminUrl = acl_AdminUrl spec, dtc_HomeUrl = acl_HomeUrl spec, dtc_Protocol = getValueOrDefault (acl_Protocol spec),
      dtc_Attributes = acl_Attributes spec, dtc_AdvancedProtocolMappers = acl_AdvancedProtocolMappers spec,
      dtc_ServiceAccountEnabled = (case acl_ServiceAccount spec of None \<Rightarrow> False | Some sa \<Rightarrow> sac_Enabled sa),
      dtc_FrontChannelLogout = acl_FrontChannelLogout spec, dtc_RedirectUris = acl_RedirectUris spec,
      dtc_WebOrigins = acl_WebOrigins spec, dtc_AuthorizationServicesEnabled = acl_AuthorizationServicesEnabled spec,
      dtc_BearerOnly = acl_BearerOnly spec, dtc_ClientAuthenticatorType = acl_ClientAuthenticatorType spec,
      dtc_ConsentRequired = acl_ConsentRequired spec, dtc_Description = acl_Description spec, dtc_Enabled = acl_Enabled spec,
      dtc_FullScopeAllowed = acl_FullScopeAllowed spec, dtc_ImplicitFlowEnabled = acl_ImplicitFlowEnabled spec,
      dtc_Name = acl_Name spec, dtc_Origin = '''', dtc_RegistrationAccessToken = '''',
      dtc_StandardFlowEnabled = acl_StandardFlowEnabled spec, dtc_SurrogateAuthRequired = acl_SurrogateAuthRequired spec,
      dtc_AuthenticationFlowBindingOverrides = authFlowOverrides\<rparr>"

section \<open>put_client.go\<close>

definition secretLength :: nat where
  "secretLength = 32"

definition browserAuthFlow :: string where
  "browserAuthFlow = ''browser''"

definition directGrantAuthFlow :: string where
  "directGrantAuthFlow = ''direct_grant''"

definition ClientSecretKey :: string where
  "ClientSecretKey = ''clientSecret''"

text \<open>\<open>base64.URLEncoding.EncodeToString\<close>, with padding.\<close>

definition b64_char :: "nat \<Rightarrow> char" where
  "b64_char n =
     (if n < 26 then char_of (n + 65) else if n < 52 then char_of (n + 71) else if n < 62 then char_of (n - 4)
      else if n = 62 then CHR ''-'' else CHR ''_'')"

fun b64_encode :: "nat list \<Rightarrow> string" where
  "b64_encode (a # b # c # bs) =
     b64_char (a div 4) # b64_char (a mod 4 * 16 + b div 16) # b64_char (b mod 16 * 4 + c div 64) # b64_char (c mod 64) # b64_encode bs"
| "b64_encode [a, b] = [b64_char (a div 4), b64_char (a mod 4 * 16 + b div 16), b64_char (b mod 16 * 4), CHR ''='']"
| "b64_encode [a] = [b64_char (a div 4), b64_char (a mod 4 * 16), CHR ''='', CHR ''='']"
| "b64_encode [] = []"

definition URLEncoding_Encode :: "string \<Rightarrow> string" where
  "URLEncoding_Encode bs = b64_encode (map of_char bs)"

text \<open>Reading random bytes is not a request, so it leaves no trace.\<close>

definition generateSecureSecret :: "'w env \<Rightarrow> ('w, 'm, string) prog" where
  "generateSecureSecret env = (\<lambda>s. case rand_Read env secretLength (world s) of
     (Inl err, w) \<Rightarrow> (Err err, s\<lparr>world := w\<rparr>)
   | (Inr bytes, w) \<Rightarrow> (Ok (URLEncoding_Encode bytes), s\<lparr>world := w\<rparr>))"

text \<open>
  The loop over the clients of the resource assigns to the loop variable, which in Go is a copy of
  the entry; the resource is as before.
\<close>

definition updateCRDSecretRef :: "DataClient \<Rightarrow> KeycloakClient \<Rightarrow> KeycloakClient" where
  "updateCRDSecretRef d crd =
     fst (fold (\<lambda>cl (crd, index).
        let cl' = (if index = dc_ClientIndex d then cl\<lparr>acl_Secret := acl_Secret (dc_Client d)\<rparr> else cl) in (crd, Suc index))
        (kcs_Client (kcl_Spec crd)) (crd, 0))"

definition set_data_secret :: "string \<Rightarrow> client_mem \<Rightarrow> client_mem" where
  "set_data_secret ref m = m\<lparr>clm_data := (clm_data m)\<lparr>dc_Client := (dc_Client (clm_data m))\<lparr>acl_Secret := ref\<rparr>\<rparr>\<rparr>"

definition storeSecretRef :: "'w env \<Rightarrow> string \<Rightarrow> ('w, unit) client_prog" where
  "storeSecretRef env ref =
     bindIO (modMem (set_data_secret ref)) (\<lambda>_.
     bindIO (modMem (\<lambda>m. m\<lparr>clm_client := updateCRDSecretRef (clm_data m) (clm_client m)\<rparr>)) (\<lambda>_.
     k8s_Update env client_obj))"

definition setSecretRef :: "'w env \<Rightarrow> ('w, unit) client_prog" where
  "setSecretRef env =
     bindIO (getMem (\<lambda>m. GenerateSecretRef (acl_Secret (dc_Client (clm_data m))) ClientSecretKey)) (\<lambda>ref.
     wrapErr (''unable to update client with secret ref '' @ ref @ '': '') (storeSecretRef env ref))"

text \<open>\<open>client.Create\<close> of a secret; the object becomes what the API server answers.\<close>

definition create_secret :: "'w env \<Rightarrow> Secret \<Rightarrow> ('w, 'm, Secret) prog" where
  "create_secret env s =
     bindIO (callIO (Kube (KCreate (SecretObj s))) (k8s env (KCreate (SecretObj s)))) (\<lambda>x.
     ret (case x of SecretObj s' \<Rightarrow> s' | _ \<Rightarrow> s))"

definition client_secretName :: "Client \<Rightarrow> string" where
  "client_secretName c = ''keycloak-client-'' @ RemoveSpecialChar (acl_Name c) @ ''-secret''"

definition generateSecret :: "'w env \<Rightarrow> ('w, string) client_prog" where
  "generateSecret env =
     bindIO (getMem clm_data) (\<lambda>d.
     let secretName = client_secretName (dc_Client d) in
     bindIO (tryIO (get_secret env (dc_Namespace d) secretName)) (\<lambda>res.
     bindIO (case res of
         Inr secret \<Rightarrow> ret (Some secret)
       | Inl secretErr \<Rightarrow>
           if \<not> k8s_IsNotFound secretErr then fail (Wrapped ''unable to check client secret existence: '' secretErr)
           else ret None) (\<lambda>existing.
     bindIO (wrapErr ''unable to generate secret: '' (generateSecureSecret env)) (\<lambda>pass.
     bindIO (case existing of
         Some secret \<Rightarrow> ret secret
       | None \<Rightarrow>
           bindIO (getMem clm_client) (\<lambda>crd.
           bindIO (wrapErr ''unable to set controller ref for secret: ''
             (liftIO (SetControllerReference_Secret env crd
                \<lparr>sec_Name = secretName, sec_Namespace = dc_Namespace d, sec_ResourceVersion = '''', sec_OwnerReferences = [],
                 sec_Data = [(ClientSecretKey, pass)]\<rparr>))) (\<lambda>clientSecret.
           wrapErr (''unable to create secret '' @ fmt_secret env clientSecret @ '', err: '') (create_secret env clientSecret)))) (\<lambda>clientSecret.
     bindIO (wrapErr (''unable to update client with new secret: '' @ sec_Name clientSecret @ '', err: '')
       (storeSecretRef env (GenerateSecretRef (sec_Name clientSecret) ClientSecretKey))) (\<lambda>_.
     ret (get_str (sec_Data clientSecret) ClientSecretKey)))))))"

definition getSecret :: "'w env \<Rightarrow> ('w, string) client_prog" where
  "getSecret env =
     bindIO (getMem (\<lambda>m. acl_Secret (dc_Client (clm_data m)))) (\<lambda>secret.
     if secret \<noteq> '''' then
       bindIO (whenIO (\<not> HasSecretRef secret) (setSecretRef env)) (\<lambda>_.
       bindIO (getMem clm_data) (\<lambda>d.
       wrapErr ''unable to get secret from ref: '' (GetSecretFromRef env (acl_Secret (dc_Client d)) (dc_Namespace d))))
     else generateSecret env)"

definition convertCrToDto :: "'w env \<Rightarrow> string \<Rightarrow> string gomap option \<Rightarrow> ('w, dto_Client) client_prog" where
  "convertCrToDto env realmName authflowOverrides =
     bindIO (getMem (\<lambda>m. dc_Client (clm_data m))) (\<lambda>c.
     if acl_Public c then ret (ConvertDataClientToClient c '''' realmName authflowOverrides)
     else
       bindIO (wrapErr ''unable to get secret, err: '' (getSecret env)) (\<lambda>secret.
       bindIO (getMem (\<lambda>m. dc_Client (clm_data m))) (\<lambda>c'.
       ret (ConvertDataClientToClient c' secret realmName authflowOverrides))))"

definition bind_flow :: "string gomap \<Rightarrow> string \<Rightarrow> string \<Rightarrow> string \<Rightarrow> string gomap \<Rightarrow> go_error + string gomap" where
  "bind_flow realmAuthFlows realmName binding flow overrides =
     (if flow = '''' then Inr overrides
      else case map_of realmAuthFlows flow of
        None \<Rightarrow> Inl (NewError (''auth flow '' @ flow @ '' not found in realm '' @ realmName))
      | Some i \<Rightarrow> Inr (AList.update binding i overrides))"

definition getAuthFlows :: "'w env \<Rightarrow> GoCloakAdapter \<Rightarrow> AuthenticationFlowBindingOverrides \<Rightarrow> string \<Rightarrow> ('w, 'm, string gomap) prog" where
  "getAuthFlows env a clientAuthFlows realmName =
     bindIO (wrapErr ''unable to get realm: '' (GetRealmAuthFlows env a realmName)) (\<lambda>flows.
     let realmAuthFlows = build_map (\<lambda>f. Some (daf_Alias f)) daf_ID flows in
     bindIO (liftIO (bind_flow realmAuthFlows realmName browserAuthFlow (fbo_Browser clientAuthFlows) [])) (\<lambda>overrides.
     liftIO (bind_flow realmAuthFlows realmName directGrantAuthFlow (fbo_DirectGrant clientAuthFlows) overrides)))"

definition putKeycloakClient :: "'w env \<Rightarrow> GoCloakAdapter \<Rightarrow> string \<Rightarrow> ('w, string) client_prog" where
  "putKeycloakClient env a realmName =
     bindIO (getMem (\<lambda>m. acl_AuthenticationFlowBindingOverrides (dc_Client (clm_data m)))) (\<lambda>flows.
     bindIO (case flows of
         None \<Rightarrow> ret None
       | Some fl \<Rightarrow> wrapErr ''unable to get auth flows: '' (bindIO (getAuthFlows env a fl realmName) (\<lambda>o'. ret (Some o')))) (\<lambda>authFlowOverrides.
     bindIO (wrapErr ''error during convertCrToDto: '' (convertCrToDto env realmName authFlowOverrides)) (\<lambda>clientDto.
     bindIO (tryIO (GetClientID env a (dtc_ClientId clientDto) (dtc_RealmName clientDto))) (\<lambda>res.
     bindIO (case res of
         Inr i \<Rightarrow> ret i
       | Inl err \<Rightarrow> if \<not> IsErrNotFound err then fail (Wrapped ''unable to check client id: '' err) else ret '''') (\<lambda>clientID.
     if clientID \<noteq> '''' then
       bindIO (wrapErr ''unable to update keycloak client: '' (UpdateClient env a (clientDto\<lparr>dtc_ID := clientID\<rparr>))) (\<lambda>_.
       ret clientID)
     else
       bindIO (wrapErr ''unable to create client: '' (adapter_CreateClient env a clientDto)) (\<lambda>_.
       wrapErr ''unable to check client id: '' (GetClientID env a (dtc_ClientId clientDto) (dtc_RealmName clientDto))))))))"

definition PutClient_Serve :: "'w env \<Rightarrow> GoCloakAdapter \<Rightarrow> string \<Rightarrow> ('w, unit) client_prog" where
  "PutClient_Serve env a realmName =
     bindIO (wrapErr ''unable to put keycloak client: ''
       (reporting (PutClient_setFailureCondition env) ''Failed to sync client: '' (putKeycloakClient env a realmName))) (\<lambda>i.
     bindIO (modMem (\<lambda>m. m\<lparr>clm_data := (clm_data m)\<lparr>dc_ClientID := i\<rparr>\<rparr>)) (\<lambda>_.
     PutClient_setSuccessCondition env ''Client synchronized with Keycloak''))"

section \<open>put_client_role.go\<close>

definition putKeycloakClientRole :: "'w env \<Rightarrow> GoCloakAdapter \<Rightarrow> string \<Rightarrow> ('w, unit) client_prog" where
  "putKeycloakClientRole env a realmName =
     bindIO (getMem (\<lambda>m. dc_Client (clm_data m))) (\<lambda>c.
     wrapErr ''unable to sync client roles: '' (adapter_SyncClientRoles env a realmName (ConvertDataClientToClient c '''' realmName None)))"

definition PutClientRole_Serve :: "'w env \<Rightarrow> GoCloakAdapter \<Rightarrow> string \<Rightarrow> ('w, unit) client_prog" where
  "PutClientRole_Serve env a realmName =
     bindIO (wrapErr ''unable to put keycloak client role: ''
       (reporting (PutClientRole_setFailureCondition env) ''Failed to sync client roles: '' (putKeycloakClientRole env a realmName))) (\<lambda>_.
     PutClientRole_setSuccessCondition env ''Client roles synchronized'')"

section \<open>put_realm_role.go\<close>

text \<open>A role that exists ends the function, not only the round of the loop.\<close>

primrec put_realm_roles :: "'w env \<Rightarrow> GoCloakAdapter \<Rightarrow> string \<Rightarrow> RealmRole list \<Rightarrow> ('w, 'm, unit) prog" where
  "put_realm_roles env a realmName [] = ret ()"
| "put_realm_roles env a realmName (role # roles) =
     bindIO (wrapErr ''error during ExistRealmRole: '' (ExistRealmRole env a realmName (arr_Name role))) (\<lambda>exist.
     if exist then ret ()
     else
       bindIO (wrapErr ''error during CreateRealmRole: '' (CreateIncludedRealmRole env a realmName role)) (\<lambda>_.
       put_realm_roles env a realmName roles))"

definition client_putRealmRoles :: "'w env \<Rightarrow> GoCloakAdapter \<Rightarrow> string \<Rightarrow> ('w, unit) client_prog" where
  "client_putRealmRoles env a realmName =
     bindIO (getMem (\<lambda>m. acl_RealmRoles (dc_Client (clm_data m)))) (\<lambda>roles.
     put_realm_roles env a realmName (the_default [] roles))"

definition PutRealmRole_Serve :: "'w env \<Rightarrow> GoCloakAdapter \<Rightarrow> string \<Rightarrow> ('w, unit) client_prog" where
  "PutRealmRole_Serve env a realmName =
     bindIO (wrapErr ''unable to put realm roles: ''
       (reporting (PutRealmRole_setFailureCondition env) ''Failed to sync realm roles: '' (client_putRealmRoles env a realmName))) (\<lambda>_.
     PutRealmRole_setSuccessCondition env ''Realm roles synchronized'')"

section \<open>put_client_scope.go\<close>

definition putDefaultClientScope :: "'w env \<Rightarrow> GoCloakAdapter \<Rightarrow> string \<Rightarrow> ('w, unit) client_prog" where
  "putDefaultClientScope env a realmName =
     bindIO (getMem (\<lambda>m. dc_Client (clm_data m))) (\<lambda>kCloakSpec.
     if acl_DefaultClientScopes kCloakSpec = [] then ret ()
     else
       bindIO (wrapErr ''error during GetClientScope: '' (GetClientScopesByNames env a realmName (acl_DefaultClientScopes kCloakSpec))) (\<lambda>defaultScopes.
       wrapErr (''failed to add default scope to client '' @ acl_Name kCloakSpec @ '': '')
         (AddDefaultScopeToClient env a realmName (acl_ClientId kCloakSpec) defaultScopes)))"

definition putOptionalClientScope :: "'w env \<Rightarrow> GoCloakAdapter \<Rightarrow> string \<Rightarrow> ('w, unit) client_prog" where
  "putOptionalClientScope env a realmName =
     bindIO (getMem (\<lambda>m. dc_Client (clm_data m))) (\<lambda>kCloakSpec.
     if acl_OptionalClientScopes kCloakSpec = [] then ret ()
     else
       bindIO (wrapErr ''error during GetClientScope: '' (GetClientScopesByNames env a realmName (acl_OptionalClientScopes kCloakSpec))) (\<lambda>optionalScopes.
       wrapErr (''failed to add default scope to client '' @ acl_Name kCloakSpec @ '': '')
         (AddOptionalScopeToClient env a realmName (acl_ClientId kCloakSpec) optionalScopes)))"

definition client_putClientScope :: "'w env \<Rightarrow> GoCloakAdapter \<Rightarrow> string \<Rightarrow> ('w, unit) client_prog" where
  "client_putClientScope env a realmName =
     bindIO (putDefaultClientScope env a realmName) (\<lambda>_. putOptionalClientScope env a realmName)"

definition PutClientScope_Serve :: "'w env \<Rightarrow> GoCloakAdapter \<Rightarrow> string \<Rightarrow> ('w, unit) client_prog" where
  "PutClientScope_Serve env a realmName =
     bindIO (wrapErr ''error during putClientScope: ''
       (reporting (PutClientScope_setFailureCondition env) ''Failed to sync client scopes: '' (client_putClientScope env a realmName))) (\<lambda>_.
     PutClientScope_setSuccessCondition env ''Client scopes synchronized'')"

section \<open>put_protocol_mappers.go\<close>

definition mapper_of_spec :: "ProtocolMapper \<Rightarrow> gocloak_ProtocolMapper" where
  "mapper_of_spec m = \<lparr>gpr_ID = None, gpr_Name = Some (apm_Name m), gpr_Protocol = Some (apm_Protocol m),
     gpr_ProtocolMapper = Some (apm_ProtocolMapper m), gpr_Config = Some (apm_Config m), gpr_rest = []\<rparr>"

definition putProtocolMappers :: "'w env \<Rightarrow> GoCloakAdapter \<Rightarrow> string \<Rightarrow> ('w, unit) client_prog" where
  "putProtocolMappers env a realmName =
     bindIO (getMem (\<lambda>m. dc_Client (clm_data m))) (\<lambda>c.
     wrapErr ''unable to sync protocol mapper: ''
       (SyncClientProtocolMapper env a (ConvertDataClientToClient c '''' realmName None)
         (map mapper_of_spec (the_default [] (acl_ProtocolMappers c)))
         (client_GetReconciliationStrategy c = ReconciliationStrategyAddOnly)))"

definition PutProtocolMappers_Serve :: "'w env \<Rightarrow> GoCloakAdapter \<Rightarrow> string \<Rightarrow> ('w, unit) client_prog" where
  "PutProtocolMappers_Serve env a realmName =
     bindIO (wrapErr ''unable to put protocol mappers: ''
       (reporting (PutProtocolMappers_setFailureCondition env) ''Failed to sync protocol mappers: '' (putProtocolMappers env a realmName))) (\<lambda>_.
     PutProtocolMappers_setSuccessCondition env ''Protocol mappers synchronized'')"

section \<open>service_account.go\<close>

definition ServiceAccount_Serve :: "'w env \<Rightarrow> GoCloakAdapter \<Rightarrow> string \<Rightarrow> ('w, unit) client_prog" where
  "ServiceAccount_Serve env a realmName =
     bindIO (getMem clm_data) (\<lambda>d.
     let c = dc_Client d; addOnly = (client_GetReconciliationStrategy c = ReconciliationStrategyAddOnly);
         report = reporting (ServiceAccount_setFailureCondition env) ''Failed to sync service account: '' in
     case acl_ServiceAccount c of
       None \<Rightarrow> ret ()
     | Some sa \<Rightarrow>
         if \<not> sac_Enabled sa then ret ()
         else if acl_Public c then fail (NewError ''service account can not be configured with public client'')
         else
           let clientRoles = build_map (\<lambda>v. Some (ucr_ClientID v)) ucr_Roles (sac_ClientRoles sa) in
           bindIO (wrapErr ''unable to sync service account roles: ''
             (report (SyncServiceAccountRoles env a realmName (dc_ClientID d) (sac_RealmRoles sa) clientRoles addOnly))) (\<lambda>_.
           bindIO (case sac_Groups sa of
               None \<Rightarrow> ret ()
             | Some groups \<Rightarrow> wrapErr ''unable to sync service account groups: ''
                 (report (SyncServiceAccountGroups env a realmName (dc_ClientID d) groups addOnly))) (\<lambda>_.
           bindIO (case sac_AttributesV2 sa of
               None \<Rightarrow> ret ()
             | Some attributes \<Rightarrow> wrapErr ''unable to set service account attributes: ''
                 (report (SetServiceAccountAttributes env a realmName (dc_ClientID d) attributes addOnly))) (\<lambda>_.
           ServiceAccount_setSuccessCondition env ''Service account synchronized''))))"

end
