(* ===== verification/AuthzChain.thy ===== *)
theory AuthzChain
  imports ClientChain IdpChain
begin

text \<open>
  \<open>internal/controller/keycloakclient/chain/client\<close>, the handlers for the authorization settings of a
  client: \<open>process_scope.go\<close>, \<open>process_resources.go\<close>, \<open>process_policy.go\<close>, \<open>process_permissions.go\<close> and
  \<open>put_client_admin_fine_grained_perms.go\<close>. Settings refer to each other by name in a resource and by
  id in Keycloak; the handlers look the names up as they go.
\<close>

section \<open>Conditions\<close>

definition ProcessScope_setFailureCondition :: "'w env \<Rightarrow> string \<Rightarrow> ('w, unit) client_prog" where
  "ProcessScope_setFailureCondition env message = try_SetCondition env ConditionAuthorizationScopesSynced ''False'' client_ReasonKeycloakAPIError message"

definition ProcessScope_setSuccessCondition :: "'w env \<Rightarrow> string \<Rightarrow> ('w, unit) client_prog" where
  "ProcessScope_setSuccessCondition env message = try_SetCondition env ConditionAuthorizationScopesSynced ''True'' ReasonAuthorizationScopesSynced message"

definition ProcessResources_setFailureCondition :: "'w env \<Rightarrow> string \<Rightarrow> ('w, unit) client_prog" where
  "ProcessResources_setFailureCondition env message = try_SetCondition env ConditionAuthorizationResourcesSynced ''False'' client_ReasonKeycloakAPIError message"

definition ProcessResources_setSuccessCondition :: "'w env \<Rightarrow> string \<Rightarrow> ('w, unit) client_prog" where
  "ProcessResources_setSuccessCondition env message = try_SetCondition env ConditionAuthorizationResourcesSynced ''True'' ReasonAuthorizationResourcesSynced message"

definition ProcessPolicy_setFailureCondition :: "'w env \<Rightarrow> string \<Rightarrow> ('w, unit) client_prog" where
  "ProcessPolicy_setFailureCondition env message = try_SetCondition env ConditionAuthorizationPoliciesSynced ''False'' client_ReasonKeycloakAPIError message"

definition ProcessPolicy_setSuccessCondition :: "'w env \<Rightarrow> string \<Rightarrow> ('w, unit) client_prog" where
  "ProcessPolicy_setSuccessCondition env message = try_SetCondition env ConditionAuthorizationPoliciesSynced ''True'' ReasonAuthorizationPoliciesSynced message"

definition ProcessPermissions_setFailureCondition :: "'w env \<Rightarrow> string \<Rightarrow> ('w, unit) client_prog" where
  "ProcessPermissions_setFailureCondition env message = try_SetCondition env ConditionAuthorizationPermissionsSynced ''False'' client_ReasonKeycloakAPIError message"

definition ProcessPermissions_setSuccessCondition :: "'w env \<Rightarrow> string \<Rightarrow> ('w, unit) client_prog" where
  "ProcessPermissions_setSuccessCondition env message = try_SetCondition env ConditionAuthorizationPermissionsSynced ''True'' ReasonAuthorizationPermissionsSynced message"

definition PutAdminFineGrainedPermissions_setFailureCondition :: "'w env \<Rightarrow> string \<Rightarrow> ('w, unit) client_prog" where
  "PutAdminFineGrainedPermissions_setFailureCondition env message = try_SetCondition env ConditionAdminFineGrainedPermissionsV1Synced ''False'' client_ReasonKeycloakAPIError message"

definition PutAdminFineGrainedPermissions_setSuccessCondition :: "'w env \<Rightarrow> string \<Rightarrow> ('w, unit) client_prog" where
  "PutAdminFineGrainedPermissions_setSuccessCondition env message = try_SetCondition env ConditionAdminFineGrainedPermissionsV1Synced ''True'' ReasonAdminFineGrainedPermissionsV1Synced message"

section \<open>Names and ids\<close>

text \<open>The loops that look up names: the first that fails ends them.\<close>

fun mapE :: "('a \<Rightarrow> go_error + 'b) \<Rightarrow> 'a list \<Rightarrow> go_error + 'b list" where
  "mapE f [] = Inr []"
| "mapE f (x # xs) = (case f x of
     Inl err \<Rightarrow> Inl err
   | Inr y \<Rightarrow> (case mapE f xs of Inl err \<Rightarrow> Inl err | Inr ys \<Rightarrow> Inr (y # ys)))"

text \<open>\<open>kind\<close> is the word the messages use.\<close>

definition lookup_with_id :: "string \<Rightarrow> ('v \<Rightarrow> string option) \<Rightarrow> 'v gomap \<Rightarrow> string \<Rightarrow> go_error + ('v \<times> string)" where
  "lookup_with_id kind get_id existing name = (case map_of existing name of
     None \<Rightarrow> Inl (NewError (kind @ '' '' @ name @ '' does not exist''))
   | Some x \<Rightarrow> (case get_id x of
       None \<Rightarrow> Inl (NewError (kind @ '' '' @ name @ '' does not have ID''))
     | Some i \<Rightarrow> Inr (x, i)))"

definition lookup_id :: "string \<Rightarrow> ('v \<Rightarrow> string option) \<Rightarrow> 'v gomap \<Rightarrow> string \<Rightarrow> go_error + string" where
  "lookup_id kind get_id existing name = map_sum id snd (lookup_with_id kind get_id existing name)"

text \<open>The loop that deletes what is left over; a name it spares, and entries Keycloak no longer has.\<close>

definition delete_rest ::
  "'w env \<Rightarrow> string \<Rightarrow> (string \<Rightarrow> bool) \<Rightarrow> ('v \<Rightarrow> string option) \<Rightarrow> (string \<Rightarrow> ('w, 'm, unit) prog) \<Rightarrow> 'v gomap \<Rightarrow> ('w, 'm, unit) prog" where
  "delete_rest env failed spared get_id delete existing =
     bindIO (range_order (map_rank env) existing) (\<lambda>es.
     forIO (\<lambda>(name, x).
       if spared name then ret ()
       else
         bindIO (derefIO (get_id x)) (\<lambda>i.
         bindIO (tryIO (delete i)) (\<lambda>res. case res of
           Inr _ \<Rightarrow> ret ()
         | Inl err \<Rightarrow> if IsErrNotFound err then ret () else fail (Wrapped failed err)))) es)"

text \<open>The first steps of every handler here: the settings and the id of the client.\<close>

definition with_authorization ::
  "'w env \<Rightarrow> GoCloakAdapter \<Rightarrow> string \<Rightarrow> ((string \<Rightarrow> ('w, unit) client_prog)) \<Rightarrow> string \<Rightarrow>
   (Authorization \<Rightarrow> bool \<Rightarrow> string \<Rightarrow> ('w, unit) client_prog) \<Rightarrow> ('w, unit) client_prog" where
  "with_authorization env a realmName setFailureCondition what f =
     bindIO (getMem (\<lambda>m. dc_Client (clm_data m))) (\<lambda>c.
     case acl_Authorization c of
       None \<Rightarrow> ret ()
     | Some authz \<Rightarrow>
         bindIO (wrapErr ''failed to get client id: '' (reporting setFailureCondition what (GetClientID env a (acl_ClientId c) realmName))) (\<lambda>clientID.
         f authz (acl_ReconciliationStrategy c = ReconciliationStrategyAddOnly) clientID))"

section \<open>process_scope.go\<close>

definition deleteScopes :: "'w env \<Rightarrow> GoCloakAdapter \<Rightarrow> gocloak_Scope gomap \<Rightarrow> string \<Rightarrow> string \<Rightarrow> ('w, 'm, unit) prog" where
  "deleteScopes env a existingScopes realmName clientID =
     delete_rest env ''failed to delete scope: '' (\<lambda>_. False) gsc_ID (DeleteScope env a realmName clientID) existingScopes"

definition process_scope :: "'w env \<Rightarrow> GoCloakAdapter \<Rightarrow> string \<Rightarrow> string \<Rightarrow> string \<Rightarrow> gocloak_Scope gomap \<Rightarrow> ('w, gocloak_Scope gomap) client_prog" where
  "process_scope env a realmName clientID scope existingScopes =
     (if map_of existingScopes scope \<noteq> None then ret (AList.delete scope existingScopes)
      else
        bindIO (wrapErr ''failed to create scope: ''
          (reporting (ProcessScope_setFailureCondition env) ''Failed to sync authorization scopes: ''
            (adapter_CreateScope env a realmName clientID scope))) (\<lambda>_.
        ret (AList.delete scope existingScopes)))"

definition ProcessScope_Serve :: "'w env \<Rightarrow> GoCloakAdapter \<Rightarrow> string \<Rightarrow> ('w, unit) client_prog" where
  "ProcessScope_Serve env a realmName =
     (let what = ''Failed to sync authorization scopes: ''; setFailure = ProcessScope_setFailureCondition env in
      with_authorization env a realmName setFailure what (\<lambda>authz addOnly clientID.
        bindIO (wrapErr ''failed to get scopes: '' (reporting setFailure what (GetScopes env a realmName clientID))) (\<lambda>existingScopes.
        bindIO (foldIO (process_scope env a realmName clientID) (azn_Scopes authz) existingScopes) (\<lambda>rest.
        bindIO (whenIO (\<not> addOnly) (reporting setFailure what (deleteScopes env a rest realmName clientID))) (\<lambda>_.
        ProcessScope_setSuccessCondition env ''Authorization scopes synchronized'')))))"

section \<open>process_resources.go\<close>

text \<open>
  The attributes are copied into a map that is dropped: the representation has none.
\<close>

definition getBaseResourceRepresentation :: "Resource \<Rightarrow> gocloak_Resource" where
  "getBaseResourceRepresentation resource =
     (let r = \<lparr>grs_ID = None, grs_Name = Some (rsc_Name resource), grs_DisplayName = Some (rsc_DisplayName resource),
        grs_Type = Some (rsc_Type resource), grs_IconURI = Some (rsc_IconURI resource),
        grs_OwnerManagedAccess = Some (rsc_OwnerManagedAccess resource), grs_URIs = Some (rsc_URIs resource),
        grs_Attributes = None, grs_Scopes = None, grs_rest = []\<rparr>;
          attributes = rsc_Attributes resource
      in r)"

definition resource_mapScopes ::
  "'w env \<Rightarrow> GoCloakAdapter \<Rightarrow> Resource \<Rightarrow> gocloak_Resource \<Rightarrow> string \<Rightarrow> string \<Rightarrow> ('w, 'm, gocloak_Resource) prog" where
  "resource_mapScopes env a resource keycloakResource realm clientID =
     (if rsc_Scopes resource = [] then ret (keycloakResource\<lparr>grs_Scopes := Some []\<rparr>)
      else
        bindIO (wrapErr ''failed to get scopes: '' (GetScopes env a realm clientID)) (\<lambda>existingScopes.
        bindIO (liftIO (mapE (lookup_with_id ''scope'' gsc_ID existingScopes) (rsc_Scopes resource))) (\<lambda>resourceScopes.
        ret (keycloakResource\<lparr>grs_Scopes := Some (map fst resourceScopes)\<rparr>))))"

definition toResourceRepresentation :: "'w env \<Rightarrow> GoCloakAdapter \<Rightarrow> Resource \<Rightarrow> string \<Rightarrow> string \<Rightarrow> ('w, 'm, gocloak_Resource) prog" where
  "toResourceRepresentation env a resource clientID realm =
     wrapErr ''failed to map scopes: '' (resource_mapScopes env a resource (getBaseResourceRepresentation resource) realm clientID)"

definition deleteResources :: "'w env \<Rightarrow> GoCloakAdapter \<Rightarrow> gocloak_Resource gomap \<Rightarrow> string \<Rightarrow> string \<Rightarrow> ('w, 'm, unit) prog" where
  "deleteResources env a existingResources realmName clientID =
     delete_rest env ''failed to delete resource: '' (\<lambda>name. name = ''Default Resource'') grs_ID
       (adapter_DeleteResource env a realmName clientID) existingResources"

definition process_resource ::
  "'w env \<Rightarrow> GoCloakAdapter \<Rightarrow> string \<Rightarrow> string \<Rightarrow> Resource \<Rightarrow> gocloak_Resource gomap \<Rightarrow> ('w, gocloak_Resource gomap) client_prog" where
  "process_resource env a realmName clientID resource existingResources =
     (let what = ''Failed to sync authorization resources: ''; setFailure = ProcessResources_setFailureCondition env in
      bindIO (wrapErr ''failed to convert resource: ''
        (reporting setFailure what (toResourceRepresentation env a resource clientID realmName))) (\<lambda>resourceRepresentation.
      case map_of existingResources (rsc_Name resource) of
        Some existingResource \<Rightarrow>
          bindIO (wrapErr ''failed to update resource: ''
            (reporting setFailure what (UpdateResource env a realmName clientID (resourceRepresentation\<lparr>grs_ID := grs_ID existingResource\<rparr>)))) (\<lambda>_.
          ret (AList.delete (rsc_Name resource) existingResources))
      | None \<Rightarrow>
          bindIO (wrapErr ''failed to create resource: ''
            (reporting setFailure what (CreateResource env a realmName clientID resourceRepresentation))) (\<lambda>_.
          ret existingResources)))"

definition ProcessResources_Serve :: "'w env \<Rightarrow> GoCloakAdapter \<Rightarrow> string \<Rightarrow> ('w, unit) client_prog" where
  "ProcessResources_Serve env a realmName =
     (let what = ''Failed to sync authorization resources: ''; setFailure = ProcessResources_setFailureCondition env in
      with_authorization env a realmName setFailure what (\<lambda>authz addOnly clientID.
        bindIO (wrapErr ''failed to get resources: '' (reporting setFailure what (GetResources env a realmName clientID))) (\<lambda>existingResources.
        bindIO (foldIO (process_resource env a realmName clientID) (azn_Resources authz) existingResources) (\<lambda>rest.
        bindIO (whenIO (\<not> addOnly) (reporting setFailure what (deleteResources env a rest realmName clientID))) (\<lambda>_.
        ProcessResources_setSuccessCondition env ''Authorization resources synchronized'')))))"

section \<open>process_policy.go\<close>

definition getBasePolicyRepresentation :: "Policy \<Rightarrow> gocloak_Policy" where
  "getBasePolicyRepresentation policy =
     \<lparr>gpo_ID = None, gpo_Name = Some (plc_Name policy), gpo_Type = Some (plc_Type policy), gpo_Description = Some (plc_Description policy),
      gpo_DecisionStrategy = Some (plc_DecisionStrategy policy), gpo_Logic = Some (plc_Logic policy),
      gpo_AggregatedPolicies = None, gpo_Clients = None, gpo_Groups = None, gpo_GroupsClaim = None, gpo_Roles = None,
      gpo_Time = zero_TimePolicy, gpo_Users = None, gpo_rest = []\<rparr>"

definition toAggregatePolicyRepresentation ::
  "'w env \<Rightarrow> GoCloakAdapter \<Rightarrow> Policy \<Rightarrow> string \<Rightarrow> string \<Rightarrow> gocloak_Policy \<Rightarrow> ('w, 'm, gocloak_Policy) prog" where
  "toAggregatePolicyRepresentation env a policy clientID realm policyRepresentation = (case plc_AggregatedPolicy policy of
     None \<Rightarrow> fail (NewError ''aggregatedPolicy spec is not specified'')
   | Some names \<Rightarrow>
       bindIO (wrapErr ''failed to get policies: '' (GetPolicies env a realm clientID)) (\<lambda>existingPolicies.
       bindIO (liftIO (mapE (lookup_id ''policy'' gpo_ID existingPolicies) names)) (\<lambda>aggregatedPolicies.
       ret (policyRepresentation\<lparr>gpo_AggregatedPolicies := Some aggregatedPolicies\<rparr>))))"

definition toClientPolicyRepresentation ::
  "'w env \<Rightarrow> GoCloakAdapter \<Rightarrow> Policy \<Rightarrow> string \<Rightarrow> gocloak_Policy \<Rightarrow> ('w, 'm, gocloak_Policy) prog" where
  "toClientPolicyRepresentation env a policy realm keycloakPolicy = (case plc_ClientPolicy policy of
     None \<Rightarrow> fail (NewError ''clientPolicy spec is not specified'')
   | Some names \<Rightarrow>
       bindIO (wrapErr ''failed to get clients: '' (adapter_GetClients env a realm)) (\<lambda>existingClients.
       bindIO (liftIO (mapE (lookup_id ''client'' gcl_ID existingClients) names)) (\<lambda>clientPolicy.
       ret (keycloakPolicy\<lparr>gpo_Clients := Some clientPolicy\<rparr>))))"

definition toGroupPolicyRepresentation ::
  "'w env \<Rightarrow> GoCloakAdapter \<Rightarrow> Policy \<Rightarrow> string \<Rightarrow> gocloak_Policy \<Rightarrow> ('w, 'm, gocloak_Policy) prog" where
  "toGroupPolicyRepresentation env a policy realm keycloakPolicy = (case plc_GroupPolicy policy of
     None \<Rightarrow> fail (NewError ''group spec is not specified'')
   | Some data \<Rightarrow>
       bindIO (wrapErr ''failed to get groups: '' (adapter_GetGroups env a realm)) (\<lambda>existingGroups.
       bindIO (liftIO (mapE (\<lambda>g. map_sum id (\<lambda>i. \<lparr>ggd_ID = Some i, ggd_ExtendChildren = Some (gdf_ExtendChildren g)\<rparr>)
         (lookup_id ''group'' ggr_ID existingGroups (gdf_Name g))) (gpd_Groups data))) (\<lambda>groupPolicy.
       ret (keycloakPolicy\<lparr>gpo_Groups := Some groupPolicy, gpo_GroupsClaim := Some (gpd_GroupsClaim data)\<rparr>))))"

definition toRolePolicyRepresentation ::
  "'w env \<Rightarrow> GoCloakAdapter \<Rightarrow> Policy \<Rightarrow> string \<Rightarrow> gocloak_Policy \<Rightarrow> ('w, 'm, gocloak_Policy) prog" where
  "toRolePolicyRepresentation env a policy realm keycloakPolicy = (case plc_RolePolicy policy of
     None \<Rightarrow> fail (NewError ''role spec is not specified'')
   | Some roles \<Rightarrow>
       bindIO (wrapErr ''failed to get realm roles: '' (adapter_GetRealmRoles env a realm)) (\<lambda>existingRoles.
       bindIO (liftIO (mapE (\<lambda>r. map_sum id (\<lambda>i. \<lparr>grd_ID = Some i, grd_Required = Some (rdf_Required r)\<rparr>)
         (lookup_id ''role'' gro_ID existingRoles (rdf_Name r))) roles)) (\<lambda>rolePolicy.
       ret (keycloakPolicy\<lparr>gpo_Roles := Some rolePolicy\<rparr>))))"

definition toTimePolicyRepresentation :: "Policy \<Rightarrow> gocloak_Policy \<Rightarrow> go_error + gocloak_Policy" where
  "toTimePolicyRepresentation policy keycloakPolicy = (case plc_TimePolicy policy of
     None \<Rightarrow> Inl (NewError ''time spec is not specified'')
   | Some t \<Rightarrow> Inr (keycloakPolicy\<lparr>gpo_Time :=
       \<lparr>gtp_NotBefore = Some (tpd_NotBefore t), gtp_NotOnOrAfter = Some (tpd_NotOnOrAfter t), gtp_DayMonth = Some (tpd_DayMonth t),
        gtp_DayMonthEnd = Some (tpd_DayMonthEnd t), gtp_Month = Some (tpd_Month t), gtp_MonthEnd = Some (tpd_MonthEnd t),
        gtp_Hour = Some (tpd_Hour t), gtp_HourEnd = Some (tpd_HourEnd t), gtp_Minute = Some (tpd_Minute t),
        gtp_MinuteEnd = Some (tpd_MinuteEnd t)\<rparr>\<rparr>))"

definition toUserPolicyRepresentation ::
  "'w env \<Rightarrow> GoCloakAdapter \<Rightarrow> Policy \<Rightarrow> string \<Rightarrow> gocloak_Policy \<Rightarrow> ('w, 'm, gocloak_Policy) prog" where
  "toUserPolicyRepresentation env a policy realm keycloakPolicy = (case plc_UserPolicy policy of
     None \<Rightarrow> fail (NewError ''user spec is not specified'')
   | Some users \<Rightarrow>
       bindIO (wrapErr ''failed to get users: '' (GetUsersByNames env a realm users)) (\<lambda>existingUsers.
       bindIO (liftIO (mapE (lookup_id ''user'' gus_ID existingUsers) users)) (\<lambda>userPolicy.
       ret (keycloakPolicy\<lparr>gpo_Users := Some userPolicy\<rparr>))))"

definition toPolicyRepresentation :: "'w env \<Rightarrow> GoCloakAdapter \<Rightarrow> Policy \<Rightarrow> string \<Rightarrow> string \<Rightarrow> ('w, 'm, gocloak_Policy) prog" where
  "toPolicyRepresentation env a policy clientID realm =
     (let keycloakPolicy = getBasePolicyRepresentation policy in
      if plc_Type policy = ''aggregate'' then toAggregatePolicyRepresentation env a policy clientID realm keycloakPolicy
      else if plc_Type policy = ''client'' then toClientPolicyRepresentation env a policy realm keycloakPolicy
      else if plc_Type policy = ''group'' then toGroupPolicyRepresentation env a policy realm keycloakPolicy
      else if plc_Type policy = ''role'' then toRolePolicyRepresentation env a policy realm keycloakPolicy
      else if plc_Type policy = ''time'' then liftIO (toTimePolicyRepresentation policy keycloakPolicy)
      else if plc_Type policy = ''user'' then toUserPolicyRepresentation env a policy realm keycloakPolicy
      else fail (NewError (''unsupported policy type '' @ plc_Type policy)))"

definition deletePolicies :: "'w env \<Rightarrow> GoCloakAdapter \<Rightarrow> gocloak_Policy gomap \<Rightarrow> string \<Rightarrow> string \<Rightarrow> ('w, 'm, unit) prog" where
  "deletePolicies env a existingPolicies realmName clientID =
     delete_rest env ''failed to delete policy: '' (\<lambda>name. name = ''Default Policy'') gpo_ID
       (DeletePolicy env a realmName clientID) existingPolicies"

definition process_policy ::
  "'w env \<Rightarrow> GoCloakAdapter \<Rightarrow> string \<Rightarrow> string \<Rightarrow> Policy \<Rightarrow> gocloak_Policy gomap \<Rightarrow> ('w, gocloak_Policy gomap) client_prog" where
  "process_policy env a realmName clientID policy existingPolicies =
     (let what = ''Failed to sync authorization policies: ''; setFailure = ProcessPolicy_setFailureCondition env in
      bindIO (wrapErr ''failed to convert policy: ''
        (reporting setFailure what (toPolicyRepresentation env a policy clientID realmName))) (\<lambda>policyRepresentation.
      case map_of existingPolicies (plc_Name policy) of
        Some existingPolicy \<Rightarrow>
          bindIO (wrapErr ''failed to update policy: ''
            (reporting setFailure what (UpdatePolicy env a realmName clientID (policyRepresentation\<lparr>gpo_ID := gpo_ID existingPolicy\<rparr>)))) (\<lambda>_.
          ret (AList.delete (plc_Name policy) existingPolicies))
      | None \<Rightarrow>
          bindIO (wrapErr ''failed to create policy: ''
            (reporting setFailure what (CreatePolicy env a realmName clientID policyRepresentation))) (\<lambda>_.
          ret existingPolicies)))"

definition ProcessPolicy_Serve :: "'w env \<Rightarrow> GoCloakAdapter \<Rightarrow> string \<Rightarrow> ('w, unit) client_prog" where
  "ProcessPolicy_Serve env a realmName =
     (let what = ''Failed to sync authorization policies: ''; setFailure = ProcessPolicy_setFailureCondition env in
      with_authorization env a realmName setFailure what (\<lambda>authz addOnly clientID.
        bindIO (wrapErr ''failed to get policies: '' (reporting setFailure what (GetPolicies env a realmName clientID))) (\<lambda>existingPolicies.
        bindIO (foldIO (process_policy env a realmName clientID) (azn_Policies authz) existingPolicies) (\<lambda>rest.
        bindIO (whenIO (\<not> addOnly) (reporting setFailure what (deletePolicies env a rest realmName clientID))) (\<lambda>_.
        ProcessPolicy_setSuccessCondition env ''Authorization policies synchronized'')))))"

section \<open>process_permissions.go\<close>

definition getBasePermissionRepresentation :: "Permission \<Rightarrow> gocloak_Permission" where
  "getBasePermissionRepresentation policy =
     \<lparr>gpm_ID = None, gpm_Name = Some (prm_Name policy), gpm_Type = Some (prm_Type policy), gpm_Description = Some (prm_Description policy),
      gpm_DecisionStrategy = Some (prm_DecisionStrategy policy), gpm_Logic = Some (prm_Logic policy),
      gpm_Resources = None, gpm_Policies = None, gpm_Scopes = None, gpm_rest = []\<rparr>"

definition mapResources ::
  "'w env \<Rightarrow> GoCloakAdapter \<Rightarrow> Permission \<Rightarrow> gocloak_Permission \<Rightarrow> string \<Rightarrow> string \<Rightarrow> ('w, 'm, gocloak_Permission) prog" where
  "mapResources env a permission keycloakPermission realm clientID =
     (if prm_Resources permission = [] then ret (keycloakPermission\<lparr>gpm_Resources := Some []\<rparr>)
      else
        bindIO (wrapErr ''failed to get resources: '' (GetResources env a realm clientID)) (\<lambda>existingResources.
        bindIO (liftIO (mapE (lookup_id ''resource'' grs_ID existingResources) (prm_Resources permission))) (\<lambda>permissionResources.
        ret (keycloakPermission\<lparr>gpm_Resources := Some permissionResources\<rparr>))))"

definition mapPolicies ::
  "'w env \<Rightarrow> GoCloakAdapter \<Rightarrow> Permission \<Rightarrow> gocloak_Permission \<Rightarrow> string \<Rightarrow> string \<Rightarrow> ('w, 'm, gocloak_Permission) prog" where
  "mapPolicies env a permission keycloakPermission realm clientID =
     (if prm_Policies permission = [] then ret (keycloakPermission\<lparr>gpm_Policies := Some []\<rparr>)
      else
        bindIO (wrapErr ''failed to get polices: '' (GetPolicies env a realm clientID)) (\<lambda>existingPolicies.
        bindIO (liftIO (mapE (lookup_id ''policy'' gpo_ID existingPolicies) (prm_Policies permission))) (\<lambda>permissionPolicies.
        ret (keycloakPermission\<lparr>gpm_Policies := Some permissionPolicies\<rparr>))))"

definition permission_mapScopes ::
  "'w env \<Rightarrow> GoCloakAdapter \<Rightarrow> Permission \<Rightarrow> gocloak_Permission \<Rightarrow> string \<Rightarrow> string \<Rightarrow> ('w, 'm, gocloak_Permission) prog" where
  "permission_mapScopes env a permission keycloakPermission realm clientID =
     (if prm_Scopes permission = [] then ret (keycloakPermission\<lparr>gpm_Scopes := Some []\<rparr>)
      else
        bindIO (wrapErr ''failed to get scopes: '' (GetScopes env a realm clientID)) (\<lambda>existingScopes.
        bindIO (liftIO (mapE (lookup_id ''scope'' gsc_ID existingScopes) (prm_Scopes permission))) (\<lambda>permissionScopes.
        ret (keycloakPermission\<lparr>gpm_Scopes := Some permissionScopes\<rparr>))))"

definition toPermissionRepresentation ::
  "'w env \<Rightarrow> GoCloakAdapter \<Rightarrow> Permission \<Rightarrow> string \<Rightarrow> string \<Rightarrow> ('w, 'm, gocloak_Permission) prog" where
  "toPermissionRepresentation env a permission clientID realm =
     bindIO (wrapErr ''failed to map resources: '' (mapResources env a permission (getBasePermissionRepresentation permission) realm clientID)) (\<lambda>p1.
     bindIO (wrapErr ''failed to map policies: '' (mapPolicies env a permission p1 realm clientID)) (\<lambda>p2.
     if prm_Type permission = ''scope'' then wrapErr ''failed to map scopes: '' (permission_mapScopes env a permission p2 realm clientID)
     else ret p2))"

definition deletePermissions :: "'w env \<Rightarrow> GoCloakAdapter \<Rightarrow> gocloak_Permission gomap \<Rightarrow> string \<Rightarrow> string \<Rightarrow> ('w, 'm, unit) prog" where
  "deletePermissions env a existingPermissions realmName clientID =
     delete_rest env ''failed to delete permission: '' (\<lambda>name. name = ''Default Permission'') gpm_ID
       (DeletePermission env a realmName clientID) existingPermissions"

definition process_permission ::
  "'w env \<Rightarrow> GoCloakAdapter \<Rightarrow> string \<Rightarrow> string \<Rightarrow> Permission \<Rightarrow> gocloak_Permission gomap \<Rightarrow> ('w, gocloak_Permission gomap) client_prog" where
  "process_permission env a realmName clientID permission existingPermissions =
     (let what = ''Failed to sync authorization permissions: ''; setFailure = ProcessPermissions_setFailureCondition env in
      bindIO (wrapErr ''failed to convert permission: ''
        (reporting setFailure what (toPermissionRepresentation env a permission clientID realmName))) (\<lambda>permissionRepresentation.
      case map_of existingPermissions (prm_Name permission) of
        Some existingPermission \<Rightarrow>
          bindIO (wrapErr ''failed to update permission: ''
            (reporting setFailure what (UpdatePermission env a realmName clientID (permissionRepresentation\<lparr>gpm_ID := gpm_ID existingPermission\<rparr>)))) (\<lambda>_.
          ret (AList.delete (prm_Name permission) existingPermissions))
      | None \<Rightarrow>
          bindIO (wrapErr ''failed to create permission: ''
            (reporting setFailure what (CreatePermission env a realmName clientID permissionRepresentation))) (\<lambda>_.
          ret existingPermissions)))"

definition ProcessPermissions_Serve :: "'w env \<Rightarrow> GoCloakAdapter \<Rightarrow> string \<Rightarrow> ('w, unit) client_prog" where
  "ProcessPermissions_Serve env a realmName =
     (let what = ''Failed to sync authorization permissions: ''; setFailure = ProcessPermissions_setFailureCondition env in
      with_authorization env a realmName setFailure what (\<lambda>authz addOnly clientID.
        bindIO (wrapErr ''failed to get permissions: '' (reporting setFailure what (GetPermissions env a realmName clientID))) (\<lambda>existingPermissions.
        bindIO (foldIO (process_permission env a realmName clientID) (azn_Permissions authz) existingPermissions) (\<lambda>rest.
        bindIO (whenIO (\<not> addOnly) (reporting setFailure what (deletePermissions env a rest realmName clientID))) (\<lambda>_.
        ProcessPermissions_setSuccessCondition env ''Authorization permissions synchronized'')))))"

section \<open>put_client_admin_fine_grained_perms.go\<close>

definition client_putAdminFineGrainedPermissions :: "'w env \<Rightarrow> GoCloakAdapter \<Rightarrow> bool \<Rightarrow> string \<Rightarrow> string \<Rightarrow> ('w, 'm, unit) prog" where
  "client_putAdminFineGrainedPermissions env a enabled realmName clientID =
     wrapErr ''unable to update client management permissions: ''
       (UpdateClientManagementPermissions env a realmName clientID
         \<lparr>mpr_Enabled = Some enabled, mpr_Resource = None, mpr_ScopePermissions = None\<rparr>)"

definition client_scope_permission ::
  "'w env \<Rightarrow> GoCloakAdapter \<Rightarrow> string \<Rightarrow> string \<Rightarrow> string \<Rightarrow> string gomap \<Rightarrow> gocloak_Permission gomap \<Rightarrow> ScopePermissions \<Rightarrow> ('w, 'm, unit) prog" where
  "client_scope_permission env a realmName realmManagementClientID clientID existingScopePermissions realmManagementPermissions sp =
     (if map_of existingScopePermissions (sp_Name sp) = None
      then fail (NewError (''scope '' @ sp_Name sp @ '' not found in permissions''))
      else
        let permissionName = sp_Name sp @ ''.permission.client.'' @ clientID in
        case map_of realmManagementPermissions permissionName of
          None \<Rightarrow> ret ()
        | Some permission \<Rightarrow>
            wrapErr (''failed to update permission '' @ permissionName @ '': '')
              (UpdatePermission env a realmName realmManagementClientID (permission\<lparr>gpm_Policies := Some (sp_Policies sp)\<rparr>)))"

definition client_putAdminPermissionPolicies ::
  "'w env \<Rightarrow> GoCloakAdapter \<Rightarrow> AdminFineGrainedPermission \<Rightarrow> string \<Rightarrow> string \<Rightarrow> ('w, 'm, unit) prog" where
  "client_putAdminPermissionPolicies env a permission realmName clientID =
     bindIO (wrapErr (''failed to get '' @ RealmManagementClient @ '' client id: '')
       (GetClientID env a RealmManagementClient realmName)) (\<lambda>realmManagementClientID.
     bindIO (wrapErr (''failed to get permissions for '' @ RealmManagementClient @ '' client: '')
       (GetPermissions env a realmName realmManagementClientID)) (\<lambda>realmManagementPermissions.
     bindIO (wrapErr ''failed to get client permissions: '' (GetClientManagementPermissions env a realmName clientID)) (\<lambda>existingClientPermissions.
     bindIO (derefIO (mpr_ScopePermissions existingClientPermissions)) (\<lambda>existingScopePermissions.
     forIO (client_scope_permission env a realmName realmManagementClientID clientID existingScopePermissions realmManagementPermissions)
       (afg_ScopePermissions permission)))))"

definition client_PutAdminFineGrainedPermissions_Serve :: "'w env \<Rightarrow> GoCloakAdapter \<Rightarrow> string \<Rightarrow> ('w, unit) client_prog" where
  "client_PutAdminFineGrainedPermissions_Serve env a realmName =
     (let what = ''Failed to sync admin fine-grained permissions: '';
          report = reporting (PutAdminFineGrainedPermissions_setFailureCondition env) what in
      bindIO (wrapErr ''failed to check feature flag ADMIN_FINE_GRAINED_AUTHZ: ''
        (reporting (PutAdminFineGrainedPermissions_setFailureCondition env) what (FeatureFlagEnabled env a FeatureFlagAdminFineGrainedAuthz))) (\<lambda>featureFlagEnabled.
      if \<not> featureFlagEnabled then ret ()
      else
        bindIO (getMem (\<lambda>m. dc_Client (clm_data m))) (\<lambda>c.
        bindIO (wrapErr ''failed to get client id: ''
          (reporting (PutAdminFineGrainedPermissions_setFailureCondition env) what (GetClientID env a (acl_ClientId c) realmName))) (\<lambda>clientID.
        bindIO (wrapErr ''unable to put keycloak client admin fine grained permissions: ''
          (report (client_putAdminFineGrainedPermissions env a (acl_AdminFineGrainedPermissionsEnabled c) realmName clientID))) (\<lambda>_.
        bindIO (case acl_Permission c of
            Some permission \<Rightarrow>
              if acl_AdminFineGrainedPermissionsEnabled c then
                wrapErr ''unable to put keycloak client admin permission policies: ''
                  (report (client_putAdminPermissionPolicies env a permission realmName clientID))
              else ret ()
          | None \<Rightarrow> ret ()) (\<lambda>_.
        PutAdminFineGrainedPermissions_setSuccessCondition env ''Admin fine-grained permissions synchronized''))))))"

end
