(* ===== verification/ClientController.thy ===== *)
theory ClientController
  imports AuthzChain ComponentController
begin

text \<open>
  \<open>internal/controller/keycloakclient\<close>: the chain of clients (\<open>chain/client/chain.go\<close>), the deletion of
  what a resource no longer lists (\<open>flushResources\<close>), the terminator and one reconciliation of a
  \<open>KeycloakClient\<close>. Go bounds the depth of recursive calls by the size of the stack only; \<open>depth\<close> is
  that bound, and a run that exceeds it ends the process (\<open>Panic\<close>).
\<close>

section \<open>Accessors of keycloakclient_types.go\<close>

definition client_GetFailureCount :: "KeycloakClient \<Rightarrow> int64" where
  "client_GetFailureCount k = kct_FailureCount (kcl_Status k)"

definition client_SetFailureCount :: "int64 \<Rightarrow> KeycloakClient \<Rightarrow> KeycloakClient" where
  "client_SetFailureCount n k = k\<lparr>kcl_Status := (kcl_Status k)\<lparr>kct_FailureCount := n\<rparr>\<rparr>"

definition client_GetPhase :: "KeycloakClient \<Rightarrow> string" where
  "client_GetPhase k = kct_Phase (kcl_Status k)"

definition client_SetPhase :: "string \<Rightarrow> KeycloakClient \<Rightarrow> KeycloakClient" where
  "client_SetPhase v k = k\<lparr>kcl_Status := (kcl_Status k)\<lparr>kct_Phase := v\<rparr>\<rparr>"

definition client_GetError :: "KeycloakClient \<Rightarrow> string" where
  "client_GetError k = kct_Error (kcl_Status k)"

definition client_SetError :: "go_error option \<Rightarrow> KeycloakClient \<Rightarrow> KeycloakClient" where
  "client_SetError err k =
     (let k1 = (case err of None \<Rightarrow> k | Some e \<Rightarrow> k\<lparr>kcl_Status := (kcl_Status k)\<lparr>kct_Error := Error e\<rparr>\<rparr>)
      in k1\<lparr>kcl_Status := (kcl_Status k1)\<lparr>kct_Error := ''''\<rparr>\<rparr>)"

interpretation client_status: StatusValueFailureCountable client_GetFailureCount client_SetFailureCount
  client_GetPhase client_SetPhase client_GetError client_SetError
  by unfold_locales
    (simp_all add: client_GetFailureCount_def client_SetFailureCount_def client_GetPhase_def
      client_SetPhase_def client_GetError_def client_SetError_def Let_def split: option.split)

section \<open>chain/client/chain.go\<close>

datatype client_handler = PutClient GoCloakAdapter | PutClientRole GoCloakAdapter | PutRealmRole GoCloakAdapter
  | PutClientScope GoCloakAdapter | PutProtocolMappers GoCloakAdapter | ServiceAccountHandler GoCloakAdapter
  | ProcessScope GoCloakAdapter | ProcessResources GoCloakAdapter | ProcessPolicy GoCloakAdapter
  | ProcessPermissions GoCloakAdapter | ClientAdminFineGrainedPermissions GoCloakAdapter

primrec client_handler_Serve :: "'w env \<Rightarrow> string \<Rightarrow> client_handler \<Rightarrow> ('w, unit) client_prog" where
  "client_handler_Serve env realmName (PutClient a) = PutClient_Serve env a realmName"
| "client_handler_Serve env realmName (PutClientRole a) = PutClientRole_Serve env a realmName"
| "client_handler_Serve env realmName (PutRealmRole a) = PutRealmRole_Serve env a realmName"
| "client_handler_Serve env realmName (PutClientScope a) = PutClientScope_Serve env a realmName"
| "client_handler_Serve env realmName (PutProtocolMappers a) = PutProtocolMappers_Serve env a realmName"
| "client_handler_Serve env realmName (ServiceAccountHandler a) = ServiceAccount_Serve env a realmName"
| "client_handler_Serve env realmName (ProcessScope a) = ProcessScope_Serve env a realmName"
| "client_handler_Serve env realmName (ProcessResources a) = ProcessResources_Serve env a realmName"
| "client_handler_Serve env realmName (ProcessPolicy a) = ProcessPolicy_Serve env a realmName"
| "client_handler_Serve env realmName (ProcessPermissions a) = ProcessPermissions_Serve env a realmName"
| "client_handler_Serve env realmName (ClientAdminFineGrainedPermissions a) = client_PutAdminFineGrainedPermissions_Serve env a realmName"

primrec client_WithKeycloakApiClient :: "GoCloakAdapter \<Rightarrow> client_handler \<Rightarrow> client_handler" where
  "client_WithKeycloakApiClient a (PutClient _) = PutClient a"
| "client_WithKeycloakApiClient a (PutClientRole _) = PutClientRole a"
| "client_WithKeycloakApiClient a (PutRealmRole _) = PutRealmRole a"
| "client_WithKeycloakApiClient a (PutClientScope _) = PutClientScope a"
| "client_WithKeycloakApiClient a (PutProtocolMappers _) = PutProtocolMappers a"
| "client_WithKeycloakApiClient a (ServiceAccountHandler _) = ServiceAccountHandler a"
| "client_WithKeycloakApiClient a (ProcessScope _) = ProcessScope a"
| "client_WithKeycloakApiClient a (ProcessResources _) = ProcessResources a"
| "client_WithKeycloakApiClient a (ProcessPolicy _) = ProcessPolicy a"
| "client_WithKeycloakApiClient a (ProcessPermissions _) = ProcessPermissions a"
| "client_WithKeycloakApiClient a (ClientAdminFineGrainedPermissions _) = ClientAdminFineGrainedPermissions a"

primrec client_chain_run ::
  "'w env \<Rightarrow> HelperConf \<Rightarrow> string \<Rightarrow> client_handler list \<Rightarrow> ('w, client_handler list) client_prog" where
  "client_chain_run env h realmName [] = ret []"
| "client_chain_run env h realmName (x # xs) =
     bindIO (serveRetry (client_handler_Serve env realmName) (client_refreshToken env h) client_WithKeycloakApiClient x) (\<lambda>x'.
     bindIO (client_chain_run env h realmName xs) (\<lambda>xs'. ret (x' # xs')))"

interpretation client_chain: handler_chain "client_handler_Serve env realmName" "client_refreshToken env h"
  client_WithKeycloakApiClient "client_chain_run env h realmName"
  for env h realmName
  by unfold_locales simp_all

definition client_MakeChain :: "GoCloakAdapter \<Rightarrow> client_handler list" where
  "client_MakeChain a = [PutClient a, PutClientRole a, PutRealmRole a, PutClientScope a, PutProtocolMappers a,
     ServiceAccountHandler a, ProcessScope a, ProcessResources a, ProcessPolicy a, ProcessPermissions a,
     ClientAdminFineGrainedPermissions a]"

definition client_serveOne ::
  "'w env \<Rightarrow> HelperConf \<Rightarrow> string \<Rightarrow> nat \<times> Client \<Rightarrow> client_handler list \<Rightarrow> ('w, client_handler list) client_prog" where
  "client_serveOne env h realmName e handlers = (case e of (index, cl) \<Rightarrow>
     let name = RemoveSpecialChar (acl_Name cl) in
     bindIO (modMem (\<lambda>m. m\<lparr>clm_data := \<lparr>dc_Client = cl, dc_ClientIndex = index, dc_Namespace = om_Namespace (kcl_Meta (clm_client m)),
       dc_ClientID = GetClientIDByName (kcl_Status (clm_client m)) name, dc_Generation = om_Generation (kcl_Meta (clm_client m))\<rparr>\<rparr>)) (\<lambda>_.
     bindIO (client_chain_run env h realmName handlers) (\<lambda>handlers'.
     bindIO (modMem (\<lambda>m. set_client_status (PutClientIDByName name (dc_ClientID (clm_data m))) m)) (\<lambda>_.
     ret handlers'))))"

definition client_Chain_Serve :: "'w env \<Rightarrow> HelperConf \<Rightarrow> GoCloakAdapter \<Rightarrow> string \<Rightarrow> ('w, unit) client_prog" where
  "client_Chain_Serve env h a realmName =
     bindIO (getMem (\<lambda>m. kcs_Client (kcl_Spec (clm_client m)))) (\<lambda>clients.
     voidIO (foldIO (client_serveOne env h realmName) (List.enumerate 0 clients) (client_MakeChain a)))"

section \<open>terminator.go\<close>

primrec terminator_deleteClient ::
  "nat \<Rightarrow> 'w env \<Rightarrow> HelperConf \<Rightarrow> string \<Rightarrow> string \<Rightarrow> GoCloakAdapter \<Rightarrow> ('w, GoCloakAdapter) client_prog" where
  "terminator_deleteClient 0 env h realmName clientID kClient = panic"
| "terminator_deleteClient (Suc depth) env h realmName clientID kClient =
     bindIO (tryIO (adapter_DeleteClient env kClient clientID realmName)) (\<lambda>res. case res of
       Inr _ \<Rightarrow> ret kClient
     | Inl err \<Rightarrow>
         if IsUnauthorizedError (Some err) then
           bindIO (client_refreshToken env h) (terminator_deleteClient depth env h realmName clientID)
         else if IsErrNotFound err then ret kClient
         else fail (Wrapped ''failed to delete keycloak client: '' err))"

primrec terminator_deleteClientScope ::
  "nat \<Rightarrow> 'w env \<Rightarrow> HelperConf \<Rightarrow> string \<Rightarrow> string \<Rightarrow> GoCloakAdapter \<Rightarrow> ('w, GoCloakAdapter) client_prog" where
  "terminator_deleteClientScope 0 env h realmName clientScopeID kClient = panic"
| "terminator_deleteClientScope (Suc depth) env h realmName clientScopeID kClient =
     bindIO (tryIO (DeleteClientScope env kClient realmName clientScopeID)) (\<lambda>res. case res of
       Inr _ \<Rightarrow> ret kClient
     | Inl err \<Rightarrow>
         if IsUnauthorizedError (Some err) then
           bindIO (client_refreshToken env h) (terminator_deleteClientScope depth env h realmName clientScopeID)
         else if IsErrNotFound err then ret kClient
         else fail (Wrapped ''failed to delete client scope: '' err))"

record DataTerminator =
  dt_ClientIDs :: "string gomap"
  dt_ClientScopeIDs :: "string gomap"

definition client_DeleteResource ::
  "nat \<Rightarrow> 'w env \<Rightarrow> HelperConf \<Rightarrow> DataTerminator \<Rightarrow> string \<Rightarrow> GoCloakAdapter \<Rightarrow> bool \<Rightarrow> ('w, unit) client_prog" where
  "client_DeleteResource depth env h data realmName kClient preserveResourcesOnDeletion =
     (if preserveResourcesOnDeletion then ret ()
      else
        bindIO (range_order (map_rank env) (dt_ClientScopeIDs data)) (\<lambda>scopes.
        bindIO (foldIO (\<lambda>(_, i). terminator_deleteClientScope depth env h realmName i) scopes kClient) (\<lambda>kClient'.
        bindIO (range_order (map_rank env) (dt_ClientIDs data)) (\<lambda>clients.
        voidIO (foldIO (\<lambda>(_, i). terminator_deleteClient depth env h realmName i) clients kClient')))))"

section \<open>keycloakclient_controller.go\<close>

definition keyCloakClientOperatorFinalizerName :: string where
  "keyCloakClientOperatorFinalizerName = ''keycloak.client.operator.finalizer.name''"

text \<open>
  The argument of \<open>convertToName\<close> is an \<open>any\<close>: clients, or a pointer to client scopes. A nil pointer in
  an \<open>any\<close> is not equal to \<open>nil\<close>, so it reaches the dereference, whose failure is \<open>None\<close> here.
\<close>

datatype name_source = NilAny | Clients "Client list" | ClientScopes "ClientScope list option" | OtherAny

fun convertToName :: "name_source \<Rightarrow> string list option" where
  "convertToName NilAny = Some []"
| "convertToName (Clients v) = Some (map (\<lambda>clientItem. RemoveSpecialChar (acl_Name clientItem)) v)"
| "convertToName (ClientScopes v) = map_option (map (\<lambda>clientScope. RemoveSpecialChar (acs_Name clientScope))) v"
| "convertToName OtherAny = Some []"

definition hasExist :: "string \<Rightarrow> string list \<Rightarrow> bool" where
  "hasExist name data \<longleftrightarrow> name \<in> set data"

definition unlist_scope :: "string \<Rightarrow> KeycloakClientStatus \<Rightarrow> KeycloakClientStatus" where
  "unlist_scope name st = st\<lparr>kct_ClientScopeIDs := AList.delete name (kct_ClientScopeIDs st)\<rparr>"

definition unlist_client :: "string \<Rightarrow> KeycloakClientStatus \<Rightarrow> KeycloakClientStatus" where
  "unlist_client name st = st\<lparr>kct_ClientIDs := AList.delete name (kct_ClientIDs st)\<rparr>"

definition unless_notFound :: "(go_error \<Rightarrow> go_error) \<Rightarrow> ('w, 'e, 'm, unit) io \<Rightarrow> ('w, 'e, 'm, unit) io" where
  "unless_notFound wrap m =
     bindIO (tryIO m) (\<lambda>res. case res of Inr _ \<Rightarrow> ret () | Inl err \<Rightarrow> if IsErrNotFound err then ret () else fail (wrap err))"

definition flush_scope ::
  "'w env \<Rightarrow> GoCloakAdapter \<Rightarrow> string \<Rightarrow> bool \<Rightarrow> KeycloakClientSpec \<Rightarrow> string \<times> string \<Rightarrow> ('w, unit) client_prog" where
  "flush_scope env adapterClient realmName preserve spec e = (case e of (name, clientScopeID) \<Rightarrow>
     bindIO (derefIO (convertToName (ClientScopes (kcs_ClientScope spec)))) (\<lambda>names.
     if hasExist name names then ret ()
     else
       bindIO (whenIO (\<not> preserve)
         (unless_notFound (Wrapped (''['' @ name @ ''] '' @ clientScopeID @ '' clientScope err: ''))
           (DeleteClientScope env adapterClient realmName clientScopeID))) (\<lambda>_.
       modMem (set_client_status (unlist_scope name)))))"

definition flush_client ::
  "'w env \<Rightarrow> GoCloakAdapter \<Rightarrow> string \<Rightarrow> bool \<Rightarrow> KeycloakClientSpec \<Rightarrow> string \<times> string \<Rightarrow> ('w, unit) client_prog" where
  "flush_client env adapterClient realmName preserve spec e = (case e of (name, clientID) \<Rightarrow>
     bindIO (derefIO (convertToName (Clients (kcs_Client spec)))) (\<lambda>names.
     if hasExist name names then ret ()
     else
       bindIO (whenIO (\<not> preserve)
         (bindIO (tryIO (GetClientID env adapterClient clientID realmName)) (\<lambda>res.
          let findClientID = (case res of Inl _ \<Rightarrow> '''' | Inr i \<Rightarrow> i) in
          whenIO (findClientID \<noteq> '''')
            (unless_notFound (Wrapped (''['' @ name @ ''] '' @ clientID @ '' client err: ''))
              (adapter_DeleteClient env adapterClient clientID realmName))))) (\<lambda>_.
       modMem (set_client_status (unlist_client name)))))"

definition flushResources :: "'w env \<Rightarrow> GoCloakAdapter \<Rightarrow> string \<Rightarrow> bool \<Rightarrow> ('w, unit) client_prog" where
  "flushResources env adapterClient realmName preserveResourcesOnDeletion =
     bindIO (getMem clm_client) (\<lambda>keycloakClient.
     let spec = kcl_Spec keycloakClient in
     bindIO (range_order (map_rank env) (kct_ClientScopeIDs (kcl_Status keycloakClient))) (\<lambda>scopes.
     bindIO (forIO (flush_scope env adapterClient realmName preserveResourcesOnDeletion spec) scopes) (\<lambda>_.
     bindIO (range_order (map_rank env) (kct_ClientIDs (kcl_Status keycloakClient))) (\<lambda>clients.
     forIO (flush_client env adapterClient realmName preserveResourcesOnDeletion spec) clients))))"

definition getKeycloakRealm :: "'w env \<Rightarrow> HelperConf \<Rightarrow> GoCloakAdapter \<Rightarrow> ('w, string) client_prog" where
  "getKeycloakRealm env h adapterClient =
     bindIO (wrapErr ''unable to get keycloak realm from ref: ''
       (GetKeycloakRealmFromRef env h client_obj (\<lambda>m. kcs_RealmRef (kcl_Spec (clm_client m))) adapterClient)) (\<lambda>res.
     bindIO (derefIO res) (\<lambda>realm. ret (gocloak_PString (grl_Realm realm))))"

text \<open>The part of \<open>tryReconcile\<close> that follows the lookup of the realm.\<close>

definition client_serve :: "nat \<Rightarrow> 'w env \<Rightarrow> HelperConf \<Rightarrow> string \<Rightarrow> GoCloakAdapter \<Rightarrow> ('w, unit) client_prog" where
  "client_serve depth env h realm kClient =
     bindIO (getMem clm_client) (\<lambda>k.
     bindIO (wrapErr ''deleting keycloak client settings: ''
       (TryToDelete env client_obj
         (client_DeleteResource depth env h
           \<lparr>dt_ClientIDs = kct_ClientIDs (kcl_Status k), dt_ClientScopeIDs = kct_ClientScopeIDs (kcl_Status k)\<rparr>
           realm kClient (PreserveResourcesOnDeletion (kcl_Meta k))) keyCloakClientOperatorFinalizerName)) (\<lambda>deleted.
     if deleted then ret ()
     else
       bindIO (getMem (\<lambda>m. PreserveResourcesOnDeletion (kcl_Meta (clm_client m)))) (\<lambda>preserve.
       bindIO (wrapErr ''unable to remove finalizer: '' (flushResources env kClient realm preserve)) (\<lambda>_.
       bindIO (wrapErr ''unable to serve keycloak client scope: '' (scope_Chain_Serve env h kClient realm)) (\<lambda>_.
       bindIO (wrapErr ''unable to serve keycloak client registration policy: '' (policy_Chain_Serve env h kClient realm)) (\<lambda>_.
       wrapErr ''unable to serve keycloak client: '' (client_Chain_Serve env h kClient realm)))))))"

definition client_tryReconcile :: "nat \<Rightarrow> 'w env \<Rightarrow> HelperConf \<Rightarrow> ('w, unit) client_prog" where
  "client_tryReconcile depth env h =
     bindIO (wrapErr ''unable to set realm owner ref: ''
       (SetRealmOwnerRef env h client_obj (\<lambda>m. kcs_RealmRef (kcl_Spec (clm_client m))))) (\<lambda>_.
     bindIO (getMem (\<lambda>m. kcs_ConfigRef (kcl_Spec (clm_client m)))) (\<lambda>configRef.
     bindIO (tryIO (CreateKeycloakClientFromConfigRef env h configRef)) (\<lambda>res. case res of
       Inl err \<Rightarrow>
         if errors_Is err ErrKeycloakRealmNotFound then
           wrapErr ''unable to remove finalizer: '' (TryRemoveFinalizer env client_obj keyCloakClientOperatorFinalizerName)
         else fail (Wrapped ''unable to create keycloak client from realm ref: '' err)
     | Inr kClient \<Rightarrow>
         bindIO (wrapErr ''unable to get keycloak realm: '' (getKeycloakRealm env h kClient)) (\<lambda>realm.
         client_serve depth env h realm kClient))))"

definition ready_condition :: "'w env \<Rightarrow> string \<Rightarrow> string \<Rightarrow> string \<Rightarrow> KeycloakClient \<Rightarrow> KeycloakClient" where
  "ready_condition env status reason message k =
     k\<lparr>kcl_Status := (kcl_Status k)\<lparr>kct_Conditions := SetStatusCondition env (kct_Conditions (kcl_Status k))
       \<lparr>cond_Type = ConditionReady, cond_Status = status, cond_Reason = reason, cond_Message = message,
        cond_ObservedGeneration = om_Generation (kcl_Meta k)\<rparr>\<rparr>\<rparr>"

definition client_failed :: "'w env \<Rightarrow> go_error \<Rightarrow> KeycloakClient \<Rightarrow> int64 \<times> KeycloakClient" where
  "client_failed env err k =
     (let k1 = ready_condition env ''False'' client_ReasonKeycloakAPIError (''Reconciliation failed: '' @ Error err) k;
          k2 = k1\<lparr>kcl_Status := (kcl_Status k1)\<lparr>kct_Error := Error err, kct_Phase := PhaseFailed\<rparr>\<rparr>
      in SetFailureCount_helper client_GetFailureCount client_SetFailureCount k2)"

definition client_succeeded :: "'w env \<Rightarrow> KeycloakClient \<Rightarrow> KeycloakClient" where
  "client_succeeded env k =
     SetSuccessStatus client_SetFailureCount client_SetPhase client_SetError
       (ready_condition env ''True'' ReasonReconciliationSucceeded ''KeycloakClientSettings reconciliation completed successfully'' k)"

definition get_client_cr :: "'w env \<Rightarrow> string \<Rightarrow> string \<Rightarrow> ('w, 'm, KeycloakClient) prog" where
  "get_client_cr env ns name =
     bindIO (k8s_Get env KindClient ns name) (\<lambda>x. case x of ClientObj k \<Rightarrow> ret k | _ \<Rightarrow> fail decode_error)"

text \<open>The result and the error of \<open>Reconcile\<close>; an error that comes with the zero result is an error of the run.\<close>

definition client_Reconcile ::
  "nat \<Rightarrow> 'w env \<Rightarrow> HelperConf \<Rightarrow> int64 \<Rightarrow> string \<Rightarrow> string \<Rightarrow> ('w, ctrl_Result \<times> go_error option) client_prog" where
  "client_Reconcile depth env h successReconcileTimeout ns name =
     bindIO (tryIO (get_client_cr env ns name)) (\<lambda>res. case res of
       Inl err \<Rightarrow> if k8s_IsNotFound err then ret (zero_Result, None) else fail err
     | Inr instance \<Rightarrow>
         bindIO (modMem (\<lambda>m. m\<lparr>clm_client := instance\<rparr>)) (\<lambda>_.
         bindIO (tryIO (client_tryReconcile depth env h)) (\<lambda>res.
         if (case res of Inl err \<Rightarrow> errors_Is err ErrKeycloakIsNotAvailable | Inr _ \<Rightarrow> False) then ret (RequeueOnKeycloakNotAvailable, None)
         else
           bindIO (getMem clm_client) (\<lambda>k.
           case (case res of Inl err \<Rightarrow> client_failed env err k | Inr _ \<Rightarrow> (successReconcileTimeout, client_succeeded env k)) of (requeueAfter, k') \<Rightarrow>
           bindIO (modMem (\<lambda>m. m\<lparr>clm_client := k'\<rparr>)) (\<lambda>_.
           bindIO (tryIO (k8s_StatusUpdate env client_obj)) (\<lambda>upd.
           ret (\<lparr>RequeueAfter = requeueAfter\<rparr>, case upd of Inr _ \<Rightarrow> None | Inl err \<Rightarrow> Some (Wrapped ''unable to update status: '' err))))))))"

end
