(* ===== verification/AuthzProps.thy ===== *)
theory AuthzProps
  imports ClientController ScopeProps Webhooks
begin

text \<open>
  What the handlers for the authorization settings of a client leave behind in Keycloak. The four of
  them (scopes, resources, policies, permissions) have one shape, the locale \<open>settings_handler\<close>: each
  entry of the resource is converted and then created or used to update the entry of its name, and
  what is left over is deleted. What is proved about that shape in the locale holds for all four.
\<close>

section \<open>Steps that leave the world alone\<close>

text \<open>A part of the world that the Kubernetes API has no influence on.\<close>

definition k8s_keeps :: "'w env \<Rightarrow> ('w \<Rightarrow> 'x) \<Rightarrow> bool" where
  "k8s_keeps env names \<longleftrightarrow> (\<forall>rq w x w'. k8s env rq w = (x, w') \<longrightarrow> names w' = names w)"

lemma wp_client_SetCondition:
  assumes "k8s_keeps env names"
  shows "wp False (client_SetCondition env c st r msg) (\<lambda>_ t. names (world t) = names (world s)) (\<lambda>_ t. names (world t) = names (world s)) s"
  using assms
  by (auto simp: client_SetCondition_def k8s_StatusUpdate_def wp_callIO k8s_keeps_def Let_def split: prod.split sum.split)

lemma wp_try_SetCondition:
  assumes "k8s_keeps env names"
  shows "wp True (try_SetCondition env c st r msg) (\<lambda>_ t. names (world t) = names (world s)) (\<lambda>_ _. True) s"
  using wp_panic_ok [OF wp_client_SetCondition [OF assms, of c st r msg s]] by (simp add: try_SetCondition_def)

lemmas set_condition_defs = PutClient_setFailureCondition_def PutClient_setSuccessCondition_def
  PutClientRole_setFailureCondition_def PutClientRole_setSuccessCondition_def
  PutRealmRole_setFailureCondition_def PutRealmRole_setSuccessCondition_def
  PutClientScope_setFailureCondition_def PutClientScope_setSuccessCondition_def
  PutProtocolMappers_setFailureCondition_def PutProtocolMappers_setSuccessCondition_def
  ServiceAccount_setFailureCondition_def ServiceAccount_setSuccessCondition_def
  ProcessScope_setFailureCondition_def ProcessScope_setSuccessCondition_def
  ProcessResources_setFailureCondition_def ProcessResources_setSuccessCondition_def
  ProcessPolicy_setFailureCondition_def ProcessPolicy_setSuccessCondition_def
  ProcessPermissions_setFailureCondition_def ProcessPermissions_setSuccessCondition_def
  PutAdminFineGrainedPermissions_setFailureCondition_def PutAdminFineGrainedPermissions_setSuccessCondition_def

lemma wp_trivial: "wp True m (\<lambda>_ _. True) (\<lambda>_ _. True) s"
  by (simp add: wp_def split: prod.split outcome.split)

text \<open>Reporting an error changes nothing about a run without one.\<close>
lemma wp_reporting:
  assumes "wp True m Q (\<lambda>_ _. True) s"
  shows "wp True (reporting setFailureCondition what m) Q (\<lambda>_ _. True) s"
proof -
  have "wp True (setFailureCondition msg) (\<lambda>_ _. True) (\<lambda>_ _. True) t" for msg and t :: "('a, event, client_mem) io_state"
    by (rule wp_trivial)
  with assms show ?thesis by (auto simp: reporting_def intro: wp_mono)
qed

section \<open>The shape of the four handlers\<close>

locale settings_handler =
  fixes env :: "'w env" and key :: "'d \<Rightarrow> string" and get_id :: "'v \<Rightarrow> string option"
    and convert :: "'d \<Rightarrow> ('w, 'x) client_prog" and create :: "'x \<Rightarrow> ('w, unit) client_prog"
    and update :: "'x \<Rightarrow> 'v \<Rightarrow> ('w, unit) client_prog" and process :: "'d \<Rightarrow> 'v gomap \<Rightarrow> ('w, 'v gomap) client_prog"
    and spared :: "string \<Rightarrow> bool" and delete :: "string \<Rightarrow> ('w, unit) client_prog"
    and delete_all :: "'v gomap \<Rightarrow> ('w, unit) client_prog"
  assumes process_eq: "process d existing = bindIO (convert d) (\<lambda>x. case map_of existing (key d) of
      Some y \<Rightarrow> bindIO (update x y) (\<lambda>_. ret (AList.delete (key d) existing))
    | None \<Rightarrow> bindIO (create x) (\<lambda>_. ret existing))"
    and delete_all_eq: "\<exists>failed. delete_all existing = delete_rest env failed spared get_id delete existing"
begin

text \<open>
  What the steps do to the names of the entries, \<open>names\<close>; \<open>owner\<close> tells the name of the entry an id
  belongs to.
\<close>

definition steps_ok :: "('w \<Rightarrow> string set) \<Rightarrow> (string \<Rightarrow> string) \<Rightarrow> bool" where
  "steps_ok names owner \<longleftrightarrow>
     (\<forall>d s. wp True (bindIO (convert d) create) (\<lambda>_ t. names (world t) = insert (key d) (names (world s))) (\<lambda>_ _. True) s) \<and>
     (\<forall>d y s. (\<forall>i. get_id y = Some i \<longrightarrow> owner i = key d) \<longrightarrow>
        wp True (bindIO (convert d) (\<lambda>x. update x y)) (\<lambda>_ t. names (world t) = names (world s)) (\<lambda>_ _. True) s) \<and>
     (\<forall>i s. wp True (delete i) (\<lambda>_ t. names (world t) = names (world s) - {owner i})
        (\<lambda>e t. IsErrNotFound e \<longrightarrow> names (world t) = names (world s) - {owner i}) s)"

lemma steps_okI:
  assumes "\<And>d s. wp True (convert d) (\<lambda>x t. names (world t) = names (world s) \<and> named x (key d)) (\<lambda>_ _. True) s"
    and create: "\<And>x n s. named x n \<Longrightarrow> wp True (create x) (\<lambda>_ t. names (world t) = insert n (names (world s))) (\<lambda>_ _. True) s"
    and update: "\<And>x y n s. named x n \<Longrightarrow> (\<forall>i. get_id y = Some i \<longrightarrow> owner i = n) \<Longrightarrow>
       wp True (update x y) (\<lambda>_ t. names (world t) = names (world s)) (\<lambda>_ _. True) s"
    and "\<And>i s. wp True (delete i) (\<lambda>_ t. names (world t) = names (world s) - {owner i})
        (\<lambda>e t. IsErrNotFound e \<longrightarrow> names (world t) = names (world s) - {owner i}) s"
  shows "steps_ok names owner"
  unfolding steps_ok_def
proof (intro conjI allI impI)
  fix d and s :: "('w, event, client_mem) io_state"
  show "wp True (bindIO (convert d) create) (\<lambda>_ t. names (world t) = insert (key d) (names (world s))) (\<lambda>_ _. True) s"
    unfolding wp_bindIO
  proof (rule wp_weaken [OF assms(1)])
    fix x and t :: "('w, event, client_mem) io_state"
    assume t: "names (world t) = names (world s) \<and> named x (key d)"
    show "wp True (create x) (\<lambda>_ t. names (world t) = insert (key d) (names (world s))) (\<lambda>_ _. True) t"
      using create [OF conjunct2 [OF t], of t] unfolding conjunct1 [OF t] .
  qed
next
  fix d y and s :: "('w, event, client_mem) io_state"
  assume y: "\<forall>i. get_id y = Some i \<longrightarrow> owner i = key d"
  show "wp True (bindIO (convert d) (\<lambda>x. update x y)) (\<lambda>_ t. names (world t) = names (world s)) (\<lambda>_ _. True) s"
    unfolding wp_bindIO
  proof (rule wp_weaken [OF assms(1)])
    fix x and t :: "('w, event, client_mem) io_state"
    assume t: "names (world t) = names (world s) \<and> named x (key d)"
    show "wp True (update x y) (\<lambda>_ t. names (world t) = names (world s)) (\<lambda>_ _. True) t"
      using update [OF conjunct2 [OF t] y, of t] unfolding conjunct1 [OF t] .
  qed
qed (rule assms(4))

definition listed_ids :: "(string \<Rightarrow> string) \<Rightarrow> 'v gomap \<Rightarrow> bool" where
  "listed_ids owner existing \<longleftrightarrow> distinct (map fst existing) \<and> (\<forall>(n, x) \<in> set existing. \<forall>i. get_id x = Some i \<longrightarrow> owner i = n)"

lemma wp_process:
  assumes "steps_ok names owner" and "listed_ids owner existing" and "fst ` set existing \<subseteq> names (world s)"
  shows "wp True (process d existing) (\<lambda>rest t. names (world t) = insert (key d) (names (world s)) \<and>
     listed_ids owner rest \<and> fst ` set rest = fst ` set existing - {key d}) (\<lambda>_ _. True) s"
proof (cases "map_of existing (key d)")
  case None
  then have "key d \<notin> fst ` set existing" by (simp add: map_of_eq_None_iff)
  then have keys: "fst ` set existing - {key d} = fst ` set existing" by simp
  have "wp True (bindIO (convert d) create) (\<lambda>_ t. names (world t) = insert (key d) (names (world s))) (\<lambda>_ _. True) s"
    using assms(1) by (simp add: steps_ok_def)
  then show ?thesis unfolding process_eq keys using None assms(2) by (auto intro: wp_mono)
next
  case (Some y)
  then have y: "(key d, y) \<in> set existing" by (rule map_of_SomeD)
  with assms have known: "insert (key d) (names (world s)) = names (world s)" by force
  have "\<forall>i. get_id y = Some i \<longrightarrow> owner i = key d" using y assms(2) by (auto simp: listed_ids_def)
  then have up: "wp True (bindIO (convert d) (\<lambda>x. update x y)) (\<lambda>_ t. names (world t) = names (world s)) (\<lambda>_ _. True) s"
    using assms(1) by (simp add: steps_ok_def)
  have rest: "listed_ids owner (AList.delete (key d) existing)"
    "fst ` set (AList.delete (key d) existing) = fst ` set existing - {key d}"
    using assms(2) by (auto simp: listed_ids_def AList.delete_eq distinct_map_filter)
  show ?thesis unfolding process_eq known using Some up rest by (auto intro: wp_mono)
qed

lemma wp_process_all:
  assumes "steps_ok names owner" and "listed_ids owner existing" and "fst ` set existing \<subseteq> names (world s)"
  shows "wp True (foldIO process ds existing) (\<lambda>rest t. names (world t) = names (world s) \<union> key ` set ds \<and>
     listed_ids owner rest \<and> fst ` set rest = fst ` set existing - key ` set ds) (\<lambda>_ _. True) s"
proof (rule wp_foldIO [where I = "\<lambda>vis rest t. names (world t) = names (world s) \<union> key ` set vis \<and>
     listed_ids owner rest \<and> fst ` set rest = fst ` set existing - key ` set vis"])
  fix vis d rest ex and t :: "('w, event, client_mem) io_state"
  assume I: "names (world t) = names (world s) \<union> key ` set vis \<and> listed_ids owner ex \<and> fst ` set ex = fst ` set existing - key ` set vis"
  with assms(3) have "fst ` set ex \<subseteq> names (world t)" by auto
  then have "wp True (process d ex) (\<lambda>rest t'. names (world t') = insert (key d) (names (world t)) \<and>
     listed_ids owner rest \<and> fst ` set rest = fst ` set ex - {key d}) (\<lambda>_ _. True) t"
    by (rule wp_process [OF assms(1) conjunct1 [OF conjunct2 [OF I]]])
  moreover have "insert (key d) (names (world t)) = names (world s) \<union> key ` set (vis @ [d])"
    "fst ` set ex - {key d} = fst ` set existing - key ` set (vis @ [d])" using I by auto
  ultimately show "wp True (process d ex) (\<lambda>rest t'. names (world t') = names (world s) \<union> key ` set (vis @ [d]) \<and>
     listed_ids owner rest \<and> fst ` set rest = fst ` set existing - key ` set (vis @ [d])) (\<lambda>_ _. True) t"
    by (simp only:)
qed (use assms in auto)

lemma wp_delete_all:
  assumes "steps_ok names owner" and "listed_ids owner existing"
  shows "wp True (delete_all existing) (\<lambda>_ t. names (world t) = names (world s) - {n \<in> fst ` set existing. \<not> spared n}) (\<lambda>_ _. True) s"
proof -
  obtain failed where eq: "delete_all existing = delete_rest env failed spared get_id delete existing"
    using delete_all_eq by blast
  let ?f = "\<lambda>(name, x). if spared name then ret () else bindIO (derefIO (get_id x)) (\<lambda>i.
     bindIO (tryIO (delete i)) (\<lambda>res. case res of Inr _ \<Rightarrow> ret ()
       | Inl err \<Rightarrow> if IsErrNotFound err then ret () else fail (Wrapped failed err)))"
  show ?thesis unfolding eq delete_rest_def wp_bindIO
  proof (rule wp_range_order)
    fix es
    assume "mset es = mset existing"
    then have es: "set es = set existing" by (metis set_mset_mset)
    show "wp True (forIO ?f es) (\<lambda>_ t. names (world t) = names (world s) - {n \<in> fst ` set existing. \<not> spared n}) (\<lambda>_ _. True) s"
    proof (rule wp_forIO [where I = "\<lambda>vis t. names (world t) = names (world s) - {n \<in> fst ` set vis. \<not> spared n}"])
      fix vis e rest and t :: "('w, event, client_mem) io_state"
      assume split: "es = vis @ e # rest" and I: "names (world t) = names (world s) - {n \<in> fst ` set vis. \<not> spared n}"
      obtain n x where e: "e = (n, x)" by (cases e)
      have "(n, x) \<in> set existing" unfolding es [symmetric] split e by simp
      then have own: "owner i = n" if "get_id x = Some i" for i
        using that assms(2) \<open>(n, x) \<in> set existing\<close> unfolding listed_ids_def by fast
      have del: "wp True (delete i) (\<lambda>_ t'. names (world t') = names (world t) - {owner i})
          (\<lambda>er t'. IsErrNotFound er \<longrightarrow> names (world t') = names (world t) - {owner i}) t" for i
        using assms(1) by (simp add: steps_ok_def)
      have "wp True (?f e) (\<lambda>_ t'. names (world t') = (if spared n then names (world t) else names (world t) - {n})) (\<lambda>_ _. True) t"
        using own by (auto simp: e split: option.split intro!: wp_mono [OF del])
      then show "wp True (?f e) (\<lambda>_ t'. names (world t') = names (world s) - {n \<in> fst ` set (vis @ [e]). \<not> spared n}) (\<lambda>_ _. True) t"
        by (rule wp_weaken) (auto simp: I e)
    qed (simp_all add: es)
  qed
qed

text \<open>The two loops together, after a listing that named all entries.\<close>

lemma wp_synchronise:
  assumes "steps_ok names owner" and "listed_ids owner existing" and "fst ` set existing = names (world s)"
    and report: "\<And>m Q s. wp True m Q (\<lambda>_ _. True) s \<Longrightarrow> wp True (report m) Q (\<lambda>_ _. True) s"
  shows "wp True (bindIO (foldIO process ds existing) (\<lambda>rest. whenIO (\<not> addOnly) (report (delete_all rest))))
     (\<lambda>_ t. names (world t) = key ` set ds \<union> {n \<in> names (world s). addOnly \<or> spared n}) (\<lambda>_ _. True) s"
  unfolding wp_bindIO
proof (rule wp_weaken [OF wp_process_all [OF assms(1,2)]])
  fix rest and t :: "('w, event, client_mem) io_state"
  assume t: "names (world t) = names (world s) \<union> key ` set ds \<and> listed_ids owner rest \<and>
     fst ` set rest = fst ` set existing - key ` set ds"
  then have "wp True (delete_all rest) (\<lambda>_ t'. names (world t') = names (world t) - {n \<in> fst ` set rest. \<not> spared n}) (\<lambda>_ _. True) t"
    by (intro wp_delete_all [OF assms(1)]) simp
  from report [OF this] show "wp True (whenIO (\<not> addOnly) (report (delete_all rest)))
      (\<lambda>_ t. names (world t) = key ` set ds \<union> {n \<in> names (world s). addOnly \<or> spared n}) (\<lambda>_ _. True) t"
    using t assms(3) by (auto elim!: wp_weaken)
qed (use assms(3) in simp)

text \<open>The whole handler, after the client has been found.\<close>

lemma wp_settings:
  assumes ok: "steps_ok names owner" and k8s: "k8s_keeps env names"
    and listing: "wp True listing (\<lambda>existing t. names (world t) = names (world s) \<and> fst ` set existing = names (world s) \<and>
       listed_ids owner existing) (\<lambda>_ _. True) s"
  shows "wp True (bindIO (wrapErr p (reporting setFailureCondition what listing)) (\<lambda>existing.
      bindIO (foldIO process ds existing) (\<lambda>rest.
      bindIO (whenIO (\<not> addOnly) (reporting setFailureCondition what (delete_all rest))) (\<lambda>_.
      try_SetCondition env c st r msg))))
    (\<lambda>_ t. names (world t) = key ` set ds \<union> {n \<in> names (world s). addOnly \<or> spared n}) (\<lambda>_ _. True) s"
proof -
  let ?post = "\<lambda>t. names (world t) = key ` set ds \<union> {n \<in> names (world s). addOnly \<or> spared n}"
  have last: "wp True (try_SetCondition env c st r msg) (\<lambda>_ t'. ?post t') (\<lambda>_ _. True) t" if "?post t"
    for t :: "('w, event, client_mem) io_state"
    using wp_try_SetCondition [OF k8s, of c st r msg t] unfolding that .
  show ?thesis
    unfolding wp_bindIO [of True "wrapErr p (reporting setFailureCondition what listing)"] wp_wrapErr
  proof (rule wp_reporting, rule wp_weaken [OF listing])
    fix existing and t :: "('w, event, client_mem) io_state"
    assume t: "names (world t) = names (world s) \<and> fst ` set existing = names (world s) \<and> listed_ids owner existing"
    then have "wp True (bindIO (foldIO process ds existing) (\<lambda>rest. whenIO (\<not> addOnly) (reporting setFailureCondition what (delete_all rest))))
      (\<lambda>_ t'. names (world t') = key ` set ds \<union> {n \<in> names (world t). addOnly \<or> spared n}) (\<lambda>_ _. True) t"
      by (intro wp_synchronise [OF ok] wp_reporting) simp_all
    then have "wp True (bindIO (foldIO process ds existing) (\<lambda>rest. whenIO (\<not> addOnly) (reporting setFailureCondition what (delete_all rest))))
      (\<lambda>_. wp True (try_SetCondition env c st r msg) (\<lambda>_ t'. ?post t') (\<lambda>_ _. True)) (\<lambda>_ _. True) t"
      unfolding conjunct1 [OF t] by (rule wp_weaken) (rule last)
    then show "wp True (bindIO (foldIO process ds existing) (\<lambda>rest.
        bindIO (whenIO (\<not> addOnly) (reporting setFailureCondition what (delete_all rest))) (\<lambda>_.
        try_SetCondition env c st r msg))) (\<lambda>_ t'. ?post t') (\<lambda>_ _. True) t"
      by simp
  qed
qed

end

section \<open>What Keycloak does with settings\<close>

text \<open>Requests that only read.\<close>

fun reading :: "gocloak_request \<Rightarrow> bool" where
  "reading (GocloakGetClients _ _ _) = True"
| "reading (GocloakGetPermissions _ _ _ _) = True"
| "reading (GocloakGetRealmRoles _ _ _) = True"
| "reading (GocloakAuthzOp _ _ _ (GetScopesOp _)) = True"
| "reading (GocloakAuthzOp _ _ _ (GetResourcesOp _)) = True"
| "reading (GocloakAuthzOp _ _ _ (GetPoliciesOp _)) = True"
| "reading (GocloakRealmOp _ _ (ListClientsOp _)) = True"
| "reading (GocloakRealmOp _ _ (GetUsersOp _)) = True"
| "reading (GocloakRealmOp _ _ (GetGroupsOp _)) = True"
| "reading _ = False"

definition reads_keep :: "'w env \<Rightarrow> GoCloakAdapter \<Rightarrow> ('w \<Rightarrow> 'x) \<Rightarrow> bool" where
  "reads_keep env a names \<longleftrightarrow>
     (\<forall>rq w r w'. (\<forall>t. reading (rq t)) \<longrightarrow> gocloak_sent env a rq w r w' \<longrightarrow> names w' = names w)"

text \<open>
  The settings of one kind of a client: a listing shows all of them, with an id that belongs to the
  name; creating, updating and deleting go by name and id. An entry that is not found is not there.
\<close>

definition settings_server ::
  "'w env \<Rightarrow> GoCloakAdapter \<Rightarrow> ('v \<Rightarrow> string option) \<Rightarrow> ('v \<Rightarrow> string option) \<Rightarrow> (string \<Rightarrow> gocloak_request) \<Rightarrow> (gocloak_result \<Rightarrow> 'v list) \<Rightarrow>
   ('v \<Rightarrow> string \<Rightarrow> gocloak_request) \<Rightarrow> ('v \<Rightarrow> string \<Rightarrow> gocloak_request) \<Rightarrow> (string \<Rightarrow> string \<Rightarrow> gocloak_request) \<Rightarrow>
   ('w \<Rightarrow> string set) \<Rightarrow> (string \<Rightarrow> string) \<Rightarrow> bool" where
  "settings_server env a name_of id_of lst items create update delete names owner \<longleftrightarrow>
     (\<forall>w r w'. gocloak_sent env a lst w r w' \<longrightarrow> names w' = names w \<and>
        {n. \<exists>x \<in> set (items r). name_of x = Some n} = names w \<and>
        (\<forall>x \<in> set (items r). \<forall>n i. name_of x = Some n \<longrightarrow> id_of x = Some i \<longrightarrow> owner i = n)) \<and>
     (\<forall>x n w r w'. name_of x = Some n \<longrightarrow> gocloak_sent env a (create x) w r w' \<longrightarrow> names w' = insert n (names w)) \<and>
     (\<forall>x n w r w'. name_of x = Some n \<longrightarrow> (\<forall>i. id_of x = Some i \<longrightarrow> owner i = n) \<longrightarrow> gocloak_sent env a (update x) w r w' \<longrightarrow>
        names w' = names w) \<and>
     (\<forall>i w r w'. gocloak_sent env a (delete i) w r w' \<longrightarrow> names w' = names w - {owner i}) \<and>
     (\<forall>i t w e w'. gocloak env (ga_client a) (delete i t) w = (Inl e, w') \<longrightarrow> IsErrNotFound e \<longrightarrow> names w' = names w - {owner i})"

lemma wp_reading:
  assumes "reads_keep env a names" and "\<And>t. reading (rq t)"
    and "\<And>r t. names (world t) = names (world s) \<Longrightarrow> mem t = mem s \<Longrightarrow> Q r t"
  shows "wp True (withToken a rq env) Q (\<lambda>_ _. True) s"
proof (rule wp_withToken)
  fix r w' tr
  assume "gocloak_sent env a rq (world s) r w'"
  with assms(1,2) have "names w' = names (world s)" unfolding reads_keep_def by blast
  with assms(3) show "Q r (s\<lparr>world := w', trace := tr\<rparr>)" by simp
qed

lemma settings_steps:
  assumes "settings_server env a name_of id_of lst items create update delete names owner"
  shows "name_of x = Some n \<Longrightarrow> wp True (withToken a (create x) env) (\<lambda>_ t. names (world t) = insert n (names (world s))) (\<lambda>_ _. True) s"
    and "name_of x = Some n \<Longrightarrow> \<forall>i. id_of x = Some i \<longrightarrow> owner i = n \<Longrightarrow>
      wp True (withToken a (update x) env) (\<lambda>_ t. names (world t) = names (world s)) (\<lambda>_ _. True) s"
    and "wp True (withToken a (delete i) env) (\<lambda>_ t. names (world t) = names (world s) - {owner i})
      (\<lambda>e t. IsErrNotFound e \<longrightarrow> names (world t) = names (world s) - {owner i}) s"
proof -
  show "wp True (withToken a (create x) env) (\<lambda>_ t. names (world t) = insert n (names (world s))) (\<lambda>_ _. True) s"
    if "name_of x = Some n" by (rule wp_withToken) (use assms that in \<open>simp add: settings_server_def\<close>)
  show "wp True (withToken a (update x) env) (\<lambda>_ t. names (world t) = names (world s)) (\<lambda>_ _. True) s"
    if "name_of x = Some n" "\<forall>i. id_of x = Some i \<longrightarrow> owner i = n"
    by (rule wp_withToken) (use assms that in \<open>simp add: settings_server_def\<close>)
  have del: "gocloak_sent env a (delete i) w r w' \<Longrightarrow> names w' = names w - {owner i}"
    "gocloak env (ga_client a) (delete i t) w = (Inl e, w') \<Longrightarrow> IsErrNotFound e \<Longrightarrow> names w' = names w - {owner i}" for w r w' t e
    using assms unfolding settings_server_def by blast+
  show "wp True (withToken a (delete i) env) (\<lambda>_ t. names (world t) = names (world s) - {owner i})
      (\<lambda>e t. IsErrNotFound e \<longrightarrow> names (world t) = names (world s) - {owner i}) s"
    using del by (auto simp: withToken_def gocloakCall_def wp_callIO gocloak_sent_def split: option.split prod.split sum.split)
qed

lemma wp_listing:
  assumes "settings_server env a name_of id_of lst items create update delete names owner"
  shows "wp True (withToken a lst env) (\<lambda>r t. mem t = mem s \<and> names (world t) = names (world s) \<and>
     fst ` set (build_map name_of id (items r)) = names (world s) \<and>
     (\<forall>(n, x) \<in> set (build_map name_of id (items r)). name_of x = Some n \<and> (\<forall>i. id_of x = Some i \<longrightarrow> owner i = n))) (\<lambda>_ _. True) s"
proof (rule wp_withToken)
  fix r w' tr
  assume sent: "gocloak_sent env a lst (world s) r w'"
  from assms have shown: "\<forall>w r w'. gocloak_sent env a lst w r w' \<longrightarrow> names w' = names w \<and>
     {n. \<exists>x \<in> set (items r). name_of x = Some n} = names w \<and>
     (\<forall>x \<in> set (items r). \<forall>n i. name_of x = Some n \<longrightarrow> id_of x = Some i \<longrightarrow> owner i = n)"
    unfolding settings_server_def by (rule conjunct1)
  note law = shown [rule_format, OF sent]
  have "name_of x = Some n \<and> (\<forall>i. id_of x = Some i \<longrightarrow> owner i = n)" if "(n, x) \<in> set (build_map name_of id (items r))" for n x
    using build_map_val [OF that] law by auto
  then show "mem (s\<lparr>world := w', trace := tr\<rparr>) = mem s \<and> names (world (s\<lparr>world := w', trace := tr\<rparr>)) = names (world s) \<and>
      fst ` set (build_map name_of id (items r)) = names (world s) \<and>
      (\<forall>(n, x) \<in> set (build_map name_of id (items r)). name_of x = Some n \<and> (\<forall>i. id_of x = Some i \<longrightarrow> owner i = n))"
    using law by (auto simp: keys_build_map)
qed

text \<open>The client of the resource and its id in Keycloak.\<close>

definition client_lookup :: "'w env \<Rightarrow> GoCloakAdapter \<Rightarrow> string \<Rightarrow> string \<Rightarrow> string \<Rightarrow> bool" where
  "client_lookup env a realm clientId i \<longleftrightarrow>
     (\<forall>w r w' c. gocloak_sent env a (\<lambda>t. GocloakGetClients t realm (Some clientId)) w r w' \<longrightarrow>
        find (\<lambda>x. gcl_ClientID x = Some clientId) (gocloak_clients r) = Some c \<longrightarrow> gcl_ID c = Some i)"

lemma wp_GetClientID:
  assumes "reads_keep env a names" and "client_lookup env a realm clientId i"
    and "\<And>t. names (world t) = names (world s) \<Longrightarrow> mem t = mem s \<Longrightarrow> Q i t"
  shows "wp True (GetClientID env a clientId realm) Q (\<lambda>_ _. True) s"
  unfolding GetClientID_def wp_bindIO wp_wrapErr
proof (rule wp_withToken)
  fix r w' tr
  assume sent: "gocloak_sent env a (\<lambda>t. GocloakGetClients t realm (Some clientId)) (world s) r w'"
  have "names w' = names (world s)"
    using assms(1) [unfolded reads_keep_def, rule_format, OF _ sent] by simp
  moreover have "find (\<lambda>x. gcl_ClientID x = Some clientId) (gocloak_clients r) = Some c \<Longrightarrow> gcl_ID c = Some i" for c
    using assms(2) sent by (auto simp: client_lookup_def)
  ultimately show "wp True (case find (\<lambda>item. gcl_ClientID item = Some clientId) (gocloak_clients r) of
      Some item \<Rightarrow> derefIO (gcl_ID item)
    | None \<Rightarrow> fail (NotFoundErr (''unable to get Client ID. Client '' @ clientId @ '' doesn't exist''))) Q (\<lambda>_ _. True) (s\<lparr>world := w', trace := tr\<rparr>)"
    using assms(3) by (auto split: option.split)
qed

lemma wp_with_authorization:
  assumes "reads_keep env a names" and "client_lookup env a realm (acl_ClientId (dc_Client (clm_data (mem s)))) i"
    and "acl_Authorization (dc_Client (clm_data (mem s))) = Some authz"
    and "\<And>t. names (world t) = names (world s) \<Longrightarrow> mem t = mem s \<Longrightarrow>
       wp True (f authz (acl_ReconciliationStrategy (dc_Client (clm_data (mem s))) = ReconciliationStrategyAddOnly) i) Q (\<lambda>_ _. True) t"
  shows "wp True (with_authorization env a realm setFailureCondition what f) Q (\<lambda>_ _. True) s"
  using assms(3,4)
  by (auto simp: with_authorization_def intro!: wp_reporting wp_GetClientID [OF assms(1,2)])

lemma AList_delete_absent: "map_of m k = None \<Longrightarrow> AList.delete k m = m"
  by (induction m) (auto simp: AList.delete_eq split: if_splits)
section \<open>Scopes\<close>

interpretation scopes: settings_handler env "\<lambda>scope. scope" gsc_ID ret
    "\<lambda>scope. wrapErr ''failed to create scope: '' (reporting (ProcessScope_setFailureCondition env) ''Failed to sync authorization scopes: ''
      (adapter_CreateScope env a realmName clientID scope))"
    "\<lambda>_ _. ret ()" "process_scope env a realmName clientID" "\<lambda>_. False" "DeleteScope env a realmName clientID"
    "\<lambda>existing. deleteScopes env a existing realmName clientID"
  for env :: "'w env" and a realmName clientID
proof
  fix scope and existing :: "gocloak_Scope gomap"
  show "process_scope env a realmName clientID scope existing = bindIO (ret scope) (\<lambda>x. case map_of existing scope of
      Some y \<Rightarrow> bindIO (ret ()) (\<lambda>_. ret (AList.delete scope existing))
    | None \<Rightarrow> bindIO (wrapErr ''failed to create scope: '' (reporting (ProcessScope_setFailureCondition env) ''Failed to sync authorization scopes: ''
        (adapter_CreateScope env a realmName clientID x))) (\<lambda>_. ret existing))"
    by (auto simp: process_scope_def AList_delete_absent bindIO_def ret_def split: option.split)
qed (unfold deleteScopes_def, blast)

text \<open>What Keycloak does with the scopes of a client.\<close>

abbreviation scopes_server :: "'w env \<Rightarrow> GoCloakAdapter \<Rightarrow> string \<Rightarrow> string \<Rightarrow> ('w \<Rightarrow> string set) \<Rightarrow> (string \<Rightarrow> string) \<Rightarrow> bool" where
  "scopes_server env a realm i \<equiv> settings_server env a gsc_Name gsc_ID
     (\<lambda>t. GocloakAuthzOp t realm i (GetScopesOp defaultMax)) (\<lambda>r. non_nil (gocloak_scopes r))
     (\<lambda>x t. GocloakAuthzOp t realm i (CreateScopeOp x)) (\<lambda>x t. GocloakAuthzOp t realm i (GetScopesOp defaultMax))
     (\<lambda>x t. GocloakAuthzOp t realm i (DeleteScopeOp x))"

lemma scopes_steps_ok:
  assumes "scopes_server env a realm i names owner"
  shows "scopes.steps_ok env a realm i names owner"
proof (rule scopes.steps_okI [where named = "\<lambda>x n. x = n"])
  fix x n :: string and s :: "('a, event, client_mem) io_state"
  assume "x = n"
  then show "wp True (wrapErr ''failed to create scope: '' (reporting (ProcessScope_setFailureCondition env) ''Failed to sync authorization scopes: ''
      (adapter_CreateScope env a realm i x))) (\<lambda>_ t. names (world t) = insert n (names (world s))) (\<lambda>_ _. True) s"
    by (auto simp: adapter_CreateScope_def authzOp_def intro!: wp_reporting settings_steps(1) [OF assms])
next
  fix j and s :: "('a, event, client_mem) io_state"
  show "wp True (DeleteScope env a realm i j) (\<lambda>_ t. names (world t) = names (world s) - {owner j})
      (\<lambda>e t. IsErrNotFound e \<longrightarrow> names (world t) = names (world s) - {owner j}) s"
    using settings_steps(3) [OF assms] by (simp add: DeleteScope_def authzOp_def)
qed simp_all

lemma wp_GetScopes:
  assumes "scopes_server env a realm i names owner"
  shows "wp True (GetScopes env a realm i) (\<lambda>existing t. names (world t) = names (world s) \<and>
     fst ` set existing = names (world s) \<and> scopes.listed_ids owner existing) (\<lambda>_ _. True) s"
  by (auto simp: GetScopes_def authzOp_def scopes.listed_ids_def distinct_build_map intro!: wp_weaken [OF wp_listing [OF assms]])

lemma wp_ProcessScope:
  assumes "scopes_server env a realm i names owner" and "k8s_keeps env names" and reads: "reads_keep env a names"
    and lookup: "client_lookup env a realm (acl_ClientId (dc_Client (clm_data (mem s)))) i"
    and authz: "acl_Authorization (dc_Client (clm_data (mem s))) = Some authz"
  shows "wp True (ProcessScope_Serve env a realm) (\<lambda>_ t. names (world t) = set (azn_Scopes authz) \<union>
     {n \<in> names (world s). acl_ReconciliationStrategy (dc_Client (clm_data (mem s))) = ReconciliationStrategyAddOnly}) (\<lambda>_ _. True) s"
  unfolding ProcessScope_Serve_def Let_def ProcessScope_setSuccessCondition_def
  apply (rule wp_with_authorization [OF reads lookup authz])
  subgoal premises t for t
    using scopes.wp_settings [OF scopes_steps_ok [OF assms(1)] assms(2) wp_GetScopes [OF assms(1)], where s = t]
    unfolding t by simp
  done

section \<open>Resources, policies and permissions\<close>

text \<open>
  These three are converted to the representation of Keycloak, which carries name and id, and sent in
  one request each. That is the handler above with its steps spelled out.
\<close>

locale crud_handler =
  fixes env :: "'w env" and a :: GoCloakAdapter and key :: "'d \<Rightarrow> string" and name_of get_id :: "'v \<Rightarrow> string option"
    and set_id :: "string option \<Rightarrow> 'v \<Rightarrow> 'v" and setFailure :: "string \<Rightarrow> ('w, unit) client_prog" and what :: string
    and represent :: "'d \<Rightarrow> ('w, 'v) client_prog" and list_rq :: "string \<Rightarrow> gocloak_request" and items :: "gocloak_result \<Rightarrow> 'v list"
    and create_rq update_rq :: "'v \<Rightarrow> string \<Rightarrow> gocloak_request" and delete_rq :: "string \<Rightarrow> string \<Rightarrow> gocloak_request"
    and listing :: "('w, 'v gomap) client_prog" and process :: "'d \<Rightarrow> 'v gomap \<Rightarrow> ('w, 'v gomap) client_prog"
    and spared :: "string \<Rightarrow> bool" and delete_all :: "'v gomap \<Rightarrow> ('w, unit) client_prog"
    and converting updating updating' creating creating' deleting deleting' getting :: string
  assumes list_eq: "listing = bindIO (wrapErr getting (withToken a list_rq env)) (\<lambda>r. ret (build_map name_of id (items r)))"
    and each_eq: "process d existing = bindIO (wrapErr converting (reporting setFailure what (represent d))) (\<lambda>x.
      case map_of existing (key d) of
        Some y \<Rightarrow> bindIO (wrapErr updating (reporting setFailure what
          (wrapErr updating' (voidIO (withToken a (update_rq (set_id (get_id y) x)) env))))) (\<lambda>_. ret (AList.delete (key d) existing))
      | None \<Rightarrow> bindIO (wrapErr creating (reporting setFailure what
          (wrapErr creating' (voidIO (withToken a (create_rq x) env))))) (\<lambda>_. ret existing))"
    and rest_eq: "delete_all existing =
      delete_rest env deleting spared get_id (\<lambda>i. wrapErr deleting' (voidIO (withToken a (delete_rq i) env))) existing"
    and set_id: "name_of (set_id j x) = name_of x" "get_id (set_id j x) = j"

sublocale crud_handler \<subseteq> settings_handler env key get_id
    "\<lambda>d. wrapErr converting (reporting setFailure what (represent d))"
    "\<lambda>x. wrapErr creating (reporting setFailure what (wrapErr creating' (voidIO (withToken a (create_rq x) env))))"
    "\<lambda>x y. wrapErr updating (reporting setFailure what (wrapErr updating' (voidIO (withToken a (update_rq (set_id (get_id y) x)) env))))"
    process spared "\<lambda>i. wrapErr deleting' (voidIO (withToken a (delete_rq i) env))" delete_all
  by unfold_locales (rule each_eq, use rest_eq in blast)

context crud_handler
begin

lemma crud_steps_ok:
  assumes server: "settings_server env a name_of get_id list_rq items create_rq update_rq delete_rq names owner"
    and represent: "\<And>d s. wp True (represent d) (\<lambda>x t. names (world t) = names (world s) \<and> name_of x = Some (key d)) (\<lambda>_ _. True) s"
  shows "steps_ok names owner"
proof (rule steps_okI [where named = "\<lambda>x n. name_of x = Some n"])
  fix d x y n i and s :: "('w, event, client_mem) io_state"
  show "wp True (wrapErr converting (reporting setFailure what (represent d)))
      (\<lambda>x t. names (world t) = names (world s) \<and> name_of x = Some (key d)) (\<lambda>_ _. True) s"
    using wp_reporting [OF represent] by simp
  show "wp True (wrapErr creating (reporting setFailure what (wrapErr creating' (voidIO (withToken a (create_rq x) env)))))
      (\<lambda>_ t. names (world t) = insert n (names (world s))) (\<lambda>_ _. True) s" if "name_of x = Some n"
    using that by (auto intro!: wp_reporting settings_steps(1) [OF server])
  show "wp True (wrapErr updating (reporting setFailure what (wrapErr updating' (voidIO (withToken a (update_rq (set_id (get_id y) x)) env)))))
      (\<lambda>_ t. names (world t) = names (world s)) (\<lambda>_ _. True) s" if "name_of x = Some n" "\<forall>i. get_id y = Some i \<longrightarrow> owner i = n"
    using that by (auto simp: set_id intro!: wp_reporting settings_steps(2) [OF server])
  show "wp True (wrapErr deleting' (voidIO (withToken a (delete_rq i) env))) (\<lambda>_ t. names (world t) = names (world s) - {owner i})
      (\<lambda>e t. IsErrNotFound e \<longrightarrow> names (world t) = names (world s) - {owner i}) s"
    using settings_steps(3) [OF server] by simp
qed

lemma crud_listing:
  assumes "settings_server env a name_of get_id list_rq items create_rq update_rq delete_rq names owner"
  shows "wp True listing (\<lambda>existing t. names (world t) = names (world s) \<and> fst ` set existing = names (world s) \<and>
     listed_ids owner existing) (\<lambda>_ _. True) s"
  by (auto simp: list_eq listed_ids_def intro!: wp_weaken [OF wp_listing [OF assms]])

lemma wp_crud:
  assumes "settings_server env a name_of get_id list_rq items create_rq update_rq delete_rq names owner"
    and "\<And>d s. wp True (represent d) (\<lambda>x t. names (world t) = names (world s) \<and> name_of x = Some (key d)) (\<lambda>_ _. True) s"
    and "k8s_keeps env names" and t: "names (world t) = N"
  shows "wp True (bindIO (wrapErr p (reporting setFailure' what' listing)) (\<lambda>existing.
      bindIO (foldIO process ds existing) (\<lambda>rest.
      bindIO (whenIO (\<not> addOnly) (reporting setFailure' what' (delete_all rest))) (\<lambda>_.
      try_SetCondition env c st r msg))))
    (\<lambda>_ t. names (world t) = key ` set ds \<union> {n \<in> N. addOnly \<or> spared n}) (\<lambda>_ _. True) t"
  using wp_settings [OF crud_steps_ok [OF assms(1,2)] assms(3) crud_listing [OF assms(1)], where s = t] unfolding t .

end

interpretation resources: crud_handler env a rsc_Name grs_Name grs_ID "\<lambda>i x. x\<lparr>grs_ID := i\<rparr>"
    "ProcessResources_setFailureCondition env" "''Failed to sync authorization resources: ''"
    "\<lambda>resource. toResourceRepresentation env a resource clientID realmName"
    "\<lambda>t. GocloakAuthzOp t realmName clientID (GetResourcesOp defaultMax)" "\<lambda>r. non_nil (gocloak_resources r)"
    "\<lambda>x t. GocloakAuthzOp t realmName clientID (CreateResourceOp x)" "\<lambda>x t. GocloakAuthzOp t realmName clientID (UpdateResourceOp x)"
    "\<lambda>x t. GocloakAuthzOp t realmName clientID (DeleteResourceOp x)"
    "GetResources env a realmName clientID" "process_resource env a realmName clientID" "\<lambda>name. name = ''Default Resource''"
    "\<lambda>existing. deleteResources env a existing realmName clientID"
    "''failed to convert resource: ''" "''failed to update resource: ''" "''failed to update resource: ''"
    "''failed to create resource: ''" "''failed to create resource: ''" "''failed to delete resource: ''" "''failed to delete resource: ''"
    "''failed to get resources: ''"
  for env :: "'w env" and a clientID realmName
  by unfold_locales (simp_all add: GetResources_def process_resource_def deleteResources_def Let_def CreateResource_def UpdateResource_def
      adapter_DeleteResource_def [abs_def] authzOp_def cong: option.case_cong)

interpretation policies: crud_handler env a plc_Name gpo_Name gpo_ID "\<lambda>i x. x\<lparr>gpo_ID := i\<rparr>"
    "ProcessPolicy_setFailureCondition env" "''Failed to sync authorization policies: ''"
    "\<lambda>policy. toPolicyRepresentation env a policy clientID realmName"
    "\<lambda>t. GocloakAuthzOp t realmName clientID (GetPoliciesOp defaultMax)" gocloak_policies
    "\<lambda>x t. GocloakAuthzOp t realmName clientID (CreatePolicyOp x)" "\<lambda>x t. GocloakAuthzOp t realmName clientID (UpdatePolicyOp x)"
    "\<lambda>x t. GocloakAuthzOp t realmName clientID (DeletePolicyOp x)"
    "GetPolicies env a realmName clientID" "process_policy env a realmName clientID" "\<lambda>name. name = ''Default Policy''"
    "\<lambda>existing. deletePolicies env a existing realmName clientID"
    "''failed to convert policy: ''" "''failed to update policy: ''" "''failed to update policy: ''"
    "''failed to create policy: ''" "''failed to create policy: ''" "''failed to delete policy: ''" "''failed to delete policy: ''"
    "''failed to get policies: ''"
  for env :: "'w env" and a clientID realmName
  by unfold_locales (simp_all add: GetPolicies_def process_policy_def deletePolicies_def Let_def CreatePolicy_def UpdatePolicy_def
      DeletePolicy_def [abs_def] authzOp_def cong: option.case_cong)

text \<open>The listing of the permissions is built by a loop of its own.\<close>

lemma permissions_map: "fold (\<lambda>permission permissions. case permission of
      None \<Rightarrow> permissions
    | Some x \<Rightarrow> (case gpm_Name x of None \<Rightarrow> permissions | Some n \<Rightarrow> AList.update n x permissions)) ps [] =
   build_map gpm_Name id (non_nil ps)"
proof -
  have "fold (\<lambda>permission permissions. case permission of
      None \<Rightarrow> permissions
    | Some x \<Rightarrow> (case gpm_Name x of None \<Rightarrow> permissions | Some n \<Rightarrow> AList.update n x permissions)) ps m =
    fold (\<lambda>x m. case gpm_Name x of None \<Rightarrow> m | Some n \<Rightarrow> AList.update n x m) (non_nil ps) m" for m
    by (induction ps arbitrary: m) (auto simp: non_nil_def List.map_filter_simps split: option.split)
  then show ?thesis by (simp add: build_map_def id_def)
qed

interpretation permissions: crud_handler env a prm_Name gpm_Name gpm_ID "\<lambda>i x. x\<lparr>gpm_ID := i\<rparr>"
    "ProcessPermissions_setFailureCondition env" "''Failed to sync authorization permissions: ''"
    "\<lambda>permission. toPermissionRepresentation env a permission clientID realmName"
    "\<lambda>t. GocloakGetPermissions t realmName clientID 100" "\<lambda>r. non_nil (gocloak_permissions r)"
    "\<lambda>x t. GocloakAuthzOp t realmName clientID (CreatePermissionOp x)" "\<lambda>x t. GocloakUpdatePermission t realmName clientID x"
    "\<lambda>x t. GocloakAuthzOp t realmName clientID (DeletePermissionOp x)"
    "GetPermissions env a realmName clientID" "process_permission env a realmName clientID" "\<lambda>name. name = ''Default Permission''"
    "\<lambda>existing. deletePermissions env a existing realmName clientID"
    "''failed to convert permission: ''" "''failed to update permission: ''" "''failed to update permission: ''"
    "''failed to create permission: ''" "''failed to create permission: ''" "''failed to delete permission: ''" "''failed to delete permission: ''"
    "''failed to get permissions: ''"
  for env :: "'w env" and a clientID realmName
  by unfold_locales (simp_all add: GetPermissions_def permissions_map process_permission_def deletePermissions_def Let_def
      CreatePermission_def UpdatePermission_def DeletePermission_def [abs_def] authzOp_def cong: option.case_cong)

section \<open>Conversions\<close>

text \<open>A conversion only reads, and what it gives has the name of the entry.\<close>

lemma wp_toResourceRepresentation:
  assumes "reads_keep env a names"
  shows "wp True (toResourceRepresentation env a resource clientID realm)
     (\<lambda>x t. names (world t) = names (world s) \<and> grs_Name x = Some (rsc_Name resource)) (\<lambda>_ _. True) s"
  by (auto simp: toResourceRepresentation_def resource_mapScopes_def getBaseResourceRepresentation_def GetScopes_def authzOp_def liftIO_def
      split: sum.split intro!: wp_reading [OF assms])

lemma wp_toPermissionRepresentation:
  assumes "reads_keep env a names"
  shows "wp True (toPermissionRepresentation env a permission clientID realm)
     (\<lambda>x t. names (world t) = names (world s) \<and> gpm_Name x = Some (prm_Name permission)) (\<lambda>_ _. True) s"
  by (auto simp: toPermissionRepresentation_def mapResources_def mapPolicies_def permission_mapScopes_def getBasePermissionRepresentation_def
      GetScopes_def GetResources_def GetPolicies_def authzOp_def liftIO_def split: sum.split intro!: wp_reading [OF assms])

text \<open>After an error the workers may go on, but the error is what they return.\<close>

lemma GetUsers_workers_fail:
  "errc \<noteq> [] \<Longrightarrow> wp True (GetUsers_workers env a realm us errc users) (\<lambda>_ _. False) (\<lambda>_ _. True) s"
proof (induction us arbitrary: errc users s)
  case (Cons u us)
  then show ?case by (auto intro!: wp_mono [OF wp_trivial [of "realmOp env a realm (GetUsersOp u)"]])
qed (auto split: list.split)

lemma wp_GetUsers_workers:
  assumes "reads_keep env a names" and "names (world s) = N"
  shows "wp True (GetUsers_workers env a realm us errc users) (\<lambda>_ t. names (world t) = N) (\<lambda>_ _. True) s"
  using assms(2)
proof (induction us arbitrary: errc users s)
  case Nil
  then show ?case by (simp split: list.split)
next
  case (Cons u us)
  have found: "wp True (realmOp env a realm (GetUsersOp u)) (\<lambda>_ t. names (world t) = N) (\<lambda>_ _. True) s"
    unfolding realmOp_def by (rule wp_reading [OF assms(1)]) (simp_all add: Cons.prems)
  have failed: "wp True (GetUsers_workers env a realm us (errc @ [e]) users) (\<lambda>_ t. names (world t) = N) (\<lambda>_ _. True) t" for e t
    by (rule wp_weaken [OF GetUsers_workers_fail]) simp_all
  show ?case using Cons.IH failed by (auto intro!: wp_mono [OF found])
qed

lemma wp_GetUsersByNames:
  assumes "reads_keep env a names" and "\<And>x t. names (world t) = names (world s) \<Longrightarrow> Q x t"
  shows "wp True (GetUsersByNames env a realm us) Q (\<lambda>_ _. True) s"
  by (auto simp: GetUsersByNames_def spawn_order_def intro!: wp_range_order wp_weaken [OF wp_GetUsers_workers [OF assms(1) refl]] assms(2))

lemma wp_toPolicyRepresentation:
  assumes "reads_keep env a names"
  shows "wp True (toPolicyRepresentation env a policy clientID realm)
     (\<lambda>x t. names (world t) = names (world s) \<and> gpo_Name x = Some (plc_Name policy)) (\<lambda>_ _. True) s"
proof -
  note kinds = toAggregatePolicyRepresentation_def toClientPolicyRepresentation_def toGroupPolicyRepresentation_def
    toRolePolicyRepresentation_def toTimePolicyRepresentation_def toUserPolicyRepresentation_def
  note reads = GetPolicies_def adapter_GetClients_def adapter_GetGroups_def adapter_GetRealmRoles_def authzOp_def realmOp_def liftIO_def
  have name: "gpo_Name (getBasePolicyRepresentation policy) = Some (plc_Name policy)" by (simp add: getBasePolicyRepresentation_def)
  let ?post = "\<lambda>x t. names (world t) = names (world s) \<and> gpo_Name x = Some (plc_Name policy)"
  let ?base = "getBasePolicyRepresentation policy"
  have "\<forall>m \<in> {toAggregatePolicyRepresentation env a policy clientID realm ?base, toClientPolicyRepresentation env a policy realm ?base,
      toGroupPolicyRepresentation env a policy realm ?base, toRolePolicyRepresentation env a policy realm ?base,
      liftIO (toTimePolicyRepresentation policy ?base), toUserPolicyRepresentation env a policy realm ?base}. wp True m ?post (\<lambda>_ _. True) s"
    unfolding ball_simps
    by (intro conjI; auto simp: kinds reads name split: sum.split option.split intro!: wp_reading [OF assms] wp_GetUsersByNames [OF assms])
  then show ?thesis by (auto simp: toPolicyRepresentation_def Let_def)
qed

section \<open>The handlers\<close>

text \<open>What Keycloak does with the other settings.\<close>

abbreviation resources_server :: "'w env \<Rightarrow> GoCloakAdapter \<Rightarrow> string \<Rightarrow> string \<Rightarrow> ('w \<Rightarrow> string set) \<Rightarrow> (string \<Rightarrow> string) \<Rightarrow> bool" where
  "resources_server env a realm i \<equiv> settings_server env a grs_Name grs_ID
      (\<lambda>t. GocloakAuthzOp t realm i (GetResourcesOp defaultMax)) (\<lambda>r. non_nil (gocloak_resources r))
      (\<lambda>x t. GocloakAuthzOp t realm i (CreateResourceOp x)) (\<lambda>x t. GocloakAuthzOp t realm i (UpdateResourceOp x))
      (\<lambda>x t. GocloakAuthzOp t realm i (DeleteResourceOp x))"

abbreviation policies_server :: "'w env \<Rightarrow> GoCloakAdapter \<Rightarrow> string \<Rightarrow> string \<Rightarrow> ('w \<Rightarrow> string set) \<Rightarrow> (string \<Rightarrow> string) \<Rightarrow> bool" where
  "policies_server env a realm i \<equiv> settings_server env a gpo_Name gpo_ID
      (\<lambda>t. GocloakAuthzOp t realm i (GetPoliciesOp defaultMax)) gocloak_policies
      (\<lambda>x t. GocloakAuthzOp t realm i (CreatePolicyOp x)) (\<lambda>x t. GocloakAuthzOp t realm i (UpdatePolicyOp x))
      (\<lambda>x t. GocloakAuthzOp t realm i (DeletePolicyOp x))"

abbreviation permissions_server :: "'w env \<Rightarrow> GoCloakAdapter \<Rightarrow> string \<Rightarrow> string \<Rightarrow> ('w \<Rightarrow> string set) \<Rightarrow> (string \<Rightarrow> string) \<Rightarrow> bool" where
  "permissions_server env a realm i \<equiv> settings_server env a gpm_Name gpm_ID
      (\<lambda>t. GocloakGetPermissions t realm i 100) (\<lambda>r. non_nil (gocloak_permissions r))
      (\<lambda>x t. GocloakAuthzOp t realm i (CreatePermissionOp x)) (\<lambda>x t. GocloakUpdatePermission t realm i x)
      (\<lambda>x t. GocloakAuthzOp t realm i (DeletePermissionOp x))"

abbreviation served_client :: "('w, event, client_mem) io_state \<Rightarrow> Client" where
  "served_client s \<equiv> dc_Client (clm_data (mem s))"


lemma wp_ProcessResources:
  assumes "resources_server env a realm i names owner"
    and "reads_keep env a names" and "k8s_keeps env names"
    and "client_lookup env a realm (acl_ClientId (served_client s)) i" and "acl_Authorization (served_client s) = Some authz"
  shows "wp True (ProcessResources_Serve env a realm) (\<lambda>_ t. names (world t) = rsc_Name ` set (azn_Resources authz) \<union>
     {n \<in> names (world s). acl_ReconciliationStrategy (served_client s) = ReconciliationStrategyAddOnly \<or> n = ''Default Resource''}) (\<lambda>_ _. True) s"
  unfolding ProcessResources_Serve_def Let_def ProcessResources_setSuccessCondition_def
  by (rule wp_with_authorization [OF assms(2,4,5)])
    (rule resources.wp_crud [OF assms(1) wp_toResourceRepresentation [OF assms(2)] assms(3)])


lemma wp_ProcessPolicy:
  assumes "policies_server env a realm i names owner"
    and "reads_keep env a names" and "k8s_keeps env names"
    and "client_lookup env a realm (acl_ClientId (served_client s)) i" and "acl_Authorization (served_client s) = Some authz"
  shows "wp True (ProcessPolicy_Serve env a realm) (\<lambda>_ t. names (world t) = plc_Name ` set (azn_Policies authz) \<union>
     {n \<in> names (world s). acl_ReconciliationStrategy (served_client s) = ReconciliationStrategyAddOnly \<or> n = ''Default Policy''}) (\<lambda>_ _. True) s"
  unfolding ProcessPolicy_Serve_def Let_def ProcessPolicy_setSuccessCondition_def
  by (rule wp_with_authorization [OF assms(2,4,5)])
    (rule policies.wp_crud [OF assms(1) wp_toPolicyRepresentation [OF assms(2)] assms(3)])

text \<open>
  When \<open>ProcessPolicy\<close> succeeds, the policies of the client in Keycloak are those of the resource
  and, if it was there, the default policy; with the add-only strategy, also all others that were there.
\<close>

theorem ProcessPolicy_correct:
  assumes "policies_server env a realm i names owner"
    and "reads_keep env a names" and "k8s_keeps env names"
    and "client_lookup env a realm (acl_ClientId (served_client s)) i" and "acl_Authorization (served_client s) = Some authz"
    and "ProcessPolicy_Serve env a realm s = (Ok (), s')"
  shows "names (world s') = plc_Name ` set (azn_Policies authz) \<union>
     {n \<in> names (world s). acl_ReconciliationStrategy (served_client s) = ReconciliationStrategyAddOnly \<or> n = ''Default Policy''}"
  by (rule wp_OkD [OF wp_ProcessPolicy [OF assms(1-5)] assms(6)])

lemma wp_ProcessPermissions:
  assumes "permissions_server env a realm i names owner"
    and "reads_keep env a names" and "k8s_keeps env names"
    and "client_lookup env a realm (acl_ClientId (served_client s)) i" and "acl_Authorization (served_client s) = Some authz"
  shows "wp True (ProcessPermissions_Serve env a realm) (\<lambda>_ t. names (world t) = prm_Name ` set (azn_Permissions authz) \<union>
     {n \<in> names (world s). acl_ReconciliationStrategy (served_client s) = ReconciliationStrategyAddOnly \<or> n = ''Default Permission''}) (\<lambda>_ _. True) s"
  unfolding ProcessPermissions_Serve_def Let_def ProcessPermissions_setSuccessCondition_def
  by (rule wp_with_authorization [OF assms(2,4,5)])
    (rule permissions.wp_crud [OF assms(1) wp_toPermissionRepresentation [OF assms(2)] assms(3)])


section \<open>A concrete Keycloak\<close>

text \<open>
  Settings are kept by name, the id of an entry is its name, and there is one client. Every request is
  answered; there are no users, groups and roles.
\<close>

record authz_world =
  aw_scopes :: "string list"
  aw_resources :: "string list"
  aw_policies :: "string list"
  aw_permissions :: "string list"

definition shown_scope :: "string \<Rightarrow> gocloak_Scope" where
  "shown_scope n = \<lparr>gsc_ID = Some n, gsc_Name = Some n, gsc_rest = []\<rparr>"

definition zero_Resource :: gocloak_Resource where
  "zero_Resource = \<lparr>grs_ID = None, grs_Name = None, grs_DisplayName = None, grs_Type = None, grs_IconURI = None,
     grs_OwnerManagedAccess = None, grs_URIs = None, grs_Attributes = None, grs_Scopes = None, grs_rest = []\<rparr>"

definition zero_gpo :: gocloak_Policy where
  "zero_gpo = \<lparr>gpo_ID = None, gpo_Name = None, gpo_Type = None, gpo_Description = None, gpo_DecisionStrategy = None, gpo_Logic = None,
      gpo_AggregatedPolicies = None, gpo_Clients = None, gpo_Groups = None, gpo_GroupsClaim = None, gpo_Roles = None,
      gpo_Time = zero_TimePolicy, gpo_Users = None, gpo_rest = []\<rparr>"

definition zero_gpm :: gocloak_Permission where
  "zero_gpm = \<lparr>gpm_ID = None, gpm_Name = None, gpm_Type = None, gpm_Description = None, gpm_DecisionStrategy = None, gpm_Logic = None,
      gpm_Resources = None, gpm_Policies = None, gpm_Scopes = None, gpm_rest = []\<rparr>"

fun authz_op :: "gocloak_authz_op \<Rightarrow> authz_world \<Rightarrow> gocloak_result \<times> authz_world" where
  "authz_op (GetScopesOp _) w = (GocloakScopes (map (\<lambda>n. Some (shown_scope n)) (aw_scopes w)), w)"
| "authz_op (CreateScopeOp x) w = (NoGocloak, w\<lparr>aw_scopes := the (gsc_Name x) # aw_scopes w\<rparr>)"
| "authz_op (DeleteScopeOp i) w = (NoGocloak, w\<lparr>aw_scopes := removeAll i (aw_scopes w)\<rparr>)"
| "authz_op (GetResourcesOp _) w =
    (GocloakResources (map (\<lambda>n. Some (zero_Resource\<lparr>grs_ID := Some n, grs_Name := Some n\<rparr>)) (aw_resources w)), w)"
| "authz_op (CreateResourceOp x) w = (NoGocloak, w\<lparr>aw_resources := the (grs_Name x) # aw_resources w\<rparr>)"
| "authz_op (DeleteResourceOp i) w = (NoGocloak, w\<lparr>aw_resources := removeAll i (aw_resources w)\<rparr>)"
| "authz_op (GetPoliciesOp _) w = (GocloakPolicies (map (\<lambda>n. zero_gpo\<lparr>gpo_ID := Some n, gpo_Name := Some n\<rparr>) (aw_policies w)), w)"
| "authz_op (CreatePolicyOp x) w = (NoGocloak, w\<lparr>aw_policies := the (gpo_Name x) # aw_policies w\<rparr>)"
| "authz_op (DeletePolicyOp i) w = (NoGocloak, w\<lparr>aw_policies := removeAll i (aw_policies w)\<rparr>)"
| "authz_op (CreatePermissionOp x) w = (NoGocloak, w\<lparr>aw_permissions := the (gpm_Name x) # aw_permissions w\<rparr>)"
| "authz_op (DeletePermissionOp i) w = (NoGocloak, w\<lparr>aw_permissions := removeAll i (aw_permissions w)\<rparr>)"
| "authz_op _ w = (NoGocloak, w)"

fun authz_gocloak :: "gocloak_request \<Rightarrow> authz_world \<Rightarrow> gocloak_result \<times> authz_world" where
  "authz_gocloak (GocloakGetClients _ _ _) w =
    (GocloakClients [zero_gocloak_Client\<lparr>gcl_ID := Some ''cid'', gcl_ClientID := Some ''app''\<rparr>], w)"
| "authz_gocloak (GocloakGetPermissions _ _ _ _) w =
    (GocloakPermissions (map (\<lambda>n. Some (zero_gpm\<lparr>gpm_ID := Some n, gpm_Name := Some n\<rparr>)) (aw_permissions w)), w)"
| "authz_gocloak (GocloakAuthzOp _ _ _ rq) w = authz_op rq w"
| "authz_gocloak _ w = (NoGocloak, w)"

definition authz_env :: "authz_world env" where
  "authz_env = idle_env\<lparr>gocloak := (\<lambda>cl rq w. case authz_gocloak rq w of (r, w') \<Rightarrow> (Inr r, w')),
     k8s := (\<lambda>rq w. (case rq of KStatusUpdate x \<Rightarrow> Inr x | _ \<Rightarrow> Inl (NewError ''refused''), w))\<rparr>"

lemma authz_env_reads: "reads_keep authz_env a names"
proof -
  have same: "snd (authz_gocloak rq w) = w" if "reading rq" for rq w
    using that by (cases rq rule: reading.cases) simp_all
  have "names w' = names w" if "\<forall>t. reading (rq t)" and "gocloak_sent authz_env a rq w r w'" for rq w r w'
  proof -
    from that(2) obtain t where "snd (authz_gocloak (rq t) w) = w'"
      unfolding gocloak_sent_def authz_env_def by (auto simp: case_prod_beta)
    with same [of "rq t" w] that(1) show ?thesis by simp
  qed
  then show ?thesis unfolding reads_keep_def by blast
qed

lemma authz_env_k8s: "k8s_keeps authz_env names"
  by (simp add: k8s_keeps_def authz_env_def)

lemma authz_env_client: "client_lookup authz_env a realm ''app'' ''cid''"
  by (simp add: client_lookup_def gocloak_sent_def authz_env_def gocloak_clients_def)

lemma non_nil_map_Some [simp]: "non_nil (map (\<lambda>x. Some (f x)) xs) = map f xs"
  by (simp add: non_nil_def List.map_filter_def comp_def)

lemmas authz_env_simps = settings_server_def gocloak_sent_def authz_env_def gocloak_scopes_def gocloak_resources_def
  gocloak_policies_def gocloak_permissions_def shown_scope_def

lemma authz_env_scopes: "scopes_server authz_env a realm i (\<lambda>w. set (aw_scopes w)) id"
  by (auto simp: authz_env_simps)

lemma authz_env_resources: "resources_server authz_env a realm i (\<lambda>w. set (aw_resources w)) id"
  by (auto simp: authz_env_simps)

lemma authz_env_policies: "policies_server authz_env a realm i (\<lambda>w. set (aw_policies w)) id"
  by (auto simp: authz_env_simps)

lemma authz_env_permissions: "permissions_server authz_env a realm i (\<lambda>w. set (aw_permissions w)) id"
  by (auto simp: authz_env_simps)

definition test_authz :: Authorization where
  "test_authz = \<lparr>azn_Scopes = [''read'', ''write''],
     azn_Policies = [\<lparr>plc_Type = ''aggregate'', plc_Name = ''all'', plc_Description = '''', plc_DecisionStrategy = '''', plc_Logic = '''',
       plc_AggregatedPolicy = Some [''Default Policy''], plc_ClientPolicy = None, plc_GroupPolicy = None, plc_RolePolicy = None,
       plc_TimePolicy = None, plc_UserPolicy = None\<rparr>],
     azn_Permissions = [\<lparr>prm_Name = ''p'', prm_Type = ''scope'', prm_DecisionStrategy = '''', prm_Description = '''', prm_Logic = '''',
       prm_Policies = [''Default Policy''], prm_Resources = [''Default Resource''], prm_Scopes = [''read'']\<rparr>],
     azn_Resources = [\<lparr>rsc_Name = ''doc'', rsc_DisplayName = '''', rsc_Type = '''', rsc_IconURI = '''', rsc_OwnerManagedAccess = False,
       rsc_URIs = [''/doc''], rsc_Attributes = [(''a'', [''1''])], rsc_Scopes = [''read'']\<rparr>]\<rparr>"

definition authz_state :: "(authz_world, event, client_mem) io_state" where
  "authz_state = \<lparr>world = \<lparr>aw_scopes = [''old'', ''read''], aw_resources = [''Default Resource'', ''old''],
       aw_policies = [''Default Policy'', ''old''], aw_permissions = [''Default Permission'', ''old'', ''p'']\<rparr>, trace = [],
     mem = \<lparr>clm_client = test_client_cr, clm_scopeID = '''',
       clm_data = \<lparr>dc_Client = test_client\<lparr>acl_Authorization := Some test_authz\<rparr>, dc_ClientIndex = 0, dc_Namespace = '''', dc_ClientID = ''cid'', dc_Generation = 1\<rparr>\<rparr>\<rparr>"

lemma authz_state_client: "client_lookup authz_env test_adapter ''r'' (acl_ClientId (served_client authz_state)) ''cid''"
  "acl_Authorization (served_client authz_state) = Some test_authz"
  "acl_ReconciliationStrategy (served_client authz_state) \<noteq> ReconciliationStrategyAddOnly"
  using authz_env_client by (simp_all add: authz_state_def test_client_def ReconciliationStrategyAddOnly_def)



theorem ProcessPolicy_witness:
  "set (aw_policies (world (snd (ProcessPolicy_Serve authz_env test_adapter ''r'' authz_state)))) = {''all'', ''Default Policy''}"
proof -
  let ?r = "ProcessPolicy_Serve authz_env test_adapter ''r'' authz_state"
  have "fst ?r = Ok ()" by code_simp
  then have "?r = (Ok (), snd ?r)" by (metis prod.collapse)
  from ProcessPolicy_correct [OF authz_env_policies authz_env_reads authz_env_k8s authz_state_client(1,2) this] show ?thesis
    using authz_state_client(3) by (auto simp: test_authz_def authz_state_def)
qed


end
