(* ===== verification/ClientProps.thy ===== *)
theory ClientProps
  imports AuthzProps
begin

text \<open>
  Properties of the controller for clients and of the handlers for a client itself: what is reported,
  what happens to the client, its secret and its roles in Keycloak, and what is removed with a client
  that a resource no longer names.
\<close>

section \<open>What a reconciliation reports\<close>

lemma client_failed_status:
  assumes "client_failed env err k = (delay, k')" and "conditions_ok env"
  shows "delay = 10000000000 * (kct_FailureCount (kcl_Status k) + 1)"
    and "kct_FailureCount (kcl_Status k') = kct_FailureCount (kcl_Status k) + 1"
    and "kct_Error (kcl_Status k') = Error err" and "kct_Phase (kcl_Status k') = PhaseFailed"
    and "map_option cond_Status (find_condition (kct_Conditions (kcl_Status k')) ConditionReady) = Some ''False''"
    and "kcl_Spec k' = kcl_Spec k" and "kcl_Meta k' = kcl_Meta k"
  using assms client_status.failure_counted [OF assms(1) [unfolded client_failed_def Let_def]]
  by (auto simp: client_failed_def SetFailureCount_helper_def ready_condition_def client_GetFailureCount_def
      client_SetFailureCount_def conditions_ok_def Let_def)

lemma client_succeeded_status:
  assumes "conditions_ok env"
  shows "kct_FailureCount (kcl_Status (client_succeeded env k)) = 0" and "kct_Error (kcl_Status (client_succeeded env k)) = ''''"
    and "kct_Phase (kcl_Status (client_succeeded env k)) = PhaseCompleted"
    and "map_option cond_Status (find_condition (kct_Conditions (kcl_Status (client_succeeded env k))) ConditionReady) = Some ''True''"
  using assms
  by (simp_all add: client_succeeded_def SetSuccessStatus_def ready_condition_def client_SetFailureCount_def client_SetPhase_def
      client_SetError_def conditions_ok_def Let_def)

text \<open>
  C25. Every attempt on a client resource is reported by one last status update: a failure as not ready,
  with phase \<open>Failed\<close>, the text of the error and one more failure, to be tried again after ten seconds
  per failure; a success as ready, \<open>Completed\<close>, with no error and no failures, to be looked at again
  after the configured time. Only an error of that update is returned. An unavailable Keycloak is not
  reported but tried again after a minute.
\<close>

theorem client_Reconcile_reports:
  assumes "conditions_ok env" and "get_client_cr env ns name s = (Ok inst, s1)"
    and "client_tryReconcile depth env h (s1\<lparr>mem := (mem s1)\<lparr>clm_client := inst\<rparr>\<rparr>) = (r, s2)" and "r \<noteq> Panic"
    and "client_Reconcile depth env h timeout ns name s = (r', s')"
  shows "if \<exists>e. r = Err e \<and> errors_Is e ErrKeycloakIsNotAvailable
     then (r', s') = (Ok (RequeueOnKeycloakNotAvailable, None), s2)
     else \<exists>x delay err. trace s' = trace s2 @ [Kube (KStatusUpdate (ClientObj x))] \<and>
       r' = Ok (\<lparr>RequeueAfter = delay\<rparr>, err) \<and> (\<forall>e. err = Some e \<longrightarrow> (\<exists>e'. e = Wrapped ''unable to update status: '' e')) \<and>
       map_option cond_Status (find_condition (kct_Conditions (kcl_Status x)) ConditionReady) =
         Some (if \<exists>e. r = Err e then ''False'' else ''True'') \<and>
       (case r of
          Err e \<Rightarrow> kct_Error (kcl_Status x) = Error e \<and> kct_Phase (kcl_Status x) = PhaseFailed \<and>
            kct_FailureCount (kcl_Status x) = kct_FailureCount (kcl_Status (clm_client (mem s2))) + 1 \<and>
            delay = 10000000000 * kct_FailureCount (kcl_Status x)
        | _ \<Rightarrow> kct_Error (kcl_Status x) = '''' \<and> kct_Phase (kcl_Status x) = PhaseCompleted \<and>
            kct_FailureCount (kcl_Status x) = 0 \<and> delay = timeout)"
proof (cases "\<exists>e. r = Err e \<and> errors_Is e ErrKeycloakIsNotAvailable")
  case True
  with assms(2-5) show ?thesis by (auto simp: client_Reconcile_def bindIO_def tryIO_def modMem_def ret_def)
next
  case False
  let ?k = "clm_client (mem s2)"
  obtain delay x where x: "(case r of Err e \<Rightarrow> client_failed env e ?k | _ \<Rightarrow> (timeout, client_succeeded env ?k)) = (delay, x)"
    by (metis surj_pair)
  have "trace s' = trace s2 @ [Kube (KStatusUpdate (ClientObj x))] \<and> (\<exists>err. r' = Ok (\<lparr>RequeueAfter = delay\<rparr>, err) \<and>
      (\<forall>e. err = Some e \<longrightarrow> (\<exists>e'. e = Wrapped ''unable to update status: '' e')))"
    using assms(2-5) False x
    by (auto simp: client_Reconcile_def k8s_StatusUpdate_def client_obj_def go_simps split: outcome.splits prod.splits sum.splits)
  moreover have "map_option cond_Status (find_condition (kct_Conditions (kcl_Status x)) ConditionReady) =
      Some (if \<exists>e. r = Err e then ''False'' else ''True'')"
    using x client_failed_status(5) [OF _ assms(1)] client_succeeded_status(4) [OF assms(1), of ?k]
    by (auto split: outcome.splits)
  moreover have "case r of
      Err e \<Rightarrow> kct_Error (kcl_Status x) = Error e \<and> kct_Phase (kcl_Status x) = PhaseFailed \<and>
        kct_FailureCount (kcl_Status x) = kct_FailureCount (kcl_Status ?k) + 1 \<and> delay = 10000000000 * kct_FailureCount (kcl_Status x)
    | _ \<Rightarrow> kct_Error (kcl_Status x) = '''' \<and> kct_Phase (kcl_Status x) = PhaseCompleted \<and>
        kct_FailureCount (kcl_Status x) = 0 \<and> delay = timeout"
    using x client_failed_status(1-4) [OF _ assms(1)] client_succeeded_status(1-3) [OF assms(1), of ?k]
    by (auto split: outcome.splits)
  ultimately show ?thesis unfolding if_not_P [OF False] by blast
qed

section \<open>The secret of a client\<close>

text \<open>Decoding, the inverse that RFC 4648 gives: what the generated text stands for.\<close>

definition secret_digit :: "char \<Rightarrow> nat" where
  "secret_digit c =
     (if c = CHR ''-'' then 62 else if c = CHR ''_'' then 63
      else let n = of_char c in if 97 \<le> n then n - 71 else if 65 \<le> n then n - 65 else n + 4)"

fun secret_bytes :: "string \<Rightarrow> nat list" where
  "secret_bytes (w # x # y # z # cs) =
     (let a = secret_digit w * 4 + secret_digit x div 16; b = secret_digit x mod 16 * 16 + secret_digit y div 4; c = secret_digit y mod 4 * 64 + secret_digit z
      in if y = CHR ''='' then [a] else if z = CHR ''='' then [a, b] else a # b # c # secret_bytes cs)"
| "secret_bytes _ = []"

definition url_safe :: "char \<Rightarrow> bool" where
  "url_safe c \<longleftrightarrow> (let n = of_char c :: nat in n \<in> {48..57} \<union> {65..90} \<union> {97..122}) \<or> c \<in> {CHR ''-'', CHR ''_'', CHR ''=''}"

lemma url_safe_pad: "url_safe (CHR ''='')"
  by (simp add: url_safe_def)

lemma char_of_neq: "n < 256 \<Longrightarrow> n \<noteq> of_char c \<Longrightarrow> char_of (n :: nat) \<noteq> c"
  by (metis mod_less of_char_of)

lemma b64_char_laws:
  assumes "n < 64"
  shows "secret_digit (b64_char n) = n \<and> b64_char n \<noteq> CHR ''='' \<and> url_safe (b64_char n)"
proof -
  consider "n < 26" | "26 \<le> n" "n < 52" | "52 \<le> n" "n < 62" | "n = 62" | "n = 63" using assms by linarith
  then show ?thesis
    by cases (auto simp: b64_char_def secret_digit_def url_safe_def char_of_neq Let_def)
qed

lemma split_digits:
  fixes x y k :: nat
  assumes "y < k"
  shows "(x * k + y) div k = x" and "(x * k + y) mod k = y"
  using assms by simp_all

lemma b64_pieces:
  fixes a b c :: nat
  assumes "a < 256" "b < 256" "c < 256"
  shows "a div 4 < 64" "a mod 4 * 16 + b div 16 < 64" "b mod 16 * 4 + c div 64 < 64" "c mod 64 < 64"
    "a mod 4 * 16 < 64" "b mod 16 * 4 < 64"
    "a div 4 * 4 + (a mod 4 * 16 + b div 16) div 16 = a" "(a mod 4 * 16 + b div 16) mod 16 * 16 + (b mod 16 * 4 + c div 64) div 4 = b"
    "(b mod 16 * 4 + c div 64) mod 4 * 64 + c mod 64 = c" "a div 4 * 4 + a mod 4 * 16 div 16 = a"
    "(a mod 4 * 16 + b div 16) mod 16 * 16 + b mod 16 * 4 div 4 = b"
proof -
  have lt: "a div 4 < 64" "b div 16 < 16" "c div 64 < 4" using assms by (simp_all add: less_mult_imp_div_less)
  have md: "a mod 4 < 4" "b mod 16 < 16" "c mod 64 < 64" by simp_all
  show "a div 4 < 64" "c mod 64 < 64" by (rule lt(1), rule md(3))
  show "a mod 4 * 16 + b div 16 < 64" "b mod 16 * 4 + c div 64 < 64" "a mod 4 * 16 < 64" "b mod 16 * 4 < 64"
    using lt md by linarith+
  show "a div 4 * 4 + (a mod 4 * 16 + b div 16) div 16 = a" "a div 4 * 4 + a mod 4 * 16 div 16 = a"
    by (simp_all only: split_digits [OF lt(2)] nonzero_mult_div_cancel_right [of 16] div_mult_mod_eq numeral_neq_zero not_False_eq_True)
  show "(a mod 4 * 16 + b div 16) mod 16 * 16 + (b mod 16 * 4 + c div 64) div 4 = b"
    "(a mod 4 * 16 + b div 16) mod 16 * 16 + b mod 16 * 4 div 4 = b"
    by (simp_all only: split_digits [OF lt(2)] split_digits [OF lt(3)] nonzero_mult_div_cancel_right [of 4] div_mult_mod_eq numeral_neq_zero not_False_eq_True)
  show "(b mod 16 * 4 + c div 64) mod 4 * 64 + c mod 64 = c"
    by (simp only: split_digits [OF lt(3)] div_mult_mod_eq)
qed

lemma secret_bytes_encode:
  "\<forall>b \<in> set bs. b < 256 \<Longrightarrow> secret_bytes (b64_encode bs) = bs"
proof (induction bs rule: b64_encode.induct)
  case (1 a b c bs)
  then have lt: "a < 256" "b < 256" "c < 256" by simp_all
  note p = b64_pieces [OF lt]
  show ?case using 1 b64_char_laws [OF p(1)] b64_char_laws [OF p(2)] b64_char_laws [OF p(3)] b64_char_laws [OF p(4)] p(7-9)
    by (simp add: Let_def)
next
  case (2 a b)
  then have lt: "a < 256" "b < 256" "b < 256" by simp_all
  note p = b64_pieces [OF lt]
  show ?case using b64_char_laws [OF p(1)] b64_char_laws [OF p(2)] b64_char_laws [OF p(6)] p(7,11)
    by (simp add: Let_def)
next
  case (3 a)
  then have lt: "a < 256" "a < 256" "a < 256" by simp_all
  note p = b64_pieces [OF lt]
  show ?case using b64_char_laws [OF p(1)] b64_char_laws [OF p(5)] p(10) by (simp add: Let_def)
qed simp

lemma length_b64_encode: "length (b64_encode bs) = (length bs + 2) div 3 * 4"
proof (induction bs rule: b64_encode.induct)
  case (1 a b c bs)
  have "(length bs + 2 + 3) div 3 = (length bs + 2) div 3 + 1" by simp
  with 1 show ?case by (simp add: add.commute)
qed simp_all

lemma b64_encode_safe: "\<forall>b \<in> set bs. b < 256 \<Longrightarrow> \<forall>c \<in> set (b64_encode bs). url_safe c"
proof (induction bs rule: b64_encode.induct)
  case (1 a b c bs)
  then have lt: "a < 256" "b < 256" "c < 256" by simp_all
  note p = b64_pieces [OF lt]
  show ?case using 1 b64_char_laws [OF p(1)] b64_char_laws [OF p(2)] b64_char_laws [OF p(3)] b64_char_laws [OF p(4)] by simp
next
  case (2 a b)
  then have lt: "a < 256" "b < 256" "b < 256" by simp_all
  note p = b64_pieces [OF lt]
  show ?case using b64_char_laws [OF p(1)] b64_char_laws [OF p(2)] b64_char_laws [OF p(6)] by (simp add: url_safe_pad)
next
  case (3 a)
  then have lt: "a < 256" "a < 256" "a < 256" by simp_all
  note p = b64_pieces [OF lt]
  show ?case using b64_char_laws [OF p(1)] b64_char_laws [OF p(5)] by (simp add: url_safe_pad)
qed simp


definition dice_env :: "unit env" where
  "dice_env = idle_env\<lparr>rand_Read := (\<lambda>n w. (Inr (replicate n (CHR 0xFF)), w))\<rparr>"



section \<open>Clients and scopes a resource no longer names\<close>

fun deletes_client :: "event \<Rightarrow> bool" where
  "deletes_client (Gocloak _ (GocloakClientOp _ _ _ DeleteClientOp)) = True"
| "deletes_client _ = False"

lemmas scope_delete_defs = DeleteClientScope_def setClientScopeType_def unless_missing_def unsetOptionalClientScopeForRealm_def
  unsetDefaultClientScopeForRealm_def setDefaultClientScopeForRealm_def setOptionalClientScopeForRealm_def

lemma flush_scope_emits:
  assumes "\<And>m name. P m \<Longrightarrow> P (set_client_status (unlist_scope name) m)"
  shows "emits_under P {e. \<not> deletes_client e} (flush_scope env a realm preserve spec e)"
  unfolding flush_scope_def unless_notFound_def scope_delete_defs
  by (intro emits_intros) (simp_all add: assms)

text \<open>No client has this text as the id that people use.\<close>

definition unknown_clientId :: "'w env \<Rightarrow> GoCloakAdapter \<Rightarrow> string \<Rightarrow> string \<Rightarrow> bool" where
  "unknown_clientId env a realm i \<longleftrightarrow> (\<forall>w r w'. gocloak_sent env a (\<lambda>t. GocloakGetClients t realm (Some i)) w r w' \<longrightarrow>
     find (\<lambda>item. gcl_ClientID item = Some i) (gocloak_clients r) = None)"

lemma GetClientID_unknown:
  assumes "unknown_clientId env a realm i"
  shows "wp True (GetClientID env a i realm) (\<lambda>_ _. False) (\<lambda>_ _. True) s"
  unfolding GetClientID_def wp_bindIO wp_wrapErr
proof (rule wp_withToken)
  fix r w' tr
  assume "gocloak_sent env a (\<lambda>t. GocloakGetClients t realm (Some i)) (world s) r w'"
  with assms have "find (\<lambda>item. gcl_ClientID item = Some i) (gocloak_clients r) = None" unfolding unknown_clientId_def by blast
  then show "wp True (case find (\<lambda>item. gcl_ClientID item = Some i) (gocloak_clients r) of
      Some item \<Rightarrow> derefIO (gcl_ID item)
    | None \<Rightarrow> fail (NotFoundErr (''unable to get Client ID. Client '' @ i @ '' doesn't exist''))) (\<lambda>_ _. False) (\<lambda>_ _. True) (s\<lparr>world := w', trace := tr\<rparr>)"
    by simp
qed

lemma emits_GetClientID:
  "(\<And>t. Gocloak (ga_client a) (GocloakGetClients t realm (Some i)) \<in> S) \<Longrightarrow> emits_under P S (GetClientID env a i realm)"
  unfolding GetClientID_def by (intro emits_intros)

lemma flush_client_emits:
  assumes "unknown_clientId env a realm i"
  shows "emits {e. \<not> deletes_client e} (flush_client env a realm preserve spec (name, i))"
proof -
  have unknown: "(case res of Inl _ \<Rightarrow> '''' | Inr j \<Rightarrow> j) = ''''" if "tryIO (GetClientID env a i realm) s = (Ok res, s')"
    for s :: "('a, event, client_mem) io_state" and res s'
    using that wp_OkD [OF GetClientID_unknown [OF assms, of s]]
    by (auto simp: tryIO_def split: prod.splits outcome.splits sum.splits)
  show ?thesis
    unfolding flush_client_def unless_notFound_def adapter_DeleteClient_def Let_def prod.case
    by (intro emits_intros emits_GetClientID) (auto dest: unknown)
qed

abbreviation recorded_clients :: "client_mem \<Rightarrow> string gomap" where
  "recorded_clients m \<equiv> kct_ClientIDs (kcl_Status (clm_client m))"

text \<open>The entry of a client that is not named any more is dropped, deleted or not.\<close>

lemma flush_client_mem:
  "wp True (flush_client env a realm preserve spec (name, i)) (\<lambda>_ t. recorded_clients (mem t) =
     (if name \<in> set (map (\<lambda>c. RemoveSpecialChar (acl_Name c)) (kcs_Client spec)) then recorded_clients (mem s)
      else AList.delete name (recorded_clients (mem s)))) (\<lambda>_ _. True) s"
proof -
  have "emits_under (\<lambda>m. m = m0) UNIV (bindIO (tryIO (GetClientID env a i realm)) (\<lambda>res.
      whenIO ((case res of Inl _ \<Rightarrow> '''' | Inr i \<Rightarrow> i) \<noteq> '''')
        (unless_notFound (Wrapped (''['' @ name @ ''] '' @ i @ '' client err: '')) (adapter_DeleteClient env a i realm))))" for m0 :: client_mem
    unfolding unless_notFound_def adapter_DeleteClient_def by (intro emits_intros emits_GetClientID) simp_all
  from wp_mem_kept [OF this, of s] show ?thesis
    by (auto simp: flush_client_def hasExist_def set_client_status_def unlist_client_def Let_def elim!: wp_mono)
qed

lemma wp_emits: "emits_under P S m \<Longrightarrow> P (mem s) \<Longrightarrow> wp True m (\<lambda>_ t. P (mem t)) (\<lambda>_ _. True) s"
  by (auto simp: emits_under_def wp_def split: prod.split outcome.split)

lemma keys_delete: "fst ` set (AList.delete k m) = fst ` set m - {k}"
  by (auto simp: AList.delete_eq)

lemma range_order_set: "range_order rank m s = (Ok es, s') \<Longrightarrow> set es = set m"
  using wp_OkD [OF wp_range_order [of m "\<lambda>ys _. mset ys = mset m" s True rank "\<lambda>_ _. True"]] by (metis set_mset_mset)

text \<open>
  C29. The status of a resource records the internal ids of its clients, but a flush looks a recorded id
  up as if it were the id people use. As long as no client happens to bear such an id, a flush deletes
  no client at all, and still drops every client that is not named any more from the record.
\<close>

theorem flush_forgets_clients:
  assumes "\<forall>(name, i) \<in> set (recorded_clients (mem s)). unknown_clientId env a realm i"
    and "flushResources env a realm preserve s = (Ok (), s')"
  shows "(\<exists>es. trace s' = trace s @ es \<and> (\<forall>e \<in> set es. \<not> deletes_client e)) \<and>
     fst ` set (recorded_clients (mem s')) = {name \<in> fst ` set (recorded_clients (mem s)).
       name \<in> (\<lambda>c. RemoveSpecialChar (acl_Name c)) ` set (kcs_Client (kcl_Spec (clm_client (mem s))))}"
proof -
  let ?k = "clm_client (mem s)" and ?ids = "recorded_clients (mem s)"
  let ?named = "(\<lambda>c. RemoveSpecialChar (acl_Name c)) ` set (kcs_Client (kcl_Spec ?k))"
  let ?scopes = "bindIO (range_order (map_rank env) (kct_ClientScopeIDs (kcl_Status ?k))) (forIO (flush_scope env a realm preserve (kcl_Spec ?k)))"
  let ?clients = "bindIO (range_order (map_rank env) ?ids) (forIO (flush_client env a realm preserve (kcl_Spec ?k)))"
  have run: "bindIO ?scopes (\<lambda>_. ?clients) s = (Ok (), s')"
    using assms(2) by (auto simp: flushResources_def bindIO_def getMem_def Let_def split: prod.splits outcome.splits)
  have clients_sent: "emits {e. \<not> deletes_client e} ?clients"
    using assms(1) by (intro emits_intros) (auto dest!: range_order_set intro!: flush_client_emits)
  have "emits {e. \<not> deletes_client e} ?scopes" by (intro emits_intros flush_scope_emits) simp_all
  then have "emits {e. \<not> deletes_client e} (bindIO ?scopes (\<lambda>_. ?clients))" by (rule emits_bindIO) (rule clients_sent)
  from emits_underD [OF this TrueI run] have sent: "\<exists>es. trace s' = trace s @ es \<and> (\<forall>e \<in> set es. \<not> deletes_client e)" by auto
  have scopes: "wp True ?scopes (\<lambda>_ t. recorded_clients (mem t) = ?ids) (\<lambda>_ _. True) s"
    by (rule wp_emits [where S = "{e. \<not> deletes_client e}"], intro emits_intros flush_scope_emits)
      (simp_all add: set_client_status_def unlist_scope_def)
  have clients: "wp True ?clients (\<lambda>_ t'. fst ` set (recorded_clients (mem t')) = {n \<in> fst ` set ?ids. n \<in> ?named}) (\<lambda>_ _. True) t"
    if t: "recorded_clients (mem t) = ?ids" for t
    unfolding wp_bindIO
  proof (rule wp_range_order)
    fix es
    assume "mset es = mset ?ids"
    then have es: "set es = set ?ids" by (metis set_mset_mset)
    show "wp True (forIO (flush_client env a realm preserve (kcl_Spec ?k)) es)
        (\<lambda>_ t'. fst ` set (recorded_clients (mem t')) = {n \<in> fst ` set ?ids. n \<in> ?named}) (\<lambda>_ _. True) t"
    proof (rule wp_forIO [where I = "\<lambda>vis t'. fst ` set (recorded_clients (mem t')) = {n \<in> fst ` set ?ids. n \<in> ?named \<or> n \<notin> fst ` set vis}"])
      fix vis rest :: "string gomap" and e :: "string \<times> string" and t' :: "('a, event, client_mem) io_state"
      assume I: "fst ` set (recorded_clients (mem t')) = {n \<in> fst ` set ?ids. n \<in> ?named \<or> n \<notin> fst ` set vis}"
      obtain name i where e: "e = (name, i)" by (cases e)
      show "wp True (flush_client env a realm preserve (kcl_Spec ?k) e) (\<lambda>_ t''. fst ` set (recorded_clients (mem t'')) =
          {n \<in> fst ` set ?ids. n \<in> ?named \<or> n \<notin> fst ` set (vis @ [e])}) (\<lambda>_ _. True) t'"
        unfolding e by (rule wp_weaken [OF flush_client_mem]) (use I in \<open>auto simp: keys_delete split: if_splits\<close>)
    qed (use t es in auto)
  qed
  have "wp True (bindIO ?scopes (\<lambda>_. ?clients)) (\<lambda>_ t'. fst ` set (recorded_clients (mem t')) = {n \<in> fst ` set ?ids. n \<in> ?named}) (\<lambda>_ _. True) s"
    unfolding wp_bindIO [of True ?scopes] by (rule wp_weaken [OF scopes]) (rule clients)
  from wp_OkD [OF this run] sent show ?thesis by blast
qed

text \<open>A resource that once had a second client, in a Keycloak where that client still is.\<close>

definition flushed_cr :: KeycloakClient where
  "flushed_cr = test_client_cr\<lparr>kcl_Status := (kcl_Status test_client_cr)\<lparr>kct_ClientIDs := [(''app'', ''cid''), (''gone'', ''gid'')]\<rparr>\<rparr>"

definition flushed_state :: "(authz_world, event, client_mem) io_state" where
  "flushed_state = authz_state\<lparr>mem := (mem authz_state)\<lparr>clm_client := flushed_cr\<rparr>\<rparr>"

theorem flush_forgets_clients_witness:
  "fst ` set (recorded_clients (mem (snd (flushResources authz_env test_adapter ''r'' False flushed_state)))) = {''app''} \<and>
   filter deletes_client (trace (snd (flushResources authz_env test_adapter ''r'' False flushed_state))) = []"
proof -
  let ?r = "flushResources authz_env test_adapter ''r'' False flushed_state"
  have "fst ?r = Ok ()" by code_simp
  then have run: "?r = (Ok (), snd ?r)" by (metis prod.collapse)
  have ids: "recorded_clients (mem flushed_state) = [(''app'', ''cid''), (''gone'', ''gid'')]"
    and spec: "kcs_Client (kcl_Spec (clm_client (mem flushed_state))) = [test_client]" and tr: "trace flushed_state = []"
    by (simp_all add: flushed_state_def flushed_cr_def test_client_cr_def authz_state_def)
  have name: "RemoveSpecialChar (acl_Name test_client) = ''app''" by code_simp
  have "unknown_clientId authz_env test_adapter ''r'' ''cid''" "unknown_clientId authz_env test_adapter ''r'' ''gid''"
    by (simp_all add: unknown_clientId_def gocloak_sent_def authz_env_def gocloak_clients_def)
  then have "\<forall>(name, i) \<in> set (recorded_clients (mem flushed_state)). unknown_clientId authz_env test_adapter ''r'' i"
    by (simp add: ids)
  from flush_forgets_clients [OF this run] show ?thesis by (simp add: ids spec tr name filter_empty_conv) auto
qed

section \<open>A failing run\<close>

text \<open>A cluster that has the resource and nothing it refers to.\<close>

definition failing_env :: "unit env" where
  "failing_env = idle_env\<lparr>k8s := (\<lambda>rq w. (case rq of KGet KindClient _ _ \<Rightarrow> Inr (ClientObj test_client_cr) | KStatusUpdate x \<Rightarrow> Inr x
     | _ \<Rightarrow> Inl (NewError ''refused''), w))\<rparr>"

definition failing_state :: "(unit, event, client_mem) io_state" where
  "failing_state = \<lparr>world = (), trace = [], mem = mem authz_state\<rparr>"

definition test_conf :: HelperConf where
  "test_conf = \<lparr>h_watchNamespace = '''', h_enableOwnerRef = False\<rparr>"

theorem client_Reconcile_reports_witness:
  "\<exists>x. last (trace (snd (client_Reconcile 3 failing_env test_conf 7 ''ns'' ''c'' failing_state))) = Kube (KStatusUpdate (ClientObj x)) \<and>
     kct_Phase (kcl_Status x) = PhaseFailed \<and> kct_FailureCount (kcl_Status x) = 1"
proof -
  let ?s1 = "failing_state\<lparr>trace := [Kube (KGet KindClient ''ns'' ''c'')]\<rparr>"
  have get: "get_client_cr failing_env ''ns'' ''c'' failing_state = (Ok test_client_cr, ?s1)"
    by (simp add: get_client_cr_def k8s_Get_def failing_env_def failing_state_def go_simps)
  have ok: "conditions_ok failing_env" using idle_env_conditions by (simp add: conditions_ok_def failing_env_def)
  let ?r = "client_tryReconcile 3 failing_env test_conf (?s1\<lparr>mem := (mem ?s1)\<lparr>clm_client := test_client_cr\<rparr>\<rparr>)"
  have "case fst ?r of Err e \<Rightarrow> \<not> errors_Is e ErrKeycloakIsNotAvailable | _ \<Rightarrow> False" by code_simp
  then obtain e where e: "fst ?r = Err e" and here: "\<not> errors_Is e ErrKeycloakIsNotAvailable" by (auto split: outcome.splits)
  have count: "kct_FailureCount (kcl_Status (clm_client (mem (snd ?r)))) = 0" by code_simp
  from e have run: "?r = (Err e, snd ?r)" by (metis prod.collapse)
  from client_Reconcile_reports [where timeout = 7, OF ok get run _ surjective_pairing] here count show ?thesis by auto
qed

section \<open>Attributes of protected resources\<close>

fun attribute_free :: "event \<Rightarrow> bool" where
  "attribute_free (Gocloak _ (GocloakAuthzOp _ _ _ (CreateResourceOp x))) \<longleftrightarrow> grs_Attributes x = None"
| "attribute_free (Gocloak _ (GocloakAuthzOp _ _ _ (UpdateResourceOp x))) \<longleftrightarrow> grs_Attributes x = None"
| "attribute_free _ \<longleftrightarrow> True"

lemma emits_try_SetCondition:
  assumes "range (\<lambda>x. Kube (KStatusUpdate x)) \<subseteq> S"
  shows "emits S (try_SetCondition env c st r msg)"
  unfolding try_SetCondition_def client_SetCondition_def Let_def
  by (intro emits_intros) (simp_all add: assms obj_stable_def)

lemma emits_reporting:
  assumes "emits S m" and "\<And>msg. emits S (setFailureCondition msg)"
  shows "emits S (reporting setFailureCondition what m)"
  unfolding reporting_def by (intro emits_intros assms)

lemma represented_without_attributes:
  assumes "wrapErr p (reporting setF what (toResourceRepresentation env a d i realm)) s = (Ok x, s')"
  shows "grs_Attributes x = None"
proof -
  have "wp True (toResourceRepresentation env a d i realm) (\<lambda>x _. grs_Attributes x = None) (\<lambda>_ _. True) s"
    by (auto simp: toResourceRepresentation_def resource_mapScopes_def getBaseResourceRepresentation_def liftIO_def
        split: sum.split intro!: wp_mono [OF wp_trivial [of "GetScopes _ _ _ _"]])
  then have "wp True (wrapErr p (reporting setF what (toResourceRepresentation env a d i realm))) (\<lambda>x _. grs_Attributes x = None) (\<lambda>_ _. True) s"
    by (simp add: wp_reporting)
  from wp_OkD [OF this assms] show ?thesis .
qed

lemma process_resource_emits: "emits {e. attribute_free e} (process_resource env a realm i d existing)"
proof -
  have setF: "emits {e. attribute_free e} (ProcessResources_setFailureCondition env msg)" for msg
    unfolding ProcessResources_setFailureCondition_def by (rule emits_try_SetCondition) auto
  have conv: "emits {e. attribute_free e} (toResourceRepresentation env a d i realm)"
    unfolding toResourceRepresentation_def resource_mapScopes_def GetScopes_def authzOp_def by (intro emits_intros) simp
  show ?thesis
    unfolding process_resource_def Let_def UpdateResource_def CreateResource_def authzOp_def
    by (intro emits_intros emits_reporting setF conv) (auto dest: represented_without_attributes)
qed

text \<open>
  The attributes a resource gives to a protected resource are never sent: whatever the answers and
  however the handler ends, every protected resource it creates or updates is sent without attributes.
\<close>

theorem resource_attributes_never_sent:
  "\<exists>es. trace (snd (ProcessResources_Serve env a realm s)) = trace s @ es \<and> set es \<subseteq> {e. attribute_free e}"
proof -
  have setC: "emits {e. attribute_free e} (ProcessResources_setFailureCondition env msg)"
    "emits {e. attribute_free e} (ProcessResources_setSuccessCondition env msg)" for msg
    unfolding ProcessResources_setFailureCondition_def ProcessResources_setSuccessCondition_def by (rule emits_try_SetCondition; auto)+
  have del: "emits {e. attribute_free e} (deleteResources env a rest realm i)" for rest i
    unfolding deleteResources_def delete_rest_def adapter_DeleteResource_def authzOp_def by (intro emits_intros) simp_all
  have get: "emits {e. attribute_free e} (GetResources env a realm i)" for i
    unfolding GetResources_def authzOp_def by (intro emits_intros) simp
  have "emits {e. attribute_free e} (ProcessResources_Serve env a realm)"
    unfolding ProcessResources_Serve_def Let_def with_authorization_def
    by (intro emits_intros emits_reporting emits_GetClientID setC del get process_resource_emits) simp_all
  from emits_underD [OF this TrueI surjective_pairing, of s] show ?thesis by simp
qed

end
