(* ===== verification/ClientSyncProps.thy ===== *)
theory ClientSyncProps
  imports AuthzProps
begin

text \<open>
  What the synchronisation of a client leaves in Keycloak: its roles with their composites
  (\<open>SyncClientRoles\<close>) and the client itself (\<open>PutClient\<close>).
\<close>

section \<open>Roles of a client\<close>

definition names_in :: "gocloak_Role list \<Rightarrow> string set" where
  "names_in xs = {n. \<exists>x \<in> set xs. gro_Name x = Some n}"

lemma names_in_simps [simp]: "names_in [] = {}" "names_in (xs @ ys) = names_in xs \<union> names_in ys"
  "gro_Name x = Some n \<Longrightarrow> names_in [x] = {n}"
  by (auto simp: names_in_def)

text \<open>
  The roles of a client, \<open>roles\<close>, and the names of what each is composed of, \<open>parts\<close>; \<open>rid\<close> is the id of
  the role of a name. Composites are not fixed while roles come and go, since a composite may vanish.
\<close>

definition client_roles_server ::
  "'w env \<Rightarrow> GoCloakAdapter \<Rightarrow> string \<Rightarrow> string \<Rightarrow> ('w \<Rightarrow> string set) \<Rightarrow> ('w \<Rightarrow> string \<Rightarrow> string set) \<Rightarrow> (string \<Rightarrow> string) \<Rightarrow> bool" where
  "client_roles_server env a realm i roles parts rid \<longleftrightarrow>
     (\<forall>w r w'. gocloak_sent env a (\<lambda>t. GocloakGetClientRoles t realm i 1000) w r w' \<longrightarrow> roles w' = roles w \<and>
        names_in (non_nil (gocloak_roles r)) = roles w \<and>
        (\<forall>x \<in> set (non_nil (gocloak_roles r)). \<forall>n. gro_Name x = Some n \<longrightarrow> gro_ID x = Some (rid n))) \<and>
     (\<forall>x n w r w'. gro_Name x = Some n \<longrightarrow> gocloak_sent env a (\<lambda>t. GocloakClientOp t realm i (CreateClientRoleOp x)) w r w' \<longrightarrow>
        roles w' = insert n (roles w)) \<and>
     (\<forall>x n w r w'. gro_Name x = Some n \<longrightarrow> gro_ID x = Some (rid n) \<longrightarrow>
        gocloak_sent env a (\<lambda>t. GocloakClientOp t realm i (UpdateRoleOp x)) w r w' \<longrightarrow> roles w' = roles w) \<and>
     (\<forall>n w r w'. gocloak_sent env a (\<lambda>t. GocloakClientOp t realm i (DeleteClientRoleOp n)) w r w' \<longrightarrow> roles w' = roles w - {n}) \<and>
     (\<forall>n w r w'. gocloak_sent env a (\<lambda>t. GocloakClientOp t realm i (GetClientRoleOp n)) w r w' \<longrightarrow>
        roles w' = roles w \<and> parts w' = parts w \<and> gro_Name (gocloak_role r) = Some n) \<and>
     (\<forall>n w r w'. gocloak_sent env a (\<lambda>t. GocloakRealmOp t realm (GetCompositeRolesByRoleIDOp (rid n))) w r w' \<longrightarrow>
        roles w' = roles w \<and> parts w' = parts w \<and> names_in (non_nil (gocloak_roles r)) = parts w n) \<and>
     (\<forall>n xs w r w'. gocloak_sent env a (\<lambda>t. GocloakRealmOp t realm (AddClientRoleCompositeOp (rid n) xs)) w r w' \<longrightarrow>
        roles w' = roles w \<and> parts w' = (parts w)(n := parts w n \<union> names_in xs)) \<and>
     (\<forall>n xs w r w'. gocloak_sent env a (\<lambda>t. GocloakRealmOp t realm (DeleteClientRoleCompositeOp (rid n) xs)) w r w' \<longrightarrow>
        roles w' = roles w \<and> parts w' = (parts w)(n := parts w n - names_in xs))"

text \<open>The laws one by one, as steps of a program.\<close>

lemma wp_sent:
  assumes "\<And>r w'. gocloak_sent env a rq (world s) r w' \<Longrightarrow> R r w'" and "\<And>r t. R r (world t) \<Longrightarrow> Q r t"
  shows "wp True (withToken a rq env) Q (\<lambda>_ _. True) s"
  by (rule wp_withToken) (use assms in simp)

lemma client_roles_laws:
  assumes "client_roles_server env a realm i roles parts rid"
  shows list_roles: "gocloak_sent env a (\<lambda>t. GocloakGetClientRoles t realm i 1000) w r w' \<Longrightarrow> roles w' = roles w \<and>
        names_in (non_nil (gocloak_roles r)) = roles w \<and>
        (\<forall>x \<in> set (non_nil (gocloak_roles r)). \<forall>n. gro_Name x = Some n \<longrightarrow> gro_ID x = Some (rid n))"
    and create_role: "gocloak_sent env a (\<lambda>t. GocloakClientOp t realm i (CreateClientRoleOp x)) w r w' \<Longrightarrow> gro_Name x = Some n \<Longrightarrow>
        roles w' = insert n (roles w)"
    and update_role: "gocloak_sent env a (\<lambda>t. GocloakClientOp t realm i (UpdateRoleOp x)) w r w' \<Longrightarrow> gro_Name x = Some n \<Longrightarrow>
        gro_ID x = Some (rid n) \<Longrightarrow> roles w' = roles w"
    and delete_role: "gocloak_sent env a (\<lambda>t. GocloakClientOp t realm i (DeleteClientRoleOp n)) w r w' \<Longrightarrow> roles w' = roles w - {n}"
    and get_role: "gocloak_sent env a (\<lambda>t. GocloakClientOp t realm i (GetClientRoleOp n)) w r w' \<Longrightarrow>
        roles w' = roles w \<and> parts w' = parts w \<and> gro_Name (gocloak_role r) = Some n"
    and list_composites: "gocloak_sent env a (\<lambda>t. GocloakRealmOp t realm (GetCompositeRolesByRoleIDOp (rid n))) w r w' \<Longrightarrow>
        roles w' = roles w \<and> parts w' = parts w \<and> names_in (non_nil (gocloak_roles r)) = parts w n"
    and add_composites: "gocloak_sent env a (\<lambda>t. GocloakRealmOp t realm (AddClientRoleCompositeOp (rid n) xs)) w r w' \<Longrightarrow>
        roles w' = roles w \<and> parts w' = (parts w)(n := parts w n \<union> names_in xs)"
    and delete_composites: "gocloak_sent env a (\<lambda>t. GocloakRealmOp t realm (DeleteClientRoleCompositeOp (rid n) xs)) w r w' \<Longrightarrow>
        roles w' = roles w \<and> parts w' = (parts w)(n := parts w n - names_in xs)"
proof -
  note law = assms [unfolded client_roles_server_def]
  note l1 = law [THEN conjunct1, rule_format]
  note l2 = law [THEN conjunct2, THEN conjunct1, rule_format]
  note l3 = law [THEN conjunct2, THEN conjunct2, THEN conjunct1, rule_format]
  note l4 = law [THEN conjunct2, THEN conjunct2, THEN conjunct2, THEN conjunct1, rule_format]
  note l5 = law [THEN conjunct2, THEN conjunct2, THEN conjunct2, THEN conjunct2, THEN conjunct1, rule_format]
  note l6 = law [THEN conjunct2, THEN conjunct2, THEN conjunct2, THEN conjunct2, THEN conjunct2, THEN conjunct1, rule_format]
  note l7 = law [THEN conjunct2, THEN conjunct2, THEN conjunct2, THEN conjunct2, THEN conjunct2, THEN conjunct2, THEN conjunct1, rule_format]
  note l8 = law [THEN conjunct2, THEN conjunct2, THEN conjunct2, THEN conjunct2, THEN conjunct2, THEN conjunct2, THEN conjunct2, rule_format]
  show "gocloak_sent env a (\<lambda>t. GocloakGetClientRoles t realm i 1000) w r w' \<Longrightarrow> roles w' = roles w \<and>
        names_in (non_nil (gocloak_roles r)) = roles w \<and>
        (\<forall>x \<in> set (non_nil (gocloak_roles r)). \<forall>n. gro_Name x = Some n \<longrightarrow> gro_ID x = Some (rid n))"
    by (rule l1)
  show "gocloak_sent env a (\<lambda>t. GocloakClientOp t realm i (CreateClientRoleOp x)) w r w' \<Longrightarrow> gro_Name x = Some n \<Longrightarrow>
        roles w' = insert n (roles w)"
    by (rule l2)
  show "gocloak_sent env a (\<lambda>t. GocloakClientOp t realm i (UpdateRoleOp x)) w r w' \<Longrightarrow> gro_Name x = Some n \<Longrightarrow>
        gro_ID x = Some (rid n) \<Longrightarrow> roles w' = roles w"
    by (rule l3)
  show "gocloak_sent env a (\<lambda>t. GocloakClientOp t realm i (DeleteClientRoleOp n)) w r w' \<Longrightarrow> roles w' = roles w - {n}"
    by (rule l4)
  show "gocloak_sent env a (\<lambda>t. GocloakClientOp t realm i (GetClientRoleOp n)) w r w' \<Longrightarrow>
        roles w' = roles w \<and> parts w' = parts w \<and> gro_Name (gocloak_role r) = Some n"
    by (rule l5)
  show "gocloak_sent env a (\<lambda>t. GocloakRealmOp t realm (GetCompositeRolesByRoleIDOp (rid n))) w r w' \<Longrightarrow>
        roles w' = roles w \<and> parts w' = parts w \<and> names_in (non_nil (gocloak_roles r)) = parts w n"
    by (rule l6)
  show "gocloak_sent env a (\<lambda>t. GocloakRealmOp t realm (AddClientRoleCompositeOp (rid n) xs)) w r w' \<Longrightarrow>
        roles w' = roles w \<and> parts w' = (parts w)(n := parts w n \<union> names_in xs)"
    by (rule l7)
  show "gocloak_sent env a (\<lambda>t. GocloakRealmOp t realm (DeleteClientRoleCompositeOp (rid n) xs)) w r w' \<Longrightarrow>
        roles w' = roles w \<and> parts w' = (parts w)(n := parts w n - names_in xs)"
    by (rule l8)
qed

lemma wp_existing_roles:
  assumes "client_roles_server env a realm i roles parts rid"
  shows "wp True (getExistingClientRolesMap env a realm i) (\<lambda>m t. roles (world t) = roles (world s) \<and> fst ` set m = roles (world s) \<and>
     (\<forall>(n, x) \<in> set m. gro_ID x = Some (rid n))) (\<lambda>_ _. True) s"
  unfolding getExistingClientRolesMap_def wp_bindIO wp_wrapErr
proof (rule wp_withToken)
  fix r w' tr
  assume "gocloak_sent env a (\<lambda>t. GocloakGetClientRoles t realm i 1000) (world s) r w'"
  note law = list_roles [OF assms this]
  have "gro_ID x = Some (rid n)" if "(n, x) \<in> set (build_map gro_Name id (non_nil (gocloak_roles r)))" for n x
    using build_map_val [OF that] law by auto
  then show "wp True (ret (createRoleNameMap (gocloak_roles r))) (\<lambda>m t. roles (world t) = roles (world s) \<and> fst ` set m = roles (world s) \<and>
     (\<forall>(n, x) \<in> set m. gro_ID x = Some (rid n))) (\<lambda>_ _. True) (s\<lparr>world := w', trace := tr\<rparr>)"
    using law by (auto simp: createRoleNameMap_def keys_build_map names_in_def)
qed

lemma wp_sync_role:
  assumes "client_roles_server env a realm i roles parts rid" and "\<forall>(n, x) \<in> set m. gro_ID x = Some (rid n)"
    and "fst ` set m \<subseteq> roles (world s)"
  shows "wp True (case map_of m (clr_Name d) of
         None \<Rightarrow> createClientRole env a realm i d
       | Some x \<Rightarrow> updateClientRole env a realm i d x) (\<lambda>_ t. roles (world t) = insert (clr_Name d) (roles (world s))) (\<lambda>_ _. True) s"
proof (cases "map_of m (clr_Name d)")
  case None
  then show ?thesis
    by (auto simp: createClientRole_def clientOp_def intro!: wp_withToken dest: create_role [OF assms(1)])
next
  case (Some x)
  then have x: "(clr_Name d, x) \<in> set m" by (rule map_of_SomeD)
  with assms(2,3) have known: "gro_ID x = Some (rid (clr_Name d))" "insert (clr_Name d) (roles (world s)) = roles (world s)" by force+
  have "wp True (updateClientRole env a realm i d x) (\<lambda>_ t. roles (world t) = roles (world s)) (\<lambda>_ _. True) s"
    using known(1) by (auto simp: updateClientRole_def clientOp_def Let_def intro!: wp_withToken dest: update_role [OF assms(1)])
  with Some show ?thesis unfolding known(2) by simp
qed

lemma wp_syncExistingRoles:
  assumes "client_roles_server env a realm i roles parts rid" and "\<forall>(n, x) \<in> set m. gro_ID x = Some (rid n)"
    and "fst ` set m = roles (world s)"
  shows "wp True (syncExistingRoles env a realm i ds m) (\<lambda>_ t. roles (world t) = roles (world s) \<union> clr_Name ` set ds) (\<lambda>_ _. True) s"
  unfolding syncExistingRoles_def
proof (rule wp_forIO [where I = "\<lambda>vis t. roles (world t) = roles (world s) \<union> clr_Name ` set vis"])
  fix vis rest :: "ClientRole list" and d and t :: "('a, event, 'b) io_state"
  assume I: "roles (world t) = roles (world s) \<union> clr_Name ` set vis"
  with assms(3) have "fst ` set m \<subseteq> roles (world t)" by simp
  from wp_sync_role [OF assms(1,2) this, of d] show "wp True (case map_of m (clr_Name d) of None \<Rightarrow> createClientRole env a realm i d
       | Some x \<Rightarrow> updateClientRole env a realm i d x) (\<lambda>_ t. roles (world t) = roles (world s) \<union> clr_Name ` set (vis @ [d])) (\<lambda>_ _. True) t"
    by (rule wp_weaken) (use I in auto)
qed simp_all

lemma wp_deleteRemovedRoles:
  assumes "client_roles_server env a realm i roles parts rid"
  shows "wp True (deleteRemovedRoles env a realm i m desired)
     (\<lambda>_ t. roles (world t) = roles (world s) - {n \<in> fst ` set m. map_of desired n = None}) (\<lambda>_ _. True) s"
  unfolding deleteRemovedRoles_def wp_bindIO
proof (rule wp_range_order)
  fix es
  assume "mset es = mset m"
  then have es: "set es = set m" by (metis set_mset_mset)
  let ?f = "\<lambda>(n, _ :: gocloak_Role). if map_of desired n \<noteq> None then ret ()
     else wrapErr (''failed to delete client role '' @ n @ '': '') (voidIO (clientOp env a realm i (DeleteClientRoleOp n)))"
  show "wp True (forIO ?f es) (\<lambda>_ t. roles (world t) = roles (world s) - {n \<in> fst ` set m. map_of desired n = None}) (\<lambda>_ _. True) s"
  proof (rule wp_forIO [where I = "\<lambda>vis t. roles (world t) = roles (world s) - {n \<in> fst ` set vis. map_of desired n = None}"])
    fix vis rest :: "gocloak_Role gomap" and e :: "string \<times> gocloak_Role" and t :: "('a, event, 'b) io_state"
    assume I: "roles (world t) = roles (world s) - {n \<in> fst ` set vis. map_of desired n = None}"
    have "wp True (?f e) (\<lambda>_ t'. roles (world t') = (if map_of desired (fst e) = None then roles (world t) - {fst e} else roles (world t))) (\<lambda>_ _. True) t"
      by (cases e) (auto simp: clientOp_def intro!: wp_withToken dest: delete_role [OF assms])
    then show "wp True (?f e) (\<lambda>_ t'. roles (world t') = roles (world s) - {n \<in> fst ` set (vis @ [e]). map_of desired n = None}) (\<lambda>_ _. True) t"
      by (rule wp_weaken) (use I in \<open>auto split: if_splits\<close>)
  qed (simp_all add: es)
qed

section \<open>Composites\<close>

abbreviation composed :: "('w \<Rightarrow> string set) \<Rightarrow> ('w \<Rightarrow> string \<Rightarrow> string set) \<Rightarrow> 'w \<Rightarrow> 'w \<Rightarrow> string \<Rightarrow> string set \<Rightarrow> bool" where
  "composed roles parts w w' n ps \<equiv> roles w' = roles w \<and> parts w' = (parts w)(n := ps)"

lemma wp_calculateRolesToAdd:
  assumes "client_roles_server env a realm i roles parts rid"
  shows "wp True (calculateRolesToAdd env a realm i desired current) (\<lambda>xs t. roles (world t) = roles (world s) \<and> parts (world t) = parts (world s) \<and>
     names_in xs = set desired - fst ` set current) (\<lambda>_ _. True) s"
  unfolding calculateRolesToAdd_def
proof (rule wp_foldIO [where I = "\<lambda>vis xs t. roles (world t) = roles (world s) \<and> parts (world t) = parts (world s) \<and>
     names_in xs = set vis - fst ` set current"])
  fix vis d rest xs and t :: "('a, event, 'b) io_state"
  assume I: "roles (world t) = roles (world s) \<and> parts (world t) = parts (world s) \<and> names_in xs = set vis - fst ` set current"
  show "wp True (if map_of current d \<noteq> None then ret xs
      else bindIO (getAssociatedRoleDetails env a realm i d) (\<lambda>r. ret (xs @ [r])))
     (\<lambda>xs t. roles (world t) = roles (world s) \<and> parts (world t) = parts (world s) \<and> names_in xs = set (vis @ [d]) - fst ` set current) (\<lambda>_ _. True) t"
  proof (cases "map_of current d")
    case None
    then have "d \<notin> fst ` set current" by (simp add: map_of_eq_None_iff)
    then have "set (vis @ [d]) - fst ` set current = insert d (set vis - fst ` set current)" by auto
    then show ?thesis using I None
      by (auto simp: getAssociatedRoleDetails_def clientOp_def intro!: wp_withToken dest!: get_role [OF assms])
  next
    case (Some x)
    then have "d \<in> fst ` set current" by (force dest: map_of_SomeD)
    with I Some show ?thesis by auto
  qed
qed simp_all

lemma wp_change_composites:
  assumes "client_roles_server env a realm i roles parts rid"
  shows "wp True (addCompositeRoles env a realm (rid n) xs name) (\<lambda>_ t. composed roles parts (world s) (world t) n (parts (world s) n \<union> names_in xs)) (\<lambda>_ _. True) s"
    and "wp True (removeCompositeRoles env a realm (rid n) xs name) (\<lambda>_ t. composed roles parts (world s) (world t) n (parts (world s) n - names_in xs)) (\<lambda>_ _. True) s"
proof -
  show "wp True (addCompositeRoles env a realm (rid n) xs name) (\<lambda>_ t. composed roles parts (world s) (world t) n (parts (world s) n \<union> names_in xs)) (\<lambda>_ _. True) s"
    unfolding addCompositeRoles_def realmOp_def
    by (cases "xs = []") (auto intro!: wp_withToken dest: add_composites [OF assms])
  show "wp True (removeCompositeRoles env a realm (rid n) xs name) (\<lambda>_ t. composed roles parts (world s) (world t) n (parts (world s) n - names_in xs)) (\<lambda>_ _. True) s"
    unfolding removeCompositeRoles_def realmOp_def
    by (cases "xs = []") (auto intro!: wp_withToken dest: delete_composites [OF assms])
qed

lemma names_calculateRolesToRemove: "names_in (calculateRolesToRemove now want) = names_in (non_nil now) - set want"
proof (rule set_eqI)
  fix n
  show "n \<in> names_in (calculateRolesToRemove now want) \<longleftrightarrow> n \<in> names_in (non_nil now) - set want"
    unfolding calculateRolesToRemove_def names_in_def by auto
qed

lemma handleEmptyComposites_eq:
  "handleEmptyComposites env a realm i now name = removeCompositeRoles env a realm i (non_nil now) name"
  by (simp add: handleEmptyComposites_def removeCompositeRoles_def convertRolePointersToValues_def non_nil_def List.map_filter_simps)

lemma wp_processSingleRoleComposites:
  assumes "client_roles_server env a realm i roles parts rid" and "gro_ID x = Some (rid n)"
  shows "wp True (processSingleRoleComposites env a realm i d x)
     (\<lambda>_ t. composed roles parts (world s) (world t) n (set (clr_AssociatedClientRoles d))) (\<lambda>_ _. True) s"
  unfolding processSingleRoleComposites_def wp_bindIO wp_wrapErr assms(2) wp_derefIO option.case realmOp_def
proof (rule wp_withToken)
  fix r w' tr
  assume "gocloak_sent env a (\<lambda>t. GocloakRealmOp t realm (GetCompositeRolesByRoleIDOp (rid n))) (world s) r w'"
  note law = list_composites [OF assms(1) this]
  let ?t = "s\<lparr>world := w', trace := tr\<rparr>" and ?now = "gocloak_roles r" and ?want = "clr_AssociatedClientRoles d"
  have t: "roles (world ?t) = roles (world s)" "parts (world ?t) = parts (world s)" "names_in (non_nil ?now) = parts (world ?t) n"
    using law by simp_all
  note removed = names_calculateRolesToRemove [of ?now ?want]
  then have gone: "parts (world ?t) n \<union> (set ?want - parts (world ?t) n) - names_in (calculateRolesToRemove ?now ?want) = set ?want"
    unfolding t(3) by blast
  have keys: "fst ` set (createRoleNameMap ?now) = parts (world ?t) n"
    using t(3) by (simp add: createRoleNameMap_def keys_build_map names_in_def)
  show "wp True (let currentCompositeRoles = ?now in
      if ?want = [] then handleEmptyComposites env a realm (rid n) currentCompositeRoles (clr_Name d)
      else bindIO (calculateRolesToAdd env a realm i ?want (createRoleNameMap currentCompositeRoles)) (\<lambda>rolesToAdd.
        bindIO (addCompositeRoles env a realm (rid n) rolesToAdd (clr_Name d)) (\<lambda>_.
        removeCompositeRoles env a realm (rid n) (calculateRolesToRemove currentCompositeRoles ?want) (clr_Name d))))
     (\<lambda>_ t. composed roles parts (world s) (world t) n (set ?want)) (\<lambda>_ _. True) ?t"
  proof (cases "?want = []")
    case True
    then show ?thesis
      using wp_change_composites(2) [OF assms(1), of n "non_nil ?now" "clr_Name d" ?t] unfolding t
      by (simp add: handleEmptyComposites_eq)
  next
    case False
    have "wp True (bindIO (calculateRolesToAdd env a realm i ?want (createRoleNameMap ?now)) (\<lambda>rolesToAdd.
        bindIO (addCompositeRoles env a realm (rid n) rolesToAdd (clr_Name d)) (\<lambda>_.
        removeCompositeRoles env a realm (rid n) (calculateRolesToRemove ?now ?want) (clr_Name d))))
       (\<lambda>_ t'. composed roles parts (world ?t) (world t') n (set ?want)) (\<lambda>_ _. True) ?t"
      unfolding wp_bindIO
    proof (rule wp_weaken [OF wp_calculateRolesToAdd [OF assms(1)]], rule wp_weaken [OF wp_change_composites(1) [OF assms(1), of n]],
        rule wp_weaken [OF wp_change_composites(2) [OF assms(1), of n]])
      fix xs and t1 t2 t3 :: "('a, event, 'b) io_state"
      assume "roles (world t1) = roles (world ?t) \<and> parts (world t1) = parts (world ?t) \<and> names_in xs = set ?want - fst ` set (createRoleNameMap ?now)"
        and "composed roles parts (world t1) (world t2) n (parts (world t1) n \<union> names_in xs)"
        and "composed roles parts (world t2) (world t3) n (parts (world t2) n - names_in (calculateRolesToRemove ?now ?want))"
      then show "composed roles parts (world ?t) (world t3) n (set ?want)" using gone by (simp only: keys fun_upd_same fun_upd_upd simp_thms)
    qed
    with False show ?thesis unfolding t by (simp add: Let_def)
  qed
qed

lemma wp_syncClientRoleComposites:
  assumes "client_roles_server env a realm i roles parts rid" and "distinct (map clr_Name ds)"
  shows "wp True (syncClientRoleComposites env a realm i ds) (\<lambda>_ t. roles (world t) = roles (world s) \<and>
     (\<forall>d \<in> set ds. parts (world t) (clr_Name d) = set (clr_AssociatedClientRoles d))) (\<lambda>_ _. True) s"
  unfolding syncClientRoleComposites_def wp_bindIO wp_wrapErr
proof (rule wp_weaken [OF wp_existing_roles [OF assms(1)]])
  fix m :: "gocloak_Role gomap" and t :: "('a, event, 'b) io_state"
  assume m: "roles (world t) = roles (world s) \<and> fst ` set m = roles (world s) \<and> (\<forall>(n, x) \<in> set m. gro_ID x = Some (rid n))"
  let ?f = "\<lambda>d. case map_of m (clr_Name d) of
         None \<Rightarrow> fail (NewError (''failed to setup composite roles: role '' @ clr_Name d @ '' does not exist in Keycloak''))
       | Some x \<Rightarrow> processSingleRoleComposites env a realm i d x"
  show "wp True (forIO ?f ds) (\<lambda>_ t. roles (world t) = roles (world s) \<and>
     (\<forall>d \<in> set ds. parts (world t) (clr_Name d) = set (clr_AssociatedClientRoles d))) (\<lambda>_ _. True) t"
  proof (rule wp_forIO [where I = "\<lambda>vis t. roles (world t) = roles (world s) \<and>
     (\<forall>d \<in> set vis. parts (world t) (clr_Name d) = set (clr_AssociatedClientRoles d))"])
    fix vis rest :: "ClientRole list" and d and t1 :: "('a, event, 'b) io_state"
    assume ds: "ds = vis @ d # rest" and I: "roles (world t1) = roles (world s) \<and>
      (\<forall>d \<in> set vis. parts (world t1) (clr_Name d) = set (clr_AssociatedClientRoles d))"
    have new: "\<forall>v \<in> set vis. clr_Name v \<noteq> clr_Name d" using assms(2) unfolding ds by (auto simp: image_iff)
    have "wp True (?f d) (\<lambda>_ t2. composed roles parts (world t1) (world t2) (clr_Name d) (set (clr_AssociatedClientRoles d))) (\<lambda>_ _. True) t1"
    proof (cases "map_of m (clr_Name d)")
      case (Some x)
      then have "gro_ID x = Some (rid (clr_Name d))" using m by (auto dest: map_of_SomeD)
      from wp_processSingleRoleComposites [OF assms(1) this] Some show ?thesis by simp
    qed simp
    then show "wp True (?f d) (\<lambda>_ t2. roles (world t2) = roles (world s) \<and>
      (\<forall>d \<in> set (vis @ [d]). parts (world t2) (clr_Name d) = set (clr_AssociatedClientRoles d))) (\<lambda>_ _. True) t1"
      by (rule wp_weaken) (use I new in auto)
  qed (use m in simp_all)
qed

lemma map_of_desired: "map_of (createDesiredRolesMap ds) n = None \<longleftrightarrow> n \<notin> clr_Name ` set ds"
  by (auto simp: createDesiredRolesMap_def map_of_eq_None_iff keys_build_map)

lemma wp_SyncClientRoles:
  assumes server: "client_roles_server env a realm i roles parts rid" and reads: "reads_keep env a roles"
    and lookup: "client_lookup env a realm (dtc_ClientId c) i" and "distinct (map clr_Name (dtc_Roles c))"
  shows "wp True (adapter_SyncClientRoles env a realm c) (\<lambda>_ t. roles (world t) = clr_Name ` set (dtc_Roles c) \<and>
     (\<forall>d \<in> set (dtc_Roles c). parts (world t) (clr_Name d) = set (clr_AssociatedClientRoles d))) (\<lambda>_ _. True) s"
  unfolding adapter_SyncClientRoles_def wp_bindIO wp_wrapErr
proof (rule wp_GetClientID [OF reads lookup], rule wp_weaken [OF wp_existing_roles [OF server]])
  fix m :: "gocloak_Role gomap" and t0 t1 :: "('a, event, 'b) io_state"
  assume m: "roles (world t1) = roles (world t0) \<and> fst ` set m = roles (world t0) \<and> (\<forall>(n, x) \<in> set m. gro_ID x = Some (rid n))"
  then have ids: "\<forall>(n, x) \<in> set m. gro_ID x = Some (rid n)" and keys: "fst ` set m = roles (world t1)" by simp_all
  show "wp True (syncExistingRoles env a realm i (dtc_Roles c) m) (\<lambda>_. wp True (deleteRemovedRoles env a realm i m (createDesiredRolesMap (dtc_Roles c)))
      (\<lambda>_. wp True (syncClientRoleComposites env a realm i (dtc_Roles c)) (\<lambda>_ t. roles (world t) = clr_Name ` set (dtc_Roles c) \<and>
        (\<forall>d \<in> set (dtc_Roles c). parts (world t) (clr_Name d) = set (clr_AssociatedClientRoles d))) (\<lambda>_ _. True)) (\<lambda>_ _. True)) (\<lambda>_ _. True) t1"
  proof (rule wp_weaken [OF wp_syncExistingRoles [OF server ids keys]], rule wp_weaken [OF wp_deleteRemovedRoles [OF server]],
      rule wp_weaken [OF wp_syncClientRoleComposites [OF server assms(4)]])
    fix t2 t3 t4 :: "('a, event, 'b) io_state"
    let ?ds = "dtc_Roles c"
    assume t2: "roles (world t2) = roles (world t1) \<union> clr_Name ` set ?ds"
      and t3: "roles (world t3) = roles (world t2) - {n \<in> fst ` set m. map_of (createDesiredRolesMap ?ds) n = None}"
      and t4: "roles (world t4) = roles (world t3) \<and> (\<forall>d \<in> set ?ds. parts (world t4) (clr_Name d) = set (clr_AssociatedClientRoles d))"
    have "roles (world t3) = clr_Name ` set ?ds" unfolding t3 t2 map_of_desired using m by auto
    with t4 show "roles (world t4) = clr_Name ` set ?ds \<and> (\<forall>d \<in> set ?ds. parts (world t4) (clr_Name d) = set (clr_AssociatedClientRoles d))"
      by simp
  qed
qed


text \<open>A Keycloak with one client; the world is its roles and the pairs of a role and a part of it.\<close>

record role_world =
  rw_roles :: "string list"
  rw_parts :: "(string \<times> string) list"

definition parts_of :: "role_world \<Rightarrow> string \<Rightarrow> string set" where
  "parts_of w n = {p. (n, p) \<in> set (rw_parts w)}"

definition shown_role :: "string \<Rightarrow> gocloak_Role" where
  "shown_role n = zero_gocloak_Role\<lparr>gro_ID := Some n, gro_Name := Some n\<rparr>"

definition pairs :: "string \<Rightarrow> gocloak_Role list \<Rightarrow> (string \<times> string) list" where
  "pairs n xs = map (Pair n) (List.map_filter gro_Name xs)"

fun role_gocloak :: "gocloak_request \<Rightarrow> role_world \<Rightarrow> gocloak_result \<times> role_world" where
  "role_gocloak (GocloakGetClients _ _ _) w =
    (GocloakClients [zero_gocloak_Client\<lparr>gcl_ID := Some ''cid'', gcl_ClientID := Some ''app''\<rparr>], w)"
| "role_gocloak (GocloakGetClientRoles _ _ _ _) w = (GocloakRoles (map (\<lambda>n. Some (shown_role n)) (rw_roles w)), w)"
| "role_gocloak (GocloakClientOp _ _ _ (CreateClientRoleOp x)) w = (NoGocloak, w\<lparr>rw_roles := the (gro_Name x) # rw_roles w\<rparr>)"
| "role_gocloak (GocloakClientOp _ _ _ (DeleteClientRoleOp n)) w = (NoGocloak, w\<lparr>rw_roles := removeAll n (rw_roles w)\<rparr>)"
| "role_gocloak (GocloakClientOp _ _ _ (GetClientRoleOp n)) w = (GocloakRole (shown_role n), w)"
| "role_gocloak (GocloakRealmOp _ _ (GetCompositeRolesByRoleIDOp n)) w =
    (GocloakRoles (map (\<lambda>p. Some (shown_role (snd p))) (filter (\<lambda>p. fst p = n) (rw_parts w))), w)"
| "role_gocloak (GocloakRealmOp _ _ (AddClientRoleCompositeOp n xs)) w = (NoGocloak, w\<lparr>rw_parts := rw_parts w @ pairs n xs\<rparr>)"
| "role_gocloak (GocloakRealmOp _ _ (DeleteClientRoleCompositeOp n xs)) w =
    (NoGocloak, w\<lparr>rw_parts := filter (\<lambda>p. p \<notin> set (pairs n xs)) (rw_parts w)\<rparr>)"
| "role_gocloak _ w = (NoGocloak, w)"

definition role_env :: "role_world env" where
  "role_env = idle_env\<lparr>gocloak := (\<lambda>cl rq w. case role_gocloak rq w of (r, w') \<Rightarrow> (Inr r, w')),
     k8s := (\<lambda>rq w. (case rq of KStatusUpdate x \<Rightarrow> Inr x | _ \<Rightarrow> Inl (NewError ''refused''), w))\<rparr>"

lemma role_env_reads: "reads_keep role_env a names"
proof -
  have same: "snd (role_gocloak rq w) = w" if "reading rq" for rq w
    using that by (cases rq rule: reading.cases) simp_all
  have "names w' = names w" if "\<forall>t. reading (rq t)" and "gocloak_sent role_env a rq w r w'" for rq w r w'
  proof -
    from that(2) obtain t where "snd (role_gocloak (rq t) w) = w'"
      unfolding gocloak_sent_def role_env_def by (auto simp: case_prod_beta)
    with same [of "rq t" w] that(1) show ?thesis by simp
  qed
  then show ?thesis unfolding reads_keep_def by blast
qed

lemma names_in_shown: "names_in (map (\<lambda>x. shown_role (f x)) xs) = f ` set xs"
  by (auto simp: names_in_def shown_role_def)

lemma set_pairs: "set (pairs n xs) = Pair n ` names_in xs"
  by (auto simp: pairs_def names_in_def)

lemma role_env_server: "client_roles_server role_env a realm i (\<lambda>w. set (rw_roles w)) parts_of id"
proof -
  have role: "gro_ID (shown_role n) = Some n" "gro_Name (shown_role n) = Some n" for n by (simp_all add: shown_role_def)
  show ?thesis
    unfolding client_roles_server_def
    by (intro conjI allI impI ext)
      (auto simp: gocloak_sent_def role_env_def gocloak_roles_def gocloak_role_def parts_of_def role set_pairs names_in_shown image_iff)
qed

definition test_dto :: dto_Client where
  "test_dto = ConvertDataClientToClient (test_client\<lparr>acl_ClientRolesV2 :=
     [\<lparr>clr_Name = ''admin'', clr_Description = ''all'', clr_AssociatedClientRoles = [''viewer'']\<rparr>,
      \<lparr>clr_Name = ''viewer'', clr_Description = '''', clr_AssociatedClientRoles = []\<rparr>]\<rparr>) '''' ''r'' None"

definition role_state :: "(role_world, event, unit) io_state" where
  "role_state = \<lparr>world = \<lparr>rw_roles = [''viewer'', ''old''], rw_parts = [(''viewer'', ''x''), (''admin'', ''y'')]\<rparr>, trace = [], mem = ()\<rparr>"


section \<open>Steps that keep what a client is\<close>

text \<open>\<open>keeps I m\<close>: \<open>I\<close> holds after \<open>m\<close>, with or without an error, if it did before.\<close>

definition keeps :: "(('w, 'e, 'm) io_state \<Rightarrow> bool) \<Rightarrow> ('w, 'e, 'm, 'a) io \<Rightarrow> bool" where
  "keeps I m \<longleftrightarrow> (\<forall>s. I s \<longrightarrow> wp True m (\<lambda>_. I) (\<lambda>_. I) s)"

lemma keepsD: "keeps I m \<Longrightarrow> I s \<Longrightarrow> wp True m (\<lambda>_. I) (\<lambda>_ _. True) s"
  by (auto simp: keeps_def elim!: wp_mono)

named_theorems keeps_intros

lemma keeps_basic [keeps_intros]: "keeps I (ret x)" "keeps I (fail e)" "keeps I panic" "keeps I (getMem f)" "keeps I (derefIO p)"
  by (auto simp: keeps_def split: option.split)

lemma keeps_modMem [keeps_intros]: "(\<And>s. I s \<Longrightarrow> I (s\<lparr>mem := f (mem s)\<rparr>)) \<Longrightarrow> keeps I (modMem f)"
  by (simp add: keeps_def wp_def modMem_def)

lemma keeps_bindIO [keeps_intros]:
  assumes "keeps I m" and "\<And>x. keeps I (f x)"
  shows "keeps I (bindIO m f)"
  using assms by (auto simp: keeps_def elim!: wp_mono)

lemma keeps_wrap [keeps_intros]: "keeps I m \<Longrightarrow> keeps I (tryIO m)" "keeps I m \<Longrightarrow> keeps I (wrapErr p m)" "keeps I m \<Longrightarrow> keeps I (voidIO m)"
  by (auto simp: keeps_def)

lemma keeps_whenIO [keeps_intros]: "keeps I m \<Longrightarrow> keeps I (whenIO b m)"
  by (auto simp: keeps_def)

lemma keeps_liftIO [keeps_intros]: "keeps I (liftIO r)"
  by (auto simp: keeps_def liftIO_def split: sum.split)

lemma keeps_if [keeps_intros]: "keeps I m \<Longrightarrow> keeps I n \<Longrightarrow> keeps I (if b then m else n)"
  by simp

lemma keeps_case [keeps_intros]:
  "keeps I m \<Longrightarrow> (\<And>a. keeps I (f a)) \<Longrightarrow> keeps I (case o' of None \<Rightarrow> m | Some a \<Rightarrow> f a)"
  "(\<And>e. keeps I (g e)) \<Longrightarrow> (\<And>a. keeps I (f a)) \<Longrightarrow> keeps I (case r of Inl e \<Rightarrow> g e | Inr a \<Rightarrow> f a)"
  "keeps I m \<Longrightarrow> (\<And>y ys. keeps I (h y ys)) \<Longrightarrow> keeps I (case xs of [] \<Rightarrow> m | y # ys \<Rightarrow> h y ys)"
  by (simp_all split: option.split sum.split list.split)

lemma keeps_let [keeps_intros]: "(\<And>x. keeps I (f x)) \<Longrightarrow> keeps I (Let t f)"
  by simp

lemma keeps_callIO [keeps_intros]:
  "(\<And>s x w' tr. I s \<Longrightarrow> g (world s) = (x, w') \<Longrightarrow> I (s\<lparr>world := w', trace := tr\<rparr>)) \<Longrightarrow> keeps I (callIO e g)"
  by (auto simp: keeps_def wp_callIO split: prod.split sum.split)

text \<open>
  What the client of the resource and the clients in Keycloak are while the secret is read or made: of
  the first only the reference to the secret changes.
\<close>

definition same_client :: "('w \<Rightarrow> 'x) \<Rightarrow> 'x \<Rightarrow> Client \<Rightarrow> ('w, event, client_mem) io_state \<Rightarrow> bool" where
  "same_client clients W c t \<longleftrightarrow> clients (world t) = W \<and> (\<exists>x. dc_Client (clm_data (mem t)) = c\<lparr>acl_Secret := x\<rparr>)"

definition rand_keeps :: "'w env \<Rightarrow> ('w \<Rightarrow> 'x) \<Rightarrow> bool" where
  "rand_keeps env clients \<longleftrightarrow> (\<forall>n w x w'. rand_Read env n w = (x, w') \<longrightarrow> clients w' = clients w)"

lemma keeps_k8s:
  assumes "k8s_keeps env clients"
  shows "keeps (same_client clients W c) (k8s_Get env kind ns name)" and "keeps (same_client clients W c) (k8s_Update env client_obj)"
    and "keeps (same_client clients W c) (create_secret env x)"
  unfolding k8s_Get_def k8s_Update_def create_secret_def
  by (intro keeps_intros; use assms in \<open>auto simp: same_client_def k8s_keeps_def client_obj_def split: k8s_object.split\<close>)+

lemma keeps_generateSecureSecret:
  assumes "rand_keeps env clients"
  shows "keeps (same_client clients W c) (generateSecureSecret env)"
  using assms by (auto simp: keeps_def same_client_def rand_keeps_def generateSecureSecret_def wp_def split: prod.split sum.split)

lemma keeps_get_secret:
  assumes "k8s_keeps env clients"
  shows "keeps (same_client clients W c) (get_secret env ns name)"
  unfolding get_secret_def by (rule keeps_bindIO [OF keeps_k8s(1) [OF assms]]) (auto split: k8s_object.split intro: keeps_intros)

lemma keeps_storeSecretRef:
  assumes "k8s_keeps env clients"
  shows "keeps (same_client clients W c) (storeSecretRef env ref)"
  unfolding storeSecretRef_def
  by (intro keeps_intros keeps_k8s [OF assms]) (auto simp: same_client_def set_data_secret_def)

lemma keeps_getSecret:
  assumes "k8s_keeps env clients" and "rand_keeps env clients"
  shows "keeps (same_client clients W c) (getSecret env)"
  unfolding getSecret_def setSecretRef_def generateSecret_def GetSecretFromRef_def
  by (intro keeps_intros keeps_get_secret [OF assms(1)] keeps_storeSecretRef [OF assms(1)] keeps_k8s [OF assms(1)]
      keeps_generateSecureSecret [OF assms(2)])

section \<open>The client itself\<close>

text \<open>
  The clients of a realm by the id people use. A listing shows the client asked for; a created client
  gets an id; an update that names the id of the client replaces it. What the operator does not send
  is up to Keycloak.
\<close>

definition clients_server :: "'w env \<Rightarrow> GoCloakAdapter \<Rightarrow> string \<Rightarrow> ('w \<Rightarrow> string \<Rightarrow> gocloak_Client option) \<Rightarrow> bool" where
  "clients_server env a realm clients \<longleftrightarrow>
     (\<forall>cid w r w'. gocloak_sent env a (\<lambda>t. GocloakGetClients t realm (Some cid)) w r w' \<longrightarrow>
        clients w' = clients w \<and> find (\<lambda>x. gcl_ClientID x = Some cid) (gocloak_clients r) = clients w cid) \<and>
     (\<forall>cid t w e w'. gocloak env (ga_client a) (GocloakGetClients t realm (Some cid)) w = (Inl e, w') \<longrightarrow> clients w' = clients w) \<and>
     (\<forall>x cid w r w'. gcl_ClientID x = Some cid \<longrightarrow> gocloak_sent env a (\<lambda>t. GocloakRealmOp t realm (CreateClientOp x)) w r w' \<longrightarrow>
        (\<exists>i z. clients w' = (clients w)(cid \<mapsto> x\<lparr>gcl_ID := Some i, gcl_rest := z\<rparr>))) \<and>
     (\<forall>x y cid w r w'. gcl_ClientID x = Some cid \<longrightarrow> clients w cid = Some y \<longrightarrow> gcl_ID x = gcl_ID y \<longrightarrow>
        gocloak_sent env a (\<lambda>t. GocloakRealmOp t realm (UpdateClientOp x)) w r w' \<longrightarrow>
        (\<exists>z. clients w' = (clients w)(cid \<mapsto> x\<lparr>gcl_rest := z\<rparr>)))"

lemma clients_laws:
  assumes "clients_server env a realm clients"
  shows list_clients: "gocloak_sent env a (\<lambda>t. GocloakGetClients t realm (Some cid)) w r w' \<Longrightarrow>
        clients w' = clients w \<and> find (\<lambda>x. gcl_ClientID x = Some cid) (gocloak_clients r) = clients w cid"
    and list_clients_err: "gocloak env (ga_client a) (GocloakGetClients t realm (Some cid)) w = (Inl e, w') \<Longrightarrow> clients w' = clients w"
    and create_client: "gocloak_sent env a (\<lambda>t. GocloakRealmOp t realm (CreateClientOp x)) w r w' \<Longrightarrow> gcl_ClientID x = Some cid \<Longrightarrow>
        \<exists>i z. clients w' = (clients w)(cid \<mapsto> x\<lparr>gcl_ID := Some i, gcl_rest := z\<rparr>)"
    and update_client: "gocloak_sent env a (\<lambda>t. GocloakRealmOp t realm (UpdateClientOp x)) w r w' \<Longrightarrow> gcl_ClientID x = Some cid \<Longrightarrow>
        clients w cid = Some y \<Longrightarrow> gcl_ID x = gcl_ID y \<Longrightarrow> \<exists>z. clients w' = (clients w)(cid \<mapsto> x\<lparr>gcl_rest := z\<rparr>)"
proof -
  note law = assms [unfolded client_roles_server_def clients_server_def]
  note l1 = law [THEN conjunct1, rule_format]
  note l2 = law [THEN conjunct2, THEN conjunct1, rule_format]
  note l3 = law [THEN conjunct2, THEN conjunct2, THEN conjunct1, rule_format]
  note l4 = law [THEN conjunct2, THEN conjunct2, THEN conjunct2, rule_format]
  show "gocloak_sent env a (\<lambda>t. GocloakGetClients t realm (Some cid)) w r w' \<Longrightarrow>
        clients w' = clients w \<and> find (\<lambda>x. gcl_ClientID x = Some cid) (gocloak_clients r) = clients w cid" by (rule l1)
  show "gocloak env (ga_client a) (GocloakGetClients t realm (Some cid)) w = (Inl e, w') \<Longrightarrow> clients w' = clients w" by (rule l2)
  show "gocloak_sent env a (\<lambda>t. GocloakRealmOp t realm (CreateClientOp x)) w r w' \<Longrightarrow> gcl_ClientID x = Some cid \<Longrightarrow>
        \<exists>i z. clients w' = (clients w)(cid \<mapsto> x\<lparr>gcl_ID := Some i, gcl_rest := z\<rparr>)" by (rule l3)
  show "gocloak_sent env a (\<lambda>t. GocloakRealmOp t realm (UpdateClientOp x)) w r w' \<Longrightarrow> gcl_ClientID x = Some cid \<Longrightarrow>
        clients w cid = Some y \<Longrightarrow> gcl_ID x = gcl_ID y \<Longrightarrow> \<exists>z. clients w' = (clients w)(cid \<mapsto> x\<lparr>gcl_rest := z\<rparr>)" by (rule l4)
qed

lemma wp_GetClientID_known:
  assumes "clients_server env a realm clients"
  shows "wp True (GetClientID env a cid realm)
     (\<lambda>i t. clients (world t) = clients (world s) \<and> mem t = mem s \<and> (\<exists>y. clients (world s) cid = Some y \<and> gcl_ID y = Some i))
     (\<lambda>_ t. clients (world t) = clients (world s) \<and> mem t = mem s) s"
proof -
  have shown: "clients w' = clients w \<and> find (\<lambda>x. gcl_ClientID x = Some cid) (gocloak_clients r) = clients w cid"
    if "ga_token a = Some t" "gocloak env (ga_client a) (GocloakGetClients (jwt_AccessToken t) realm (Some cid)) w = (Inr r, w')" for t w r w'
    by (rule list_clients [OF assms]) (use that in \<open>auto simp: gocloak_sent_def\<close>)
  show ?thesis
    unfolding GetClientID_def
    by (auto simp: withToken_def gocloakCall_def wp_callIO split: option.split prod.split sum.split
        dest!: shown dest: list_clients_err [OF assms]) metis
qed

lemma getGclCln_ID: "i \<noteq> '''' \<Longrightarrow> getGclCln (dto\<lparr>dtc_ID := i\<rparr>) = (getGclCln dto)\<lparr>gcl_ID := Some i\<rparr>"
  by (simp add: getGclCln_def split: option.split list.split)

lemma getGclCln_ClientID [simp]: "gcl_ClientID (getGclCln dto) = Some (dtc_ClientId dto)"
  by (simp add: getGclCln_def)

text \<open>Whether the client is new or not.\<close>

definition written :: "('w \<Rightarrow> string \<Rightarrow> gocloak_Client option) \<Rightarrow> 'w \<Rightarrow> dto_Client \<Rightarrow> string \<Rightarrow> 'w \<Rightarrow> bool" where
  "written clients w dto i w' \<longleftrightarrow> (\<exists>z. clients w' = (clients w)(dtc_ClientId dto \<mapsto> (getGclCln dto)\<lparr>gcl_ID := Some i, gcl_rest := z\<rparr>))"

lemma wp_UpdateClient:
  assumes "clients_server env a (dtc_RealmName dto) clients" and "clients (world s) (dtc_ClientId dto) = Some y" and "gcl_ID y = Some i"
    and "i \<noteq> ''''"
  shows "wp True (UpdateClient env a (dto\<lparr>dtc_ID := i\<rparr>)) (\<lambda>_ t. written clients (world s) dto i (world t) \<and> mem t = mem s) (\<lambda>_ _. True) s"
  using assms(2-4)
  by (auto simp: UpdateClient_def realmOp_def getGclCln_ID written_def intro!: wp_withToken dest!: update_client [OF assms(1)])

lemma wp_CreateClient:
  assumes "clients_server env a (dtc_RealmName dto) clients"
  shows "wp True (adapter_CreateClient env a dto) (\<lambda>_ t. (\<exists>i. written clients (world s) dto i (world t)) \<and> mem t = mem s) (\<lambda>_ _. True) s"
  unfolding adapter_CreateClient_def realmOp_def wp_wrapErr wp_voidIO
proof (rule wp_withToken)
  fix r w' tr
  assume "gocloak_sent env a (\<lambda>t. GocloakRealmOp t (dtc_RealmName dto) (CreateClientOp (getGclCln dto))) (world s) r w'"
  from create_client [OF assms this] have "\<exists>i. written clients (world s) dto i w'" by (simp add: written_def)
  then show "(\<exists>i. written clients (world s) dto i (world (s\<lparr>world := w', trace := tr\<rparr>))) \<and> mem (s\<lparr>world := w', trace := tr\<rparr>) = mem s" by simp
qed

definition flows_keep :: "'w env \<Rightarrow> GoCloakAdapter \<Rightarrow> string \<Rightarrow> ('w \<Rightarrow> 'x) \<Rightarrow> bool" where
  "flows_keep env a realm clients \<longleftrightarrow>
     (\<forall>w ans w'. rest_sent env a GET authFlows [(''realm'', realm)] NoRest w ans w' \<longrightarrow> clients w' = clients w)"

lemma wp_getAuthFlows:
  assumes "flows_keep env a realm clients"
  shows "wp True (getAuthFlows env a fl realm) (\<lambda>_ t. clients (world t) = clients (world s) \<and> mem t = mem s) (\<lambda>_ _. True) s"
  using assms
  by (auto simp: getAuthFlows_def GetRealmAuthFlows_def liftIO_def wp_checked flows_keep_def Let_def
      split: option.split sum.split intro!: wp_restCall)

lemma wp_convertCrToDto:
  assumes "k8s_keeps env clients" and "rand_keeps env clients" and "c = served_client s"
  shows "wp True (convertCrToDto env realm ov) (\<lambda>dto t. same_client clients (clients (world s)) c t \<and>
     (\<exists>secret. dto = ConvertDataClientToClient c secret realm ov \<and> (acl_Public c \<longrightarrow> secret = ''''))) (\<lambda>_ _. True) s"
proof -
  have start: "same_client clients (clients (world s)) c s" unfolding same_client_def assms(3) by (metis Client.surjective Client.update_convs(2))
  have eq: "ConvertDataClientToClient (c\<lparr>acl_Secret := x\<rparr>) secret realm ov = ConvertDataClientToClient c secret realm ov" for x secret
    by (simp add: ConvertDataClientToClient_def)
  have "wp True (getSecret env) (\<lambda>_ t. same_client clients (clients (world s)) c t) (\<lambda>_ _. True) s"
    by (rule keepsD [OF keeps_getSecret [OF assms(1,2)] start])
  then have "wp True (getSecret env) (\<lambda>secret t. same_client clients (clients (world s)) c t \<and>
      (\<exists>secret'. ConvertDataClientToClient (served_client t) secret realm ov = ConvertDataClientToClient c secret' realm ov)) (\<lambda>_ _. True) s"
    by (rule wp_weaken) (auto simp: same_client_def eq)
  with start show ?thesis unfolding convertCrToDto_def using assms(3) by (auto elim!: wp_weaken)
qed

text \<open>The id of the client and what it is in Keycloak, at the end.\<close>

definition client_put :: "('w \<Rightarrow> string \<Rightarrow> gocloak_Client option) \<Rightarrow> 'w \<Rightarrow> Client \<Rightarrow> string \<Rightarrow> string \<Rightarrow> 'w \<Rightarrow> bool" where
  "client_put clients w c realm i w' \<longleftrightarrow> (\<exists>secret ov. (acl_Public c \<longrightarrow> secret = '''') \<and>
     (acl_AuthenticationFlowBindingOverrides c = None \<longrightarrow> ov = None) \<and> written clients w (ConvertDataClientToClient c secret realm ov) i w')"

lemma wp_cong: "m s = n s \<Longrightarrow> wp b n Q E s \<Longrightarrow> wp b m Q E s"
  by (simp add: wp_def)

text \<open>Looking the client up, then updating or creating it.\<close>

lemma wp_write_client:
  assumes server: "clients_server env a (dtc_RealmName dto) clients"
  shows "wp True (bindIO (tryIO (GetClientID env a (dtc_ClientId dto) (dtc_RealmName dto))) (\<lambda>res.
     bindIO (case res of
         Inr i \<Rightarrow> ret i
       | Inl err \<Rightarrow> if \<not> IsErrNotFound err then fail (Wrapped ''unable to check client id: '' err) else ret '''') (\<lambda>clientID.
     if clientID \<noteq> '''' then
       bindIO (wrapErr ''unable to update keycloak client: '' (UpdateClient env a (dto\<lparr>dtc_ID := clientID\<rparr>))) (\<lambda>_. ret clientID)
     else
       bindIO (wrapErr ''unable to create client: '' (adapter_CreateClient env a dto)) (\<lambda>_.
       wrapErr ''unable to check client id: '' (GetClientID env a (dtc_ClientId dto) (dtc_RealmName dto))))))
    (\<lambda>i t. written clients (world s) dto i (world t)) (\<lambda>_ _. True) s"
proof -
  have new: "wp True (bindIO (adapter_CreateClient env a dto) (\<lambda>_. GetClientID env a (dtc_ClientId dto) (dtc_RealmName dto)))
      (\<lambda>i t'. written clients (world s) dto i (world t')) (\<lambda>_ _. True) t" if t: "clients (world t) = clients (world s)"
    for t :: "('a, event, 'b) io_state"
    unfolding wp_bindIO
  proof (rule wp_weaken [OF wp_CreateClient [OF server]], rule wp_weaken [OF wp_GetClientID_known [OF server]])
    fix i and t1 t2 :: "('a, event, 'b) io_state"
    assume "(\<exists>i. written clients (world t) dto i (world t1)) \<and> mem t1 = mem t"
      and "clients (world t2) = clients (world t1) \<and> mem t2 = mem t1 \<and> (\<exists>y. clients (world t1) (dtc_ClientId dto) = Some y \<and> gcl_ID y = Some i)"
    moreover then obtain j z where "clients (world t1) = (clients (world t))(dtc_ClientId dto \<mapsto> (getGclCln dto)\<lparr>gcl_ID := Some j, gcl_rest := z\<rparr>)"
      unfolding written_def by blast
    ultimately show "written clients (world s) dto i (world t2)" unfolding written_def t by (intro exI [of _ z]) simp
  qed
  have old: "wp True (UpdateClient env a (dto\<lparr>dtc_ID := i\<rparr>)) (\<lambda>_ t'. written clients (world s) dto i (world t')) (\<lambda>_ _. True) t"
    if "clients (world t) = clients (world s)" "clients (world s) (dtc_ClientId dto) = Some y" "gcl_ID y = Some i" "i \<noteq> ''''" for t i y
    using wp_UpdateClient [OF server, of t y i] that by (auto simp: written_def elim!: wp_weaken)
  show ?thesis
    unfolding wp_bindIO [of True "tryIO _"] wp_tryIO
    by (rule wp_mono [OF wp_GetClientID_known [OF server]]) (use old new in \<open>auto elim!: wp_weaken\<close>)
qed

lemma wp_putKeycloakClient:
  assumes server: "clients_server env a realm clients" and flows: "flows_keep env a realm clients"
    and k8s: "k8s_keeps env clients" and rand: "rand_keeps env clients"
  shows "wp True (putKeycloakClient env a realm) (\<lambda>i t. client_put clients (world s) (served_client s) realm i (world t)) (\<lambda>_ _. True) s"
proof -
  let ?c = "served_client s"
  let ?rest = "\<lambda>ov. bindIO (wrapErr ''error during convertCrToDto: '' (convertCrToDto env realm ov)) (\<lambda>clientDto.
     bindIO (tryIO (GetClientID env a (dtc_ClientId clientDto) (dtc_RealmName clientDto))) (\<lambda>res.
     bindIO (case res of
         Inr i \<Rightarrow> ret i
       | Inl err \<Rightarrow> if \<not> IsErrNotFound err then fail (Wrapped ''unable to check client id: '' err) else ret '''') (\<lambda>clientID.
     if clientID \<noteq> '''' then
       bindIO (wrapErr ''unable to update keycloak client: '' (UpdateClient env a (clientDto\<lparr>dtc_ID := clientID\<rparr>))) (\<lambda>_. ret clientID)
     else
       bindIO (wrapErr ''unable to create client: '' (adapter_CreateClient env a clientDto)) (\<lambda>_.
       wrapErr ''unable to check client id: '' (GetClientID env a (dtc_ClientId clientDto) (dtc_RealmName clientDto))))))"
  have rest: "wp True (?rest ov) (\<lambda>i t'. client_put clients (world s) ?c realm i (world t')) (\<lambda>_ _. True) t"
    if t: "clients (world t) = clients (world s)" "served_client t = ?c" and ov: "acl_AuthenticationFlowBindingOverrides ?c = None \<longrightarrow> ov = None"
    for t ov
    unfolding wp_bindIO [of True "wrapErr _ (convertCrToDto _ _ _)"] wp_wrapErr
  proof (rule wp_weaken [OF wp_convertCrToDto [OF k8s rand refl]])
    fix dto and t1 :: "('a, event, client_mem) io_state"
    assume "same_client clients (clients (world t)) (served_client t) t1 \<and>
      (\<exists>secret. dto = ConvertDataClientToClient (served_client t) secret realm ov \<and> (acl_Public (served_client t) \<longrightarrow> secret = ''''))"
    then obtain secret where same: "clients (world t1) = clients (world s)" and dto: "dto = ConvertDataClientToClient ?c secret realm ov"
      and secret: "acl_Public ?c \<longrightarrow> secret = ''''" using t by (auto simp: same_client_def)
    have "dtc_RealmName dto = realm" by (simp add: dto ConvertDataClientToClient_def)
    then have "clients_server env a (dtc_RealmName dto) clients" using server by simp
    then show "wp True (bindIO (tryIO (GetClientID env a (dtc_ClientId dto) (dtc_RealmName dto))) (\<lambda>res.
       bindIO (case res of
           Inr i \<Rightarrow> ret i
         | Inl err \<Rightarrow> if \<not> IsErrNotFound err then fail (Wrapped ''unable to check client id: '' err) else ret '''') (\<lambda>clientID.
       if clientID \<noteq> '''' then
         bindIO (wrapErr ''unable to update keycloak client: '' (UpdateClient env a (dto\<lparr>dtc_ID := clientID\<rparr>))) (\<lambda>_. ret clientID)
       else
         bindIO (wrapErr ''unable to create client: '' (adapter_CreateClient env a dto)) (\<lambda>_.
         wrapErr ''unable to check client id: '' (GetClientID env a (dtc_ClientId dto) (dtc_RealmName dto))))))
        (\<lambda>i t'. client_put clients (world s) ?c realm i (world t')) (\<lambda>_ _. True) t1"
    proof (rule wp_weaken [OF wp_write_client])
      fix i and t' :: "('a, event, client_mem) io_state"
      assume "written clients (world t1) dto i (world t')"
      then have "written clients (world s) dto i (world t')" using same by (simp add: written_def)
      then show "client_put clients (world s) ?c realm i (world t')" unfolding client_put_def dto using ov secret by (intro exI conjI)
    qed
  qed
  show ?thesis
  proof (cases "acl_AuthenticationFlowBindingOverrides ?c")
    case None
    then have "putKeycloakClient env a realm s = ?rest None s" by (simp add: putKeycloakClient_def bindIO_def getMem_def ret_def)
    then show ?thesis by (rule wp_cong) (rule rest, simp_all)
  next
    case (Some fl)
    let ?get = "wrapErr ''unable to get auth flows: '' (bindIO (getAuthFlows env a fl realm) (\<lambda>o'. ret (Some o')))"
    have "wp True ?get (\<lambda>ov t. clients (world t) = clients (world s) \<and> mem t = mem s) (\<lambda>_ _. True) s"
      using wp_getAuthFlows [OF flows, of fl s] by (auto elim!: wp_weaken)
    then have "wp True (bindIO ?get ?rest) (\<lambda>i t'. client_put clients (world s) ?c realm i (world t')) (\<lambda>_ _. True) s"
      unfolding wp_bindIO [of True ?get] by (rule wp_weaken) (rule rest, simp_all add: Some)
    moreover have "putKeycloakClient env a realm s = bindIO ?get ?rest s" using Some by (simp add: putKeycloakClient_def bindIO_def getMem_def)
    ultimately show ?thesis by (intro wp_cong [where m = "putKeycloakClient env a realm"])
  qed
qed

lemma keeps_try_SetCondition:
  assumes "k8s_keeps env clients"
  shows "keeps (\<lambda>t. clients (world t) = W \<and> clm_data (mem t) = d) (try_SetCondition env c st r msg)"
  unfolding try_SetCondition_def client_SetCondition_def k8s_StatusUpdate_def
  by (intro keeps_intros) (use assms in \<open>auto simp: k8s_keeps_def set_client_status_def client_obj_def split: k8s_object.split\<close>)


text \<open>A Keycloak whose world is the list of its clients, and a cluster with a secret.\<close>

fun clients_gocloak :: "gocloak_request \<Rightarrow> gocloak_Client list \<Rightarrow> gocloak_result \<times> gocloak_Client list" where
  "clients_gocloak (GocloakGetClients _ _ _) w = (GocloakClients w, w)"
| "clients_gocloak (GocloakRealmOp _ _ (CreateClientOp x)) w = (NoGocloak, x\<lparr>gcl_ID := Some ''new''\<rparr> # w)"
| "clients_gocloak (GocloakRealmOp _ _ (UpdateClientOp x)) w = (NoGocloak, x # w)"
| "clients_gocloak _ w = (NoGocloak, w)"

definition clients_env :: "gocloak_Client list env" where
  "clients_env = idle_env\<lparr>gocloak := (\<lambda>cl rq w. case clients_gocloak rq w of (r, w') \<Rightarrow> (Inr r, w')),
     k8s := (\<lambda>rq w. (case rq of KStatusUpdate x \<Rightarrow> Inr x
       | KGet KindSecret _ n \<Rightarrow> Inr (SecretObj \<lparr>sec_Name = n, sec_Namespace = '''', sec_ResourceVersion = '''', sec_OwnerReferences = [],
           sec_Data = [(''k'', ''hush'')]\<rparr>)
       | _ \<Rightarrow> Inl (NewError ''refused''), w))\<rparr>"

definition listed_client :: "gocloak_Client list \<Rightarrow> string \<Rightarrow> gocloak_Client option" where
  "listed_client w cid = find (\<lambda>x. gcl_ClientID x = Some cid) w"

definition put_state :: "(gocloak_Client list, event, client_mem) io_state" where
  "put_state = \<lparr>world = [zero_gocloak_Client\<lparr>gcl_ID := Some ''oid'', gcl_ClientID := Some ''other''\<rparr>], trace = [],
     mem = (mem authz_state)\<lparr>clm_data := (clm_data (mem authz_state))\<lparr>dc_Client := test_client\<lparr>acl_Secret := ''$sec:k''\<rparr>\<rparr>\<rparr>\<rparr>"

lemma clients_env_server: "clients_server clients_env a realm listed_client"
proof -
  have same: "x\<lparr>gcl_rest := gcl_rest x\<rparr> = x" for x :: gocloak_Client by simp
  have "\<exists>i z. listed_client (x\<lparr>gcl_ID := Some ''new''\<rparr> # w) = (listed_client w)(cid \<mapsto> x\<lparr>gcl_ID := Some i, gcl_rest := z\<rparr>)"
    if "gcl_ClientID x = Some cid" for x w cid
    by (rule exI [of _ "''new''"], rule exI [of _ "gcl_rest x"]) (use that in \<open>auto simp: listed_client_def fun_eq_iff\<close>)
  moreover have "\<exists>z. listed_client (x # w) = (listed_client w)(cid \<mapsto> x\<lparr>gcl_rest := z\<rparr>)"
    if "gcl_ClientID x = Some cid" for x w cid
    by (rule exI [of _ "gcl_rest x"]) (use that in \<open>auto simp: listed_client_def fun_eq_iff\<close>)
  ultimately show ?thesis
    by (auto simp: clients_server_def gocloak_sent_def clients_env_def gocloak_clients_def listed_client_def)
qed

lemma clients_env_keeps: "flows_keep clients_env a realm clients" "k8s_keeps clients_env clients" "rand_keeps clients_env clients"
  by (auto simp: flows_keep_def rest_sent_def k8s_keeps_def rand_keeps_def clients_env_def idle_env_def)


end
