(* ===== verification/KcSession.thy ===== *)
theory KcSession
  imports GoIO KcHttp
begin

text \<open>
  \<open>pkg/client/keycloakv2/keycloak_client.go\<close>: the session below the methods of the REST client. It is
  what stands behind the fields \<open>kc_new\<close> and \<open>kc_http\<close> of the record \<open>env\<close>: options, login, renewal of
  tokens and the one retry of a rejected request.

  The memory of a program is the object \<open>KeycloakClient\<close>, the trace are the HTTP messages in the order
  they are sent. The HTTP transport, the file system, the clock, UUIDs, certificates and the JWT
  library are the fields of \<open>session_env\<close>. Of the standard library there are canonical header names,
  the encoding of forms and the decoding of a token answer. The mutex is left out (a run is
  sequential), and so is logging.
\<close>

section \<open>Data\<close>

record ClientCredentials =
  cc_ClientId :: string
  cc_ClientSecret :: string
  cc_JWTSigningKey :: string
  cc_JWTSigningAlg :: string
  cc_JWTToken :: string
  cc_JWTTokenFile :: string
  cc_Username :: string
  cc_Password :: string
  cc_GrantType :: string
  cc_AccessToken :: string
  cc_RefreshToken :: string
  cc_TokenType :: string
  cc_ExpiresIn :: int

definition zero_ClientCredentials :: ClientCredentials where
  "zero_ClientCredentials = \<lparr>cc_ClientId = '''', cc_ClientSecret = '''', cc_JWTSigningKey = '''', cc_JWTSigningAlg = '''',
     cc_JWTToken = '''', cc_JWTTokenFile = '''', cc_Username = '''', cc_Password = '''', cc_GrantType = '''',
     cc_AccessToken = '''', cc_RefreshToken = '''', cc_TokenType = '''', cc_ExpiresIn = 0\<rparr>"

text \<open>An \<open>http.Client\<close> by what it was configured with.\<close>

record http_client =
  hc_InsecureSkipVerify :: bool
  hc_RootCAs :: "string option"
  hc_Certificates :: "(string \<times> string) list"
  hc_Timeout :: int

record kc_session =
  ks_baseUrl :: string
  ks_authUrl :: string
  ks_realm :: string
  ks_clientCredentials :: ClientCredentials
  ks_httpClient :: "http_client option"
  ks_initialLogin :: bool
  ks_userAgent :: string
  ks_additionalHeaders :: "string gomap"
  ks_redHatSSO :: bool
  ks_accessTokenProvided :: bool

record clientConfig =
  cf_basePath :: string
  cf_adminUrl :: string
  cf_clientTimeout :: int
  cf_caCert :: string
  cf_tlsInsecureSkipVerify :: bool
  cf_tlsClientCert :: string
  cf_tlsClientPrivateKey :: string

text \<open>
  A message as \<open>http.Client.Do\<close> sends it. \<open>hm_GetBody\<close> is the field \<open>GetBody\<close> of the request: absent, or
  what it gives when it is called.
\<close>

record http_message =
  hm_Method :: string
  hm_URL :: string
  hm_Header :: "string gomap"
  hm_Body :: string
  hm_GetBody :: "(go_error + string) option"

record http_reply =
  rpl_StatusCode :: int
  rpl_Status :: string
  rpl_Body :: http_body

text \<open>The type of a signing method, as far as the code asks for it.\<close>

datatype signing_family = SigningMethodRSA | SigningMethodECDSA | SigningMethodEd25519 | OtherSigningMethod string

record jwt_claims =
  jc_jti :: string
  jc_iss :: string
  jc_sub :: string
  jc_aud :: string
  jc_exp :: int
  jc_iat :: int

record 'w session_env =
  http_Do :: "http_client \<Rightarrow> http_message \<Rightarrow> 'w \<Rightarrow> (go_error + http_reply) \<times> 'w"
  http_url_error :: "string \<Rightarrow> go_error option"
  header_rank :: "nat \<Rightarrow> string \<Rightarrow> nat"
  json_error :: "http_body \<Rightarrow> go_error"
  os_ReadFile :: "string \<Rightarrow> 'w \<Rightarrow> (go_error + string) \<times> 'w"
  uuid_NewUUID :: "'w \<Rightarrow> (go_error + string) \<times> 'w"
  clock_Now :: "'w \<Rightarrow> (go_error + int) \<times> 'w"
  cookiejar_New :: "go_error option"
  tls_X509KeyPair :: "string \<Rightarrow> string \<Rightarrow> go_error + (string \<times> string)"
  jwt_GetSigningMethod :: "string \<Rightarrow> signing_family option"
  jwt_ParseKey :: "signing_family \<Rightarrow> string \<Rightarrow> go_error + string"
  jwt_SignedString :: "string \<Rightarrow> jwt_claims \<Rightarrow> string \<Rightarrow> go_error + string"

type_synonym ('w, 'a) session_prog = "('w, http_message, kc_session, 'a) io"

text \<open>Effects that are not HTTP, and \<open>fmt.Errorf\<close> with \<open>%s\<close> or \<open>%v\<close>, which does not wrap.\<close>

definition askIO :: "('w \<Rightarrow> (go_error + 'a) \<times> 'w) \<Rightarrow> ('w, 'e, 'm, 'a) io" where
  "askIO g = (\<lambda>s. case g (world s) of
     (Inl err, w) \<Rightarrow> (Err err, s\<lparr>world := w\<rparr>) | (Inr a, w) \<Rightarrow> (Ok a, s\<lparr>world := w\<rparr>))"

definition pureIO :: "go_error + 'a \<Rightarrow> ('w, 'e, 'm, 'a) io" where
  "pureIO x = (case x of Inl err \<Rightarrow> fail err | Inr a \<Rightarrow> ret a)"

definition sayErr :: "string \<Rightarrow> ('w, 'e, 'm, 'a) io \<Rightarrow> ('w, 'e, 'm, 'a) io" where
  "sayErr pre m = bindIO (tryIO m) (\<lambda>r. case r of Inl err \<Rightarrow> fail (NewError (pre @ Error err)) | Inr a \<Rightarrow> ret a)"

section \<open>The standard library\<close>

definition upper_char :: "char \<Rightarrow> char" where
  "upper_char c = (let n = (of_char c :: nat) in if 97 \<le> n \<and> n \<le> 122 then char_of (n - 32) else c)"

definition validHeaderFieldByte :: "char \<Rightarrow> bool" where
  "validHeaderFieldByte c \<longleftrightarrow> is_alnum c \<or> c \<in> set ''!#$%&*+-.^_|~'' \<or> c = CHR 0x27 \<or> c = CHR 0x60"

fun canonical_bytes :: "bool \<Rightarrow> string \<Rightarrow> string" where
  "canonical_bytes upper [] = []"
| "canonical_bytes upper (c # s) = (if upper then upper_char c else lower_char c) # canonical_bytes (c = CHR ''-'') s"

definition CanonicalHeaderKey :: "string \<Rightarrow> string" where
  "CanonicalHeaderKey k = (if list_all validHeaderFieldByte k then canonical_bytes True k else k)"

definition header_Set :: "string \<Rightarrow> string \<Rightarrow> string gomap \<Rightarrow> string gomap" where
  "header_Set k v h = AList.update (CanonicalHeaderKey k) v h"

definition header_Get :: "string gomap \<Rightarrow> string \<Rightarrow> string" where
  "header_Get h k = get_str h (CanonicalHeaderKey k)"

text \<open>\<open>url.QueryEscape\<close> and \<open>url.Values.Encode\<close> for one value per key: keys in order.\<close>

definition keeps_query :: "char \<Rightarrow> bool" where
  "keeps_query c \<longleftrightarrow> is_alnum c \<or> c \<in> set ''-_.~''"

definition query_char :: "char \<Rightarrow> string" where
  "query_char c = (if c = CHR '' '' then ''+'' else escape_char keeps_query c)"

definition QueryEscape :: "string \<Rightarrow> string" where
  "QueryEscape s = concat (map query_char s)"

definition encode_pair :: "string \<times> string \<Rightarrow> string" where
  "encode_pair e = (case e of (k, v) \<Rightarrow> QueryEscape k @ ''='' @ QueryEscape v)"

fun join_with :: "char \<Rightarrow> string list \<Rightarrow> string" where
  "join_with c [] = []"
| "join_with c [x] = x"
| "join_with c (x # y # zs) = x @ c # join_with c (y # zs)"

definition Values_Encode :: "string gomap \<Rightarrow> string" where
  "Values_Encode m = join_with (CHR ''&'') (map encode_pair (sort_key fst m))"

text \<open>\<open>json.Unmarshal\<close> into \<open>ClientCredentials\<close>; \<open>None\<close> is an error.\<close>

definition is_digit :: "char \<Rightarrow> bool" where
  "is_digit c = (let n = (of_char c :: nat) in 48 \<le> n \<and> n \<le> 57)"

definition decimal_value :: "string \<Rightarrow> int" where
  "decimal_value s = foldl (\<lambda>a c. 10 * a + (of_char c - 48)) 0 s"

definition parse_int64 :: "string \<Rightarrow> int option" where
  "parse_int64 s = (case s of
     [] \<Rightarrow> None
   | c # ds \<Rightarrow>
       let (neg, ds) = (if c = CHR ''-'' then (True, ds) else (False, s)); v = (if neg then - decimal_value ds else decimal_value ds)
       in if ds \<noteq> [] \<and> list_all is_digit ds \<and> - (2 ^ 63) \<le> v \<and> v < 2 ^ 63 then Some v else None)"

fun json_is_int :: "json \<Rightarrow> bool" where
  "json_is_int (JNum s) = (parse_int64 s \<noteq> None)"
| "json_is_int JNull = True"
| "json_is_int _ = False"

fun json_last_int :: "json list \<Rightarrow> int option" where
  "json_last_int [] = None"
| "json_last_int (v # vs) = (case json_last_int vs of Some i \<Rightarrow> Some i
     | None \<Rightarrow> (case v of JNum s \<Rightarrow> parse_int64 s | _ \<Rightarrow> None))"

definition credential_fields :: "string list" where
  "credential_fields = [''ClientId'', ''ClientSecret'', ''JWTSigningKey'', ''JWTSigningAlg'', ''JWTToken'', ''JWTTokenFile'',
     ''Username'', ''Password'', ''GrantType'', ''access_token'', ''refresh_token'', ''token_type'']"

definition Unmarshal_ClientCredentials :: "http_body \<Rightarrow> ClientCredentials option" where
  "Unmarshal_ClientCredentials body = (case body_json body of
     Some JNull \<Rightarrow> Some zero_ClientCredentials
   | Some (JObj kvs) \<Rightarrow>
       let str = (\<lambda>name. the_default '''' (json_last_str (json_keys name kvs))) in
       if list_all (\<lambda>name. list_all json_is_str (json_keys name kvs)) credential_fields \<and> list_all json_is_int (json_keys ''expires_in'' kvs)
       then Some \<lparr>cc_ClientId = str ''ClientId'', cc_ClientSecret = str ''ClientSecret'', cc_JWTSigningKey = str ''JWTSigningKey'',
              cc_JWTSigningAlg = str ''JWTSigningAlg'', cc_JWTToken = str ''JWTToken'', cc_JWTTokenFile = str ''JWTTokenFile'',
              cc_Username = str ''Username'', cc_Password = str ''Password'', cc_GrantType = str ''GrantType'',
              cc_AccessToken = str ''access_token'', cc_RefreshToken = str ''refresh_token'', cc_TokenType = str ''token_type'',
              cc_ExpiresIn = the_default 0 (json_last_int (json_keys ''expires_in'' kvs))\<rparr>
       else None
   | _ \<Rightarrow> None)"

text \<open>\<open>strings.TrimSpace\<close> on ASCII text.\<close>

definition ascii_space :: "char \<Rightarrow> bool" where
  "ascii_space c = (let n = (of_char c :: nat) in (9 \<le> n \<and> n \<le> 13) \<or> n = 32)"

definition strings_TrimSpace :: "string \<Rightarrow> string" where
  "strings_TrimSpace s = rev (dropWhile ascii_space (rev (dropWhile ascii_space s)))"

section \<open>Options\<close>

text \<open>An option configures the client and what is only needed to build it.\<close>

type_synonym ClientOption = "kc_session \<times> clientConfig \<Rightarrow> kc_session \<times> clientConfig"

definition with_credentials :: "(ClientCredentials \<Rightarrow> ClientCredentials) \<Rightarrow> kc_session \<Rightarrow> kc_session" where
  "with_credentials f c = c\<lparr>ks_clientCredentials := f (ks_clientCredentials c)\<rparr>"

definition WithRealm :: "string \<Rightarrow> ClientOption" where
  "WithRealm realm = (\<lambda>(c, cfg). (c\<lparr>ks_realm := realm\<rparr>, cfg))"

definition WithBasePath :: "string \<Rightarrow> ClientOption" where
  "WithBasePath basePath = (\<lambda>(c, cfg). (c, cfg\<lparr>cf_basePath := basePath\<rparr>))"

definition WithAdminURL :: "string \<Rightarrow> ClientOption" where
  "WithAdminURL adminUrl = (\<lambda>(c, cfg). (c, cfg\<lparr>cf_adminUrl := adminUrl\<rparr>))"

definition WithClientSecret :: "string \<Rightarrow> ClientOption" where
  "WithClientSecret clientSecret = (\<lambda>(c, cfg). (with_credentials (\<lambda>x. x\<lparr>cc_ClientSecret := clientSecret\<rparr>) c, cfg))"

definition WithPasswordGrant :: "string \<Rightarrow> string \<Rightarrow> ClientOption" where
  "WithPasswordGrant username password = (\<lambda>(c, cfg).
     (with_credentials (\<lambda>x. x\<lparr>cc_Username := username, cc_Password := password, cc_GrantType := ''password''\<rparr>) c, cfg))"

definition WithAccessToken :: "string \<Rightarrow> ClientOption" where
  "WithAccessToken accessToken = (\<lambda>(c, cfg).
     ((with_credentials (\<lambda>x. x\<lparr>cc_AccessToken := accessToken, cc_TokenType := ''bearer''\<rparr>) c)\<lparr>ks_accessTokenProvided := True\<rparr>, cfg))"

definition grantTypeClientCredentials :: string where
  "grantTypeClientCredentials = ''client_credentials''"

definition WithJWTAuth :: "string \<Rightarrow> string \<Rightarrow> string \<Rightarrow> string \<Rightarrow> ClientOption" where
  "WithJWTAuth jwtSigningAlg jwtSigningKey jwtToken jwtTokenFile = (\<lambda>(c, cfg).
     (with_credentials (\<lambda>x. x\<lparr>cc_JWTSigningAlg := jwtSigningAlg, cc_JWTSigningKey := jwtSigningKey, cc_JWTToken := jwtToken,
        cc_JWTTokenFile := jwtTokenFile, cc_GrantType := grantTypeClientCredentials\<rparr>) c, cfg))"

definition WithInitialLogin :: "bool \<Rightarrow> ClientOption" where
  "WithInitialLogin initialLogin = (\<lambda>(c, cfg). (c\<lparr>ks_initialLogin := initialLogin\<rparr>, cfg))"

definition WithClientTimeout :: "int \<Rightarrow> ClientOption" where
  "WithClientTimeout timeout = (\<lambda>(c, cfg). (c, cfg\<lparr>cf_clientTimeout := timeout\<rparr>))"

definition WithCACert :: "string \<Rightarrow> ClientOption" where
  "WithCACert caCert = (\<lambda>(c, cfg). (c, cfg\<lparr>cf_caCert := caCert\<rparr>))"

definition WithTLSInsecureSkipVerify :: "bool \<Rightarrow> ClientOption" where
  "WithTLSInsecureSkipVerify skip = (\<lambda>(c, cfg). (c, cfg\<lparr>cf_tlsInsecureSkipVerify := skip\<rparr>))"

definition WithTLSClientCert :: "string \<Rightarrow> string \<Rightarrow> ClientOption" where
  "WithTLSClientCert cert privateKey = (\<lambda>(c, cfg). (c, cfg\<lparr>cf_tlsClientCert := cert, cf_tlsClientPrivateKey := privateKey\<rparr>))"

definition WithUserAgent :: "string \<Rightarrow> ClientOption" where
  "WithUserAgent userAgent = (\<lambda>(c, cfg). (c\<lparr>ks_userAgent := userAgent\<rparr>, cfg))"

definition WithRedHatSSO :: "bool \<Rightarrow> ClientOption" where
  "WithRedHatSSO enabled = (\<lambda>(c, cfg). (c\<lparr>ks_redHatSSO := enabled\<rparr>, cfg))"

definition WithAdditionalHeaders :: "string gomap \<Rightarrow> ClientOption" where
  "WithAdditionalHeaders headers = (\<lambda>(c, cfg). (c\<lparr>ks_additionalHeaders := headers\<rparr>, cfg))"

section \<open>Credentials\<close>

definition issuerUrl :: "string \<Rightarrow> string \<Rightarrow> string" where
  "issuerUrl base realm = base @ ''/realms/'' @ realm"

definition tokenUrl :: "string \<Rightarrow> string \<Rightarrow> string" where
  "tokenUrl base realm = base @ ''/realms/'' @ realm @ ''/protocol/openid-connect/token''"

definition newSignedJWT :: "'w session_env \<Rightarrow> string \<Rightarrow> string \<Rightarrow> string \<Rightarrow> string \<Rightarrow> ('w, 'e, 'm, string) io" where
  "newSignedJWT env issuerURL clientId alg jwtSigningKey =
     bindIO (sayErr ''failed to generate JWT ID: '' (askIO (uuid_NewUUID env))) (\<lambda>jti.
     bindIO (askIO (clock_Now env)) (\<lambda>t1.
     bindIO (askIO (clock_Now env)) (\<lambda>t2.
     let claims = \<lparr>jc_jti = jti, jc_iss = clientId, jc_sub = clientId, jc_aud = issuerURL, jc_exp = t1 + 60, jc_iat = t2\<rparr> in
     case jwt_GetSigningMethod env alg of
       None \<Rightarrow> fail (NewError (''unsupported signing method: '' @ alg))
     | Some signingMethod \<Rightarrow>
         bindIO (pureIO (case signingMethod of
             OtherSigningMethod text \<Rightarrow> Inl (NewError (''unsupported signing method: '' @ text))
           | _ \<Rightarrow> jwt_ParseKey env signingMethod jwtSigningKey)) (\<lambda>key.
         pureIO (jwt_SignedString env alg claims key)))))"

text \<open>The assertion: a given token, the content of a file, or a new token signed with the key.\<close>

definition client_assertion :: "'w session_env \<Rightarrow> kc_session \<Rightarrow> ('w, 'e, 'm, string) io" where
  "client_assertion env c =
     (let x = ks_clientCredentials c in
      bindIO (if cc_JWTToken x = '''' \<and> cc_JWTTokenFile x \<noteq> ''''
        then bindIO (sayErr ''failed to read JWT token from file: '' (askIO (os_ReadFile env (cc_JWTTokenFile x)))) (\<lambda>content. ret (strings_TrimSpace content))
        else ret (cc_JWTToken x)) (\<lambda>signedJWT.
      if signedJWT \<noteq> '''' then ret signedJWT
      else sayErr ''failed to create signed JWT: ''
        (newSignedJWT env (issuerUrl (ks_baseUrl c) (ks_realm c)) (cc_ClientId x) (cc_JWTSigningAlg x) (cc_JWTSigningKey x))))"

definition getAuthenticationFormData :: "'w session_env \<Rightarrow> ('w, string gomap) session_prog" where
  "getAuthenticationFormData env =
     bindIO (getMem id) (\<lambda>c.
     let x = ks_clientCredentials c; form = [(''client_id'', cc_ClientId x), (''grant_type'', cc_GrantType x)] in
     if cc_GrantType x = ''password'' then
       ret (form @ [(''username'', cc_Username x), (''password'', cc_Password x)] @
         (if cc_ClientSecret x \<noteq> '''' then [(''client_secret'', cc_ClientSecret x)] else []))
     else if cc_GrantType x = grantTypeClientCredentials then
       (if cc_JWTToken x \<noteq> '''' \<or> cc_JWTTokenFile x \<noteq> '''' \<or> cc_JWTSigningKey x \<noteq> '''' then
          bindIO (client_assertion env c) (\<lambda>signedJWT.
          ret (form @ [(''client_assertion_type'', ''urn:ietf:params:oauth:client-assertion-type:jwt-bearer''), (''client_assertion'', signedJWT)]))
        else ret (form @ [(''client_secret'', cc_ClientSecret x)]))
     else ret form)"

section \<open>Requests\<close>

text \<open>\<open>httpClient.Do\<close>; calling it on a nil client is a nil dereference.\<close>

definition http_send :: "'w session_env \<Rightarrow> http_message \<Rightarrow> ('w, http_reply) session_prog" where
  "http_send env msg =
     bindIO (getMem ks_httpClient) (\<lambda>p.
     bindIO (derefIO p) (\<lambda>c. callIO msg (http_Do env c msg)))"

definition add_headers :: "'w session_env \<Rightarrow> string gomap \<Rightarrow> ('w, string gomap) session_prog" where
  "add_headers env h =
     bindIO (getMem ks_additionalHeaders) (\<lambda>extra.
     bindIO (range_order (header_rank env) extra) (\<lambda>es.
     ret (fold (\<lambda>(header, value). header_Set header value) es h)))"

text \<open>The request for a token, the same for a login and for a renewal.\<close>

definition token_request :: "'w session_env \<Rightarrow> string gomap \<Rightarrow> ('w, http_reply) session_prog" where
  "token_request env form =
     bindIO (getMem id) (\<lambda>c.
     let url = tokenUrl (ks_authUrl c) (ks_realm c); body = Values_Encode form in
     case http_url_error env url of
       Some err \<Rightarrow> fail err
     | None \<Rightarrow>
         bindIO (add_headers env []) (\<lambda>h.
         let h = header_Set ''Content-Type'' ''application/x-www-form-urlencoded'' h;
             h = (if ks_userAgent c \<noteq> '''' then header_Set ''User-Agent'' (ks_userAgent c) h else h) in
         http_send env \<lparr>hm_Method = ''POST'', hm_URL = url, hm_Header = h, hm_Body = body, hm_GetBody = Some (Inr body)\<rparr>))"

definition store_tokens :: "ClientCredentials \<Rightarrow> kc_session \<Rightarrow> kc_session" where
  "store_tokens new = with_credentials (\<lambda>x. x\<lparr>cc_AccessToken := cc_AccessToken new, cc_RefreshToken := cc_RefreshToken new,
     cc_TokenType := cc_TokenType new\<rparr>)"

definition decode_tokens :: "'w session_env \<Rightarrow> http_body \<Rightarrow> ('w, unit) session_prog" where
  "decode_tokens env body = (case Unmarshal_ClientCredentials body of
     None \<Rightarrow> fail (json_error env body)
   | Some clientCredentials \<Rightarrow> modMem (store_tokens clientCredentials))"

definition login :: "'w session_env \<Rightarrow> ('w, unit) session_prog" where
  "login env =
     bindIO (getMem id) (\<lambda>c.
     if ks_accessTokenProvided c then ret ()
     else
       bindIO (getAuthenticationFormData env) (\<lambda>accessTokenData.
       bindIO (token_request env accessTokenData) (\<lambda>accessTokenResponse.
       if rpl_StatusCode accessTokenResponse \<noteq> 200 then
         fail (NewError (''error sending POST request to '' @ tokenUrl (ks_authUrl c) (ks_realm c) @ '': '' @ rpl_Status accessTokenResponse))
       else decode_tokens env (rpl_Body accessTokenResponse))))"

definition Refresh :: "'w session_env \<Rightarrow> ('w, unit) session_prog" where
  "Refresh env =
     bindIO (getMem ks_accessTokenProvided) (\<lambda>provided.
     if provided then ret ()
     else
       bindIO (getAuthenticationFormData env) (\<lambda>refreshTokenData.
       bindIO (token_request env refreshTokenData) (\<lambda>refreshTokenResponse.
       if rpl_StatusCode refreshTokenResponse = 400 then login env
       else decode_tokens env (rpl_Body refreshTokenResponse))))"

definition authorization :: "ClientCredentials \<Rightarrow> string" where
  "authorization x = cc_TokenType x @ '' '' @ cc_AccessToken x"

definition addRequestHeaders :: "'w session_env \<Rightarrow> http_message \<Rightarrow> ('w, http_message) session_prog" where
  "addRequestHeaders env request =
     bindIO (getMem id) (\<lambda>c.
     bindIO (add_headers env (hm_Header request)) (\<lambda>h.
     let h = header_Set ''Authorization'' (authorization (ks_clientCredentials c)) h;
         h = header_Set ''Accept'' ''application/json'' h;
         h = (if ks_userAgent c \<noteq> '''' then header_Set ''User-Agent'' (ks_userAgent c) h else h);
         h = (if header_Get h ''Content-type'' = '''' \<and> hm_Method request \<in> {''POST'', ''PUT'', ''DELETE''}
              then header_Set ''Content-type'' ''application/json'' h else h)
     in ret (request\<lparr>hm_Header := h\<rparr>)))"

text \<open>Sending a request consumes its body; \<open>GetBody\<close>, where there is one, brings it back.\<close>

definition restore_body :: "http_message \<Rightarrow> ('w, http_message) session_prog" where
  "restore_body req = (case hm_GetBody req of
     None \<Rightarrow> ret (req\<lparr>hm_Body := ''''\<rparr>)
   | Some b \<Rightarrow> bindIO (sayErr ''error restoring request body for retry: '' (pureIO b)) (\<lambda>body. ret (req\<lparr>hm_Body := body\<rparr>)))"

definition rejected :: "http_reply \<Rightarrow> bool" where
  "rejected resp \<longleftrightarrow> rpl_StatusCode resp = 401 \<or> rpl_StatusCode resp = 403"

definition lazy_login :: "'w session_env \<Rightarrow> ('w, unit) session_prog" where
  "lazy_login env =
     bindIO (getMem ks_initialLogin) (\<lambda>initialLogin.
     if initialLogin then ret ()
     else
       bindIO (modMem (\<lambda>c. c\<lparr>ks_initialLogin := True\<rparr>)) (\<lambda>_.
       sayErr ''error logging in: '' (login env)))"

definition access_token :: "('w, string) session_prog" where
  "access_token = getMem (\<lambda>c. cc_AccessToken (ks_clientCredentials c))"

definition retry_rejected :: "'w session_env \<Rightarrow> string \<Rightarrow> http_message \<Rightarrow> ('w, http_reply) session_prog" where
  "retry_rejected env tokenBefore req =
     bindIO access_token (\<lambda>token.
     bindIO (whenIO (token = tokenBefore) (sayErr ''error refreshing credentials: '' (Refresh env))) (\<lambda>_.
     bindIO (restore_body req) (\<lambda>req.
     bindIO (addRequestHeaders env req) (http_send env))))"

definition keycloakDoer_Do :: "'w session_env \<Rightarrow> http_message \<Rightarrow> ('w, http_reply) session_prog" where
  "keycloakDoer_Do env req =
     bindIO (lazy_login env) (\<lambda>_.
     bindIO access_token (\<lambda>tokenBefore.
     bindIO (addRequestHeaders env req) (\<lambda>req.
     bindIO (http_send env req) (\<lambda>resp.
     if rejected resp then retry_rejected env tokenBefore req else ret resp))))"

section \<open>Making a client\<close>

text \<open>
  \<open>RetryPolicy\<close> with the status of the answer, or an error. The client of \<open>resty\<close> carries it, but what
  is used afterwards is the plain client below, \<open>GetClient\<close>, which knows nothing of retries.
\<close>

definition RetryPolicy :: "int \<Rightarrow> go_error option \<Rightarrow> bool" where
  "RetryPolicy statusCode err \<longleftrightarrow>
     err \<noteq> None \<or> statusCode = 429 \<or> statusCode = 0 \<or> (statusCode \<ge> 500 \<and> statusCode \<noteq> 501)"

record resty_client =
  rc_Client :: http_client
  rc_RetryCount :: int
  rc_RetryWaitTime :: int
  rc_RetryMaxWaitTime :: int
  rc_RetryCondition :: "int \<Rightarrow> go_error option \<Rightarrow> bool"

definition newHttpClient :: "'w session_env \<Rightarrow> bool \<Rightarrow> int \<Rightarrow> string \<Rightarrow> string \<Rightarrow> string \<Rightarrow> go_error + http_client" where
  "newHttpClient env tlsInsecureSkipVerify clientTimeout caCert tlsClientCert tlsClientPrivateKey = (case cookiejar_New env of
     Some err \<Rightarrow> Inl err
   | None \<Rightarrow>
       let client = (\<lambda>certificates. rc_Client
             \<lparr>rc_Client = \<lparr>hc_InsecureSkipVerify = tlsInsecureSkipVerify, hc_RootCAs = (if caCert \<noteq> '''' then Some caCert else None),
                hc_Certificates = certificates, hc_Timeout = clientTimeout\<rparr>,
              rc_RetryCount = 5, rc_RetryWaitTime = 1, rc_RetryMaxWaitTime = 60, rc_RetryCondition = RetryPolicy\<rparr>)
       in if tlsClientCert \<noteq> '''' \<and> tlsClientPrivateKey \<noteq> '''' then
            map_sum id (\<lambda>pair. client [pair]) (tls_X509KeyPair env tlsClientCert tlsClientPrivateKey)
          else Inr (client []))"

definition MasterRealm :: string where "MasterRealm = ''master''"

definition DefaultAdminClientID :: string where "DefaultAdminClientID = ''admin-cli''"

definition initial_client :: "string \<Rightarrow> string \<Rightarrow> kc_session \<times> clientConfig" where
  "initial_client baseURL clientId =
     (\<lparr>ks_baseUrl = baseURL, ks_authUrl = baseURL, ks_realm = MasterRealm, ks_clientCredentials = zero_ClientCredentials\<lparr>cc_ClientId := clientId\<rparr>,
       ks_httpClient = None, ks_initialLogin = True, ks_userAgent = '''', ks_additionalHeaders = [], ks_redHatSSO = False,
       ks_accessTokenProvided = False\<rparr>,
      \<lparr>cf_basePath = '''', cf_adminUrl = '''', cf_clientTimeout = 60, cf_caCert = '''', cf_tlsInsecureSkipVerify = False,
       cf_tlsClientCert = '''', cf_tlsClientPrivateKey = ''''\<rparr>)"

text \<open>The urls and the grant type, once the options are known.\<close>

definition settle_client :: "string \<Rightarrow> kc_session \<Rightarrow> clientConfig \<Rightarrow> kc_session" where
  "settle_client baseURL c config =
     (let c = c\<lparr>ks_authUrl := baseURL @ cf_basePath config, ks_baseUrl := baseURL @ cf_basePath config\<rparr>;
          c = (if cf_adminUrl config \<noteq> '''' then c\<lparr>ks_baseUrl := cf_adminUrl config @ cf_basePath config\<rparr> else c)
      in if cc_GrantType (ks_clientCredentials c) = '''' \<and> cc_ClientSecret (ks_clientCredentials c) \<noteq> ''''
         then with_credentials (\<lambda>x. x\<lparr>cc_GrantType := ''client_credentials''\<rparr>) c else c)"

definition needs_login :: "kc_session \<Rightarrow> bool" where
  "needs_login c \<longleftrightarrow> cc_AccessToken (ks_clientCredentials c) = '''' \<and> ks_initialLogin c"

text \<open>
  The generated client fails only if one of its options does, and the one passed here does not. The new
  client becomes the memory.
\<close>

definition session_NewKeycloakClient :: "'w session_env \<Rightarrow> string \<Rightarrow> string \<Rightarrow> ClientOption list \<Rightarrow> ('w, unit) session_prog" where
  "session_NewKeycloakClient env baseURL clientId opts =
     (if baseURL = '''' then fail (NewError ''url is required'')
      else if clientId = '''' then fail (NewError ''clientId is required'')
      else
        let (c, config) = fold (\<lambda>opt. opt) opts (initial_client baseURL clientId);
            c = settle_client baseURL c config in
        if cc_AccessToken (ks_clientCredentials c) = '''' \<and> cc_GrantType (ks_clientCredentials c) = '''' then
          fail (NewError ''must specify authentication method: use WithPasswordGrant, WithClientSecret, WithJWTAuth, or WithAccessToken'')
        else
          bindIO (sayErr ''failed to create http client: '' (pureIO (newHttpClient env (cf_tlsInsecureSkipVerify config)
            (cf_clientTimeout config) (cf_caCert config) (cf_tlsClientCert config) (cf_tlsClientPrivateKey config)))) (\<lambda>httpClient.
          bindIO (modMem (\<lambda>_. c\<lparr>ks_httpClient := Some httpClient\<rparr>)) (\<lambda>_.
          whenIO (needs_login c) (sayErr ''failed to perform initial login to Keycloak: '' (login env)))))"

text \<open>The client the helper asks for (\<open>createKeycloakClientV2FromAuthData\<close>): the options it builds.\<close>

definition client_options :: "new_client_params \<Rightarrow> ClientOption list" where
  "client_options p = [WithPasswordGrant (nc_Username p) (nc_Password p)] @
     (case nc_CACert p of None \<Rightarrow> [] | Some caCert \<Rightarrow> [WithCACert caCert]) @
     (if nc_InsecureSkipVerify p then [WithTLSInsecureSkipVerify True] else [])"

end
