(* ===== verification/SessionProps.thy ===== *)
theory SessionProps
  imports KcSession
begin

text \<open>
  What the session of the REST client guarantees: forms arrive as they were meant, a request is
  answered with the token the session holds and retried at most once, a token that was provided is
  the only one used; and what a refused renewal does.
\<close>

section \<open>Forms\<close>

text \<open>A reference decoder of forms, as a server reads them.\<close>

definition QueryUnescape :: "string \<Rightarrow> string option" where
  "QueryUnescape s = unescape (map (\<lambda>c. if c = CHR ''+'' then CHR '' '' else c) s)"

definition decode_pair :: "string \<Rightarrow> (string \<times> string) option" where
  "decode_pair p = (case strings_Cut (CHR ''='') p of (k, v) \<Rightarrow>
     (case (QueryUnescape k, QueryUnescape v) of (Some k, Some v) \<Rightarrow> Some (k, v) | _ \<Rightarrow> None))"

fun sequence_options :: "'a option list \<Rightarrow> 'a list option" where
  "sequence_options [] = Some []"
| "sequence_options (x # xs) = (case (x, sequence_options xs) of (Some a, Some as) \<Rightarrow> Some (a # as) | _ \<Rightarrow> None)"

definition parse_form :: "string \<Rightarrow> (string \<times> string) list option" where
  "parse_form s = sequence_options (map decode_pair (strings_Split (CHR ''&'') s))"

lemma hex_not_special: "n < 16 \<Longrightarrow> upper_hex n \<notin> set ''+&=''"
proof -
  assume "n < 16"
  then have "is_hex (upper_hex n)" by (simp add: upper_hex_ok)
  then show ?thesis by (auto simp: is_hex_def Let_def)
qed

lemma query_char_special: "x \<in> set (query_char c) \<Longrightarrow> x \<noteq> CHR ''&'' \<and> x \<noteq> CHR ''=''"
  using hex_not_special [OF char_nibbles(1), of c] hex_not_special [OF char_nibbles(2), of c]
  by (auto simp: query_char_def escape_char_def keeps_query_def is_alnum_def Let_def split: if_splits)

lemma QueryEscape_special: "CHR ''&'' \<notin> set (QueryEscape s)" "CHR ''='' \<notin> set (QueryEscape s)"
  using query_char_special by (auto simp: QueryEscape_def)

lemma plus_query_char:
  "map (\<lambda>c. if c = CHR ''+'' then CHR '' '' else c) (query_char c) = (if c = CHR '' '' then '' '' else escape_char keeps_query c)"
  using hex_not_special [OF char_nibbles(1), of c] hex_not_special [OF char_nibbles(2), of c]
  by (auto simp: query_char_def escape_char_def keeps_query_def is_alnum_def Let_def)

lemma QueryUnescape_QueryEscape: "QueryUnescape (QueryEscape s) = Some s"
proof (induction s)
  case Nil
  show ?case by (simp add: QueryUnescape_def QueryEscape_def)
next
  case (Cons c s)
  have "\<not> keeps_query (CHR ''%'')" by (simp add: keeps_query_def is_alnum_def)
  with Cons show ?case
    by (cases "c = CHR '' ''") (simp_all add: QueryUnescape_def QueryEscape_def plus_query_char unescape_escape_char)
qed

lemma decode_encode_pair: "decode_pair (encode_pair e) = Some e"
proof (cases e)
  case (Pair k v)
  have "strings_Cut (CHR ''='') (QueryEscape k @ ''='' @ QueryEscape v) = (QueryEscape k, QueryEscape v)"
    using QueryEscape_special(2) [of k] by (auto simp: strings_Cut_def takeWhile_append dropWhile_append)
  with Pair show ?thesis by (simp add: decode_pair_def encode_pair_def QueryUnescape_QueryEscape)
qed

lemma strings_Split_cons_sep: "c \<notin> set x \<Longrightarrow> strings_Split c (x @ c # s) = x # strings_Split c s"
  by (induction x) auto

lemma strings_Split_join:
  "xs \<noteq> [] \<Longrightarrow> \<forall>x \<in> set xs. c \<notin> set x \<Longrightarrow> strings_Split c (join_with c xs) = xs"
  by (induction c xs rule: join_with.induct) (simp_all add: strings_Split_no_sep strings_Split_cons_sep)

lemma sequence_options_Some: "sequence_options (map (\<lambda>x. Some (f x)) xs) = Some (map f xs)"
  by (induction xs) simp_all

lemma parse_Values_Encode: "m \<noteq> [] \<Longrightarrow> parse_form (Values_Encode m) = Some (sort_key fst m)"
proof -
  assume "m \<noteq> []"
  then have "sort_key fst m \<noteq> []" by (metis length_0_conv length_sort)
  then have "strings_Split (CHR ''&'') (Values_Encode m) = map encode_pair (sort_key fst m)"
    unfolding Values_Encode_def by (intro strings_Split_join) (auto simp: encode_pair_def QueryEscape_special)
  then show ?thesis using sequence_options_Some [of "\<lambda>x. x" "sort_key fst m"]
    by (simp add: parse_form_def comp_def decode_encode_pair)
qed

section \<open>Headers\<close>

lemma map_of_header_Set [simp]:
  "map_of (header_Set k v h) x = (if x = CanonicalHeaderKey k then Some v else map_of h x)"
  by (simp add: header_Set_def update_conv')

lemma canonical_keys [simp]:
  "CanonicalHeaderKey ''Authorization'' = ''Authorization''" "CanonicalHeaderKey ''Accept'' = ''Accept''"
  "CanonicalHeaderKey ''User-Agent'' = ''User-Agent''" "CanonicalHeaderKey ''Content-type'' = ''Content-Type''"
  "CanonicalHeaderKey ''Content-Type'' = ''Content-Type''"
  by code_simp+

text \<open>The same request but for its headers, authorised with given credentials.\<close>

definition copy_of :: "http_message \<Rightarrow> ClientCredentials \<Rightarrow> http_message \<Rightarrow> bool" where
  "copy_of req x msg \<longleftrightarrow> hm_Method msg = hm_Method req \<and> hm_URL msg = hm_URL req \<and> hm_Body msg = hm_Body req \<and>
     map_of (hm_Header msg) ''Authorization'' = Some (authorization x)"

text \<open>A request whose body can be sent again, as those of the generated client: with \<open>GetBody\<close>, or empty.\<close>

definition repeatable :: "http_message \<Rightarrow> bool" where
  "repeatable req \<longleftrightarrow> hm_GetBody req = Some (Inr (hm_Body req)) \<or> (hm_GetBody req = None \<and> hm_Body req = '''')"

lemma addRequestHeaders_run:
  "\<exists>h. addRequestHeaders env req s = (Ok (req\<lparr>hm_Header := h\<rparr>), s) \<and>
     map_of h ''Authorization'' = Some (authorization (ks_clientCredentials (mem s)))"
  by (auto simp: addRequestHeaders_def add_headers_def go_simps Let_def)

lemma restore_body_run: "repeatable req \<Longrightarrow> restore_body (req\<lparr>hm_Header := h\<rparr>) s = (Ok (req\<lparr>hm_Header := h\<rparr>), s)"
  by (auto simp: repeatable_def restore_body_def sayErr_def pureIO_def go_simps)

section \<open>How much is sent\<close>

text \<open>
  \<open>within n m\<close>: with an HTTP client in place, \<open>m\<close> does not panic, keeps the client and sends at most \<open>n\<close>
  messages, whatever it returns.
\<close>

definition grown :: "nat \<Rightarrow> ('w, http_message, kc_session) io_state \<Rightarrow> ('w, http_message, kc_session) io_state \<Rightarrow> bool" where
  "grown n s t \<longleftrightarrow> ks_httpClient (mem t) \<noteq> None \<and> (\<exists>es. trace t = trace s @ es \<and> length es \<le> n)"

definition within :: "nat \<Rightarrow> ('w, 'a) session_prog \<Rightarrow> bool" where
  "within n m \<longleftrightarrow> (\<forall>s. ks_httpClient (mem s) \<noteq> None \<longrightarrow> wp False m (\<lambda>_. grown n s) (\<lambda>_. grown n s) s)"

lemma grown_trans: "grown n s t \<Longrightarrow> grown k t u \<Longrightarrow> grown (n + k) s u"
  unfolding grown_def by (metis add_mono append.assoc length_append)

lemma grown_mono: "grown n s t \<Longrightarrow> n \<le> k \<Longrightarrow> grown k s t"
  unfolding grown_def by (meson le_trans)

lemma withinD: "within n m \<Longrightarrow> ks_httpClient (mem s) \<noteq> None \<Longrightarrow> wp b m (\<lambda>_. grown n s) (\<lambda>_. grown n s) s"
  by (rule wp_panic_ok) (simp add: within_def)

lemma within_mono: "within n m \<Longrightarrow> n \<le> k \<Longrightarrow> within k m"
  unfolding within_def by (blast intro: wp_mono grown_mono)

lemma within_bind:
  assumes "within n m" and "\<And>a. within k (f a)"
  shows "within (n + k) (bindIO m f)"
  unfolding within_def wp_bindIO
proof (intro allI impI)
  fix s :: "('a, http_message, kc_session) io_state"
  assume "ks_httpClient (mem s) \<noteq> None"
  with assms(1) have "wp False m (\<lambda>_. grown n s) (\<lambda>_. grown n s) s" by (simp add: within_def)
  then show "wp False m (\<lambda>a. wp False (f a) (\<lambda>_. grown (n + k) s) (\<lambda>_. grown (n + k) s)) (\<lambda>_. grown (n + k) s) s"
  proof (rule wp_mono)
    fix a s' assume s': "grown n s s'"
    then have "ks_httpClient (mem s') \<noteq> None" by (simp add: grown_def)
    with assms(2) [of a] have "wp False (f a) (\<lambda>_. grown k s') (\<lambda>_. grown k s') s'" by (simp add: within_def)
    then show "wp False (f a) (\<lambda>_. grown (n + k) s) (\<lambda>_. grown (n + k) s) s'"
      by (rule wp_mono) (rule grown_trans [OF s'], assumption)+
  qed (rule grown_mono, assumption, simp)
qed

lemma within_silent_bind: "within 0 m \<Longrightarrow> (\<And>a. within k (f a)) \<Longrightarrow> within k (bindIO m f)"
  using within_bind [of 0 m k f] by simp

lemma within_basic:
  "within n (ret a)" "within n (fail e)" "within n (getMem f)" "within n (askIO g)" "within n (pureIO x)"
  "within n (range_order rank xs)"
  by (auto simp: within_def wp_def grown_def askIO_def pureIO_def go_simps split: prod.split sum.split)

lemma within_modMem: "(\<And>c. ks_httpClient (f c) = ks_httpClient c) \<Longrightarrow> within n (modMem f)"
  by (auto simp: within_def grown_def)

lemma within_sayErr: "within n m \<Longrightarrow> within n (sayErr pre m)"
  unfolding within_def sayErr_def by simp

lemma within_if: "(b \<Longrightarrow> within n m) \<Longrightarrow> (\<not> b \<Longrightarrow> within n m') \<Longrightarrow> within n (if b then m else m')"
  by simp

lemma within_when: "within n m \<Longrightarrow> within n (whenIO b m)"
  by (simp add: whenIO_def within_basic)

lemma within_case_option:
  "within n m \<Longrightarrow> (\<And>a. within n (f a)) \<Longrightarrow> within n (case x of None \<Rightarrow> m | Some a \<Rightarrow> f a)"
  by (cases x) simp_all

lemma within_Let: "(\<And>x. within n (f x)) \<Longrightarrow> within n (Let t f)"
  by simp

lemmas within_rules = within_silent_bind within_basic within_modMem within_sayErr within_if within_when within_case_option within_Let

lemma within_http_send: "within 1 (http_send env msg)"
  by (auto simp: within_def http_send_def wp_callIO grown_def split: option.split prod.split sum.split)

lemma within_headers: "within n (addRequestHeaders env req)" "within n (add_headers env h)"
  unfolding addRequestHeaders_def add_headers_def by (intro within_rules)+

lemma within_form: "within n (getAuthenticationFormData env)"
  unfolding getAuthenticationFormData_def client_assertion_def newSignedJWT_def by (intro within_rules)

lemma within_token_request: "within 1 (token_request env form)"
  unfolding token_request_def by (intro within_rules within_http_send within_headers)

lemma within_decode_tokens: "within n (decode_tokens env body)"
  unfolding decode_tokens_def by (intro within_rules) (simp add: store_tokens_def with_credentials_def)

lemma within_token_then:
  assumes "\<And>a. within k (f a)"
  shows "within (Suc k) (bindIO (token_request env form) f)"
  using within_bind [OF within_token_request assms] by simp

lemma within_login: "within (Suc 0) (login env)"
  unfolding login_def by (intro within_token_then within_rules within_form within_decode_tokens)

lemma within_Refresh: "within (Suc (Suc 0)) (Refresh env)"
  unfolding Refresh_def by (intro within_token_then within_rules within_form within_decode_tokens within_login)

lemma within_restore_body: "within n (restore_body req)"
  unfolding restore_body_def by (intro within_rules)

lemma within_lazy_login: "within (Suc 0) (lazy_login env)"
  unfolding lazy_login_def by (intro within_rules within_login) simp

lemma within_retry: "within 3 (retry_rejected env tokenBefore req)"
proof -
  have "within (Suc (Suc 0) + 1) (retry_rejected env tokenBefore req)"
    unfolding retry_rejected_def access_token_def
    by (rule within_silent_bind [OF within_basic(3)], rule within_bind [OF within_when [OF within_sayErr [OF within_Refresh]]],
        intro within_rules within_restore_body within_headers within_http_send)
  then show ?thesis by (simp add: eval_nat_numeral)
qed

lemma within_Do: "within 5 (keycloakDoer_Do env req)"
proof -
  have "within (Suc 0 + (1 + 3)) (keycloakDoer_Do env req)"
    unfolding keycloakDoer_Do_def access_token_def
    by (rule within_bind [OF within_lazy_login], rule within_silent_bind [OF within_basic(3)],
        rule within_silent_bind [OF within_headers(1)], rule within_bind [OF within_http_send],
        intro within_if within_basic within_retry)
  then show ?thesis by (simp add: eval_nat_numeral)
qed

section \<open>What is answered\<close>

text \<open>The last message sent is a copy of the request with the current token, and the answer is its answer.\<close>

definition answered :: "'w session_env \<Rightarrow> http_message \<Rightarrow> http_message list \<Rightarrow> http_reply \<Rightarrow> ('w, http_message, kc_session) io_state \<Rightarrow> bool" where
  "answered env req before resp t \<longleftrightarrow> (\<exists>msg c w. trace t = before @ [msg] \<and> copy_of req (ks_clientCredentials (mem t)) msg \<and>
     http_Do env c msg w = (Inr resp, world t))"

lemma wp_send_copy:
  "wp True (bindIO (addRequestHeaders env (req\<lparr>hm_Header := h\<rparr>)) (http_send env)) (\<lambda>resp t. answered env req (trace s) resp t) (\<lambda>_ _. True) s"
proof -
  obtain h' where h': "addRequestHeaders env (req\<lparr>hm_Header := h\<rparr>) s = (Ok (req\<lparr>hm_Header := h'\<rparr>), s)"
      "map_of h' ''Authorization'' = Some (authorization (ks_clientCredentials (mem s)))"
    using addRequestHeaders_run [of env "req\<lparr>hm_Header := h\<rparr>" s] by auto
  let ?msg = "req\<lparr>hm_Header := h'\<rparr>"
  have "wp True (http_send env ?msg) (\<lambda>resp t. trace t = trace s @ [?msg] \<and> mem t = mem s \<and> (\<exists>c. http_Do env c ?msg (world s) = (Inr resp, world t)))
      (\<lambda>_ _. True) s"
    by (auto simp: http_send_def wp_callIO split: option.split prod.split sum.split)
  then have "wp True (http_send env ?msg) (\<lambda>resp t. answered env req (trace s) resp t) (\<lambda>_ _. True) s"
    by (rule wp_mono) (use h'(2) in \<open>auto simp: answered_def copy_of_def\<close>)
  then show ?thesis by (simp add: wp_def h'(1))
qed

lemma wp_retry:
  assumes "repeatable req" and "ks_httpClient (mem s) \<noteq> None"
  shows "wp True (retry_rejected env tok (req\<lparr>hm_Header := h\<rparr>))
     (\<lambda>resp t. \<exists>es. answered env req (trace s @ es) resp t) (\<lambda>_ _. True) s"
proof -
  let ?renew = "whenIO (cc_AccessToken (ks_clientCredentials (mem s)) = tok) (sayErr ''error refreshing credentials: '' (Refresh env))"
  have "wp True ?renew (\<lambda>_. grown (Suc (Suc 0)) s) (\<lambda>_. grown (Suc (Suc 0)) s) s"
    by (rule withinD [OF within_when [OF within_sayErr [OF within_Refresh]] assms(2)])
  then show ?thesis unfolding retry_rejected_def access_token_def wp_bindIO wp_getMem
  proof (rule wp_mono)
    fix a t
    assume "grown (Suc (Suc 0)) s t"
    then obtain es where es: "trace t = trace s @ es" by (auto simp: grown_def)
    have "wp True (bindIO (addRequestHeaders env (req\<lparr>hm_Header := h\<rparr>)) (http_send env))
        (\<lambda>resp u. \<exists>es. answered env req (trace s @ es) resp u) (\<lambda>_ _. True) t"
      by (rule wp_mono [OF wp_send_copy]) (auto simp: es)
    then show "wp True (restore_body (req\<lparr>hm_Header := h\<rparr>)) (\<lambda>r. wp True (addRequestHeaders env r)
        (\<lambda>r. wp True (http_send env r) (\<lambda>resp u. \<exists>es. answered env req (trace s @ es) resp u) (\<lambda>_ _. True)) (\<lambda>_ _. True)) (\<lambda>_ _. True) t"
      by (simp add: wp_def [of True "restore_body _"] restore_body_run [OF assms(1)])
  qed simp
qed

lemma wp_Do:
  assumes "repeatable req" and "ks_httpClient (mem s) \<noteq> None"
  shows "wp True (keycloakDoer_Do env req)
     (\<lambda>resp t. \<exists>es. answered env req (trace s @ es) resp t \<and> (rejected resp \<longrightarrow> (\<exists>m \<in> set es. \<exists>x. copy_of req x m))) (\<lambda>_ _. True) s"
  unfolding keycloakDoer_Do_def access_token_def wp_bindIO [of _ "lazy_login env"] wp_bindIO [of _ "getMem _"] wp_getMem
proof (rule wp_mono [OF withinD [OF within_lazy_login assms(2)]])
  fix a t
  assume t: "grown (Suc 0) s t"
  then obtain es where es: "trace t = trace s @ es" by (auto simp: grown_def)
  obtain h where h: "addRequestHeaders env req t = (Ok (req\<lparr>hm_Header := h\<rparr>), t)"
      "map_of h ''Authorization'' = Some (authorization (ks_clientCredentials (mem t)))"
    using addRequestHeaders_run [of env req t] by auto
  let ?msg = "req\<lparr>hm_Header := h\<rparr>" and ?tok = "cc_AccessToken (ks_clientCredentials (mem t))"
  let ?Q = "\<lambda>resp u. \<exists>es. answered env req (trace s @ es) resp u \<and> (rejected resp \<longrightarrow> (\<exists>m \<in> set es. \<exists>x. copy_of req x m))"
  have copy: "copy_of req (ks_clientCredentials (mem t)) ?msg" using h(2) by (simp add: copy_of_def)
  have "wp True (http_send env ?msg) (\<lambda>resp u. wp True (if rejected resp then retry_rejected env ?tok ?msg else ret resp) ?Q (\<lambda>_ _. True) u)
      (\<lambda>_ _. True) t"
  proof -
    have "wp True (http_send env ?msg) (\<lambda>resp u. trace u = trace t @ [?msg] \<and> mem u = mem t \<and> (\<exists>c. http_Do env c ?msg (world t) = (Inr resp, world u)))
      (\<lambda>_ _. True) t"
      by (auto simp: http_send_def wp_callIO split: option.split prod.split sum.split)
    then show ?thesis
    proof (rule wp_mono)
      fix resp and u :: "('a, http_message, kc_session) io_state"
      assume u: "trace u = trace t @ [?msg] \<and> mem u = mem t \<and> (\<exists>c. http_Do env c ?msg (world t) = (Inr resp, world u))"
      show "wp True (if rejected resp then retry_rejected env ?tok ?msg else ret resp) ?Q (\<lambda>_ _. True) u"
      proof (cases "rejected resp")
        case True
        have "ks_httpClient (mem u) \<noteq> None" using t u by (simp add: grown_def)
        from wp_retry [OF assms(1) this, of env ?tok h] have "wp True (retry_rejected env ?tok ?msg) ?Q (\<lambda>_ _. True) u"
        proof (rule wp_mono)
          fix resp' v
          assume "\<exists>es'. answered env req (trace u @ es') resp' v"
          then obtain es' where "answered env req (trace s @ (es @ ?msg # es')) resp' v" using u es by auto
          then show "?Q resp' v" using copy by (metis in_set_conv_decomp)
        qed simp
        with True show ?thesis by simp
      next
        case False
        have "answered env req (trace s @ es) resp u" using u es copy by (auto simp: answered_def)
        with False show ?thesis by auto
      qed
    qed simp
  qed
  then show "wp True (bindIO (addRequestHeaders env req) (\<lambda>req. bindIO (http_send env req) (\<lambda>resp.
      if rejected resp then retry_rejected env ?tok req else ret resp))) ?Q (\<lambda>_ _. True) t"
    by (simp add: wp_def [of True "addRequestHeaders _ _"] h(1))
qed simp

text \<open>
  C13. A request through the session does not panic and costs at most five HTTP messages, whatever the
  other side answers: a first login, the request, a renewal of the token with a login where that is
  refused, and the request once more. The answer that is returned is the answer to a complete copy of
  the request that was sent last and authorised with the token the session holds at the end; an answer
  401 or 403 is returned only to a second copy.
\<close>

theorem Do_answered:
  assumes "ks_httpClient (mem s) \<noteq> None" and "repeatable req" and "keycloakDoer_Do env req s = (r, s')"
  shows "r \<noteq> Panic \<and> (\<exists>es. trace s' = trace s @ es \<and> length es \<le> 5 \<and>
     (\<forall>resp. r = Ok resp \<longrightarrow> (\<exists>before msg c w. es = before @ [msg] \<and> copy_of req (ks_clientCredentials (mem s')) msg \<and>
        http_Do env c msg w = (Inr resp, world s') \<and> (rejected resp \<longrightarrow> (\<exists>m \<in> set before. \<exists>x. copy_of req x m)))))"
proof -
  have bound: "wp False (keycloakDoer_Do env req) (\<lambda>_. grown 5 s) (\<lambda>_. grown 5 s) s"
    by (rule withinD [OF within_Do assms(1)])
  then have "r \<noteq> Panic" using assms(3) by (auto simp: wp_def)
  with bound assms(3) have "grown 5 s s'" by (auto simp: wp_def split: outcome.splits)
  then obtain es where es: "trace s' = trace s @ es" "length es \<le> 5" by (auto simp: grown_def)
  have "\<exists>before msg c w. es = before @ [msg] \<and> copy_of req (ks_clientCredentials (mem s')) msg \<and>
      http_Do env c msg w = (Inr resp, world s') \<and> (rejected resp \<longrightarrow> (\<exists>m \<in> set before. \<exists>x. copy_of req x m))" if r: "r = Ok resp" for resp
    using wp_OkD [OF wp_Do [OF assms(2,1)] assms(3) [unfolded r]] es(1) by (auto simp: answered_def)
  with es \<open>r \<noteq> Panic\<close> show ?thesis by blast
qed

section \<open>A provided token\<close>

definition provided :: "ClientCredentials \<Rightarrow> kc_session \<Rightarrow> bool" where
  "provided x c \<longleftrightarrow> ks_accessTokenProvided c \<and> ks_clientCredentials c = x"

lemma emits_ask [emits_intros]: "emits_under P S (askIO g)" "emits_under P S (pureIO x)"
  by (rule emits_silent; auto simp: askIO_def pureIO_def go_simps split: prod.split sum.split)+

lemma emits_sayErr [emits_intros]: "emits_under P S m \<Longrightarrow> emits_under P S (sayErr pre m)"
  unfolding sayErr_def by (intro emits_intros)

lemma provided_silent: "emits_under (provided x) S (login env)" "emits_under (provided x) S (Refresh env)"
  by (rule emits_underI; simp add: provided_def login_def Refresh_def go_simps)+

lemma provided_headers:
  "emits_under (provided x) S (addRequestHeaders env req)"
  unfolding addRequestHeaders_def add_headers_def by (intro emits_intros)

lemma provided_copy:
  assumes "provided x (mem s)" and "addRequestHeaders env (req\<lparr>hm_Header := h\<rparr>) s = (Ok msg, s')"
  shows "\<exists>h'. msg = req\<lparr>hm_Header := h'\<rparr> \<and> copy_of req x msg"
  using addRequestHeaders_run [of env "req\<lparr>hm_Header := h\<rparr>" s] assms by (auto simp: copy_of_def provided_def)

lemma provided_send: "copy_of req x msg \<Longrightarrow> emits_under (provided x) {m. copy_of req x m} (http_send env msg)"
  unfolding http_send_def by (intro emits_intros) simp

lemma provided_retry:
  assumes "repeatable req"
  shows "emits_under (provided x) {m. copy_of req x m} (retry_rejected env tok (req\<lparr>hm_Header := h\<rparr>))"
proof -
  have body: "emits_under (provided x) S (restore_body msg)" for S msg
    unfolding restore_body_def by (intro emits_intros)
  have send: "emits_under (provided x) {m. copy_of req x m} (bindIO (addRequestHeaders env (req\<lparr>hm_Header := h\<rparr>)) (http_send env))"
    by (rule emits_bindIO [OF provided_headers]) (blast intro: provided_send dest: provided_copy)
  have rest: "emits_under (provided x) {m. copy_of req x m} (bindIO (restore_body (req\<lparr>hm_Header := h\<rparr>)) (\<lambda>req.
      bindIO (addRequestHeaders env req) (http_send env)))"
    by (rule emits_bindIO [OF body]) (use send in \<open>simp add: restore_body_run [OF assms]\<close>)
  show ?thesis unfolding retry_rejected_def access_token_def
    by (rule emits_bindIO [OF emits_getMem], rule emits_bindIO [OF emits_whenIO [OF emits_sayErr [OF provided_silent(2)]]], rule rest)
qed

text \<open>
  C36. With a token that was provided, the session never asks for another: whatever is answered, all it
  sends are copies of the request that carry this token, and the token stays.
\<close>

theorem provided_token_is_kept:
  assumes "ks_accessTokenProvided (mem s)" and "repeatable req" and "keycloakDoer_Do env req s = (r, s')"
  shows "ks_clientCredentials (mem s') = ks_clientCredentials (mem s) \<and>
     (\<exists>es. trace s' = trace s @ es \<and> (\<forall>m \<in> set es. copy_of req (ks_clientCredentials (mem s)) m))"
proof -
  let ?x = "ks_clientCredentials (mem s)"
  have first: "emits_under (provided ?x) {m. copy_of req ?x m} (bindIO (addRequestHeaders env req) (\<lambda>msg.
      bindIO (http_send env msg) (\<lambda>resp. if rejected resp then retry_rejected env tok msg else ret resp)))" for tok
  proof (rule emits_bindIO [OF provided_headers])
    fix t :: "('a, http_message, kc_session) io_state" and msg t'
    assume "provided ?x (mem t)" "addRequestHeaders env req t = (Ok msg, t')"
    then obtain h where h: "msg = req\<lparr>hm_Header := h\<rparr>" "copy_of req ?x msg"
      using provided_copy [where req = req and h = "hm_Header req" and msg = msg] by fastforce
    show "emits_under (provided ?x) {m. copy_of req ?x m}
        (bindIO (http_send env msg) (\<lambda>resp. if rejected resp then retry_rejected env tok msg else ret resp))"
      unfolding h(1) by (intro emits_bindIO emits_if emits_ret provided_retry assms(2)) (use provided_send h in blast)
  qed
  have "emits_under (provided ?x) {m. copy_of req ?x m} (keycloakDoer_Do env req)"
    unfolding keycloakDoer_Do_def lazy_login_def access_token_def
    by (intro emits_intros provided_silent first) (simp_all add: provided_def)
  from emits_underD [OF this _ assms(3)] assms(1) show ?thesis by (auto simp: provided_def)
qed

section \<open>Logging in\<close>

lemma sort_password_form:
  "sort_key fst [(''client_id'', a :: string), (''grant_type'', b), (''username'', c), (''password'', d)] =
     [(''client_id'', a), (''grant_type'', b), (''password'', d), (''username'', c)]"
  by (simp add: less_char_def less_eq_char_def)

lemma token_request_run:
  assumes "token_request env form s = (Ok rsp, t)"
  shows "\<exists>msg c. trace t = trace s @ [msg] \<and> mem t = mem s \<and> ks_httpClient (mem s) = Some c \<and> hm_Method msg = ''POST'' \<and>
     hm_URL msg = tokenUrl (ks_authUrl (mem s)) (ks_realm (mem s)) \<and> hm_Body msg = Values_Encode form \<and>
     http_Do env c msg (world s) = (Inr rsp, world t)"
  using assms by (auto simp: token_request_def add_headers_def http_send_def go_simps Let_def split: option.splits prod.splits sum.splits)

lemma login_run:
  assumes "login env s = (Ok (), t)" and "\<not> ks_accessTokenProvided (mem s)" and "getAuthenticationFormData env s = (Ok form, s)"
  shows "\<exists>u rsp x. token_request env form s = (Ok rsp, u) \<and> rpl_StatusCode rsp = 200 \<and>
     Unmarshal_ClientCredentials (rpl_Body rsp) = Some x \<and> t = u\<lparr>mem := store_tokens x (mem u)\<rparr>"
proof -
  have "token_request env form s = (r, u) \<Longrightarrow> ?thesis" for r u
    using assms by (cases r) (auto simp: login_def decode_tokens_def go_simps split: if_splits option.splits)
  then show ?thesis by (metis surj_pair)
qed

text \<open>
  C14. A client made with the options of the helper has logged in: exactly one message was sent, a
  \<open>POST\<close> to the token address of the master realm with the transport the resource asks for, whose body a
  server decodes to the client id, the grant, the user name and the password, whatever bytes these
  consist of; it was answered with 200, and the session holds the tokens of that answer.
\<close>

theorem new_client_logs_in:
  assumes "session_NewKeycloakClient env (nc_Url p) (nc_ClientID p) (client_options p) s = (Ok (), s')"
  shows "\<exists>msg c rsp x. trace s' = trace s @ [msg] \<and> hm_Method msg = ''POST'' \<and>
     hm_URL msg = nc_Url p @ ''/realms/master/protocol/openid-connect/token'' \<and>
     parse_form (hm_Body msg) = Some [(''client_id'', nc_ClientID p), (''grant_type'', ''password''),
       (''password'', nc_Password p), (''username'', nc_Username p)] \<and>
     hc_InsecureSkipVerify c = nc_InsecureSkipVerify p \<and> hc_RootCAs c = Option.bind (nc_CACert p) (\<lambda>ca. if ca = '''' then None else Some ca) \<and>
     http_Do env c msg (world s) = (Inr rsp, world s') \<and> rpl_StatusCode rsp = 200 \<and> Unmarshal_ClientCredentials (rpl_Body rsp) = Some x \<and>
     authorization (ks_clientCredentials (mem s')) = authorization x"
proof -
  let ?c = "settle_client (nc_Url p) (fst (fold (\<lambda>opt. opt) (client_options p) (initial_client (nc_Url p) (nc_ClientID p))))
      (snd (fold (\<lambda>opt. opt) (client_options p) (initial_client (nc_Url p) (nc_ClientID p))))"
  let ?form = "[(''client_id'', nc_ClientID p), (''grant_type'', ''password''), (''username'', nc_Username p), (''password'', nc_Password p)]"
  note option_defs = client_options_def initial_client_def settle_client_def WithPasswordGrant_def WithCACert_def
    WithTLSInsecureSkipVerify_def with_credentials_def zero_ClientCredentials_def
  have c: "needs_login ?c" "\<not> ks_accessTokenProvided ?c" "cc_GrantType (ks_clientCredentials ?c) = ''password''"
      "cc_ClientSecret (ks_clientCredentials ?c) = ''''" "cc_ClientId (ks_clientCredentials ?c) = nc_ClientID p"
      "cc_Username (ks_clientCredentials ?c) = nc_Username p" "cc_Password (ks_clientCredentials ?c) = nc_Password p"
      "ks_authUrl ?c = nc_Url p" "ks_realm ?c = MasterRealm"
    by (auto simp: option_defs needs_login_def split: option.split)
  obtain hc where hc: "newHttpClient env (nc_InsecureSkipVerify p) 60 (the_default '''' (nc_CACert p)) '''' '''' = Inr hc"
    and run: "login env (s\<lparr>mem := ?c\<lparr>ks_httpClient := Some hc\<rparr>\<rparr>) = (Ok (), s')"
    using assms c(1,3) by (auto simp: session_NewKeycloakClient_def sayErr_def pureIO_def option_defs go_simps Let_def
        split: if_splits option.splits sum.splits prod.splits outcome.splits)
  let ?s = "s\<lparr>mem := ?c\<lparr>ks_httpClient := Some hc\<rparr>\<rparr>"
  have form: "getAuthenticationFormData env ?s = (Ok ?form, ?s)"
    using c by (simp add: getAuthenticationFormData_def go_simps Let_def)
  from login_run [OF run _ form] c(2) obtain u rsp x where u: "token_request env ?form ?s = (Ok rsp, u)"
    and rsp: "rpl_StatusCode rsp = 200" "Unmarshal_ClientCredentials (rpl_Body rsp) = Some x"
    and s': "s' = u\<lparr>mem := store_tokens x (mem u)\<rparr>" by auto
  from token_request_run [OF u] obtain msg where msg: "trace u = trace s @ [msg]" "mem u = mem ?s" "hm_Method msg = ''POST''"
      "hm_URL msg = tokenUrl (nc_Url p) MasterRealm" "hm_Body msg = Values_Encode ?form" "http_Do env hc msg (world s) = (Inr rsp, world u)"
    using c(8,9) by auto
  have "hc_InsecureSkipVerify hc = nc_InsecureSkipVerify p"
      "hc_RootCAs hc = Option.bind (nc_CACert p) (\<lambda>ca. if ca = '''' then None else Some ca)"
    using hc by (auto simp: newHttpClient_def Let_def the_default_def split: option.splits if_splits)
  moreover have "parse_form (hm_Body msg) = Some (sort_key fst ?form)" unfolding msg(5) by (rule parse_Values_Encode) simp
  moreover have "authorization (ks_clientCredentials (mem s')) = authorization x"
    unfolding s' by (simp add: store_tokens_def with_credentials_def authorization_def)
  ultimately show ?thesis using msg rsp s' unfolding sort_password_form
    by (intro exI [of _ msg] exI [of _ hc] exI [of _ rsp] exI [of _ x]) (simp add: tokenUrl_def MasterRealm_def)
qed

section \<open>A refused renewal\<close>

text \<open>A JSON object without any field of the credentials, such as the answers of Keycloak that report an error.\<close>

definition tokenless :: "http_body \<Rightarrow> bool" where
  "tokenless body \<longleftrightarrow> (case body_json body of
     Some (JObj kvs) \<Rightarrow> list_all (\<lambda>name. json_keys name kvs = []) (''expires_in'' # credential_fields) | _ \<Rightarrow> False)"

lemma tokenless_decodes: "tokenless body \<Longrightarrow> Unmarshal_ClientCredentials body = Some zero_ClientCredentials"
proof -
  assume "tokenless body"
  then obtain kvs where kvs: "body_json body = Some (JObj kvs)"
      "list_all (\<lambda>name. json_keys name kvs = []) (''expires_in'' # credential_fields)"
    by (auto simp: tokenless_def split: option.splits json.splits)
  then have "list_all (\<lambda>name. list_all json_is_str (json_keys name kvs)) credential_fields" by (auto simp: list_all_iff)
  with kvs show ?thesis
    by (simp add: Unmarshal_ClientCredentials_def zero_ClientCredentials_def) (simp add: credential_fields_def)
qed

definition refuses :: "'w session_env \<Rightarrow> bool" where
  "refuses env \<longleftrightarrow> (\<forall>c msg w. \<exists>rsp w'. http_Do env c msg w = (Inr rsp, w') \<and> rpl_StatusCode rsp = 401 \<and> tokenless (rpl_Body rsp))"

lemma refused_send:
  assumes "refuses env" and "ks_httpClient (mem s) \<noteq> None"
  shows "\<exists>rsp w. http_send env msg s = (Ok rsp, s\<lparr>world := w, trace := trace s @ [msg]\<rparr>) \<and> rpl_StatusCode rsp = 401 \<and> tokenless (rpl_Body rsp)"
proof -
  obtain c where c: "ks_httpClient (mem s) = Some c" using assms(2) by auto
  obtain rsp w where "http_Do env c msg (world s) = (Inr rsp, w)" "rpl_StatusCode rsp = 401" "tokenless (rpl_Body rsp)"
    using assms(1) unfolding refuses_def by blast
  then show ?thesis by (auto simp: http_send_def c go_simps)
qed

lemma refused_Refresh:
  assumes "refuses env" and "ks_httpClient (mem s) \<noteq> None" and "\<not> ks_accessTokenProvided (mem s)"
    and "cc_GrantType (ks_clientCredentials (mem s)) = ''password''"
    and "http_url_error env (tokenUrl (ks_authUrl (mem s)) (ks_realm (mem s))) = None"
  shows "\<exists>s'. Refresh env s = (Ok (), s') \<and> mem s' = store_tokens zero_ClientCredentials (mem s)"
proof -
  obtain form where form: "getAuthenticationFormData env s = (Ok form, s)"
    using assms(4) by (simp add: getAuthenticationFormData_def go_simps Let_def)
  obtain msg where "token_request env form s = http_send env msg s"
    using assms(5) by (simp add: token_request_def add_headers_def go_simps Let_def)
  with refused_send [OF assms(1,2), of msg] form assms(3) show ?thesis
    by (auto simp: Refresh_def decode_tokens_def tokenless_decodes go_simps)
qed

text \<open>
  C31. A renewal does not look at the status of the answer. Once the credentials are refused (every
  message is answered with 401 and a JSON object that reports it), a request does not fail with the
  renewal: the token the session has is overwritten by an empty one, the request is sent again without
  any token, and the refusal of that second copy is what the caller gets.
\<close>

theorem refused_renewal_clears_token:
  assumes "refuses env" and "ks_httpClient (mem s) \<noteq> None" and "ks_initialLogin (mem s)" and "\<not> ks_accessTokenProvided (mem s)"
    and "cc_GrantType (ks_clientCredentials (mem s)) = ''password''"
    and "http_url_error env (tokenUrl (ks_authUrl (mem s)) (ks_realm (mem s))) = None" and "repeatable req"
  shows "\<exists>resp s' before msg. keycloakDoer_Do env req s = (Ok resp, s') \<and> rpl_StatusCode resp = 401 \<and>
     cc_AccessToken (ks_clientCredentials (mem s')) = '''' \<and> trace s' = before @ [msg] \<and>
     map_of (hm_Header msg) ''Authorization'' = Some '' ''"
proof -
  obtain h where h: "addRequestHeaders env req s = (Ok (req\<lparr>hm_Header := h\<rparr>), s)" using addRequestHeaders_run by blast
  obtain r1 w1 where r1: "http_send env (req\<lparr>hm_Header := h\<rparr>) s = (Ok r1, s\<lparr>world := w1, trace := trace s @ [req\<lparr>hm_Header := h\<rparr>]\<rparr>)"
      "rpl_StatusCode r1 = 401"
    using refused_send [OF assms(1,2)] by blast
  let ?s1 = "s\<lparr>world := w1, trace := trace s @ [req\<lparr>hm_Header := h\<rparr>]\<rparr>"
  obtain s2 where s2: "Refresh env ?s1 = (Ok (), s2)" "mem s2 = store_tokens zero_ClientCredentials (mem s)"
    using refused_Refresh [OF assms(1), of ?s1] assms by auto
  obtain h2 where h2: "addRequestHeaders env (req\<lparr>hm_Header := h\<rparr>) s2 = (Ok (req\<lparr>hm_Header := h2\<rparr>), s2)"
      "map_of h2 ''Authorization'' = Some (authorization (ks_clientCredentials (mem s2)))"
    using addRequestHeaders_run [of env "req\<lparr>hm_Header := h\<rparr>" s2] by auto
  have "ks_httpClient (mem s2) \<noteq> None" using assms(2) by (simp add: s2(2) store_tokens_def with_credentials_def)
  from refused_send [OF assms(1) this] obtain r3 w3 where r3:
      "http_send env (req\<lparr>hm_Header := h2\<rparr>) s2 = (Ok r3, s2\<lparr>world := w3, trace := trace s2 @ [req\<lparr>hm_Header := h2\<rparr>]\<rparr>)"
      "rpl_StatusCode r3 = 401" by blast
  have "keycloakDoer_Do env req s = (Ok r3, s2\<lparr>world := w3, trace := trace s2 @ [req\<lparr>hm_Header := h2\<rparr>]\<rparr>)"
    using assms(3) h r1 s2(1) h2(1) r3
    by (simp add: keycloakDoer_Do_def lazy_login_def access_token_def retry_rejected_def rejected_def sayErr_def bindIO_def getMem_def
        ret_def whenIO_def tryIO_def restore_body_run [OF assms(7)])
  moreover have "cc_AccessToken (ks_clientCredentials (mem s2)) = ''''" "authorization (ks_clientCredentials (mem s2)) = '' ''"
    by (simp_all add: s2(2) store_tokens_def with_credentials_def authorization_def zero_ClientCredentials_def)
  ultimately show ?thesis using r3(2) h2(2) by (intro exI conjI) (assumption | simp)+
qed

section \<open>A concrete server\<close>

text \<open>
  Tokens are given to everybody at the token address; every other request needs the token \<open>t2\<close>. The
  second server refuses everything.
\<close>

definition json_body :: "(string \<times> json) list \<Rightarrow> http_body" where
  "json_body kvs = \<lparr>body_text = '''', body_json = Some (JObj kvs)\<rparr>"

definition demo_Do :: "http_client \<Rightarrow> http_message \<Rightarrow> unit \<Rightarrow> (go_error + http_reply) \<times> unit" where
  "demo_Do c msg w =
     (Inr (if hm_URL msg = ''http://kc/realms/master/protocol/openid-connect/token''
           then \<lparr>rpl_StatusCode = 200, rpl_Status = ''200 OK'', rpl_Body = json_body [(''access_token'', JStr ''t2''),
             (''token_type'', JStr ''Bearer''), (''expires_in'', JNum ''60'')]\<rparr>
           else if header_Get (hm_Header msg) ''Authorization'' = ''Bearer t2''
           then \<lparr>rpl_StatusCode = 200, rpl_Status = ''200 OK'', rpl_Body = json_body []\<rparr>
           else \<lparr>rpl_StatusCode = 401, rpl_Status = ''401 Unauthorized'', rpl_Body = json_body []\<rparr>), w)"

definition demo_env :: "unit session_env" where
  "demo_env = \<lparr>http_Do = demo_Do, http_url_error = (\<lambda>_. None), header_rank = (\<lambda>_ _. 0), json_error = (\<lambda>_. NewError ''json''),
     os_ReadFile = (\<lambda>_ w. (Inl (NewError ''no file''), w)), uuid_NewUUID = (\<lambda>w. (Inr ''id'', w)), clock_Now = (\<lambda>w. (Inr 0, w)),
     cookiejar_New = None, tls_X509KeyPair = (\<lambda>c k. Inr (c, k)), jwt_GetSigningMethod = (\<lambda>_. None),
     jwt_ParseKey = (\<lambda>_ k. Inr k), jwt_SignedString = (\<lambda>_ _ _. Inr '''')\<rparr>"

definition refusing_env :: "unit session_env" where
  "refusing_env = demo_env\<lparr>http_Do := (\<lambda>c msg w.
     (Inr \<lparr>rpl_StatusCode = 401, rpl_Status = ''401 Unauthorized'', rpl_Body = json_body [(''error'', JStr ''invalid_grant'')]\<rparr>, w))\<rparr>"

definition demo_session :: kc_session where
  "demo_session = (fst (initial_client ''http://kc'' ''admin-cli''))\<lparr>ks_httpClient := Some \<lparr>hc_InsecureSkipVerify = False, hc_RootCAs = None,
     hc_Certificates = [], hc_Timeout = 60\<rparr>,
     ks_clientCredentials := zero_ClientCredentials\<lparr>cc_ClientId := ''admin-cli'', cc_Username := ''me'', cc_Password := ''p&w'',
       cc_GrantType := ''password'', cc_AccessToken := ''t1'', cc_TokenType := ''Bearer''\<rparr>\<rparr>"

definition demo_state :: "(unit, http_message, kc_session) io_state" where
  "demo_state = \<lparr>world = (), trace = [], mem = demo_session\<rparr>"

definition demo_req :: http_message where
  "demo_req = \<lparr>hm_Method = ''GET'', hm_URL = ''http://kc/admin/realms/r'', hm_Header = [], hm_Body = '''', hm_GetBody = None\<rparr>"

definition demo_params :: new_client_params where
  "demo_params = \<lparr>nc_Url = ''http://kc'', nc_ClientID = ''admin-cli'', nc_Username = ''me'', nc_Password = ''p&w ='', nc_CACert = None,
     nc_InsecureSkipVerify = True\<rparr>"

lemma repeatable_demo: "repeatable demo_req"
  by (simp add: repeatable_def demo_req_def)

lemma demo_client: "ks_httpClient (mem demo_state) \<noteq> None"
  by (simp add: demo_state_def demo_session_def)

lemma demo_tokens:
  "Unmarshal_ClientCredentials (json_body [(''access_token'', JStr ''t2''), (''token_type'', JStr ''Bearer''), (''expires_in'', JNum ''60'')]) =
     Some (zero_ClientCredentials\<lparr>cc_AccessToken := ''t2'', cc_TokenType := ''Bearer'', cc_ExpiresIn := 60\<rparr>)"
  by code_simp

lemmas demo_run = demo_tokens demo_Do_def demo_env_def demo_state_def demo_session_def demo_req_def demo_params_def initial_client_def
  zero_ClientCredentials_def add_headers_def http_send_def getAuthenticationFormData_def token_request_def decode_tokens_def sayErr_def
  pureIO_def store_tokens_def with_credentials_def header_Get_def header_Set_def get_str_def tokenUrl_def MasterRealm_def Let_def go_simps

theorem Do_answered_witness:
  "length (trace (snd (keycloakDoer_Do demo_env demo_req demo_state))) \<le> 5 \<and>
   map_of (hm_Header (last (trace (snd (keycloakDoer_Do demo_env demo_req demo_state))))) ''Authorization'' = Some ''Bearer t2''"
proof -
  let ?r = "keycloakDoer_Do demo_env demo_req demo_state"
  note run_defs = keycloakDoer_Do_def lazy_login_def access_token_def addRequestHeaders_def retry_rejected_def Refresh_def restore_body_def
    rejected_def authorization_def
  have "fst ?r = Ok \<lparr>rpl_StatusCode = 200, rpl_Status = ''200 OK'', rpl_Body = json_body []\<rparr>"
    and token: "authorization (ks_clientCredentials (mem (snd ?r))) = ''Bearer t2''"
    by (simp_all add: run_defs demo_run)
  then have run: "?r = (Ok \<lparr>rpl_StatusCode = 200, rpl_Status = ''200 OK'', rpl_Body = json_body []\<rparr>, snd ?r)" by (metis prod.collapse)
  have "trace demo_state = []" by (simp add: demo_state_def)
  with Do_answered [OF demo_client repeatable_demo run] token show ?thesis by (auto simp: copy_of_def)
qed

theorem provided_token_is_kept_witness:
  "let s' = snd (keycloakDoer_Do demo_env demo_req (demo_state\<lparr>mem := demo_session\<lparr>ks_accessTokenProvided := True\<rparr>\<rparr>)) in
   list_all (\<lambda>m. map_of (hm_Header m) ''Authorization'' = Some ''Bearer t1'') (trace s') \<and>
   cc_AccessToken (ks_clientCredentials (mem s')) = ''t1''"
proof -
  let ?s = "demo_state\<lparr>mem := demo_session\<lparr>ks_accessTokenProvided := True\<rparr>\<rparr>"
  have token: "authorization (ks_clientCredentials (mem ?s)) = ''Bearer t1''" "cc_AccessToken (ks_clientCredentials (mem ?s)) = ''t1''"
    "ks_accessTokenProvided (mem ?s)" "trace ?s = []"
    by (simp_all add: demo_state_def demo_session_def authorization_def)
  from provided_token_is_kept [OF token(3) repeatable_demo surjective_pairing] token(1,2,4) show ?thesis
    by (auto simp: copy_of_def list_all_iff Let_def)
qed

theorem new_client_logs_in_witness:
  "\<exists>msg. trace (snd (session_NewKeycloakClient demo_env ''http://kc'' ''admin-cli'' (client_options demo_params) demo_state)) = [msg] \<and>
     parse_form (hm_Body msg) = Some [(''client_id'', ''admin-cli''), (''grant_type'', ''password''), (''password'', ''p&w =''), (''username'', ''me'')]"
proof -
  let ?r = "session_NewKeycloakClient demo_env (nc_Url demo_params) (nc_ClientID demo_params) (client_options demo_params) demo_state"
  have "fst ?r = Ok ()"
    by (simp add: session_NewKeycloakClient_def client_options_def WithPasswordGrant_def WithTLSInsecureSkipVerify_def settle_client_def
        needs_login_def newHttpClient_def login_def demo_run)
  then have "?r = (Ok (), snd ?r)" by (metis prod.collapse)
  from new_client_logs_in [OF this] show ?thesis by (auto simp: demo_params_def demo_state_def)
qed

theorem refused_renewal_clears_token_witness:
  "cc_AccessToken (ks_clientCredentials (mem (snd (keycloakDoer_Do refusing_env demo_req demo_state)))) = ''''"
proof -
  have "tokenless (json_body [(''error'', JStr ''invalid_grant'')])" by code_simp
  then have refuses: "refuses refusing_env" by (simp add: refuses_def refusing_env_def)
  have "ks_initialLogin (mem demo_state)" "\<not> ks_accessTokenProvided (mem demo_state)"
    "cc_GrantType (ks_clientCredentials (mem demo_state)) = ''password''"
    "http_url_error refusing_env (tokenUrl (ks_authUrl (mem demo_state)) (ks_realm (mem demo_state))) = None"
    by (simp_all add: demo_state_def demo_session_def initial_client_def refusing_env_def demo_env_def)
  from refused_renewal_clears_token [OF refuses demo_client this repeatable_demo] show ?thesis by auto
qed

end
