(* ===== verification/Spec2Isabelle.thy ===== *)
theory Spec2Isabelle
  imports UserController TerminatorProps RealmProps RealmCtrlProps IdpProps AuthFlowProps ComponentProps
    ScopeProps Webhooks ClientProps ClientSyncProps SessionProps
begin

text \<open>
  A verification library of the Keycloak configuration operator, a Kubernetes operator that reads
  custom resources (realms, users, clients, ...) and drives the admin API of a Keycloak server
  until the server agrees with them.

  \<^bold>\<open>The program.\<close> A controller (\<open>internal/controller/keycloakuser\<close>, \<open>.../keycloakrealm\<close>, ...) is called
  with the name of a resource. It reads the resource, takes care of deletion through a finalizer,
  builds a client for Keycloak from the credentials in a secret (\<open>internal/controller/helper\<close>) and
  runs a chain of handlers, each of which brings one aspect of the resource to Keycloak
  through the REST client (\<open>pkg/client/keycloakv2\<close>). The outcome is written to the status of the
  resource.

  \<^bold>\<open>How it is modelled.\<close> A Go function with effects is a function of the monad of \<open>GoIO\<close>: from a state
  (the world, the trace of everything sent so far, the memory that handlers share) to an outcome,
  which is a value, an error or a panic, and the next state. The world is an arbitrary type:
  Keycloak, the API server, the clock and the iteration order of Go maps are the fields of the
  record \<open>env\<close> (theory \<open>KcTypes\<close>), parameters of every definition that uses them. So a theorem that
  says nothing about \<open>env\<close> holds for every behaviour of the other side; what a theorem relies on (for
  example that a successful \<open>PUT\<close> of a group membership adds that membership) is a named
  predicate on \<open>env\<close>, and its witness runs the code against a concrete server that has the property.
  Errors are values of the type \<open>go_error\<close> of \<open>GoErrors\<close> with Go's wrapping and \<open>errors.As\<close>.
  Machine integers are words. Loops over lists are structural; the functions that recurse on what
  the server answers or on the shape of the input take a depth, which stands for
  the stack Go has, and running out of it is the outcome of a stack overflow, a panic. Theorems on
  them state which depth suffices, or that none does.

  \<^bold>\<open>The theories.\<close>
  \<^item> \<open>Prelude\<close>: association lists as Go maps, strings, sets of words; lemma collections.
  \<^item> \<open>GoErrors\<close>, \<open>GoIO\<close>: errors (also \<open>adapter/errors.go\<close>), the monad, weakest preconditions (\<open>wp\<close>) and the
    calculus of emitted events (\<open>emits\<close>) in which most proofs are done.
  \<^item> \<open>ApiTypes\<close>, \<open>ClientTypes\<close>: the custom resources of \<open>api/common\<close> and \<open>api/v1alpha1\<close>. \<open>KcTypes\<close>: the representations
    of Keycloak, requests and responses, the record \<open>env\<close>.
  \<^item> \<open>GoUrl\<close>, \<open>KcHttp\<close>, \<open>KcClients\<close>: path escaping, error decoding and response handling
    (\<open>keycloakv2/error.go\<close>, \<open>http.go\<close>), and one definition per method of the users, groups, roles,
    clients, realm and identity-provider clients.
  \<^item> \<open>KcSession\<close>, \<open>SessionProps\<close>: the session below these methods (\<open>keycloakv2/keycloak_client.go\<close>): options,
    login, renewal of tokens and the retry of a rejected request, with the HTTP transport as a
    parameter of its own. For the other theories it is behind the fields \<open>kc_new\<close> and \<open>kc_http\<close> of \<open>env\<close>.
  \<^item> \<open>HelperLib\<close>, \<open>Helper\<close>: the controller helper: failure counting, sorting of groups, error
    classification, finalizers, deletion, owner references, construction of Keycloak clients.
  \<^item> \<open>KcAuthFlows\<close>: the methods of \<open>keycloakv2/auth_flows.go\<close>.
  \<^item> \<open>Adapter\<close>, \<open>AdapterMethods\<close>, \<open>AdapterLaws\<close>: the legacy adapter (\<open>pkg/client/keycloak/adapter\<close>): login
    against modern and legacy servers, tokens, the pipeline of a request, and the methods for
    identity providers, components, server info and permissions; the libraries below it
    (\<open>gocloak\<close>, \<open>resty\<close>) are fields of \<open>env\<close>. The last theory has what proofs about it share.
  \<^item> \<open>NoPanic\<close>: rules for where a program can panic.
  \<^item> \<open>HandlerChain\<close>, \<open>MappingLaws\<close>: the first is a locale, the contract of a chain of handlers with one
    retry on a rejected token, interpreted on the chains of users, roles, identity providers and
    authentication flows; the second
    has the laws under which a reconciliation of mappings (add what is missing, remove
    what is not wanted) is correct. Further locales are the resources the helper counts failures of
    (\<open>HelperLib\<close>) and the objects it updates (\<open>Helper\<close>).
  \<^item> \<open>UserChain\<close>, \<open>UserProps\<close>, \<open>UserSync\<close>, \<open>UserController\<close>: the chain of a user resource
    (\<open>keycloakuser/chain\<close>), what its handlers guarantee, and the controller around it.
  \<^item> \<open>RoleChain\<close>, \<open>RoleProps\<close>, \<open>GroupChain\<close>, \<open>GroupProps\<close>: the chains of the roles and the groups of a realm
    (\<open>keycloakrealm/chain/role\<close>, \<open>.../group\<close>) with the flush of what a resource no longer lists.
  \<^item> \<open>Terminator\<close>, \<open>TerminatorProps\<close>: the deletion of a realm (\<open>keycloakrealm/terminator.go\<close>).
  \<^item> \<open>SecretRef\<close>: \<open>pkg/secretref\<close>. \<open>RealmBuilder\<close>: \<open>pkg/realmbuilder\<close>. \<open>UserProfile\<close>, \<open>RealmChain\<close>,
    \<open>RealmProps\<close>: the chain of a realm (\<open>keycloakrealm/chain/realm\<close>).
  \<^item> \<open>IdpChain\<close>, \<open>IdpProps\<close>: the identity providers of a realm (\<open>keycloakrealm/chain/identityprovider\<close>).
    \<open>RealmController\<close>, \<open>RealmCtrlProps\<close>: the controller of realms, which composes the terminator
    and the four chains.
  \<^item> \<open>AuthFlowChain\<close>, \<open>AuthFlowController\<close>, \<open>AuthFlowProps\<close>: authentication flows (\<open>keycloakauthflow\<close>).
  \<^item> \<open>ComponentController\<close>, \<open>ComponentProps\<close>: components (\<open>keycloakcomponent\<close>).
  \<^item> \<open>ScopeAdapter\<close>, \<open>ScopeController\<close>, \<open>ScopeProps\<close>: scope mappings, the methods of the adapter for
    them and their controller (\<open>keycloakscopemapping\<close>).
  \<^item> \<open>ClientAdapter\<close>, \<open>AuthzAdapter\<close>, \<open>RoleSyncAdapter\<close>: the methods of the adapter the clients need: client
    scopes and registration policies; clients with their authorization settings; roles with
    composites, service accounts and protocol mappers.
  \<^item> \<open>ClientScopeChain\<close>, \<open>ClientChain\<close>, \<open>AuthzChain\<close>, \<open>ClientController\<close>: client resources (\<open>keycloakclient\<close>):
    the chains of scopes and registration policies, the eleven handlers of the chain of clients (the
    five for authorization in \<open>AuthzChain\<close>), the flush of what a resource no longer names, the terminator
    and the controller.
  \<^item> \<open>AuthzProps\<close>, \<open>ClientProps\<close>, \<open>ClientSyncProps\<close>: what they guarantee. The locale \<open>settings_handler\<close> is the
    contract of a handler that keeps a kind of settings by name, \<open>crud_handler\<close> the one of handlers that
    also update; they are interpreted on scopes, and on protected resources, policies and permissions.
  \<^item> \<open>Webhooks\<close>: defaulting of clients and validation of realms (\<open>internal/webhook/v1\<close>), with the realm
    resources of a cluster as a step relation.

  \<^bold>\<open>What is shown.\<close> Each handler that reconciles leaves Keycloak in the state the resource describes
  when it returns without an error (groups, realm roles, client roles and identity providers of a
  user, composites of a role, roles of a group, localization texts, the user profile, identity
  providers and their mappers, executions of a flow, components, roles mapped to a client scope or a
  client, clients, their roles with composites, their authorization scopes, resources, policies and
  permissions); add-only
  runs delete nothing; flushes, the terminator and the removal of a flow delete only what the
  resource owned; the finalizer goes last; every outcome is reported; an authentication flow never
  makes the operator panic but for one dereference; realm names are unique in every reachable state
  of a cluster, and defaulting a client is idempotent and overrides nothing. A request through the session
  costs at most five HTTP messages and is answered with the token the session holds. The helpers are compared with reference
  definitions (sorting of groups, merging of realms). Round trips cover
  resource ids in locations, references to secrets, generated secrets and the form of a login. Several theorems state what goes wrong:
  recursion without end, lost updates, skipped deletions, a deletion that turns into a
  reconciliation, an owner reference that is never recognised, a deletion that deletes nothing and one that never
  gets its turn, clients that are forgotten instead of deleted, a reference and attributes that are
  never stored, a refused renewal that is taken for a token, overflow.

  \<^bold>\<open>Not modelled.\<close> Logging; the mutex of the helper (a run is sequential); registration of the
  controllers; generated code, mocks and the entry point. Of the legacy adapter, the methods for
  realms, realm users, realm groups, authentication flows and organizations, which only its interface
  mentions since the controllers use \<open>keycloakv2\<close> for these. Of \<open>keycloakv2\<close>, \<open>organizations.go\<close> and
  \<open>server.go\<close>, which nothing calls. Goroutines
  (the workers that look up users, the parallel lookups of scope lists) run one after the other in an
  order that is a parameter.
\<close>

end
